(* ===== verification/Prelude.thy ===== *)
theory Prelude
  imports Complex_Main "HOL-Library.List_Lexorder" "HOL-Library.Char_ord" "HOL-Library.Product_Lexorder"
begin

text \<open>
  The vocabulary every component shares:
  \<^item> results: a Python call that may raise is a value of \<open>'e + 'a\<close>, \<open>Inl\<close> the exception;
  \<^item> effects: a coroutine is a function from a world to a result and the world it leaves;
    \<open>hoare\<close> is the triple the properties of coroutines are stated with;
  \<^item> tables: a PostgreSQL table is a list of rows, an \<open>UPDATE ... WHERE\<close> maps over it and
    reports its row count, an \<open>ORDER BY ... LIMIT 1\<close> takes the least row;
  \<^item> times: timestamps are microseconds (the resolution of \<open>datetime\<close> and \<open>timestamptz\<close>),
    durations in seconds are exact rationals that \<open>timedelta\<close> rounds to microseconds;
  \<^item> strings: a Python string is a list of the code points below 256.
\<close>

named_theorems result_simps \<open>rewriting of fallible computations\<close>
named_theorems hoare_intros \<open>rules of the effect triples\<close>
named_theorems table_simps \<open>rewriting of table updates\<close>

section \<open>Fallible computations\<close>

definition bindR :: "'e + 'a \<Rightarrow> ('a \<Rightarrow> 'e + 'b) \<Rightarrow> 'e + 'b" where
  "bindR m f = (case m of Inl e \<Rightarrow> Inl e | Inr x \<Rightarrow> f x)"

definition guardR :: "bool \<Rightarrow> 'e \<Rightarrow> 'e + unit" where
  "guardR b e = (if b then Inr () else Inl e)"

definition expectR :: "'e \<Rightarrow> 'a option \<Rightarrow> 'e + 'a" where
  "expectR e x = (case x of None \<Rightarrow> Inl e | Some v \<Rightarrow> Inr v)"

lemma bindR_simps [simp, result_simps]:
  "bindR (Inl e) f = Inl e"
  "bindR (Inr x) f = f x"
  by (simp_all add: bindR_def)

lemma bindR_eq_Inr [result_simps]: "bindR m f = Inr y \<longleftrightarrow> (\<exists>x. m = Inr x \<and> f x = Inr y)"
  by (cases m) auto

lemma bindR_eq_Inl [result_simps]:
  "bindR m f = Inl e \<longleftrightarrow> m = Inl e \<or> (\<exists>x. m = Inr x \<and> f x = Inl e)"
  by (cases m) auto

lemma guardR_eq [result_simps, simp]:
  "guardR b e = Inr u \<longleftrightarrow> b"
  "guardR b e = Inl e' \<longleftrightarrow> \<not> b \<and> e' = e"
  by (auto simp: guardR_def)

lemma expectR_simps [simp]: "expectR e (Some v) = Inr v" "expectR e None = Inl e"
  by (simp_all add: expectR_def)

lemma guardR_simps [simp]: "guardR True e = Inr ()" "guardR False e = Inl e"
  by (simp_all add: guardR_def)

lemma expectR_eq [result_simps, simp]:
  "expectR e x = Inr v \<longleftrightarrow> x = Some v"
  "expectR e x = Inl e' \<longleftrightarrow> x = None \<and> e' = e"
  by (auto simp: expectR_def split: option.splits)

text \<open>A test of a value that may be absent.\<close>

definition optionally :: "('a \<Rightarrow> bool) \<Rightarrow> 'a option \<Rightarrow> bool" where
  "optionally P x = (case x of None \<Rightarrow> True | Some v \<Rightarrow> P v)"

lemma optionally_iff [simp]: "optionally P x \<longleftrightarrow> (\<forall>v. x = Some v \<longrightarrow> P v)"
  by (cases x) (simp_all add: optionally_def)

fun mapR :: "('a \<Rightarrow> 'e + 'b) \<Rightarrow> 'a list \<Rightarrow> 'e + 'b list" where
  "mapR f [] = Inr []"
| "mapR f (x # xs) = bindR (f x) (\<lambda>y. bindR (mapR f xs) (\<lambda>ys. Inr (y # ys)))"

lemma mapR_length: "mapR f xs = Inr ys \<Longrightarrow> length ys = length xs"
  by (induction xs arbitrary: ys) (auto simp: result_simps)

lemma mapR_map: "(\<And>x. x \<in> set xs \<Longrightarrow> f x = Inr (g x)) \<Longrightarrow> mapR f xs = Inr (map g xs)"
  by (induction xs) auto

section \<open>Effects\<close>

type_synonym ('w, 'e, 'a) io = "'w \<Rightarrow> ('e + 'a) \<times> 'w"

definition ret :: "'a \<Rightarrow> ('w, 'e, 'a) io" where
  "ret x = (\<lambda>w. (Inr x, w))"

definition raise :: "'e \<Rightarrow> ('w, 'e, 'a) io" where
  "raise e = (\<lambda>w. (Inl e, w))"

definition bindE :: "('w, 'e, 'a) io \<Rightarrow> ('a \<Rightarrow> ('w, 'e, 'b) io) \<Rightarrow> ('w, 'e, 'b) io" where
  "bindE m f = (\<lambda>w. case m w of (Inl e, w') \<Rightarrow> (Inl e, w') | (Inr x, w') \<Rightarrow> f x w')"

definition seqE :: "('w, 'e, 'a) io \<Rightarrow> ('w, 'e, 'b) io \<Rightarrow> ('w, 'e, 'b) io" where
  "seqE m n = bindE m (\<lambda>_. n)"

text \<open>\<open>try: m; except ... : h\<close>, where \<open>h\<close> is \<open>None\<close> for the exceptions no clause names.\<close>

definition catchE :: "('w, 'e, 'a) io \<Rightarrow> ('e \<Rightarrow> ('w, 'e, 'a) io option) \<Rightarrow> ('w, 'e, 'a) io" where
  "catchE m h = (\<lambda>w. case m w of
     (Inl e, w') \<Rightarrow> (case h e of None \<Rightarrow> (Inl e, w') | Some k \<Rightarrow> k w')
   | (Inr x, w') \<Rightarrow> (Inr x, w'))"

definition liftR :: "'e + 'a \<Rightarrow> ('w, 'e, 'a) io" where
  "liftR r = (\<lambda>w. (r, w))"

fun mapE :: "('a \<Rightarrow> ('w, 'e, 'b) io) \<Rightarrow> 'a list \<Rightarrow> ('w, 'e, 'b list) io" where
  "mapE f [] = ret []"
| "mapE f (x # xs) = bindE (f x) (\<lambda>y. bindE (mapE f xs) (\<lambda>ys. ret (y # ys)))"

lemma effect_simps:
  "ret x w = (Inr x, w)"
  "raise e w = (Inl e, w)"
  "liftR r w = (r, w)"
  by (simp_all add: ret_def raise_def liftR_def)

lemma bindE_assoc: "bindE (bindE m f) g = bindE m (\<lambda>x. bindE (f x) g)"
  by (rule ext) (simp add: bindE_def split: prod.splits sum.splits)

lemma bindE_ret [simp]: "bindE (ret x) f = f x" "bindE m ret = m"
  by (rule ext, simp add: bindE_def ret_def split: prod.splits sum.splits)+

lemma bindE_raise [simp]: "bindE (raise e) f = raise e"
  by (rule ext) (simp add: bindE_def raise_def)

text \<open>The triple: from a world in \<open>P\<close> a return satisfies \<open>Q\<close> and a raise satisfies \<open>E\<close>.\<close>

definition hoare ::
  "('w \<Rightarrow> bool) \<Rightarrow> ('w, 'e, 'a) io \<Rightarrow> ('a \<Rightarrow> 'w \<Rightarrow> bool) \<Rightarrow> ('e \<Rightarrow> 'w \<Rightarrow> bool) \<Rightarrow> bool" where
  "hoare P m Q E \<longleftrightarrow>
     (\<forall>w. P w \<longrightarrow> (case m w of (Inl e, w') \<Rightarrow> E e w' | (Inr x, w') \<Rightarrow> Q x w'))"

lemma hoareD_ret: "hoare P m Q E \<Longrightarrow> P w \<Longrightarrow> m w = (Inr x, w') \<Longrightarrow> Q x w'"
  by (auto simp: hoare_def dest: spec [of _ w])

lemma hoareD_raise: "hoare P m Q E \<Longrightarrow> P w \<Longrightarrow> m w = (Inl e, w') \<Longrightarrow> E e w'"
  by (auto simp: hoare_def dest: spec [of _ w])

lemma hoareI:
  assumes "\<And>w x w'. P w \<Longrightarrow> m w = (Inr x, w') \<Longrightarrow> Q x w'"
    and "\<And>w e w'. P w \<Longrightarrow> m w = (Inl e, w') \<Longrightarrow> E e w'"
  shows "hoare P m Q E"
  using assms by (fastforce simp: hoare_def split: prod.splits sum.splits)

lemma hoare_ret [hoare_intros]: "(\<And>w. P w \<Longrightarrow> Q x w) \<Longrightarrow> hoare P (ret x) Q E"
  by (simp add: hoare_def effect_simps)

lemma hoare_raise [hoare_intros]: "(\<And>w. P w \<Longrightarrow> E e w) \<Longrightarrow> hoare P (raise e) Q E"
  by (simp add: hoare_def effect_simps)

lemma hoare_liftR [hoare_intros]:
  "(\<And>w x. P w \<Longrightarrow> r = Inr x \<Longrightarrow> Q x w) \<Longrightarrow> (\<And>w e. P w \<Longrightarrow> r = Inl e \<Longrightarrow> E e w) \<Longrightarrow>
   hoare P (liftR r) Q E"
  by (cases r) (simp_all add: hoare_def effect_simps)

lemma hoare_bind:
  assumes "hoare P m R E" and "\<And>x. hoare (R x) (f x) Q E"
  shows "hoare P (bindE m f) Q E"
proof (rule hoareI)
  fix w x w'
  assume w: "P w" and run: "bindE m f w = (Inr x, w')"
  then obtain y w1 where "m w = (Inr y, w1)" and "f y w1 = (Inr x, w')"
    by (auto simp: bindE_def split: prod.splits sum.splits)
  with w assms show "Q x w'" by (blast dest: hoareD_ret)
next
  fix w e w'
  assume w: "P w" and run: "bindE m f w = (Inl e, w')"
  then consider "m w = (Inl e, w')" | y w1 where "m w = (Inr y, w1)" "f y w1 = (Inl e, w')"
    by (auto simp: bindE_def split: prod.splits sum.splits)
  then show "E e w'"
    using w assms by cases (blast dest: hoareD_ret hoareD_raise)+
qed

lemma hoare_seq:
  "hoare P m (\<lambda>_. R) E \<Longrightarrow> hoare R n Q E \<Longrightarrow> hoare P (seqE m n) Q E"
  unfolding seqE_def by (rule hoare_bind)

lemma hoare_conseq:
  assumes "hoare P' m Q' E'" and "\<And>w. P w \<Longrightarrow> P' w"
    and "\<And>x w. Q' x w \<Longrightarrow> Q x w" and "\<And>e w. E' e w \<Longrightarrow> E e w"
  shows "hoare P m Q E"
  using assms by (fastforce simp: hoare_def split: prod.splits sum.splits)

lemma hoare_catch:
  assumes "hoare P m Q R"
    and "\<And>e k. h e = Some k \<Longrightarrow> hoare (R e) k Q E"
    and "\<And>e w. h e = None \<Longrightarrow> R e w \<Longrightarrow> E e w"
  shows "hoare P (catchE m h) Q E"
proof (rule hoareI)
  fix w x w'
  assume w: "P w" and run: "catchE m h w = (Inr x, w')"
  then consider "m w = (Inr x, w')"
    | e k w1 where "m w = (Inl e, w1)" "h e = Some k" "k w1 = (Inr x, w')"
    by (auto simp: catchE_def split: prod.splits sum.splits option.splits)
  then show "Q x w'"
    using w assms by cases (blast dest: hoareD_ret hoareD_raise)+
next
  fix w e w'
  assume w: "P w" and run: "catchE m h w = (Inl e, w')"
  then consider "m w = (Inl e, w')" "h e = None"
    | e1 k w1 where "m w = (Inl e1, w1)" "h e1 = Some k" "k w1 = (Inl e, w')"
    by (auto simp: catchE_def split: prod.splits sum.splits option.splits)
  then show "E e w'"
    using w assms by cases (blast dest: hoareD_raise)+
qed

lemma hoare_if [hoare_intros]:
  "(b \<Longrightarrow> hoare P m Q E) \<Longrightarrow> (\<not> b \<Longrightarrow> hoare P n Q E) \<Longrightarrow> hoare P (if b then m else n) Q E"
  by simp

lemma hoare_case_option [hoare_intros]:
  "(x = None \<Longrightarrow> hoare P m Q E) \<Longrightarrow> (\<And>v. x = Some v \<Longrightarrow> hoare P (f v) Q E) \<Longrightarrow>
   hoare P (case x of None \<Rightarrow> m | Some v \<Rightarrow> f v) Q E"
  by (cases x) auto

lemma hoare_pre_False: "(\<And>w. \<not> P w) \<Longrightarrow> hoare P m Q E"
  by (simp add: hoare_def)

lemma hoare_pre_pure: "(\<And>w. P w \<Longrightarrow> b) \<Longrightarrow> (b \<Longrightarrow> hoare P m Q E) \<Longrightarrow> hoare P m Q E"
  by (auto simp: hoare_def)

lemma hoare_mapE:
  assumes "\<And>x. x \<in> set xs \<Longrightarrow> hoare I (f x) (\<lambda>_. I) E"
  shows "hoare I (mapE f xs) (\<lambda>_. I) E"
  using assms
proof (induction xs)
  case Nil
  then show ?case by (auto intro: hoare_ret)
next
  case (Cons x xs)
  have "hoare I (f x) (\<lambda>_. I) E" by (rule Cons.prems) simp
  moreover have "hoare I (bindE (mapE f xs) (\<lambda>ys. ret (y # ys))) (\<lambda>_. I) E" for y
    by (rule hoare_bind [OF Cons.IH]) (auto intro: Cons.prems hoare_ret)
  ultimately show ?case by (auto intro: hoare_bind)
qed

section \<open>Tables\<close>

definition update_where :: "('r \<Rightarrow> bool) \<Rightarrow> ('r \<Rightarrow> 'r) \<Rightarrow> 'r list \<Rightarrow> 'r list" where
  "update_where P f tbl = map (\<lambda>r. if P r then f r else r) tbl"

definition rowcount :: "('r \<Rightarrow> bool) \<Rightarrow> 'r list \<Rightarrow> nat" where
  "rowcount P tbl = length (filter P tbl)"

definition first_by :: "('r \<Rightarrow> 'k::linorder) \<Rightarrow> 'r list \<Rightarrow> 'r option" where
  "first_by key rows = (case sort_key key rows of [] \<Rightarrow> None | r # _ \<Rightarrow> Some r)"

lemma update_where_simps [simp]:
  "update_where P f [] = []"
  "update_where P f (r # tbl) = (if P r then f r else r) # update_where P f tbl"
  "length (update_where P f tbl) = length tbl"
  by (simp_all add: update_where_def)

lemma map_update_where [table_simps]:
  "(\<And>r. P r \<Longrightarrow> key (f r) = key r) \<Longrightarrow> map key (update_where P f tbl) = map key tbl"
  by (simp add: update_where_def)

lemma set_update_where:
  "r \<in> set (update_where P f tbl) \<longleftrightarrow>
     (\<exists>r0 \<in> set tbl. if P r0 then r = f r0 else r = r0)"
  by (auto simp: update_where_def image_iff)

lemma update_where_none: "rowcount P tbl = 0 \<Longrightarrow> update_where P f tbl = tbl"
  by (induction tbl) (auto simp: rowcount_def split: if_splits)

lemma rowcount_zero [table_simps]: "rowcount P tbl = 0 \<longleftrightarrow> (\<forall>r \<in> set tbl. \<not> P r)"
  by (auto simp: rowcount_def filter_empty_conv)

lemma distinct_key_unique:
  "distinct (map key tbl) \<Longrightarrow> r \<in> set tbl \<Longrightarrow> s \<in> set tbl \<Longrightarrow> key r = key s \<Longrightarrow> r = s"
  by (metis distinct_map inj_onD)

lemma rowcount_le_one:
  assumes "distinct (map key tbl)" and "\<And>r. P r \<Longrightarrow> key r = k"
  shows "rowcount P tbl \<le> 1"
  using assms
proof (induction tbl)
  case Nil
  then show ?case by (simp add: rowcount_def)
next
  case (Cons r tbl)
  show ?case
  proof (cases "P r")
    case True
    with Cons.prems have "\<forall>s \<in> set tbl. \<not> P s"
      by (metis distinct.simps(2) image_eqI list.set_map list.simps(9))
    with True show ?thesis by (simp add: rowcount_def filter_empty_conv)
  next
    case False
    with Cons show ?thesis by (simp add: rowcount_def)
  qed
qed

lemma rowcount_one:
  assumes "distinct (map key tbl)" and "\<And>r. P r \<Longrightarrow> key r = k"
  shows "rowcount P tbl = 1 \<longleftrightarrow> (\<exists>r \<in> set tbl. P r)"
  using rowcount_le_one [OF assms] rowcount_zero [of P tbl]
  by (metis One_nat_def le_SucE le_zero_eq zero_neq_one)

lemma find_in_set: "find P tbl = Some r \<Longrightarrow> r \<in> set tbl \<and> P r"
  by (metis find_Some_iff nth_mem)

lemma find_by_key:
  assumes "distinct (map key tbl)" and "r \<in> set tbl"
  shows "find (\<lambda>s. key s = key r) tbl = Some r"
proof (cases "find (\<lambda>s. key s = key r) tbl")
  case None
  with assms(2) show ?thesis by (auto simp: find_None_iff)
next
  case (Some s)
  then have "s \<in> set tbl" and "key s = key r" by (auto dest: find_in_set)
  with distinct_key_unique [OF assms(1)] assms(2) have "s = r" by blast
  with Some show ?thesis by simp
qed

lemma find_update_where:
  assumes "\<And>r. P r \<Longrightarrow> key (f r) = key r"
  shows "find (\<lambda>r. key r = k) (update_where P f tbl) =
         map_option (\<lambda>r. if P r then f r else r) (find (\<lambda>r. key r = k) tbl)"
  using assms by (induction tbl) auto

lemma find_put:
  "find (\<lambda>r. key r = k) (update_where (\<lambda>r. key r = key t) (\<lambda>_. t) tbl) =
     (if k = key t \<and> find (\<lambda>r. key r = k) tbl \<noteq> None then Some t else find (\<lambda>r. key r = k) tbl)"
  by (induction tbl) auto

lemma update_where_single:
  assumes "distinct (map key tbl)" and "t \<in> set tbl" and "P t"
    and "\<And>r. r \<in> set tbl \<Longrightarrow> P r \<Longrightarrow> key r = key t" and "key (f t) = key t"
  shows "update_where P f tbl = update_where (\<lambda>r. key r = key (f t)) (\<lambda>_. f t) tbl"
  unfolding update_where_def
proof (rule map_cong [OF refl])
  fix r
  assume r: "r \<in> set tbl"
  show "(if P r then f r else r) = (if key r = key (f t) then f t else r)"
  proof (cases "key r = key t")
    case True
    with r assms(2) distinct_key_unique [OF assms(1)] have "r = t" by blast
    with assms(3,5) show ?thesis by simp
  next
    case False
    with r assms(4,5) show ?thesis by auto
  qed
qed

lemma single_row:
  assumes "distinct (map key tbl)" and "t \<in> set tbl"
    and "\<And>r. r \<in> set tbl \<Longrightarrow> P r \<longleftrightarrow> r = t"
  shows "rowcount P tbl = 1" and "find P tbl = Some t"
    and "key (f t) = key t \<Longrightarrow>
      update_where P f tbl = update_where (\<lambda>r. key r = key (f t)) (\<lambda>_. f t) tbl"
proof -
  obtain xs ys where tbl: "tbl = xs @ t # ys" using split_list [OF assms(2)] by blast
  from assms(1) have "t \<notin> set xs" "t \<notin> set ys" unfolding tbl by auto
  with assms(3) have none: "\<forall>r \<in> set xs. \<not> P r" "\<forall>r \<in> set ys. \<not> P r" "P t" unfolding tbl by auto
  then show "rowcount P tbl = 1" unfolding tbl by (simp add: rowcount_def filter_empty_conv)
  have "find P (xs @ zs) = find P zs" if "\<forall>r \<in> set xs. \<not> P r" for xs zs
    using that by (induction xs) auto
  with none show "find P tbl = Some t" unfolding tbl by simp
  show "key (f t) = key t \<Longrightarrow>
      update_where P f tbl = update_where (\<lambda>r. key r = key (f t)) (\<lambda>_. f t) tbl"
    by (rule update_where_single [OF assms(1,2)]) (use assms(2,3) in auto)
qed

lemma set_put:
  assumes "t0 \<in> set tbl" and "key t0 = key t"
  shows "r \<in> set (update_where (\<lambda>r. key r = key t) (\<lambda>_. t) tbl) \<longleftrightarrow> r = t \<or> (r \<in> set tbl \<and> key r \<noteq> key t)"
  using assms by (auto simp: set_update_where split: if_splits)

lemma map_put:
  "map key (update_where (\<lambda>r. key r = key t) (\<lambda>_. t) tbl) = map key tbl"
  by (rule map_update_where) simp

lemma image_update_where:
  assumes "\<And>r. P r \<Longrightarrow> key (f r) = key r"
  shows "key ` set (update_where P f tbl) = key ` set tbl"
  by (metis assms list.set_map map_update_where)

lemma first_by_Some:
  assumes "first_by key rows = Some r"
  shows "r \<in> set rows \<and> (\<forall>s \<in> set rows. key r \<le> key s)"
proof -
  from assms obtain rest where srt: "sort_key key rows = r # rest"
    by (auto simp: first_by_def split: list.splits)
  then have "set rows = set (r # rest)" by (metis set_sort)
  moreover have "sorted (map key (r # rest))" using srt by (metis sorted_sort_key)
  ultimately show ?thesis by auto
qed

lemma first_by_None [simp]: "first_by key rows = None \<longleftrightarrow> rows = []"
proof -
  have "sort_key key rows = [] \<longleftrightarrow> rows = []"
    by (metis length_0_conv length_sort)
  then show ?thesis by (auto simp: first_by_def split: list.splits)
qed

section \<open>Times and durations\<close>

type_synonym uuid = nat
type_synonym time = int
type_synonym seconds = rat

definition round_half_even :: "rat \<Rightarrow> int" where
  "round_half_even q =
     (let f = \<lfloor>q\<rfloor>; r = q - of_int f
      in if r < 1/2 then f else if r > 1/2 then f + 1 else if even f then f else f + 1)"

text \<open>\<open>timedelta(seconds=s)\<close> in microseconds.\<close>

definition micros :: "seconds \<Rightarrow> time" where
  "micros s = round_half_even (s * 1000000)"

lemma round_half_even_bounds:
  "of_int (round_half_even q) \<le> q + 1/2" "q - 1/2 \<le> of_int (round_half_even q)"
  unfolding round_half_even_def Let_def by (auto split: if_splits; linarith)+

lemma round_half_even_int [simp]: "round_half_even (of_int n) = n"
  by (simp add: round_half_even_def)

lemma round_half_even_mono: "p \<le> q \<Longrightarrow> round_half_even p \<le> round_half_even q"
proof -
  assume le: "p \<le> q"
  show ?thesis
  proof (cases "\<lfloor>p\<rfloor> = \<lfloor>q\<rfloor>")
    case True
    then show ?thesis using le by (auto simp: round_half_even_def Let_def)
  next
    case False
    with le have "\<lfloor>p\<rfloor> + 1 \<le> \<lfloor>q\<rfloor>" by (meson add1_zle_eq floor_mono order_le_imp_less_or_eq)
    then show ?thesis by (auto simp: round_half_even_def Let_def)
  qed
qed

lemma micros_mono: "s \<le> t \<Longrightarrow> micros s \<le> micros t"
  by (simp add: micros_def round_half_even_mono)

lemma micros_nonneg: "0 \<le> s \<Longrightarrow> 0 \<le> micros s"
  using micros_mono [of 0 s] by (simp add: micros_def round_half_even_def)

lemma micros_pos: "1 / 1000000 \<le> s \<Longrightarrow> 0 < micros s"
  using micros_mono [of "1 / 1000000" s] by (simp add: micros_def round_half_even_def)

section \<open>Strings\<close>

text \<open>\<open>p in s\<close> on strings.\<close>

fun py_in :: "string \<Rightarrow> string \<Rightarrow> bool" where
  "py_in p [] = (p = [])"
| "py_in p (c # cs) = (take (length p) (c # cs) = p \<or> py_in p cs)"

lemma py_in_prefix: "py_in p (p @ ys)"
proof (cases "p @ ys")
  case (Cons a list)
  then have "take (length p) (a # list) = p" by (metis append_eq_conv_conj)
  with Cons show ?thesis by simp
qed simp

lemma py_in_append [simp]: "py_in p (xs @ p @ ys)"
  by (induction xs) (simp_all add: py_in_prefix)

lemma py_in_iff: "py_in p s \<longleftrightarrow> (\<exists>xs ys. s = xs @ p @ ys)"
proof
  show "py_in p s \<Longrightarrow> \<exists>xs ys. s = xs @ p @ ys"
  proof (induction s)
    case Nil
    then show ?case by simp
  next
    case (Cons c cs)
    then consider "take (length p) (c # cs) = p" | "py_in p cs" by auto
    then show ?case
    proof cases
      case 1
      then have "c # cs = [] @ p @ drop (length p) (c # cs)"
        by (metis append_Nil append_take_drop_id)
      then show ?thesis by blast
    next
      case 2
      with Cons.IH obtain xs ys where "cs = xs @ p @ ys" by blast
      then have "c # cs = (c # xs) @ p @ ys" by simp
      then show ?thesis by blast
    qed
  qed
qed auto

text \<open>\<open>str(n)\<close> for an integer.\<close>

definition digit_char :: "nat \<Rightarrow> char" where
  "digit_char d = char_of (48 + d)"

fun nat_digits :: "nat \<Rightarrow> string" where
  "nat_digits n = (if n < 10 then [digit_char n] else nat_digits (n div 10) @ [digit_char (n mod 10)])"

declare nat_digits.simps [simp del]

definition str_int :: "int \<Rightarrow> string" where
  "str_int i = (if i < 0 then CHR ''-'' # nat_digits (nat (- i)) else nat_digits (nat i))"

text \<open>Character classes of the code's regular expressions.\<close>

definition is_lower :: "char \<Rightarrow> bool" where
  "is_lower c \<longleftrightarrow> CHR ''a'' \<le> c \<and> c \<le> CHR ''z''"

definition is_upper :: "char \<Rightarrow> bool" where
  "is_upper c \<longleftrightarrow> CHR ''A'' \<le> c \<and> c \<le> CHR ''Z''"

definition is_digit :: "char \<Rightarrow> bool" where
  "is_digit c \<longleftrightarrow> CHR ''0'' \<le> c \<and> c \<le> CHR ''9''"

definition is_visible :: "char \<Rightarrow> bool" where
  "is_visible c \<longleftrightarrow> of_char c \<ge> (33::nat) \<and> of_char c \<le> (126::nat)"

definition hex64 :: "string \<Rightarrow> bool" where
  "hex64 s \<longleftrightarrow> length s = 64 \<and>
     list_all (\<lambda>c. is_digit c \<or> (CHR ''a'' \<le> c \<and> c \<le> CHR ''f'')) s"

text \<open>
  \<open>str.casefold\<close> on the code points below 256: the Latin capitals get their small letters
  and the sharp s becomes two letters. (The micro sign, whose folding leaves the range, is kept.)
\<close>

definition casefold_char :: "char \<Rightarrow> string" where
  "casefold_char c = (let n = (of_char c :: nat) in
     if 65 \<le> n \<and> n \<le> 90 then [char_of (n + 32)]
     else if 192 \<le> n \<and> n \<le> 222 \<and> n \<noteq> 215 then [char_of (n + 32)]
     else if n = 223 then ''ss''
     else [c])"

definition casefold :: "string \<Rightarrow> string" where
  "casefold s = concat (map casefold_char s)"

lemma casefold_simps [simp]:
  "casefold [] = []" "casefold (c # s) = casefold_char c @ casefold s"
  by (simp_all add: casefold_def)

lemma casefold_append: "casefold (s @ t) = casefold s @ casefold t"
  by (simp add: casefold_def)

lemma casefold_char_idem: "casefold (casefold_char c) = casefold_char c"
  by (cases "of_char c = (223::nat)")
    (auto simp: casefold_char_def Let_def of_char_of)

lemma casefold_idem [simp]: "casefold (casefold s) = casefold s"
  by (induction s) (simp_all add: casefold_append casefold_char_idem)

text \<open>\<open>s.encode()\<close>: UTF-8 of the code points below 256.\<close>

definition utf8_char :: "char \<Rightarrow> string" where
  "utf8_char c = (let n = (of_char c :: nat) in
     if n < 128 then [c] else [char_of (192 + n div 64), char_of (128 + n mod 64)])"

definition encode :: "string \<Rightarrow> string" where
  "encode s = concat (map utf8_char s)"

lemma encode_simps [simp]: "encode [] = []" "encode (c # s) = utf8_char c @ encode s"
  by (simp_all add: encode_def)

lemma length_encode_ge: "length s \<le> length (encode s)"
  by (induction s) (auto simp: utf8_char_def Let_def)

lemma utf8_char_inj_append:
  assumes "utf8_char c @ s = utf8_char d @ t"
  shows "c = d \<and> s = t"
proof -
  have lt: "of_char x < (256::nat)" for x by simp
  have div4: "of_char x div 64 < (4::nat)" for x
    using lt [of x] by (simp add: less_mult_imp_div_less)
  have eq: "of_char c = (of_char d :: nat) \<Longrightarrow> c = d" by (metis char_of_char)
  consider "of_char c < (128::nat)" "of_char d < (128::nat)"
    | "of_char c < (128::nat)" "\<not> of_char d < (128::nat)"
    | "\<not> of_char c < (128::nat)" "of_char d < (128::nat)"
    | "\<not> of_char c < (128::nat)" "\<not> of_char d < (128::nat)" by blast
  then show ?thesis
  proof cases
    case 1
    with assms show ?thesis by (simp add: utf8_char_def Let_def)
  next
    case 2
    with assms have "c = char_of (192 + of_char d div 64 :: nat)"
      by (simp add: utf8_char_def Let_def)
    then have "of_char c = (192 + of_char d div 64 :: nat)" using div4 [of d] by (simp add: of_char_of)
    with 2 show ?thesis by simp
  next
    case 3
    with assms have "d = char_of (192 + of_char c div 64 :: nat)"
      by (simp add: utf8_char_def Let_def)
    then have "of_char d = (192 + of_char c div 64 :: nat)" using div4 [of c] by (simp add: of_char_of)
    with 3 show ?thesis by simp
  next
    case 4
    with assms have a: "char_of (192 + of_char c div 64 :: nat) = char_of (192 + of_char d div 64 :: nat)"
      and b: "char_of (128 + of_char c mod 64 :: nat) = char_of (128 + of_char d mod 64 :: nat)"
      and st: "s = t"
      by (simp_all add: utf8_char_def Let_def)
    from a have "(192 + of_char c div 64 :: nat) mod 256 = (192 + of_char d div 64) mod 256"
      by (metis of_char_of)
    then have "of_char c div (64::nat) = of_char d div 64" using div4 [of c] div4 [of d] by simp
    moreover from b have "(128 + of_char c mod 64 :: nat) mod 256 = (128 + of_char d mod 64) mod 256"
      by (metis of_char_of)
    then have "of_char c mod (64::nat) = of_char d mod 64"
      using mod_less_divisor [of 64 "of_char c :: nat"] mod_less_divisor [of 64 "of_char d :: nat"] by simp
    ultimately have "of_char c = (of_char d :: nat)" by (metis mult_div_mod_eq)
    with eq st show ?thesis by simp
  qed
qed

lemma encode_inj: "encode s = encode t \<longleftrightarrow> s = t"
proof
  show "encode s = encode t \<Longrightarrow> s = t"
  proof (induction s arbitrary: t)
    case Nil
    then show ?case by (cases t) (auto simp: utf8_char_def Let_def split: if_splits)
  next
    case (Cons c s)
    then obtain d t' where t: "t = d # t'"
      by (cases t) (auto simp: utf8_char_def Let_def split: if_splits)
    with Cons.prems have "utf8_char c @ encode s = utf8_char d @ encode t'" by simp
    then have "c = d" and "encode s = encode t'" by (auto dest: utf8_char_inj_append)
    with Cons.IH t show ?case by blast
  qed
qed simp

end
