(* ===== verification/Enums.thy ===== *)
theory Enums
  imports Prelude
begin

text \<open>
  The string enumerations of the program (\<open>tasks/domain.py\<close>, \<open>worker/domain.py\<close>,
  \<open>integrations/domain.py\<close>, \<open>integrations/model.py\<close>): one datatype per \<open>StrEnum\<close>, its
  persisted value, and for the enumerations that are read back from the database
  (\<open>TaskStatus(...)\<close>, \<open>ExternalActionStatus(...)\<close>) the constructor from a string. The
  two statuses and the task commands are instances of the library's class \<open>enum\<close>, so that
  a statement about all of them is decided by evaluation.
\<close>

section \<open>Tasks\<close>

datatype task_status = PENDING_APPROVAL | APPROVED | RUNNING | SUCCEEDED | FAILED | CANCELLED

datatype task_command =
  APPROVE | CANCEL | START | SUCCEED | FAIL | RETRY | FINALIZE_CANCELLATION

datatype attempt_status =
  ATTEMPT_RUNNING | ATTEMPT_SUCCEEDED | RETRY_SCHEDULED | ATTEMPT_FAILED | ATTEMPT_CANCELLED
  | LEASE_EXPIRED

primrec task_status_value :: "task_status \<Rightarrow> string" where
  "task_status_value PENDING_APPROVAL = ''pending_approval''"
| "task_status_value APPROVED = ''approved''"
| "task_status_value RUNNING = ''running''"
| "task_status_value SUCCEEDED = ''succeeded''"
| "task_status_value FAILED = ''failed''"
| "task_status_value CANCELLED = ''cancelled''"

primrec task_command_value :: "task_command \<Rightarrow> string" where
  "task_command_value APPROVE = ''approve''"
| "task_command_value CANCEL = ''cancel''"
| "task_command_value START = ''start''"
| "task_command_value SUCCEED = ''succeed''"
| "task_command_value FAIL = ''fail''"
| "task_command_value RETRY = ''retry''"
| "task_command_value FINALIZE_CANCELLATION = ''finalize_cancellation''"

instantiation task_status :: enum
begin

definition enum_task_status :: "task_status list" where
  "enum_task_status = [PENDING_APPROVAL, APPROVED, RUNNING, SUCCEEDED, FAILED, CANCELLED]"

definition enum_all_task_status :: "(task_status \<Rightarrow> bool) \<Rightarrow> bool" where
  "enum_all_task_status P \<longleftrightarrow> list_all P Enum.enum"

definition enum_ex_task_status :: "(task_status \<Rightarrow> bool) \<Rightarrow> bool" where
  "enum_ex_task_status P \<longleftrightarrow> list_ex P Enum.enum"

instance
proof
  show univ: "(UNIV :: task_status set) = set Enum.enum"
    by (auto simp: enum_task_status_def intro: task_status.exhaust)
  show "distinct (Enum.enum :: task_status list)" by (simp add: enum_task_status_def)
  show "Enum.enum_all P \<longleftrightarrow> Ball (UNIV :: task_status set) P" for P
    unfolding univ by (simp add: enum_all_task_status_def list_all_iff)
  show "Enum.enum_ex P \<longleftrightarrow> Bex (UNIV :: task_status set) P" for P
    unfolding univ by (simp add: enum_ex_task_status_def list_ex_iff)
qed

end

instantiation task_command :: enum
begin

definition enum_task_command :: "task_command list" where
  "enum_task_command = [APPROVE, CANCEL, START, SUCCEED, FAIL, RETRY, FINALIZE_CANCELLATION]"

definition enum_all_task_command :: "(task_command \<Rightarrow> bool) \<Rightarrow> bool" where
  "enum_all_task_command P \<longleftrightarrow> list_all P Enum.enum"

definition enum_ex_task_command :: "(task_command \<Rightarrow> bool) \<Rightarrow> bool" where
  "enum_ex_task_command P \<longleftrightarrow> list_ex P Enum.enum"

instance
proof
  show univ: "(UNIV :: task_command set) = set Enum.enum"
    by (auto simp: enum_task_command_def intro: task_command.exhaust)
  show "distinct (Enum.enum :: task_command list)" by (simp add: enum_task_command_def)
  show "Enum.enum_all P \<longleftrightarrow> Ball (UNIV :: task_command set) P" for P
    unfolding univ by (simp add: enum_all_task_command_def list_all_iff)
  show "Enum.enum_ex P \<longleftrightarrow> Bex (UNIV :: task_command set) P" for P
    unfolding univ by (simp add: enum_ex_task_command_def list_ex_iff)
qed

end

section \<open>Worker\<close>

datatype stop_cause = CUSTOMER_CANCELLATION | TIMEOUT | WORKER_SHUTDOWN | OWNERSHIP_LOSS

datatype fence_result = APPLIED | CANCELLATION_REQUESTED | STALE

datatype heartbeat_result = ACTIVE | HEARTBEAT_CANCELLATION_REQUESTED

section \<open>Integrations\<close>

datatype data_classification = PUBLIC | INTERNAL | CONFIDENTIAL | RESTRICTED

datatype decision_outcome = READY | BLOCKED | NEEDS_HUMAN_REVIEW

datatype reason_code =
  REASON_READY | SERVICE_NOT_ALLOWED | REPOSITORY_NOT_ALLOWED | JIRA_PROJECT_NOT_ALLOWED
  | REPOSITORY_NOT_OWNED_BY_SERVICE | SERVICE_RECORD_CONFLICT | SERVICE_RECORD_MALFORMED
  | SERVICE_OWNER_MISSING | POLICY_STALE | DATA_CLASSIFICATION_BLOCKED
  | AUTOMATIC_PUBLICATION_DISABLED | REVIEWER_REQUIRED | REPOSITORY_ARCHIVED | ISSUE_CLOSED
  | TARGET_IS_PULL_REQUEST | GITHUB_REPOSITORY_IDENTITY_MISMATCH
  | GITHUB_ISSUE_IDENTITY_MISMATCH | JIRA_ISSUE_IDENTITY_MISMATCH
  | PROVIDER_IDENTITY_UNVERIFIED | SOURCE_DATA_INCOMPLETE | ACTION_SCOPE_CHANGED
  | SOURCE_VERSION_DRIFT | RECONCILIATION_INCONCLUSIVE | COMMENT_MISSING
  | COMMENT_MARKER_MISSING | MULTIPLE_COMMENTS_FOUND

datatype action_status =
  RESERVED | RECONCILING | READY_TO_EXECUTE | EXECUTING | RETRYABLE_FAILURE | OUTCOME_UNKNOWN
  | ACTION_SUCCEEDED | PERMANENT_FAILURE | ACTION_NEEDS_HUMAN_REVIEW

datatype action_provider = GITHUB | SLACK

datatype action_operation = UPSERT_DEPLOYMENT_CONTEXT_COMMENT | POST_DEPLOYMENT_CONTEXT_NOTIFICATION

datatype delivery_state =
  NOT_REQUESTED | DELIVERY_SUCCEEDED | DELIVERY_RETRYABLE_FAILURE | DELIVERY_OUTCOME_UNKNOWN
  | DELIVERY_PERMANENT_FAILURE | DELIVERY_NEEDS_HUMAN_REVIEW

primrec data_classification_value :: "data_classification \<Rightarrow> string" where
  "data_classification_value PUBLIC = ''public''"
| "data_classification_value INTERNAL = ''internal''"
| "data_classification_value CONFIDENTIAL = ''confidential''"
| "data_classification_value RESTRICTED = ''restricted''"

primrec decision_outcome_value :: "decision_outcome \<Rightarrow> string" where
  "decision_outcome_value READY = ''ready''"
| "decision_outcome_value BLOCKED = ''blocked''"
| "decision_outcome_value NEEDS_HUMAN_REVIEW = ''needs_human_review''"

primrec reason_code_value :: "reason_code \<Rightarrow> string" where
  "reason_code_value REASON_READY = ''ready''"
| "reason_code_value SERVICE_NOT_ALLOWED = ''service_not_allowed''"
| "reason_code_value REPOSITORY_NOT_ALLOWED = ''repository_not_allowed''"
| "reason_code_value JIRA_PROJECT_NOT_ALLOWED = ''jira_project_not_allowed''"
| "reason_code_value REPOSITORY_NOT_OWNED_BY_SERVICE = ''repository_not_owned_by_service''"
| "reason_code_value SERVICE_RECORD_CONFLICT = ''service_record_conflict''"
| "reason_code_value SERVICE_RECORD_MALFORMED = ''service_record_malformed''"
| "reason_code_value SERVICE_OWNER_MISSING = ''service_owner_missing''"
| "reason_code_value POLICY_STALE = ''policy_stale''"
| "reason_code_value DATA_CLASSIFICATION_BLOCKED = ''data_classification_blocked''"
| "reason_code_value AUTOMATIC_PUBLICATION_DISABLED = ''automatic_publication_disabled''"
| "reason_code_value REVIEWER_REQUIRED = ''reviewer_required''"
| "reason_code_value REPOSITORY_ARCHIVED = ''repository_archived''"
| "reason_code_value ISSUE_CLOSED = ''issue_closed''"
| "reason_code_value TARGET_IS_PULL_REQUEST = ''target_is_pull_request''"
| "reason_code_value GITHUB_REPOSITORY_IDENTITY_MISMATCH = ''github_repository_identity_mismatch''"
| "reason_code_value GITHUB_ISSUE_IDENTITY_MISMATCH = ''github_issue_identity_mismatch''"
| "reason_code_value JIRA_ISSUE_IDENTITY_MISMATCH = ''jira_issue_identity_mismatch''"
| "reason_code_value PROVIDER_IDENTITY_UNVERIFIED = ''provider_identity_unverified''"
| "reason_code_value SOURCE_DATA_INCOMPLETE = ''source_data_incomplete''"
| "reason_code_value ACTION_SCOPE_CHANGED = ''action_scope_changed''"
| "reason_code_value SOURCE_VERSION_DRIFT = ''source_version_drift''"
| "reason_code_value RECONCILIATION_INCONCLUSIVE = ''reconciliation_inconclusive''"
| "reason_code_value COMMENT_MISSING = ''comment_missing''"
| "reason_code_value COMMENT_MARKER_MISSING = ''comment_marker_missing''"
| "reason_code_value MULTIPLE_COMMENTS_FOUND = ''multiple_comments_found''"

primrec action_status_value :: "action_status \<Rightarrow> string" where
  "action_status_value RESERVED = ''reserved''"
| "action_status_value RECONCILING = ''reconciling''"
| "action_status_value READY_TO_EXECUTE = ''ready_to_execute''"
| "action_status_value EXECUTING = ''executing''"
| "action_status_value RETRYABLE_FAILURE = ''retryable_failure''"
| "action_status_value OUTCOME_UNKNOWN = ''outcome_unknown''"
| "action_status_value ACTION_SUCCEEDED = ''succeeded''"
| "action_status_value PERMANENT_FAILURE = ''permanent_failure''"
| "action_status_value ACTION_NEEDS_HUMAN_REVIEW = ''needs_human_review''"

primrec action_provider_value :: "action_provider \<Rightarrow> string" where
  "action_provider_value GITHUB = ''github''"
| "action_provider_value SLACK = ''slack''"

primrec action_operation_value :: "action_operation \<Rightarrow> string" where
  "action_operation_value UPSERT_DEPLOYMENT_CONTEXT_COMMENT = ''upsert_deployment_context_comment''"
| "action_operation_value POST_DEPLOYMENT_CONTEXT_NOTIFICATION = ''post_deployment_context_notification''"

primrec delivery_state_value :: "delivery_state \<Rightarrow> string" where
  "delivery_state_value NOT_REQUESTED = ''not_requested''"
| "delivery_state_value DELIVERY_SUCCEEDED = ''succeeded''"
| "delivery_state_value DELIVERY_RETRYABLE_FAILURE = ''retryable_failure''"
| "delivery_state_value DELIVERY_OUTCOME_UNKNOWN = ''outcome_unknown''"
| "delivery_state_value DELIVERY_PERMANENT_FAILURE = ''permanent_failure''"
| "delivery_state_value DELIVERY_NEEDS_HUMAN_REVIEW = ''needs_human_review''"

instantiation action_status :: enum
begin

definition enum_action_status :: "action_status list" where
  "enum_action_status =
     [RESERVED, RECONCILING, READY_TO_EXECUTE, EXECUTING, RETRYABLE_FAILURE, OUTCOME_UNKNOWN,
      ACTION_SUCCEEDED, PERMANENT_FAILURE, ACTION_NEEDS_HUMAN_REVIEW]"

definition enum_all_action_status :: "(action_status \<Rightarrow> bool) \<Rightarrow> bool" where
  "enum_all_action_status P \<longleftrightarrow> list_all P Enum.enum"

definition enum_ex_action_status :: "(action_status \<Rightarrow> bool) \<Rightarrow> bool" where
  "enum_ex_action_status P \<longleftrightarrow> list_ex P Enum.enum"

instance
proof
  show univ: "(UNIV :: action_status set) = set Enum.enum"
    by (auto simp: enum_action_status_def intro: action_status.exhaust)
  show "distinct (Enum.enum :: action_status list)" by (simp add: enum_action_status_def)
  show "Enum.enum_all P \<longleftrightarrow> Ball (UNIV :: action_status set) P" for P
    unfolding univ by (simp add: enum_all_action_status_def list_all_iff)
  show "Enum.enum_ex P \<longleftrightarrow> Bex (UNIV :: action_status set) P" for P
    unfolding univ by (simp add: enum_ex_action_status_def list_ex_iff)
qed

end

text \<open>\<open>TaskStatus(s)\<close> and \<open>ExternalActionStatus(s)\<close>: \<open>None\<close> is the \<open>ValueError\<close>.\<close>

definition task_status_of :: "string \<Rightarrow> task_status option" where
  "task_status_of v = find (\<lambda>s. task_status_value s = v) Enum.enum"

definition action_status_of :: "string \<Rightarrow> action_status option" where
  "action_status_of v = find (\<lambda>s. action_status_value s = v) Enum.enum"

lemma task_status_roundtrip [simp]: "task_status_of (task_status_value s) = Some s"
  by (cases s) (simp_all add: task_status_of_def enum_task_status_def)

lemma action_status_roundtrip [simp]: "action_status_of (action_status_value s) = Some s"
  by (cases s) (simp_all add: action_status_of_def enum_action_status_def)

end
