(* ===== verification/Exceptions.thy ===== *)
theory Exceptions
  imports Enums
begin

text \<open>
  The exceptions the program raises, one constructor per class with the attributes its handlers
  read, and the subclass tests that decide an \<open>except\<close> clause. \<open>SlackRetryableFailure\<close> and
  \<open>RetryableProviderError\<close> carry an optional delay in seconds; a delay is a Python float, so it
  may be an infinity or not a number (\<open>pyfloat\<close>).
\<close>

section \<open>Python floats\<close>

text \<open>Finite floats are exact rationals; comparisons with \<open>FNaN\<close> are false.\<close>

datatype pyfloat = FFin rat | FPosInf | FNegInf | FNaN

fun pf_less :: "pyfloat \<Rightarrow> pyfloat \<Rightarrow> bool" where
  "pf_less FNaN _ = False"
| "pf_less _ FNaN = False"
| "pf_less (FFin p) (FFin q) = (p < q)"
| "pf_less FNegInf y = (y \<noteq> FNegInf)"
| "pf_less FPosInf _ = False"
| "pf_less (FFin _) y = (y = FPosInf)"

text \<open>
  The built-ins \<open>max(a, b)\<close> and \<open>min(a, b)\<close> return \<open>a\<close> unless \<open>b\<close> compares strictly better,
  so with a NaN the result depends on the order of the arguments.
\<close>

definition py_max :: "pyfloat \<Rightarrow> pyfloat \<Rightarrow> pyfloat" where
  "py_max a b = (if pf_less a b then b else a)"

definition py_min :: "pyfloat \<Rightarrow> pyfloat \<Rightarrow> pyfloat" where
  "py_min a b = (if pf_less b a then b else a)"

section \<open>Exceptions\<close>

datatype exn =
    TaskNotFoundError uuid
  | IdempotencyConflictError
  | InvalidTaskTransitionError task_status task_command
  | RetryableTaskError string "pyfloat option"
  | PermanentTaskError string
  | HandlerContractError
  | TaskCancelled
  | OwnershipLostError
  | ExecutionInvariantError string
  | RetryableProviderError string "pyfloat option"
  | PermanentProviderError string
  | ProviderNotFoundError string
  | ProviderWriteOutcomeUnknown string
  | RetryableHttpError
  | ProviderContractError
  | ResponseTooLargeError
  | AmbiguousWriteError
  | SlackRetryableFailure string "pyfloat option"
  | SlackPermanentFailure string
  | SlackOutcomeUnknown string
  | ReconciliationNeedsReview reason_code string
  | ValidationError
  | ValueError string
  | KeyError string
  | RuntimeError string
  | AsyncCancelledError
  | OtherException string

text \<open>\<open>HandlerContractError\<close> and \<open>ProviderNotFoundError\<close> are subclasses; these are \<open>except\<close> tests.\<close>

fun is_permanent_provider_error :: "exn \<Rightarrow> bool" where
  "is_permanent_provider_error (PermanentProviderError _) = True"
| "is_permanent_provider_error (ProviderNotFoundError _) = True"
| "is_permanent_provider_error _ = False"

fun is_provider_contract_error :: "exn \<Rightarrow> bool" where
  "is_provider_contract_error ProviderContractError = True"
| "is_provider_contract_error ResponseTooLargeError = True"
| "is_provider_contract_error _ = False"

text \<open>\<open>ValidationError\<close> of pydantic is a \<open>ValueError\<close>.\<close>

fun is_value_error :: "exn \<Rightarrow> bool" where
  "is_value_error ValidationError = True"
| "is_value_error (ValueError _) = True"
| "is_value_error _ = False"

text \<open>The \<open>error_code\<close> attribute of the sanitized errors.\<close>

fun error_code_of :: "exn \<Rightarrow> string" where
  "error_code_of (RetryableTaskError c _) = c"
| "error_code_of (PermanentTaskError c) = c"
| "error_code_of HandlerContractError = ''handler_contract_error''"
| "error_code_of (RetryableProviderError c _) = c"
| "error_code_of (PermanentProviderError c) = c"
| "error_code_of (ProviderNotFoundError c) = c"
| "error_code_of (ProviderWriteOutcomeUnknown c) = c"
| "error_code_of (SlackRetryableFailure c _) = c"
| "error_code_of (SlackPermanentFailure c) = c"
| "error_code_of (SlackOutcomeUnknown c) = c"
| "error_code_of _ = ''''"

type_synonym 'a result = "exn + 'a"

end
