(* ===== verification/Task_Domain.thy ===== *)
theory Task_Domain
  imports Exceptions
begin

text \<open>
  The task state machine of \<open>tasks/domain.py\<close>: the transition table, the pure command
  application and the cancellation decision. A run of accepted commands is a fold of
  \<open>apply_task_command\<close>; the lemmas below say what the table permits over whole runs.
\<close>

section \<open>Commands\<close>

fun task_transitions :: "task_command \<Rightarrow> task_status \<Rightarrow> task_status option" where
  "task_transitions APPROVE PENDING_APPROVAL = Some APPROVED"
| "task_transitions APPROVE APPROVED = Some APPROVED"
| "task_transitions CANCEL PENDING_APPROVAL = Some CANCELLED"
| "task_transitions CANCEL APPROVED = Some CANCELLED"
| "task_transitions CANCEL RUNNING = Some RUNNING"
| "task_transitions CANCEL CANCELLED = Some CANCELLED"
| "task_transitions START APPROVED = Some RUNNING"
| "task_transitions SUCCEED RUNNING = Some SUCCEEDED"
| "task_transitions FAIL RUNNING = Some FAILED"
| "task_transitions RETRY RUNNING = Some APPROVED"
| "task_transitions FINALIZE_CANCELLATION RUNNING = Some CANCELLED"
| "task_transitions _ _ = None"

definition apply_task_command :: "task_status \<Rightarrow> task_command \<Rightarrow> task_status result" where
  "apply_task_command current command =
     expectR (InvalidTaskTransitionError current command) (task_transitions command current)"

record cancellation_decision =
  cd_new_status :: task_status
  cd_request_cancellation :: bool

definition decide_cancellation :: "task_status \<Rightarrow> bool \<Rightarrow> cancellation_decision result" where
  "decide_cancellation current already_requested =
     bindR (apply_task_command current CANCEL) (\<lambda>s. Inr
       \<lparr>cd_new_status = s,
        cd_request_cancellation =
          current \<in> {PENDING_APPROVAL, APPROVED, RUNNING} \<and> \<not> already_requested\<rparr>)"

text \<open>A run of commands, all of which are accepted.\<close>

fun apply_task_commands :: "task_status \<Rightarrow> task_command list \<Rightarrow> task_status result" where
  "apply_task_commands s [] = Inr s"
| "apply_task_commands s (c # cs) =
     bindR (apply_task_command s c) (\<lambda>s'. apply_task_commands s' cs)"

definition terminal_status :: "task_status \<Rightarrow> bool" where
  "terminal_status s \<longleftrightarrow> s = SUCCEEDED \<or> s = FAILED \<or> s = CANCELLED"

section \<open>Lemmas\<close>

lemma apply_task_command_iff:
  "apply_task_command s c = Inr s' \<longleftrightarrow> task_transitions c s = Some s'"
  "apply_task_command s c = Inl e \<longleftrightarrow>
     task_transitions c s = None \<and> e = InvalidTaskTransitionError s c"
  by (auto simp: apply_task_command_def)

lemma running_commands_accepted [simp]:
  "apply_task_command APPROVED START = Inr RUNNING"
  "apply_task_command RUNNING SUCCEED = Inr SUCCEEDED"
  "apply_task_command RUNNING FAIL = Inr FAILED"
  "apply_task_command RUNNING RETRY = Inr APPROVED"
  "apply_task_command RUNNING FINALIZE_CANCELLATION = Inr CANCELLED"
  by (simp_all add: apply_task_command_iff)

lemma task_transitions_terminal:
  "terminal_status s \<Longrightarrow> task_transitions c s = Some s' \<Longrightarrow> c = CANCEL \<and> s = CANCELLED \<and> s' = CANCELLED"
  by (cases c; cases s) (simp_all add: terminal_status_def)

lemma task_transitions_source:
  assumes "task_transitions c s = Some s'"
  shows "s' = RUNNING \<Longrightarrow> (s = APPROVED \<and> c = START) \<or> (s = RUNNING \<and> c = CANCEL)"
    and "s' = SUCCEEDED \<Longrightarrow> s = RUNNING \<and> c = SUCCEED"
    and "s' = FAILED \<Longrightarrow> s = RUNNING \<and> c = FAIL"
    and "s' = APPROVED \<Longrightarrow> c = APPROVE \<or> (s = RUNNING \<and> c = RETRY)"
    and "s' \<noteq> PENDING_APPROVAL"
  using assms by (cases c; cases s; simp)+

lemma apply_task_commands_append:
  "apply_task_commands s (cs @ ds) = bindR (apply_task_commands s cs) (\<lambda>t. apply_task_commands t ds)"
  by (induction cs arbitrary: s) (auto simp: bindR_def split: sum.splits)

lemma apply_task_commands_snoc:
  "apply_task_commands s (cs @ [c]) = Inr t \<longleftrightarrow>
     (\<exists>r. apply_task_commands s cs = Inr r \<and> task_transitions c r = Some t)"
  by (auto simp: apply_task_commands_append apply_task_command_iff result_simps)

text \<open>Approval precedes execution: by induction over the run, from its end.\<close>

lemma run_reaches_approved:
  "apply_task_commands PENDING_APPROVAL cs = Inr s \<Longrightarrow> s \<in> {APPROVED, RUNNING, SUCCEEDED, FAILED} \<Longrightarrow>
   APPROVE \<in> set cs"
proof (induction cs arbitrary: s rule: rev_induct)
  case Nil
  then show ?case by simp
next
  case (snoc c cs)
  then obtain r where r: "apply_task_commands PENDING_APPROVAL cs = Inr r"
    and c: "task_transitions c r = Some s" by (auto simp: apply_task_commands_snoc)
  show ?case
  proof (cases "c = APPROVE")
    case False
    with c snoc.prems(2) have "r \<in> {APPROVED, RUNNING}"
      by (auto dest: task_transitions_source)
    with snoc.IH [OF r] show ?thesis by auto
  qed simp
qed

lemma run_reaches_running:
  "apply_task_commands PENDING_APPROVAL cs = Inr s \<Longrightarrow> s \<in> {RUNNING, SUCCEEDED, FAILED} \<Longrightarrow>
   \<exists>as bs. cs = as @ START # bs \<and> APPROVE \<in> set as"
proof (induction cs arbitrary: s rule: rev_induct)
  case Nil
  then show ?case by simp
next
  case (snoc c cs)
  then obtain r where r: "apply_task_commands PENDING_APPROVAL cs = Inr r"
    and c: "task_transitions c r = Some s" by (auto simp: apply_task_commands_snoc)
  show ?case
  proof (cases "c = START")
    case True
    with c have "r = APPROVED" by (cases r) auto
    with r have "APPROVE \<in> set cs" using run_reaches_approved by blast
    with True show ?thesis by fastforce
  next
    case False
    with c snoc.prems(2) have "r \<in> {RUNNING}"
      by (auto dest: task_transitions_source)
    with snoc.IH [OF r] obtain as bs where "cs = as @ START # bs" "APPROVE \<in> set as" by auto
    then have "cs @ [c] = as @ START # (bs @ [c])" "APPROVE \<in> set as" by simp_all
    then show ?thesis by blast
  qed
qed

lemma run_from_terminal:
  "apply_task_commands s cs = Inr t \<Longrightarrow> terminal_status s \<Longrightarrow> t = s \<and> set cs \<subseteq> {CANCEL}"
proof (induction cs arbitrary: s)
  case Nil
  then show ?case by simp
next
  case (Cons c cs)
  from Cons.prems obtain r where c: "task_transitions c s = Some r" and cs: "apply_task_commands r cs = Inr t"
    by (auto simp: apply_task_command_iff result_simps)
  from task_transitions_terminal [OF Cons.prems(2) c] have "c = CANCEL" "s = CANCELLED" "r = s" by auto
  with Cons.IH [OF cs] Cons.prems(2) show ?case by auto
qed

section \<open>Properties\<close>

text \<open>
  C34. No execution without approval, and terminal states are final. In any run of accepted
  commands from the initial status, a task that is running, succeeded or failed was approved
  before it was started; and a run that passes through a terminal status never leaves it: only
  replayed cancellations of a cancelled task are accepted after it.
\<close>

theorem approval_precedes_execution:
  assumes "apply_task_commands PENDING_APPROVAL cs = Inr t"
    and "apply_task_commands t ds = Inr s"
  shows "(s \<in> {RUNNING, SUCCEEDED, FAILED} \<longrightarrow>
            (\<exists>as bs. cs @ ds = as @ START # bs \<and> APPROVE \<in> set as)) \<and>
         (terminal_status t \<longrightarrow> s = t \<and> set ds \<subseteq> {CANCEL} \<and> (ds \<noteq> [] \<longrightarrow> t = CANCELLED))"
proof (intro conjI impI)
  have "apply_task_commands PENDING_APPROVAL (cs @ ds) = Inr s"
    using assms by (simp add: apply_task_commands_append)
  then show "\<exists>as bs. cs @ ds = as @ START # bs \<and> APPROVE \<in> set as"
    if "s \<in> {RUNNING, SUCCEEDED, FAILED}" using that run_reaches_running by blast
next
  assume t: "terminal_status t"
  from run_from_terminal [OF assms(2) t] show "s = t" "set ds \<subseteq> {CANCEL}" by blast+
  show "t = CANCELLED" if "ds \<noteq> []"
    using that assms(2) t
    by (cases ds) (auto simp: apply_task_command_iff result_simps dest: task_transitions_terminal)
qed

lemma approval_precedes_execution_witness:
  "\<exists>as bs. [APPROVE, START] @ [RETRY, START, SUCCEED] = as @ START # bs \<and> APPROVE \<in> set as"
  using approval_precedes_execution [of "[APPROVE, START]" RUNNING "[RETRY, START, SUCCEED]" SUCCEEDED]
  by (simp add: apply_task_command_def)

text \<open>
  The cancellation decision, on every status: it is refused exactly from the two other
  terminal statuses; a task that is not running is cancelled at once and a running one keeps
  its status; the marker is requested at most once, from exactly the statuses that can still
  be cancelled, and replaying an accepted cancellation changes nothing.
\<close>

theorem decide_cancellation_cases:
  "(\<forall>s r. (\<exists>e. decide_cancellation s r = Inl e) \<longleftrightarrow> s = SUCCEEDED \<or> s = FAILED) \<and>
   (\<forall>s r d. decide_cancellation s r = Inr d \<longrightarrow>
      cd_new_status d = (if s = RUNNING then RUNNING else CANCELLED) \<and>
      cd_request_cancellation d = (s \<noteq> CANCELLED \<and> \<not> r) \<and>
      decide_cancellation (cd_new_status d) (r \<or> cd_request_cancellation d) =
        Inr \<lparr>cd_new_status = cd_new_status d, cd_request_cancellation = False\<rparr>)"
proof (intro conjI allI impI)
  show "(\<exists>e. decide_cancellation s r = Inl e) \<longleftrightarrow> s = SUCCEEDED \<or> s = FAILED" for s r
    by (cases s) (simp_all add: decide_cancellation_def apply_task_command_def expectR_def)
next
  fix s r d
  assume d: "decide_cancellation s r = Inr d"
  then show "cd_new_status d = (if s = RUNNING then RUNNING else CANCELLED)"
    and "cd_request_cancellation d = (s \<noteq> CANCELLED \<and> \<not> r)"
    and "decide_cancellation (cd_new_status d) (r \<or> cd_request_cancellation d) =
      Inr \<lparr>cd_new_status = cd_new_status d, cd_request_cancellation = False\<rparr>"
    by (cases s; auto simp: decide_cancellation_def apply_task_command_def expectR_def)+
qed

lemma decide_cancellation_cases_witness:
  "decide_cancellation RUNNING True = Inr \<lparr>cd_new_status = RUNNING, cd_request_cancellation = False\<rparr>"
proof -
  have "decide_cancellation RUNNING False = Inr \<lparr>cd_new_status = RUNNING, cd_request_cancellation = True\<rparr>"
    by (simp add: decide_cancellation_def apply_task_command_def expectR_def)
  with conjunct2 [OF decide_cancellation_cases, rule_format, of RUNNING False]
  show ?thesis by simp
qed

end
