(* ===== verification/Json_Model.thy ===== *)
theory Json_Model
  imports Exceptions
begin

text \<open>
  JSON values and their canonical serialization: \<open>JsonValue\<close> of \<open>tasks/schemas.py\<close>, the
  finiteness checks that three modules perform (\<open>reject_non_finite_numbers\<close>,
  \<open>_contains_non_finite\<close>, \<open>_reject_non_finite\<close>) and \<open>json.dumps(..., ensure_ascii=False,
  separators=(",", ":"), sort_keys=True)\<close>, the text that is hashed for idempotency and
  provenance. A dict is an association list in insertion order. A finite float is represented
  by its \<open>repr\<close>, which Python prints and which determines the float.
\<close>

section \<open>Values\<close>

datatype json_float = JNaN | JPosInf | JNegInf | JFinite string

datatype json =
    JNull
  | JBool bool
  | JInt int
  | JFloat json_float
  | JStr string
  | JArr "json list"
  | JObj "(string \<times> json) list"

primrec is_finite_float :: "json_float \<Rightarrow> bool" where
  "is_finite_float JNaN = False"
| "is_finite_float JPosInf = False"
| "is_finite_float JNegInf = False"
| "is_finite_float (JFinite _) = True"

text \<open>\<open>payload.get(name)\<close> on a dict.\<close>

definition obj_get :: "(string \<times> json) list \<Rightarrow> string \<Rightarrow> json option" where
  "obj_get kvs name = map_of kvs name"

section \<open>Finiteness\<close>

text \<open>\<open>reject_non_finite_numbers\<close> raises at the first non-finite number, in traversal order.\<close>

fun reject_non_finite_numbers :: "json \<Rightarrow> unit result"
and reject_non_finite_list :: "json list \<Rightarrow> unit result"
and reject_non_finite_items :: "(string \<times> json) list \<Rightarrow> unit result" where
  "reject_non_finite_numbers (JFloat x) =
     guardR (is_finite_float x) (ValueError ''input must not contain NaN or Infinity'')"
| "reject_non_finite_numbers (JArr xs) = reject_non_finite_list xs"
| "reject_non_finite_numbers (JObj kvs) = reject_non_finite_items kvs"
| "reject_non_finite_numbers _ = Inr ()"
| "reject_non_finite_list [] = Inr ()"
| "reject_non_finite_list (x # xs) =
     bindR (reject_non_finite_numbers x) (\<lambda>_. reject_non_finite_list xs)"
| "reject_non_finite_items [] = Inr ()"
| "reject_non_finite_items ((k, v) # kvs) =
     bindR (reject_non_finite_numbers v) (\<lambda>_. reject_non_finite_items kvs)"

fun contains_non_finite :: "json \<Rightarrow> bool" where
  "contains_non_finite (JFloat x) = (\<not> is_finite_float x)"
| "contains_non_finite (JArr xs) = (\<exists>x \<in> set xs. contains_non_finite x)"
| "contains_non_finite (JObj kvs) = (\<exists>kv \<in> set kvs. contains_non_finite (snd kv))"
| "contains_non_finite _ = False"

lemma reject_iff_contains:
  "(\<exists>e. reject_non_finite_numbers j = Inl e) \<longleftrightarrow> contains_non_finite j"
  "(\<exists>e. reject_non_finite_list js = Inl e) \<longleftrightarrow> (\<exists>j \<in> set js. contains_non_finite j)"
  "(\<exists>e. reject_non_finite_items kvs = Inl e) \<longleftrightarrow> (\<exists>kv \<in> set kvs. contains_non_finite (snd kv))"
  by (induction j and js and kvs
      rule: reject_non_finite_numbers_reject_non_finite_list_reject_non_finite_items.induct)
    (auto simp: bindR_def split: sum.splits)

section \<open>Serialization\<close>

definition hex_digit :: "nat \<Rightarrow> char" where
  "hex_digit n = (if n < 10 then char_of (48 + n) else char_of (87 + n))"

text \<open>\<open>py_encode_basestring\<close>: the quote, the backslash and the control characters are escaped.\<close>

definition escape_char :: "char \<Rightarrow> string" where
  "escape_char c = (let n = (of_char c :: nat) in
     if n = 34 then [CHR 0x5C, CHR 0x22]
     else if n = 92 then [CHR 0x5C, CHR 0x5C]
     else if n = 10 then [CHR 0x5C, CHR ''n'']
     else if n = 13 then [CHR 0x5C, CHR ''r'']
     else if n = 9 then [CHR 0x5C, CHR ''t'']
     else if n = 8 then [CHR 0x5C, CHR ''b'']
     else if n = 12 then [CHR 0x5C, CHR ''f'']
     else if n < 32 then CHR 0x5C # ''u00'' @ [hex_digit (n div 16), hex_digit (n mod 16)]
     else [c])"

text \<open>\<open>UUID.hex\<close> and \<open>str(UUID)\<close> of an identifier below \<open>2^128\<close>.\<close>

definition uuid_hex :: "uuid \<Rightarrow> string" where
  "uuid_hex n = map (\<lambda>k. hex_digit ((n div 16 ^ k) mod 16)) (rev [0..<32])"

definition uuid_str :: "uuid \<Rightarrow> string" where
  "uuid_str n = (let h = uuid_hex n in
     take 8 h @ ''-'' @ take 4 (drop 8 h) @ ''-'' @ take 4 (drop 12 h) @ ''-'' @
     take 4 (drop 16 h) @ ''-'' @ drop 20 h)"

definition quote :: char where
  "quote = CHR 0x22"

definition dump_string :: "string \<Rightarrow> string" where
  "dump_string s = quote # concat (map escape_char s) @ [quote]"

primrec dump_float :: "json_float \<Rightarrow> string" where
  "dump_float JNaN = ''NaN''"
| "dump_float JPosInf = ''Infinity''"
| "dump_float JNegInf = ''-Infinity''"
| "dump_float (JFinite s) = s"

fun join :: "string \<Rightarrow> string list \<Rightarrow> string" where
  "join sep [] = []"
| "join sep [s] = s"
| "join sep (s # t # ss) = s @ sep @ join sep (t # ss)"

fun dumps :: "json \<Rightarrow> string" where
  "dumps JNull = ''null''"
| "dumps (JBool b) = (if b then ''true'' else ''false'')"
| "dumps (JInt i) = str_int i"
| "dumps (JFloat x) = dump_float x"
| "dumps (JStr s) = dump_string s"
| "dumps (JArr xs) = ''['' @ join '','' (map dumps xs) @ '']''"
| "dumps (JObj kvs) =
     ''{'' @ join '','' (map (\<lambda>kv. dump_string (fst kv) @ '':'' @ dumps (snd kv))
                        (sort_key fst kvs)) @ ''}''"

text \<open>\<open>json.dumps(value, allow_nan=False, ensure_ascii=False, ...).encode()\<close>.\<close>

definition json_bytes :: "json \<Rightarrow> string result" where
  "json_bytes j =
     (if contains_non_finite j then Inl (ValueError ''Out of range float values are not JSON compliant'')
      else Inr (encode (dumps j)))"

lemma json_bytes_Inr [result_simps]:
  "json_bytes j = Inr s \<longleftrightarrow> \<not> contains_non_finite j \<and> s = encode (dumps j)"
  by (auto simp: json_bytes_def)

end
