(* ===== verification/Database.thy ===== *)
theory Database
  imports Task_Domain Json_Model
begin

text \<open>
  The five PostgreSQL tables of \<open>tasks/model.py\<close> and \<open>integrations/model.py\<close>: one record per
  row class, with the columns in the code's order, and one predicate per table with its check
  constraints and column lengths. A column of a \<open>StrEnum\<close> mapped by SQLAlchemy's \<open>Enum\<close> is the
  datatype; a column declared \<open>String\<close> is a string, and the code converts it on each read. The
  columns \<open>id\<close> with \<open>default=uuid4\<close> and \<open>created_at\<close> with \<open>server_default=now()\<close> are filled by the
  operation that inserts the row. \<open>tables_ok\<close> adds the unique and foreign-key constraints; the
  theories of the operations prove that no operation leaves it. A write PostgreSQL refuses is an
  exception of the operation that makes it: \<open>integrity_error\<close> for a constraint, \<open>data_error\<close> for a
  value its column cannot hold.
\<close>

section \<open>Rows\<close>

type_synonym jobj = "(string \<times> json) list"

record task =
  t_id :: uuid
  t_idempotency_key :: string
  t_request_fingerprint :: string
  t_task_type :: string
  t_task_input :: jobj
  t_status :: task_status
  t_attempt_count :: nat
  t_max_attempts :: nat
  t_available_at :: "time option"
  t_worker_id :: "string option"
  t_lease_token_hash :: "string option"
  t_lease_expires_at :: "time option"
  t_last_heartbeat_at :: "time option"
  t_cancellation_requested_at :: "time option"
  t_result :: "jobj option"
  t_last_error_code :: "string option"
  t_last_error_summary :: "string option"
  t_created_at :: time
  t_updated_at :: time

record task_attempt =
  a_id :: uuid
  a_task_id :: uuid
  a_attempt_number :: nat
  a_worker_id :: string
  a_lease_token_hash :: string
  a_status :: attempt_status
  a_started_at :: time
  a_last_heartbeat_at :: time
  a_finished_at :: "time option"
  a_error_code :: "string option"
  a_error_summary :: "string option"
  a_terminal_reason :: "string option"

record source_artifact =
  s_id :: uuid
  s_task_id :: uuid
  s_observed_by_attempt_id :: uuid
  s_provider :: string
  s_resource_type :: string
  s_provider_resource_identifier :: string
  s_canonical_source_url :: string
  s_source_version :: string
  s_schema_version :: nat
  s_data_classification :: string
  s_redaction_applied :: bool
  s_retention_until :: time
  s_normalized_payload :: jobj
  s_content_hash :: string
  s_payload_size_bytes :: nat
  s_fetched_at :: time
  s_created_at :: time

record external_action =
  x_id :: uuid
  x_task_id :: uuid
  x_current_attempt_id :: uuid
  x_provider :: string
  x_operation :: string
  x_action_scope_key :: string
  x_desired_request_fingerprint :: string
  x_applied_request_fingerprint :: "string option"
  x_decision_snapshot_hash :: string
  x_revision :: nat
  x_status :: string
  x_provider_resource_identifier :: "string option"
  x_provider_url :: "string option"
  x_response_fingerprint :: "string option"
  x_action_attempt_count :: nat
  x_last_error_code :: "string option"
  x_last_error_summary :: "string option"
  x_reserved_at :: time
  x_last_attempt_at :: time
  x_write_started_at :: "time option"
  x_reconcile_not_before :: "time option"
  x_completed_at :: "time option"
  x_created_at :: time
  x_updated_at :: time

record external_action_attempt =
  e_id :: uuid
  e_external_action_id :: uuid
  e_task_id :: uuid
  e_task_attempt_id :: uuid
  e_sequence_number :: nat
  e_transition :: string
  e_previous_status :: "string option"
  e_new_status :: string
  e_revision :: nat
  e_error_code :: "string option"
  e_created_at :: time

record db =
  tasks :: "task list"
  task_attempts :: "task_attempt list"
  source_artifacts :: "source_artifact list"
  external_actions :: "external_action list"
  external_action_attempts :: "external_action_attempt list"

definition empty_db :: db where
  "empty_db = \<lparr>tasks = [], task_attempts = [], source_artifacts = [], external_actions = [],
     external_action_attempts = []\<rparr>"

definition supported_external_actions :: "(action_provider \<times> action_operation) set" where
  "supported_external_actions =
     {(GITHUB, UPSERT_DEPLOYMENT_CONTEXT_COMMENT), (SLACK, POST_DEPLOYMENT_CONTEXT_NOTIFICATION)}"

section \<open>Values PostgreSQL refuses\<close>

text \<open>
  The dialect of asyncpg answers a violated constraint with an \<open>IntegrityError\<close> and every other
  refusal of PostgreSQL with a \<open>DBAPIError\<close>: a text longer than its column or with a NUL, a JSONB
  document with a NUL in a string or a key, and a timestamp outside 4713 BC to 294276 AD (times
  are microseconds since 1970 in UTC).
\<close>

definition integrity_error :: exn where
  "integrity_error = OtherException ''IntegrityError''"

definition data_error :: exn where
  "data_error = OtherException ''DBAPIError''"

definition no_nul :: "string \<Rightarrow> bool" where
  "no_nul s \<longleftrightarrow> CHR 0x00 \<notin> set s"

lemma no_nul_simps [simp]: "no_nul []" "no_nul (c # s) \<longleftrightarrow> c \<noteq> CHR 0x00 \<and> no_nul s"
  by (auto simp: no_nul_def)

definition varchar_ok :: "nat \<Rightarrow> string \<Rightarrow> bool" where
  "varchar_ok n s \<longleftrightarrow> length s \<le> n \<and> no_nul s"

fun jsonb_ok :: "json \<Rightarrow> bool" where
  "jsonb_ok (JStr s) = no_nul s"
| "jsonb_ok (JArr xs) = (\<forall>x \<in> set xs. jsonb_ok x)"
| "jsonb_ok (JObj kvs) = (\<forall>kv \<in> set kvs. no_nul (fst kv) \<and> jsonb_ok (snd kv))"
| "jsonb_ok _ = True"

definition timestamp_ok :: "time \<Rightarrow> bool" where
  "timestamp_ok t \<longleftrightarrow> -210866803200000000 \<le> t \<and> t < 9224318016000000000"

section \<open>Check constraints\<close>

definition fits :: "nat \<Rightarrow> string option \<Rightarrow> bool" where
  "fits n s = (case s of None \<Rightarrow> True | Some v \<Rightarrow> length v \<le> n)"

lemma fits_simps [simp]: "fits n None" "fits n (Some v) = (length v \<le> n)"
  by (simp_all add: fits_def)

text \<open>\<open>^[a-z][a-z0-9_]{0,99}$\<close>.\<close>

definition is_task_type :: "string \<Rightarrow> bool" where
  "is_task_type s = (case s of [] \<Rightarrow> False | c # cs \<Rightarrow>
     is_lower c \<and> length cs \<le> 99 \<and> list_all (\<lambda>c. is_lower c \<or> is_digit c \<or> c = CHR ''_'') cs)"

definition task_checks :: "task \<Rightarrow> bool" where
  "task_checks t \<longleftrightarrow>
     length (t_idempotency_key t) \<in> {1..255} \<and>
     hex64 (t_request_fingerprint t) \<and>
     is_task_type (t_task_type t) \<and>
     t_max_attempts t \<ge> 1 \<and>
     t_attempt_count t \<le> t_max_attempts t \<and>
     (t_status t \<noteq> APPROVED \<or> t_available_at t \<noteq> None) \<and>
     (t_status t = RUNNING \<and> t_worker_id t \<noteq> None \<and> t_lease_token_hash t \<noteq> None \<and>
        t_lease_expires_at t \<noteq> None \<and> t_last_heartbeat_at t \<noteq> None \<and> t_attempt_count t > 0 \<or>
      t_status t \<noteq> RUNNING \<and> t_worker_id t = None \<and> t_lease_token_hash t = None \<and>
        t_lease_expires_at t = None \<and> t_last_heartbeat_at t = None) \<and>
     (t_status t = SUCCEEDED \<and> t_result t \<noteq> None \<or> t_status t \<noteq> SUCCEEDED \<and> t_result t = None) \<and>
     (t_cancellation_requested_at t = None \<or> t_status t = RUNNING \<or> t_status t = CANCELLED) \<and>
     optionally hex64 (t_lease_token_hash t) \<and>
     fits 255 (t_worker_id t) \<and> fits 100 (t_last_error_code t) \<and> fits 500 (t_last_error_summary t)"

definition attempt_checks :: "task_attempt \<Rightarrow> bool" where
  "attempt_checks a \<longleftrightarrow>
     a_attempt_number a > 0 \<and>
     hex64 (a_lease_token_hash a) \<and>
     (a_status a = ATTEMPT_RUNNING \<longleftrightarrow> a_finished_at a = None) \<and>
     length (a_worker_id a) \<le> 255 \<and> fits 100 (a_error_code a) \<and> fits 500 (a_error_summary a) \<and>
     fits 100 (a_terminal_reason a)"

definition is_classification :: "string \<Rightarrow> bool" where
  "is_classification v \<longleftrightarrow> v \<in> {''public'', ''internal'', ''confidential'', ''restricted''}"

lemma is_classification_iff [simp]: "is_classification v \<longleftrightarrow> (\<exists>c. v = data_classification_value c)"
  unfolding is_classification_def
proof
  assume "\<exists>c. v = data_classification_value c"
  then obtain c where "v = data_classification_value c" by blast
  then show "v \<in> {''public'', ''internal'', ''confidential'', ''restricted''}" by (cases c) simp_all
qed (metis data_classification_value.simps empty_iff insert_iff)

definition artifact_checks :: "source_artifact \<Rightarrow> bool" where
  "artifact_checks s \<longleftrightarrow>
     s_provider s \<in> {''service_catalog'', ''jira'', ''github''} \<and>
     hex64 (s_content_hash s) \<and>
     s_payload_size_bytes s > 0 \<and>
     s_retention_until s > s_fetched_at s \<and>
     length (s_resource_type s) \<le> 100 \<and> length (s_provider_resource_identifier s) \<le> 500 \<and>
     length (s_canonical_source_url s) \<le> 2000 \<and> length (s_source_version s) \<le> 500 \<and>
     is_classification (s_data_classification s)"

definition action_checks :: "external_action \<Rightarrow> bool" where
  "action_checks x \<longleftrightarrow>
     action_status_of (x_status x) \<noteq> None \<and>
     hex64 (x_desired_request_fingerprint x) \<and>
     optionally hex64 (x_applied_request_fingerprint x) \<and>
     hex64 (x_decision_snapshot_hash x) \<and>
     x_revision x \<ge> 1 \<and>
     x_action_attempt_count x \<ge> 1 \<and>
     (x_status x = ''succeeded'' \<and> x_provider_resource_identifier x \<noteq> None \<and>
        x_applied_request_fingerprint x \<noteq> None \<and> x_completed_at x \<noteq> None \<or>
      x_status x \<noteq> ''succeeded'' \<and> x_completed_at x = None) \<and>
     (x_status x \<noteq> ''outcome_unknown'' \<or> x_write_started_at x \<noteq> None) \<and>
     length (x_provider x) \<le> 50 \<and> length (x_operation x) \<le> 100 \<and> length (x_action_scope_key x) \<le> 1000 \<and>
     fits 500 (x_provider_resource_identifier x) \<and> fits 2000 (x_provider_url x) \<and>
     fits 64 (x_response_fingerprint x) \<and> fits 100 (x_last_error_code x) \<and> fits 500 (x_last_error_summary x)"

definition action_attempt_checks :: "external_action_attempt \<Rightarrow> bool" where
  "action_attempt_checks e \<longleftrightarrow> e_sequence_number e \<ge> 1 \<and> length (e_transition e) \<le> 100 \<and>
     fits 50 (e_previous_status e) \<and> length (e_new_status e) \<le> 50 \<and> fits 100 (e_error_code e)"

section \<open>Unique and foreign keys\<close>

definition task_tables_ok :: "db \<Rightarrow> bool" where
  "task_tables_ok d \<longleftrightarrow>
     distinct (map t_id (tasks d)) \<and>
     distinct (map t_idempotency_key (tasks d)) \<and>
     (\<forall>t \<in> set (tasks d). task_checks t) \<and>
     distinct (map a_id (task_attempts d)) \<and>
     distinct (map (\<lambda>a. (a_task_id a, a_attempt_number a)) (task_attempts d)) \<and>
     (\<forall>a \<in> set (task_attempts d). attempt_checks a \<and> a_task_id a \<in> t_id ` set (tasks d))"

definition artifact_key :: "source_artifact \<Rightarrow> uuid \<times> string \<times> string \<times> string \<times> string \<times> string" where
  "artifact_key s =
     (s_task_id s, s_provider s, s_resource_type s, s_provider_resource_identifier s,
      s_source_version s, s_content_hash s)"

definition action_tables_ok :: "db \<Rightarrow> bool" where
  "action_tables_ok d \<longleftrightarrow>
     distinct (map s_id (source_artifacts d)) \<and>
     distinct (map artifact_key (source_artifacts d)) \<and>
     (\<forall>s \<in> set (source_artifacts d). artifact_checks s \<and> s_task_id s \<in> t_id ` set (tasks d) \<and>
        s_observed_by_attempt_id s \<in> a_id ` set (task_attempts d)) \<and>
     distinct (map x_id (external_actions d)) \<and>
     distinct (map x_action_scope_key (external_actions d)) \<and>
     (\<forall>x \<in> set (external_actions d). action_checks x \<and> x_task_id x \<in> t_id ` set (tasks d) \<and>
        x_current_attempt_id x \<in> a_id ` set (task_attempts d)) \<and>
     distinct (map e_id (external_action_attempts d)) \<and>
     distinct (map (\<lambda>e. (e_external_action_id e, e_sequence_number e)) (external_action_attempts d)) \<and>
     (\<forall>e \<in> set (external_action_attempts d). action_attempt_checks e \<and>
        e_external_action_id e \<in> x_id ` set (external_actions d) \<and>
        e_task_id e \<in> t_id ` set (tasks d) \<and> e_task_attempt_id e \<in> a_id ` set (task_attempts d))"

definition tables_ok :: "db \<Rightarrow> bool" where
  "tables_ok d \<longleftrightarrow> task_tables_ok d \<and> action_tables_ok d"

section \<open>Row access\<close>

text \<open>\<open>SELECT ... WHERE id = ...\<close> on the keyed tables.\<close>

definition find_task :: "db \<Rightarrow> uuid \<Rightarrow> task option" where
  "find_task d i = find (\<lambda>t. t_id t = i) (tasks d)"

definition find_action :: "db \<Rightarrow> uuid \<Rightarrow> external_action option" where
  "find_action d i = find (\<lambda>x. x_id x = i) (external_actions d)"

lemma empty_db_ok [simp]: "tables_ok empty_db"
  by (simp add: tables_ok_def task_tables_ok_def action_tables_ok_def empty_db_def)

lemma action_status_values:
  "action_status_of v = Some s \<longleftrightarrow> v = action_status_value s"
proof
  assume "action_status_of v = Some s"
  then have "action_status_value s = v"
    unfolding action_status_of_def by (metis (mono_tags) find_in_set)
  then show "v = action_status_value s" by simp
qed simp

lemma action_status_value_inj [simp]: "action_status_value s = action_status_value t \<longleftrightarrow> s = t"
  by (metis action_status_roundtrip option.inject)

lemma find_task_Some: "find_task d i = Some t \<Longrightarrow> t \<in> set (tasks d) \<and> t_id t = i"
  unfolding find_task_def by (rule find_in_set)

lemma find_task_None: "find_task d i = None \<longleftrightarrow> i \<notin> t_id ` set (tasks d)"
  by (auto simp: find_task_def find_None_iff)

lemma find_action_Some: "find_action d i = Some x \<Longrightarrow> x \<in> set (external_actions d) \<and> x_id x = i"
  unfolding find_action_def by (rule find_in_set)

lemma task_tables_okD:
  assumes "task_tables_ok d"
  shows "distinct (map t_id (tasks d))" "distinct (map t_idempotency_key (tasks d))"
    "t \<in> set (tasks d) \<Longrightarrow> task_checks t"
    "distinct (map a_id (task_attempts d))"
    "distinct (map (\<lambda>a. (a_task_id a, a_attempt_number a)) (task_attempts d))"
    "a \<in> set (task_attempts d) \<Longrightarrow> attempt_checks a"
    "a \<in> set (task_attempts d) \<Longrightarrow> a_task_id a \<in> t_id ` set (tasks d)"
  using assms by (auto simp: task_tables_ok_def)

lemma find_task_unique:
  "task_tables_ok d \<Longrightarrow> t \<in> set (tasks d) \<Longrightarrow> find_task d (t_id t) = Some t"
  unfolding find_task_def by (rule find_by_key) (auto dest: task_tables_okD)

text \<open>
  An update of the task rows that keeps the keys and the checks of every row keeps
  \<open>task_tables_ok\<close>; an update of the attempt rows likewise. The operations of the worker and of
  the service all have this shape.
\<close>

lemma task_update_ok:
  assumes ok: "task_tables_ok d"
    and key: "\<And>t. P t \<Longrightarrow> t_id (f t) = t_id t \<and> t_idempotency_key (f t) = t_idempotency_key t"
    and chk: "\<And>t. t \<in> set (tasks d) \<Longrightarrow> P t \<Longrightarrow> task_checks t \<Longrightarrow> task_checks (f t)"
  shows "task_tables_ok (d\<lparr>tasks := update_where P f (tasks d)\<rparr>)"
proof -
  let ?ts = "update_where P f (tasks d)"
  have ids: "map t_id ?ts = map t_id (tasks d)" and keys: "map t_idempotency_key ?ts = map t_idempotency_key (tasks d)"
    using key by (auto intro: map_update_where)
  then have "t_id ` set ?ts = t_id ` set (tasks d)" by (metis list.set_map)
  moreover have "task_checks t" if "t \<in> set ?ts" for t
    using that chk task_tables_okD(3) [OF ok] by (auto simp: set_update_where split: if_splits)
  ultimately show ?thesis using ok ids keys by (simp add: task_tables_ok_def)
qed

lemma attempt_update_ok:
  assumes ok: "task_tables_ok d"
    and key: "\<And>a. P a \<Longrightarrow> a_id (f a) = a_id a \<and> a_task_id (f a) = a_task_id a \<and>
      a_attempt_number (f a) = a_attempt_number a"
    and chk: "\<And>a. a \<in> set (task_attempts d) \<Longrightarrow> P a \<Longrightarrow> attempt_checks a \<Longrightarrow> attempt_checks (f a)"
  shows "task_tables_ok (d\<lparr>task_attempts := update_where P f (task_attempts d)\<rparr>)"
proof -
  let ?as = "update_where P f (task_attempts d)"
  have "map a_id ?as = map a_id (task_attempts d)"
    and "map (\<lambda>a. (a_task_id a, a_attempt_number a)) ?as = map (\<lambda>a. (a_task_id a, a_attempt_number a)) (task_attempts d)"
    using key by (auto intro: map_update_where)
  moreover have "attempt_checks a \<and> a_task_id a \<in> t_id ` set (tasks d)" if "a \<in> set ?as" for a
    using that chk key task_tables_okD(6,7) [OF ok] by (auto simp: set_update_where split: if_splits)
  ultimately show ?thesis using ok by (simp add: task_tables_ok_def)
qed

section \<open>Example rows\<close>

text \<open>Concrete rows on which the witnesses of the properties run the operations.\<close>

definition hex_a :: string where
  "hex_a = replicate 64 (CHR ''a'')"

definition pending_task :: task where
  "pending_task = \<lparr>t_id = 11, t_idempotency_key = ''key'', t_request_fingerprint = hex_a,
     t_task_type = ''diagnostic'', t_task_input = [], t_status = PENDING_APPROVAL, t_attempt_count = 0,
     t_max_attempts = 2, t_available_at = None, t_worker_id = None, t_lease_token_hash = None,
     t_lease_expires_at = None, t_last_heartbeat_at = None, t_cancellation_requested_at = None,
     t_result = None, t_last_error_code = None, t_last_error_summary = None, t_created_at = 0,
     t_updated_at = 0\<rparr>"

definition approved_task :: task where
  "approved_task = pending_task\<lparr>t_status := APPROVED, t_available_at := Some 5\<rparr>"

definition running_task :: task where
  "running_task = pending_task\<lparr>t_status := RUNNING, t_attempt_count := 1, t_worker_id := Some ''w'',
     t_lease_token_hash := Some hex_a, t_lease_expires_at := Some 100, t_last_heartbeat_at := Some 10\<rparr>"

definition running_attempt :: task_attempt where
  "running_attempt = \<lparr>a_id = 9, a_task_id = 11, a_attempt_number = 1, a_worker_id = ''w'',
     a_lease_token_hash = hex_a, a_status = ATTEMPT_RUNNING, a_started_at = 10, a_last_heartbeat_at = 10,
     a_finished_at = None, a_error_code = None, a_error_summary = None, a_terminal_reason = None\<rparr>"

definition task_db :: "task \<Rightarrow> db" where
  "task_db t = empty_db\<lparr>tasks := [t]\<rparr>"

definition running_db :: db where
  "running_db = empty_db\<lparr>tasks := [running_task], task_attempts := [running_attempt]\<rparr>"

lemma hex_a [simp]: "hex64 hex_a"
  by (simp add: hex64_def hex_a_def list_all_iff)

lemma example_checks [simp]:
  "task_checks pending_task" "task_checks approved_task" "task_checks running_task"
  "attempt_checks running_attempt"
  by (simp_all add: task_checks_def attempt_checks_def pending_task_def approved_task_def
      running_task_def running_attempt_def is_task_type_def is_lower_def less_eq_char_def)

lemma task_db_ok: "task_checks t \<Longrightarrow> task_tables_ok (task_db t)"
  by (simp add: task_tables_ok_def task_db_def empty_db_def)

lemma running_db_ok [simp]: "task_tables_ok running_db"
  by (simp add: task_tables_ok_def running_db_def empty_db_def)
    (simp add: running_task_def running_attempt_def pending_task_def)

lemma find_task_example [simp]:
  "find_task (task_db t) i = (if i = t_id t then Some t else None)"
  "find_task running_db i = (if i = 11 then Some running_task else None)"
  by (simp_all add: find_task_def task_db_def running_db_def empty_db_def running_task_def pending_task_def)

end
