(* ===== verification/Json_Canonical.thy ===== *)
theory Json_Canonical
  imports Json_Model
begin

text \<open>
  The canonical text of a JSON value determines the value up to the order of the keys of its
  dicts: \<open>dumps\<close> is an unambiguous code, proved by decoding its tokens from the left. A token
  is followed by the end of the text or by one of the three closing delimiters.
\<close>

section \<open>Well-formed values and their normal form\<close>

text \<open>A \<open>repr\<close> of a finite float: digits, signs, a point or an exponent.\<close>

definition is_number_char :: "char \<Rightarrow> bool" where
  "is_number_char c \<longleftrightarrow> is_digit c \<or> c = CHR ''-'' \<or> c = CHR ''+'' \<or> c = CHR ''.'' \<or> c = CHR ''e''"

definition float_token :: "string \<Rightarrow> bool" where
  "float_token s \<longleftrightarrow> list_all is_number_char s \<and> (CHR ''.'' \<in> set s \<or> CHR ''e'' \<in> set s)"

fun wf_json :: "json \<Rightarrow> bool" where
  "wf_json (JFloat x) = (case x of JFinite s \<Rightarrow> float_token s | _ \<Rightarrow> True)"
| "wf_json (JArr xs) = (\<forall>x \<in> set xs. wf_json x)"
| "wf_json (JObj kvs) = (distinct (map fst kvs) \<and> (\<forall>kv \<in> set kvs. wf_json (snd kv)))"
| "wf_json _ = True"

fun norm_json :: "json \<Rightarrow> json" where
  "norm_json (JArr xs) = JArr (map norm_json xs)"
| "norm_json (JObj kvs) = JObj (map (\<lambda>kv. (fst kv, norm_json (snd kv))) (sort_key fst kvs))"
| "norm_json j = j"

section \<open>Decoding tokens\<close>

definition delimited :: "string \<Rightarrow> bool" where
  "delimited r \<longleftrightarrow> r = [] \<or> hd r \<in> {CHR '','', CHR '']'', CHR ''}''}"

lemma delimited_simps [simp]:
  "delimited []" "delimited (CHR '','' # r)" "delimited (CHR '']'' # r)" "delimited (CHR ''}'' # r)"
  by (simp_all add: delimited_def)

subsection \<open>Numbers\<close>

lemma of_char_digit_char: "d < 10 \<Longrightarrow> of_char (digit_char d) = 48 + d"
  by (simp add: digit_char_def of_char_of)

lemma is_digit_iff: "is_digit c \<longleftrightarrow> 48 \<le> (of_char c :: nat) \<and> (of_char c :: nat) \<le> 57"
  by (auto simp: is_digit_def less_eq_char_def)

lemma is_digit_digit_char: "d < 10 \<Longrightarrow> is_digit (digit_char d)"
  by (simp add: is_digit_iff of_char_digit_char)

definition digits_value :: "string \<Rightarrow> nat" where
  "digits_value s = foldl (\<lambda>a c. 10 * a + (of_char c - 48)) 0 s"

lemma nat_digits_value: "digits_value (nat_digits n) = n"
proof (induction n rule: nat_digits.induct)
  case (1 n)
  show ?case
  proof (cases "n < 10")
    case True
    then show ?thesis by (subst nat_digits.simps) (simp add: digits_value_def of_char_digit_char)
  next
    case False
    with 1 have "digits_value (nat_digits (n div 10)) = n div 10" by blast
    with False show ?thesis
      by (subst nat_digits.simps) (simp add: digits_value_def of_char_digit_char)
  qed
qed

lemma nat_digits_inj: "nat_digits m = nat_digits n \<longleftrightarrow> m = n"
  by (metis nat_digits_value)

lemma nat_digits_digits: "list_all is_digit (nat_digits n)"
  by (induction n rule: nat_digits.induct) (subst nat_digits.simps, simp add: is_digit_digit_char)

lemma nat_digits_nonempty [simp]: "nat_digits n \<noteq> []"
  by (subst nat_digits.simps) simp

lemma not_digit_chars [simp]:
  "\<not> is_digit (CHR ''-'')" "\<not> is_digit (CHR ''.'')" "\<not> is_digit (CHR ''e'')"
  by (simp_all add: is_digit_iff)

lemma str_int_inj: "str_int i = str_int j \<longleftrightarrow> i = j"
proof
  assume eq: "str_int i = str_int j"
  have minus: "nat_digits m \<noteq> CHR ''-'' # s" for m s
    using nat_digits_digits [of m] by auto
  from eq minus show "i = j"
    by (auto simp: str_int_def nat_digits_inj nat_eq_iff2 split: if_splits) (metis minus)+
qed simp

lemma str_int_chars: "list_all (\<lambda>c. is_digit c \<or> c = CHR ''-'') (str_int i)"
  using nat_digits_digits by (auto simp: str_int_def list_all_iff)

lemma str_int_number: "list_all is_number_char (str_int i)"
  using str_int_chars [of i] by (auto simp: list_all_iff is_number_char_def)

lemma str_int_not_float: "\<not> float_token (str_int i)"
  using str_int_chars [of i] by (auto simp: float_token_def list_all_iff)

lemma number_token_split:
  assumes "list_all is_number_char s" "list_all is_number_char t"
    and "s @ r = t @ r'" "delimited r" "delimited r'"
  shows "s = t \<and> r = r'"
proof -
  have stop: "takeWhile is_number_char (u @ q) = u"
    if "list_all is_number_char u" "delimited q" for u q
  proof -
    have "takeWhile is_number_char q = []"
      using that(2) by (cases q) (auto simp: delimited_def is_number_char_def is_digit_iff)
    with that(1) show ?thesis by (simp add: takeWhile_append2 list_all_iff)
  qed
  from assms stop [of s r] stop [of t r'] show ?thesis by (metis same_append_eq)
qed

subsection \<open>Strings\<close>

definition unhex :: "char \<Rightarrow> nat" where
  "unhex c = (let n = of_char c in if n < 58 then n - 48 else n - 87)"

lemma unhex_hex_digit: "n < 16 \<Longrightarrow> unhex (hex_digit n) = n"
  by (simp add: unhex_def hex_digit_def Let_def of_char_of)

text \<open>The first character of an escaped text, and the rest.\<close>

fun unescape :: "string \<Rightarrow> (char \<times> string) option" where
  "unescape [] = None"
| "unescape (c # xs) =
     (if c \<noteq> CHR 0x5C then Some (c, xs)
      else (case xs of
        [] \<Rightarrow> None
      | e # ys \<Rightarrow>
          (if e = CHR ''n'' then Some (char_of (10::nat), ys)
           else if e = CHR ''r'' then Some (char_of (13::nat), ys)
           else if e = CHR ''t'' then Some (char_of (9::nat), ys)
           else if e = CHR ''b'' then Some (char_of (8::nat), ys)
           else if e = CHR ''f'' then Some (char_of (12::nat), ys)
           else if e = CHR ''u'' then
             (case ys of _ # _ # h # l # zs \<Rightarrow> Some (char_of (16 * unhex h + unhex l), zs) | _ \<Rightarrow> None)
           else Some (e, ys))))"

lemma char_of_specials:
  "char_of (34::nat) = CHR 0x22" "char_of (92::nat) = CHR 0x5C" "char_of (10::nat) = CHR 0x0A"
  "char_of (13::nat) = CHR 0x0D" "char_of (9::nat) = CHR 0x09" "char_of (8::nat) = CHR 0x08"
  "char_of (12::nat) = CHR 0x0C"
  by code_simp+

lemma unescape_escape: "unescape (escape_char c @ xs) = Some (c, xs)"
proof -
  define n :: nat where "n = of_char c"
  have c: "c = char_of n" by (simp add: n_def)
  have ctl: "16 * unhex (hex_digit (n div 16)) + unhex (hex_digit (n mod 16)) = n" if "n < 32"
    using that by (simp add: unhex_hex_digit)
  consider "n \<in> {34, 92, 10, 13, 9, 8, 12}" | "n < 32" "n \<notin> {10, 13, 9, 8, 12}"
    | "32 \<le> n" "n \<noteq> 34" "n \<noteq> 92" by fastforce
  then show ?thesis
  proof cases
    case 1
    then have "c \<in> {CHR 0x22, CHR 0x5C, CHR 0x0A, CHR 0x0D, CHR 0x09, CHR 0x08, CHR 0x0C}"
      unfolding c by (auto simp: char_of_specials)
    then show ?thesis by (auto simp: escape_char_def Let_def char_of_specials)
  next
    case 2
    then show ?thesis
      using ctl by (simp add: escape_char_def Let_def n_def [symmetric]) (simp add: c)
  next
    case 3
    have "c \<noteq> CHR 0x5C" using 3(3) by (auto simp: n_def)
    with 3 show ?thesis by (simp add: escape_char_def Let_def n_def [symmetric])
  qed
qed

lemma escape_char_nonempty [simp]: "escape_char c \<noteq> []"
  by (simp add: escape_char_def Let_def)

lemma escape_char_not_quote: "escape_char c @ xs \<noteq> quote # ys"
proof
  assume eq: "escape_char c @ xs = quote # ys"
  then have "unescape (quote # ys) = Some (c, xs)" using unescape_escape [of c xs] by simp
  then have "c = quote" by (simp add: quote_def split: if_splits)
  with eq show False by (simp add: escape_char_def quote_def Let_def)
qed

lemma escaped_split:
  assumes "concat (map escape_char s) @ quote # r = concat (map escape_char t) @ quote # r'"
  shows "s = t \<and> r = r'"
  using assms
proof (induction s arbitrary: t)
  case Nil
  show ?case
  proof (cases t)
    case (Cons d t')
    with Nil have "escape_char d @ concat (map escape_char t') @ quote # r' = quote # r" by simp
    then show ?thesis using escape_char_not_quote by blast
  qed (use Nil in simp)
next
  case (Cons c s)
  show ?case
  proof (cases t)
    case Nil
    with Cons.prems have "escape_char c @ concat (map escape_char s) @ quote # r = quote # r'" by simp
    then show ?thesis using escape_char_not_quote by blast
  next
    case (Cons d t')
    with Cons.prems have "unescape (escape_char c @ concat (map escape_char s) @ quote # r) =
        unescape (escape_char d @ concat (map escape_char t') @ quote # r')" by simp
    then have "c = d" "concat (map escape_char s) @ quote # r = concat (map escape_char t') @ quote # r'"
      by (simp_all add: unescape_escape)
    with Cons.IH Cons show ?thesis by blast
  qed
qed

lemma dump_string_split: "dump_string s @ r = dump_string t @ r' \<Longrightarrow> s = t \<and> r = r'"
  by (auto simp: dump_string_def dest: escaped_split)

section \<open>Unambiguity\<close>

text \<open>What one decoder of the elements gives for a bracketed, comma-separated sequence of them.\<close>

lemma join_split:
  assumes dec: "\<And>x y r s. x \<in> set xs \<Longrightarrow> y \<in> set ys \<Longrightarrow> f x @ r = f y @ s \<Longrightarrow> delimited r \<Longrightarrow>
      delimited s \<Longrightarrow> N x = N y \<and> r = s"
    and open_ne: "\<And>z. z \<in> set xs \<union> set ys \<Longrightarrow> f z \<noteq> [] \<and> hd (f z) \<noteq> close"
    and close: "close \<in> {CHR '']'', CHR ''}''}"
    and eq: "join '','' (map f xs) @ close # r = join '','' (map f ys) @ close # s"
  shows "map N xs = map N ys \<and> r = s"
  using dec open_ne eq
proof (induction xs arbitrary: ys)
  case Nil
  then show ?case
  proof (cases ys)
    case (Cons y ys')
    from Nil(2) [of y] Cons have "f y \<noteq> []" "hd (f y) \<noteq> close" by auto
    then obtain c u where "f y = c # u" "c \<noteq> close" by (cases "f y") auto
    with Nil(3) Cons show ?thesis by (cases ys') auto
  qed simp
next
  case (Cons x xs)
  define tail where "tail zs q = (if zs = [] then close # q else '','' @ join '','' (map f zs) @ close # q)"
    for zs q
  have unfold: "join '','' (map f (z # zs)) @ close # q = f z @ tail zs q" for z zs q
    by (cases zs) (simp_all add: tail_def)
  have tail: "delimited (tail zs q)" for zs q using close by (auto simp: tail_def)
  show ?case
  proof (cases ys)
    case Nil
    from Cons.prems(2) [of x] have "f x \<noteq> []" "hd (f x) \<noteq> close" by auto
    then obtain c u where "f x = c # u" "c \<noteq> close" by (cases "f x") auto
    with Cons.prems(3) Nil show ?thesis by (cases xs) auto
  next
    case ys: (Cons y ys')
    have "f x @ tail xs r = f y @ tail ys' s" using Cons.prems(3) unfold ys by metis
    with Cons.prems(1) [of x y] tail ys have N: "N x = N y" and t: "tail xs r = tail ys' s" by auto
    have comma: "close \<noteq> CHR '',''" using close by auto
    show ?thesis
    proof (cases "xs = []")
      case True
      with t comma show ?thesis using N ys by (cases "ys' = []") (auto simp: tail_def)
    next
      case False
      with t comma have "ys' \<noteq> []" by (auto simp: tail_def)
      with t False have "join '','' (map f xs) @ close # r = join '','' (map f ys') @ close # s"
        by (simp add: tail_def)
      from Cons.IH [OF _ _ this] Cons.prems(1,2) ys have "map N xs = map N ys' \<and> r = s" by auto
      with N ys show ?thesis by simp
    qed
  qed
qed

text \<open>The first character of a dump tells the type apart, except for the two kinds of number.\<close>

primrec json_kind :: "json \<Rightarrow> nat" where
  "json_kind JNull = 0"
| "json_kind (JBool b) = 1"
| "json_kind (JInt i) = 2"
| "json_kind (JFloat x) = 2"
| "json_kind (JStr s) = 3"
| "json_kind (JArr xs) = 4"
| "json_kind (JObj kvs) = 5"

definition lead_kind :: "char \<Rightarrow> nat" where
  "lead_kind c = (if c = CHR ''n'' then 0 else if c = CHR ''t'' \<or> c = CHR ''f'' then 1
     else if c = quote then 3 else if c = CHR ''['' then 4 else if c = CHR ''{'' then 5 else 2)"

lemma lead_kind_number: "is_number_char c \<Longrightarrow> lead_kind c = 2"
  by (auto simp: lead_kind_def is_number_char_def is_digit_iff quote_def)

lemma number_lead: "s \<noteq> [] \<Longrightarrow> list_all is_number_char s \<Longrightarrow> lead_kind (hd s) = 2"
  by (cases s) (auto simp: lead_kind_number)

lemma str_int_nonempty [simp]: "str_int i \<noteq> []"
  by (simp add: str_int_def)

lemma dumps_lead:
  assumes "wf_json j" "\<not> contains_non_finite j"
  shows "dumps j \<noteq> [] \<and> lead_kind (hd (dumps j)) = json_kind j"
proof (cases j)
  case (JFloat x)
  with assms obtain s where "x = JFinite s" "float_token s" by (cases x) auto
  then have "s \<noteq> []" "lead_kind (hd s) = 2" by (auto simp: float_token_def intro!: number_lead)
  with JFloat \<open>x = JFinite s\<close> show ?thesis by simp
next
  case (JInt i)
  then show ?thesis using number_lead [OF str_int_nonempty str_int_number] by simp
qed (simp_all add: lead_kind_def dump_string_def quote_def)

lemma number_cases:
  assumes "json_kind j = 2" "wf_json j" "\<not> contains_non_finite j"
  obtains i where "j = JInt i" | s where "j = JFloat (JFinite s)" "float_token s"
  using assms by (cases j) (auto split: json_float.splits)

lemma dumps_not_close:
  assumes "wf_json j" "\<not> contains_non_finite j"
  shows "dumps j \<noteq> [] \<and> hd (dumps j) \<noteq> CHR '']''"
proof -
  have "dumps j \<noteq> [] \<and> hd (dumps j) \<noteq> CHR '']''" if "json_kind j = 2"
  proof -
    from that assms have num: "list_all is_number_char (dumps j)"
      by (rule number_cases) (auto simp: float_token_def str_int_number)
    from dumps_lead [OF assms] obtain c u where "dumps j = c # u" by (cases "dumps j") auto
    with num show ?thesis by (auto simp: is_number_char_def is_digit_iff)
  qed
  moreover have "lead_kind CHR '']'' = 2" by (simp add: lead_kind_def quote_def)
  ultimately show ?thesis using dumps_lead [OF assms] by (cases "json_kind j = 2") auto
qed

lemma dumps_same_kind:
  assumes "wf_json a" "wf_json b" "\<not> contains_non_finite a" "\<not> contains_non_finite b"
    and "dumps a @ r = dumps b @ s"
  shows "json_kind a = json_kind b"
proof -
  from dumps_lead [of a] dumps_lead [of b] assms
  have ne: "dumps a \<noteq> []" "dumps b \<noteq> []"
    and k: "lead_kind (hd (dumps a)) = json_kind a" "lead_kind (hd (dumps b)) = json_kind b" by auto
  have "hd (dumps a) = hd (dumps a @ r)" using ne by simp
  also have "\<dots> = hd (dumps b)" using ne assms(5) by simp
  finally show ?thesis using k by simp
qed

lemma dumps_split_number:
  assumes "json_kind a = 2" "json_kind b = 2" "wf_json a" "wf_json b"
    and "\<not> contains_non_finite a" "\<not> contains_non_finite b"
    and "dumps a @ r = dumps b @ s" "delimited r" "delimited s"
  shows "norm_json a = norm_json b \<and> r = s"
proof -
  have num: "list_all is_number_char (dumps j)"
    if "json_kind j = 2" "wf_json j" "\<not> contains_non_finite j" for j
    using that by (rule number_cases) (auto simp: float_token_def str_int_number)
  have eq: "dumps a = dumps b \<and> r = s"
    using number_token_split [OF num num] assms by blast
  show ?thesis
    using assms(1,3,5)
  proof (rule number_cases)
    fix i
    assume a: "a = JInt i"
    from assms(2,4,6) show ?thesis
      by (rule number_cases) (use a eq str_int_not_float in \<open>auto simp: str_int_inj\<close>)
  next
    fix t
    assume a: "a = JFloat (JFinite t)" "float_token t"
    from assms(2,4,6) show ?thesis
      by (rule number_cases) (use a eq str_int_not_float in auto)
  qed
qed

lemma dumps_split:
  "wf_json a \<Longrightarrow> wf_json b \<Longrightarrow> \<not> contains_non_finite a \<Longrightarrow> \<not> contains_non_finite b \<Longrightarrow>
   dumps a @ r = dumps b @ s \<Longrightarrow> delimited r \<Longrightarrow> delimited s \<Longrightarrow>
   norm_json a = norm_json b \<and> r = s"
proof (induction a arbitrary: b r s rule: dumps.induct)
  case 1
  from dumps_same_kind [OF 1(1-5)] have "b = JNull" by (cases b) auto
  with 1 show ?case by simp
next
  case (2 x)
  from dumps_same_kind [OF 2(1-5)] obtain y where "b = JBool y" by (cases b) auto
  with 2 show ?case by (auto split: if_splits)
next
  case (3 i)
  from dumps_same_kind [OF 3(1-5)] have "json_kind b = 2" by simp
  then show ?case by (intro dumps_split_number [OF _ _ 3]) simp
next
  case (4 x)
  from dumps_same_kind [OF 4(1-5)] have "json_kind b = 2" by simp
  then show ?case by (intro dumps_split_number [OF _ _ 4]) simp
next
  case (5 u)
  from dumps_same_kind [OF 5(1-5)] obtain v where "b = JStr v" by (cases b) auto
  with 5 show ?case by (auto dest: dump_string_split)
next
  case (6 xs)
  from dumps_same_kind [OF 6(2-6)] obtain ys where b: "b = JArr ys" by (cases b) auto
  have "map norm_json xs = map norm_json ys \<and> r = s"
  proof (rule join_split [where f = dumps and close = "CHR '']''"])
    show "dumps z \<noteq> [] \<and> hd (dumps z) \<noteq> CHR '']''" if "z \<in> set xs \<union> set ys" for z
      by (rule dumps_not_close) (use that 6(2-5) b in auto)
    show "join '','' (map dumps xs) @ CHR '']'' # r = join '','' (map dumps ys) @ CHR '']'' # s"
      using 6(6) b by simp
    show "norm_json x = norm_json y \<and> q = q'"
      if x: "x \<in> set xs" and y: "y \<in> set ys" and eq: "dumps x @ q = dumps y @ q'"
        and d: "delimited q" "delimited q'" for x y q q'
    proof (rule 6(1) [OF x _ _ _ _ eq d])
      show "wf_json x" "\<not> contains_non_finite x" using 6(2,4) x by simp_all
      show "wf_json y" "\<not> contains_non_finite y" using 6(3,5) b y by simp_all
    qed
  qed simp
  with b show ?case by simp
next
  case (7 kvs)
  from dumps_same_kind [OF 7(2-6)] obtain lvs where b: "b = JObj lvs" by (cases b) auto
  let ?f = "\<lambda>kv. dump_string (fst kv) @ '':'' @ dumps (snd kv)"
  let ?N = "\<lambda>kv. (fst kv, norm_json (snd kv))"
  have "map ?N (sort_key fst kvs) = map ?N (sort_key fst lvs) \<and> r = s"
  proof (rule join_split [where f = ?f and close = "CHR ''}''"])
    show "?f z \<noteq> [] \<and> hd (?f z) \<noteq> CHR ''}''" for z by (simp add: dump_string_def quote_def)
    show "join '','' (map ?f (sort_key fst kvs)) @ CHR ''}'' # r =
          join '','' (map ?f (sort_key fst lvs)) @ CHR ''}'' # s"
      using 7(6) b by simp
    show "?N x = ?N y \<and> q = q'"
      if x: "x \<in> set (sort_key fst kvs)" and y: "y \<in> set (sort_key fst lvs)"
        and eq: "?f x @ q = ?f y @ q'" and d: "delimited q" "delimited q'" for x y q q'
    proof -
      from eq have "dump_string (fst x) @ CHR '':'' # dumps (snd x) @ q =
          dump_string (fst y) @ CHR '':'' # dumps (snd y) @ q'" by simp
      then have k: "fst x = fst y" and v: "dumps (snd x) @ q = dumps (snd y) @ q'"
        by (auto dest: dump_string_split)
      have "norm_json (snd x) = norm_json (snd y) \<and> q = q'"
      proof (rule 7(1) [OF x _ _ _ _ v d])
        have kv: "x \<in> set kvs" "y \<in> set lvs" using x y by simp_all
        show "wf_json (snd x)" using 7(2) kv(1) by simp
        show "wf_json (snd y)" using 7(3) b kv(2) by simp
        show "\<not> contains_non_finite (snd x)" using 7(4) kv(1) by simp
        show "\<not> contains_non_finite (snd y)" using 7(5) b kv(2) by simp
      qed
      with k show ?thesis by simp
    qed
  qed simp
  with b show ?case by simp
qed

section \<open>The canonical text\<close>

text \<open>
  Two finite values have the same canonical text exactly when they are equal up to the order of
  the keys of their dicts, at every depth.
\<close>

lemma dumps_norm: "dumps (norm_json j) = dumps j"
proof (induction j rule: dumps.induct)
  case (6 xs)
  then show ?case by (simp cong: map_cong)
next
  case (7 kvs)
  let ?N = "\<lambda>kv. (fst kv, norm_json (snd kv))"
  have "sorted (map fst (map ?N (sort_key fst kvs)))" by (simp add: comp_def)
  then have "sort_key fst (map ?N (sort_key fst kvs)) = map ?N (sort_key fst kvs)"
    by (rule sort_key_id_if_sorted)
  moreover have "map (\<lambda>kv. dump_string (fst kv) @ '':'' @ dumps (snd kv)) (map ?N (sort_key fst kvs)) =
      map (\<lambda>kv. dump_string (fst kv) @ '':'' @ dumps (snd kv)) (sort_key fst kvs)"
    using 7 by auto
  ultimately show ?case by (simp del: map_map)
qed simp_all

lemma dumps_inj:
  assumes "wf_json a" "wf_json b" "\<not> contains_non_finite a" "\<not> contains_non_finite b"
  shows "dumps a = dumps b \<longleftrightarrow> norm_json a = norm_json b"
  using dumps_split [OF assms, of "[]" "[]"] dumps_norm by (metis append_Nil2 delimited_simps(1))

end
