(* ===== verification/Sha256.thy ===== *)
theory Sha256
  imports Json_Model "HOL-Library.Word"
begin

unbundle bit_operations_syntax

text \<open>
  \<open>hashlib.sha256(data).hexdigest()\<close> of the standard library, which the program uses for
  request fingerprints, lease-token hashes, content hashes and comment markers: the FIPS 180-4
  function on bytes, with the shape of its result. Collision freedom is never assumed; a
  property that compares digests says what equal digests give up to a collision.
\<close>

type_synonym u32 = "32 word"

definition sha_K :: "u32 list" where
  "sha_K =
   [1116352408, 1899447441, 3049323471, 3921009573, 961987163, 1508970993, 2453635748, 2870763221,
    3624381080, 310598401, 607225278, 1426881987, 1925078388, 2162078206, 2614888103, 3248222580,
    3835390401, 4022224774, 264347078, 604807628, 770255983, 1249150122, 1555081692, 1996064986,
    2554220882, 2821834349, 2952996808, 3210313671, 3336571891, 3584528711, 113926993, 338241895,
    666307205, 773529912, 1294757372, 1396182291, 1695183700, 1986661051, 2177026350, 2456956037,
    2730485921, 2820302411, 3259730800, 3345764771, 3516065817, 3600352804, 4094571909, 275423344,
    430227734, 506948616, 659060556, 883997877, 958139571, 1322822218, 1537002063, 1747873779,
    1955562222, 2024104815, 2227730452, 2361852424, 2428436474, 2756734187, 3204031479, 3329325298]"

definition rotr :: "nat \<Rightarrow> u32 \<Rightarrow> u32" where
  "rotr n x = drop_bit n x OR push_bit (32 - n) x"

text \<open>The message schedule, kept newest word first.\<close>

primrec extend_schedule :: "nat \<Rightarrow> u32 list \<Rightarrow> u32 list" where
  "extend_schedule 0 ws = ws"
| "extend_schedule (Suc n) ws =
     (let w15 = ws ! 14; w2 = ws ! 1;
          s0 = rotr 7 w15 XOR rotr 18 w15 XOR drop_bit 3 w15;
          s1 = rotr 17 w2 XOR rotr 19 w2 XOR drop_bit 10 w2
      in extend_schedule n ((ws ! 15 + s0 + ws ! 6 + s1) # ws))"

datatype sha_state = Sha u32 u32 u32 u32 u32 u32 u32 u32

fun sha_round :: "sha_state \<Rightarrow> u32 \<times> u32 \<Rightarrow> sha_state" where
  "sha_round (Sha a b c d e f g h) (k, w) =
     (let s1 = rotr 6 e XOR rotr 11 e XOR rotr 25 e;
          ch = (e AND f) XOR (NOT e AND g);
          t1 = h + s1 + ch + k + w;
          s0 = rotr 2 a XOR rotr 13 a XOR rotr 22 a;
          maj = (a AND b) XOR (a AND c) XOR (b AND c)
      in Sha (t1 + (s0 + maj)) a b c (d + t1) e f g)"

fun sha_add :: "sha_state \<Rightarrow> sha_state \<Rightarrow> sha_state" where
  "sha_add (Sha a b c d e f g h) (Sha a' b' c' d' e' f' g' h') =
     Sha (a + a') (b + b') (c + c') (d + d') (e + e') (f + f') (g + g') (h + h')"

definition sha_block :: "sha_state \<Rightarrow> u32 list \<Rightarrow> sha_state" where
  "sha_block s ws = sha_add s (foldl sha_round s (zip sha_K (rev (extend_schedule 48 (rev ws)))))"

definition sha_init :: sha_state where
  "sha_init = Sha 1779033703 3144134277 1013904242 2773480762 1359893119 2600822924 528734635 1541459225"

text \<open>Padding to a multiple of 64 bytes, then big-endian words, then blocks of sixteen.\<close>

definition sha_pad :: "nat list \<Rightarrow> nat list" where
  "sha_pad bs = (let n = length bs; z = (119 - n mod 64) mod 64
     in bs @ [128] @ replicate z 0 @ map (\<lambda>i. (8 * n div 256 ^ (7 - i)) mod 256) [0..<8])"

fun be_words :: "nat list \<Rightarrow> u32 list" where
  "be_words (a # b # c # d # bs) =
     word_of_nat (a * 16777216 + b * 65536 + c * 256 + d) # be_words bs"
| "be_words _ = []"

function sha_blocks :: "sha_state \<Rightarrow> u32 list \<Rightarrow> sha_state" where
  "sha_blocks s ws = (if length ws < 16 then s else sha_blocks (sha_block s (take 16 ws)) (drop 16 ws))"
  by pat_completeness auto
termination
  by (relation "measure (\<lambda>(s, ws). length ws)") auto

declare sha_blocks.simps [simp del]

definition hex_word :: "u32 \<Rightarrow> string" where
  "hex_word w = map (\<lambda>i. hex_digit (unat w div 16 ^ (7 - i) mod 16)) [0..<8]"

fun sha_hex :: "sha_state \<Rightarrow> string" where
  "sha_hex (Sha a b c d e f g h) = concat (map hex_word [a, b, c, d, e, f, g, h])"

text \<open>The argument is a byte string: one character per byte.\<close>

definition sha256_hex :: "string \<Rightarrow> string" where
  "sha256_hex s = sha_hex (sha_blocks sha_init (be_words (sha_pad (map of_char s))))"

lemma hex_digit_class:
  "n < 16 \<Longrightarrow> is_digit (hex_digit n) \<or> (CHR ''a'' \<le> hex_digit n \<and> hex_digit n \<le> CHR ''f'')"
  by (auto simp: hex_digit_def is_digit_def less_eq_char_def of_char_of)

lemma sha256_hex64 [simp]: "hex64 (sha256_hex s)"
proof -
  have w: "length (hex_word w) = 8 \<and>
      list_all (\<lambda>c. is_digit c \<or> (CHR ''a'' \<le> c \<and> c \<le> CHR ''f'')) (hex_word w)" for w
    using hex_digit_class by (auto simp: hex_word_def list_all_iff)
  obtain a b c d e f g h where "sha_blocks sha_init (be_words (sha_pad (map of_char s))) = Sha a b c d e f g h"
    by (cases "sha_blocks sha_init (be_words (sha_pad (map of_char s)))") blast
  with w show ?thesis by (simp add: sha256_hex_def hex64_def)
qed

lemma sha256_hex_length [simp]: "length (sha256_hex s) = 64"
  using sha256_hex64 [of s] by (simp add: hex64_def del: sha256_hex64)

end
