(* ===== verification/Task_Service.thy ===== *)
theory Task_Service
  imports Database Json_Canonical Sha256
begin

text \<open>
  The task service: \<open>tasks/service.py\<close> over \<open>tasks/repository.py\<close>. Each service call is one
  database transaction (\<open>session.begin()\<close> and the row lock make it atomic), modelled as a function
  from the database to an exception (the transaction rolls back) or a result and the new
  database. The clock readings and the fresh identifier of \<open>uuid4\<close> are arguments. The application
  clock \<open>datetime.now(UTC)\<close> stamps a creation and \<open>clock_timestamp()\<close> of PostgreSQL a transition.
\<close>

type_synonym 'a tx = "db \<Rightarrow> exn + ('a \<times> db)"

section \<open>Request fingerprints\<close>

definition task_request_fingerprint :: "string \<Rightarrow> jobj \<Rightarrow> string result" where
  "task_request_fingerprint task_type task_input =
     bindR (json_bytes (JObj [(''input'', JObj task_input), (''task_type'', JStr task_type)]))
       (\<lambda>canonical_request. Inr (sha256_hex canonical_request))"

definition idempotency_key_log_hash :: "string \<Rightarrow> string" where
  "idempotency_key_log_hash idempotency_key = take 12 (sha256_hex (encode idempotency_key))"

definition next_updated_at :: "time \<Rightarrow> time \<Rightarrow> time" where
  "next_updated_at now current_updated_at =
     (if now \<le> current_updated_at then current_updated_at + 1 else now)"

text \<open>The \<open>extra\<close> dictionary of a lifecycle log record.\<close>

definition log_task_event ::
  "string \<Rightarrow> task \<Rightarrow> task_status option \<Rightarrow> task_status \<Rightarrow> string option \<Rightarrow> (string \<times> json) list" where
  "log_task_event event task previous_status new_status idempotency_key =
     [(''event'', JStr event),
      (''task_id'', JStr (uuid_str (t_id task))),
      (''task_type'', JStr (t_task_type task)),
      (''previous_status'', case previous_status of None \<Rightarrow> JNull | Some s \<Rightarrow> JStr (task_status_value s)),
      (''new_status'', JStr (task_status_value new_status))] @
     (case idempotency_key of None \<Rightarrow> [] | Some k \<Rightarrow> [(''idempotency_key_hash'', JStr (idempotency_key_log_hash k))])"

section \<open>Repository\<close>

definition insert_if_absent ::
  "uuid \<Rightarrow> string \<Rightarrow> string \<Rightarrow> string \<Rightarrow> jobj \<Rightarrow> time \<Rightarrow> nat \<Rightarrow> db \<Rightarrow> task option \<times> db" where
  "insert_if_absent task_id idempotency_key request_fingerprint task_type task_input timestamp max_attempts d =
     (if idempotency_key \<in> t_idempotency_key ` set (tasks d) then (None, d)
      else let t = \<lparr>t_id = task_id, t_idempotency_key = idempotency_key,
                    t_request_fingerprint = request_fingerprint, t_task_type = task_type,
                    t_task_input = task_input, t_status = PENDING_APPROVAL, t_attempt_count = 0,
                    t_max_attempts = max_attempts, t_available_at = None, t_worker_id = None,
                    t_lease_token_hash = None, t_lease_expires_at = None, t_last_heartbeat_at = None,
                    t_cancellation_requested_at = None, t_result = None, t_last_error_code = None,
                    t_last_error_summary = None, t_created_at = timestamp, t_updated_at = timestamp\<rparr>
           in (Some t, d\<lparr>tasks := tasks d @ [t]\<rparr>))"

definition get_by_idempotency_key :: "string \<Rightarrow> db \<Rightarrow> task option" where
  "get_by_idempotency_key idempotency_key d = find (\<lambda>t. t_idempotency_key t = idempotency_key) (tasks d)"

definition get_by_id :: "uuid \<Rightarrow> db \<Rightarrow> task option" where
  "get_by_id task_id d = find_task d task_id"

definition get_by_id_for_update :: "uuid \<Rightarrow> db \<Rightarrow> task option" where
  "get_by_id_for_update task_id d = find_task d task_id"

text \<open>The flush of a changed ORM object: the row of its identifier takes its columns.\<close>

definition flush_task :: "task \<Rightarrow> db \<Rightarrow> db" where
  "flush_task t d = d\<lparr>tasks := update_where (\<lambda>r. t_id r = t_id t) (\<lambda>_. t) (tasks d)\<rparr>"

section \<open>Service\<close>

text \<open>
  The statement of \<open>insert_if_absent\<close> binds the input as JSONB, so PostgreSQL refuses an input with
  a NUL before it looks for the key.
\<close>

record create_task_result =
  created_task :: task
  created :: bool

definition create_task ::
  "nat \<Rightarrow> uuid \<Rightarrow> time \<Rightarrow> string \<Rightarrow> string \<Rightarrow> jobj \<Rightarrow> create_task_result tx" where
  "create_task default_max_attempts task_id timestamp idempotency_key task_type task_input d =
     bindR (task_request_fingerprint task_type task_input) (\<lambda>fingerprint.
     bindR (guardR (jsonb_ok (JObj task_input)) data_error) (\<lambda>_.
       case insert_if_absent task_id idempotency_key fingerprint task_type task_input timestamp
              default_max_attempts d of
         (Some t, d') \<Rightarrow> Inr (\<lparr>created_task = t, created = True\<rparr>, d')
       | (None, d') \<Rightarrow>
           (case get_by_idempotency_key idempotency_key d' of
              None \<Rightarrow> Inl (RuntimeError ''Idempotency conflict did not resolve to a persisted task'')
            | Some existing_task \<Rightarrow>
                if t_request_fingerprint existing_task \<noteq> fingerprint then Inl IdempotencyConflictError
                else Inr (\<lparr>created_task = existing_task, created = False\<rparr>, d'))))"

definition get_task :: "uuid \<Rightarrow> db \<Rightarrow> task result" where
  "get_task task_id d = expectR (TaskNotFoundError task_id) (get_by_id task_id d)"

definition apply_command :: "time \<Rightarrow> uuid \<Rightarrow> task_command \<Rightarrow> task tx" where
  "apply_command database_now task_id command d =
     bindR (expectR (TaskNotFoundError task_id) (get_by_id_for_update task_id d)) (\<lambda>t.
     bindR (apply_task_command (t_status t) command) (\<lambda>s.
       if s \<noteq> t_status t then
         let t' = t\<lparr>t_status := s, t_updated_at := max database_now (t_updated_at t + 1)\<rparr>;
             t'' = (if command = APPROVE then t'\<lparr>t_available_at := Some database_now\<rparr> else t')
         in Inr (t'', flush_task t'' d)
       else Inr (t, d)))"

definition approve_task :: "time \<Rightarrow> uuid \<Rightarrow> task tx" where
  "approve_task database_now task_id = apply_command database_now task_id APPROVE"

definition cancel_task :: "time \<Rightarrow> uuid \<Rightarrow> task tx" where
  "cancel_task database_now task_id d =
     bindR (expectR (TaskNotFoundError task_id) (get_by_id_for_update task_id d)) (\<lambda>t.
     bindR (decide_cancellation (t_status t) (t_cancellation_requested_at t \<noteq> None)) (\<lambda>decision.
       if cd_new_status decision \<noteq> t_status t \<or> cd_request_cancellation decision then
         let t1 = t\<lparr>t_status := cd_new_status decision\<rparr>;
             t2 = (if cd_request_cancellation decision
                   then t1\<lparr>t_cancellation_requested_at := Some database_now\<rparr> else t1);
             t3 = (if cd_new_status decision = CANCELLED then t2\<lparr>t_available_at := None\<rparr> else t2);
             t4 = t3\<lparr>t_updated_at := max database_now (t_updated_at t + 1)\<rparr>
         in Inr (t4, flush_task t4 d)
       else Inr (t, d)))"

section \<open>Lemmas\<close>

lemma fingerprint_hex: "task_request_fingerprint ty inp = Inr fp \<Longrightarrow> hex64 fp"
  by (auto simp: task_request_fingerprint_def result_simps)

lemma sort_items [simp]:
  "sort_key fst [(''input'', a), (''task_type'', b)] = [(''input'', a), (''task_type'', b)]"
  by (simp add: less_char_def)

lemma flush_task_find:
  "find_task (flush_task t d) i =
     (if i = t_id t \<and> find_task d i \<noteq> None then Some t else find_task d i)"
  by (auto simp: find_task_def flush_task_def find_put)

lemma flush_task_ok:
  assumes ok: "task_tables_ok d" and t: "find_task d (t_id t) = Some t0"
    and key: "t_idempotency_key t = t_idempotency_key t0" and chk: "task_checks t"
  shows "task_tables_ok (flush_task t d)"
proof -
  have "update_where (\<lambda>r. t_id r = t_id t) (\<lambda>_. t) (tasks d) =
      update_where (\<lambda>r. r = t0) (\<lambda>_. t) (tasks d)"
    using find_task_Some [OF t] task_tables_okD(1) [OF ok]
    by (auto simp: update_where_def dest: distinct_key_unique)
  moreover have "task_tables_ok (d\<lparr>tasks := update_where (\<lambda>r. r = t0) (\<lambda>_. t) (tasks d)\<rparr>)"
    using ok key chk find_task_Some [OF t] by (intro task_update_ok) auto
  ultimately show ?thesis by (simp add: flush_task_def)
qed

lemma flush_task_rest [simp]:
  "task_attempts (flush_task t d) = task_attempts d"
  "source_artifacts (flush_task t d) = source_artifacts d"
  "external_actions (flush_task t d) = external_actions d"
  "external_action_attempts (flush_task t d) = external_action_attempts d"
  "t_id ` set (tasks (flush_task t d)) = t_id ` set (tasks d)"
  unfolding flush_task_def by (simp_all, rule image_update_where, simp)

lemma create_task_storable: "create_task m i ts key ty inp d = Inr (r, d') \<Longrightarrow> jsonb_ok (JObj inp)"
  by (auto simp: create_task_def result_simps)

lemma create_task_cases:
  assumes "create_task m i ts key ty inp d = Inr (r, d')"
  obtains fp where "task_request_fingerprint ty inp = Inr fp"
    "t_request_fingerprint (created_task r) = fp" "t_idempotency_key (created_task r) = key"
    "created r" "key \<notin> t_idempotency_key ` set (tasks d)"
    "d' = d\<lparr>tasks := tasks d @ [created_task r]\<rparr>"
    "t_id (created_task r) = i" "t_task_type (created_task r) = ty" "t_task_input (created_task r) = inp"
    "t_status (created_task r) = PENDING_APPROVAL"
    "1 \<le> m \<Longrightarrow> length key \<in> {1..255} \<Longrightarrow> is_task_type ty \<Longrightarrow> task_checks (created_task r)"
  | fp where "task_request_fingerprint ty inp = Inr fp" "t_request_fingerprint (created_task r) = fp"
    "\<not> created r" "d' = d" "get_by_idempotency_key key d = Some (created_task r)"
proof -
  from assms obtain fp where fp: "task_request_fingerprint ty inp = Inr fp"
    by (auto simp: create_task_def result_simps)
  note j = create_task_storable [OF assms]
  show thesis
  proof (cases "key \<in> t_idempotency_key ` set (tasks d)")
    case True
    with assms fp that(2) show ?thesis
      by (auto simp: create_task_def insert_if_absent_def j simp del: jsonb_ok.simps split: option.splits if_splits)
  next
    case False
    with assms fp fingerprint_hex [OF fp] that(1) show ?thesis
      by (auto simp: create_task_def insert_if_absent_def task_checks_def Let_def j simp del: jsonb_ok.simps)
  qed
qed

lemma filter_key_single:
  assumes "distinct (map key ts)" and "t \<in> set ts"
  shows "filter (\<lambda>s. key s = key t) ts = [t]"
proof -
  obtain xs ys where "ts = xs @ t # ys" using split_list [OF assms(2)] by blast
  moreover from this assms(1) have "\<forall>s \<in> set xs \<union> set ys. key s \<noteq> key t" by (auto simp: image_iff)
  ultimately show ?thesis by (auto simp: filter_empty_conv)
qed

lemma get_by_key_insert:
  "key \<notin> t_idempotency_key ` set ts \<Longrightarrow> t_idempotency_key t = key \<Longrightarrow>
   find (\<lambda>t. t_idempotency_key t = key) (ts @ [t]) = Some t"
  by (induction ts) auto

lemma create_task_stored:
  assumes "create_task m i ts key ty inp d = Inr (r, d')"
  shows "get_by_idempotency_key key d' = Some (created_task r)"
  using assms
  by (rule create_task_cases) (simp_all add: get_by_idempotency_key_def get_by_key_insert)

lemma create_task_again:
  assumes "get_by_idempotency_key key d = Some t" and "jsonb_ok (JObj inp)"
  shows "create_task m i ts key ty inp d =
     bindR (task_request_fingerprint ty inp) (\<lambda>fp.
       if t_request_fingerprint t = fp then Inr (\<lparr>created_task = t, created = False\<rparr>, d)
       else Inl IdempotencyConflictError)"
proof -
  from assms have "key \<in> t_idempotency_key ` set (tasks d)"
    unfolding get_by_idempotency_key_def by (auto dest: find_in_set)
  with assms show ?thesis
    by (auto simp: create_task_def insert_if_absent_def bindR_def simp del: jsonb_ok.simps split: sum.splits)
qed

lemma create_task_ok:
  assumes "create_task m i ts key ty inp d = Inr (r, d')" and ok: "task_tables_ok d"
    and fresh: "i \<notin> t_id ` set (tasks d)"
    and req: "1 \<le> m" "length key \<in> {1..255}" "is_task_type ty"
  shows "task_tables_ok d'"
  using assms(1)
proof (rule create_task_cases)
  assume new: "d' = d\<lparr>tasks := tasks d @ [created_task r]\<rparr>" "t_id (created_task r) = i"
    "t_idempotency_key (created_task r) = key" "key \<notin> t_idempotency_key ` set (tasks d)"
    and "1 \<le> m \<Longrightarrow> length key \<in> {1..255} \<Longrightarrow> is_task_type ty \<Longrightarrow> task_checks (created_task r)"
  with req have "task_checks (created_task r)" by simp
  with new ok fresh show ?thesis by (auto simp: task_tables_ok_def)
qed (use ok in simp)

text \<open>The canonical text separates requests: the type and the input up to the order of keys.\<close>

definition same_request :: "string \<Rightarrow> jobj \<Rightarrow> string \<Rightarrow> jobj \<Rightarrow> bool" where
  "same_request ty inp ty' inp' \<longleftrightarrow> ty = ty' \<and> norm_json (JObj inp) = norm_json (JObj inp')"

definition valid_input :: "jobj \<Rightarrow> bool" where
  "valid_input inp \<longleftrightarrow> wf_json (JObj inp) \<and> \<not> contains_non_finite (JObj inp) \<and> jsonb_ok (JObj inp)"

lemma json_bytes_request:
  assumes "valid_input inp" "valid_input inp'"
  shows "json_bytes (JObj [(''input'', JObj inp), (''task_type'', JStr ty)]) =
         json_bytes (JObj [(''input'', JObj inp'), (''task_type'', JStr ty')]) \<longleftrightarrow>
         same_request ty inp ty' inp'"
proof -
  let ?a = "JObj [(''input'', JObj inp), (''task_type'', JStr ty)]"
  let ?b = "JObj [(''input'', JObj inp'), (''task_type'', JStr ty')]"
  have "wf_json ?a" "wf_json ?b" "\<not> contains_non_finite ?a" "\<not> contains_non_finite ?b"
    using assms by (auto simp: valid_input_def)
  from dumps_inj [OF this] this(3,4) show ?thesis
    by (auto simp: json_bytes_def encode_inj same_request_def)
qed

lemma fingerprint_defined:
  "valid_input inp \<Longrightarrow> \<exists>fp. task_request_fingerprint ty inp = Inr fp"
  by (auto simp: task_request_fingerprint_def json_bytes_def valid_input_def)

text \<open>What the two commands do to the stored row.\<close>

definition approved_row :: "time \<Rightarrow> task \<Rightarrow> task" where
  "approved_row now t = t\<lparr>t_status := APPROVED, t_updated_at := max now (t_updated_at t + 1),
     t_available_at := Some now\<rparr>"

definition cancelled_row :: "time \<Rightarrow> task \<Rightarrow> task" where
  "cancelled_row now t =
     (if t_status t = RUNNING
      then t\<lparr>t_status := RUNNING, t_cancellation_requested_at := Some now,
             t_updated_at := max now (t_updated_at t + 1)\<rparr>
      else t\<lparr>t_status := CANCELLED, t_cancellation_requested_at := Some now, t_available_at := None,
             t_updated_at := max now (t_updated_at t + 1)\<rparr>)"

lemma approved_row_checks:
  "task_checks t \<Longrightarrow> t_status t = PENDING_APPROVAL \<Longrightarrow> task_checks (approved_row now t)"
  by (auto simp: task_checks_def approved_row_def)

lemma cancelled_row_checks:
  "task_checks t \<Longrightarrow> t_status t \<in> {PENDING_APPROVAL, APPROVED, RUNNING} \<Longrightarrow>
   task_checks (cancelled_row now t)"
  by (auto simp: task_checks_def cancelled_row_def)

lemma approve_task_eq:
  "approve_task now i d = (case find_task d i of
     None \<Rightarrow> Inl (TaskNotFoundError i)
   | Some t \<Rightarrow>
       (if t_status t = PENDING_APPROVAL then Inr (approved_row now t, flush_task (approved_row now t) d)
        else if t_status t = APPROVED then Inr (t, d)
        else Inl (InvalidTaskTransitionError (t_status t) APPROVE)))"
proof (cases "find_task d i")
  case (Some t)
  then show ?thesis
    by (cases "t_status t")
      (simp_all add: approve_task_def apply_command_def get_by_id_for_update_def
        apply_task_command_def approved_row_def Let_def)
qed (simp add: approve_task_def apply_command_def get_by_id_for_update_def)

lemma cancel_task_eq:
  assumes ok: "task_tables_ok d"
  shows "cancel_task now i d = (case find_task d i of
     None \<Rightarrow> Inl (TaskNotFoundError i)
   | Some t \<Rightarrow>
       (if t_status t \<in> {SUCCEEDED, FAILED} then Inl (InvalidTaskTransitionError (t_status t) CANCEL)
        else if t_status t = CANCELLED \<or> t_cancellation_requested_at t \<noteq> None then Inr (t, d)
        else Inr (cancelled_row now t, flush_task (cancelled_row now t) d)))"
proof (cases "find_task d i")
  case (Some t)
  with ok have "task_checks t" by (auto dest: find_task_Some task_tables_okD)
  then have c: "t_cancellation_requested_at t \<noteq> None \<Longrightarrow> t_status t = RUNNING \<or> t_status t = CANCELLED"
    by (auto simp: task_checks_def)
  from Some c show ?thesis
    by (cases "t_status t"; cases "t_cancellation_requested_at t")
      (simp_all add: cancel_task_def get_by_id_for_update_def decide_cancellation_def
        apply_task_command_def cancelled_row_def Let_def)
qed (simp add: cancel_task_def get_by_id_for_update_def)

text \<open>
  A command of the API that a client may send again: once it has been accepted, sending it again
  returns the stored task and writes nothing. The customer's retries are the client.
\<close>

fun redeliver :: "(time \<Rightarrow> uuid \<Rightarrow> task tx) \<Rightarrow> uuid \<Rightarrow> time list \<Rightarrow> task \<times> db \<Rightarrow> exn + (task \<times> db)" where
  "redeliver run i [] r = Inr r"
| "redeliver run i (now # nows) (t, d) = bindR (run now i d) (redeliver run i nows)"

locale idempotent_command =
  fixes run :: "time \<Rightarrow> uuid \<Rightarrow> task tx" and good :: "db \<Rightarrow> bool"
  assumes keeps: "good d \<Longrightarrow> run now i d = Inr (t, d') \<Longrightarrow> good d'"
    and replay: "good d \<Longrightarrow> run now i d = Inr (t, d') \<Longrightarrow> run later i d' = Inr (t, d')"
begin

lemma deliveries:
  assumes "good d" and "run now i d = Inr (t, d')"
  shows "redeliver run i nows (t, d') = Inr (t, d')"
  using replay [OF assms] by (induction nows) simp_all

end

lemma approve_task_keeps:
  assumes ok: "task_tables_ok d" and run: "approve_task now i d = Inr (t', d')"
  shows "task_tables_ok d'"
proof -
  from run obtain t where t: "find_task d i = Some t"
    by (auto simp: approve_task_eq split: option.splits)
  with ok have "task_checks t" "t_id t = i" by (auto dest: find_task_Some task_tables_okD)
  with run t ok approved_row_checks [of t now] show ?thesis
    by (auto simp: approve_task_eq approved_row_def intro!: flush_task_ok split: if_splits)
qed

lemma cancel_task_keeps:
  assumes ok: "task_tables_ok d" and run: "cancel_task now i d = Inr (t', d')"
  shows "task_tables_ok d'"
proof -
  from run obtain t where t: "find_task d i = Some t"
    by (auto simp: cancel_task_eq [OF ok] split: option.splits)
  with ok have t': "task_checks t" "t_id t = i" by (auto dest: find_task_Some task_tables_okD)
  have "t_id (cancelled_row now t) = t_id t" "t_idempotency_key (cancelled_row now t) = t_idempotency_key t"
    by (simp_all add: cancelled_row_def)
  with run t t' ok cancelled_row_checks [of t now] show ?thesis
    by (cases "t_status t") (auto simp: cancel_task_eq [OF ok] intro!: flush_task_ok split: if_splits)
qed

lemma approve_task_replay:
  assumes ok: "task_tables_ok d" and run: "approve_task now i d = Inr (t', d')"
  shows "approve_task later i d' = Inr (t', d')"
proof -
  from run obtain t where t: "find_task d i = Some t"
    by (auto simp: approve_task_eq split: option.splits)
  then have "t_id t = i" by (auto dest: find_task_Some)
  with run t show ?thesis
    by (auto simp: approve_task_eq approved_row_def flush_task_find split: if_splits)
qed

lemma cancel_task_replay:
  assumes ok: "task_tables_ok d" and run: "cancel_task now i d = Inr (t', d')"
  shows "cancel_task later i d' = Inr (t', d')"
proof -
  from run obtain t where t: "find_task d i = Some t"
    by (auto simp: cancel_task_eq [OF ok] split: option.splits)
  then have "t_id t = i" by (auto dest: find_task_Some)
  moreover have "t_id (cancelled_row now t) = t_id t"
    "t_cancellation_requested_at (cancelled_row now t) = Some now"
    "t_status (cancelled_row now t) = (if t_status t = RUNNING then RUNNING else CANCELLED)"
    by (simp_all add: cancelled_row_def)
  ultimately show ?thesis
    using run t
    by (auto simp: cancel_task_eq [OF ok] cancel_task_eq [OF cancel_task_keeps [OF ok run]]
        flush_task_find split: if_splits)
qed

interpretation approve: idempotent_command approve_task task_tables_ok
  by unfold_locales (fact approve_task_keeps, fact approve_task_replay)

interpretation cancel: idempotent_command cancel_task task_tables_ok
  by unfold_locales (fact cancel_task_keeps, fact cancel_task_replay)

section \<open>Properties\<close>

text \<open>
  C29. Creation is exactly-once per idempotency key. An accepted creation leaves one row for the
  key, keeps every constraint of the tables and all other rows, inserts at most that row, in
  the initial status; and replaying the request, with whatever clock, identifier and attempt
  limit, returns the same task, not created, and changes nothing.
\<close>

theorem create_task_idempotent:
  assumes "create_task m i ts key ty inp d = Inr (r, d')" and "task_tables_ok d"
    and "i \<notin> t_id ` set (tasks d)" and "1 \<le> m" "length key \<in> {1..255}" "is_task_type ty"
  shows "task_tables_ok d' \<and>
    filter (\<lambda>t. t_idempotency_key t = key) (tasks d') = [created_task r] \<and>
    d' = d\<lparr>tasks := tasks d @ (if created r then [created_task r] else [])\<rparr> \<and>
    (created r \<longrightarrow> t_status (created_task r) = PENDING_APPROVAL \<and> t_task_input (created_task r) = inp) \<and>
    create_task m2 i2 ts2 key ty inp d' = Inr (\<lparr>created_task = created_task r, created = False\<rparr>, d')"
proof -
  note ok' = create_task_ok [OF assms]
  note stored = create_task_stored [OF assms(1)]
  have mem: "created_task r \<in> set (tasks d')" and key: "t_idempotency_key (created_task r) = key"
    using stored unfolding get_by_idempotency_key_def by (auto dest: find_in_set)
  have "filter (\<lambda>t. t_idempotency_key t = key) (tasks d') = [created_task r]"
    using filter_key_single [OF task_tables_okD(2) [OF ok'] mem] key by simp
  with ok' assms(1) create_task_again [OF stored create_task_storable [OF assms(1)], of m2 i2 ts2 ty] show ?thesis
    by (elim create_task_cases) auto
qed

lemma create_task_idempotent_witness:
  "\<exists>r d'. create_task 3 7 1000 ''k-1'' ''diagnostic'' [] empty_db = Inr (r, d') \<and> created r \<and>
     create_task 5 8 2000 ''k-1'' ''diagnostic'' [] d' = Inr (\<lparr>created_task = created_task r, created = False\<rparr>, d')"
proof -
  have "valid_input []" by (simp add: valid_input_def)
  then obtain fp where fp: "task_request_fingerprint ''diagnostic'' [] = Inr fp" using fingerprint_defined by blast
  then obtain r d' where run: "create_task 3 7 1000 ''k-1'' ''diagnostic'' [] empty_db = Inr (r, d')" and "created r"
    by (auto simp: create_task_def insert_if_absent_def empty_db_def Let_def)
  moreover have "is_task_type ''diagnostic''" by (simp add: is_task_type_def is_lower_def less_eq_char_def)
  moreover have "task_tables_ok empty_db" using empty_db_ok by (simp only: tables_ok_def)
  ultimately show ?thesis
    using create_task_idempotent [OF run, of 5 8 2000] by (auto simp: empty_db_def)
qed

text \<open>
  C30. An idempotency key is bound to one request. After a creation, the same key with a request
  that is the same JSON document up to the order of object keys returns the stored task; with
  any other request it is refused with the conflict error and nothing is written, unless the
  two canonical texts are an explicit collision of SHA-256.
\<close>

theorem create_task_binds_request:
  assumes "create_task m i ts key ty inp d = Inr (r, d')"
    and "valid_input inp" "valid_input inp'"
  shows "(same_request ty inp ty' inp' \<longrightarrow>
      create_task m2 i2 ts2 key ty' inp' d' = Inr (\<lparr>created_task = created_task r, created = False\<rparr>, d')) \<and>
    (\<not> same_request ty inp ty' inp' \<longrightarrow>
      create_task m2 i2 ts2 key ty' inp' d' = Inl IdempotencyConflictError \<or>
      (\<exists>s s'. s \<noteq> s' \<and> sha256_hex s = sha256_hex s' \<and>
         json_bytes (JObj [(''input'', JObj inp), (''task_type'', JStr ty)]) = Inr s \<and>
         json_bytes (JObj [(''input'', JObj inp'), (''task_type'', JStr ty')]) = Inr s'))"
proof -
  obtain s s' where s: "json_bytes (JObj [(''input'', JObj inp), (''task_type'', JStr ty)]) = Inr s"
    "json_bytes (JObj [(''input'', JObj inp'), (''task_type'', JStr ty')]) = Inr s'"
    using assms(2,3) by (auto simp: json_bytes_def valid_input_def)
  with json_bytes_request [OF assms(2,3), of ty ty'] have eq: "s = s' \<longleftrightarrow> same_request ty inp ty' inp'" by simp
  have fp: "t_request_fingerprint (created_task r) = sha256_hex s"
    using assms(1) s by (auto elim!: create_task_cases simp: task_request_fingerprint_def)
  have again: "create_task m2 i2 ts2 key ty' inp' d' =
      (if sha256_hex s = sha256_hex s' then Inr (\<lparr>created_task = created_task r, created = False\<rparr>, d')
       else Inl IdempotencyConflictError)"
    using create_task_again [OF create_task_stored [OF assms(1)], of inp' m2 i2 ts2 ty'] s fp assms(3)
    by (simp add: task_request_fingerprint_def valid_input_def del: jsonb_ok.simps)
  show ?thesis using again eq s by auto
qed

lemma create_task_binds_request_witness:
  "\<exists>r d'. create_task 3 7 1000 ''k'' ''t'' [(''a'', JInt 1), (''b'', JNull)] empty_db = Inr (r, d') \<and>
     create_task 3 9 1500 ''k'' ''t'' [(''b'', JNull), (''a'', JInt 1)] d' =
       Inr (\<lparr>created_task = created_task r, created = False\<rparr>, d')"
proof -
  have v: "valid_input [(''a'', JInt 1), (''b'', JNull)]" "valid_input [(''b'', JNull), (''a'', JInt 1)]"
    by (simp_all add: valid_input_def)
  then obtain fp where fp: "task_request_fingerprint ''t'' [(''a'', JInt 1), (''b'', JNull)] = Inr fp"
    using fingerprint_defined by blast
  then obtain r d' where run:
    "create_task 3 7 1000 ''k'' ''t'' [(''a'', JInt 1), (''b'', JNull)] empty_db = Inr (r, d')"
    by (auto simp: create_task_def insert_if_absent_def empty_db_def Let_def)
  moreover have "same_request ''t'' [(''a'', JInt 1), (''b'', JNull)] ''t'' [(''b'', JNull), (''a'', JInt 1)]"
    by (simp add: same_request_def less_char_def)
  ultimately show ?thesis using create_task_binds_request [OF run v, of "''t''" 3 9 1500] by blast
qed

text \<open>
  C32. Approval, on every branch: an unknown task and a prohibited status are errors that write
  nothing; a pending task becomes approved, available from the database time, with a strictly
  later update time, while every other row and every constraint is kept; and any number of later
  deliveries of the same approval returns that same row and writes nothing.
\<close>

theorem approve_task_correct:
  assumes "task_tables_ok d"
  shows "case approve_task now i d of
      Inl e \<Rightarrow> (case find_task d i of None \<Rightarrow> e = TaskNotFoundError i
         | Some t \<Rightarrow> t_status t \<notin> {PENDING_APPROVAL, APPROVED} \<and> e = InvalidTaskTransitionError (t_status t) APPROVE)
    | Inr (t', d') \<Rightarrow> \<exists>t. find_task d i = Some t \<and> find_task d' i = Some t' \<and>
         (\<forall>j. j \<noteq> i \<longrightarrow> find_task d' j = find_task d j) \<and> task_tables_ok d' \<and> t_status t' = APPROVED \<and>
         (if t_status t = APPROVED then d' = d
          else t_status t = PENDING_APPROVAL \<and> t_available_at t' = Some now \<and> t_updated_at t < t_updated_at t') \<and>
         redeliver approve_task i nows (t', d') = Inr (t', d')"
proof (cases "approve_task now i d")
  case (Inl e)
  then show ?thesis by (auto simp: approve_task_eq split: option.splits if_splits)
next
  case (Inr r)
  then obtain t' d' where run: "approve_task now i d = Inr (t', d')" by (cases r) auto
  then obtain t where t: "find_task d i = Some t" by (auto simp: approve_task_eq split: option.splits)
  then have "t_id t = i" by (auto dest: find_task_Some)
  with run t approve_task_keeps [OF assms run] approve.deliveries [OF assms run] show ?thesis
    by (auto simp: approve_task_eq approved_row_def flush_task_find split: if_splits)
qed

lemma approve_task_correct_witness:
  "\<exists>t' d'. approve_task 40 11 (task_db pending_task) = Inr (t', d') \<and> t_status t' = APPROVED \<and>
     find_task d' 11 = Some t' \<and> redeliver approve_task 11 [41, 7, 90] (t', d') = Inr (t', d')"
proof -
  obtain t' d' where run: "approve_task 40 11 (task_db pending_task) = Inr (t', d')"
    by (auto simp: approve_task_eq pending_task_def)
  with approve_task_correct [OF task_db_ok [OF example_checks(1)], where now = 40 and i = 11 and nows = "[41, 7, 90]"]
  show ?thesis by auto
qed

text \<open>
  C33. Cancellation, on every branch: only a succeeded or failed task refuses it; a task that is
  not running is cancelled at once and leaves the queue; a running one keeps its lease and gets
  the durable marker, once; the update time grows strictly with every write, other rows and
  constraints are kept, and later deliveries return the same row and write nothing.
\<close>

theorem cancel_task_correct:
  assumes "task_tables_ok d"
  shows "case cancel_task now i d of
      Inl e \<Rightarrow> (case find_task d i of None \<Rightarrow> e = TaskNotFoundError i
         | Some t \<Rightarrow> t_status t \<in> {SUCCEEDED, FAILED} \<and> e = InvalidTaskTransitionError (t_status t) CANCEL)
    | Inr (t', d') \<Rightarrow> \<exists>t. find_task d i = Some t \<and> find_task d' i = Some t' \<and>
         (\<forall>j. j \<noteq> i \<longrightarrow> find_task d' j = find_task d j) \<and> task_tables_ok d' \<and>
         (if t_status t = CANCELLED \<or> t_cancellation_requested_at t \<noteq> None then d' = d \<and> t' = t
          else t_cancellation_requested_at t' = Some now \<and> t_updated_at t < t_updated_at t' \<and>
            (if t_status t = RUNNING
             then t_status t' = RUNNING \<and> t_lease_token_hash t' = t_lease_token_hash t \<and>
                  t_lease_expires_at t' = t_lease_expires_at t
             else t_status t' = CANCELLED \<and> t_available_at t' = None)) \<and>
         redeliver cancel_task i nows (t', d') = Inr (t', d')"
proof (cases "cancel_task now i d")
  case (Inl e)
  then show ?thesis by (auto simp: cancel_task_eq [OF assms] split: option.splits if_splits)
next
  case (Inr r)
  then obtain t' d' where run: "cancel_task now i d = Inr (t', d')" by (cases r) auto
  then obtain t where t: "find_task d i = Some t" by (auto simp: cancel_task_eq [OF assms] split: option.splits)
  then have "t_id t = i" by (auto dest: find_task_Some)
  moreover have "t_id (cancelled_row now t) = t_id t" by (simp add: cancelled_row_def)
  ultimately show ?thesis
    using run t cancel_task_keeps [OF assms run] cancel.deliveries [OF assms run]
    by (auto simp: cancel_task_eq [OF assms] cancelled_row_def flush_task_find split: if_splits)
qed

lemma cancel_task_correct_witness:
  "\<exists>t' d'. cancel_task 40 11 running_db = Inr (t', d') \<and> t_status t' = RUNNING \<and>
     t_cancellation_requested_at t' = Some 40 \<and> redeliver cancel_task 11 [41, 7, 90] (t', d') = Inr (t', d')"
proof -
  have st: "t_status running_task = RUNNING" "t_cancellation_requested_at running_task = None"
    by (simp_all add: running_task_def pending_task_def)
  then obtain t' d' where run: "cancel_task 40 11 running_db = Inr (t', d')"
    by (auto simp: cancel_task_eq)
  with cancel_task_correct [OF running_db_ok, where now = 40 and i = 11 and nows = "[41, 7, 90]"] st
  show ?thesis by auto
qed

end
