(* ===== verification/Worker_Domain.thy ===== *)
theory Worker_Domain
  imports Database Sha256
begin

text \<open>
  \<open>worker/domain.py\<close>: the retry policy, the claimed task and its execution fence, the hash of the
  lease token and the validation of handler results. Delays are exact rationals; the code's
  floats agree with them up to rounding, and where an integer does not fit a float the conversion
  raises, as in the code. A handler result is any Python value: a JSON object, a
  dict with a key that is not a string, a dict with a member that \<open>json.dumps\<close> rejects, or
  something that is not a dict.
\<close>

section \<open>Retry policy\<close>

record retry_policy =
  base_seconds :: seconds
  cap_seconds :: seconds

text \<open>
  The product of a float and the integer \<open>2 ** (attempt_number - 1)\<close> converts the integer to a
  double, which holds no integer from \<open>2 ** 1024\<close> on: the conversion raises \<open>OverflowError\<close> before
  the random source is asked. A product that overflows is an infinity, and \<open>min\<close> takes the cap.
\<close>

definition overflow_error :: exn where
  "overflow_error = OtherException ''OverflowError''"

definition random_error :: exn where
  "random_error = ValueError ''random source must return a value between zero and one''"

definition delay_seconds :: "retry_policy \<Rightarrow> rat \<Rightarrow> nat \<Rightarrow> seconds result" where
  "delay_seconds policy random_value attempt_number =
     bindR (guardR (attempt_number \<le> 1024) overflow_error) (\<lambda>_.
     let ceiling = min (cap_seconds policy) (base_seconds policy * (2 powi (int attempt_number - 1)))
     in bindR (guardR (0 \<le> random_value \<and> random_value \<le> 1) random_error)
          (\<lambda>_. Inr (ceiling / 2 + (ceiling / 2) * random_value)))"

section \<open>Claims\<close>

record execution_fence =
  f_task_id :: uuid
  f_attempt_id :: uuid
  f_attempt_number :: nat
  f_worker_id :: string
  f_lease_token_hash :: string

record claimed_task =
  c_task_id :: uuid
  c_attempt_id :: uuid
  c_attempt_number :: nat
  c_max_attempts :: nat
  c_worker_id :: string
  c_lease_token_hash :: string
  c_task_type :: string
  c_task_input :: jobj

definition claim_fence :: "claimed_task \<Rightarrow> execution_fence" where
  "claim_fence c = \<lparr>f_task_id = c_task_id c, f_attempt_id = c_attempt_id c,
     f_attempt_number = c_attempt_number c, f_worker_id = c_worker_id c,
     f_lease_token_hash = c_lease_token_hash c\<rparr>"

record recovery_result =
  r_task_id :: uuid
  r_attempt_id :: uuid
  r_attempt_number :: nat
  r_previous_worker_id :: string
  r_new_status :: string
  r_next_attempt_at :: "time option"
  r_terminal_reason :: string

definition hash_lease_token :: "string \<Rightarrow> string" where
  "hash_lease_token raw_token = sha256_hex (encode raw_token)"

section \<open>Handler results\<close>

datatype handler_value = HObject jobj | HNonStringKey | HUnserializable | HNonObject

definition validate_handler_result :: "nat \<Rightarrow> handler_value \<Rightarrow> jobj result" where
  "validate_handler_result maximum_bytes v = (case v of
     HNonObject \<Rightarrow> Inl HandlerContractError
   | HNonStringKey \<Rightarrow> Inl HandlerContractError
   | HUnserializable \<Rightarrow> Inl HandlerContractError
   | HObject kvs \<Rightarrow>
       if contains_non_finite (JObj kvs) then Inl HandlerContractError
       else (case json_bytes (JObj kvs) of
               Inl _ \<Rightarrow> Inl HandlerContractError
             | Inr serialized \<Rightarrow>
                 if length serialized > maximum_bytes then Inl HandlerContractError else Inr kvs))"

section \<open>Lemmas\<close>

lemma hash_lease_token_hex [simp]: "hex64 (hash_lease_token raw)"
  by (simp add: hash_lease_token_def)

lemma claim_fence_simps [simp]:
  "f_task_id (claim_fence c) = c_task_id c" "f_attempt_id (claim_fence c) = c_attempt_id c"
  "f_attempt_number (claim_fence c) = c_attempt_number c" "f_worker_id (claim_fence c) = c_worker_id c"
  "f_lease_token_hash (claim_fence c) = c_lease_token_hash c"
  by (simp_all add: claim_fence_def)

lemma validate_handler_result_iff:
  "validate_handler_result n v = Inr kvs \<longleftrightarrow>
     v = HObject kvs \<and> \<not> contains_non_finite (JObj kvs) \<and> length (encode (dumps (JObj kvs))) \<le> n"
  by (auto simp: validate_handler_result_def json_bytes_def split: handler_value.splits)

lemma validate_handler_result_error:
  "validate_handler_result n v = Inl e \<Longrightarrow> e = HandlerContractError"
  by (auto simp: validate_handler_result_def split: handler_value.splits if_splits sum.splits)

lemma ceiling_pos:
  "0 < base_seconds p \<Longrightarrow> 0 < cap_seconds p \<Longrightarrow>
   0 < min (cap_seconds p) (base_seconds p * (2 powi k))"
  by simp

section \<open>Properties\<close>

text \<open>
  C31. Bounded equal-jitter backoff. For a positive base and cap the delay of the attempts 0 to
  1024 exists exactly for a random value in the unit interval: it is positive, lies between half
  the ceiling and the ceiling, the ceiling never exceeds the cap and does not shrink as attempts
  accumulate, and the first delay is at most the base. Another random value is a \<open>ValueError\<close>; from
  attempt 1025 on, whatever the random value, the integer power overflows.
\<close>

theorem delay_seconds_bounds:
  assumes "0 < base_seconds p" "0 < cap_seconds p"
  shows "(case delay_seconds p u n of
      Inl e \<Rightarrow> (if 1024 < n then e = overflow_error else e = random_error \<and> (u < 0 \<or> 1 < u))
    | Inr s \<Rightarrow> n \<le> 1024 \<and> 0 \<le> u \<and> u \<le> 1 \<and> 0 < s \<and>
        min (cap_seconds p) (base_seconds p * (2 powi (int n - 1))) / 2 \<le> s \<and>
        s \<le> min (cap_seconds p) (base_seconds p * (2 powi (int n - 1))) \<and>
        (n = 1 \<longrightarrow> s \<le> base_seconds p) \<and>
        (\<forall>m. n < m \<and> m \<le> 1024 \<longrightarrow> (case delay_seconds p u m of Inl e \<Rightarrow> False | Inr s' \<Rightarrow> s \<le> s')))"
proof (cases "n \<le> 1024 \<and> 0 \<le> u \<and> u \<le> 1")
  case False
  then show ?thesis by (cases "n \<le> 1024") (auto simp: delay_seconds_def)
next
  case True
  let ?c = "\<lambda>n. min (cap_seconds p) (base_seconds p * (2 powi (int n - 1)))"
  have val: "delay_seconds p u m = Inr (?c m / 2 * (1 + u))" if "m \<le> 1024" for m
    using True that by (simp add: delay_seconds_def Let_def algebra_simps)
  have pos: "0 < ?c m" for m by (rule ceiling_pos [OF assms])
  have mono: "?c n \<le> ?c m" if "n < m" for m
    using that assms by (intro min.mono mult_left_mono power_int_increasing) auto
  have "?c n / 2 \<le> ?c n / 2 * (1 + u)"
    using mult_left_mono [of 1 "1 + u" "?c n / 2"] pos [of n] True by linarith
  moreover have "?c n / 2 * (1 + u) \<le> ?c n / 2 * 2" using pos [of n] True by (intro mult_left_mono) auto
  moreover have "0 < ?c n / 2 * (1 + u)" using pos [of n] True by (intro mult_pos_pos) auto
  moreover have "?c n / 2 * (1 + u) \<le> ?c m / 2 * (1 + u)" if "n < m" for m
    using mono [OF that] True by (intro mult_right_mono) auto
  moreover have "n = 1 \<longrightarrow> ?c n \<le> base_seconds p" by simp
  ultimately show ?thesis using True val by auto
qed

lemma delay_seconds_bounds_witness:
  "delay_seconds \<lparr>base_seconds = 1, cap_seconds = 60\<rparr> (1/2) 3 = Inr 3 \<and> (0::rat) < 3 \<and>
   delay_seconds \<lparr>base_seconds = 1, cap_seconds = 60\<rparr> (1/2) 1025 = Inl overflow_error"
proof -
  let ?p = "\<lparr>base_seconds = 1, cap_seconds = 60\<rparr>"
  have v: "delay_seconds ?p (1/2) 3 = Inr 3" by (simp add: delay_seconds_def)
  have 3: "(0::rat) < 3" using delay_seconds_bounds [of ?p 3 "1/2"] v by simp
  have "delay_seconds ?p (1/2) 1025 = Inl overflow_error"
    using delay_seconds_bounds [of ?p 1025 "1/2"] by (auto split: sum.splits)
  with v 3 show ?thesis by simp
qed

text \<open>
  Handler results are validated exactly. A result is accepted if and only if it is a JSON
  object without non-finite numbers whose canonical UTF-8 text fits the byte limit, and then it
  is returned unchanged; everything else is the one handler contract error.
\<close>

theorem validate_handler_result_exact:
  "(\<forall>kvs. validate_handler_result n v = Inr kvs \<longleftrightarrow>
      v = HObject kvs \<and> (\<exists>u. reject_non_finite_numbers (JObj kvs) = Inr u) \<and>
      (\<exists>s. json_bytes (JObj kvs) = Inr s \<and> length s \<le> n)) \<and>
   (\<forall>e. validate_handler_result n v = Inl e \<longrightarrow> e = HandlerContractError)"
proof (intro conjI allI impI)
  fix kvs
  have "(\<exists>u. reject_non_finite_numbers (JObj kvs) = Inr u) \<longleftrightarrow> \<not> contains_non_finite (JObj kvs)"
    using reject_iff_contains(1) [of "JObj kvs"]
    by (metis sum.exhaust sum.distinct(1))
  then show "validate_handler_result n v = Inr kvs \<longleftrightarrow>
      v = HObject kvs \<and> (\<exists>u. reject_non_finite_numbers (JObj kvs) = Inr u) \<and>
      (\<exists>s. json_bytes (JObj kvs) = Inr s \<and> length s \<le> n)"
    unfolding validate_handler_result_iff by (auto simp: json_bytes_Inr)
qed (rule validate_handler_result_error)

lemma validate_handler_result_exact_witness:
  "validate_handler_result 1 (HObject []) = Inl HandlerContractError \<and>
   validate_handler_result 2 (HObject []) = Inr []"
proof -
  have "\<nexists>kvs. validate_handler_result 1 (HObject []) = Inr kvs"
    using conjunct1 [OF validate_handler_result_exact, of 1 "HObject []"]
    by (auto simp: json_bytes_def utf8_char_def)
  then obtain e where e: "validate_handler_result 1 (HObject []) = Inl e"
    by (cases "validate_handler_result 1 (HObject [])") auto
  with conjunct2 [OF validate_handler_result_exact, rule_format, OF e]
    conjunct1 [OF validate_handler_result_exact, of 2 "HObject []"]
  show ?thesis by (auto simp: json_bytes_def utf8_char_def)
qed

end
