(* ===== verification/Worker_Repository.thy ===== *)
theory Worker_Repository
  imports Worker_Domain
begin

text \<open>
  \<open>worker/repository.py\<close>: the queue transactions of a worker. Every transaction is a function
  from the tables to an exception (roll back) or a result and the new tables; the readings of
  \<open>clock_timestamp()\<close>, the random token and the fresh identifier are arguments, and so is the set
  of tasks whose row another transaction holds locked (\<open>SKIP LOCKED\<close>). The \<open>values\<close> dictionaries
  that \<open>_finalize\<close> receives are functions that update the row, each with the verdict of PostgreSQL
  on the values it assigns. A length is checked when a row is written; a NUL is refused when the
  statement is bound, so for the \<open>values\<close> of a finalization that matches no row the model reports
  the failed fence where the code raises, and neither writes. Durations of the settings and the
  answers of the backoff calculator are bounded by \<open>config.py\<close> and within \<open>timedelta\<close>.
\<close>

section \<open>Helpers\<close>

definition require_one_row :: "nat \<Rightarrow> string \<Rightarrow> unit result" where
  "require_one_row n operation =
     guardR (n = 1) (ExecutionInvariantError
       (operation @ '' expected one row but affected '' @ str_int (int n)))"

text \<open>The five conditions of \<open>_active_fence\<close>; a comparison with \<open>NULL\<close> is not true.\<close>

definition active_fence :: "claimed_task \<Rightarrow> time \<Rightarrow> task \<Rightarrow> bool" where
  "active_fence claim database_now t \<longleftrightarrow>
     t_id t = c_task_id claim \<and>
     t_status t = RUNNING \<and>
     t_worker_id t = Some (c_worker_id claim) \<and>
     t_attempt_count t = c_attempt_number claim \<and>
     t_lease_token_hash t = Some (c_lease_token_hash claim) \<and>
     (case t_lease_expires_at t of None \<Rightarrow> False | Some e \<Rightarrow> e > database_now)"

definition running_attempt_of :: "uuid \<Rightarrow> nat \<Rightarrow> string \<Rightarrow> task_attempt \<Rightarrow> bool" where
  "running_attempt_of task_id attempt_number token_hash a \<longleftrightarrow>
     a_task_id a = task_id \<and> a_attempt_number a = attempt_number \<and>
     a_lease_token_hash a = token_hash \<and> a_status a = ATTEMPT_RUNNING"

section \<open>Claiming\<close>

definition claimable :: "string list \<Rightarrow> time \<Rightarrow> task \<Rightarrow> bool" where
  "claimable supported_task_types now t \<longleftrightarrow>
     t_status t = APPROVED \<and>
     (case t_available_at t of None \<Rightarrow> False | Some v \<Rightarrow> v \<le> now) \<and>
     t_attempt_count t < t_max_attempts t \<and>
     t_task_type t \<in> set supported_task_types"

definition claim_order :: "task \<Rightarrow> time \<times> time \<times> uuid" where
  "claim_order t = (case t_available_at t of None \<Rightarrow> 0 | Some v \<Rightarrow> v, t_created_at t, t_id t)"

definition claimed_row :: "string \<Rightarrow> string \<Rightarrow> seconds \<Rightarrow> time \<Rightarrow> task \<Rightarrow> task" where
  "claimed_row worker_id token_hash lease_duration_seconds database_now t = t\<lparr>
     t_status := RUNNING,
     t_worker_id := Some worker_id,
     t_lease_token_hash := Some token_hash,
     t_lease_expires_at := Some (database_now + micros lease_duration_seconds),
     t_last_heartbeat_at := Some database_now,
     t_available_at := None,
     t_attempt_count := t_attempt_count t + 1,
     t_updated_at := max database_now (t_updated_at t + 1),
     t_result := None\<rparr>"

text \<open>
  The flush writes the task row, whose new text is the worker's identifier, and inserts the
  attempt: its primary key and its number for the task must be new.
\<close>

definition claim_one ::
  "string list \<Rightarrow> string \<Rightarrow> seconds \<Rightarrow> string \<Rightarrow> uuid \<Rightarrow> uuid set \<Rightarrow> time \<Rightarrow> time \<Rightarrow> db \<Rightarrow>
   exn + (claimed_task option \<times> db)" where
  "claim_one supported_task_types worker_id lease_duration_seconds raw_token attempt_id locked
     select_now database_now d =
     (if supported_task_types = [] then Inr (None, d)
      else let token_hash = hash_lease_token raw_token in
        case first_by claim_order
               (filter (\<lambda>t. claimable supported_task_types select_now t \<and> t_id t \<notin> locked) (tasks d)) of
          None \<Rightarrow> Inr (None, d)
        | Some t \<Rightarrow>
            bindR (apply_task_command (t_status t) START) (\<lambda>_.
            bindR (guardR (varchar_ok 255 worker_id) data_error) (\<lambda>_.
            bindR (guardR (list_all (\<lambda>a. a_id a \<noteq> attempt_id \<and>
                     (a_task_id a, a_attempt_number a) \<noteq> (t_id t, t_attempt_count t + 1)) (task_attempts d))
                   integrity_error) (\<lambda>_.
              let t' = claimed_row worker_id token_hash lease_duration_seconds database_now t;
                  a = \<lparr>a_id = attempt_id, a_task_id = t_id t, a_attempt_number = t_attempt_count t + 1,
                       a_worker_id = worker_id, a_lease_token_hash = token_hash,
                       a_status = ATTEMPT_RUNNING, a_started_at = database_now,
                       a_last_heartbeat_at = database_now, a_finished_at = None, a_error_code = None,
                       a_error_summary = None, a_terminal_reason = None\<rparr>
              in Inr (Some \<lparr>c_task_id = t_id t, c_attempt_id = attempt_id,
                       c_attempt_number = t_attempt_count t + 1, c_max_attempts = t_max_attempts t,
                       c_worker_id = worker_id, c_lease_token_hash = token_hash,
                       c_task_type = t_task_type t, c_task_input = t_task_input t\<rparr>,
                     d\<lparr>tasks := update_where (\<lambda>r. t_id r = t_id t) (\<lambda>_. t') (tasks d),
                       task_attempts := task_attempts d @ [a]\<rparr>)))))"

section \<open>Heartbeat\<close>

definition heartbeat_row :: "seconds \<Rightarrow> time \<Rightarrow> task \<Rightarrow> task" where
  "heartbeat_row lease_duration_seconds database_now t = t\<lparr>
     t_last_heartbeat_at := Some database_now,
     t_lease_expires_at :=
       (if t_cancellation_requested_at t = None
        then Some (database_now + micros lease_duration_seconds) else t_lease_expires_at t)\<rparr>"

definition heartbeat :: "claimed_task \<Rightarrow> seconds \<Rightarrow> time \<Rightarrow> db \<Rightarrow> exn + (heartbeat_result \<times> db)" where
  "heartbeat claim lease_duration_seconds database_now d =
     (let d1 = d\<lparr>tasks := update_where (active_fence claim database_now)
                            (heartbeat_row lease_duration_seconds database_now) (tasks d)\<rparr>
      in case find (active_fence claim database_now) (tasks d) of
           None \<Rightarrow> Inl (ExecutionInvariantError ''active task fence did not match'')
         | Some t \<Rightarrow>
             let P = running_attempt_of (c_task_id claim) (c_attempt_number claim) (c_lease_token_hash claim)
             in bindR (require_one_row (rowcount P (task_attempts d1)) ''heartbeat attempt'') (\<lambda>_.
                  Inr (if t_cancellation_requested_at t \<noteq> None then HEARTBEAT_CANCELLATION_REQUESTED else ACTIVE,
                       d1\<lparr>task_attempts := update_where P (\<lambda>a. a\<lparr>a_last_heartbeat_at := database_now\<rparr>)
                            (task_attempts d1)\<rparr>)))"

section \<open>Finalization\<close>

definition classify_failed_fence :: "claimed_task \<Rightarrow> time \<Rightarrow> db \<Rightarrow> fence_result" where
  "classify_failed_fence claim database_now d =
     (case find (active_fence claim database_now) (tasks d) of
        None \<Rightarrow> STALE
      | Some t \<Rightarrow> if t_cancellation_requested_at t \<noteq> None then CANCELLATION_REQUESTED else STALE)"

definition release_row :: "time \<Rightarrow> task \<Rightarrow> task" where
  "release_row database_now t = t\<lparr>
     t_worker_id := None, t_lease_token_hash := None, t_lease_expires_at := None,
     t_last_heartbeat_at := None, t_updated_at := max database_now (t_updated_at t + 1)\<rparr>"

definition finalizable :: "claimed_task \<Rightarrow> bool \<Rightarrow> time \<Rightarrow> task \<Rightarrow> bool" where
  "finalizable claim required_cancellation database_now t \<longleftrightarrow>
     active_fence claim database_now t \<and>
     (if required_cancellation then t_cancellation_requested_at t \<noteq> None
      else t_cancellation_requested_at t = None)"

text \<open>The values an \<open>UPDATE\<close> assigns: whether their columns take them, and the row they make.\<close>

type_synonym 'r assignment = "bool \<times> ('r \<Rightarrow> 'r)"

definition finalize ::
  "claimed_task \<Rightarrow> bool \<Rightarrow> task assignment \<Rightarrow> task_attempt assignment \<Rightarrow> time \<Rightarrow> db \<Rightarrow>
   exn + (fence_result \<times> db)" where
  "finalize claim required_cancellation task_values attempt_values database_now d =
     (let P = finalizable claim required_cancellation database_now;
          n = rowcount P (tasks d)
      in if n = 0 then Inr (classify_failed_fence claim database_now d, d)
         else bindR (guardR (fst task_values) data_error) (\<lambda>_.
           bindR (require_one_row n ''finalized task'') (\<lambda>_.
           let d1 = d\<lparr>tasks := update_where P (\<lambda>t. release_row database_now (snd task_values t)) (tasks d)\<rparr>;
               Q = running_attempt_of (c_task_id claim) (c_attempt_number claim) (c_lease_token_hash claim);
               m = rowcount Q (task_attempts d1)
           in bindR (guardR (m = 0 \<or> fst attempt_values) data_error) (\<lambda>_.
              bindR (require_one_row m ''finalized attempt'') (\<lambda>_.
                Inr (APPLIED, d1\<lparr>task_attempts :=
                  update_where Q (\<lambda>a. (snd attempt_values a)\<lparr>a_finished_at := Some database_now\<rparr>)
                    (task_attempts d1)\<rparr>))))))"

definition finalize_success :: "claimed_task \<Rightarrow> jobj \<Rightarrow> time \<Rightarrow> db \<Rightarrow> exn + (fence_result \<times> db)" where
  "finalize_success claim result_value database_now =
     finalize claim False
       (jsonb_ok (JObj result_value),
        \<lambda>t. t\<lparr>t_status := SUCCEEDED, t_result := Some result_value, t_available_at := None,
              t_last_error_code := None, t_last_error_summary := None\<rparr>)
       (True, \<lambda>a. a\<lparr>a_status := ATTEMPT_SUCCEEDED, a_terminal_reason := Some ''completed''\<rparr>)
       database_now"

definition schedule_retry ::
  "claimed_task \<Rightarrow> seconds \<Rightarrow> string \<Rightarrow> string \<Rightarrow> string \<Rightarrow> time \<Rightarrow> time \<Rightarrow> db \<Rightarrow>
   exn + (fence_result \<times> db)" where
  "schedule_retry claim delay error_code error_summary terminal_reason database_now clock_now d =
     bindR (apply_task_command RUNNING RETRY) (\<lambda>_.
       finalize claim False
         (timestamp_ok (clock_now + micros delay) \<and> varchar_ok 100 error_code \<and> varchar_ok 500 error_summary,
          \<lambda>t. t\<lparr>t_status := APPROVED, t_available_at := Some (clock_now + micros delay),
                t_result := None, t_last_error_code := Some error_code,
                t_last_error_summary := Some error_summary\<rparr>)
         (varchar_ok 100 error_code \<and> varchar_ok 500 error_summary \<and> varchar_ok 100 terminal_reason,
          \<lambda>a. a\<lparr>a_status := RETRY_SCHEDULED, a_error_code := Some error_code,
                a_error_summary := Some error_summary, a_terminal_reason := Some terminal_reason\<rparr>)
         database_now d)"

definition finalize_failure ::
  "claimed_task \<Rightarrow> string \<Rightarrow> string \<Rightarrow> string \<Rightarrow> time \<Rightarrow> db \<Rightarrow> exn + (fence_result \<times> db)" where
  "finalize_failure claim error_code error_summary terminal_reason database_now d =
     bindR (apply_task_command RUNNING FAIL) (\<lambda>_.
       finalize claim False
         (varchar_ok 100 error_code \<and> varchar_ok 500 error_summary,
          \<lambda>t. t\<lparr>t_status := FAILED, t_available_at := None, t_result := None,
                t_last_error_code := Some error_code, t_last_error_summary := Some error_summary\<rparr>)
         (varchar_ok 100 error_code \<and> varchar_ok 500 error_summary \<and> varchar_ok 100 terminal_reason,
          \<lambda>a. a\<lparr>a_status := ATTEMPT_FAILED, a_error_code := Some error_code,
                a_error_summary := Some error_summary, a_terminal_reason := Some terminal_reason\<rparr>)
         database_now d)"

definition finalize_cancellation :: "claimed_task \<Rightarrow> time \<Rightarrow> db \<Rightarrow> exn + (fence_result \<times> db)" where
  "finalize_cancellation claim database_now d =
     bindR (apply_task_command RUNNING FINALIZE_CANCELLATION) (\<lambda>_.
       finalize claim True
         (True, \<lambda>t. t\<lparr>t_status := CANCELLED, t_available_at := None, t_result := None,
                t_last_error_code := None, t_last_error_summary := None\<rparr>)
         (True, \<lambda>a. a\<lparr>a_status := ATTEMPT_CANCELLED, a_terminal_reason := Some ''customer_cancellation''\<rparr>)
         database_now d)"

section \<open>Recovery\<close>

definition expired :: "time \<Rightarrow> task \<Rightarrow> bool" where
  "expired database_now t \<longleftrightarrow> t_status t = RUNNING \<and>
     (case t_lease_expires_at t of None \<Rightarrow> False | Some e \<Rightarrow> e \<le> database_now)"

definition recovery_order :: "task \<Rightarrow> time \<times> uuid" where
  "recovery_order t = (case t_lease_expires_at t of None \<Rightarrow> 0 | Some e \<Rightarrow> e, t_id t)"

record recovery_decision =
  rd_status :: task_status
  rd_next_attempt_at :: "time option"
  rd_terminal_reason :: string
  rd_error_code :: "string option"
  rd_error_summary :: "string option"

definition recovery_outcome :: "(nat \<Rightarrow> seconds result) \<Rightarrow> time \<Rightarrow> task \<Rightarrow> recovery_decision result" where
  "recovery_outcome backoff_seconds database_now t =
     (if t_cancellation_requested_at t \<noteq> None then
        bindR (apply_task_command RUNNING FINALIZE_CANCELLATION) (\<lambda>_. Inr
          \<lparr>rd_status = CANCELLED, rd_next_attempt_at = None,
           rd_terminal_reason = ''customer_cancellation'', rd_error_code = None, rd_error_summary = None\<rparr>)
      else if t_attempt_count t \<ge> t_max_attempts t then
        bindR (apply_task_command RUNNING FAIL) (\<lambda>_. Inr
          \<lparr>rd_status = FAILED, rd_next_attempt_at = None,
           rd_terminal_reason = ''max_attempts_exhausted'', rd_error_code = Some ''lease_expired'',
           rd_error_summary = Some ''Maximum attempts exhausted after lease expiration''\<rparr>)
      else
        bindR (apply_task_command RUNNING RETRY) (\<lambda>_.
        bindR (backoff_seconds (t_attempt_count t)) (\<lambda>s. Inr
          \<lparr>rd_status = APPROVED, rd_next_attempt_at = Some (database_now + micros s),
           rd_terminal_reason = ''lease_expired'', rd_error_code = Some ''lease_expired'',
           rd_error_summary = Some ''Worker lease expired; retry scheduled''\<rparr>)))"

definition recovered_row :: "recovery_decision \<Rightarrow> time \<Rightarrow> task \<Rightarrow> task" where
  "recovered_row rd database_now t = t\<lparr>
     t_status := rd_status rd, t_available_at := rd_next_attempt_at rd, t_worker_id := None,
     t_lease_token_hash := None, t_lease_expires_at := None, t_last_heartbeat_at := None,
     t_result := None, t_last_error_code := rd_error_code rd,
     t_last_error_summary := rd_error_summary rd,
     t_updated_at := max database_now (t_updated_at t + 1)\<rparr>"

definition recover_one_expired ::
  "(nat \<Rightarrow> seconds result) \<Rightarrow> uuid set \<Rightarrow> time \<Rightarrow> db \<Rightarrow> exn + (recovery_result option \<times> db)" where
  "recover_one_expired backoff_seconds locked database_now d =
     (case first_by recovery_order (filter (\<lambda>t. expired database_now t \<and> t_id t \<notin> locked) (tasks d)) of
        None \<Rightarrow> Inr (None, d)
      | Some t \<Rightarrow>
         (case (t_worker_id t, t_lease_token_hash t) of
            (Some previous_worker_id, Some token_hash) \<Rightarrow>
              bindR (guardR (t_attempt_count t > 0)
                       (ExecutionInvariantError ''expired task has incomplete lease state'')) (\<lambda>_.
              let attempt_number = t_attempt_count t;
                  Q = running_attempt_of (t_id t) attempt_number token_hash
              in bindR (require_one_row (rowcount Q (task_attempts d)) ''expired attempt'') (\<lambda>_.
              let d1 = d\<lparr>task_attempts := update_where Q (\<lambda>a. a\<lparr>a_status := LEASE_EXPIRED,
                           a_finished_at := Some database_now, a_error_code := Some ''lease_expired'',
                           a_error_summary := Some ''Worker lease expired before completion'',
                           a_terminal_reason := Some (if t_cancellation_requested_at t \<noteq> None
                             then ''customer_cancellation'' else ''lease_expired'')\<rparr>) (task_attempts d)\<rparr>
              in bindR (recovery_outcome backoff_seconds database_now t) (\<lambda>rd.
              let P = (\<lambda>r. t_id r = t_id t \<and> expired database_now r \<and>
                         t_attempt_count r = attempt_number \<and> t_lease_token_hash r = Some token_hash)
              in bindR (require_one_row (rowcount P (tasks d1)) ''expired task'') (\<lambda>_.
              let d2 = d1\<lparr>tasks := update_where P (recovered_row rd database_now) (tasks d1)\<rparr>
              in bindR (expectR (RuntimeError ''no attempt row'')
                          (find (\<lambda>a. a_task_id a = t_id t \<and> a_attempt_number a = attempt_number \<and>
                             a_lease_token_hash a = token_hash) (task_attempts d2))) (\<lambda>a.
                 Inr (Some \<lparr>r_task_id = t_id t, r_attempt_id = a_id a, r_attempt_number = attempt_number,
                        r_previous_worker_id = previous_worker_id,
                        r_new_status = task_status_value (rd_status rd),
                        r_next_attempt_at = rd_next_attempt_at rd,
                        r_terminal_reason = rd_terminal_reason rd\<rparr>, d2))))))
          | _ \<Rightarrow> Inl (ExecutionInvariantError ''expired task has incomplete lease state'')))"

end
