(* ===== verification/Step_System.thy ===== *)
theory Step_System
  imports Prelude
begin

text \<open>
  A deterministic system driven by a sequence of operations, each admissible where it is applied:
  the interleavings of API calls, workers and recovery over one database are such sequences. The
  locale is the contract that both stores of the program are shown to have: an invariant every
  operation keeps and an order (what history may not be rewritten) every operation respects.
\<close>

fun run_steps :: "('op \<Rightarrow> 's \<Rightarrow> 's) \<Rightarrow> 'op list \<Rightarrow> 's \<Rightarrow> 's" where
  "run_steps step [] s = s"
| "run_steps step (op # ops) s = run_steps step ops (step op s)"

fun admissible :: "('op \<Rightarrow> 's \<Rightarrow> bool) \<Rightarrow> ('op \<Rightarrow> 's \<Rightarrow> 's) \<Rightarrow> 'op list \<Rightarrow> 's \<Rightarrow> bool" where
  "admissible ok step [] s = True"
| "admissible ok step (op # ops) s = (ok op s \<and> admissible ok step ops (step op s))"

lemma run_steps_append: "run_steps step (xs @ ys) s = run_steps step ys (run_steps step xs s)"
  by (induction xs arbitrary: s) simp_all

lemma admissible_append:
  "admissible ok step (xs @ ys) s \<longleftrightarrow> admissible ok step xs s \<and> admissible ok step ys (run_steps step xs s)"
  by (induction xs arbitrary: s) simp_all

locale step_system =
  fixes step :: "'op \<Rightarrow> 's \<Rightarrow> 's" and ok :: "'op \<Rightarrow> 's \<Rightarrow> bool"
    and inv :: "'s \<Rightarrow> bool" and le :: "'s \<Rightarrow> 's \<Rightarrow> bool"
  assumes keeps: "inv s \<Longrightarrow> ok op s \<Longrightarrow> inv (step op s)"
    and grows: "inv s \<Longrightarrow> ok op s \<Longrightarrow> le s (step op s)"
    and le_refl: "le s s"
    and le_trans: "le s t \<Longrightarrow> le t u \<Longrightarrow> le s u"
begin

lemma run_keeps: "inv s \<Longrightarrow> admissible ok step ops s \<Longrightarrow> inv (run_steps step ops s)"
  by (induction ops arbitrary: s) (auto simp: keeps)

lemma run_grows: "inv s \<Longrightarrow> admissible ok step ops s \<Longrightarrow> le s (run_steps step ops s)"
proof (induction ops arbitrary: s)
  case Nil
  then show ?case by (simp add: le_refl)
next
  case (Cons op ops)
  then have "le s (step op s)" "le (step op s) (run_steps step ops (step op s))"
    by (simp_all add: grows keeps)
  then show ?case by (auto intro: le_trans)
qed

end

end
