(* ===== verification/Worker_Queue.thy ===== *)
theory Worker_Queue
  imports Task_Service Worker_Repository Step_System
begin

text \<open>
  The task queue as one system: the API calls of \<open>Task_Service\<close> and the worker transactions of
  \<open>Worker_Repository\<close>, from any number of processes, interleaved transaction by transaction.
  \<open>queue_step\<close> is the abstract protocol (insert, edit, claim, heartbeat, close); every concrete
  operation is shown to be one of its steps or to change nothing, and the invariant, the frozen
  history and the fencing of stale claims are proved once, on the protocol.
\<close>

section \<open>Invariant and history\<close>

definition runs :: "task \<Rightarrow> task_attempt \<Rightarrow> bool" where
  "runs t a \<longleftrightarrow> a_task_id a = t_id t \<and> a_attempt_number a = t_attempt_count t \<and>
     t_lease_token_hash t = Some (a_lease_token_hash a) \<and> t_worker_id t = Some (a_worker_id a) \<and>
     a_status a = ATTEMPT_RUNNING"

definition attempt_numbers :: "uuid \<Rightarrow> db \<Rightarrow> nat set" where
  "attempt_numbers i d = a_attempt_number ` {a \<in> set (task_attempts d). a_task_id a = i}"

definition queue_inv :: "db \<Rightarrow> bool" where
  "queue_inv d \<longleftrightarrow> task_tables_ok d \<and>
     (\<forall>t \<in> set (tasks d). t_status t = RUNNING \<longrightarrow> (\<exists>a \<in> set (task_attempts d). runs t a)) \<and>
     (\<forall>a \<in> set (task_attempts d). a_status a = ATTEMPT_RUNNING \<longrightarrow>
        (\<exists>t \<in> set (tasks d). t_status t = RUNNING \<and> runs t a)) \<and>
     (\<forall>t \<in> set (tasks d). attempt_numbers (t_id t) d = {1..t_attempt_count t})"

text \<open>What no operation rewrites: the request of a task, a terminal task, a finished attempt.\<close>

definition task_le :: "task \<Rightarrow> task \<Rightarrow> bool" where
  "task_le t t' \<longleftrightarrow> t_id t' = t_id t \<and> t_idempotency_key t' = t_idempotency_key t \<and>
     t_request_fingerprint t' = t_request_fingerprint t \<and> t_task_type t' = t_task_type t \<and>
     t_task_input t' = t_task_input t \<and> t_max_attempts t' = t_max_attempts t \<and>
     t_created_at t' = t_created_at t \<and> t_attempt_count t \<le> t_attempt_count t' \<and>
     t_updated_at t \<le> t_updated_at t' \<and> (terminal_status (t_status t) \<longrightarrow> t' = t)"

definition attempt_le :: "task_attempt \<Rightarrow> task_attempt \<Rightarrow> bool" where
  "attempt_le a a' \<longleftrightarrow> a_id a' = a_id a \<and> a_task_id a' = a_task_id a \<and>
     a_attempt_number a' = a_attempt_number a \<and> a_worker_id a' = a_worker_id a \<and>
     a_lease_token_hash a' = a_lease_token_hash a \<and> a_started_at a' = a_started_at a \<and>
     (a_status a \<noteq> ATTEMPT_RUNNING \<longrightarrow> a' = a)"

definition history_le :: "db \<Rightarrow> db \<Rightarrow> bool" where
  "history_le d d' \<longleftrightarrow>
     (\<forall>t \<in> set (tasks d). \<exists>t' \<in> set (tasks d'). task_le t t') \<and>
     (\<forall>a \<in> set (task_attempts d). \<exists>a' \<in> set (task_attempts d'). attempt_le a a')"

lemma task_le_refl [simp]: "task_le t t"
  by (simp add: task_le_def)

lemma attempt_le_refl [simp]: "attempt_le a a"
  by (simp add: attempt_le_def)

lemma task_le_trans: "task_le t u \<Longrightarrow> task_le u v \<Longrightarrow> task_le t v"
  by (auto simp: task_le_def)

lemma attempt_le_trans: "attempt_le a b \<Longrightarrow> attempt_le b c \<Longrightarrow> attempt_le a c"
  unfolding attempt_le_def by (cases "a_status a = ATTEMPT_RUNNING") auto

lemma history_le_refl: "history_le d d"
  unfolding history_le_def using task_le_refl attempt_le_refl by blast

lemma history_le_trans: "history_le d e \<Longrightarrow> history_le e f \<Longrightarrow> history_le d f"
  unfolding history_le_def by (meson task_le_trans attempt_le_trans)

section \<open>The protocol\<close>

definition put_attempt :: "task_attempt \<Rightarrow> db \<Rightarrow> db" where
  "put_attempt a d = d\<lparr>task_attempts := update_where (\<lambda>r. a_id r = a_id a) (\<lambda>_. a) (task_attempts d)\<rparr>"

definition add_task :: "task \<Rightarrow> db \<Rightarrow> db" where
  "add_task t d = d\<lparr>tasks := tasks d @ [t]\<rparr>"

definition add_attempt :: "task_attempt \<Rightarrow> db \<Rightarrow> db" where
  "add_attempt a d = d\<lparr>task_attempts := task_attempts d @ [a]\<rparr>"

definition same_lease :: "task \<Rightarrow> task \<Rightarrow> bool" where
  "same_lease t t' \<longleftrightarrow> (t_status t' = RUNNING \<longleftrightarrow> t_status t = RUNNING) \<and>
     t_attempt_count t' = t_attempt_count t \<and> t_lease_token_hash t' = t_lease_token_hash t \<and>
     t_worker_id t' = t_worker_id t"

inductive queue_step :: "db \<Rightarrow> db \<Rightarrow> bool" where
  insert: "\<lbrakk>t_id t \<notin> t_id ` set (tasks d); t_idempotency_key t \<notin> t_idempotency_key ` set (tasks d);
     task_checks t; t_status t = PENDING_APPROVAL; t_attempt_count t = 0\<rbrakk> \<Longrightarrow>
   queue_step d (add_task t d)"
| edit: "\<lbrakk>t \<in> set (tasks d); task_le t t'; same_lease t t'; task_checks t'\<rbrakk> \<Longrightarrow>
   queue_step d (flush_task t' d)"
| claim: "\<lbrakk>t \<in> set (tasks d); t_status t = APPROVED; task_le t t'; task_checks t'; t_status t' = RUNNING;
     t_attempt_count t' = t_attempt_count t + 1; runs t' a; attempt_checks a;
     a_id a \<notin> a_id ` set (task_attempts d)\<rbrakk> \<Longrightarrow>
   queue_step d (add_attempt a (flush_task t' d))"
| beat: "\<lbrakk>t \<in> set (tasks d); task_le t t'; same_lease t t'; task_checks t';
     a \<in> set (task_attempts d); runs t a; attempt_le a a'; a_status a' = ATTEMPT_RUNNING;
     attempt_checks a'\<rbrakk> \<Longrightarrow>
   queue_step d (put_attempt a' (flush_task t' d))"
| close: "\<lbrakk>t \<in> set (tasks d); t_status t = RUNNING; task_le t t'; task_checks t'; t_status t' \<noteq> RUNNING;
     t_attempt_count t' = t_attempt_count t; a \<in> set (task_attempts d); runs t a; attempt_le a a';
     a_status a' \<noteq> ATTEMPT_RUNNING; attempt_checks a'\<rbrakk> \<Longrightarrow>
   queue_step d (put_attempt a' (flush_task t' d))"

inductive_cases queue_stepE: "queue_step d d'"

lemma put_attempt_simps [simp]:
  "tasks (put_attempt a d) = tasks d"
  "task_attempts (flush_task t d) = task_attempts d"
  "tasks (add_attempt a d) = tasks d"
  "task_attempts (add_attempt a d) = task_attempts d @ [a]"
  "tasks (add_task t d) = tasks d @ [t]"
  "task_attempts (add_task t d) = task_attempts d"
  by (simp_all add: put_attempt_def flush_task_def add_attempt_def add_task_def)

lemma flush_task_set:
  "t \<in> set (tasks d) \<Longrightarrow> t_id t' = t_id t \<Longrightarrow>
   r \<in> set (tasks (flush_task t' d)) \<longleftrightarrow> r = t' \<or> (r \<in> set (tasks d) \<and> t_id r \<noteq> t_id t')"
  unfolding flush_task_def using set_put [of t "tasks d" t_id t'] by auto

lemma put_attempt_set:
  "a \<in> set (task_attempts d) \<Longrightarrow> a_id a' = a_id a \<Longrightarrow>
   r \<in> set (task_attempts (put_attempt a' d)) \<longleftrightarrow>
     r = a' \<or> (r \<in> set (task_attempts d) \<and> a_id r \<noteq> a_id a')"
  unfolding put_attempt_def using set_put [of a "task_attempts d" a_id a'] by auto

lemma attempt_unique:
  assumes "task_tables_ok d" "a \<in> set (task_attempts d)" "b \<in> set (task_attempts d)"
    and "a_id a = a_id b \<or> a_task_id a = a_task_id b \<and> a_attempt_number a = a_attempt_number b"
  shows "a = b"
  using assms distinct_key_unique [OF task_tables_okD(4)]
    distinct_key_unique [OF task_tables_okD(5)] by blast

lemma task_unique:
  "task_tables_ok d \<Longrightarrow> t \<in> set (tasks d) \<Longrightarrow> u \<in> set (tasks d) \<Longrightarrow> t_id t = t_id u \<Longrightarrow> t = u"
  using distinct_key_unique [OF task_tables_okD(1)] by blast

lemma queue_invD:
  assumes "queue_inv d"
  shows "task_tables_ok d"
    "t \<in> set (tasks d) \<Longrightarrow> t_status t = RUNNING \<Longrightarrow> \<exists>a \<in> set (task_attempts d). runs t a"
    "a \<in> set (task_attempts d) \<Longrightarrow> a_status a = ATTEMPT_RUNNING \<Longrightarrow>
       \<exists>t \<in> set (tasks d). t_status t = RUNNING \<and> runs t a"
    "t \<in> set (tasks d) \<Longrightarrow> attempt_numbers (t_id t) d = {1..t_attempt_count t}"
  using assms by (auto simp: queue_inv_def)

lemma put_task_ok:
  "task_tables_ok d \<Longrightarrow> t \<in> set (tasks d) \<Longrightarrow> task_le t t' \<Longrightarrow> task_checks t' \<Longrightarrow>
   task_tables_ok (flush_task t' d)"
  by (rule flush_task_ok [where ?t0.0 = t]) (auto simp: task_le_def find_task_unique)

lemma put_attempt_ok:
  assumes "task_tables_ok d" "a \<in> set (task_attempts d)" "attempt_le a a'" "attempt_checks a'"
  shows "task_tables_ok (put_attempt a' d)"
proof -
  have "update_where (\<lambda>r. r = a) (\<lambda>_. a') (task_attempts d) =
      update_where (\<lambda>r. a_id r = a_id a') (\<lambda>_. a') (task_attempts d)"
    using update_where_single [where key = a_id and t = a and P = "\<lambda>r. r = a" and f = "\<lambda>_. a'"] assms
      task_tables_okD(4) [OF assms(1)] by (auto simp: attempt_le_def)
  moreover have "task_tables_ok (d\<lparr>task_attempts := update_where (\<lambda>r. r = a) (\<lambda>_. a') (task_attempts d)\<rparr>)"
    using assms by (intro attempt_update_ok) (auto simp: attempt_le_def)
  ultimately show ?thesis by (simp add: put_attempt_def)
qed

lemma add_attempt_ok:
  assumes "task_tables_ok d" "attempt_checks a" "a_id a \<notin> a_id ` set (task_attempts d)"
    and "a_task_id a \<in> t_id ` set (tasks d)" and "a_attempt_number a \<notin> attempt_numbers (a_task_id a) d"
  shows "task_tables_ok (add_attempt a d)"
  using assms by (auto simp: task_tables_ok_def add_attempt_def attempt_numbers_def)

lemma add_task_ok:
  assumes "task_tables_ok d" "t_id t \<notin> t_id ` set (tasks d)" "task_checks t"
    and "t_idempotency_key t \<notin> t_idempotency_key ` set (tasks d)"
  shows "task_tables_ok (add_task t d)"
  using assms by (auto simp: task_tables_ok_def add_task_def)

lemma attempt_numbers_put:
  assumes "a \<in> set (task_attempts d)" "attempt_le a a'" "task_tables_ok d"
  shows "attempt_numbers i (put_attempt a' d) = attempt_numbers i d"
proof -
  let ?key = "\<lambda>a. (a_task_id a, a_attempt_number a)"
  have "?key (if a_id r = a_id a' then a' else r) = ?key r" if "r \<in> set (task_attempts d)" for r
    using attempt_unique [OF assms(3) that assms(1)] assms(2) by (auto simp: attempt_le_def)
  then have "map ?key (task_attempts (put_attempt a' d)) = map ?key (task_attempts d)"
    by (simp add: put_attempt_def update_where_def)
  then have keys: "?key ` set (task_attempts (put_attempt a' d)) = ?key ` set (task_attempts d)"
    by (metis list.set_map)
  have "attempt_numbers i e = {n. (i, n) \<in> ?key ` set (task_attempts e)}" for e
    by (auto simp: attempt_numbers_def)
  with keys show ?thesis by simp
qed

lemma attempt_numbers_simps [simp]:
  "attempt_numbers i (flush_task t d) = attempt_numbers i d"
  "attempt_numbers i (add_task t d) = attempt_numbers i d"
  "attempt_numbers i (add_attempt a d) =
     (if a_task_id a = i then insert (a_attempt_number a) (attempt_numbers i d) else attempt_numbers i d)"
  by (auto simp: attempt_numbers_def)

lemma attempt_numbers_known:
  "task_tables_ok d \<Longrightarrow> i \<notin> t_id ` set (tasks d) \<Longrightarrow> attempt_numbers i d = {}"
  by (auto simp: attempt_numbers_def dest: task_tables_okD(7))

lemma step_tables_ok:
  assumes "queue_step d d'" and inv: "queue_inv d"
  shows "task_tables_ok d'"
  using assms(1)
proof cases
  case (insert t)
  then show ?thesis using queue_invD(1) [OF inv] by (auto intro: add_task_ok)
next
  case (edit t t')
  then show ?thesis using queue_invD(1) [OF inv] by (auto intro: put_task_ok)
next
  case (claim t t' a)
  have "a_attempt_number a \<notin> attempt_numbers (a_task_id a) (flush_task t' d)"
    using claim queue_invD(4) [OF inv claim(2)] by (auto simp: runs_def task_le_def)
  moreover have "task_tables_ok (flush_task t' d)" using claim queue_invD(1) [OF inv] by (auto intro: put_task_ok)
  ultimately show ?thesis using claim by (auto intro!: add_attempt_ok simp: runs_def task_le_def)
next
  case (beat t t' a a')
  then show ?thesis using queue_invD(1) [OF inv] by (auto intro!: put_attempt_ok put_task_ok)
next
  case (close t t' a a')
  then show ?thesis using queue_invD(1) [OF inv] by (auto intro!: put_attempt_ok put_task_ok)
qed

text \<open>The three link clauses of the invariant, for a replaced task row.\<close>

definition links :: "db \<Rightarrow> bool" where
  "links d \<longleftrightarrow>
     (\<forall>t \<in> set (tasks d). t_status t = RUNNING \<longrightarrow> (\<exists>a \<in> set (task_attempts d). runs t a)) \<and>
     (\<forall>a \<in> set (task_attempts d). a_status a = ATTEMPT_RUNNING \<longrightarrow>
        (\<exists>t \<in> set (tasks d). t_status t = RUNNING \<and> runs t a)) \<and>
     (\<forall>t \<in> set (tasks d). attempt_numbers (t_id t) d = {1..t_attempt_count t})"

lemma queue_inv_links: "queue_inv d \<longleftrightarrow> task_tables_ok d \<and> links d"
  by (simp add: queue_inv_def links_def)

lemma runs_same_lease:
  "same_lease t t' \<Longrightarrow> task_le t t' \<Longrightarrow> runs t' a = runs t a"
  by (simp add: same_lease_def runs_def task_le_def)

lemma links_edit:
  assumes ok: "task_tables_ok d" and "links d" "t \<in> set (tasks d)" "task_le t t'" "same_lease t t'"
  shows "links (flush_task t' d)"
proof -
  have id: "t_id t' = t_id t" "t_attempt_count t' = t_attempt_count t"
    "t_status t' = RUNNING \<longleftrightarrow> t_status t = RUNNING"
    using assms by (auto simp: task_le_def same_lease_def)
  have mem: "r \<in> set (tasks (flush_task t' d)) \<longleftrightarrow> r = t' \<or> r \<in> set (tasks d) \<and> t_id r \<noteq> t_id t" for r
    using flush_task_set [OF assms(3) id(1)] id(1) by simp
  have "\<exists>u \<in> set (tasks (flush_task t' d)). t_status u = RUNNING \<and> runs u a"
    if a: "a \<in> set (task_attempts d)" "a_status a = ATTEMPT_RUNNING" for a
  proof -
    from assms(2) a obtain u where u: "u \<in> set (tasks d)" "t_status u = RUNNING" "runs u a"
      by (auto simp: links_def)
    show ?thesis
    proof (cases "u = t")
      case True
      with u id runs_same_lease [OF assms(5,4)] mem show ?thesis by auto
    next
      case False
      with u task_unique [OF ok u(1) assms(3)] mem show ?thesis by blast
    qed
  qed
  then show ?thesis
    using assms(2,3) mem id runs_same_lease [OF assms(5,4)] by (auto simp: links_def)
qed

lemma links_claim:
  assumes ok: "task_tables_ok d" and "links d" "t \<in> set (tasks d)" "t_status t = APPROVED" "task_le t t'"
    and "t_status t' = RUNNING" "t_attempt_count t' = t_attempt_count t + 1" "runs t' a"
  shows "links (add_attempt a (flush_task t' d))"
proof -
  have id: "t_id t' = t_id t" using assms by (auto simp: task_le_def)
  have mem: "r \<in> set (tasks (flush_task t' d)) \<longleftrightarrow> r = t' \<or> r \<in> set (tasks d) \<and> t_id r \<noteq> t_id t" for r
    using flush_task_set [OF assms(3) id] id by simp
  have att: "a_task_id a = t_id t" "a_attempt_number a = t_attempt_count t + 1"
    using assms(7,8) id by (auto simp: runs_def)
  show ?thesis
    unfolding links_def
  proof (intro conjI ballI impI)
    fix r
    assume r: "r \<in> set (tasks (add_attempt a (flush_task t' d)))"
    then consider "r = t'" | "r \<in> set (tasks d)" "t_id r \<noteq> t_id t" using mem by auto
    note cases = this
    show "attempt_numbers (t_id r) (add_attempt a (flush_task t' d)) = {1..t_attempt_count r}"
      using cases
    proof cases
      case 1
      then show ?thesis using assms(2,3,7) att id by (auto simp: links_def)
    next
      case 2
      then show ?thesis using assms(2) att by (auto simp: links_def)
    qed
    show "\<exists>b \<in> set (task_attempts (add_attempt a (flush_task t' d))). runs r b" if "t_status r = RUNNING"
      using cases
    proof cases
      case 1
      then show ?thesis using assms(8) by simp
    next
      case 2
      then show ?thesis using assms(2) that by (auto simp: links_def)
    qed
  next
    fix b
    assume b: "b \<in> set (task_attempts (add_attempt a (flush_task t' d)))" "a_status b = ATTEMPT_RUNNING"
    show "\<exists>u \<in> set (tasks (add_attempt a (flush_task t' d))). t_status u = RUNNING \<and> runs u b"
    proof (cases "b = a")
      case True
      then show ?thesis using mem assms(6,8) by auto
    next
      case False
      with b assms(2) obtain u where u: "u \<in> set (tasks d)" "t_status u = RUNNING" "runs u b"
        by (auto simp: links_def)
      then have "t_id u \<noteq> t_id t" using task_unique [OF ok u(1) assms(3)] assms(4) by auto
      with u mem show ?thesis by auto
    qed
  qed
qed

lemma links_beat:
  assumes ok: "task_tables_ok d" and "links d" "a \<in> set (task_attempts d)" "attempt_le a a'"
    and "a_status a = ATTEMPT_RUNNING" "a_status a' = ATTEMPT_RUNNING"
  shows "links (put_attempt a' d)"
proof -
  have id: "a_id a' = a_id a" and same: "runs t a' = runs t a" for t
    using assms(4-6) by (auto simp: attempt_le_def runs_def)
  have mem: "r \<in> set (task_attempts (put_attempt a' d)) \<longleftrightarrow>
      r = a' \<or> r \<in> set (task_attempts d) \<and> a_id r \<noteq> a_id a" for r
    using put_attempt_set [OF assms(3) id] id by simp
  have keep: "\<exists>b \<in> set (task_attempts (put_attempt a' d)). runs t b"
    if "b \<in> set (task_attempts d)" "runs t b" for t b
    using that same mem attempt_unique [OF ok that(1) assms(3)] by blast
  show ?thesis
    unfolding links_def put_attempt_simps attempt_numbers_put [OF assms(3,4) ok]
  proof (intro conjI ballI impI)
    fix b
    assume "b \<in> set (task_attempts (put_attempt a' d))" "a_status b = ATTEMPT_RUNNING"
    then consider "b = a'" | "b \<in> set (task_attempts d)" "a_status b = ATTEMPT_RUNNING" using mem by blast
    then show "\<exists>t \<in> set (tasks d). t_status t = RUNNING \<and> runs t b"
      using assms(2,3,5) same by cases (auto simp: links_def)
  qed (use assms(2) keep in \<open>auto simp: links_def\<close>)
qed

lemma links_close:
  assumes ok: "task_tables_ok d" and "links d" "t \<in> set (tasks d)" "t_status t = RUNNING" "task_le t t'"
    and "t_status t' \<noteq> RUNNING" "t_attempt_count t' = t_attempt_count t"
    and a: "a \<in> set (task_attempts d)" "runs t a" "attempt_le a a'" "a_status a' \<noteq> ATTEMPT_RUNNING"
  shows "links (put_attempt a' (flush_task t' d))"
proof -
  have id: "t_id t' = t_id t" "a_id a' = a_id a" using assms(5) a(3) by (auto simp: task_le_def attempt_le_def)
  have tmem: "r \<in> set (tasks (put_attempt a' (flush_task t' d))) \<longleftrightarrow>
      r = t' \<or> r \<in> set (tasks d) \<and> t_id r \<noteq> t_id t" for r
    using flush_task_set [OF assms(3) id(1)] id(1) by simp
  have amem: "r \<in> set (task_attempts (put_attempt a' (flush_task t' d))) \<longleftrightarrow>
      r = a' \<or> r \<in> set (task_attempts d) \<and> a_id r \<noteq> a_id a" for r
    using put_attempt_set [of a "flush_task t' d" a' r] a(1) id(2) by simp
  have nums: "attempt_numbers i (put_attempt a' (flush_task t' d)) = attempt_numbers i d" for i
    using attempt_numbers_put [OF a(1,3) ok, of i] by (simp add: attempt_numbers_def put_attempt_def)
  have task_of: "a_task_id b = t_id u" if "runs u b" for u b using that by (simp add: runs_def)
  show ?thesis
    unfolding links_def
  proof (intro conjI ballI impI)
    fix r
    assume r: "r \<in> set (tasks (put_attempt a' (flush_task t' d)))"
    show "attempt_numbers (t_id r) (put_attempt a' (flush_task t' d)) = {1..t_attempt_count r}"
      using r assms(2,3,7) id(1) unfolding nums tmem links_def by auto
    assume "t_status r = RUNNING"
    with r tmem assms(6) have "r \<in> set (tasks d)" "t_id r \<noteq> t_id t" by auto
    with assms(2) \<open>t_status r = RUNNING\<close> obtain b where b: "b \<in> set (task_attempts d)" "runs r b"
      by (auto simp: links_def)
    with task_of [OF b(2)] task_of [OF a(2)] \<open>t_id r \<noteq> t_id t\<close> have "b \<noteq> a" by auto
    then have "a_id b \<noteq> a_id a" using attempt_unique [OF ok b(1) a(1)] by blast
    with b amem show "\<exists>b \<in> set (task_attempts (put_attempt a' (flush_task t' d))). runs r b" by blast
  next
    fix b
    assume b: "b \<in> set (task_attempts (put_attempt a' (flush_task t' d)))" "a_status b = ATTEMPT_RUNNING"
    with amem a(4) have b': "b \<in> set (task_attempts d)" "a_id b \<noteq> a_id a" by auto
    with assms(2) b obtain u where u: "u \<in> set (tasks d)" "t_status u = RUNNING" "runs u b"
      by (auto simp: links_def)
    have "t_id u \<noteq> t_id t"
    proof
      assume "t_id u = t_id t"
      then have "u = t" using task_unique [OF ok u(1) assms(3)] by blast
      with u(3) a(2) have "a_task_id b = a_task_id a \<and> a_attempt_number b = a_attempt_number a"
        by (simp add: runs_def)
      then have "b = a" using attempt_unique [OF ok b'(1) a(1)] by blast
      with b'(2) show False by simp
    qed
    with u tmem show "\<exists>u \<in> set (tasks (put_attempt a' (flush_task t' d))). t_status u = RUNNING \<and> runs u b"
      by blast
  qed
qed

lemma links_insert:
  assumes "task_tables_ok d" "links d" "t_id t \<notin> t_id ` set (tasks d)" "t_status t = PENDING_APPROVAL"
    and "t_attempt_count t = 0"
  shows "links (add_task t d)"
  using assms attempt_numbers_known [OF assms(1,3)] by (auto simp: links_def)

lemma queue_step_inv:
  assumes "queue_step d d'" and "queue_inv d"
  shows "queue_inv d'"
proof -
  note ok = queue_invD(1) [OF assms(2)]
  have l: "links d" using assms(2) by (simp add: queue_inv_links)
  from assms(1) have "links d'"
  proof cases
    case (insert t)
    with links_insert [OF ok l] show ?thesis by simp
  next
    case (edit t t')
    with links_edit [OF ok l] show ?thesis by simp
  next
    case (claim t t' a)
    with links_claim [OF ok l] show ?thesis by simp
  next
    case (beat t t' a a')
    then have "links (flush_task t' d)" and "task_tables_ok (flush_task t' d)"
      using links_edit [OF ok l] put_task_ok [OF ok] by auto
    with beat links_beat [of "flush_task t' d" a a'] show ?thesis by (simp add: runs_def)
  next
    case (close t t' a a')
    with links_close [OF ok l] show ?thesis by simp
  qed
  with step_tables_ok [OF assms] show ?thesis by (simp add: queue_inv_links)
qed

lemma history_flush:
  assumes "task_tables_ok d" "t \<in> set (tasks d)" "task_le t t'"
  shows "history_le d (flush_task t' d)"
proof -
  have id: "t_id t' = t_id t" using assms(3) by (simp add: task_le_def)
  have "\<exists>r' \<in> set (tasks (flush_task t' d)). task_le r r'" if r: "r \<in> set (tasks d)" for r
  proof (cases "r = t")
    case True
    with assms flush_task_set [OF assms(2) id] show ?thesis by auto
  next
    case False
    then have "t_id r \<noteq> t_id t" using task_unique [OF assms(1) r assms(2)] by blast
    with r id flush_task_set [OF assms(2) id, of r] have "r \<in> set (tasks (flush_task t' d))" by simp
    then show ?thesis using task_le_refl by blast
  qed
  then show ?thesis unfolding history_le_def put_attempt_simps using attempt_le_refl by blast
qed

lemma history_put_attempt:
  assumes "task_tables_ok d" "a \<in> set (task_attempts d)" "attempt_le a a'"
  shows "history_le d (put_attempt a' d)"
proof -
  have id: "a_id a' = a_id a" using assms(3) by (simp add: attempt_le_def)
  have "\<exists>r' \<in> set (task_attempts (put_attempt a' d)). attempt_le r r'" if r: "r \<in> set (task_attempts d)" for r
  proof (cases "r = a")
    case True
    with assms put_attempt_set [OF assms(2) id] show ?thesis by auto
  next
    case False
    then have "a_id r \<noteq> a_id a" using attempt_unique [OF assms(1) r assms(2)] by blast
    with r id put_attempt_set [OF assms(2) id, of r] have "r \<in> set (task_attempts (put_attempt a' d))" by simp
    then show ?thesis using attempt_le_refl by blast
  qed
  then show ?thesis unfolding history_le_def put_attempt_simps using task_le_refl by blast
qed

lemma history_add:
  "history_le d (add_task t d)" "history_le d (add_attempt a d)"
  unfolding history_le_def put_attempt_simps set_append using task_le_refl attempt_le_refl by blast+

lemma queue_step_history:
  assumes "queue_step d d'" and "queue_inv d"
  shows "history_le d d'"
proof -
  note ok = queue_invD(1) [OF assms(2)]
  from assms(1) show ?thesis
  proof cases
    case (insert t)
    then show ?thesis by (simp add: history_add)
  next
    case (edit t t')
    then show ?thesis by (simp add: history_flush [OF ok])
  next
    case (claim t t' a)
    then show ?thesis using history_le_trans [OF history_flush [OF ok] history_add(2)] by simp
  next
    case (beat t t' a a')
    then show ?thesis
      using history_le_trans [OF history_flush [OF ok] history_put_attempt [OF put_task_ok [OF ok]]] by simp
  next
    case (close t t' a a')
    then show ?thesis
      using history_le_trans [OF history_flush [OF ok] history_put_attempt [OF put_task_ok [OF ok]]] by simp
  qed
qed

section \<open>The operations refine the protocol\<close>

lemma create_task_step:
  assumes "create_task m i ts key ty inp d = Inr (r, d')" "i \<notin> t_id ` set (tasks d)"
    and "1 \<le> m" "length key \<in> {1..255}" "is_task_type ty"
  shows "d' = d \<or> queue_step d d'"
  using assms(1)
proof (rule create_task_cases)
  assume new: "d' = d\<lparr>tasks := tasks d @ [created_task r]\<rparr>" "t_id (created_task r) = i"
    "t_idempotency_key (created_task r) = key" "key \<notin> t_idempotency_key ` set (tasks d)"
    "t_status (created_task r) = PENDING_APPROVAL"
    and "1 \<le> m \<Longrightarrow> length key \<in> {1..255} \<Longrightarrow> is_task_type ty \<Longrightarrow> task_checks (created_task r)"
  moreover have "t_attempt_count (created_task r) = 0"
    using assms(1) new(4) by (auto simp: create_task_def insert_if_absent_def result_simps Let_def)
  ultimately show ?thesis using assms(2-) queue_step.insert [of "created_task r" d]
    by (simp add: add_task_def)
qed simp

lemma approve_task_step:
  assumes "approve_task now i d = Inr (t', d')" "task_tables_ok d"
  shows "d' = d \<or> queue_step d d'"
proof -
  from assms(1) obtain t where t: "find_task d i = Some t" by (auto simp: approve_task_eq split: option.splits)
  then have "t \<in> set (tasks d)" "task_checks t" using assms(2) by (auto dest: find_task_Some task_tables_okD)
  moreover from this have "task_le t (approved_row now t)" "same_lease t (approved_row now t)"
    if "t_status t = PENDING_APPROVAL"
    using that by (auto simp: task_le_def same_lease_def approved_row_def terminal_status_def)
  ultimately show ?thesis
    using assms(1) t approved_row_checks [of t now] queue_step.edit [of t d "approved_row now t"]
    by (auto simp: approve_task_eq split: if_splits)
qed

lemma cancel_task_step:
  assumes "cancel_task now i d = Inr (t', d')" "task_tables_ok d"
  shows "d' = d \<or> queue_step d d'"
proof -
  from assms(1) obtain t where t: "find_task d i = Some t"
    by (auto simp: cancel_task_eq [OF assms(2)] split: option.splits)
  then have "t \<in> set (tasks d)" "task_checks t" using assms(2) by (auto dest: find_task_Some task_tables_okD)
  moreover have "task_le t (cancelled_row now t)" "same_lease t (cancelled_row now t)"
    if "t_status t \<in> {PENDING_APPROVAL, APPROVED, RUNNING}"
    using that by (auto simp: task_le_def same_lease_def cancelled_row_def terminal_status_def)
  ultimately show ?thesis
    using assms t cancelled_row_checks [of t now] queue_step.edit [of t d "cancelled_row now t"]
    by (cases "t_status t") (auto simp: cancel_task_eq split: if_splits)
qed

lemma claimed_row_le:
  "t_status t = APPROVED \<Longrightarrow> task_le t (claimed_row w h l now t)"
  by (simp add: task_le_def claimed_row_def terminal_status_def)

lemma claimed_row_checks:
  assumes "task_checks t" "t_status t = APPROVED" "t_attempt_count t < t_max_attempts t" "hex64 h" "length w \<le> 255"
  shows "task_checks (claimed_row w h l now t)"
  using assms by (auto simp: task_checks_def claimed_row_def)

lemma claim_one_cases:
  assumes "claim_one types w l raw aid locked now1 now d = Inr (c, d')"
  obtains "c = None" "d' = d"
      "types = [] \<or> (\<forall>t \<in> set (tasks d). claimable types now1 t \<longrightarrow> t_id t \<in> locked)"
  | t t' a claim where "c = Some claim" "t \<in> set (tasks d)" "claimable types now1 t" "t_id t \<notin> locked"
    "\<forall>u \<in> set (tasks d). claimable types now1 u \<and> t_id u \<notin> locked \<longrightarrow> claim_order t \<le> claim_order u"
    "t' = claimed_row w (hash_lease_token raw) l now t"
    "a_id a = aid" "a_worker_id a = w" "a_lease_token_hash a = hash_lease_token raw"
    "a_task_id a = t_id t" "a_attempt_number a = t_attempt_count t + 1" "a_status a = ATTEMPT_RUNNING"
    "a_finished_at a = None" "a_error_code a = None" "a_error_summary a = None" "a_terminal_reason a = None"
    "c_task_id claim = t_id t" "c_attempt_id claim = aid" "c_attempt_number claim = t_attempt_count t + 1"
    "c_worker_id claim = w" "c_lease_token_hash claim = hash_lease_token raw"
    "c_task_input claim = t_task_input t" "c_task_type claim = t_task_type t"
    "c_max_attempts claim = t_max_attempts t"
    "d' = add_attempt a (flush_task t' d)" "varchar_ok 255 w" "aid \<notin> a_id ` set (task_attempts d)"
proof (cases "types = [] \<or> (\<forall>t \<in> set (tasks d). \<not> (claimable types now1 t \<and> t_id t \<notin> locked))")
  case True
  then have "types = [] \<or> first_by claim_order (filter (\<lambda>t. claimable types now1 t \<and> t_id t \<notin> locked) (tasks d)) = None"
    by (auto simp: filter_empty_conv)
  with assms have "c = None" "d' = d"
    by (auto simp: claim_one_def Let_def simp del: first_by_None split: if_splits)
  with True that(1) show ?thesis by blast
next
  case False
  then have "filter (\<lambda>t. claimable types now1 t \<and> t_id t \<notin> locked) (tasks d) \<noteq> []"
    by (auto simp: filter_empty_conv)
  then obtain t where f: "first_by claim_order
      (filter (\<lambda>t. claimable types now1 t \<and> t_id t \<notin> locked) (tasks d)) = Some t"
    using first_by_None by (metis not_None_eq)
  from first_by_Some [OF f] have t: "t \<in> set (tasks d)" "claimable types now1 t" "t_id t \<notin> locked"
    "\<forall>u \<in> set (tasks d). claimable types now1 u \<and> t_id u \<notin> locked \<longrightarrow> claim_order t \<le> claim_order u"
    by auto
  from t(2) have "t_status t = APPROVED" by (simp add: claimable_def)
  with assms f False show ?thesis
    by (intro that(2) [OF _ t(1-4) refl])
      (auto simp: claim_one_def Let_def add_attempt_def flush_task_def claimed_row_def result_simps list_all_iff)
qed

lemma claim_one_step:
  assumes run: "claim_one types w l raw aid locked now1 now d = Inr (c, d')" and ok: "task_tables_ok d"
    and "aid \<notin> a_id ` set (task_attempts d)" "length w \<le> 255"
  shows "d' = d \<or> queue_step d d'"
  using run
proof (rule claim_one_cases)
  fix t t' a claim
  assume t: "t \<in> set (tasks d)" "claimable types now1 t"
    and t': "t' = claimed_row w (hash_lease_token raw) l now t"
    and a: "a_id a = aid" "a_worker_id a = w" "a_lease_token_hash a = hash_lease_token raw"
    "a_task_id a = t_id t" "a_attempt_number a = t_attempt_count t + 1" "a_status a = ATTEMPT_RUNNING"
    "a_finished_at a = None" "a_error_code a = None" "a_error_summary a = None" "a_terminal_reason a = None"
    and d': "d' = add_attempt a (flush_task t' d)"
  have st: "t_status t = APPROVED" "t_attempt_count t < t_max_attempts t" using t(2) by (auto simp: claimable_def)
  moreover have "attempt_checks a" using a assms(4) by (simp add: attempt_checks_def)
  moreover have "task_checks t'"
    unfolding t' using task_tables_okD(3) [OF ok t(1)] st assms(4) by (intro claimed_row_checks) auto
  moreover have "runs t' a" "t_status t' = RUNNING" "t_attempt_count t' = t_attempt_count t + 1"
    using a by (auto simp: t' runs_def claimed_row_def)
  ultimately have "queue_step d d'"
    unfolding d' using t(1) claimed_row_le [OF st(1)] a(1) assms(3) by (intro queue_step.claim) (auto simp: t')
  then show ?thesis by simp
qed simp

text \<open>A running task has exactly one attempt row that its fence selects.\<close>

lemma lease_attempt:
  assumes inv: "queue_inv d" and t: "t \<in> set (tasks d)" "t_status t = RUNNING"
    and "t_lease_token_hash t = Some h"
  obtains a where "a \<in> set (task_attempts d)" "runs t a" "task_checks t" "attempt_checks a"
    "\<And>b. b \<in> set (task_attempts d) \<Longrightarrow> running_attempt_of (t_id t) (t_attempt_count t) h b \<longleftrightarrow> b = a"
    "\<And>b. b \<in> set (task_attempts d) \<Longrightarrow>
       a_task_id b = t_id t \<and> a_attempt_number b = t_attempt_count t \<longleftrightarrow> b = a"
proof -
  note ok = queue_invD(1) [OF inv]
  from queue_invD(2) [OF inv t] obtain a where a: "a \<in> set (task_attempts d)" "runs t a" by blast
  have u: "a_task_id b = t_id t \<and> a_attempt_number b = t_attempt_count t \<longleftrightarrow> b = a"
    if "b \<in> set (task_attempts d)" for b
    using attempt_unique [OF ok that a(1)] a(2) by (auto simp: runs_def)
  moreover have "running_attempt_of (t_id t) (t_attempt_count t) h b \<longleftrightarrow> b = a"
    if "b \<in> set (task_attempts d)" for b
    using u [OF that] a(2) assms(4) by (auto simp: running_attempt_of_def runs_def)
  ultimately show thesis
    using that [OF a] task_tables_okD(3) [OF ok t(1)] task_tables_okD(6) [OF ok a(1)] by blast
qed

lemma active_fence_unique:
  assumes "task_tables_ok d" "t \<in> set (tasks d)" "active_fence c now t" "r \<in> set (tasks d)"
  shows "active_fence c now r \<longleftrightarrow> r = t"
  using assms task_unique [OF assms(1,4,2)] by (auto simp: active_fence_def)

lemma find_fence_None:
  "find (active_fence c now) (tasks d) = None \<longleftrightarrow> (\<forall>t \<in> set (tasks d). \<not> active_fence c now t)"
  by (auto simp: find_None_iff)

text \<open>The attempt rows after the update of the one row that the fence selects.\<close>

lemma update_attempt_eq:
  assumes "queue_inv d" "a \<in> set (task_attempts d)"
    and "\<And>b. b \<in> set (task_attempts d) \<Longrightarrow> Q b \<longleftrightarrow> b = a" and "a_id (f a) = a_id a"
  shows "rowcount Q (task_attempts d) = 1"
    and "update_where Q f (task_attempts d) = task_attempts (put_attempt (f a) d)"
proof -
  note ids = task_tables_okD(4) [OF queue_invD(1) [OF assms(1)]]
  show "rowcount Q (task_attempts d) = 1"
    using ids assms(2,3) by (rule single_row(1))
  show "update_where Q f (task_attempts d) = task_attempts (put_attempt (f a) d)"
    using single_row(3) [OF ids assms(2), of Q f] assms(3,4) by (simp add: put_attempt_def)
qed

lemma update_task_eq:
  assumes "task_tables_ok d" "t \<in> set (tasks d)"
    and "\<And>r. r \<in> set (tasks d) \<Longrightarrow> P r \<longleftrightarrow> r = t" and "t_id (f t) = t_id t"
  shows "rowcount P (tasks d) = 1" and "find P (tasks d) = Some t"
    and "d\<lparr>tasks := update_where P f (tasks d)\<rparr> = flush_task (f t) d"
proof -
  note ids = task_tables_okD(1) [OF assms(1)]
  show "rowcount P (tasks d) = 1" using ids assms(2,3) by (rule single_row(1))
  show "find P (tasks d) = Some t" using ids assms(2,3) by (rule single_row(2))
  show "d\<lparr>tasks := update_where P f (tasks d)\<rparr> = flush_task (f t) d"
    using single_row(3) [OF ids assms(2), of P f] assms(3,4) by (simp add: flush_task_def)
qed

lemma put_attempt_commute:
  "put_attempt a (flush_task t d) = flush_task t (put_attempt a d)"
  by (simp add: put_attempt_def flush_task_def)

lemma require_one_row_one [simp]: "require_one_row 1 s = Inr ()" "require_one_row (Suc 0) s = Inr ()"
  by (simp_all add: require_one_row_def)

lemma heartbeat_cases:
  assumes inv: "queue_inv d"
  obtains "heartbeat c l now d = Inl (ExecutionInvariantError ''active task fence did not match'')"
      "\<forall>t \<in> set (tasks d). \<not> active_fence c now t"
  | t a where "t \<in> set (tasks d)" "active_fence c now t" "a \<in> set (task_attempts d)" "runs t a"
      "heartbeat c l now d =
         Inr (if t_cancellation_requested_at t \<noteq> None then HEARTBEAT_CANCELLATION_REQUESTED else ACTIVE,
              put_attempt (a\<lparr>a_last_heartbeat_at := now\<rparr>) (flush_task (heartbeat_row l now t) d))"
proof (cases "find (active_fence c now) (tasks d)")
  case None
  with that(1) show ?thesis by (auto simp: heartbeat_def Let_def find_fence_None)
next
  case (Some t)
  note ok = queue_invD(1) [OF inv]
  from find_in_set [OF Some] have t: "t \<in> set (tasks d)" "active_fence c now t" by auto
  then have st: "t_status t = RUNNING" and h: "t_lease_token_hash t = Some (c_lease_token_hash c)"
    and c: "c_task_id c = t_id t" "c_attempt_number c = t_attempt_count t" by (auto simp: active_fence_def)
  obtain a where a: "a \<in> set (task_attempts d)" "runs t a"
    and Q: "\<And>b. b \<in> set (task_attempts d) \<Longrightarrow>
      running_attempt_of (t_id t) (t_attempt_count t) (c_lease_token_hash c) b \<longleftrightarrow> b = a"
    using lease_attempt [OF inv t(1) st h] by metis
  have tid: "t_id (heartbeat_row l now t) = t_id t" by (simp add: heartbeat_row_def)
  have tu: "d\<lparr>tasks := update_where (active_fence c now) (heartbeat_row l now) (tasks d)\<rparr> =
      flush_task (heartbeat_row l now t) d"
    using ok t(1) active_fence_unique [OF ok t] tid by (rule update_task_eq(3))
  let ?Q = "running_attempt_of (t_id t) (t_attempt_count t) (c_lease_token_hash c)"
  have au: "rowcount ?Q (task_attempts d) = 1"
    "update_where ?Q (\<lambda>a. a\<lparr>a_last_heartbeat_at := now\<rparr>) (task_attempts d) =
     task_attempts (put_attempt (a\<lparr>a_last_heartbeat_at := now\<rparr>) d)"
    by (rule update_attempt_eq [OF inv a(1) Q]; simp)+
  have "heartbeat c l now d =
         Inr (if t_cancellation_requested_at t \<noteq> None then HEARTBEAT_CANCELLATION_REQUESTED else ACTIVE,
              put_attempt (a\<lparr>a_last_heartbeat_at := now\<rparr>) (flush_task (heartbeat_row l now t) d))"
    using au Some unfolding heartbeat_def Let_def tu c by (simp add: put_attempt_def flush_task_def)
  with that(2) [OF t a] show ?thesis by blast
qed

lemma heartbeat_step:
  assumes inv: "queue_inv d" and run: "heartbeat c l now d = Inr (r, d')"
  shows "queue_step d d'"
proof (rule heartbeat_cases [OF inv, of c l now])
  assume "heartbeat c l now d = Inl (ExecutionInvariantError ''active task fence did not match'')"
  with run show ?thesis by simp
next
  fix t a
  assume t: "t \<in> set (tasks d)" "active_fence c now t" and a: "a \<in> set (task_attempts d)" "runs t a"
    and "heartbeat c l now d =
         Inr (if t_cancellation_requested_at t \<noteq> None then HEARTBEAT_CANCELLATION_REQUESTED else ACTIVE,
              put_attempt (a\<lparr>a_last_heartbeat_at := now\<rparr>) (flush_task (heartbeat_row l now t) d))"
  with run have d': "d' = put_attempt (a\<lparr>a_last_heartbeat_at := now\<rparr>) (flush_task (heartbeat_row l now t) d)"
    by simp
  have chk: "task_checks t" "attempt_checks a" using queue_invD(1) [OF inv] t a by (auto dest: task_tables_okD)
  have st: "t_status t = RUNNING" "a_status a = ATTEMPT_RUNNING"
    using t(2) a(2) by (auto simp: active_fence_def runs_def)
  show ?thesis
    unfolding d'
  proof (rule queue_step.beat [OF t(1) _ _ _ a])
    show "task_le t (heartbeat_row l now t)" "same_lease t (heartbeat_row l now t)"
      using st by (auto simp: task_le_def same_lease_def heartbeat_row_def terminal_status_def)
    show "task_checks (heartbeat_row l now t)"
      using chk(1) st by (auto simp: task_checks_def heartbeat_row_def)
  qed (use st chk in \<open>auto simp: attempt_le_def attempt_checks_def\<close>)
qed

lemma finalize_cases:
  assumes inv: "queue_inv d" and ids: "\<And>t. t_id (snd tv t) = t_id t" "\<And>a. a_id (snd av a) = a_id a"
  obtains "\<forall>t \<in> set (tasks d). \<not> finalizable c req now t"
      "finalize c req tv av now d = Inr (classify_failed_fence c now d, d)"
  | t where "t \<in> set (tasks d)" "finalizable c req now t" "\<not> (fst tv \<and> fst av)"
      "finalize c req tv av now d = Inl data_error"
  | t a where "t \<in> set (tasks d)" "finalizable c req now t" "a \<in> set (task_attempts d)" "runs t a"
      "fst tv" "fst av"
      "finalize c req tv av now d = Inr (APPLIED,
         put_attempt ((snd av a)\<lparr>a_finished_at := Some now\<rparr>) (flush_task (release_row now (snd tv t)) d))"
proof (cases "rowcount (finalizable c req now) (tasks d) = 0")
  case True
  with that(1) show ?thesis by (auto simp: finalize_def Let_def rowcount_zero)
next
  case False
  then obtain t where t: "t \<in> set (tasks d)" "finalizable c req now t" by (auto simp: rowcount_zero)
  note ok = queue_invD(1) [OF inv]
  have act: "active_fence c now t" using t(2) by (simp add: finalizable_def)
  then have st: "t_status t = RUNNING" and h: "t_lease_token_hash t = Some (c_lease_token_hash c)"
    and c: "c_task_id c = t_id t" "c_attempt_number c = t_attempt_count t" by (auto simp: active_fence_def)
  obtain a where a: "a \<in> set (task_attempts d)" "runs t a"
    and Q: "\<And>b. b \<in> set (task_attempts d) \<Longrightarrow>
      running_attempt_of (t_id t) (t_attempt_count t) (c_lease_token_hash c) b \<longleftrightarrow> b = a"
    using lease_attempt [OF inv t(1) st h] by metis
  have P: "finalizable c req now r \<longleftrightarrow> r = t" if "r \<in> set (tasks d)" for r
    using active_fence_unique [OF ok t(1) act that] t(2) by (auto simp: finalizable_def)
  have tid: "t_id (release_row now (snd tv t)) = t_id t" using ids by (simp add: release_row_def)
  have tu: "rowcount (finalizable c req now) (tasks d) = 1"
    "d\<lparr>tasks := update_where (finalizable c req now) (\<lambda>t. release_row now (snd tv t)) (tasks d)\<rparr> =
      flush_task (release_row now (snd tv t)) d"
    using update_task_eq(1,3) [OF ok t(1), of "finalizable c req now" "\<lambda>t. release_row now (snd tv t)"] P tid
    by simp_all
  let ?Q = "running_attempt_of (t_id t) (t_attempt_count t) (c_lease_token_hash c)"
  let ?f = "\<lambda>a. (snd av a)\<lparr>a_finished_at := Some now\<rparr>"
  have au: "rowcount ?Q (task_attempts d) = 1"
    "update_where ?Q ?f (task_attempts d) = task_attempts (put_attempt (?f a) d)"
    by (rule update_attempt_eq [OF inv a(1) Q]; simp add: ids)+
  have run: "finalize c req tv av now d = (if fst tv \<and> fst av
      then Inr (APPLIED, put_attempt (?f a) (flush_task (release_row now (snd tv t)) d)) else Inl data_error)"
    using False au unfolding finalize_def Let_def tu c
    by (cases "fst tv"; cases "fst av") (simp_all add: put_attempt_def flush_task_def)
  show ?thesis
  proof (cases "fst tv \<and> fst av")
    case True
    with run that(3) [OF t a] show ?thesis by simp
  next
    case False
    with run that(2) [OF t False] show ?thesis by simp
  qed
qed

lemma finalize_step:
  assumes inv: "queue_inv d" and ids: "\<And>t. t_id (snd tv t) = t_id t" "\<And>a. a_id (snd av a) = a_id a"
    and run: "finalize c req tv av now d = Inr (r, d')"
    and row: "\<And>t. task_checks t \<Longrightarrow> t_status t = RUNNING \<Longrightarrow>
      (if req then t_cancellation_requested_at t \<noteq> None else t_cancellation_requested_at t = None) \<Longrightarrow>
      task_checks (release_row now (snd tv t)) \<and> task_le t (release_row now (snd tv t)) \<and>
      t_status (release_row now (snd tv t)) \<noteq> RUNNING \<and> t_attempt_count (release_row now (snd tv t)) = t_attempt_count t"
    and att: "\<And>a. attempt_checks a \<Longrightarrow> a_status a = ATTEMPT_RUNNING \<Longrightarrow>
      attempt_checks ((snd av a)\<lparr>a_finished_at := Some now\<rparr>) \<and> attempt_le a ((snd av a)\<lparr>a_finished_at := Some now\<rparr>) \<and>
      a_status (snd av a) \<noteq> ATTEMPT_RUNNING"
  shows "d' = d \<or> queue_step d d'"
proof (rule finalize_cases [OF inv ids, of c req now])
  assume "finalize c req tv av now d = Inr (classify_failed_fence c now d, d)"
  with run show ?thesis by simp
next
  assume "finalize c req tv av now d = Inl data_error"
  with run show ?thesis by simp
next
  fix t a
  assume t: "t \<in> set (tasks d)" "finalizable c req now t" and a: "a \<in> set (task_attempts d)" "runs t a"
    and "finalize c req tv av now d = Inr (APPLIED,
         put_attempt ((snd av a)\<lparr>a_finished_at := Some now\<rparr>) (flush_task (release_row now (snd tv t)) d))"
  with run have d': "d' = put_attempt ((snd av a)\<lparr>a_finished_at := Some now\<rparr>) (flush_task (release_row now (snd tv t)) d)"
    by simp
  have chk: "task_checks t" "attempt_checks a" using queue_invD(1) [OF inv] t a by (auto dest: task_tables_okD)
  have st: "t_status t = RUNNING" "a_status a = ATTEMPT_RUNNING"
    using t(2) a(2) by (auto simp: active_fence_def finalizable_def runs_def)
  from t(2) have "if req then t_cancellation_requested_at t \<noteq> None else t_cancellation_requested_at t = None"
    by (simp add: finalizable_def)
  note row' = row [OF chk(1) st(1) this] and att' = att [OF chk(2) st(2)]
  have "queue_step d d'"
    unfolding d' by (rule queue_step.close [OF t(1) st(1) _ _ _ _ a]) (use row' att' in auto)
  then show ?thesis by simp
qed

lemmas closing_rows = release_row_def task_checks_def task_le_def attempt_checks_def attempt_le_def
  terminal_status_def

lemma finalize_success_step:
  assumes "queue_inv d" "finalize_success c result_value now d = Inr (r, d')"
  shows "d' = d \<or> queue_step d d'"
  using assms(2) unfolding finalize_success_def
  by (rule finalize_step [OF assms(1), rotated 2]) (auto simp: closing_rows)

lemma schedule_retry_step:
  assumes "queue_inv d" "schedule_retry c delay code summary reason now clock d = Inr (r, d')"
    and "length code \<le> 100" "length summary \<le> 500" "length reason \<le> 100"
  shows "d' = d \<or> queue_step d d'"
  using assms(2) unfolding schedule_retry_def running_commands_accepted bindR_simps
  by (rule finalize_step [OF assms(1), rotated 2]) (use assms(3-) in \<open>auto simp: closing_rows\<close>)

lemma finalize_failure_step:
  assumes "queue_inv d" "finalize_failure c code summary reason now d = Inr (r, d')"
    and "length code \<le> 100" "length summary \<le> 500" "length reason \<le> 100"
  shows "d' = d \<or> queue_step d d'"
  using assms(2) unfolding finalize_failure_def running_commands_accepted bindR_simps
  by (rule finalize_step [OF assms(1), rotated 2]) (use assms(3-) in \<open>auto simp: closing_rows\<close>)

lemma finalize_cancellation_step:
  assumes "queue_inv d" "finalize_cancellation c now d = Inr (r, d')"
  shows "d' = d \<or> queue_step d d'"
  using assms(2) unfolding finalize_cancellation_def running_commands_accepted bindR_simps
  by (rule finalize_step [OF assms(1), rotated 2]) (auto simp: closing_rows)

definition lease_expired_attempt :: "task \<Rightarrow> time \<Rightarrow> task_attempt \<Rightarrow> task_attempt" where
  "lease_expired_attempt t now a = a\<lparr>a_status := LEASE_EXPIRED, a_finished_at := Some now,
     a_error_code := Some ''lease_expired'', a_error_summary := Some ''Worker lease expired before completion'',
     a_terminal_reason := Some (if t_cancellation_requested_at t \<noteq> None
       then ''customer_cancellation'' else ''lease_expired'')\<rparr>"

lemma recover_cases:
  assumes inv: "queue_inv d"
  obtains "\<forall>t \<in> set (tasks d). expired now t \<longrightarrow> t_id t \<in> locked"
      "recover_one_expired backoff locked now d = Inr (None, d)"
  | t e where "t \<in> set (tasks d)" "expired now t" "t_id t \<notin> locked"
      "recovery_outcome backoff now t = Inl e" "recover_one_expired backoff locked now d = Inl e"
  | t a rd r where "t \<in> set (tasks d)" "expired now t" "t_id t \<notin> locked"
      "recovery_outcome backoff now t = Inr rd" "a \<in> set (task_attempts d)" "runs t a"
      "recover_one_expired backoff locked now d = Inr (Some r,
         put_attempt (lease_expired_attempt t now a) (flush_task (recovered_row rd now t) d))"
      "r_task_id r = t_id t" "r_attempt_id r = a_id a" "r_new_status r = task_status_value (rd_status rd)"
proof -
  let ?rows = "filter (\<lambda>t. expired now t \<and> t_id t \<notin> locked) (tasks d)"
  note ok = queue_invD(1) [OF inv]
  show thesis
  proof (cases "first_by recovery_order ?rows")
    case None
    then have "?rows = []" by simp
    then have "\<forall>t \<in> set (tasks d). expired now t \<longrightarrow> t_id t \<in> locked" by (auto simp: filter_empty_conv)
    with None that(1) show ?thesis by (simp add: recover_one_expired_def del: first_by_None)
  next
    case (Some t)
    from first_by_Some [OF Some] have t: "t \<in> set (tasks d)" "expired now t" "t_id t \<notin> locked" by auto
    have st: "t_status t = RUNNING" using t(2) by (simp add: expired_def)
    have chk: "task_checks t" using task_tables_okD(3) [OF ok t(1)] .
    with st obtain w h where w: "t_worker_id t = Some w" and h: "t_lease_token_hash t = Some h"
      and n: "t_attempt_count t > 0" by (auto simp: task_checks_def)
    obtain a where a: "a \<in> set (task_attempts d)" "runs t a"
      and Q: "\<And>b. b \<in> set (task_attempts d) \<Longrightarrow> running_attempt_of (t_id t) (t_attempt_count t) h b \<longleftrightarrow> b = a"
      and U: "\<And>b. b \<in> set (task_attempts d) \<Longrightarrow> a_task_id b = t_id t \<and> a_attempt_number b = t_attempt_count t \<longleftrightarrow> b = a"
      by (rule lease_attempt [OF inv t(1) st h]) (rule that; blast)
    let ?Q = "running_attempt_of (t_id t) (t_attempt_count t) h"
    let ?f = "\<lambda>a. a\<lparr>a_status := LEASE_EXPIRED, a_finished_at := Some now,
     a_error_code := Some ''lease_expired'', a_error_summary := Some ''Worker lease expired before completion'',
     a_terminal_reason := Some (if t_cancellation_requested_at t \<noteq> None
       then ''customer_cancellation'' else ''lease_expired'')\<rparr>"
    have fa: "?f a = lease_expired_attempt t now a" by (simp add: lease_expired_attempt_def)
    have au: "rowcount ?Q (task_attempts d) = 1"
      "update_where ?Q ?f (task_attempts d) = task_attempts (put_attempt (lease_expired_attempt t now a) d)"
      unfolding fa [symmetric] by (rule update_attempt_eq [OF inv a(1) Q]; simp)+
    note start = recover_one_expired_def Some option.case w h prod.case au(1) require_one_row_one bindR_simps
    show ?thesis
    proof (cases "recovery_outcome backoff now t")
      case (Inl e)
      with n have "recover_one_expired backoff locked now d = Inl e"
        unfolding start Let_def by simp
      with that(2) [OF t Inl] show ?thesis by blast
    next
      case (Inr rd)
      let ?P = "\<lambda>r. t_id r = t_id t \<and> expired now r \<and> t_attempt_count r = t_attempt_count t \<and>
        t_lease_token_hash r = Some h"
      have P: "?P r \<longleftrightarrow> r = t" if "r \<in> set (tasks d)" for r
        using task_unique [OF ok that t(1)] t(2) h by auto
      have tid: "t_id (recovered_row rd now t) = t_id t" by (simp add: recovered_row_def)
      have tu: "rowcount ?P (tasks d) = 1"
        "d\<lparr>tasks := update_where ?P (recovered_row rd now) (tasks d)\<rparr> = flush_task (recovered_row rd now t) d"
        using update_task_eq(1,3) [OF ok t(1), of ?P "recovered_row rd now"] P tid by simp_all
      let ?a = "lease_expired_attempt t now a"
      have ida: "a_id ?a = a_id a" "a_task_id ?a = a_task_id a" "a_attempt_number ?a = a_attempt_number a"
        "a_lease_token_hash ?a = a_lease_token_hash a" by (simp_all add: lease_expired_attempt_def)
      have found: "find (\<lambda>b. a_task_id b = t_id t \<and> a_attempt_number b = t_attempt_count t \<and> a_lease_token_hash b = h)
          (task_attempts (put_attempt ?a d)) = Some ?a"
      proof (rule single_row(2) [where key = a_id])
        show "distinct (map a_id (task_attempts (put_attempt ?a d)))"
          unfolding put_attempt_def using task_tables_okD(4) [OF ok] by (simp add: map_put)
        show "?a \<in> set (task_attempts (put_attempt ?a d))"
          using put_attempt_set [OF a(1) ida(1)] by simp
        fix b assume "b \<in> set (task_attempts (put_attempt ?a d))"
        then consider "b = ?a" | "b \<in> set (task_attempts d)" "a_id b \<noteq> a_id a"
          using put_attempt_set [OF a(1) ida(1)] ida(1) by auto
        then show "a_task_id b = t_id t \<and> a_attempt_number b = t_attempt_count t \<and> a_lease_token_hash b = h \<longleftrightarrow> b = ?a"
        proof cases
          case 1
          with a(2) h ida show ?thesis by (auto simp: runs_def)
        next
          case 2
          with U [OF 2(1)] ida(1) show ?thesis by auto
        qed
      qed
      have "recover_one_expired backoff locked now d = Inr
         (Some \<lparr>r_task_id = t_id t, r_attempt_id = a_id a, r_attempt_number = t_attempt_count t,
            r_previous_worker_id = w, r_new_status = task_status_value (rd_status rd),
            r_next_attempt_at = rd_next_attempt_at rd, r_terminal_reason = rd_terminal_reason rd\<rparr>,
          put_attempt ?a (flush_task (recovered_row rd now t) d))"
      proof -
        have e1: "d\<lparr>task_attempts := update_where ?Q ?f (task_attempts d)\<rparr> = put_attempt ?a d"
          unfolding au(2) by (simp add: put_attempt_def)
        have e2: "(put_attempt ?a d)\<lparr>tasks := update_where ?P (recovered_row rd now) (tasks d)\<rparr> =
            put_attempt ?a (flush_task (recovered_row rd now t) d)"
          unfolding tu(2) [symmetric] by (simp add: put_attempt_def)
        have e3: "task_attempts (put_attempt ?a (flush_task u d)) = task_attempts (put_attempt ?a d)" for u
          by (simp add: put_attempt_def)
        show ?thesis
          unfolding start Let_def
          by (simp only: n guardR_simps bindR_simps e1 Inr put_attempt_simps tu(1) require_one_row_one e2 e3
              found expectR_simps ida)
      qed
      with that(3) [OF t Inr a] show ?thesis by simp
    qed
  qed
qed

lemma recovery_outcome_cases:
  assumes "recovery_outcome backoff now t = Inr rd"
  obtains "t_cancellation_requested_at t \<noteq> None" "rd_status rd = CANCELLED" "rd_next_attempt_at rd = None"
      "rd_error_code rd = None" "rd_error_summary rd = None"
  | "t_cancellation_requested_at t = None" "t_max_attempts t \<le> t_attempt_count t" "rd_status rd = FAILED"
      "rd_next_attempt_at rd = None" "fits 100 (rd_error_code rd)" "fits 500 (rd_error_summary rd)"
  | s where "t_cancellation_requested_at t = None" "t_attempt_count t < t_max_attempts t"
      "backoff (t_attempt_count t) = Inr s" "rd_status rd = APPROVED"
      "rd_next_attempt_at rd = Some (now + micros s)" "fits 100 (rd_error_code rd)" "fits 500 (rd_error_summary rd)"
  using assms by (auto simp: recovery_outcome_def result_simps split: if_splits)

lemma recover_step:
  assumes inv: "queue_inv d" and run: "recover_one_expired backoff locked now d = Inr (r, d')"
  shows "d' = d \<or> queue_step d d'"
proof (rule recover_cases [OF inv, of now locked backoff])
  fix t a rd r'
  assume t: "t \<in> set (tasks d)" "expired now t" and rd: "recovery_outcome backoff now t = Inr rd"
    and a: "a \<in> set (task_attempts d)" "runs t a"
    and "recover_one_expired backoff locked now d = Inr (Some r',
         put_attempt (lease_expired_attempt t now a) (flush_task (recovered_row rd now t) d))"
  with run have d': "d' = put_attempt (lease_expired_attempt t now a) (flush_task (recovered_row rd now t) d)" by simp
  have chk: "task_checks t" "attempt_checks a" using queue_invD(1) [OF inv] t a by (auto dest: task_tables_okD)
  have st: "t_status t = RUNNING" "a_status a = ATTEMPT_RUNNING"
    using t(2) a(2) by (auto simp: expired_def runs_def)
  have "task_checks (recovered_row rd now t) \<and> rd_status rd \<noteq> RUNNING"
    using rd by (rule recovery_outcome_cases) (use chk(1) st in \<open>auto simp: recovered_row_def task_checks_def\<close>)
  then have "queue_step d d'"
    unfolding d'
    by (intro queue_step.close [OF t(1) st(1) _ _ _ _ a])
      (use st chk in \<open>auto simp: recovered_row_def lease_expired_attempt_def task_le_def attempt_le_def
         attempt_checks_def terminal_status_def\<close>)
  then show ?thesis by simp
qed (use run in auto)

end
