(* ===== verification/Queue_Safety.thy ===== *)
theory Queue_Safety
  imports Worker_Queue
begin

text \<open>
  The properties of the queue over every interleaving: the operations as one datatype, the queue
  as an instance of the stepped system, and the theorems about reachable states, stale claims,
  claiming and recovery. An operation that raises rolls back, so it leaves the tables as they are.
\<close>

section \<open>Operations\<close>

datatype finalization =
    FinSuccess jobj
  | FinRetry seconds string string string time
  | FinFailure string string string
  | FinCancellation

primrec run_finalization :: "finalization \<Rightarrow> claimed_task \<Rightarrow> time \<Rightarrow> db \<Rightarrow> exn + (fence_result \<times> db)" where
  "run_finalization (FinSuccess result_value) c now d = finalize_success c result_value now d"
| "run_finalization (FinRetry delay code summary reason clock) c now d =
     schedule_retry c delay code summary reason now clock d"
| "run_finalization (FinFailure code summary reason) c now d = finalize_failure c code summary reason now d"
| "run_finalization FinCancellation c now d = finalize_cancellation c now d"

primrec finalization_ok :: "finalization \<Rightarrow> bool" where
  "finalization_ok (FinSuccess _) = True"
| "finalization_ok (FinRetry _ code summary reason _) =
     (length code \<le> 100 \<and> length summary \<le> 500 \<and> length reason \<le> 100)"
| "finalization_ok (FinFailure code summary reason) =
     (length code \<le> 100 \<and> length summary \<le> 500 \<and> length reason \<le> 100)"
| "finalization_ok FinCancellation = True"

datatype queue_op =
    OpCreate nat uuid time string string jobj
  | OpApprove time uuid
  | OpCancel time uuid
  | OpClaim "string list" string seconds string uuid "uuid set" time time
  | OpHeartbeat claimed_task seconds time
  | OpFinalize finalization claimed_task time
  | OpRecover "nat \<Rightarrow> seconds result" "uuid set" time

definition commit :: "db \<Rightarrow> exn + ('a \<times> db) \<Rightarrow> db" where
  "commit d r = (case r of Inl _ \<Rightarrow> d | Inr (_, d') \<Rightarrow> d')"

primrec run_queue_op :: "queue_op \<Rightarrow> db \<Rightarrow> db" where
  "run_queue_op (OpCreate m i ts key ty inp) d = commit d (create_task m i ts key ty inp d)"
| "run_queue_op (OpApprove now i) d = commit d (approve_task now i d)"
| "run_queue_op (OpCancel now i) d = commit d (cancel_task now i d)"
| "run_queue_op (OpClaim types w l raw aid locked now1 now) d =
     commit d (claim_one types w l raw aid locked now1 now d)"
| "run_queue_op (OpHeartbeat c l now) d = commit d (heartbeat c l now d)"
| "run_queue_op (OpFinalize f c now) d = commit d (run_finalization f c now d)"
| "run_queue_op (OpRecover backoff locked now) d = commit d (recover_one_expired backoff locked now d)"

text \<open>
  What the callers guarantee: \<open>uuid4\<close> is fresh, the request passed the schema, the worker
  identifier and the error texts fit their columns. Nothing is asked of a claim, of a clock or
  of a result.
\<close>

primrec queue_op_ok :: "queue_op \<Rightarrow> db \<Rightarrow> bool" where
  "queue_op_ok (OpCreate m i ts key ty inp) d \<longleftrightarrow>
     i \<notin> t_id ` set (tasks d) \<and> 1 \<le> m \<and> length key \<in> {1..255} \<and> is_task_type ty"
| "queue_op_ok (OpApprove now i) d \<longleftrightarrow> True"
| "queue_op_ok (OpCancel now i) d \<longleftrightarrow> True"
| "queue_op_ok (OpClaim types w l raw aid locked now1 now) d \<longleftrightarrow>
     aid \<notin> a_id ` set (task_attempts d) \<and> length w \<le> 255"
| "queue_op_ok (OpHeartbeat c l now) d \<longleftrightarrow> True"
| "queue_op_ok (OpFinalize f c now) d \<longleftrightarrow> finalization_ok f"
| "queue_op_ok (OpRecover backoff locked now) d \<longleftrightarrow> True"

lemma commit_simps [simp]: "commit d (Inl e) = d" "commit d (Inr (x, d')) = d'"
  by (simp_all add: commit_def)

lemma commit_cases:
  assumes "\<And>x d'. m = Inr (x, d') \<Longrightarrow> d' = d \<or> queue_step d d'"
  shows "commit d m = d \<or> queue_step d (commit d m)"
  using assms by (cases m) (auto simp: commit_def)

lemma run_finalization_step:
  assumes "queue_inv d" "finalization_ok f" "run_finalization f c now d = Inr (r, d')"
  shows "d' = d \<or> queue_step d d'"
  using assms finalize_success_step [OF assms(1)] schedule_retry_step [OF assms(1)]
    finalize_failure_step [OF assms(1)] finalize_cancellation_step [OF assms(1)]
  by (cases f) auto

lemma run_queue_op_step:
  assumes inv: "queue_inv d" and ok: "queue_op_ok op d"
  shows "run_queue_op op d = d \<or> queue_step d (run_queue_op op d)"
proof -
  note tok = queue_invD(1) [OF inv]
  show ?thesis
  proof (cases op)
    case (OpCreate m i ts key ty inp)
    with ok have "d' = d \<or> queue_step d d'" if "create_task m i ts key ty inp d = Inr (r, d')" for r d'
      using create_task_step [OF that] by simp
    then show ?thesis unfolding OpCreate run_queue_op.simps by (rule commit_cases)
  next
    case (OpApprove now i)
    show ?thesis unfolding OpApprove run_queue_op.simps by (rule commit_cases) (rule approve_task_step [OF _ tok])
  next
    case (OpCancel now i)
    show ?thesis unfolding OpCancel run_queue_op.simps by (rule commit_cases) (rule cancel_task_step [OF _ tok])
  next
    case (OpClaim types w l raw aid locked now1 now)
    with ok show ?thesis unfolding OpClaim run_queue_op.simps
      by (intro commit_cases claim_one_step [OF _ tok]) auto
  next
    case (OpHeartbeat c l now)
    show ?thesis unfolding OpHeartbeat run_queue_op.simps
      by (rule commit_cases, rule disjI2) (rule heartbeat_step [OF inv])
  next
    case (OpFinalize f c now)
    with ok show ?thesis unfolding OpFinalize run_queue_op.simps
      by (intro commit_cases run_finalization_step [OF inv]) auto
  next
    case (OpRecover backoff locked now)
    show ?thesis unfolding OpRecover run_queue_op.simps by (rule commit_cases) (rule recover_step [OF inv])
  qed
qed

interpretation queue: step_system run_queue_op queue_op_ok queue_inv history_le
proof
  show "queue_inv (run_queue_op op d)" if "queue_inv d" "queue_op_ok op d" for d op
    using run_queue_op_step [OF that] queue_step_inv that by (metis (no_types))
  show "history_le d (run_queue_op op d)" if "queue_inv d" "queue_op_ok op d" for d op
    using run_queue_op_step [OF that] queue_step_history that history_le_refl by (metis (no_types))
qed (auto simp: history_le_refl intro: history_le_trans)

lemma empty_queue_inv [simp]: "queue_inv empty_db"
  using empty_db_ok by (simp add: queue_inv_def tables_ok_def empty_db_def)

section \<open>Stale claims\<close>

text \<open>The attempt a claim was issued for is finished.\<close>

definition superseded :: "claimed_task \<Rightarrow> db \<Rightarrow> bool" where
  "superseded c d \<longleftrightarrow> (\<exists>a \<in> set (task_attempts d). a_task_id a = c_task_id c \<and>
     a_attempt_number a = c_attempt_number c \<and> a_status a \<noteq> ATTEMPT_RUNNING)"

lemma superseded_stable: "superseded c d \<Longrightarrow> history_le d d' \<Longrightarrow> superseded c d'"
  unfolding superseded_def history_le_def attempt_le_def by blast

lemma superseded_fence:
  assumes inv: "queue_inv d" and "superseded c d" "t \<in> set (tasks d)"
  shows "\<not> active_fence c now t"
proof
  assume act: "active_fence c now t"
  then have "t_status t = RUNNING" "c_task_id c = t_id t" "c_attempt_number c = t_attempt_count t"
    by (auto simp: active_fence_def)
  with queue_invD(2) [OF inv assms(3)] obtain a where a: "a \<in> set (task_attempts d)" "runs t a" by blast
  from assms(2) obtain b where b: "b \<in> set (task_attempts d)" "a_task_id b = c_task_id c"
    "a_attempt_number b = c_attempt_number c" "a_status b \<noteq> ATTEMPT_RUNNING" by (auto simp: superseded_def)
  with a \<open>c_task_id c = t_id t\<close> \<open>c_attempt_number c = t_attempt_count t\<close>
  have "b = a" using attempt_unique [OF queue_invD(1) [OF inv] b(1) a(1)] by (auto simp: runs_def)
  with a(2) b(4) show False by (simp add: runs_def)
qed

lemma finalize_unfenced:
  assumes "\<forall>t \<in> set (tasks d). \<not> active_fence c now t"
  shows "finalize c req tv av now d = Inr (STALE, d)"
proof -
  have "rowcount (finalizable c req now) (tasks d) = 0" using assms by (auto simp: rowcount_zero finalizable_def)
  moreover have "find (active_fence c now) (tasks d) = None" using assms by (simp add: find_fence_None)
  ultimately show ?thesis by (simp add: finalize_def Let_def classify_failed_fence_def)
qed

lemma superseded_finalization:
  assumes "queue_inv d" "superseded c d"
  shows "run_finalization f c now d = Inr (STALE, d)"
  using finalize_unfenced [of d c now] superseded_fence [OF assms]
  by (cases f) (simp_all add: finalize_success_def schedule_retry_def finalize_failure_def finalize_cancellation_def)

lemma superseded_heartbeat:
  assumes "queue_inv d" "superseded c d"
  shows "heartbeat c l now d = Inl (ExecutionInvariantError ''active task fence did not match'')"
  using superseded_fence [OF assms] by (simp add: heartbeat_def Let_def find_fence_None [THEN iffD2])

lemma superseded_put:
  assumes a: "a \<in> set (task_attempts d)" and "a_id a' = a_id a" "a_task_id a' = c_task_id c"
    and "a_attempt_number a' = c_attempt_number c" "a_status a' \<noteq> ATTEMPT_RUNNING"
  shows "superseded c (put_attempt a' (flush_task t d))"
proof -
  have "a \<in> set (task_attempts (flush_task t d))" using a by simp
  from put_attempt_set [OF this assms(2)] assms show ?thesis by (auto simp: superseded_def)
qed

lemma finalize_applied_superseded:
  assumes inv: "queue_inv d" and ids: "\<And>t. t_id (snd tv t) = t_id t" "\<And>a. a_id (snd av a) = a_id a"
    and av: "\<And>a. a_task_id (snd av a) = a_task_id a \<and> a_attempt_number (snd av a) = a_attempt_number a \<and>
      a_status (snd av a) \<noteq> ATTEMPT_RUNNING"
    and run: "finalize c req tv av now d = Inr (APPLIED, d')"
  shows "superseded c d'"
proof (rule finalize_cases [OF inv ids, of c req now])
  assume "finalize c req tv av now d = Inr (classify_failed_fence c now d, d)"
  with run show ?thesis by (auto simp: classify_failed_fence_def split: option.splits if_splits)
next
  assume "finalize c req tv av now d = Inl data_error"
  with run show ?thesis by simp
next
  fix t a
  assume t: "finalizable c req now t" and a: "a \<in> set (task_attempts d)" "runs t a"
    and "finalize c req tv av now d = Inr (APPLIED,
         put_attempt ((snd av a)\<lparr>a_finished_at := Some now\<rparr>) (flush_task (release_row now (snd tv t)) d))"
  with run have "d' = put_attempt ((snd av a)\<lparr>a_finished_at := Some now\<rparr>) (flush_task (release_row now (snd tv t)) d)" by simp
  with t a av ids show ?thesis
    by (auto intro!: superseded_put simp: finalizable_def active_fence_def runs_def)
qed

lemma applied_superseded:
  assumes "queue_inv d" "run_finalization f c now d = Inr (APPLIED, d')"
  shows "superseded c d'"
  using assms(2)
  by (cases f) (auto simp: finalize_success_def schedule_retry_def finalize_failure_def finalize_cancellation_def
      intro: finalize_applied_superseded [OF assms(1), rotated 3])

lemma running_db_rows [simp]:
  "tasks running_db = [running_task]" "task_attempts running_db = [running_attempt]"
  by (simp_all add: running_db_def empty_db_def)

lemma running_task_fields [simp]:
  "t_id running_task = 11" "t_status running_task = RUNNING" "t_attempt_count running_task = 1"
  "t_cancellation_requested_at running_task = None" "runs running_task running_attempt"
  "a_task_id running_attempt = 11" "a_attempt_number running_attempt = 1" "a_status running_attempt = ATTEMPT_RUNNING"
  by (simp_all add: running_task_def running_attempt_def pending_task_def runs_def)

lemma running_db_inv [simp]: "queue_inv running_db"
proof -
  have "{a \<in> set (task_attempts running_db). a_task_id a = 11} = {running_attempt}" by auto
  then have "attempt_numbers 11 running_db = {1..1}" by (simp add: attempt_numbers_def)
  then show ?thesis by (simp add: queue_inv_def)
qed

definition example_claim :: claimed_task where
  "example_claim = \<lparr>c_task_id = 11, c_attempt_id = 9, c_attempt_number = 1, c_max_attempts = 2,
     c_worker_id = ''w'', c_lease_token_hash = hex_a, c_task_type = ''diagnostic'', c_task_input = []\<rparr>"

lemma example_claim_active: "now < 100 \<Longrightarrow> active_fence example_claim now running_task"
  by (simp add: active_fence_def example_claim_def running_task_def pending_task_def)

text \<open>One finalization is \<open>_finalize\<close> with the values of its kind.\<close>

primrec final_status :: "finalization \<Rightarrow> task_status" where
  "final_status (FinSuccess _) = SUCCEEDED"
| "final_status (FinRetry _ _ _ _ _) = APPROVED"
| "final_status (FinFailure _ _ _) = FAILED"
| "final_status FinCancellation = CANCELLED"

primrec final_attempt_status :: "finalization \<Rightarrow> attempt_status" where
  "final_attempt_status (FinSuccess _) = ATTEMPT_SUCCEEDED"
| "final_attempt_status (FinRetry _ _ _ _ _) = RETRY_SCHEDULED"
| "final_attempt_status (FinFailure _ _ _) = ATTEMPT_FAILED"
| "final_attempt_status FinCancellation = ATTEMPT_CANCELLED"

primrec final_result :: "finalization \<Rightarrow> jobj option" where
  "final_result (FinSuccess v) = Some v"
| "final_result (FinRetry _ _ _ _ _) = None"
| "final_result (FinFailure _ _ _) = None"
| "final_result FinCancellation = None"

primrec final_available :: "finalization \<Rightarrow> time option" where
  "final_available (FinSuccess _) = None"
| "final_available (FinRetry delay _ _ _ clock) = Some (clock + micros delay)"
| "final_available (FinFailure _ _ _) = None"
| "final_available FinCancellation = None"

primrec final_error :: "finalization \<Rightarrow> string option" where
  "final_error (FinSuccess _) = None"
| "final_error (FinRetry _ code _ _ _) = Some code"
| "final_error (FinFailure code _ _) = Some code"
| "final_error FinCancellation = None"

text \<open>What PostgreSQL asks of the values of a finalization.\<close>

primrec finalization_fits :: "finalization \<Rightarrow> bool" where
  "finalization_fits (FinSuccess v) = jsonb_ok (JObj v)"
| "finalization_fits (FinRetry delay code summary reason clock) =
     (timestamp_ok (clock + micros delay) \<and>
      varchar_ok 100 code \<and> varchar_ok 500 summary \<and> varchar_ok 100 reason)"
| "finalization_fits (FinFailure code summary reason) =
     (varchar_ok 100 code \<and> varchar_ok 500 summary \<and> varchar_ok 100 reason)"
| "finalization_fits FinCancellation = True"

lemma run_finalization_eq:
  obtains tv av where
    "\<And>c now d. run_finalization f c now d = finalize c (f = FinCancellation) tv av now d"
    "\<And>t. t_id (snd tv t) = t_id t" "\<And>a. a_id (snd av a) = a_id a"
    "fst tv \<and> fst av \<longleftrightarrow> finalization_fits f"
    "\<And>t. t_status (snd tv t) = final_status f" "\<And>t. t_result (snd tv t) = final_result f"
    "\<And>t. t_available_at (snd tv t) = final_available f" "\<And>t. t_last_error_code (snd tv t) = final_error f"
    "\<And>t. t_updated_at (snd tv t) = t_updated_at t" "\<And>t. t_attempt_count (snd tv t) = t_attempt_count t"
    "\<And>a. a_task_id (snd av a) = a_task_id a" "\<And>a. a_attempt_number (snd av a) = a_attempt_number a"
    "\<And>a. a_status (snd av a) = final_attempt_status f"
proof (cases f)
  case (FinSuccess v)
  then show ?thesis
    by (intro that [of "(jsonb_ok (JObj v), \<lambda>t. t\<lparr>t_status := SUCCEEDED, t_result := Some v, t_available_at := None,
          t_last_error_code := None, t_last_error_summary := None\<rparr>)"
        "(True, \<lambda>a. a\<lparr>a_status := ATTEMPT_SUCCEEDED, a_terminal_reason := Some ''completed''\<rparr>)"])
      (simp_all add: finalize_success_def)
next
  case (FinRetry delay code summary reason clock)
  then show ?thesis
    by (intro that [of "(timestamp_ok (clock + micros delay) \<and> varchar_ok 100 code \<and> varchar_ok 500 summary,
          \<lambda>t. t\<lparr>t_status := APPROVED, t_available_at := Some (clock + micros delay),
          t_result := None, t_last_error_code := Some code, t_last_error_summary := Some summary\<rparr>)"
        "(varchar_ok 100 code \<and> varchar_ok 500 summary \<and> varchar_ok 100 reason,
          \<lambda>a. a\<lparr>a_status := RETRY_SCHEDULED, a_error_code := Some code, a_error_summary := Some summary,
          a_terminal_reason := Some reason\<rparr>)"])
      (auto simp: schedule_retry_def)
next
  case (FinFailure code summary reason)
  then show ?thesis
    by (intro that [of "(varchar_ok 100 code \<and> varchar_ok 500 summary,
          \<lambda>t. t\<lparr>t_status := FAILED, t_available_at := None, t_result := None,
          t_last_error_code := Some code, t_last_error_summary := Some summary\<rparr>)"
        "(varchar_ok 100 code \<and> varchar_ok 500 summary \<and> varchar_ok 100 reason,
          \<lambda>a. a\<lparr>a_status := ATTEMPT_FAILED, a_error_code := Some code, a_error_summary := Some summary,
          a_terminal_reason := Some reason\<rparr>)"])
      (auto simp: finalize_failure_def)
next
  case FinCancellation
  then show ?thesis
    by (intro that [of "(True, \<lambda>t. t\<lparr>t_status := CANCELLED, t_available_at := None, t_result := None,
          t_last_error_code := None, t_last_error_summary := None\<rparr>)"
        "(True, \<lambda>a. a\<lparr>a_status := ATTEMPT_CANCELLED, a_terminal_reason := Some ''customer_cancellation''\<rparr>)"])
      (simp_all add: finalize_cancellation_def)
qed

lemma finalization_applies:
  assumes "queue_inv d" "t \<in> set (tasks d)" "finalizable c (f = FinCancellation) now t" "finalization_fits f"
  shows "\<exists>d'. run_finalization f c now d = Inr (APPLIED, d')"
proof -
  obtain tv av where eq: "\<And>c now d. run_finalization f c now d = finalize c (f = FinCancellation) tv av now d"
    and ids: "\<And>t. t_id (snd tv t) = t_id t" "\<And>a. a_id (snd av a) = a_id a" and fits: "fst tv \<and> fst av"
    using assms(4) by (rule_tac run_finalization_eq [of f]) blast
  show ?thesis
    unfolding eq by (rule finalize_cases [OF assms(1) ids, of c "f = FinCancellation" now]) (use assms fits in auto)
qed

lemma example_finalizable: "now < 100 \<Longrightarrow> finalizable example_claim False now running_task"
  by (simp add: finalizable_def example_claim_active)

lemma finalizable_found:
  assumes "task_tables_ok d" "t \<in> set (tasks d)" "finalizable c req now t"
  shows "find (active_fence c now) (tasks d) = Some t" "req \<longleftrightarrow> t_cancellation_requested_at t \<noteq> None"
proof -
  have act: "active_fence c now t" using assms(3) by (simp add: finalizable_def)
  show "find (active_fence c now) (tasks d) = Some t"
    using single_row(2) [where key = t_id, OF task_tables_okD(1) [OF assms(1)] assms(2)]
      active_fence_unique [OF assms(1,2) act] by blast
  show "req \<longleftrightarrow> t_cancellation_requested_at t \<noteq> None"
    using assms(3) by (auto simp: finalizable_def split: if_splits)
qed

section \<open>Properties\<close>

text \<open>
  C6. Safety of every reachable queue. After any interleaving of API calls, claims, heartbeats,
  finalizations (with any claims, even forged ones) and recoveries from the empty database, all
  constraints hold; a task is running exactly when an attempt with its number, token and worker
  is; no task has two running attempts; and its attempts are numbered 1 up to its counter, which
  never exceeds its limit.
\<close>

theorem reachable_queue_safe:
  assumes "admissible queue_op_ok run_queue_op ops empty_db" and "d = run_steps run_queue_op ops empty_db"
  shows "task_tables_ok d \<and>
    (\<forall>t \<in> set (tasks d).
       (t_status t = RUNNING \<longleftrightarrow> (\<exists>a \<in> set (task_attempts d). runs t a)) \<and>
       t_attempt_count t \<le> t_max_attempts t \<and>
       attempt_numbers (t_id t) d = {1..t_attempt_count t} \<and>
       card {a \<in> set (task_attempts d). a_task_id a = t_id t} = t_attempt_count t \<and>
       (\<forall>a \<in> set (task_attempts d). \<forall>b \<in> set (task_attempts d).
          a_task_id a = t_id t \<and> a_task_id b = t_id t \<and>
          a_status a = ATTEMPT_RUNNING \<and> a_status b = ATTEMPT_RUNNING \<longrightarrow> a = b))"
proof -
  have inv: "queue_inv d" unfolding assms(2) by (rule queue.run_keeps [OF empty_queue_inv assms(1)])
  note ok = queue_invD(1) [OF inv]
  show ?thesis
  proof (intro conjI ballI)
    fix t
    assume t: "t \<in> set (tasks d)"
    show "t_status t = RUNNING \<longleftrightarrow> (\<exists>a \<in> set (task_attempts d). runs t a)"
      using queue_invD(2,3) [OF inv] t task_unique [OF ok _ t] by (metis runs_def)
    show "t_attempt_count t \<le> t_max_attempts t" using task_tables_okD(3) [OF ok t] by (simp add: task_checks_def)
    show nums: "attempt_numbers (t_id t) d = {1..t_attempt_count t}" using queue_invD(4) [OF inv t] .
    have "inj_on a_attempt_number {a \<in> set (task_attempts d). a_task_id a = t_id t}"
      using attempt_unique [OF ok] by (auto simp: inj_on_def)
    from card_image [OF this] nums show "card {a \<in> set (task_attempts d). a_task_id a = t_id t} = t_attempt_count t"
      by (simp add: attempt_numbers_def)
    show "a_task_id a = t_id t \<and> a_task_id b = t_id t \<and>
          a_status a = ATTEMPT_RUNNING \<and> a_status b = ATTEMPT_RUNNING \<longrightarrow> a = b"
      if "a \<in> set (task_attempts d)" "b \<in> set (task_attempts d)" for a b
      using queue_invD(3) [OF inv] task_unique [OF ok _ t] attempt_unique [OF ok] that by (metis runs_def)
  qed (rule ok)
qed

lemma reachable_queue_safe_witness:
  "\<exists>t. tasks (run_steps run_queue_op [OpCreate 3 7 0 ''k'' ''t'' [], OpApprove 5 7] empty_db) = [t] \<and>
     t_status t \<noteq> RUNNING \<and> t_attempt_count t = 0"
proof -
  let ?ops = "[OpCreate 3 7 0 ''k'' ''t'' [], OpApprove 5 7]"
  have "valid_input []" by (simp add: valid_input_def)
  then obtain fp where fp: "task_request_fingerprint ''t'' [] = Inr fp" using fingerprint_defined by blast
  have "is_task_type ''t''" by (simp add: is_task_type_def is_lower_def less_eq_char_def)
  then have adm: "admissible queue_op_ok run_queue_op ?ops empty_db" by (simp add: empty_db_def)
  have "\<exists>t. tasks (run_steps run_queue_op ?ops empty_db) = [t] \<and> t_id t = 7 \<and>
      task_attempts (run_steps run_queue_op ?ops empty_db) = []"
    by (simp add: create_task_def fp insert_if_absent_def empty_db_def Let_def approve_task_eq find_task_def
        flush_task_def approved_row_def)
  with reachable_queue_safe [OF adm refl] show ?thesis by auto
qed

text \<open>
  C27. History is append-only. Whatever happens later, a task keeps its request, its identity and
  its attempt limit, its attempt counter and update time never go back, a succeeded, failed or
  cancelled task row never changes, and a finished attempt row stays in the table as it is.
\<close>

theorem history_is_append_only:
  assumes "queue_inv d" and "admissible queue_op_ok run_queue_op ops d"
    and "d' = run_steps run_queue_op ops d"
  shows "(\<forall>t \<in> set (tasks d). \<exists>t' \<in> set (tasks d'). t_id t' = t_id t \<and>
      t_idempotency_key t' = t_idempotency_key t \<and> t_request_fingerprint t' = t_request_fingerprint t \<and>
      t_task_type t' = t_task_type t \<and> t_task_input t' = t_task_input t \<and>
      t_max_attempts t' = t_max_attempts t \<and> t_attempt_count t \<le> t_attempt_count t' \<and>
      t_updated_at t \<le> t_updated_at t' \<and> (terminal_status (t_status t) \<longrightarrow> t' = t)) \<and>
    (\<forall>a \<in> set (task_attempts d). a_status a \<noteq> ATTEMPT_RUNNING \<longrightarrow> a \<in> set (task_attempts d'))"
proof -
  have h: "history_le d d'" unfolding assms(3) by (rule queue.run_grows [OF assms(1,2)])
  have "\<exists>t' \<in> set (tasks d'). task_le t t'" if "t \<in> set (tasks d)" for t
    using h that by (auto simp: history_le_def)
  moreover have "a \<in> set (task_attempts d')" if "a \<in> set (task_attempts d)" "a_status a \<noteq> ATTEMPT_RUNNING" for a
    using h that unfolding history_le_def attempt_le_def by blast
  ultimately show ?thesis unfolding task_le_def by blast
qed

lemma history_is_append_only_witness:
  "\<exists>t' \<in> set (tasks (run_steps run_queue_op [OpCancel 50 11, OpHeartbeat example_claim 30 60] running_db)).
     t_id t' = 11 \<and> t_attempt_count t' \<ge> 1"
proof -
  show ?thesis
  using history_is_append_only [OF running_db_inv _ refl, of "[OpCancel 50 11, OpHeartbeat example_claim 30 60]"]
    by auto
qed



text \<open>
  C2. Stale claims are fenced forever. Once a finalization of a claim has been applied, every
  later finalization with a claim for the same attempt is reported stale and writes nothing, and
  every later heartbeat with it is refused, whatever the queue did in between: an attempt is
  finalized at most once.
\<close>

theorem stale_claims_are_fenced:
  assumes "queue_inv d" "finalization_ok f" "run_finalization f c now d = Inr (APPLIED, d1)"
    and "admissible queue_op_ok run_queue_op ops d1" "d2 = run_steps run_queue_op ops d1"
    and "c_task_id c' = c_task_id c" "c_attempt_number c' = c_attempt_number c"
  shows "run_finalization g c' later d2 = Inr (STALE, d2) \<and>
    heartbeat c' lease later d2 = Inl (ExecutionInvariantError ''active task fence did not match'')"
proof -
  have inv1: "queue_inv d1"
    using queue.keeps [of d "OpFinalize f c now"] assms(1-3) by simp
  have inv2: "queue_inv d2" unfolding assms(5) by (rule queue.run_keeps [OF inv1 assms(4)])
  have "superseded c d2"
    using superseded_stable [OF applied_superseded [OF assms(1,3)] queue.run_grows [OF inv1 assms(4)]] assms(5) by simp
  then have "superseded c' d2" using assms(6,7) by (simp add: superseded_def)
  with superseded_finalization [OF inv2] superseded_heartbeat [OF inv2] show ?thesis by blast
qed

lemma stale_claims_are_fenced_witness:
  "\<exists>d1. run_finalization (FinFailure ''e'' ''s'' ''r'') example_claim 50 running_db = Inr (APPLIED, d1) \<and>
     run_finalization (FinSuccess []) example_claim 60 (run_queue_op (OpCancel 55 11) d1) =
       Inr (STALE, run_queue_op (OpCancel 55 11) d1)"
proof -
  obtain d1 where run: "run_finalization (FinFailure ''e'' ''s'' ''r'') example_claim 50 running_db = Inr (APPLIED, d1)"
    using finalization_applies [OF running_db_inv, of running_task example_claim "FinFailure ''e'' ''s'' ''r''" 50]
      example_finalizable [of 50] by (auto simp: varchar_ok_def)
  show ?thesis
    using stale_claims_are_fenced [OF running_db_inv _ run, of "[OpCancel 55 11]" "run_queue_op (OpCancel 55 11) d1"
        example_claim "FinSuccess []" 60] run
    by simp
qed

text \<open>The flush of a claim fails only on the worker's identifier or on the key of the attempt.\<close>

lemma claim_one_error:
  assumes inv: "queue_inv d" and run: "claim_one types w l raw aid locked now1 now d = Inl e"
  shows "types \<noteq> [] \<and> (\<exists>t \<in> set (tasks d). claimable types now1 t \<and> t_id t \<notin> locked) \<and>
    (if varchar_ok 255 w then e = integrity_error \<and> aid \<in> a_id ` set (task_attempts d) else e = data_error)"
proof -
  let ?rows = "filter (\<lambda>t. claimable types now1 t \<and> t_id t \<notin> locked) (tasks d)"
  have ty: "types \<noteq> []" using run by (auto simp: claim_one_def)
  show ?thesis
  proof (cases "first_by claim_order ?rows")
    case None
    with run ty show ?thesis by (simp add: claim_one_def Let_def del: first_by_None)
  next
    case (Some t)
    from first_by_Some [OF Some] have t: "t \<in> set (tasks d)" "claimable types now1 t" "t_id t \<notin> locked" by auto
    then have st: "t_status t = APPROVED" by (simp add: claimable_def)
    have "t_attempt_count t + 1 \<notin> attempt_numbers (t_id t) d" using queue_invD(4) [OF inv t(1)] by simp
    then have num: "(a_task_id a, a_attempt_number a) \<noteq> (t_id t, t_attempt_count t + 1)"
      if "a \<in> set (task_attempts d)" for a
      using that unfolding attempt_numbers_def by force
    have "bindR (guardR (varchar_ok 255 w) data_error) (\<lambda>_.
        guardR (list_all (\<lambda>a. a_id a \<noteq> aid) (task_attempts d)) integrity_error) = Inl e"
      using run Some ty st num unfolding claim_one_def
      by (auto simp: Let_def result_simps list_all_iff split: if_splits)
    with ty t show ?thesis by (auto simp: result_simps list_all_iff)
  qed
qed

text \<open>
  C24. Claiming, on every branch, from a queue that satisfies the invariant. A claim raises only
  when there is a task to claim and the worker's identifier does not fit its column or the
  identifier of the attempt is taken (the number of the attempt never is); it returns nothing only
  when no supported, due, unlocked task with attempts left exists; otherwise it takes the first of
  them in the order of availability, creation and identifier, hands out its next attempt number
  (within the limit) and its input, holds the active fence until the lease ends, and from then on
  no claim with another attempt number or token can pass the fence of that task.
\<close>

theorem claim_one_spec:
  assumes "queue_inv d"
  shows "case claim_one types w l raw aid locked select_now now d of
      Inl e \<Rightarrow> types \<noteq> [] \<and> (\<exists>t \<in> set (tasks d). claimable types select_now t \<and> t_id t \<notin> locked) \<and>
        (if varchar_ok 255 w then e = integrity_error \<and> aid \<in> a_id ` set (task_attempts d) else e = data_error)
    | Inr (None, d') \<Rightarrow> d' = d \<and> (types = [] \<or> (\<forall>t \<in> set (tasks d). claimable types select_now t \<longrightarrow> t_id t \<in> locked))
    | Inr (Some claim, d') \<Rightarrow> varchar_ok 255 w \<and> aid \<notin> a_id ` set (task_attempts d) \<and>
       (\<exists>t \<in> set (tasks d). claimable types select_now t \<and> t_id t \<notin> locked \<and>
        (\<forall>u \<in> set (tasks d). claimable types select_now u \<and> t_id u \<notin> locked \<longrightarrow> claim_order t \<le> claim_order u) \<and>
        c_task_id claim = t_id t \<and> c_task_input claim = t_task_input t \<and>
        c_attempt_number claim = t_attempt_count t + 1 \<and> c_attempt_number claim \<le> t_max_attempts t \<and>
        (\<forall>later. later < now + micros l \<longrightarrow> (\<exists>u \<in> set (tasks d'). active_fence claim later u)) \<and>
        (\<forall>c' later. c_task_id c' = t_id t \<and> (\<exists>u \<in> set (tasks d'). active_fence c' later u) \<longrightarrow>
           c_attempt_number c' = c_attempt_number claim \<and> c_lease_token_hash c' = hash_lease_token raw))"
proof (cases "claim_one types w l raw aid locked select_now now d")
  case (Inl e)
  with claim_one_error [OF assms Inl] show ?thesis by simp
next
  case (Inr x)
  obtain c d' where "x = (c, d')" by (cases x)
  with Inr have run: "claim_one types w l raw aid locked select_now now d = Inr (c, d')" by simp
  from run show ?thesis
  proof (rule claim_one_cases)
    fix t t' a claim
    assume cl: "c = Some claim" and t: "t \<in> set (tasks d)" "claimable types select_now t" "t_id t \<notin> locked"
      "\<forall>u \<in> set (tasks d). claimable types select_now u \<and> t_id u \<notin> locked \<longrightarrow> claim_order t \<le> claim_order u"
      and t': "t' = claimed_row w (hash_lease_token raw) l now t"
      and f: "c_task_id claim = t_id t" "c_attempt_number claim = t_attempt_count t + 1" "c_worker_id claim = w"
        "c_lease_token_hash claim = hash_lease_token raw" "c_task_input claim = t_task_input t"
      and d': "d' = add_attempt a (flush_task t' d)" and fits: "varchar_ok 255 w" "aid \<notin> a_id ` set (task_attempts d)"
    have id: "t_id t' = t_id t" unfolding t' by (simp add: claimed_row_def)
    have mem: "u \<in> set (tasks d') \<longleftrightarrow> u = t' \<or> u \<in> set (tasks d) \<and> t_id u \<noteq> t_id t" for u
      using flush_task_set [OF t(1) id] id by (simp add: d')
    have act: "active_fence claim later t'" if "later < now + micros l" for later
      using that f by (simp add: active_fence_def t' claimed_row_def)
    then have holds: "\<forall>later. later < now + micros l \<longrightarrow> (\<exists>u \<in> set (tasks d'). active_fence claim later u)"
      using mem by blast
    have "c_attempt_number c' = c_attempt_number claim \<and> c_lease_token_hash c' = hash_lease_token raw"
      if "c_task_id c' = t_id t" "u \<in> set (tasks d')" "active_fence c' later u" for c' later u
      using that mem f by (auto simp: active_fence_def t' claimed_row_def)
    then have only: "\<forall>c' later. c_task_id c' = t_id t \<and> (\<exists>u \<in> set (tasks d'). active_fence c' later u) \<longrightarrow>
        c_attempt_number c' = c_attempt_number claim \<and> c_lease_token_hash c' = hash_lease_token raw"
      by blast
    have "c_attempt_number claim \<le> t_max_attempts t" using t(2) f by (simp add: claimable_def)
    then show ?thesis
      using t(2-4) f(1,2,5) holds only fits unfolding run cl sum.case prod.case option.case
      by (intro conjI bexI [OF _ t(1)]) assumption+
  qed (use run in auto)
qed

lemma approved_db_inv: "queue_inv (task_db approved_task)"
proof -
  have "task_tables_ok (task_db approved_task)" by (rule task_db_ok [OF example_checks(2)])
  moreover have "tasks (task_db approved_task) = [approved_task]" "task_attempts (task_db approved_task) = []"
    "t_status approved_task = APPROVED" "t_attempt_count approved_task = 0"
    by (simp_all add: task_db_def empty_db_def approved_task_def pending_task_def)
  ultimately show ?thesis by (simp add: queue_inv_def attempt_numbers_def)
qed

lemma claim_one_spec_witness:
  "\<exists>claim d'. claim_one [''diagnostic''] ''w2'' 30 ''token'' 5 {} 50 51 (task_db approved_task) = Inr (Some claim, d') \<and>
     c_task_id claim = 11 \<and> c_attempt_number claim = 1 \<and> (\<exists>u \<in> set (tasks d'). active_fence claim 100 u)"
proof -
  have m: "micros 30 = 30000000" by (simp add: micros_def round_half_even_def)
  have f: "t_id approved_task = 11" "t_attempt_count approved_task = 0" "claimable [''diagnostic''] 50 approved_task"
    "tasks (task_db approved_task) = [approved_task]"
    "task_attempts (task_db approved_task) = []"
    by (simp_all add: approved_task_def pending_task_def claimable_def task_db_def empty_db_def)
  show ?thesis
    using claim_one_spec [OF approved_db_inv,
        where types = "[''diagnostic'']" and w = "''w2''" and l = 30 and raw = "''token''" and aid = 5 and locked = "{}"
          and select_now = 50 and now = 51] f m
    by (auto simp: varchar_ok_def split: option.splits sum.splits prod.splits)
qed

text \<open>One recovery removes one expired lease.\<close>

lemma recover_count:
  assumes "task_tables_ok d" "t \<in> set (tasks d)" "expired now t" "t_id t' = t_id t" "\<not> expired now t'"
  shows "rowcount (expired now) (tasks (flush_task t' d)) + 1 = rowcount (expired now) (tasks d)"
proof -
  obtain xs ys where split: "tasks d = xs @ t # ys" using split_list [OF assms(2)] by blast
  with task_tables_okD(1) [OF assms(1)] have "t_id t \<notin> t_id ` set xs" "t_id t \<notin> t_id ` set ys" by auto
  then have same: "update_where (\<lambda>r. t_id r = t_id t) (\<lambda>_. t') zs = zs" if "zs = xs \<or> zs = ys" for zs
    using that by (auto simp: update_where_def image_iff intro!: map_idI)
  have "tasks (flush_task t' d) = xs @ t' # ys"
    using same assms(4) by (simp add: flush_task_def split update_where_def)
  with assms(3,5) split show ?thesis by (simp add: rowcount_def)
qed

text \<open>
  C25. Recovery, on every branch. It raises only what the backoff calculator raises; it returns
  nothing only when every expired lease is locked by another transaction; otherwise one expired
  task leaves the running state: cancelled when its customer asked for it, failed when its
  attempts are used up, back in the queue after the backoff otherwise; its attempt is closed as
  expired, its lease is gone, and there is one expired lease less.
\<close>

theorem recovery_spec:
  assumes "queue_inv d"
  shows "case recover_one_expired backoff locked now d of
      Inl e \<Rightarrow> \<exists>t \<in> set (tasks d). expired now t \<and> backoff (t_attempt_count t) = Inl e
    | Inr (None, d') \<Rightarrow> d' = d \<and> (\<forall>t \<in> set (tasks d). expired now t \<longrightarrow> t_id t \<in> locked)
    | Inr (Some r, d') \<Rightarrow> \<exists>t t'. t \<in> set (tasks d) \<and> expired now t \<and> t_id t \<notin> locked \<and>
        r_task_id r = t_id t \<and> find_task d' (t_id t) = Some t' \<and> r_new_status r = task_status_value (t_status t') \<and>
        (if t_cancellation_requested_at t \<noteq> None then t_status t' = CANCELLED
         else if t_max_attempts t \<le> t_attempt_count t then t_status t' = FAILED
         else t_status t' = APPROVED \<and>
           (\<exists>s. backoff (t_attempt_count t) = Inr s \<and> t_available_at t' = Some (now + micros s))) \<and>
        t_lease_token_hash t' = None \<and>
        (\<exists>a \<in> set (task_attempts d'). a_id a = r_attempt_id r \<and> a_task_id a = t_id t \<and> a_status a = LEASE_EXPIRED) \<and>
        rowcount (expired now) (tasks d') + 1 = rowcount (expired now) (tasks d)"
proof (rule recover_cases [OF assms, of now locked backoff])
  fix t e
  assume "t \<in> set (tasks d)" "expired now t" "recovery_outcome backoff now t = Inl e"
    "recover_one_expired backoff locked now d = Inl e"
  then show ?thesis by (auto simp: recovery_outcome_def result_simps split: if_splits)
next
  fix t a rd r
  let ?t = "recovered_row rd now t" and ?a = "lease_expired_attempt t now a"
  assume t: "t \<in> set (tasks d)" "expired now t" "t_id t \<notin> locked"
    and rd: "recovery_outcome backoff now t = Inr rd" and a: "a \<in> set (task_attempts d)" "runs t a"
    and run: "recover_one_expired backoff locked now d = Inr (Some r, put_attempt ?a (flush_task ?t d))"
    and r: "r_task_id r = t_id t" "r_attempt_id r = a_id a" "r_new_status r = task_status_value (rd_status rd)"
  note ok = queue_invD(1) [OF assms]
  have id: "t_id ?t = t_id t" "a_id ?a = a_id a" "a_task_id ?a = t_id t" "a_status ?a = LEASE_EXPIRED"
    "t_lease_token_hash ?t = None" "t_status ?t = rd_status rd" "t_available_at ?t = rd_next_attempt_at rd"
    using a(2) by (simp_all add: recovered_row_def lease_expired_attempt_def runs_def)
  have "a \<in> set (task_attempts (flush_task ?t d))" using a(1) by simp
  then have mem: "?a \<in> set (task_attempts (put_attempt ?a (flush_task ?t d)))"
    using put_attempt_set [of a "flush_task ?t d" ?a] id(2) by blast
  have stored: "find_task (put_attempt ?a (flush_task ?t d)) (t_id t) = Some ?t"
    using flush_task_find [of ?t d "t_id t"] find_task_unique [OF ok t(1)] id(1)
    by (simp add: put_attempt_def find_task_def)
  have branch: "if t_cancellation_requested_at t \<noteq> None then rd_status rd = CANCELLED
      else if t_max_attempts t \<le> t_attempt_count t then rd_status rd = FAILED
      else rd_status rd = APPROVED \<and>
        (\<exists>s. backoff (t_attempt_count t) = Inr s \<and> rd_next_attempt_at rd = Some (now + micros s))"
    using rd by (rule recovery_outcome_cases) auto
  then have "\<not> expired now ?t" by (auto simp: expired_def id split: if_splits)
  from recover_count [OF ok t(1,2) id(1) this]
  have cnt: "rowcount (expired now) (tasks (put_attempt ?a (flush_task ?t d))) + 1 = rowcount (expired now) (tasks d)"
    by simp
  show ?thesis
    unfolding run sum.case prod.case option.case
    by (rule exI [of _ t], rule exI [of _ ?t], intro conjI)
      (use t r id mem stored branch cnt in \<open>auto\<close>)
qed auto

lemma recovery_spec_witness:
  "\<exists>r d' t'. recover_one_expired (delay_seconds \<lparr>base_seconds = 1, cap_seconds = 60\<rparr> (1/2)) {} 200 running_db =
       Inr (Some r, d') \<and> find_task d' 11 = Some t' \<and> t_status t' = APPROVED \<and>
       t_available_at t' \<noteq> None \<and> rowcount (expired 200) (tasks d') = 0"
proof -
  let ?b = "delay_seconds \<lparr>base_seconds = 1, cap_seconds = 60\<rparr> (1/2)"
  have b: "?b 1 = Inr (3/4)" by (simp add: delay_seconds_def)
  have e: "expired 200 running_task" "t_max_attempts running_task = 2"
    by (simp_all add: expired_def running_task_def pending_task_def)
  then have "rowcount (expired 200) (tasks running_db) = 1" by (simp add: rowcount_def)
  with recovery_spec [OF running_db_inv, where backoff = ?b and locked = "{}" and now = 200] b e show ?thesis
    by (auto split: sum.splits option.splits)
qed

text \<open>
  The worker loop calls recovery once per iteration; repeated calls drain the expired leases.
\<close>

primrec recover_times :: "nat \<Rightarrow> (nat \<Rightarrow> seconds result) \<Rightarrow> time \<Rightarrow> db \<Rightarrow> db" where
  "recover_times 0 backoff now d = d"
| "recover_times (Suc n) backoff now d =
     recover_times n backoff now (run_queue_op (OpRecover backoff {} now) d)"

lemma recover_decreases:
  assumes inv: "queue_inv d" and total: "\<forall>t \<in> set (tasks d). \<exists>s. backoff (t_attempt_count t) = Inr s"
  shows "rowcount (expired now) (tasks (run_queue_op (OpRecover backoff {} now) d)) =
    rowcount (expired now) (tasks d) - 1"
proof (rule recover_cases [OF inv, of now "{}" backoff])
  fix t e
  assume t: "t \<in> set (tasks d)" and e: "recovery_outcome backoff now t = Inl e"
  then have "backoff (t_attempt_count t) = Inl e"
    by (auto simp: recovery_outcome_def result_simps split: if_splits)
  with total t show ?thesis by force
next
  fix t a rd r
  assume t: "t \<in> set (tasks d)" "expired now t" and rd: "recovery_outcome backoff now t = Inr rd"
    and run: "recover_one_expired backoff {} now d =
      Inr (Some r, put_attempt (lease_expired_attempt t now a) (flush_task (recovered_row rd now t) d))"
  have "rd_status rd \<noteq> RUNNING" using rd by (rule recovery_outcome_cases) auto
  then have "\<not> expired now (recovered_row rd now t)" "t_id (recovered_row rd now t) = t_id t"
    by (simp_all add: expired_def recovered_row_def)
  with recover_count [OF queue_invD(1) [OF inv] t] run show ?thesis by fastforce
qed (simp add: rowcount_zero [THEN iffD2])

lemma recover_keeps_counts:
  assumes inv: "queue_inv d" and "t' \<in> set (tasks (run_queue_op (OpRecover backoff locked now) d))"
  shows "t_attempt_count t' \<in> t_attempt_count ` set (tasks d)"
proof (rule recover_cases [OF inv, of now locked backoff])
  fix t a rd r
  assume t: "t \<in> set (tasks d)"
    and "recover_one_expired backoff locked now d =
      Inr (Some r, put_attempt (lease_expired_attempt t now a) (flush_task (recovered_row rd now t) d))"
  moreover have "t_id (recovered_row rd now t) = t_id t" "t_attempt_count (recovered_row rd now t) = t_attempt_count t"
    by (simp_all add: recovered_row_def)
  ultimately show ?thesis using flush_task_set [OF t, of "recovered_row rd now t" t'] assms(2) by auto
qed (use assms(2) in auto)

lemma delay_seconds_total: "0 \<le> u \<Longrightarrow> u \<le> 1 \<Longrightarrow> n \<le> 1024 \<Longrightarrow> \<exists>s. delay_seconds p u n = Inr s"
  by (simp add: delay_seconds_def Let_def)

text \<open>
  C26. No lease stays expired. With a backoff calculator that answers for the attempts the tasks
  have made and no lock held forever, as many recoveries as there are expired leases leave none,
  and the invariant holds.
\<close>

theorem recovery_drains:
  assumes "queue_inv d" and "\<forall>t \<in> set (tasks d). \<exists>s. backoff (t_attempt_count t) = Inr s"
    and "rowcount (expired now) (tasks d) \<le> n"
  shows "(\<forall>t \<in> set (tasks (recover_times n backoff now d)). \<not> expired now t) \<and>
    queue_inv (recover_times n backoff now d)"
  using assms
proof (induction n arbitrary: d)
  case 0
  then show ?case by (simp add: rowcount_zero)
next
  case (Suc n)
  let ?d = "run_queue_op (OpRecover backoff {} now) d"
  have "queue_inv ?d" by (rule queue.keeps [OF Suc.prems(1)]) simp
  moreover have "\<forall>t \<in> set (tasks ?d). \<exists>s. backoff (t_attempt_count t) = Inr s"
    using recover_keeps_counts [OF Suc.prems(1)] Suc.prems(2) by fastforce
  moreover have "rowcount (expired now) (tasks ?d) \<le> n"
    unfolding recover_decreases [OF Suc.prems(1,2)] using Suc.prems(3) by linarith
  ultimately show ?case using Suc.IH [of ?d] unfolding recover_times.simps by blast
qed

lemma recovery_drains_witness:
  "filter (expired 200) (tasks (recover_times 1 (delay_seconds \<lparr>base_seconds = 1, cap_seconds = 60\<rparr> (1/2)) 200 running_db)) = []"
proof -
  let ?b = "delay_seconds \<lparr>base_seconds = 1, cap_seconds = 60\<rparr> (1/2)"
  have "rowcount (expired 200) (tasks running_db) \<le> 1" by (simp add: rowcount_def)
  moreover have "\<forall>t \<in> set (tasks running_db). \<exists>s. ?b (t_attempt_count t) = Inr s"
    using delay_seconds_total [of "1/2" 1] by simp
  ultimately show ?thesis unfolding filter_empty_conv using recovery_drains [OF running_db_inv, of ?b 200 1] by blast
qed

end
