(* ===== verification/Metrics.thy ===== *)
theory Metrics
  imports Exceptions "HOL-Library.Multiset"
begin

text \<open>
  \<open>integrations/metrics.py\<close>: the low-cardinality metrics contract. A label mapping is an
  association list with distinct keys in insertion order; a label value is a member of one of the
  allowlisted enumerations or of some other \<open>StrEnum\<close>. Both sinks are modelled: the structured
  one by the log record it writes, the in-memory one by its counters and observations.
\<close>

section \<open>Names and labels\<close>

datatype metric_name =
    PROVIDER_REQUEST_COUNT | PROVIDER_LATENCY_SECONDS | PROVIDER_RATE_LIMIT_COUNT
  | POLICY_DECISION_COUNT | EXTERNAL_ACTION_OUTCOME_COUNT | RECONCILIATION_COUNT
  | DUPLICATE_ACTION_PREVENTION_COUNT | SLACK_DELIVERY_STATE_COUNT | OUTCOME_UNKNOWN_COUNT

datatype metric_label = L_PROVIDER | L_OPERATION | L_OUTCOME | L_DECISION | L_ACTION_STATUS | L_DELIVERY_STATE

datatype metric_operation =
  OP_READ | OP_IDENTITY | OP_RECONCILIATION | OP_WRITE | OP_GITHUB_COMMENT | OP_SLACK_NOTIFICATION

datatype metric_provider = P_SERVICE_CATALOG | P_JIRA | P_GITHUB | P_SLACK

datatype metric_outcome =
  O_SUCCESS | O_RETRYABLE_FAILURE | O_PERMANENT_FAILURE | O_CONTRACT_FAILURE | O_OUTCOME_UNKNOWN | O_RATE_LIMITED

primrec metric_name_value :: "metric_name \<Rightarrow> string" where
  "metric_name_value PROVIDER_REQUEST_COUNT = ''provider_request_count''"
| "metric_name_value PROVIDER_LATENCY_SECONDS = ''provider_latency_seconds''"
| "metric_name_value PROVIDER_RATE_LIMIT_COUNT = ''provider_rate_limit_count''"
| "metric_name_value POLICY_DECISION_COUNT = ''policy_decision_count''"
| "metric_name_value EXTERNAL_ACTION_OUTCOME_COUNT = ''external_action_outcome_count''"
| "metric_name_value RECONCILIATION_COUNT = ''reconciliation_count''"
| "metric_name_value DUPLICATE_ACTION_PREVENTION_COUNT = ''duplicate_action_prevention_count''"
| "metric_name_value SLACK_DELIVERY_STATE_COUNT = ''slack_delivery_state_count''"
| "metric_name_value OUTCOME_UNKNOWN_COUNT = ''outcome_unknown_count''"

primrec metric_label_value :: "metric_label \<Rightarrow> string" where
  "metric_label_value L_PROVIDER = ''provider''"
| "metric_label_value L_OPERATION = ''operation''"
| "metric_label_value L_OUTCOME = ''outcome''"
| "metric_label_value L_DECISION = ''decision''"
| "metric_label_value L_ACTION_STATUS = ''action_status''"
| "metric_label_value L_DELIVERY_STATE = ''delivery_state''"

primrec metric_operation_value :: "metric_operation \<Rightarrow> string" where
  "metric_operation_value OP_READ = ''read''"
| "metric_operation_value OP_IDENTITY = ''identity''"
| "metric_operation_value OP_RECONCILIATION = ''reconciliation''"
| "metric_operation_value OP_WRITE = ''write''"
| "metric_operation_value OP_GITHUB_COMMENT = ''upsert_deployment_context_comment''"
| "metric_operation_value OP_SLACK_NOTIFICATION = ''post_deployment_context_notification''"

primrec metric_provider_value :: "metric_provider \<Rightarrow> string" where
  "metric_provider_value P_SERVICE_CATALOG = ''service_catalog''"
| "metric_provider_value P_JIRA = ''jira''"
| "metric_provider_value P_GITHUB = ''github''"
| "metric_provider_value P_SLACK = ''slack''"

primrec metric_outcome_value :: "metric_outcome \<Rightarrow> string" where
  "metric_outcome_value O_SUCCESS = ''success''"
| "metric_outcome_value O_RETRYABLE_FAILURE = ''retryable_failure''"
| "metric_outcome_value O_PERMANENT_FAILURE = ''permanent_failure''"
| "metric_outcome_value O_CONTRACT_FAILURE = ''contract_failure''"
| "metric_outcome_value O_OUTCOME_UNKNOWN = ''outcome_unknown''"
| "metric_outcome_value O_RATE_LIMITED = ''rate_limited''"

datatype label_value =
    V_PROVIDER metric_provider | V_OPERATION metric_operation | V_OUTCOME metric_outcome
  | V_DECISION decision_outcome | V_ACTION_STATUS action_status | V_DELIVERY_STATE delivery_state
  | V_OTHER string

primrec label_text :: "label_value \<Rightarrow> string" where
  "label_text (V_PROVIDER p) = metric_provider_value p"
| "label_text (V_OPERATION p) = metric_operation_value p"
| "label_text (V_OUTCOME p) = metric_outcome_value p"
| "label_text (V_DECISION p) = decision_outcome_value p"
| "label_text (V_ACTION_STATUS p) = action_status_value p"
| "label_text (V_DELIVERY_STATE p) = delivery_state_value p"
| "label_text (V_OTHER s) = s"

type_synonym metric_labels = "(metric_label \<times> label_value) list"

section \<open>The label contract\<close>

primrec expected_labels :: "metric_name \<Rightarrow> metric_label set" where
  "expected_labels PROVIDER_REQUEST_COUNT = {L_PROVIDER, L_OPERATION, L_OUTCOME}"
| "expected_labels PROVIDER_LATENCY_SECONDS = {L_PROVIDER, L_OPERATION, L_OUTCOME}"
| "expected_labels PROVIDER_RATE_LIMIT_COUNT = {L_PROVIDER, L_OPERATION}"
| "expected_labels POLICY_DECISION_COUNT = {L_DECISION}"
| "expected_labels EXTERNAL_ACTION_OUTCOME_COUNT = {L_PROVIDER, L_OPERATION, L_ACTION_STATUS}"
| "expected_labels RECONCILIATION_COUNT = {L_PROVIDER, L_OUTCOME}"
| "expected_labels DUPLICATE_ACTION_PREVENTION_COUNT = {L_PROVIDER, L_OPERATION}"
| "expected_labels SLACK_DELIVERY_STATE_COUNT = {L_DELIVERY_STATE}"
| "expected_labels OUTCOME_UNKNOWN_COUNT = {L_PROVIDER, L_OPERATION}"

fun label_type_ok :: "metric_label \<Rightarrow> label_value \<Rightarrow> bool" where
  "label_type_ok L_PROVIDER (V_PROVIDER _) = True"
| "label_type_ok L_OPERATION (V_OPERATION _) = True"
| "label_type_ok L_OUTCOME (V_OUTCOME _) = True"
| "label_type_ok L_DECISION (V_DECISION _) = True"
| "label_type_ok L_ACTION_STATUS (V_ACTION_STATUS _) = True"
| "label_type_ok L_DELIVERY_STATE (V_DELIVERY_STATE _) = True"
| "label_type_ok _ _ = False"

definition safe_labels :: "metric_name \<Rightarrow> metric_labels \<Rightarrow> (string \<times> string) list result" where
  "safe_labels name labels =
     bindR (guardR (fst ` set labels = expected_labels name)
              (ValueError ''metric labels do not match the low-cardinality contract'')) (\<lambda>_.
     bindR (mapR (\<lambda>(key, v). bindR (guardR (label_type_ok key v)
                      (ValueError ''metric label value is outside its allowlisted enum''))
                    (\<lambda>_. Inr (metric_label_value key, label_text v))) labels)
       (\<lambda>normalized. Inr (sort normalized)))"

section \<open>The sinks\<close>

text \<open>The structured sink: the log record of \<open>_emit\<close>, with its kind and value.\<close>

record metric_record =
  m_name :: string
  m_kind :: string
  m_value :: rat
  m_labels :: "(string \<times> string) list"

definition emit :: "metric_name \<Rightarrow> string \<Rightarrow> rat \<Rightarrow> metric_labels \<Rightarrow> metric_record result" where
  "emit name kind v labels =
     bindR (safe_labels name labels) (\<lambda>safe.
       Inr \<lparr>m_name = metric_name_value name, m_kind = kind, m_value = v, m_labels = safe\<rparr>)"

definition logging_increment :: "metric_name \<Rightarrow> metric_labels \<Rightarrow> int \<Rightarrow> metric_record result" where
  "logging_increment name labels amount =
     (if amount < 1 then Inl (ValueError ''counter increments must be positive'')
      else emit name ''counter'' (of_int amount) labels)"

definition logging_observe :: "metric_name \<Rightarrow> rat \<Rightarrow> metric_labels \<Rightarrow> metric_record result" where
  "logging_observe name v labels =
     (if v < 0 then Inl (ValueError ''metric observations must be non-negative'')
      else emit name ''observation'' v labels)"

type_synonym metric_key = "metric_name \<times> (string \<times> string) list"

record memory_sink =
  counters :: "(metric_key \<times> int) list"
  observations :: "(metric_name \<times> rat \<times> (string \<times> string) list) list"

definition counter_get :: "memory_sink \<Rightarrow> metric_key \<Rightarrow> int" where
  "counter_get s key = (case map_of (counters s) key of None \<Rightarrow> 0 | Some n \<Rightarrow> n)"

fun dict_set :: "('k \<times> 'v) list \<Rightarrow> 'k \<Rightarrow> 'v \<Rightarrow> ('k \<times> 'v) list" where
  "dict_set [] k v = [(k, v)]"
| "dict_set ((k', v') # kvs) k v = (if k' = k then (k, v) # kvs else (k', v') # dict_set kvs k v)"

definition memory_increment :: "metric_name \<Rightarrow> metric_labels \<Rightarrow> int \<Rightarrow> memory_sink \<Rightarrow> memory_sink result" where
  "memory_increment name labels amount s =
     (if amount < 1 then Inl (ValueError ''counter increments must be positive'')
      else bindR (safe_labels name labels) (\<lambda>safe.
        let key = (name, safe) in Inr (s\<lparr>counters := dict_set (counters s) key (counter_get s key + amount)\<rparr>)))"

definition memory_observe :: "metric_name \<Rightarrow> rat \<Rightarrow> metric_labels \<Rightarrow> memory_sink \<Rightarrow> memory_sink result" where
  "memory_observe name v labels s =
     (if v < 0 then Inl (ValueError ''metric observations must be non-negative'')
      else bindR (safe_labels name labels) (\<lambda>safe.
        Inr (s\<lparr>observations := observations s @ [(name, v, safe)]\<rparr>)))"

section \<open>Lemmas\<close>

definition valid_labels :: "metric_name \<Rightarrow> metric_labels \<Rightarrow> bool" where
  "valid_labels name labels \<longleftrightarrow>
     fst ` set labels = expected_labels name \<and> list_all (\<lambda>(k, v). label_type_ok k v) labels"

definition label_texts :: "metric_labels \<Rightarrow> (string \<times> string) list" where
  "label_texts labels = sort (map (\<lambda>(k, v). (metric_label_value k, label_text v)) labels)"

lemma mapR_guard:
  "mapR (\<lambda>x. bindR (guardR (P x) e) (\<lambda>_. Inr (g x))) xs = (if list_all P xs then Inr (map g xs) else Inl e)"
  by (induction xs) (auto simp: guardR_def)

lemma safe_labels_iff:
  "safe_labels name labels = Inr safe \<longleftrightarrow> valid_labels name labels \<and> safe = label_texts labels"
proof -
  have "mapR (\<lambda>(key, v). bindR (guardR (label_type_ok key v)
                      (ValueError ''metric label value is outside its allowlisted enum''))
                    (\<lambda>_. Inr (metric_label_value key, label_text v))) labels =
     (if list_all (\<lambda>(k, v). label_type_ok k v) labels
      then Inr (map (\<lambda>(k, v). (metric_label_value k, label_text v)) labels)
      else Inl (ValueError ''metric label value is outside its allowlisted enum''))"
    using mapR_guard [of "\<lambda>(k, v). label_type_ok k v"
        "ValueError ''metric label value is outside its allowlisted enum''"
        "\<lambda>(k, v). (metric_label_value k, label_text v)" labels]
    by (simp add: case_prod_unfold)
  then show ?thesis
    by (auto simp: safe_labels_def valid_labels_def label_texts_def result_simps split: if_splits)
qed

lemma map_of_dict_set: "map_of (dict_set kvs k v) = (map_of kvs)(k \<mapsto> v)"
  by (induction kvs k v rule: dict_set.induct) (auto simp: fun_eq_iff)

lemma counter_get_set:
  "counter_get (s\<lparr>counters := dict_set (counters s) k v\<rparr>) k' = (if k' = k then v else counter_get s k')"
  by (simp add: counter_get_def map_of_dict_set)

lemma label_texts_perm: "mset xs = mset ys \<Longrightarrow> label_texts xs = label_texts ys"
  unfolding label_texts_def by (rule properties_for_sort) (simp_all only: mset_sort mset_map sorted_sort)

section \<open>Properties\<close>

text \<open>
  The metrics contract. An increment of the in-memory sink is accepted if and only if the
  amount is positive, the label names are exactly the metric's expected ones and every value is a
  member of the enumeration of its label; it then raises that one counter by the amount and
  changes nothing else. The logging sink accepts exactly the same calls, the order in which the
  labels are written does not matter, and every refusal is a \<open>ValueError\<close>.
\<close>

theorem metrics_contract:
  "(\<forall>s'. memory_increment name labels amount s = Inr s' \<longleftrightarrow>
      1 \<le> amount \<and> valid_labels name labels \<and>
      s' = s\<lparr>counters := dict_set (counters s) (name, label_texts labels)
               (counter_get s (name, label_texts labels) + amount)\<rparr>) \<and>
   (\<forall>s' key. memory_increment name labels amount s = Inr s' \<longrightarrow>
      observations s' = observations s \<and>
      counter_get s' key = counter_get s key + (if key = (name, label_texts labels) then amount else 0)) \<and>
   (\<forall>labels'. mset labels' = mset labels \<longrightarrow>
      memory_increment name labels' amount s = memory_increment name labels amount s) \<and>
   ((\<exists>r. logging_increment name labels amount = Inr r) \<longleftrightarrow> (\<exists>s'. memory_increment name labels amount s = Inr s')) \<and>
   (\<forall>e. memory_increment name labels amount s = Inl e \<longrightarrow> is_value_error e)"
  (is "?accept \<and> ?effect \<and> ?order \<and> ?log \<and> ?errors")
proof -
  have acc: ?accept
    by (auto simp: memory_increment_def result_simps safe_labels_iff Let_def)
  moreover have ?effect
  proof (intro allI impI)
    fix s' key
    assume "memory_increment name labels amount s = Inr s'"
    with acc have "s' = s\<lparr>counters := dict_set (counters s) (name, label_texts labels)
               (counter_get s (name, label_texts labels) + amount)\<rparr>" by blast
    then show "observations s' = observations s \<and>
      counter_get s' key = counter_get s key + (if key = (name, label_texts labels) then amount else 0)"
      by (simp add: counter_get_set)
  qed
  moreover have err: "safe_labels n l = Inl e \<Longrightarrow> is_value_error e" for n l e
    unfolding safe_labels_def case_prod_unfold mapR_guard by (auto simp: result_simps split: if_splits)
  moreover have ?errors
    by (auto simp: memory_increment_def result_simps Let_def dest: err split: if_splits)
  moreover have ?log
    unfolding memory_increment_def logging_increment_def emit_def by (auto simp: result_simps Let_def)
  moreover have ?order
  proof (intro allI impI)
    fix labels' :: metric_labels
    assume perm: "mset labels' = mset labels"
    then have "set labels' = set labels" by (metis set_mset_mset)
    then have v: "valid_labels name labels' = valid_labels name labels"
      by (simp add: valid_labels_def list_all_iff)
    have "safe_labels name labels' = safe_labels name labels"
    proof (cases "valid_labels name labels")
      case True
      then show ?thesis using v label_texts_perm [OF perm] by (metis safe_labels_iff)
    next
      case False
      then show ?thesis using v \<open>set labels' = set labels\<close>
        unfolding safe_labels_def case_prod_unfold mapR_guard valid_labels_def
        by (auto simp: list_all_iff guardR_def)
    qed
    then show "memory_increment name labels' amount s = memory_increment name labels amount s"
      by (simp add: memory_increment_def)
  qed
  ultimately show ?thesis by blast
qed

lemma metrics_contract_witness:
  "memory_increment POLICY_DECISION_COUNT [(L_DECISION, V_DECISION READY)] 2 \<lparr>counters = [], observations = []\<rparr> =
     Inr \<lparr>counters = [((POLICY_DECISION_COUNT, [(''decision'', ''ready'')]), 2)], observations = []\<rparr>"
  using conjunct1 [OF metrics_contract, rule_format, THEN iffD2,
      of 2 POLICY_DECISION_COUNT "[(L_DECISION, V_DECISION READY)]"]
  by (simp add: valid_labels_def label_texts_def counter_get_def)

end
