(* ===== verification/Ip_Hosts.thy ===== *)
theory Ip_Hosts
  imports Json_Canonical
begin

text \<open>
  What \<open>urlsplit\<close> checks of a network location with brackets, as CPython 3.12.9 and later do:
  \<open>str.partition\<close>, \<open>str.split\<close> and \<open>str.rpartition\<close>, which texts \<open>ipaddress.IPv6Address\<close> accepts
  (the value of the address is of no use to the program and is not computed), and
  \<open>_check_bracketed_netloc\<close> with \<open>_check_bracketed_host\<close>.
\<close>

section \<open>Splitting text\<close>

text \<open>\<open>s.partition(c)\<close>: the part before the first \<open>c\<close>, and the part after it when there is one.\<close>

fun partition_at :: "char \<Rightarrow> string \<Rightarrow> string \<times> string option" where
  "partition_at c [] = ([], None)"
| "partition_at c (x # xs) =
     (if x = c then ([], Some xs) else let (a, b) = partition_at c xs in (x # a, b))"

text \<open>\<open>s.rpartition(c)\<close>: the part before the last \<open>c\<close> when there is one, and the part after it.\<close>

definition rpartition_at :: "char \<Rightarrow> string \<Rightarrow> string option \<times> string" where
  "rpartition_at c s = (let (a, b) = partition_at c (rev s) in (map_option rev b, rev a))"

text \<open>\<open>s.split(c)\<close>.\<close>

fun split_on :: "char \<Rightarrow> string \<Rightarrow> string list" where
  "split_on c [] = [[]]"
| "split_on c (x # xs) =
     (if x = c then [] # split_on c xs
      else case split_on c xs of [] \<Rightarrow> [[x]] | p # ps \<Rightarrow> (x # p) # ps)"

section \<open>Addresses\<close>

definition hex_char :: "char \<Rightarrow> bool" where
  "hex_char c \<longleftrightarrow> is_digit c \<or> (CHR ''a'' \<le> c \<and> c \<le> CHR ''f'') \<or> (CHR ''A'' \<le> c \<and> c \<le> CHR ''F'')"

text \<open>\<open>_parse_octet\<close> and \<open>_parse_hextet\<close> accept the text.\<close>

definition octet :: "string \<Rightarrow> bool" where
  "octet s \<longleftrightarrow> s \<noteq> [] \<and> list_all is_digit s \<and> length s \<le> 3 \<and> (s = ''0'' \<or> hd s \<noteq> CHR ''0'') \<and> digits_value s \<le> 255"

definition hextet :: "string \<Rightarrow> bool" where
  "hextet s \<longleftrightarrow> s \<noteq> [] \<and> list_all hex_char s \<and> length s \<le> 4"

definition ipv4_address :: "string \<Rightarrow> bool" where
  "ipv4_address s \<longleftrightarrow> (let octets = split_on (CHR ''.'') s in length octets = 4 \<and> list_all octet octets)"

text \<open>
  One side of an omission \<open>::\<close>: nothing at the end of the address, else hextets. The split at the
  colons leaves one empty part for an omission at an end.
\<close>

definition address_side :: "string list \<Rightarrow> bool" where
  "address_side ps \<longleftrightarrow> ps = [[]] \<or> list_all hextet ps"

definition side_length :: "string list \<Rightarrow> nat" where
  "side_length ps = (if ps = [[]] then 0 else length ps)"

definition ipv6_parts :: "string list \<Rightarrow> bool" where
  "ipv6_parts parts \<longleftrightarrow>
     length parts \<le> 9 \<and>
     (let inner = butlast (tl parts); i = Suc (length (takeWhile (\<lambda>p. p \<noteq> []) inner)) in
      case length (filter (\<lambda>p. p = []) inner) of
        0 \<Rightarrow> length parts = 8 \<and> list_all hextet parts
      | Suc 0 \<Rightarrow> address_side (take i parts) \<and> address_side (drop (Suc i) parts) \<and>
          side_length (take i parts) + side_length (drop (Suc i) parts) < 8
      | _ \<Rightarrow> False)"

text \<open>
  An IPv4 suffix counts as two hextets.
\<close>

definition ipv6_digits :: "string \<Rightarrow> bool" where
  "ipv6_digits s \<longleftrightarrow>
     (let parts = split_on (CHR '':'') s in
      3 \<le> length parts \<and>
      (if CHR ''.'' \<in> set (last parts)
       then ipv4_address (last parts) \<and> ipv6_parts (butlast parts @ [''0'', ''0''])
       else ipv6_parts parts))"

definition ipv6_address :: "string \<Rightarrow> bool" where
  "ipv6_address s \<longleftrightarrow>
     CHR ''/'' \<notin> set s \<and>
     (case partition_at (CHR ''%'') s of
        (address, None) \<Rightarrow> ipv6_digits address
      | (address, Some scope) \<Rightarrow> scope \<noteq> [] \<and> CHR ''%'' \<notin> set scope \<and> ipv6_digits address)"

text \<open>\<open>v[a-fA-F0-9]+\..+\<close>, the whole text.\<close>

definition ipv_future :: "string \<Rightarrow> bool" where
  "ipv_future s \<longleftrightarrow>
     (case s of [] \<Rightarrow> False
      | c # cs \<Rightarrow> c = CHR ''v'' \<and> takeWhile hex_char cs \<noteq> [] \<and>
          (case dropWhile hex_char cs of d # e # _ \<Rightarrow> d = CHR ''.'' | _ \<Rightarrow> False))"

section \<open>Network locations with brackets\<close>

definition bad_ipv6 :: exn where
  "bad_ipv6 = ValueError ''Invalid IPv6 URL''"

definition check_bracketed_host :: "string \<Rightarrow> unit result" where
  "check_bracketed_host host =
     (if take 1 host = ''v'' then guardR (ipv_future host) (ValueError ''IPvFuture address is invalid'')
      else guardR (ipv6_address host) (ValueError ''the host does not appear to be an IPv6 address''))"

definition check_bracketed_netloc :: "string \<Rightarrow> unit result" where
  "check_bracketed_netloc netloc =
     (let host_and_port = snd (rpartition_at (CHR ''@'') netloc) in
      case partition_at (CHR ''['') host_and_port of
        (leading, Some bracketed) \<Rightarrow>
          bindR (guardR (leading = []) bad_ipv6) (\<lambda>_.
          let (host, trailing) = partition_at (CHR '']'') bracketed in
          bindR (guardR (case trailing of Some (c # _) \<Rightarrow> c = CHR '':'' | _ \<Rightarrow> True) bad_ipv6) (\<lambda>_.
          check_bracketed_host host))
      | (_, None) \<Rightarrow> check_bracketed_host (fst (partition_at (CHR '':'') host_and_port)))"

definition check_netloc :: "string \<Rightarrow> unit result" where
  "check_netloc netloc =
     (let opens = CHR ''['' \<in> set netloc; closes = CHR '']'' \<in> set netloc in
      if opens \<noteq> closes then Inl bad_ipv6
      else if opens then check_bracketed_netloc netloc
      else Inr ())"

section \<open>Lemmas\<close>

lemma partition_at_fst: "c \<notin> set (fst (partition_at c s))"
  by (induction s) (auto simp: Let_def split: prod.splits)

lemma partition_at_subset:
  "set (fst (partition_at c s)) \<subseteq> set s"
  "snd (partition_at c s) = Some r \<Longrightarrow> set r \<subseteq> set s"
  by (induction s) (auto simp: Let_def split: prod.splits if_splits)

lemma partition_at_whole: "c \<notin> set s \<Longrightarrow> partition_at c s = (s, None)"
  by (induction s) (auto simp: Let_def)

lemma partition_at_append: "c \<notin> set p \<Longrightarrow> partition_at c (p @ c # r) = (p, Some r)"
  by (induction p) (auto simp: Let_def)

lemma partition_at_None: "snd (partition_at c s) = None \<Longrightarrow> fst (partition_at c s) = s \<and> c \<notin> set s"
  by (induction s) (auto simp: Let_def split: prod.splits if_splits)

lemma partition_at_Some: "snd (partition_at c s) = Some r \<Longrightarrow> s = fst (partition_at c s) @ c # r"
  by (induction s) (auto simp: Let_def split: prod.splits if_splits)

lemma rpartition_None: "fst (rpartition_at c s) = None \<longleftrightarrow> c \<notin> set s"
proof -
  have "snd (partition_at c (rev s)) = None \<longleftrightarrow> c \<notin> set (rev s)"
    using partition_at_None [of c "rev s"] partition_at_whole [of c "rev s"] by auto
  then show ?thesis by (auto simp: rpartition_at_def Let_def split: prod.splits)
qed

lemma rpartition_subset: "set (snd (rpartition_at c s)) \<subseteq> set s - {c}"
  using partition_at_subset(1) [of c "rev s"] partition_at_fst [of c "rev s"]
  by (auto simp: rpartition_at_def Let_def split: prod.splits)

lemma check_netloc_plain [simp]:
  "CHR ''['' \<notin> set netloc \<Longrightarrow> CHR '']'' \<notin> set netloc \<Longrightarrow> check_netloc netloc = Inr ()"
  by (simp add: check_netloc_def)

lemma check_bracketed_host_cases:
  "check_bracketed_host host = Inr () \<longleftrightarrow> ipv_future host \<or> (take 1 host \<noteq> ''v'' \<and> ipv6_address host)"
  by (cases host) (auto simp: check_bracketed_host_def ipv_future_def guardR_def)

text \<open>An IPv6 address has at least two colons.\<close>

lemma length_split_on: "length (split_on c s) = Suc (count_list s c)"
  by (induction s) (auto split: list.splits)

lemma ipv6_address_colons:
  assumes "ipv6_address s"
  obtains p q r where "s = p @ CHR '':'' # q @ CHR '':'' # r" "CHR '':'' \<notin> set p"
    "CHR ''%'' \<notin> set (p @ q)"
proof -
  define a where "a = fst (partition_at (CHR ''%'') s)"
  obtain t where s: "s = a @ t"
    using partition_at_None [of "CHR ''%''" s] partition_at_Some [of "CHR ''%''" s]
    unfolding a_def by (cases "snd (partition_at (CHR ''%'') s)") auto
  have pc: "CHR ''%'' \<notin> set a" using partition_at_fst unfolding a_def .
  have "ipv6_digits a"
    using assms unfolding ipv6_address_def a_def by (auto split: prod.splits option.splits)
  then have n: "2 \<le> count_list a (CHR '':'')" by (auto simp: ipv6_digits_def Let_def length_split_on)
  then have "CHR '':'' \<in> set a" by (metis count_notin not_numeral_le_zero)
  then obtain p b where a: "a = p @ CHR '':'' # b" "CHR '':'' \<notin> set p" by (metis split_list_first)
  with n have "CHR '':'' \<in> set b" by (cases "CHR '':'' \<in> set b") (auto simp: count_notin)
  then obtain q r where "b = q @ CHR '':'' # r" by (metis split_list)
  with a s pc that [of p q "r @ t"] show thesis by auto
qed

text \<open>A bracketed host that is accepted came out of the brackets, or is an IPvFuture text.\<close>

lemma check_netloc_host:
  assumes "check_netloc netloc = Inr ()"
    and "snd (partition_at (CHR ''['') (snd (rpartition_at (CHR ''@'') netloc))) = Some bracketed"
  shows "check_bracketed_host (fst (partition_at (CHR '']'') bracketed)) = Inr ()"
proof -
  have "CHR ''['' \<in> set netloc"
    using assms(2) partition_at_Some [OF assms(2)] rpartition_subset [of "CHR ''@''" netloc]
    by (metis DiffD1 in_set_conv_decomp subsetD)
  then show ?thesis
    using assms by (auto simp: check_netloc_def check_bracketed_netloc_def result_simps Let_def
        split: prod.splits if_splits)
qed

end
