(* ===== verification/Urls.thy ===== *)
theory Urls
  imports Ip_Hosts
begin

text \<open>
  What the program uses of \<open>urllib.parse\<close>: \<open>urlsplit\<close>, the attributes \<open>hostname\<close>, \<open>port\<close>,
  \<open>username\<close> and \<open>password\<close>, and \<open>urlunsplit\<close>; and the two sanitizers of
  \<open>integrations/domain.py\<close> over them. The tab and newline characters \<open>urlsplit\<close> removes are
  removed; a host in brackets must be an IPv6 or IPvFuture literal (\<open>Ip_Hosts\<close>), and loses its
  brackets, as in the code.
\<close>

section \<open>The parser\<close>

record split_url =
  u_scheme :: string
  u_netloc :: string
  u_path :: string
  u_query :: string
  u_fragment :: string

definition ascii_lower :: "char \<Rightarrow> char" where
  "ascii_lower c = (if is_upper c then char_of (of_char c + 32 :: nat) else c)"

definition is_alpha :: "char \<Rightarrow> bool" where
  "is_alpha c \<longleftrightarrow> is_lower c \<or> is_upper c"

definition scheme_char :: "char \<Rightarrow> bool" where
  "scheme_char c \<longleftrightarrow> is_alpha c \<or> is_digit c \<or> c = CHR ''+'' \<or> c = CHR ''-'' \<or> c = CHR ''.''"

definition split_scheme :: "string \<Rightarrow> string \<times> string" where
  "split_scheme s = (case partition_at (CHR '':'') s of
     (pre, Some rest) \<Rightarrow>
       if pre \<noteq> [] \<and> is_alpha (hd pre) \<and> list_all scheme_char pre
       then (map ascii_lower pre, rest) else ([], s)
   | (_, None) \<Rightarrow> ([], s))"

definition netloc_end :: "char \<Rightarrow> bool" where
  "netloc_end c \<longleftrightarrow> c = CHR ''/'' \<or> c = CHR ''?'' \<or> c = CHR ''#''"

definition split_netloc :: "string \<Rightarrow> string \<times> string" where
  "split_netloc s =
     (if take 2 s = ''//'' then (takeWhile (\<lambda>c. \<not> netloc_end c) (drop 2 s), dropWhile (\<lambda>c. \<not> netloc_end c) (drop 2 s))
      else ([], s))"

definition unsafe_char :: "char \<Rightarrow> bool" where
  "unsafe_char c \<longleftrightarrow> c = CHR 0x09 \<or> c = CHR 0x0A \<or> c = CHR 0x0D"

definition urlsplit :: "string \<Rightarrow> split_url result" where
  "urlsplit value =
     (let url = filter (\<lambda>c. \<not> unsafe_char c) (dropWhile (\<lambda>c. of_char c \<le> (32::nat)) value);
          (scheme, r1) = split_scheme url;
          (netloc, r2) = split_netloc r1;
          (r3, fragment) = partition_at (CHR ''#'') r2;
          (path, query) = partition_at (CHR ''?'') r3
      in bindR (check_netloc netloc) (\<lambda>_.
         Inr \<lparr>u_scheme = scheme, u_netloc = netloc, u_path = path,
              u_query = (case query of None \<Rightarrow> [] | Some q \<Rightarrow> q),
              u_fragment = (case fragment of None \<Rightarrow> [] | Some f \<Rightarrow> f)\<rparr>))"

definition hostinfo :: "split_url \<Rightarrow> string \<times> string option" where
  "hostinfo u =
     (let host_and_port = snd (rpartition_at (CHR ''@'') (u_netloc u)) in
      case partition_at (CHR ''['') host_and_port of
        (_, Some bracketed) \<Rightarrow>
          (case partition_at (CHR '']'') bracketed of
             (host, trailing) \<Rightarrow>
               (host, case trailing of None \<Rightarrow> None | Some t \<Rightarrow> snd (partition_at (CHR '':'') t)))
      | (_, None) \<Rightarrow> partition_at (CHR '':'') host_and_port)"

text \<open>The zone of a scoped address, after a percent sign, keeps its case.\<close>

definition lower_host :: "string \<Rightarrow> string" where
  "lower_host host =
     (case partition_at (CHR ''%'') host of
        (h, None) \<Rightarrow> map ascii_lower h
      | (h, Some zone) \<Rightarrow> map ascii_lower h @ CHR ''%'' # zone)"

definition hostname :: "split_url \<Rightarrow> string option" where
  "hostname u = (let h = fst (hostinfo u) in if h = [] then None else Some (lower_host h))"

text \<open>\<open>int(p)\<close> of a string of decimal digits.\<close>

definition digits_to_nat :: "string \<Rightarrow> nat" where
  "digits_to_nat s = digits_value s"

definition port :: "split_url \<Rightarrow> nat option result" where
  "port u = (case snd (hostinfo u) of
     None \<Rightarrow> Inr None
   | Some [] \<Rightarrow> Inr None
   | Some p \<Rightarrow> if \<not> list_all is_digit p then Inl (ValueError ''Port could not be cast to integer value'')
       else if digits_to_nat p > 65535 then Inl (ValueError ''Port out of range 0-65535'')
       else Inr (Some (digits_to_nat p)))"

definition username :: "split_url \<Rightarrow> string option" where
  "username u = map_option (\<lambda>i. fst (partition_at (CHR '':'') i)) (fst (rpartition_at (CHR ''@'') (u_netloc u)))"

definition password :: "split_url \<Rightarrow> string option" where
  "password u = (case fst (rpartition_at (CHR ''@'') (u_netloc u)) of
     None \<Rightarrow> None | Some i \<Rightarrow> snd (partition_at (CHR '':'') i))"

text \<open>\<open>urlunsplit\<close> for a non-empty scheme and netloc, the only way the program calls it.\<close>

definition urlunsplit :: "string \<Rightarrow> string \<Rightarrow> string \<Rightarrow> string \<Rightarrow> string \<Rightarrow> string" where
  "urlunsplit scheme netloc path query fragment =
     scheme @ ''://'' @ netloc @ (if path \<noteq> [] \<and> hd path \<noteq> CHR ''/'' then CHR ''/'' # path else path) @
     (if query = [] then [] else CHR ''?'' # query) @ (if fragment = [] then [] else CHR ''#'' # fragment)"

section \<open>The sanitizers\<close>

definition http_scheme :: "string \<Rightarrow> bool" where
  "http_scheme s \<longleftrightarrow> s = ''http'' \<or> s = ''https''"

definition canonical_source_url :: "string \<Rightarrow> string result" where
  "canonical_source_url value =
     bindR (urlsplit value) (\<lambda>parsed.
       case hostname parsed of
         Some host \<Rightarrow>
           if \<not> http_scheme (u_scheme parsed) then Inl (ValueError ''source URL must be absolute HTTP(S)'')
           else bindR (port parsed) (\<lambda>p.
             Inr (urlunsplit (u_scheme parsed)
               (host @ (case p of None \<Rightarrow> [] | Some n \<Rightarrow> CHR '':'' # nat_digits n)) (u_path parsed) [] []))
       | None \<Rightarrow> Inl (ValueError ''source URL must be absolute HTTP(S)''))"

definition max_provider_action_url_chars :: nat where
  "max_provider_action_url_chars = 2000"

definition max_provider_action_fragment_chars :: nat where
  "max_provider_action_fragment_chars = 255"

text \<open>\<open>[A-Za-z0-9._~:-]*\<close>.\<close>

definition safe_fragment :: "string \<Rightarrow> bool" where
  "safe_fragment s \<longleftrightarrow> list_all (\<lambda>c. is_alpha c \<or> is_digit c \<or> c \<in> {CHR ''.'', CHR ''_'', CHR ''~'', CHR '':'', CHR ''-''}) s"

definition control_char :: "char \<Rightarrow> bool" where
  "control_char c \<longleftrightarrow> of_char c < (32::nat) \<or> of_char c = (127::nat)"

definition provider_action_url :: "string \<Rightarrow> string result" where
  "provider_action_url value =
     bindR (guardR (length value \<le> max_provider_action_url_chars \<and> \<not> list_ex control_char value)
              (ValueError ''provider action URL is invalid'')) (\<lambda>_.
     bindR (urlsplit value) (\<lambda>parsed.
     bindR (guardR (http_scheme (u_scheme parsed) \<and> hostname parsed \<noteq> None \<and> username parsed = None \<and>
                    password parsed = None \<and>
                    length (u_fragment parsed) \<le> max_provider_action_fragment_chars \<and>
                    safe_fragment (u_fragment parsed))
              (ValueError ''provider action URL must be safe absolute HTTP(S)'')) (\<lambda>_.
     let sanitized = urlunsplit (u_scheme parsed) (u_netloc parsed) (u_path parsed) [] (u_fragment parsed)
     in bindR (guardR (length sanitized \<le> max_provider_action_url_chars)
                 (ValueError ''provider action URL exceeds its size limit'')) (\<lambda>_. Inr sanitized))))"

section \<open>Lemmas\<close>

lemma ascii_lower_upper: "is_upper c \<Longrightarrow> of_char (ascii_lower c) = (of_char c + 32 :: nat)"
proof -
  assume "is_upper c"
  then have "(of_char c :: nat) \<le> 90" by (auto simp: is_upper_def less_eq_char_def)
  with \<open>is_upper c\<close> show ?thesis by (simp add: ascii_lower_def of_char_of)
qed

lemma ascii_lower_other: "\<not> is_alpha c \<Longrightarrow> ascii_lower x = c \<longleftrightarrow> x = c"
proof (cases "is_upper x")
  case True
  then have "is_lower (ascii_lower x)"
    using ascii_lower_upper [OF True] by (simp add: is_lower_def is_upper_def less_eq_char_def)
  then show "\<not> is_alpha c \<Longrightarrow> ascii_lower x = c \<longleftrightarrow> x = c" using True by (auto simp: is_alpha_def)
qed (simp add: ascii_lower_def)

lemma not_alpha_special [simp]:
  "\<not> is_alpha (CHR ''/'')" "\<not> is_alpha (CHR ''?'')" "\<not> is_alpha (CHR ''#'')" "\<not> is_alpha (CHR ''@'')"
  "\<not> is_alpha (CHR '':'')" "\<not> is_alpha (CHR ''['')" "\<not> is_alpha (CHR '']'')" "\<not> is_alpha (CHR ''%'')"
  by (simp_all add: is_alpha_def is_lower_def is_upper_def less_eq_char_def)

lemma lower_host_append: "CHR ''%'' \<notin> set p \<Longrightarrow> lower_host (p @ t) = map ascii_lower p @ lower_host t"
proof (induction p)
  case (Cons c p)
  then show ?case by (auto simp: lower_host_def Let_def split: prod.splits option.splits)
qed simp

lemma lower_host_plain: "CHR ''%'' \<notin> set h \<Longrightarrow> lower_host h = map ascii_lower h"
  by (simp add: lower_host_def partition_at_whole)

lemma lower_host_zone: "lower_host (CHR ''%'' # z) = CHR ''%'' # z"
  by (simp add: lower_host_def)

lemma lower_host_split:
  obtains p z where "h = p @ z" "CHR ''%'' \<notin> set p" "lower_host h = map ascii_lower p @ z" "z = [] \<or> hd z = CHR ''%''"
proof (cases "CHR ''%'' \<in> set h")
  case True
  then obtain p z where "h = p @ CHR ''%'' # z" "CHR ''%'' \<notin> set p" by (metis split_list_first)
  then show thesis using that [of p "CHR ''%'' # z"] by (simp add: lower_host_append lower_host_zone)
next
  case False
  then show thesis using that [of h "[]"] by (simp add: lower_host_plain)
qed

lemma netloc_chars:
  assumes "urlsplit value = Inr u"
  shows "set (u_netloc u) \<inter> {CHR ''/'', CHR ''?'', CHR ''#''} = {}"
    and "set (u_path u) \<inter> {CHR ''?'', CHR ''#''} = {}"
    and "u_path u = [] \<or> u_netloc u = [] \<or> hd (u_path u) = CHR ''/''"
proof -
  obtain scheme r1 where 1: "split_scheme (filter (\<lambda>c. \<not> unsafe_char c) (dropWhile (\<lambda>c. of_char c \<le> (32::nat)) value)) = (scheme, r1)"
    by (metis surj_pair)
  obtain netloc r2 where 2: "split_netloc r1 = (netloc, r2)" by (metis surj_pair)
  obtain r3 fragment where 3: "partition_at (CHR ''#'') r2 = (r3, fragment)" by (metis surj_pair)
  obtain path query where 4: "partition_at (CHR ''?'') r3 = (path, query)" by (metis surj_pair)
  from assms have u: "u_netloc u = netloc" "u_path u = path"
    by (auto simp: urlsplit_def 1 2 3 4 Let_def result_simps)
  show "set (u_netloc u) \<inter> {CHR ''/'', CHR ''?'', CHR ''#''} = {}"
    using 2 unfolding u by (auto simp: split_netloc_def netloc_end_def split: if_splits dest: set_takeWhileD)
  have "CHR ''#'' \<notin> set r3" "CHR ''?'' \<notin> set path" "set path \<subseteq> set r3"
    using partition_at_fst [of "CHR ''#''" r2] partition_at_fst [of "CHR ''?''" r3]
      partition_at_subset(1) [of "CHR ''?''" r3] 3 4 by auto
  then show "set (u_path u) \<inter> {CHR ''?'', CHR ''#''} = {}" unfolding u by auto
  have "path = [] \<or> netloc = [] \<or> hd path = CHR ''/''"
  proof (cases path)
    case (Cons c cs)
    have hd2: "r2 \<noteq> [] \<and> hd r2 = c"
      using Cons 3 4 by (cases r2) (auto simp: Let_def split: prod.splits if_splits)
    show ?thesis
    proof (cases "netloc = []")
      case False
      then have "r2 = dropWhile (\<lambda>c. \<not> netloc_end c) (drop 2 r1)" using 2 by (auto simp: split_netloc_def split: if_splits)
      then have "netloc_end c" using hd2 hd_dropWhile [of "\<lambda>c. \<not> netloc_end c" "drop 2 r1"] by auto
      moreover have "c \<notin> {CHR ''?'', CHR ''#''}"
        using Cons \<open>CHR ''?'' \<notin> set path\<close> \<open>CHR ''#'' \<notin> set r3\<close> \<open>set path \<subseteq> set r3\<close> by auto
      ultimately show ?thesis using Cons by (auto simp: netloc_end_def)
    qed simp
  qed simp
  then show "u_path u = [] \<or> u_netloc u = [] \<or> hd (u_path u) = CHR ''/''" unfolding u .
qed

lemma urlsplit_safe:
  assumes "urlsplit value = Inr u"
  shows "list_all (\<lambda>c. \<not> unsafe_char c) (u_netloc u @ u_path u @ u_fragment u)"
    and "set (u_netloc u @ u_path u @ u_fragment u) \<subseteq> set value"
    and "check_netloc (u_netloc u) = Inr ()"
proof -
  let ?url = "filter (\<lambda>c. \<not> unsafe_char c) (dropWhile (\<lambda>c. of_char c \<le> (32::nat)) value)"
  obtain scheme r1 where 1: "split_scheme ?url = (scheme, r1)" by (metis surj_pair)
  obtain netloc r2 where 2: "split_netloc r1 = (netloc, r2)" by (metis surj_pair)
  obtain r3 fragment where 3: "partition_at (CHR ''#'') r2 = (r3, fragment)" by (metis surj_pair)
  obtain path query where 4: "partition_at (CHR ''?'') r3 = (path, query)" by (metis surj_pair)
  from assms have u: "u_netloc u = netloc" "u_path u = path"
    "u_fragment u = (case fragment of None \<Rightarrow> [] | Some f \<Rightarrow> f)"
    and ok: "check_netloc netloc = Inr ()"
    by (auto simp: urlsplit_def 1 2 3 4 Let_def result_simps)
  show "check_netloc (u_netloc u) = Inr ()" using ok unfolding u .
  have "set r1 \<subseteq> set ?url"
    using 1 partition_at_subset(2) [of "CHR '':''" ?url]
    by (auto simp: split_scheme_def split: prod.splits option.splits if_splits)
  moreover have "set netloc \<subseteq> set r1" "set r2 \<subseteq> set r1"
    using 2 by (auto simp: split_netloc_def split: if_splits dest: set_takeWhileD set_dropWhileD in_set_dropD)
  moreover have "set r3 \<subseteq> set r2" "set path \<subseteq> set r3" "fragment = Some f \<Longrightarrow> set f \<subseteq> set r2" for f
    using partition_at_subset [of "CHR ''#''" r2] partition_at_subset(1) [of "CHR ''?''" r3] 3 4 by auto
  ultimately have sub: "set (u_netloc u @ u_path u @ u_fragment u) \<subseteq> set ?url"
    unfolding u by (cases fragment; simp only: set_append option.case list.set; blast)
  then show "list_all (\<lambda>c. \<not> unsafe_char c) (u_netloc u @ u_path u @ u_fragment u)"
    by (auto simp: list_all_iff subset_iff)
  have "set ?url \<subseteq> set value" by (auto dest: set_dropWhileD)
  with sub show "set (u_netloc u @ u_path u @ u_fragment u) \<subseteq> set value" by blast
qed

lemma split_scheme_http: "http_scheme sc \<Longrightarrow> split_scheme (sc @ ''://'' @ r) = (sc, ''//'' @ r)"
  by (auto simp: http_scheme_def split_scheme_def scheme_char_def is_alpha_def is_lower_def is_upper_def
      ascii_lower_def less_eq_char_def Let_def)

lemma split_netloc_clean:
  assumes "set netloc \<inter> {CHR ''/'', CHR ''?'', CHR ''#''} = {}" and "r = [] \<or> netloc_end (hd r)"
  shows "split_netloc (''//'' @ netloc @ r) = (netloc, r)"
proof -
  have "\<forall>c \<in> set netloc. \<not> netloc_end c" using assms(1) by (auto simp: netloc_end_def)
  then show ?thesis
    using assms(2) by (cases r) (simp_all add: split_netloc_def takeWhile_append dropWhile_append)
qed

lemma urlsplit_unsplit:
  assumes "http_scheme sc" and "set netloc \<inter> {CHR ''/'', CHR ''?'', CHR ''#''} = {}"
    and path: "set path \<inter> {CHR ''?'', CHR ''#''} = {}" "path = [] \<or> hd path = CHR ''/''"
    and clean: "list_all (\<lambda>c. \<not> unsafe_char c) (netloc @ path @ fragment)"
  shows "urlsplit (urlunsplit sc netloc path [] fragment) = bindR (check_netloc netloc) (\<lambda>_.
    Inr \<lparr>u_scheme = sc, u_netloc = netloc, u_path = path, u_query = [], u_fragment = fragment\<rparr>)"
proof -
  let ?r = "path @ (if fragment = [] then [] else CHR ''#'' # fragment)"
  have url: "urlunsplit sc netloc path [] fragment = sc @ ''://'' @ netloc @ ?r"
    using path(2) by (auto simp: urlunsplit_def)
  have unsafe: "filter (\<lambda>c. \<not> unsafe_char c) s = s" if "list_all (\<lambda>c. \<not> unsafe_char c) s" for s
    using that by (simp add: list_all_iff filter_id_conv)
  have "list_all (\<lambda>c. \<not> unsafe_char c) (sc @ ''://'' @ netloc @ ?r)"
    using clean assms(1) by (auto simp: http_scheme_def unsafe_char_def)
  moreover have "dropWhile (\<lambda>c. of_char c \<le> (32::nat)) (sc @ s) = sc @ s" for s
    using assms(1) by (auto simp: http_scheme_def)
  ultimately have strip: "filter (\<lambda>c. \<not> unsafe_char c) (dropWhile (\<lambda>c. of_char c \<le> (32::nat)) (sc @ ''://'' @ netloc @ ?r))
      = sc @ ''://'' @ netloc @ ?r" by (metis unsafe)
  have nl: "split_netloc (''//'' @ netloc @ ?r) = (netloc, ?r)"
    using assms(2) path(2) by (intro split_netloc_clean; cases path) (auto simp: netloc_end_def)
  have fr: "partition_at (CHR ''#'') ?r = (path, if fragment = [] then None else Some fragment)"
    using path(1) partition_at_append [of "CHR ''#''" path fragment] partition_at_whole [of "CHR ''#''" path] by auto
  have q: "partition_at (CHR ''?'') path = (path, None)" using path(1) by (intro partition_at_whole) auto
  show ?thesis
    unfolding url urlsplit_def strip split_scheme_http [OF assms(1)] Let_def prod.case nl fr q by simp
qed

lemma ascii_lower_idem [simp]: "ascii_lower (ascii_lower c) = ascii_lower c"
proof (cases "is_upper c")
  case True
  then have "\<not> is_upper (ascii_lower c)"
    using ascii_lower_upper [OF True] by (simp add: is_upper_def less_eq_char_def)
  then show ?thesis by (simp add: ascii_lower_def)
qed (simp add: ascii_lower_def)

lemma ascii_lower_safe: "\<not> unsafe_char c \<Longrightarrow> \<not> unsafe_char (ascii_lower c)"
proof (cases "is_upper c")
  case True
  then show ?thesis using ascii_lower_upper [OF True] by (auto simp: unsafe_char_def is_upper_def less_eq_char_def)
qed (simp add: ascii_lower_def)

lemma lower_host_other: "\<not> is_alpha c \<Longrightarrow> c \<in> set (lower_host h) \<longleftrightarrow> c \<in> set h"
proof -
  assume c: "\<not> is_alpha c"
  obtain p z where "h = p @ z" "lower_host h = map ascii_lower p @ z" by (rule lower_host_split [of h])
  moreover have "c \<in> ascii_lower ` set p \<longleftrightarrow> c \<in> set p" using ascii_lower_other [OF c] by (metis image_iff)
  ultimately show ?thesis by simp
qed

lemma lower_host_idem [simp]: "lower_host (lower_host h) = lower_host h"
proof -
  obtain p z where h: "CHR ''%'' \<notin> set p" "lower_host h = map ascii_lower p @ z" "z = [] \<or> hd z = CHR ''%''"
    by (rule lower_host_split [of h])
  have "CHR ''%'' \<notin> set (map ascii_lower p)"
    using h(1) unfolding set_map image_iff by (metis ascii_lower_other not_alpha_special(8))
  then have "lower_host (map ascii_lower p @ z) = map ascii_lower (map ascii_lower p) @ lower_host z"
    by (rule lower_host_append)
  moreover have "lower_host z = z"
    using h(3) by (cases z) (simp_all add: lower_host_zone lower_host_def)
  ultimately show ?thesis unfolding h(2) by simp
qed

lemma lower_host_Nil [simp]: "lower_host h = [] \<longleftrightarrow> h = []"
proof -
  obtain p z where "h = p @ z" "lower_host h = map ascii_lower p @ z" by (rule lower_host_split [of h])
  then show ?thesis by simp
qed

lemma lower_host_safe: "list_all (\<lambda>c. \<not> unsafe_char c) h \<Longrightarrow> list_all (\<lambda>c. \<not> unsafe_char c) (lower_host h)"
proof -
  assume s: "list_all (\<lambda>c. \<not> unsafe_char c) h"
  obtain p z where "h = p @ z" "lower_host h = map ascii_lower p @ z" by (rule lower_host_split [of h])
  then show ?thesis using s ascii_lower_safe by (auto simp: list_all_iff)
qed

lemma nat_digits_safe:
  "c \<in> set (nat_digits n) \<Longrightarrow> is_digit c" "is_digit c \<Longrightarrow> \<not> unsafe_char c"
  using nat_digits_digits [of n] by (auto simp: list_all_iff is_digit_iff unsafe_char_def)

lemma digit_not_special: "is_digit c \<Longrightarrow> c \<notin> {CHR ''/'', CHR ''?'', CHR ''#'', CHR ''@'', CHR '':'', CHR ''['', CHR '']''}"
  by (auto simp: is_digit_iff)

lemma nat_digits_no: "\<not> is_digit c \<Longrightarrow> c \<notin> set (nat_digits n)"
  using nat_digits_safe(1) by blast

lemma char_of_small_h: "char_of (104::nat) = CHR ''h''"
  by code_simp

lemma hostinfo_netloc: "u_netloc u = u_netloc v \<Longrightarrow> hostname u = hostname v \<and> username u = username v \<and> password u = password v"
  by (simp add: hostname_def hostinfo_def username_def password_def)


section \<open>The two sanitizers\<close>

text \<open>A host without colons and brackets: a name or an IPv4 address, and no IP literal.\<close>

definition plain_host :: "string \<Rightarrow> bool" where
  "plain_host host \<longleftrightarrow> set host \<inter> {CHR '':'', CHR ''['', CHR '']''} = {}"

lemma hostinfo_plain:
  assumes "set host \<inter> {CHR '':'', CHR ''['', CHR ''@''} = {}" "set rest \<inter> {CHR ''['', CHR ''@''} = {}"
    and "u_netloc u = host @ CHR '':'' # rest"
  shows "hostinfo u = (host, Some rest)"
proof -
  have "rpartition_at (CHR ''@'') (u_netloc u) = (None, u_netloc u)"
    using assms partition_at_whole [of "CHR ''@''" "rev (u_netloc u)"] by (simp add: rpartition_at_def)
  moreover have "partition_at (CHR ''['') (u_netloc u) = (u_netloc u, None)"
    using assms by (intro partition_at_whole) auto
  moreover have "partition_at (CHR '':'') (u_netloc u) = (host, Some rest)"
    unfolding assms(3) using assms(1) by (intro partition_at_append) simp
  ultimately show ?thesis by (simp add: hostinfo_def)
qed

lemma hostinfo_bare:
  assumes "set host \<inter> {CHR '':'', CHR ''['', CHR ''@''} = {}" and "u_netloc u = host"
  shows "hostinfo u = (host, None)"
proof -
  have "rpartition_at (CHR ''@'') host = (None, host)"
    using assms partition_at_whole [of "CHR ''@''" "rev host"] by (simp add: rpartition_at_def)
  moreover have "partition_at (CHR ''['') host = (host, None)" "partition_at (CHR '':'') host = (host, None)"
    using assms by (auto intro!: partition_at_whole)
  ultimately show ?thesis by (simp add: hostinfo_def assms(2))
qed

text \<open>The host of a split URL: its characters, and what it is when it is not plain.\<close>

lemma host_facts:
  assumes u: "urlsplit value = Inr u" and h: "hostname u = Some host"
  obtains raw where "raw \<noteq> []" "host = lower_host raw" "set raw \<subseteq> set (u_netloc u) - {CHR ''@''}"
    "\<not> plain_host raw \<Longrightarrow> ipv6_address raw \<or> ipv_future raw"
    "CHR '':'' \<in> set raw \<Longrightarrow> CHR '']'' \<notin> set raw"
proof -
  let ?hp = "snd (rpartition_at (CHR ''@'') (u_netloc u))"
  have ok: "check_netloc (u_netloc u) = Inr ()" by (rule urlsplit_safe(3) [OF u])
  have hp: "set ?hp \<subseteq> set (u_netloc u) - {CHR ''@''}" by (rule rpartition_subset)
  show thesis
  proof (cases "snd (partition_at (CHR ''['') ?hp)")
    case (Some bracketed)
    let ?raw = "fst (partition_at (CHR '']'') bracketed)"
    have "fst (hostinfo u) = ?raw" using Some by (simp add: hostinfo_def Let_def case_prod_unfold)
    then have raw: "?raw \<noteq> []" "host = lower_host ?raw"
      using h by (auto simp: hostname_def Let_def split: if_splits)
    moreover have "set ?raw \<subseteq> set ?hp"
      using partition_at_subset(1) [of "CHR '']''" bracketed] partition_at_subset(2) [OF Some] by blast
    moreover have "ipv6_address ?raw \<or> ipv_future ?raw"
      using check_netloc_host [OF ok Some] by (auto simp: check_bracketed_host_cases)
    moreover have "CHR '']'' \<notin> set ?raw" by (rule partition_at_fst)
    ultimately show thesis using hp that [of ?raw] by blast
  next
    case None
    let ?raw = "fst (partition_at (CHR '':'') ?hp)"
    have hi: "fst (hostinfo u) = ?raw" using None by (simp add: hostinfo_def Let_def case_prod_unfold)
    have "CHR ''['' \<notin> set ?hp" using partition_at_None [OF None] by simp
    moreover have sub: "set ?raw \<subseteq> set ?hp" by (rule partition_at_subset(1))
    moreover have colon: "CHR '':'' \<notin> set ?raw" by (rule partition_at_fst)
    moreover have "ipv6_address ?raw \<or> ipv_future ?raw" if "CHR '']'' \<in> set ?raw"
    proof -
      have "CHR '']'' \<in> set (u_netloc u)" using that sub hp by blast
      then have "check_bracketed_netloc (u_netloc u) = Inr ()"
        using ok by (auto simp: check_netloc_def Let_def split: if_splits)
      then have "check_bracketed_host ?raw = Inr ()"
        using None by (simp add: check_bracketed_netloc_def Let_def case_prod_unfold)
      then show ?thesis by (auto simp: check_bracketed_host_cases)
    qed
    ultimately have "\<not> plain_host ?raw \<Longrightarrow> ipv6_address ?raw \<or> ipv_future ?raw"
      unfolding plain_host_def by blast
    moreover have "?raw \<noteq> []" "host = lower_host ?raw"
      using h hi by (auto simp: hostname_def Let_def split: if_splits)
    ultimately show thesis using hp sub colon that [of ?raw] by blast
  qed
qed

text \<open>Sanitizing a URL whose parts are clean already.\<close>

definition port_text :: "nat option \<Rightarrow> string" where
  "port_text p = (case p of None \<Rightarrow> [] | Some n \<Rightarrow> CHR '':'' # nat_digits n)"

lemma port_text_chars: "c \<in> set (port_text p) \<Longrightarrow> c = CHR '':'' \<or> is_digit c"
  by (auto simp: port_text_def nat_digits_safe(1) split: option.splits)

lemma sanitize_plain:
  assumes sc: "http_scheme sc" and host: "lower_host host = host" "host \<noteq> []" "plain_host host"
      "set host \<inter> {CHR ''/'', CHR ''?'', CHR ''#'', CHR ''@''} = {}"
    and p: "p = None \<or> (\<exists>n \<le> 65535. p = Some n)"
    and path: "set path \<inter> {CHR ''?'', CHR ''#''} = {}" "path = [] \<or> hd path = CHR ''/''"
    and clean: "list_all (\<lambda>c. \<not> unsafe_char c) (host @ path)"
  shows "canonical_source_url (urlunsplit sc (host @ port_text p) path [] []) =
    Inr (urlunsplit sc (host @ port_text p) path [] [])"
proof -
  let ?u = "\<lparr>u_scheme = sc, u_netloc = host @ port_text p, u_path = path, u_query = [], u_fragment = []\<rparr>"
  have digits: "c \<notin> set (port_text p)" if "c \<noteq> CHR '':''" "\<not> is_digit c" for c
    using that port_text_chars by blast
  have nd: "\<not> is_digit (CHR ''/'')" "\<not> is_digit (CHR ''?'')" "\<not> is_digit (CHR ''#'')" "\<not> is_digit (CHR ''@'')"
    "\<not> is_digit (CHR ''['')" "\<not> is_digit (CHR '']'')"
    by (simp_all add: is_digit_iff)
  have chars: "set (port_text p) \<inter> {CHR ''/'', CHR ''?'', CHR ''#'', CHR ''@'', CHR ''['', CHR '']''} = {}"
    using digits nd by auto
  have "list_all (\<lambda>c. \<not> unsafe_char c) (port_text p)"
    using port_text_chars nat_digits_safe(2) by (fastforce simp: list_all_iff unsafe_char_def)
  with clean have clean': "list_all (\<lambda>c. \<not> unsafe_char c) ((host @ port_text p) @ path @ [])" by simp
  have "check_netloc (host @ port_text p) = Inr ()"
    using host(3) chars by (intro check_netloc_plain) (auto simp: plain_host_def)
  moreover have "set (host @ port_text p) \<inter> {CHR ''/'', CHR ''?'', CHR ''#''} = {}" using host(4) chars by auto
  ultimately have again: "urlsplit (urlunsplit sc (host @ port_text p) path [] []) = Inr ?u"
    using urlsplit_unsplit [OF sc _ path clean'] by simp
  have h: "set host \<inter> {CHR '':'', CHR ''['', CHR ''@''} = {}" using host(3,4) by (auto simp: plain_host_def)
  have info: "hostinfo ?u = (host, map_option nat_digits p)"
  proof (cases p)
    case None
    then show ?thesis using hostinfo_bare [OF h, of ?u] by (simp add: port_text_def)
  next
    case (Some n)
    have "set (nat_digits n) \<inter> {CHR ''['', CHR ''@''} = {}" using chars Some by (simp add: port_text_def)
    then show ?thesis using hostinfo_plain [OF h, of "nat_digits n" ?u] Some by (simp add: port_text_def)
  qed
  then have "hostname ?u = Some host" using host(1,2) by (simp add: hostname_def)
  moreover have "port ?u = Inr p"
  proof (cases p)
    case (Some n)
    obtain c cs where n: "nat_digits n = c # cs" using nat_digits_nonempty [of n] by (cases "nat_digits n") auto
    have "list_all is_digit (c # cs)" "digits_value (c # cs) = n"
      using nat_digits_digits [of n] nat_digits_value [of n] unfolding n by blast+
    moreover have h: "snd (hostinfo ?u) = Some (c # cs)" unfolding info using Some n by simp
    moreover have "n = digits_value (c # cs)" "digits_value (c # cs) \<le> 65535" using p Some calculation by auto
    ultimately show ?thesis unfolding port_def h Some by (simp add: digits_to_nat_def)
  next
    case None
    have h: "snd (hostinfo ?u) = None" unfolding info using None by simp
    show ?thesis unfolding port_def h using None by simp
  qed
  ultimately show ?thesis
    unfolding canonical_source_url_def again bindR_simps using sc by (simp add: port_text_def)
qed

text \<open>An IPv6 address without its brackets is no host: what precedes its first colon is, and the rest is no port.\<close>

lemma sanitize_ipv6:
  assumes sc: "http_scheme sc" and raw: "ipv6_address raw" "CHR '']'' \<notin> set raw"
      "set raw \<inter> {CHR ''/'', CHR ''?'', CHR ''#'', CHR ''@''} = {}"
    and path: "set path \<inter> {CHR ''?'', CHR ''#''} = {}" "path = [] \<or> hd path = CHR ''/''"
    and clean: "list_all (\<lambda>c. \<not> unsafe_char c) (raw @ path)"
  shows "\<exists>e. canonical_source_url (urlunsplit sc (lower_host raw @ port_text p) path [] []) = Inl e"
proof -
  let ?n = "lower_host raw @ port_text p"
  let ?u = "\<lparr>u_scheme = sc, u_netloc = ?n, u_path = path, u_query = [], u_fragment = []\<rparr>"
  have nd: "\<not> is_digit (CHR ''/'')" "\<not> is_digit (CHR ''?'')" "\<not> is_digit (CHR ''#'')" "\<not> is_digit (CHR ''@'')"
    "\<not> is_digit (CHR ''['')" "\<not> is_digit (CHR '']'')" "\<not> is_digit (CHR '':'')"
    by (simp_all add: is_digit_iff)
  have chars: "set ?n \<inter> {CHR ''/'', CHR ''?'', CHR ''#'', CHR ''@'', CHR '']''} = {}"
  proof -
    have "c \<notin> set (port_text p)" if "c \<noteq> CHR '':''" "\<not> is_digit c" for c
      using that port_text_chars by blast
    then have "set (port_text p) \<inter> {CHR ''/'', CHR ''?'', CHR ''#'', CHR ''@'', CHR '']''} = {}"
      using nd by auto
    moreover have "set (lower_host raw) \<inter> {CHR ''/'', CHR ''?'', CHR ''#'', CHR ''@'', CHR '']''} = {}"
      using raw(2,3) by (simp add: lower_host_other)
    ultimately show ?thesis by auto
  qed
  have "list_all (\<lambda>c. \<not> unsafe_char c) (port_text p)"
    using port_text_chars nat_digits_safe(2) by (fastforce simp: list_all_iff unsafe_char_def)
  with clean have clean': "list_all (\<lambda>c. \<not> unsafe_char c) (?n @ path @ [])"
    using lower_host_safe [of raw] by simp
  have "set ?n \<inter> {CHR ''/'', CHR ''?'', CHR ''#''} = {}" using chars by blast
  note again = urlsplit_unsplit [OF sc this path clean']
  show ?thesis
  proof (cases "CHR ''['' \<in> set ?n")
    case True
    then have "check_netloc ?n = Inl bad_ipv6" using chars by (auto simp: check_netloc_def)
    then show ?thesis unfolding canonical_source_url_def again by simp
  next
    case False
    obtain a b c where abc: "raw = a @ CHR '':'' # b @ CHR '':'' # c" "CHR '':'' \<notin> set a" "CHR ''%'' \<notin> set (a @ b)"
      by (rule ipv6_address_colons [OF raw(1)])
    have "lower_host raw = map ascii_lower (a @ CHR '':'' # b @ [CHR '':'']) @ lower_host c"
      using lower_host_append [of "a @ CHR '':'' # b @ [CHR '':'']" c] abc(1,3) by simp
    moreover have "ascii_lower (CHR '':'') = CHR '':''" by (simp add: ascii_lower_other)
    ultimately have n: "?n = map ascii_lower a @ CHR '':'' # map ascii_lower b @ CHR '':'' # lower_host c @ port_text p"
      by simp
    have h: "CHR '':'' \<notin> set (map ascii_lower a)"
      using abc(2) unfolding set_map image_iff by (metis ascii_lower_other not_alpha_special(5))
    have "hostinfo ?u = (map ascii_lower a, Some (map ascii_lower b @ CHR '':'' # lower_host c @ port_text p))"
      by (rule hostinfo_plain) (use n h False chars in auto)
    then have "port ?u = Inl (ValueError ''Port could not be cast to integer value'')"
      using nd(7) by (cases "map ascii_lower b") (simp_all add: port_def)
    moreover have "check_netloc ?n = Inr ()" using False chars by simp
    ultimately show ?thesis unfolding canonical_source_url_def again by (auto split: option.split)
  qed
qed

lemma canonical_source_url_facts:
  assumes "canonical_source_url value = Inr s"
  shows "\<exists>sc raw p path. s = sc @ ''://'' @ lower_host raw @ p @ path \<and> http_scheme sc \<and> raw \<noteq> [] \<and>
      set raw \<inter> {CHR ''/'', CHR ''?'', CHR ''#'', CHR ''@''} = {} \<and>
      (p = [] \<or> (\<exists>n \<le> 65535. p = CHR '':'' # nat_digits n)) \<and>
      (path = [] \<or> hd path = CHR ''/'') \<and> set path \<inter> {CHR ''?'', CHR ''#''} = {} \<and>
      (plain_host raw \<longrightarrow> canonical_source_url s = Inr s) \<and>
      (\<not> plain_host raw \<longrightarrow> ipv6_address raw \<or> ipv_future raw) \<and>
      (ipv6_address raw \<longrightarrow> (\<exists>e. canonical_source_url s = Inl e))"
proof -
  obtain u host p where u: "urlsplit value = Inr u" and h: "hostname u = Some host"
    and sc: "http_scheme (u_scheme u)" and p: "port u = Inr p"
    and s: "s = urlunsplit (u_scheme u) (host @ port_text p) (u_path u) [] []"
    using assms by (auto simp: canonical_source_url_def port_text_def result_simps split: option.splits if_splits)
  have port: "p = None \<or> (\<exists>n \<le> 65535. p = Some n)"
    using p by (auto simp: port_def split: option.splits list.splits if_splits)
  obtain raw where raw: "raw \<noteq> []" "host = lower_host raw" "set raw \<subseteq> set (u_netloc u) - {CHR ''@''}"
      and literal: "\<not> plain_host raw \<Longrightarrow> ipv6_address raw \<or> ipv_future raw"
      and colon: "CHR '':'' \<in> set raw \<Longrightarrow> CHR '']'' \<notin> set raw"
    using host_facts [OF u h] by metis
  note nl = netloc_chars [OF u] and safe = urlsplit_safe [OF u]
  have chars: "set raw \<inter> {CHR ''/'', CHR ''?'', CHR ''#'', CHR ''@''} = {}" using raw(3) nl(1) by blast
  have clean: "list_all (\<lambda>c. \<not> unsafe_char c) (raw @ u_path u)"
    using safe(1) raw(3) by (auto simp: list_all_iff)
  have path: "u_path u = [] \<or> hd (u_path u) = CHR ''/''" using nl(3) raw(1,3) by (cases raw) auto
  have "canonical_source_url s = Inr s" if "plain_host raw"
    unfolding s
  proof (rule sanitize_plain [OF sc _ _ _ _ port nl(2) path])
    show "lower_host host = host" "host \<noteq> []" using raw(1,2) by simp_all
    show "plain_host host" "set host \<inter> {CHR ''/'', CHR ''?'', CHR ''#'', CHR ''@''} = {}"
      using that chars unfolding plain_host_def raw(2) by (simp_all add: lower_host_other)
    show "list_all (\<lambda>c. \<not> unsafe_char c) (host @ u_path u)"
      using clean lower_host_safe [of raw] unfolding raw(2) by simp
  qed
  moreover have "\<exists>e. canonical_source_url s = Inl e" if "ipv6_address raw"
  proof -
    have "CHR '':'' \<in> set raw" using ipv6_address_colons [OF that] by (metis in_set_conv_decomp)
    from sanitize_ipv6 [OF sc that colon [OF this] chars nl(2) path clean]
    show ?thesis unfolding s raw(2) .
  qed
  moreover have "s = u_scheme u @ ''://'' @ lower_host raw @ port_text p @ u_path u"
    using path unfolding s raw(2) urlunsplit_def by auto
  moreover have "port_text p = [] \<or> (\<exists>n \<le> 65535. port_text p = CHR '':'' # nat_digits n)"
    using port by (auto simp: port_text_def)
  ultimately show ?thesis using sc raw(1) literal path nl(2) chars by blast
qed

lemma provider_action_url_facts:
  assumes "provider_action_url value = Inr s"
  shows "(\<exists>sc netloc path fragment.
      s = sc @ ''://'' @ netloc @ path @ (if fragment = [] then [] else CHR ''#'' # fragment) \<and>
      http_scheme sc \<and> netloc \<noteq> [] \<and> CHR ''@'' \<notin> set netloc \<and>
      set (netloc @ path) \<inter> {CHR ''?'', CHR ''#''} = {} \<and>
      safe_fragment fragment \<and> length fragment \<le> 255) \<and>
    length s \<le> 2000 \<and> \<not> list_ex control_char s \<and> provider_action_url s = Inr s"
proof -
  obtain u where u: "urlsplit value = Inr u" and sc: "http_scheme (u_scheme u)" and host: "hostname u \<noteq> None"
    and user: "username u = None" "password u = None"
    and frag: "length (u_fragment u) \<le> 255" "safe_fragment (u_fragment u)"
    and s: "s = urlunsplit (u_scheme u) (u_netloc u) (u_path u) [] (u_fragment u)"
    and len: "length s \<le> 2000" and ctl: "\<not> list_ex control_char value"
    using assms by (auto simp: provider_action_url_def result_simps Let_def max_provider_action_url_chars_def
        max_provider_action_fragment_chars_def)
  note nl = netloc_chars [OF u] and safe = urlsplit_safe [OF u]
  have ne: "u_netloc u \<noteq> []" using host by (auto simp: hostname_def hostinfo_def rpartition_at_def)
  have at: "CHR ''@'' \<notin> set (u_netloc u)" using user(1) by (simp add: username_def rpartition_None)
  have path: "u_path u = [] \<or> hd (u_path u) = CHR ''/''" using nl(3) ne by simp
  have again: "urlsplit s = Inr \<lparr>u_scheme = u_scheme u, u_netloc = u_netloc u, u_path = u_path u, u_query = [], u_fragment = u_fragment u\<rparr>"
    using urlsplit_unsplit [OF sc nl(1,2) path safe(1)] safe(3) unfolding s by simp
  let ?u = "\<lparr>u_scheme = u_scheme u, u_netloc = u_netloc u, u_path = u_path u, u_query = [], u_fragment = u_fragment u\<rparr>"
  have same: "hostname ?u = hostname u" "username ?u = username u" "password ?u = password u"
    using hostinfo_netloc [of ?u u] by simp_all
  have str: "s = u_scheme u @ ''://'' @ u_netloc u @ u_path u @ (if u_fragment u = [] then [] else CHR ''#'' # u_fragment u)"
    using path unfolding s urlunsplit_def by auto
  have "\<not> control_char c" if "c \<in> set (u_netloc u @ u_path u @ u_fragment u)" for c
    using ctl safe(2) that by (auto simp: list_ex_iff)
  moreover have "\<not> list_ex control_char (u_scheme u)"
    using sc by (auto simp: http_scheme_def control_char_def)
  moreover have "\<not> list_ex control_char ''://''" "\<not> control_char (CHR ''#'')" by (simp_all add: control_char_def)
  ultimately have ctl': "\<not> list_ex control_char s"
    unfolding str by (auto simp: list_ex_iff)
  have "provider_action_url s = Inr s"
    unfolding provider_action_url_def again bindR_simps same
    using len ctl' sc host user frag
    by (simp add: max_provider_action_url_chars_def max_provider_action_fragment_chars_def guardR_def flip: s)
  moreover have "set (u_netloc u @ u_path u) \<inter> {CHR ''?'', CHR ''#''} = {}" using nl(1,2) by auto
  ultimately show ?thesis using str sc ne at frag len ctl' by blast
qed

section \<open>Properties\<close>



text \<open>
  C36. Provider action URLs are safe. What \<open>provider_action_url\<close> returns is an HTTP(S) URL with a
  non-empty host part that carries no credentials, without a query, with a short fragment of safe
  characters, without control characters and within the size limit; and sanitizing it again
  returns it unchanged.
\<close>

theorem provider_action_url_safe:
  assumes "provider_action_url value = Inr s"
  shows "(\<exists>sc netloc path fragment.
      s = sc @ ''://'' @ netloc @ path @ (if fragment = [] then [] else CHR ''#'' # fragment) \<and>
      http_scheme sc \<and> netloc \<noteq> [] \<and> CHR ''@'' \<notin> set netloc \<and>
      set (netloc @ path) \<inter> {CHR ''?'', CHR ''#''} = {} \<and>
      safe_fragment fragment \<and> length fragment \<le> 255) \<and>
    length s \<le> 2000 \<and> \<not> list_ex control_char s \<and> provider_action_url s = Inr s"
  using assms by (rule provider_action_url_facts)

lemma provider_action_url_safe_witness:
  "provider_action_url ''http://h?t#a'' = Inr ''http://h#a'' \<and> provider_action_url ''http://h#a'' = Inr ''http://h#a''"
proof -
  have 1: "provider_action_url ''http://h?t#a'' = Inr ''http://h#a''" by code_simp
  from provider_action_url_safe [OF 1] 1 show ?thesis by blast
qed

end
