(* ===== verification/Integration_Domain.thy ===== *)
theory Integration_Domain
  imports Database Sha256 Json_Canonical Urls
begin

text \<open>
  \<open>integrations/domain.py\<close> and \<open>tasks/input_validation.py\<close>: the strict data models of the
  deployment workflow, the canonical JSON that is hashed and measured, and the normalization of
  task input before it is persisted. pydantic's lax conversion of a JSON value to \<open>int\<close> and
  \<open>bool\<close> is not part of the repository: it is the parameter \<open>coercions\<close>, of which the properties
  assume only that integers and booleans convert to themselves. Every failed validation is the
  one \<open>ValidationError\<close>.
\<close>

section \<open>Canonical JSON\<close>

definition canonical_json :: "json \<Rightarrow> string result" where
  "canonical_json v =
     (if contains_non_finite v then Inl (ValueError ''JSON must not contain NaN or Infinity'')
      else json_bytes v)"

definition sha256_json :: "json \<Rightarrow> string result" where
  "sha256_json v = bindR (canonical_json v) (\<lambda>b. Inr (sha256_hex b))"

lemma canonical_json_Inr [result_simps]:
  "canonical_json v = Inr b \<longleftrightarrow> \<not> contains_non_finite v \<and> b = encode (dumps v)"
  by (auto simp: canonical_json_def json_bytes_def)

lemma sha256_json_hex: "sha256_json v = Inr h \<Longrightarrow> hex64 h"
  by (auto simp: sha256_json_def result_simps)

section \<open>Patterns\<close>

text \<open>\<open>^[\x21-\x7E]+$\<close> with at most 255 characters.\<close>

definition visible_identifier :: "string \<Rightarrow> bool" where
  "visible_identifier s \<longleftrightarrow> s \<noteq> [] \<and> length s \<le> 255 \<and> list_all is_visible s"

definition upper_alnum :: "char \<Rightarrow> bool" where
  "upper_alnum c \<longleftrightarrow> is_upper c \<or> is_digit c"

text \<open>\<open>^[A-Z][A-Z0-9_]{0,19}-[1-9][0-9]{0,11}$\<close>.\<close>

definition jira_key :: "string \<Rightarrow> bool" where
  "jira_key s = (case partition_at (CHR ''-'') s of
     (p # ps, Some (n # ns)) \<Rightarrow>
       is_upper p \<and> length ps \<le> 19 \<and> list_all (\<lambda>c. upper_alnum c \<or> c = CHR ''_'') ps \<and>
       is_digit n \<and> n \<noteq> CHR ''0'' \<and> length ns \<le> 11 \<and> list_all is_digit ns
   | _ \<Rightarrow> False)"

text \<open>\<open>^[CG][A-Z0-9]{8,30}$\<close>.\<close>

definition slack_channel :: "string \<Rightarrow> bool" where
  "slack_channel s = (case s of
     c # cs \<Rightarrow> (c = CHR ''C'' \<or> c = CHR ''G'') \<and> 8 \<le> length cs \<and> length cs \<le> 30 \<and> list_all upper_alnum cs
   | [] \<Rightarrow> False)"

text \<open>\<open>[A-Za-z0-9_.-]+/[A-Za-z0-9_.-]+\<close> of \<open>REPOSITORY_PATTERN\<close>.\<close>

definition repository_char :: "char \<Rightarrow> bool" where
  "repository_char c \<longleftrightarrow> is_alpha c \<or> is_digit c \<or> c = CHR ''_'' \<or> c = CHR ''.'' \<or> c = CHR ''-''"

definition repository_pattern :: "string \<Rightarrow> bool" where
  "repository_pattern s = (case partition_at (CHR ''/'') s of
     (a, Some b) \<Rightarrow> a \<noteq> [] \<and> b \<noteq> [] \<and> list_all repository_char a \<and> list_all repository_char b
   | (_, None) \<Rightarrow> False)"

text \<open>\<open>^[a-z0-9_]{1,100}$\<close>.\<close>

definition safe_code :: "string \<Rightarrow> bool" where
  "safe_code s \<longleftrightarrow> s \<noteq> [] \<and> length s \<le> 100 \<and> list_all (\<lambda>c. is_lower c \<or> is_digit c \<or> c = CHR ''_'') s"

text \<open>\<open>^[0-9a-fA-F]{7,64}$\<close>.\<close>

definition head_sha :: "string \<Rightarrow> bool" where
  "head_sha s \<longleftrightarrow> 7 \<le> length s \<and> length s \<le> 64 \<and>
     list_all (\<lambda>c. is_digit c \<or> (CHR ''a'' \<le> c \<and> c \<le> CHR ''f'') \<or> (CHR ''A'' \<le> c \<and> c \<le> CHR ''F'')) s"

section \<open>Task input\<close>

record sync_input =
  i_jira_issue_key :: string
  i_github_repository :: string
  i_github_issue_number :: int
  i_service_id :: string
  i_publish_slack_notification :: bool
  i_slack_channel_id :: "string option"

record coercions =
  to_int :: "json \<Rightarrow> int option"
  to_bool :: "json \<Rightarrow> bool option"

fun as_str :: "json \<Rightarrow> string option" where
  "as_str (JStr s) = Some s"
| "as_str _ = None"

definition sync_fields :: "string list" where
  "sync_fields = [''jira_issue_key'', ''github_repository'', ''github_issue_number'', ''service_id'',
     ''publish_slack_notification'', ''slack_channel_id'']"

definition required_field :: "jobj \<Rightarrow> string \<Rightarrow> json result" where
  "required_field kvs name = expectR ValidationError (obj_get kvs name)"

definition sync_input_ok :: "sync_input \<Rightarrow> bool" where
  "sync_input_ok i \<longleftrightarrow>
     jira_key (i_jira_issue_key i) \<and>
     3 \<le> length (i_github_repository i) \<and> length (i_github_repository i) \<le> 200 \<and>
     repository_pattern (i_github_repository i) \<and>
     1 \<le> i_github_issue_number i \<and> i_github_issue_number i \<le> 2147483647 \<and>
     visible_identifier (i_service_id i) \<and>
     optionally slack_channel (i_slack_channel_id i) \<and>
     (i_publish_slack_notification i \<longrightarrow> i_slack_channel_id i \<noteq> None)"

text \<open>\<open>DeploymentContextSyncInput.model_validate\<close>.\<close>

definition validate_sync_input :: "coercions \<Rightarrow> jobj \<Rightarrow> sync_input result" where
  "validate_sync_input co kvs =
     bindR (guardR (list_all (\<lambda>(k, _). k \<in> set sync_fields) kvs) ValidationError) (\<lambda>_.
     bindR (required_field kvs ''jira_issue_key'') (\<lambda>v1. bindR (expectR ValidationError (as_str v1)) (\<lambda>key.
     bindR (required_field kvs ''github_repository'') (\<lambda>v2. bindR (expectR ValidationError (as_str v2)) (\<lambda>repo.
     bindR (required_field kvs ''github_issue_number'') (\<lambda>v3. bindR (expectR ValidationError (to_int co v3)) (\<lambda>number.
     bindR (required_field kvs ''service_id'') (\<lambda>v4. bindR (expectR ValidationError (as_str v4)) (\<lambda>service.
     bindR (case obj_get kvs ''publish_slack_notification'' of
              None \<Rightarrow> Inr False | Some v5 \<Rightarrow> expectR ValidationError (to_bool co v5)) (\<lambda>publish.
     bindR (case obj_get kvs ''slack_channel_id'' of
              None \<Rightarrow> Inr None | Some JNull \<Rightarrow> Inr None
            | Some v6 \<Rightarrow> bindR (expectR ValidationError (as_str v6)) (\<lambda>c. Inr (Some c))) (\<lambda>channel.
     let i = \<lparr>i_jira_issue_key = key, i_github_repository = repo, i_github_issue_number = number,
              i_service_id = service, i_publish_slack_notification = publish, i_slack_channel_id = channel\<rparr>
     in bindR (guardR (sync_input_ok i) ValidationError) (\<lambda>_. Inr i))))))))))))"

text \<open>\<open>model_dump(mode="json", exclude_none=True)\<close>.\<close>

definition dump_sync_input :: "sync_input \<Rightarrow> jobj" where
  "dump_sync_input i =
     [(''jira_issue_key'', JStr (i_jira_issue_key i)),
      (''github_repository'', JStr (i_github_repository i)),
      (''github_issue_number'', JInt (i_github_issue_number i)),
      (''service_id'', JStr (i_service_id i)),
      (''publish_slack_notification'', JBool (i_publish_slack_notification i))] @
     (case i_slack_channel_id i of None \<Rightarrow> [] | Some c \<Rightarrow> [(''slack_channel_id'', JStr c)])"

definition normalize_task_input :: "coercions \<Rightarrow> string \<Rightarrow> jobj \<Rightarrow> jobj result" where
  "normalize_task_input co task_type task_input =
     (if task_type \<noteq> ''deployment_context_sync'' then Inr task_input
      else bindR (validate_sync_input co task_input) (\<lambda>validated. Inr (dump_sync_input validated)))"

section \<open>Workflow records\<close>

record source_ref =
  sr_artifact_id :: uuid
  sr_provider :: string
  sr_resource_type :: string
  sr_provider_resource_identifier :: string
  sr_source_version :: string
  sr_content_hash :: string

definition make_source_ref :: "source_ref \<Rightarrow> source_ref result" where
  "make_source_ref r = bindR (guardR (hex64 (sr_content_hash r)) ValidationError) (\<lambda>_. Inr r)"

record jira_item =
  j_key :: string
  j_title :: string
  j_description :: string
  j_status :: string
  j_priority :: "string option"
  j_labels :: "string list"
  j_assignee :: "string option"
  j_updated_at :: time
  j_source_url :: string
  j_source_version :: string

definition make_jira_item :: "jira_item \<Rightarrow> jira_item result" where
  "make_jira_item r = bindR (guardR (length (j_title r) \<le> 500 \<and> length (j_description r) \<le> 20000 \<and>
       length (j_status r) \<le> 100 \<and> fits 100 (j_priority r) \<and> fits 255 (j_assignee r)) ValidationError) (\<lambda>_. Inr r)"

record github_context =
  g_full_name :: string
  g_repository_id :: int
  g_visibility :: string
  g_archived :: bool
  g_default_branch :: string
  g_head_sha :: string
  g_issue_number :: int
  g_issue_state :: string
  g_issue_title :: string
  g_is_pull_request :: bool
  g_source_url :: string
  g_source_version :: string

definition make_github_context :: "github_context \<Rightarrow> github_context result" where
  "make_github_context r = bindR (guardR (g_repository_id r \<ge> 1 \<and> head_sha (g_head_sha r) \<and>
       g_issue_number r \<ge> 1 \<and> length (g_issue_title r) \<le> 500) ValidationError) (\<lambda>_. Inr r)"

record catalog_record =
  k_service_id :: string
  k_canonical_service_id :: string
  k_aliases :: "string list"
  k_service_owner :: "string option"
  k_criticality :: string
  k_approved_repositories :: "string list"
  k_data_classification :: data_classification
  k_policy_version :: int
  k_automatic_publication_allowed :: bool
  k_required_reviewer :: "string option"
  k_allow_automatic_updates :: bool
  k_source_version :: string
  k_source_url :: string

definition make_catalog_record :: "catalog_record \<Rightarrow> catalog_record result" where
  "make_catalog_record r = bindR (guardR (k_policy_version r \<ge> 1) ValidationError) (\<lambda>_. Inr r)"

record decision =
  d_outcome :: decision_outcome
  d_reason_codes :: "reason_code list"
  d_reasons :: "string list"
  d_source_references :: "source_ref list"
  d_policy_version :: int
  d_generated_at :: time

record action_ref =
  ar_action_id :: uuid
  ar_provider :: string
  ar_operation :: string
  ar_revision :: nat
  ar_provider_resource_identifier :: "string option"
  ar_provider_url :: "string option"

record slack_result =
  sl_requested :: bool
  sl_state :: delivery_state
  sl_action :: "action_ref option"
  sl_safe_error_code :: "string option"

text \<open>\<open>SlackNotificationResult\<close>: the pattern of the code, then \<open>validate_state_evidence\<close>.\<close>

definition make_slack_result :: "slack_result \<Rightarrow> slack_result result" where
  "make_slack_result r =
     bindR (guardR (case sl_safe_error_code r of None \<Rightarrow> True | Some c \<Rightarrow> safe_code c) ValidationError) (\<lambda>_.
     bindR (if sl_state r = NOT_REQUESTED
            then guardR (\<not> (sl_requested r \<or> sl_action r \<noteq> None \<or> sl_safe_error_code r \<noteq> None)) ValidationError
            else guardR (sl_requested r) ValidationError) (\<lambda>_.
     bindR (if sl_state r = DELIVERY_SUCCEEDED
            then bindR (guardR (case sl_action r of None \<Rightarrow> False
                                | Some a \<Rightarrow> ar_provider_resource_identifier a \<noteq> None) ValidationError)
                   (\<lambda>_. guardR (sl_safe_error_code r = None) ValidationError)
            else Inr ()) (\<lambda>_. Inr r)))"

record sync_result =
  w_workflow_version :: string
  w_decision :: decision
  w_source_artifacts :: "source_ref list"
  w_github_action :: "action_ref option"
  w_slack_notification :: slack_result

definition workflow_version :: string where
  "workflow_version = ''deployment_context_sync:v1''"

section \<open>Lemmas\<close>

definition coercions_ok :: "coercions \<Rightarrow> bool" where
  "coercions_ok co \<longleftrightarrow> (\<forall>n. to_int co (JInt n) = Some n) \<and> (\<forall>b. to_bool co (JBool b) = Some b)"

lemma validate_sync_input_ok: "validate_sync_input co kvs = Inr i \<Longrightarrow> sync_input_ok i"
  by (auto simp: validate_sync_input_def result_simps Let_def)

lemma validate_sync_input_error: "validate_sync_input co kvs = Inl e \<Longrightarrow> e = ValidationError"
  by (auto simp: validate_sync_input_def result_simps Let_def required_field_def split: option.splits json.splits)

lemma dump_get:
  "obj_get (dump_sync_input i) ''jira_issue_key'' = Some (JStr (i_jira_issue_key i))"
  "obj_get (dump_sync_input i) ''github_repository'' = Some (JStr (i_github_repository i))"
  "obj_get (dump_sync_input i) ''github_issue_number'' = Some (JInt (i_github_issue_number i))"
  "obj_get (dump_sync_input i) ''service_id'' = Some (JStr (i_service_id i))"
  "obj_get (dump_sync_input i) ''publish_slack_notification'' = Some (JBool (i_publish_slack_notification i))"
  "obj_get (dump_sync_input i) ''slack_channel_id'' = map_option JStr (i_slack_channel_id i)"
  by (simp_all add: obj_get_def dump_sync_input_def split: option.splits)

lemma dump_fields: "list_all (\<lambda>(k, _). k \<in> set sync_fields) (dump_sync_input i)"
  by (simp add: dump_sync_input_def sync_fields_def split: option.splits)

lemma validate_dump:
  assumes "coercions_ok co" and "sync_input_ok i"
  shows "validate_sync_input co (dump_sync_input i) = Inr i"
  using assms dump_fields [of i]
  by (cases i; cases "i_slack_channel_id i")
    (simp_all add: validate_sync_input_def required_field_def dump_get coercions_ok_def Let_def)

lemma dump_inj: "dump_sync_input i = dump_sync_input i' \<Longrightarrow> i = i'"
  by (auto simp: dump_sync_input_def split: option.splits)

lemma dump_finite: "\<not> contains_non_finite (JObj (dump_sync_input i))"
  by (auto simp: dump_sync_input_def split: option.splits)

section \<open>Properties\<close>

text \<open>
  Normalization of task input is a validating round trip. An accepted deployment input is
  stored as the dump of values that satisfy every constraint of the model, reading the stored
  input back yields the same values, normalizing again changes nothing, and two inputs are stored
  alike only if they mean the same values; other task types are stored as given, and the only
  error is the validation error.
\<close>

theorem normalize_task_input_roundtrip:
  assumes "coercions_ok co"
  shows "(\<forall>j. normalize_task_input co ''deployment_context_sync'' kvs = Inr j \<longrightarrow>
      (\<exists>i. sync_input_ok i \<and> j = dump_sync_input i \<and> validate_sync_input co kvs = Inr i \<and>
        validate_sync_input co j = Inr i \<and> \<not> contains_non_finite (JObj j) \<and>
        (\<forall>kvs'. normalize_task_input co ''deployment_context_sync'' kvs' = Inr j \<longrightarrow>
           validate_sync_input co kvs' = Inr i)) \<and>
      normalize_task_input co ''deployment_context_sync'' j = Inr j) \<and>
    (\<forall>i. sync_input_ok i \<longrightarrow> normalize_task_input co ''deployment_context_sync'' (dump_sync_input i) = Inr (dump_sync_input i)) \<and>
    (\<forall>ty. ty \<noteq> ''deployment_context_sync'' \<longrightarrow> normalize_task_input co ty kvs = Inr kvs) \<and>
    (\<forall>ty e. normalize_task_input co ty kvs = Inl e \<longrightarrow> e = ValidationError)"
proof -
  have norm: "normalize_task_input co ''deployment_context_sync'' x = Inr j \<longleftrightarrow>
      (\<exists>i. validate_sync_input co x = Inr i \<and> j = dump_sync_input i)" for x j
    by (auto simp: normalize_task_input_def result_simps)
  have "(\<exists>i. sync_input_ok i \<and> j = dump_sync_input i \<and> validate_sync_input co kvs = Inr i \<and>
        validate_sync_input co j = Inr i \<and> \<not> contains_non_finite (JObj j) \<and>
        (\<forall>kvs'. normalize_task_input co ''deployment_context_sync'' kvs' = Inr j \<longrightarrow>
           validate_sync_input co kvs' = Inr i)) \<and>
      normalize_task_input co ''deployment_context_sync'' j = Inr j"
    if "normalize_task_input co ''deployment_context_sync'' kvs = Inr j" for j
  proof -
    from that obtain i where i: "validate_sync_input co kvs = Inr i" "j = dump_sync_input i" unfolding norm by blast
    note ok = validate_sync_input_ok [OF i(1)]
    have again: "validate_sync_input co j = Inr i" unfolding i(2) by (rule validate_dump [OF assms ok])
    have "validate_sync_input co kvs' = Inr i" if "normalize_task_input co ''deployment_context_sync'' kvs' = Inr j" for kvs'
      using that i(2) unfolding norm by (metis dump_inj)
    with i ok again dump_finite [of i] show ?thesis unfolding norm by blast
  qed
  moreover have "normalize_task_input co ''deployment_context_sync'' (dump_sync_input i) = Inr (dump_sync_input i)"
    if "sync_input_ok i" for i
    unfolding norm using validate_dump [OF assms that] by blast
  moreover have "normalize_task_input co ty kvs = Inl e \<Longrightarrow> e = ValidationError" for ty e
    using validate_sync_input_error by (auto simp: normalize_task_input_def result_simps split: if_splits)
  ultimately show ?thesis by (simp add: normalize_task_input_def)
qed

definition json_coercions :: coercions where
  "json_coercions = \<lparr>to_int = (\<lambda>v. case v of JInt n \<Rightarrow> Some n | JBool b \<Rightarrow> Some (if b then 1 else 0) | _ \<Rightarrow> None),
     to_bool = (\<lambda>v. case v of JBool b \<Rightarrow> Some b | _ \<Rightarrow> None)\<rparr>"

definition example_input :: sync_input where
  "example_input = \<lparr>i_jira_issue_key = ''A-1'', i_github_repository = ''o/r'', i_github_issue_number = 7,
     i_service_id = ''s'', i_publish_slack_notification = False, i_slack_channel_id = None\<rparr>"

lemma example_input_ok: "sync_input_ok example_input"
  by (simp add: sync_input_ok_def example_input_def jira_key_def repository_pattern_def repository_char_def
      is_alpha_def is_lower_def is_upper_def is_digit_def less_eq_char_def visible_identifier_def is_visible_def)

lemma json_coercions_ok: "coercions_ok json_coercions"
  by (simp add: coercions_ok_def json_coercions_def)

lemma normalize_task_input_roundtrip_witness:
  "normalize_task_input json_coercions ''deployment_context_sync'' (dump_sync_input example_input) =
     Inr (dump_sync_input example_input)"
  using normalize_task_input_roundtrip [OF json_coercions_ok] example_input_ok by blast

text \<open>
  A Slack delivery result carries the evidence its state claims. It is accepted exactly when
  a delivery that was not requested has neither action nor error, any other state was requested, a
  success names the provider's resource and no error, and an error code is a safe token; it is
  then returned unchanged, and every refusal is the validation error.
\<close>

theorem make_slack_result_exact:
  "(\<forall>r'. make_slack_result r = Inr r' \<longleftrightarrow> r' = r \<and>
      (sl_state r = NOT_REQUESTED \<longleftrightarrow> \<not> sl_requested r) \<and>
      (sl_requested r \<or> (sl_action r = None \<and> sl_safe_error_code r = None)) \<and>
      (sl_state r \<noteq> DELIVERY_SUCCEEDED \<or> (sl_safe_error_code r = None \<and>
         (\<exists>a. sl_action r = Some a \<and> ar_provider_resource_identifier a \<noteq> None))) \<and>
      (sl_safe_error_code r = None \<or> (\<exists>c. sl_safe_error_code r = Some c \<and> safe_code c))) \<and>
   (\<forall>e. make_slack_result r \<noteq> Inl e \<or> e = ValidationError)"
  by (cases "sl_safe_error_code r"; cases "sl_action r"; cases "sl_state r"; cases "sl_requested r")
    (auto simp: make_slack_result_def guardR_def)

lemma make_slack_result_exact_witness:
  "make_slack_result \<lparr>sl_requested = False, sl_state = NOT_REQUESTED, sl_action = None, sl_safe_error_code = None\<rparr> =
     Inr \<lparr>sl_requested = False, sl_state = NOT_REQUESTED, sl_action = None, sl_safe_error_code = None\<rparr>"
  using conjunct1 [OF make_slack_result_exact] by simp

end
