(* ===== verification/Action_Ledger.thy ===== *)
theory Action_Ledger
  imports Worker_Repository Metrics Integration_Domain
begin

text \<open>
  \<open>integrations/persistence.py\<close>: the fenced evidence store of the deployment workflow. A call is
  one transaction: a function from the tables to an exception (roll back) or a result, the metrics
  it emitted and the new tables. The readings of the database clock and the fresh identifiers are
  the record \<open>ledger_env\<close>. PostgreSQL checks every row an insert or update produces: a violated
  constraint is the exception \<open>integrity_error\<close>. Delays are Python floats.
\<close>

section \<open>Vocabulary\<close>

record ledger_env =
  le_now :: time
  le_transaction_start :: time
  le_row_id :: uuid
  le_evidence_id :: uuid

datatype reservation_kind = RESERVATION_CREATED | RESERVATION_REPLAY | RESERVATION_CHANGED | RESERVATION_SOURCE_DRIFT

primrec reservation_kind_value :: "reservation_kind \<Rightarrow> string" where
  "reservation_kind_value RESERVATION_CREATED = ''created''"
| "reservation_kind_value RESERVATION_REPLAY = ''replay''"
| "reservation_kind_value RESERVATION_CHANGED = ''changed''"
| "reservation_kind_value RESERVATION_SOURCE_DRIFT = ''source_drift''"

record reservation =
  rv_action :: external_action
  rv_kind :: reservation_kind

type_synonym metric_event = "metric_name \<times> metric_labels"
type_synonym 'a ledger_tx = "db \<Rightarrow> exn + ('a \<times> metric_event list \<times> db)"

definition no_result_found :: exn where
  "no_result_found = OtherException ''NoResultFound''"

text \<open>
  \<open>timedelta(seconds=...)\<close> in microseconds. Its days lie between -999999999 and 999999999; a delay
  beyond them raises, as an infinity does.
\<close>

definition timedelta_range :: "time \<Rightarrow> bool" where
  "timedelta_range m \<longleftrightarrow> -86399999913600000000 \<le> m \<and> m < 86400000000000000000"

fun timedelta_seconds :: "pyfloat \<Rightarrow> time result" where
  "timedelta_seconds (FFin q) =
     (if timedelta_range (micros q) then Inr (micros q) else Inl (OtherException ''OverflowError''))"
| "timedelta_seconds FNaN = Inl (ValueError ''cannot convert float NaN to integer'')"
| "timedelta_seconds _ = Inl (OtherException ''OverflowError'')"

section \<open>Helpers\<close>

definition assert_active_fence :: "execution_fence \<Rightarrow> time \<Rightarrow> db \<Rightarrow> unit result" where
  "assert_active_fence fence database_now d =
     guardR (list_ex (\<lambda>t.
         t_id t = f_task_id fence \<and> t_status t = RUNNING \<and> t_worker_id t = Some (f_worker_id fence) \<and>
         t_attempt_count t = f_attempt_number fence \<and>
         t_lease_token_hash t = Some (f_lease_token_hash fence) \<and>
         (case t_lease_expires_at t of None \<Rightarrow> False | Some e \<Rightarrow> e > database_now) \<and>
         list_ex (\<lambda>a. a_id a = f_attempt_id fence \<and> a_task_id a = t_id t \<and>
           a_attempt_number a = f_attempt_number fence \<and>
           a_lease_token_hash a = f_lease_token_hash fence \<and> a_status a = ATTEMPT_RUNNING)
           (task_attempts d)) (tasks d))
       (ExecutionInvariantError ''active task execution fence was not confirmed'')"

definition lock_action :: "uuid \<Rightarrow> db \<Rightarrow> external_action result" where
  "lock_action action_id d = expectR no_result_found (find_action d action_id)"

definition action_status_column :: "external_action \<Rightarrow> action_status result" where
  "action_status_column x = expectR (ValueError ''not a valid ExternalActionStatus'') (action_status_of (x_status x))"

definition action_evidence ::
  "ledger_env \<Rightarrow> external_action \<Rightarrow> execution_fence \<Rightarrow> nat \<Rightarrow> string \<Rightarrow> action_status option \<Rightarrow>
   action_status \<Rightarrow> string option \<Rightarrow> external_action_attempt" where
  "action_evidence env x fence sequence_number transition previous_status new_status error_code =
     \<lparr>e_id = le_evidence_id env, e_external_action_id = x_id x, e_task_id = f_task_id fence,
      e_task_attempt_id = f_attempt_id fence, e_sequence_number = sequence_number,
      e_transition = transition, e_previous_status = map_option action_status_value previous_status,
      e_new_status = action_status_value new_status, e_revision = x_revision x,
      e_error_code = error_code, e_created_at = le_transaction_start env\<rparr>"

definition insert_evidence :: "external_action_attempt \<Rightarrow> db \<Rightarrow> db result" where
  "insert_evidence e d =
     bindR (guardR (action_attempt_checks e \<and>
         (e_external_action_id e, e_sequence_number e) \<notin>
           (\<lambda>r. (e_external_action_id r, e_sequence_number r)) ` set (external_action_attempts d))
       integrity_error)
     (\<lambda>_. Inr (d\<lparr>external_action_attempts := external_action_attempts d @ [e]\<rparr>))"

definition update_actions ::
  "(external_action \<Rightarrow> bool) \<Rightarrow> (external_action \<Rightarrow> external_action) \<Rightarrow> string \<Rightarrow> db \<Rightarrow> db result" where
  "update_actions P f operation d =
     bindR (guardR (\<forall>x \<in> set (external_actions d). \<not> P x \<or> action_checks (f x)) integrity_error) (\<lambda>_.
     bindR (require_one_row (rowcount P (external_actions d)) operation) (\<lambda>_.
       Inr (d\<lparr>external_actions := update_where P f (external_actions d)\<rparr>)))"

definition all_metric_providers :: "metric_provider list" where
  "all_metric_providers = [P_SERVICE_CATALOG, P_JIRA, P_GITHUB, P_SLACK]"

definition action_metric_provider :: "external_action \<Rightarrow> metric_provider result" where
  "action_metric_provider x =
     expectR (ValueError ''not a valid MetricProvider'')
       (find (\<lambda>p. metric_provider_value p = x_provider x) all_metric_providers)"

definition action_metric_operation :: "external_action \<Rightarrow> metric_operation result" where
  "action_metric_operation x =
     (if x_operation x = action_operation_value UPSERT_DEPLOYMENT_CONTEXT_COMMENT then Inr OP_GITHUB_COMMENT
      else if x_operation x = action_operation_value POST_DEPLOYMENT_CONTEXT_NOTIFICATION then Inr OP_SLACK_NOTIFICATION
      else Inl (KeyError (x_operation x)))"

fun metric_outcome_of :: "action_status \<Rightarrow> metric_outcome" where
  "metric_outcome_of ACTION_SUCCEEDED = O_SUCCESS"
| "metric_outcome_of RETRYABLE_FAILURE = O_RETRYABLE_FAILURE"
| "metric_outcome_of PERMANENT_FAILURE = O_PERMANENT_FAILURE"
| "metric_outcome_of OUTCOME_UNKNOWN = O_OUTCOME_UNKNOWN"
| "metric_outcome_of _ = O_SUCCESS"

text \<open>One \<open>increment\<close>: the labels are checked by the sink.\<close>

definition increment :: "metric_name \<Rightarrow> metric_labels \<Rightarrow> metric_event result" where
  "increment name labels = bindR (safe_labels name labels) (\<lambda>_. Inr (name, labels))"

section \<open>Source artifacts\<close>

primrec retention_days :: "data_classification \<Rightarrow> int" where
  "retention_days PUBLIC = 90"
| "retention_days INTERNAL = 30"
| "retention_days CONFIDENTIAL = 7"
| "retention_days RESTRICTED = 1"

definition day_micros :: int where
  "day_micros = 86400000000"

definition insert_artifact :: "source_artifact \<Rightarrow> db \<Rightarrow> (uuid option \<times> db) result" where
  "insert_artifact s d =
     bindR (guardR (artifact_checks s) integrity_error) (\<lambda>_.
       if artifact_key s \<in> artifact_key ` set (source_artifacts d) then Inr (None, d)
       else Inr (Some (s_id s), d\<lparr>source_artifacts := source_artifacts d @ [s]\<rparr>))"

text \<open>The insert with \<open>on_conflict_do_nothing\<close>, the lookup of the existing row, and the read back.\<close>

definition store_artifact :: "source_artifact \<Rightarrow> source_artifact ledger_tx" where
  "store_artifact s d =
     bindR (insert_artifact s d) (\<lambda>(artifact_id, d').
     bindR (case artifact_id of
              Some i \<Rightarrow> Inr i
            | None \<Rightarrow> bindR (expectR no_result_found
                (find (\<lambda>r. artifact_key r = artifact_key s) (source_artifacts d'))) (\<lambda>r. Inr (s_id r))) (\<lambda>i.
     bindR (expectR no_result_found (find (\<lambda>r. s_id r = i) (source_artifacts d'))) (\<lambda>artifact.
       Inr (artifact, [], d'))))"

record observation =
  ob_provider :: string
  ob_resource_type :: string
  ob_provider_resource_identifier :: string
  ob_source_url :: string
  ob_source_version :: string
  ob_data_classification :: data_classification
  ob_redaction_applied :: bool
  ob_normalized_payload :: jobj
  ob_fetched_at :: time

definition artifact_row ::
  "ledger_env \<Rightarrow> execution_fence \<Rightarrow> observation \<Rightarrow> string \<Rightarrow> string \<Rightarrow> nat \<Rightarrow> source_artifact" where
  "artifact_row env fence ob url content_hash byte_count =
     \<lparr>s_id = le_row_id env, s_task_id = f_task_id fence, s_observed_by_attempt_id = f_attempt_id fence,
      s_provider = ob_provider ob, s_resource_type = ob_resource_type ob,
      s_provider_resource_identifier = ob_provider_resource_identifier ob,
      s_canonical_source_url = url, s_source_version = ob_source_version ob, s_schema_version = 1,
      s_data_classification = data_classification_value (ob_data_classification ob),
      s_redaction_applied = ob_redaction_applied ob,
      s_retention_until =
        max (le_now env) (ob_fetched_at ob) + retention_days (ob_data_classification ob) * day_micros,
      s_normalized_payload = ob_normalized_payload ob, s_content_hash = content_hash,
      s_payload_size_bytes = byte_count, s_fetched_at = ob_fetched_at ob, s_created_at = le_transaction_start env\<rparr>"

definition record_artifact ::
  "nat \<Rightarrow> execution_fence \<Rightarrow> observation \<Rightarrow> ledger_env \<Rightarrow> source_artifact ledger_tx" where
  "record_artifact maximum_bytes fence ob env d =
     bindR (canonical_json (JObj (ob_normalized_payload ob))) (\<lambda>serialized.
     bindR (guardR (serialized \<noteq> [] \<and> length serialized \<le> maximum_bytes)
              (ValueError ''source artifact exceeds its configured size limit'')) (\<lambda>_.
     bindR (sha256_json (JObj (ob_normalized_payload ob))) (\<lambda>content_hash.
     bindR (assert_active_fence fence (le_now env) d) (\<lambda>_.
     bindR (canonical_source_url (ob_source_url ob)) (\<lambda>url.
       store_artifact (artifact_row env fence ob url content_hash (length serialized)) d)))))"

definition source_reference :: "source_artifact \<Rightarrow> source_ref result" where
  "source_reference s = make_source_ref
     \<lparr>sr_artifact_id = s_id s, sr_provider = s_provider s, sr_resource_type = s_resource_type s,
      sr_provider_resource_identifier = s_provider_resource_identifier s,
      sr_source_version = s_source_version s, sr_content_hash = s_content_hash s\<rparr>"

section \<open>External actions\<close>

definition append_same_status ::
  "ledger_env \<Rightarrow> external_action \<Rightarrow> execution_fence \<Rightarrow> string \<Rightarrow> db \<Rightarrow> db result" where
  "append_same_status env x fence transition d =
     (let sequence = x_action_attempt_count x + 1 in
      bindR (update_actions (\<lambda>r. x_id r = x_id x \<and> x_action_attempt_count r = x_action_attempt_count x)
               (\<lambda>r. r\<lparr>x_task_id := f_task_id fence, x_current_attempt_id := f_attempt_id fence,
                      x_action_attempt_count := sequence, x_last_attempt_at := le_now env,
                      x_updated_at := le_now env\<rparr>)
               ''external action replay'' d) (\<lambda>d1.
      bindR (action_status_column x) (\<lambda>s.
        insert_evidence (action_evidence env x fence sequence transition (Some s) s None) d1)))"

definition reserved_row ::
  "ledger_env \<Rightarrow> execution_fence \<Rightarrow> action_provider \<Rightarrow> action_operation \<Rightarrow> string \<Rightarrow> string \<Rightarrow> string \<Rightarrow>
   external_action" where
  "reserved_row env fence provider operation action_scope_key desired_request_fingerprint decision_snapshot_hash =
     \<lparr>x_id = le_row_id env, x_task_id = f_task_id fence, x_current_attempt_id = f_attempt_id fence,
      x_provider = action_provider_value provider, x_operation = action_operation_value operation,
      x_action_scope_key = action_scope_key, x_desired_request_fingerprint = desired_request_fingerprint,
      x_applied_request_fingerprint = None, x_decision_snapshot_hash = decision_snapshot_hash,
      x_revision = 1, x_status = action_status_value RESERVED, x_provider_resource_identifier = None,
      x_provider_url = None, x_response_fingerprint = None, x_action_attempt_count = 1,
      x_last_error_code = None, x_last_error_summary = None, x_reserved_at = le_now env,
      x_last_attempt_at = le_now env, x_write_started_at = None, x_reconcile_not_before = None,
      x_completed_at = None, x_created_at = le_now env, x_updated_at = le_now env\<rparr>"

definition reserve_or_get ::
  "execution_fence \<Rightarrow> action_provider \<Rightarrow> action_operation \<Rightarrow> string \<Rightarrow> string \<Rightarrow> string \<Rightarrow> ledger_env \<Rightarrow>
   reservation ledger_tx" where
  "reserve_or_get fence provider operation action_scope_key desired_request_fingerprint decision_snapshot_hash env d =
     bindR (guardR ((provider, operation) \<in> supported_external_actions)
              (ValueError ''unsupported external-action provider and operation'')) (\<lambda>_.
     bindR (assert_active_fence fence (le_now env) d) (\<lambda>_.
     let row = reserved_row env fence provider operation action_scope_key desired_request_fingerprint
                 decision_snapshot_hash in
     bindR (guardR (action_checks row) integrity_error) (\<lambda>_.
     case find (\<lambda>x. x_action_scope_key x = action_scope_key) (external_actions d) of
       None \<Rightarrow>
         let d1 = d\<lparr>external_actions := external_actions d @ [row]\<rparr> in
         bindR (lock_action (x_id row) d1) (\<lambda>x.
         bindR (insert_evidence (action_evidence env x fence 1 ''reserved'' None RESERVED None) d1) (\<lambda>d2.
           Inr (\<lparr>rv_action = x, rv_kind = RESERVATION_CREATED\<rparr>, [], d2)))
     | Some x \<Rightarrow>
         bindR (guardR (x_provider x = action_provider_value provider \<and> x_operation x = action_operation_value operation)
                  (ExecutionInvariantError ''external action scope belongs to another provider operation'')) (\<lambda>_.
         let kind = (if x_desired_request_fingerprint x = desired_request_fingerprint
                     then if x_decision_snapshot_hash x = decision_snapshot_hash then RESERVATION_REPLAY
                          else RESERVATION_SOURCE_DRIFT
                     else RESERVATION_CHANGED) in
         bindR (append_same_status env x fence (''reservation_'' @ reservation_kind_value kind) d) (\<lambda>d1.
         bindR (lock_action (x_id x) d1) (\<lambda>x'.
         bindR (if kind = RESERVATION_REPLAY
                then bindR (action_metric_provider x') (\<lambda>p. bindR (action_metric_operation x') (\<lambda>m.
                     bindR (increment DUPLICATE_ACTION_PREVENTION_COUNT [(L_PROVIDER, V_PROVIDER p), (L_OPERATION, V_OPERATION m)])
                       (\<lambda>ev. Inr [ev])))
                else Inr []) (\<lambda>events.
           Inr (\<lparr>rv_action = x', rv_kind = kind\<rparr>, events, d1))))))))"

text \<open>The columns a caller may pass in the \<open>values\<close> dictionary of a transition.\<close>

datatype column_value =
    Set_Provider_Resource_Identifier "string option"
  | Set_Provider_Url "string option"
  | Set_Applied_Request_Fingerprint "string option"
  | Set_Response_Fingerprint "string option"
  | Set_Write_Started_At "time option"
  | Set_Reconcile_Not_Before "time option"
  | Set_Completed_At "time option"

primrec set_column :: "column_value \<Rightarrow> external_action \<Rightarrow> external_action" where
  "set_column (Set_Provider_Resource_Identifier v) x = x\<lparr>x_provider_resource_identifier := v\<rparr>"
| "set_column (Set_Provider_Url v) x = x\<lparr>x_provider_url := v\<rparr>"
| "set_column (Set_Applied_Request_Fingerprint v) x = x\<lparr>x_applied_request_fingerprint := v\<rparr>"
| "set_column (Set_Response_Fingerprint v) x = x\<lparr>x_response_fingerprint := v\<rparr>"
| "set_column (Set_Write_Started_At v) x = x\<lparr>x_write_started_at := v\<rparr>"
| "set_column (Set_Reconcile_Not_Before v) x = x\<lparr>x_reconcile_not_before := v\<rparr>"
| "set_column (Set_Completed_At v) x = x\<lparr>x_completed_at := v\<rparr>"

record transition_args =
  ta_expected_statuses :: "action_status set"
  ta_new_status :: action_status
  ta_transition :: string
  ta_values :: "column_value list"
  ta_error_code :: "string option"
  ta_settlement_delay :: "pyfloat option"
  ta_not_before_delay :: "pyfloat option"

definition negative_delay :: "pyfloat option \<Rightarrow> bool" where
  "negative_delay v = (case v of None \<Rightarrow> False | Some q \<Rightarrow> pf_less q (FFin 0))"

definition transitioned_row ::
  "ledger_env \<Rightarrow> execution_fence \<Rightarrow> transition_args \<Rightarrow> time option \<Rightarrow> time option \<Rightarrow> nat \<Rightarrow>
   external_action \<Rightarrow> external_action" where
  "transitioned_row env fence ta settlement not_before sequence x =
     (let x1 = x\<lparr>x_status := action_status_value (ta_new_status ta), x_task_id := f_task_id fence,
            x_current_attempt_id := f_attempt_id fence, x_action_attempt_count := sequence,
            x_last_attempt_at := le_now env, x_updated_at := le_now env,
            x_last_error_code := ta_error_code ta,
            x_last_error_summary := (if ta_error_code ta \<noteq> None
              then Some ''External provider action requires attention'' else None)\<rparr>;
          x2 = fold set_column (ta_values ta) x1;
          x3 = (if ta_new_status ta = ACTION_SUCCEEDED then x2\<lparr>x_completed_at := Some (le_now env)\<rparr> else x2);
          x4 = (case settlement of None \<Rightarrow> x3
                | Some s \<Rightarrow> x3\<lparr>x_write_started_at := Some (le_now env), x_reconcile_not_before := Some (le_now env + s)\<rparr>)
      in case not_before of None \<Rightarrow> x4 | Some s \<Rightarrow> x4\<lparr>x_reconcile_not_before := Some (le_now env + s)\<rparr>)"

definition delay_of :: "pyfloat option \<Rightarrow> time option result" where
  "delay_of v = (case v of None \<Rightarrow> Inr None | Some q \<Rightarrow> bindR (timedelta_seconds q) (\<lambda>s. Inr (Some s)))"

definition transition_metrics :: "transition_args \<Rightarrow> external_action \<Rightarrow> metric_event list result" where
  "transition_metrics ta x =
     bindR (action_metric_provider x) (\<lambda>p. bindR (action_metric_operation x) (\<lambda>m.
     bindR (increment EXTERNAL_ACTION_OUTCOME_COUNT
              [(L_PROVIDER, V_PROVIDER p), (L_OPERATION, V_OPERATION m), (L_ACTION_STATUS, V_ACTION_STATUS (ta_new_status ta))]) (\<lambda>ev1.
     if py_in ''reconcil'' (ta_transition ta)
     then bindR (increment RECONCILIATION_COUNT
              [(L_PROVIDER, V_PROVIDER p), (L_OUTCOME, V_OUTCOME (metric_outcome_of (ta_new_status ta)))]) (\<lambda>ev2. Inr [ev1, ev2])
     else Inr [ev1])))"

definition transition :: "execution_fence \<Rightarrow> uuid \<Rightarrow> transition_args \<Rightarrow> ledger_env \<Rightarrow> external_action ledger_tx" where
  "transition fence action_id ta env d =
     bindR (guardR (ta_settlement_delay ta = None \<or> ta_not_before_delay ta = None)
              (ValueError ''a transition cannot set both write settlement and retry delays'')) (\<lambda>_.
     bindR (guardR (\<not> (negative_delay (ta_settlement_delay ta) \<or> negative_delay (ta_not_before_delay ta)))
              (ValueError ''external action delays must not be negative'')) (\<lambda>_.
     bindR (assert_active_fence fence (le_now env) d) (\<lambda>_.
     bindR (lock_action action_id d) (\<lambda>x.
     bindR (action_status_column x) (\<lambda>previous.
     bindR (guardR (previous \<in> ta_expected_statuses ta)
              (ExecutionInvariantError ''external action state changed unexpectedly'')) (\<lambda>_.
     let sequence = x_action_attempt_count x + 1 in
     bindR (delay_of (ta_settlement_delay ta)) (\<lambda>settlement.
     bindR (delay_of (ta_not_before_delay ta)) (\<lambda>not_before.
     bindR (update_actions
              (\<lambda>r. x_id r = x_id x \<and> x_status r = action_status_value previous \<and>
                   x_action_attempt_count r = x_action_attempt_count x)
              (transitioned_row env fence ta settlement not_before sequence)
              ''external action transition'' d) (\<lambda>d1.
     bindR (insert_evidence (action_evidence env x fence sequence (ta_transition ta) (Some previous)
              (ta_new_status ta) (ta_error_code ta)) d1) (\<lambda>d2.
     bindR (lock_action (x_id x) d2) (\<lambda>updated.
     bindR (transition_metrics ta updated) (\<lambda>events. Inr (updated, events, d2)))))))))))))"

definition revise ::
  "execution_fence \<Rightarrow> uuid \<Rightarrow> nat \<Rightarrow> string \<Rightarrow> string \<Rightarrow> ledger_env \<Rightarrow> external_action ledger_tx" where
  "revise fence action_id expected_revision desired_request_fingerprint decision_snapshot_hash env d =
     bindR (assert_active_fence fence (le_now env) d) (\<lambda>_.
     bindR (lock_action action_id d) (\<lambda>x.
     bindR (action_status_column x) (\<lambda>status.
     bindR (guardR (status = ACTION_SUCCEEDED \<and> x_revision x = expected_revision \<and>
                    x_provider_resource_identifier x \<noteq> None)
              (ExecutionInvariantError ''external action cannot be revised'')) (\<lambda>_.
     let sequence = x_action_attempt_count x + 1 in
     bindR (update_actions
              (\<lambda>r. x_id r = x_id x \<and> x_revision r = expected_revision \<and>
                   x_status r = action_status_value ACTION_SUCCEEDED)
              (\<lambda>r. r\<lparr>x_task_id := f_task_id fence, x_current_attempt_id := f_attempt_id fence,
                     x_desired_request_fingerprint := desired_request_fingerprint,
                     x_decision_snapshot_hash := decision_snapshot_hash,
                     x_revision := expected_revision + 1, x_status := action_status_value RESERVED,
                     x_completed_at := None, x_action_attempt_count := sequence,
                     x_last_attempt_at := le_now env, x_updated_at := le_now env\<rparr>)
              ''external action revision'' d) (\<lambda>d1.
     bindR (insert_evidence (action_evidence env (x\<lparr>x_revision := expected_revision + 1\<rparr>) fence sequence
              ''revision_reserved'' (Some ACTION_SUCCEEDED) RESERVED None) d1) (\<lambda>d2.
     bindR (lock_action (x_id x) d2) (\<lambda>updated. Inr (updated, [], d2))))))))"

definition get_action :: "uuid \<Rightarrow> db \<Rightarrow> external_action result" where
  "get_action action_id d = expectR no_result_found (find_action d action_id)"

definition reconciliation_delay_seconds :: "uuid \<Rightarrow> time \<Rightarrow> db \<Rightarrow> seconds" where
  "reconciliation_delay_seconds action_id clock_timestamp d =
     (case find_action d action_id of
        None \<Rightarrow> 0
      | Some x \<Rightarrow> (case x_reconcile_not_before x of
          None \<Rightarrow> 0
        | Some v \<Rightarrow> max 0 (of_int (v - clock_timestamp) / 1000000)))"

end
