(* ===== verification/Ledger_Protocol.thy ===== *)
theory Ledger_Protocol
  imports Action_Ledger Step_System
begin

text \<open>
  The abstract specification of the evidence store: its invariant, the order that says what
  history may not be rewritten, and a protocol of three steps (store an artifact, reserve an
  action, advance an action with one evidence row). The second half shows that every repository
  operation either raises or is one protocol step.
\<close>

section \<open>The invariant\<close>

definition evidence_of :: "db \<Rightarrow> uuid \<Rightarrow> external_action_attempt list" where
  "evidence_of d i = filter (\<lambda>e. e_external_action_id e = i) (external_action_attempts d)"

text \<open>The evidence rows lead from one status to another, each starting where the last one ended.\<close>

fun follows :: "string option \<Rightarrow> external_action_attempt list \<Rightarrow> string option \<Rightarrow> bool" where
  "follows s [] t = (s = t)"
| "follows s (e # es) t = (e_previous_status e = s \<and> follows (Some (e_new_status e)) es t)"

definition chain_ok :: "db \<Rightarrow> external_action \<Rightarrow> bool" where
  "chain_ok d x \<longleftrightarrow> (let es = evidence_of d (x_id x) in
     map e_sequence_number es = [1..<Suc (x_action_attempt_count x)] \<and>
     follows None es (Some (x_status x)) \<and>
     sorted (map e_revision es) \<and> es \<noteq> [] \<and> e_revision (last es) = x_revision x)"

definition known_operation :: "external_action \<Rightarrow> bool" where
  "known_operation x \<longleftrightarrow> (x_provider x, x_operation x) \<in>
     (\<lambda>(p, m). (action_provider_value p, action_operation_value m)) ` supported_external_actions"

definition ledger_inv :: "db \<Rightarrow> bool" where
  "ledger_inv d \<longleftrightarrow> action_tables_ok d \<and> (\<forall>x \<in> set (external_actions d). chain_ok d x \<and> known_operation x)"

text \<open>The columns of an action that never change, and the counters that only grow.\<close>

definition action_le :: "external_action \<Rightarrow> external_action \<Rightarrow> bool" where
  "action_le x x' \<longleftrightarrow> x_id x' = x_id x \<and> x_action_scope_key x' = x_action_scope_key x \<and>
     x_provider x' = x_provider x \<and> x_operation x' = x_operation x \<and>
     x_reserved_at x' = x_reserved_at x \<and> x_created_at x' = x_created_at x \<and>
     x_revision x \<le> x_revision x' \<and> (x' = x \<or> x_action_attempt_count x < x_action_attempt_count x')"

definition ledger_le :: "db \<Rightarrow> db \<Rightarrow> bool" where
  "ledger_le d d' \<longleftrightarrow>
     (\<exists>ss. source_artifacts d' = source_artifacts d @ ss) \<and>
     (\<exists>es. external_action_attempts d' = external_action_attempts d @ es) \<and>
     (\<forall>x \<in> set (external_actions d). \<exists>x' \<in> set (external_actions d'). action_le x x')"

lemma action_le_refl [simp]: "action_le x x"
  by (simp add: action_le_def)

lemma action_le_trans: "action_le x y \<Longrightarrow> action_le y z \<Longrightarrow> action_le x z"
  by (auto simp: action_le_def)

lemma ledger_le_refl: "ledger_le d d"
  unfolding ledger_le_def using action_le_refl by blast

lemma ledger_le_trans:
  assumes "ledger_le d e" "ledger_le e f"
  shows "ledger_le d f"
proof -
  have "\<exists>z \<in> set (external_actions f). action_le x z" if "x \<in> set (external_actions d)" for x
    using assms that unfolding ledger_le_def by (meson action_le_trans)
  moreover have "\<exists>ss. source_artifacts f = source_artifacts d @ ss" "\<exists>es. external_action_attempts f = external_action_attempts d @ es"
    using assms unfolding ledger_le_def by auto
  ultimately show ?thesis by (simp add: ledger_le_def)
qed

lemma follows_snoc: "follows s (es @ [e]) t \<longleftrightarrow> follows s es (e_previous_status e) \<and> t = Some (e_new_status e)"
  by (induction s es t rule: follows.induct) auto

section \<open>The protocol\<close>

definition put_action :: "external_action \<Rightarrow> db \<Rightarrow> db" where
  "put_action x d = d\<lparr>external_actions := update_where (\<lambda>r. x_id r = x_id x) (\<lambda>_. x) (external_actions d)\<rparr>"

definition add_evidence :: "external_action_attempt \<Rightarrow> db \<Rightarrow> db" where
  "add_evidence e d = d\<lparr>external_action_attempts := external_action_attempts d @ [e]\<rparr>"

definition add_action :: "external_action \<Rightarrow> db \<Rightarrow> db" where
  "add_action x d = d\<lparr>external_actions := external_actions d @ [x]\<rparr>"

definition add_artifact :: "source_artifact \<Rightarrow> db \<Rightarrow> db" where
  "add_artifact s d = d\<lparr>source_artifacts := source_artifacts d @ [s]\<rparr>"

definition holders_exist :: "db \<Rightarrow> uuid \<Rightarrow> uuid \<Rightarrow> bool" where
  "holders_exist d task_id attempt_id \<longleftrightarrow> task_id \<in> t_id ` set (tasks d) \<and> attempt_id \<in> a_id ` set (task_attempts d)"

text \<open>The evidence row of an action that is at a status after a number of transitions.\<close>

definition evidences :: "db \<Rightarrow> external_action_attempt \<Rightarrow> external_action \<Rightarrow> string option \<Rightarrow> bool" where
  "evidences d e x' previous \<longleftrightarrow> e_external_action_id e = x_id x' \<and>
     e_sequence_number e = x_action_attempt_count x' \<and> e_previous_status e = previous \<and>
     e_new_status e = x_status x' \<and> e_revision e = x_revision x' \<and>
     action_attempt_checks e \<and> e_id e \<notin> e_id ` set (external_action_attempts d) \<and>
     holders_exist d (e_task_id e) (e_task_attempt_id e)"

inductive ledger_step :: "db \<Rightarrow> db \<Rightarrow> bool" where
  artifact: "\<lbrakk>artifact_checks s; s_id s \<notin> s_id ` set (source_artifacts d);
     artifact_key s \<notin> artifact_key ` set (source_artifacts d);
     holders_exist d (s_task_id s) (s_observed_by_attempt_id s)\<rbrakk> \<Longrightarrow> ledger_step d (add_artifact s d)"
| reserve: "\<lbrakk>action_checks x; known_operation x; x_id x \<notin> x_id ` set (external_actions d);
     x_action_scope_key x \<notin> x_action_scope_key ` set (external_actions d);
     holders_exist d (x_task_id x) (x_current_attempt_id x);
     x_action_attempt_count x = 1; evidences d e x None\<rbrakk> \<Longrightarrow>
   ledger_step d (add_evidence e (add_action x d))"
| advance: "\<lbrakk>x \<in> set (external_actions d); action_le x x'; action_checks x';
     holders_exist d (x_task_id x') (x_current_attempt_id x');
     x_action_attempt_count x' = x_action_attempt_count x + 1; evidences d e x' (Some (x_status x))\<rbrakk> \<Longrightarrow>
   ledger_step d (add_evidence e (put_action x' d))"

lemma ledger_ops_simps [simp]:
  "tasks (put_action x d) = tasks d" "task_attempts (put_action x d) = task_attempts d"
  "tasks (add_evidence e d) = tasks d" "task_attempts (add_evidence e d) = task_attempts d"
  "tasks (add_action x d) = tasks d" "task_attempts (add_action x d) = task_attempts d"
  "tasks (add_artifact s d) = tasks d" "task_attempts (add_artifact s d) = task_attempts d"
  "source_artifacts (put_action x d) = source_artifacts d" "source_artifacts (add_evidence e d) = source_artifacts d"
  "source_artifacts (add_action x d) = source_artifacts d"
  "source_artifacts (add_artifact s d) = source_artifacts d @ [s]"
  "external_actions (add_evidence e d) = external_actions d" "external_actions (add_artifact s d) = external_actions d"
  "external_actions (add_action x d) = external_actions d @ [x]"
  "external_action_attempts (put_action x d) = external_action_attempts d"
  "external_action_attempts (add_action x d) = external_action_attempts d"
  "external_action_attempts (add_artifact s d) = external_action_attempts d"
  "external_action_attempts (add_evidence e d) = external_action_attempts d @ [e]"
  "holders_exist (put_action x d) = holders_exist d" "holders_exist (add_action x d) = holders_exist d"
  by (simp_all add: put_action_def add_evidence_def add_action_def add_artifact_def holders_exist_def fun_eq_iff)

lemma evidence_of_simps [simp]:
  "evidence_of (put_action x d) i = evidence_of d i"
  "evidence_of (add_action x d) i = evidence_of d i"
  "evidence_of (add_artifact s d) i = evidence_of d i"
  "evidence_of (add_evidence e d) i = evidence_of d i @ (if e_external_action_id e = i then [e] else [])"
  by (simp_all add: evidence_of_def)

lemma put_action_keys [simp]:
  "map x_id (external_actions (put_action x d)) = map x_id (external_actions d)"
  "x_id ` set (external_actions (put_action x d)) = x_id ` set (external_actions d)"
  unfolding put_action_def by (simp_all add: map_put) (rule image_update_where, simp)

lemma put_action_set:
  assumes "x \<in> set (external_actions d)" and "x_id x' = x_id x"
  shows "r \<in> set (external_actions (put_action x' d)) \<longleftrightarrow>
     r = x' \<or> (r \<in> set (external_actions d) \<and> x_id r \<noteq> x_id x)"
  using set_put [where key = x_id, of x "external_actions d" x'] assms by (simp add: put_action_def)

lemma action_tables_okD:
  assumes "action_tables_ok d"
  shows "distinct (map s_id (source_artifacts d))" "distinct (map artifact_key (source_artifacts d))"
    "distinct (map x_id (external_actions d))" "distinct (map x_action_scope_key (external_actions d))"
    "x \<in> set (external_actions d) \<Longrightarrow> action_checks x"
    "x \<in> set (external_actions d) \<Longrightarrow> holders_exist d (x_task_id x) (x_current_attempt_id x)"
    "distinct (map e_id (external_action_attempts d))"
    "distinct (map (\<lambda>e. (e_external_action_id e, e_sequence_number e)) (external_action_attempts d))"
  using assms by (auto simp: action_tables_ok_def holders_exist_def)

lemma action_tables_ok_iff:
  "action_tables_ok d \<longleftrightarrow>
     distinct (map s_id (source_artifacts d)) \<and> distinct (map artifact_key (source_artifacts d)) \<and>
     (\<forall>s \<in> set (source_artifacts d). artifact_checks s \<and> holders_exist d (s_task_id s) (s_observed_by_attempt_id s)) \<and>
     distinct (map x_id (external_actions d)) \<and> distinct (map x_action_scope_key (external_actions d)) \<and>
     (\<forall>x \<in> set (external_actions d). action_checks x \<and> holders_exist d (x_task_id x) (x_current_attempt_id x)) \<and>
     distinct (map e_id (external_action_attempts d)) \<and>
     distinct (map (\<lambda>e. (e_external_action_id e, e_sequence_number e)) (external_action_attempts d)) \<and>
     (\<forall>e \<in> set (external_action_attempts d). action_attempt_checks e \<and>
        e_external_action_id e \<in> x_id ` set (external_actions d) \<and> holders_exist d (e_task_id e) (e_task_attempt_id e))"
  unfolding action_tables_ok_def holders_exist_def by blast

lemma ledger_invD:
  assumes "ledger_inv d"
  shows "action_tables_ok d" "x \<in> set (external_actions d) \<Longrightarrow> chain_ok d x"
    "x \<in> set (external_actions d) \<Longrightarrow> known_operation x"
  using assms by (auto simp: ledger_inv_def)

lemma action_unique:
  "ledger_inv d \<Longrightarrow> x \<in> set (external_actions d) \<Longrightarrow> y \<in> set (external_actions d) \<Longrightarrow> x_id x = x_id y \<Longrightarrow> x = y"
  using distinct_key_unique [OF action_tables_okD(3) [OF ledger_invD(1)]] by blast

lemma chain_sequences:
  "chain_ok d x \<Longrightarrow> set (map e_sequence_number (evidence_of d (x_id x))) = {1..<Suc (x_action_attempt_count x)}"
  unfolding chain_ok_def Let_def by (metis set_upt)

text \<open>The next sequence number of an action is free.\<close>

lemma next_sequence_free:
  assumes "ledger_inv d" "x \<in> set (external_actions d)"
  shows "(x_id x, Suc (x_action_attempt_count x)) \<notin>
     (\<lambda>e. (e_external_action_id e, e_sequence_number e)) ` set (external_action_attempts d)"
proof
  assume "(x_id x, Suc (x_action_attempt_count x)) \<in>
     (\<lambda>e. (e_external_action_id e, e_sequence_number e)) ` set (external_action_attempts d)"
  then obtain e where "e \<in> set (evidence_of d (x_id x))" "e_sequence_number e = Suc (x_action_attempt_count x)"
    by (auto simp: evidence_of_def)
  then have "Suc (x_action_attempt_count x) \<in> set (map e_sequence_number (evidence_of d (x_id x)))" by force
  then show False unfolding chain_sequences [OF ledger_invD(2) [OF assms]] by simp
qed

lemma no_evidence_before:
  assumes "ledger_inv d" "i \<notin> x_id ` set (external_actions d)"
  shows "evidence_of d i = []" "(i, n) \<notin> (\<lambda>e. (e_external_action_id e, e_sequence_number e)) ` set (external_action_attempts d)"
  using ledger_invD(1) [OF assms(1)] assms(2) by (auto simp: action_tables_ok_iff evidence_of_def filter_empty_conv)

text \<open>What each table update asks for to keep the constraints.\<close>

lemma add_evidence_ok:
  assumes "action_tables_ok d" "action_attempt_checks e" "e_id e \<notin> e_id ` set (external_action_attempts d)"
    "(e_external_action_id e, e_sequence_number e) \<notin>
       (\<lambda>e. (e_external_action_id e, e_sequence_number e)) ` set (external_action_attempts d)"
    "e_external_action_id e \<in> x_id ` set (external_actions d)" "holders_exist d (e_task_id e) (e_task_attempt_id e)"
  shows "action_tables_ok (add_evidence e d)"
  using assms by (simp add: action_tables_ok_iff holders_exist_def)

lemma add_action_ok:
  assumes "action_tables_ok d" "action_checks x" "x_id x \<notin> x_id ` set (external_actions d)"
    "x_action_scope_key x \<notin> x_action_scope_key ` set (external_actions d)"
    "holders_exist d (x_task_id x) (x_current_attempt_id x)"
  shows "action_tables_ok (add_action x d)"
  using assms by (simp add: action_tables_ok_iff holders_exist_def)

lemma put_action_ok:
  assumes inv: "ledger_inv d" and x: "x \<in> set (external_actions d)" and le: "action_le x x'"
    and chk: "action_checks x'" and hold: "holders_exist d (x_task_id x') (x_current_attempt_id x')"
  shows "action_tables_ok (put_action x' d)"
proof -
  have id: "x_id x' = x_id x" and scope: "x_action_scope_key x' = x_action_scope_key x"
    using le by (auto simp: action_le_def)
  have scopes: "map x_action_scope_key (external_actions (put_action x' d)) = map x_action_scope_key (external_actions d)"
    using action_unique [OF inv _ x] id scope by (auto simp: put_action_def update_where_def)
  have "\<forall>y \<in> set (external_actions (put_action x' d)). action_checks y \<and> holders_exist d (x_task_id y) (x_current_attempt_id y)"
    using chk hold action_tables_okD(5,6) [OF ledger_invD(1) [OF inv]] by (auto simp: put_action_set [OF x id])
  then show ?thesis
    using ledger_invD(1) [OF inv] unfolding action_tables_ok_iff scopes put_action_keys ledger_ops_simps by blast
qed

lemma sorted_le_last: "sorted (ys :: nat list) \<Longrightarrow> y \<in> set ys \<Longrightarrow> y \<le> last ys"
  by (induction ys) (auto split: if_splits)

lemma chain_ok_advance:
  assumes "chain_ok d x" and "x_id x' = x_id x" "x_revision x \<le> x_revision x'"
    and "x_action_attempt_count x' = x_action_attempt_count x + 1" and "evidences d e x' (Some (x_status x))"
  shows "chain_ok (add_evidence e (put_action x' d)) x'"
proof -
  have "e_revision r \<le> x_revision x'" if "r \<in> set (evidence_of d (x_id x))" for r
  proof -
    have "e_revision r \<le> last (map e_revision (evidence_of d (x_id x)))"
      using assms(1) that by (intro sorted_le_last) (simp_all add: chain_ok_def Let_def)
    then show ?thesis using assms(1,3) by (simp add: chain_ok_def Let_def last_map)
  qed
  then show ?thesis
    using assms by (simp add: chain_ok_def Let_def evidences_def follows_snoc sorted_append)
qed

lemma ledger_step_inv:
  assumes "ledger_step d d'" and inv: "ledger_inv d"
  shows "ledger_inv d'"
  using assms(1)
proof cases
  case (artifact s)
  have "action_tables_ok d'"
    using ledger_invD(1) [OF inv] artifact unfolding action_tables_ok_iff by (simp add: holders_exist_def)
  moreover have "chain_ok d' x \<longleftrightarrow> chain_ok d x" for x by (simp add: chain_ok_def artifact(1))
  ultimately show ?thesis using inv artifact(1) by (simp add: ledger_inv_def)
next
  case (reserve x e)
  note e = reserve(8) [unfolded evidences_def]
  have none: "evidence_of d (x_id x) = []" by (rule no_evidence_before(1) [OF inv reserve(4)])
  have "action_tables_ok d'"
    unfolding reserve(1)
    by (rule add_evidence_ok [OF add_action_ok [OF ledger_invD(1) [OF inv] reserve(2,4,5,6)]])
      (use e no_evidence_before(2) [OF inv reserve(4)] in simp_all)
  moreover have "chain_ok d' x"
    using e reserve(7) none by (simp add: chain_ok_def reserve(1))
  moreover have "chain_ok d' y" if "y \<in> set (external_actions d)" for y
  proof -
    have "x_id y \<noteq> x_id x" using that reserve(4) by (metis imageI)
    then show ?thesis using ledger_invD(2) [OF inv that] e by (simp add: chain_ok_def reserve(1))
  qed
  ultimately show ?thesis using inv reserve(1,3) by (simp add: ledger_inv_def)
next
  case (advance x x' e)
  note e = advance(7) [unfolded evidences_def]
  have id: "x_id x' = x_id x" and rev: "x_revision x \<le> x_revision x'"
    and op: "x_provider x' = x_provider x" "x_operation x' = x_operation x"
    using advance(3) by (auto simp: action_le_def)
  have "action_tables_ok d'"
    unfolding advance(1)
    by (rule add_evidence_ok [OF put_action_ok [OF inv advance(2,3,4,5)]])
      (use e next_sequence_free [OF inv advance(2)] id advance(2,6) in simp_all)
  moreover have "chain_ok d' x'"
    unfolding advance(1) by (rule chain_ok_advance [OF ledger_invD(2) [OF inv advance(2)] id rev advance(6,7)])
  moreover have "chain_ok d' y" if "y \<in> set (external_actions d)" "x_id y \<noteq> x_id x" for y
    using ledger_invD(2) [OF inv that(1)] e that(2) id by (simp add: chain_ok_def advance(1))
  moreover have "known_operation x'" using ledger_invD(3) [OF inv advance(2)] op by (simp add: known_operation_def)
  ultimately show ?thesis
    using ledger_invD(3) [OF inv] unfolding ledger_inv_def advance(1)
    by (auto simp: put_action_set [OF advance(2) id])
qed

lemma ledger_le_actions:
  assumes "\<And>y. y \<in> set (external_actions d) \<Longrightarrow> \<exists>y' \<in> set (external_actions d'). action_le y y'"
    and "source_artifacts d' = source_artifacts d @ ss" "external_action_attempts d' = external_action_attempts d @ es"
  shows "ledger_le d d'"
  using assms by (auto simp: ledger_le_def)

lemma ledger_step_le:
  assumes "ledger_step d d'" and inv: "ledger_inv d"
  shows "ledger_le d d'"
  using assms(1)
proof cases
  case (artifact s)
  then show ?thesis by (intro ledger_le_actions [of _ _ "[s]" "[]"]) (auto intro: action_le_refl)
next
  case (reserve x e)
  then show ?thesis by (intro ledger_le_actions [of _ _ "[]" "[e]"]) (auto intro: action_le_refl)
next
  case (advance x x' e)
  have id: "x_id x' = x_id x" using advance(3) by (simp add: action_le_def)
  have "\<exists>y' \<in> set (external_actions d'). action_le y y'" if y: "y \<in> set (external_actions d)" for y
  proof (cases "x_id y = x_id x")
    case True
    then have "y = x" using action_unique [OF inv y advance(2)] by blast
    then show ?thesis using advance(1,3) put_action_set [OF advance(2) id, of x'] by auto
  next
    case False
    then have "y \<in> set (external_actions d')" using y advance(1) put_action_set [OF advance(2) id, of y] by simp
    then show ?thesis using action_le_refl by blast
  qed
  then show ?thesis by (rule ledger_le_actions [of _ _ "[]" "[e]"]) (simp_all add: advance(1))
qed

lemma ledger_step_frame: "ledger_step d d' \<Longrightarrow> tasks d' = tasks d \<and> task_attempts d' = task_attempts d"
  by (erule ledger_step.cases) simp_all

end
