(* ===== verification/Ledger_Operations.thy ===== *)
theory Ledger_Operations
  imports Ledger_Protocol
begin

text \<open>
  Every operation of the evidence store is one step of the protocol: normal forms of the helpers
  under the invariant, then one equation or case rule per operation.
\<close>

section \<open>Helpers under the invariant\<close>

definition fence_holds :: "execution_fence \<Rightarrow> time \<Rightarrow> db \<Rightarrow> bool" where
  "fence_holds fence now d \<longleftrightarrow> (\<exists>t \<in> set (tasks d). \<exists>a \<in> set (task_attempts d).
     t_id t = f_task_id fence \<and> t_status t = RUNNING \<and> t_worker_id t = Some (f_worker_id fence) \<and>
     t_attempt_count t = f_attempt_number fence \<and> t_lease_token_hash t = Some (f_lease_token_hash fence) \<and>
     (\<exists>e. t_lease_expires_at t = Some e \<and> e > now) \<and>
     a_id a = f_attempt_id fence \<and> a_task_id a = t_id t \<and> a_attempt_number a = f_attempt_number fence \<and>
     a_lease_token_hash a = f_lease_token_hash fence \<and> a_status a = ATTEMPT_RUNNING)"

definition fence_error :: exn where
  "fence_error = ExecutionInvariantError ''active task execution fence was not confirmed''"

lemma assert_active_fence_eq:
  "assert_active_fence fence now d = guardR (fence_holds fence now d) fence_error"
  unfolding assert_active_fence_def fence_holds_def fence_error_def
  by (rule arg_cong2 [where f = guardR, OF _ refl]) (auto simp: list_ex_iff split: option.splits)

lemma fence_holders: "fence_holds fence now d \<Longrightarrow> holders_exist d (f_task_id fence) (f_attempt_id fence)"
  by (auto simp: fence_holds_def holders_exist_def intro: rev_image_eqI)

lemma lock_action_Inr: "lock_action i d = Inr x \<longleftrightarrow> find_action d i = Some x"
  by (simp add: lock_action_def)

lemma find_action_put:
  "find_action (put_action x d) i = (if i = x_id x \<and> find_action d i \<noteq> None then Some x else find_action d i)"
  by (auto simp: find_action_def put_action_def find_put)

lemma find_action_add_evidence [simp]: "find_action (add_evidence e d) = find_action d"
  by (simp add: find_action_def fun_eq_iff)

lemma find_action_None: "find_action d i = None \<longleftrightarrow> i \<notin> x_id ` set (external_actions d)"
  by (auto simp: find_action_def find_None_iff)

lemma find_snoc: "find P (xs @ [y]) = (case find P xs of Some x \<Rightarrow> Some x | None \<Rightarrow> if P y then Some y else None)"
  by (induction xs) auto

lemma find_action_add:
  "x_id x \<notin> x_id ` set (external_actions d) \<Longrightarrow>
   find_action (add_action x d) i = (if i = x_id x then Some x else find_action d i)"
proof (cases "find_action d i")
  case (Some y)
  assume "x_id x \<notin> x_id ` set (external_actions d)"
  then have "i \<noteq> x_id x" using Some find_action_None [of d i] by (metis option.distinct(1))
  with Some show ?thesis by (simp add: find_action_def find_snoc)
qed (auto simp: find_action_def find_snoc)

lemma action_statusD:
  assumes "ledger_inv d" "x \<in> set (external_actions d)"
  obtains s where "x_status x = action_status_value s" "action_status_of (x_status x) = Some s"
    "action_status_column x = Inr s"
proof -
  have "action_checks x" by (rule action_tables_okD(5) [OF ledger_invD(1) [OF assms(1)] assms(2)])
  then obtain s where "action_status_of (x_status x) = Some s" by (auto simp: action_checks_def)
  moreover from this have "x_status x = action_status_value s" by (simp add: action_status_values)
  ultimately show ?thesis using that by (simp add: action_status_column_def)
qed

lemma update_actions_single:
  assumes inv: "ledger_inv d" and x: "x \<in> set (external_actions d)"
    and P: "\<And>r. r \<in> set (external_actions d) \<Longrightarrow> x_id r = x_id x \<Longrightarrow> P r"
    and P': "\<And>r. P r \<Longrightarrow> x_id r = x_id x" and f: "x_id (f x) = x_id x"
  shows "update_actions P f opn d = (if action_checks (f x) then Inr (put_action (f x) d) else Inl integrity_error)"
proof -
  have only: "P r \<longleftrightarrow> r = x" if "r \<in> set (external_actions d)" for r
    using that P [OF that] P' [of r] P [OF x] action_unique [OF inv that x] by blast
  note dist = action_tables_okD(3) [OF ledger_invD(1) [OF inv]]
  have "rowcount P (external_actions d) = 1"
    by (rule single_row(1) [OF dist x]) (rule only)
  moreover have "update_where P f (external_actions d) =
      update_where (\<lambda>r. x_id r = x_id (f x)) (\<lambda>_. f x) (external_actions d)"
    by (rule single_row(3) [where key = x_id, OF dist x]) (simp_all add: only f)
  moreover have "(\<forall>r \<in> set (external_actions d). \<not> P r \<or> action_checks (f r)) \<longleftrightarrow> action_checks (f x)"
    using only x by blast
  ultimately show ?thesis
    by (simp add: update_actions_def require_one_row_def put_action_def guardR_def)
qed

lemma insert_evidence_next:
  assumes inv: "ledger_inv d" and x: "x \<in> set (external_actions d)"
    and e: "e_external_action_id e = x_id x" "e_sequence_number e = x_action_attempt_count x + 1"
  shows "insert_evidence e (put_action x' d) =
     (if action_attempt_checks e then Inr (add_evidence e (put_action x' d)) else Inl integrity_error)"
  using next_sequence_free [OF inv x] e
  by (simp add: insert_evidence_def guardR_def add_evidence_def)

lemma status_value_short [simp]: "length (action_status_value s) \<le> 50"
  by (cases s) simp_all

section \<open>Metrics\<close>

lemma known_metrics:
  assumes "known_operation x"
  obtains p m where "action_metric_provider x = Inr p" "action_metric_operation x = Inr m"
  using assms
  by (auto simp: known_operation_def supported_external_actions_def action_metric_provider_def
      action_metric_operation_def all_metric_providers_def)

lemma increment_Inr: "increment name labels = Inr ev \<longleftrightarrow> valid_labels name labels \<and> ev = (name, labels)"
  by (auto simp: increment_def result_simps safe_labels_iff)

lemma transition_metrics_known:
  assumes "known_operation x"
  obtains evs where "transition_metrics ta x = Inr evs" "\<forall>ev \<in> set evs. valid_labels (fst ev) (snd ev)"
    "map fst evs = EXTERNAL_ACTION_OUTCOME_COUNT #
       (if py_in ''reconcil'' (ta_transition ta) then [RECONCILIATION_COUNT] else [])"
proof -
  obtain p m where pm: "action_metric_provider x = Inr p" "action_metric_operation x = Inr m"
    by (rule known_metrics [OF assms])
  have 1: "increment EXTERNAL_ACTION_OUTCOME_COUNT
       [(L_PROVIDER, V_PROVIDER p), (L_OPERATION, V_OPERATION m), (L_ACTION_STATUS, V_ACTION_STATUS s)] =
     Inr (EXTERNAL_ACTION_OUTCOME_COUNT,
       [(L_PROVIDER, V_PROVIDER p), (L_OPERATION, V_OPERATION m), (L_ACTION_STATUS, V_ACTION_STATUS s)])" for s
    unfolding increment_Inr by (auto simp: valid_labels_def)
  have 2: "increment RECONCILIATION_COUNT [(L_PROVIDER, V_PROVIDER p), (L_OUTCOME, V_OUTCOME out)] =
     Inr (RECONCILIATION_COUNT, [(L_PROVIDER, V_PROVIDER p), (L_OUTCOME, V_OUTCOME out)])" for out
    unfolding increment_Inr by (auto simp: valid_labels_def)
  let ?e1 = "(EXTERNAL_ACTION_OUTCOME_COUNT,
       [(L_PROVIDER, V_PROVIDER p), (L_OPERATION, V_OPERATION m), (L_ACTION_STATUS, V_ACTION_STATUS (ta_new_status ta))])"
  let ?e2 = "(RECONCILIATION_COUNT, [(L_PROVIDER, V_PROVIDER p), (L_OUTCOME, V_OUTCOME (metric_outcome_of (ta_new_status ta)))])"
  have v: "valid_labels (fst ?e1) (snd ?e1)" "valid_labels (fst ?e2) (snd ?e2)"
    using 1 [of "ta_new_status ta"] 2 unfolding increment_Inr by simp_all
  show ?thesis
  proof (cases "py_in ''reconcil'' (ta_transition ta)")
    case True
    have "transition_metrics ta x = Inr [?e1, ?e2]"
      unfolding transition_metrics_def pm bindR_simps 1 2 using True by simp
    moreover have "\<forall>ev \<in> set [?e1, ?e2]. valid_labels (fst ev) (snd ev)" using v by simp
    ultimately show ?thesis using that [of "[?e1, ?e2]"] True by simp
  next
    case False
    have "transition_metrics ta x = Inr [?e1]"
      unfolding transition_metrics_def pm bindR_simps 1 2 using False by simp
    moreover have "\<forall>ev \<in> set [?e1]. valid_labels (fst ev) (snd ev)" using v by simp
    ultimately show ?thesis using that [of "[?e1]"] False by simp
  qed
qed

section \<open>Replays\<close>

definition same_status_row :: "ledger_env \<Rightarrow> execution_fence \<Rightarrow> external_action \<Rightarrow> external_action" where
  "same_status_row env fence x = x\<lparr>x_task_id := f_task_id fence, x_current_attempt_id := f_attempt_id fence,
     x_action_attempt_count := x_action_attempt_count x + 1, x_last_attempt_at := le_now env,
     x_updated_at := le_now env\<rparr>"

lemma append_same_status_eq:
  assumes inv: "ledger_inv d" and x: "x \<in> set (external_actions d)" and tr: "length tr \<le> 100"
    and s: "x_status x = action_status_value s"
  shows "append_same_status env x fence tr d =
     Inr (add_evidence (action_evidence env x fence (x_action_attempt_count x + 1) tr (Some s) s None)
           (put_action (same_status_row env fence x) d))"
proof -
  have col: "action_status_column x = Inr s" by (simp add: action_status_column_def s)
  have chk: "action_checks (same_status_row env fence x)"
    using action_tables_okD(5) [OF ledger_invD(1) [OF inv] x] by (simp add: action_checks_def same_status_row_def)
  have upd: "update_actions (\<lambda>r. x_id r = x_id x \<and> x_action_attempt_count r = x_action_attempt_count x)
               (\<lambda>r. r\<lparr>x_task_id := f_task_id fence, x_current_attempt_id := f_attempt_id fence,
                      x_action_attempt_count := x_action_attempt_count x + 1, x_last_attempt_at := le_now env,
                      x_updated_at := le_now env\<rparr>) ''external action replay'' d =
      Inr (put_action (same_status_row env fence x) d)"
    using chk action_unique [OF inv _ x]
    by (subst update_actions_single [OF inv x]) (auto simp: same_status_row_def)
  show ?thesis
    unfolding append_same_status_def Let_def upd bindR_simps col
    by (subst insert_evidence_next [OF inv x]) (simp_all add: action_evidence_def action_attempt_checks_def tr)
qed

lemma same_status_step:
  assumes inv: "ledger_inv d" and x: "x \<in> set (external_actions d)" and tr: "length tr \<le> 100"
    and s: "x_status x = action_status_value s" and hold: "holders_exist d (f_task_id fence) (f_attempt_id fence)"
    and fresh: "le_evidence_id env \<notin> e_id ` set (external_action_attempts d)"
  shows "ledger_step d (add_evidence (action_evidence env x fence (x_action_attempt_count x + 1) tr (Some s) s None)
           (put_action (same_status_row env fence x) d))"
proof (rule ledger_step.advance [OF x])
  show "action_le x (same_status_row env fence x)" by (simp add: action_le_def same_status_row_def)
  show "action_checks (same_status_row env fence x)"
    using action_tables_okD(5) [OF ledger_invD(1) [OF inv] x] by (simp add: action_checks_def same_status_row_def)
qed (use assms in \<open>simp_all add: same_status_row_def evidences_def action_evidence_def action_attempt_checks_def\<close>)

section \<open>Reservations\<close>

definition reservation_kind_of :: "external_action \<Rightarrow> string \<Rightarrow> string \<Rightarrow> reservation_kind" where
  "reservation_kind_of x desired snapshot =
     (if x_desired_request_fingerprint x = desired
      then if x_decision_snapshot_hash x = snapshot then RESERVATION_REPLAY else RESERVATION_SOURCE_DRIFT
      else RESERVATION_CHANGED)"

definition find_scope :: "db \<Rightarrow> string \<Rightarrow> external_action option" where
  "find_scope d scope = find (\<lambda>x. x_action_scope_key x = scope) (external_actions d)"

lemma find_scope_Some: "find_scope d scope = Some x \<Longrightarrow> x \<in> set (external_actions d) \<and> x_action_scope_key x = scope"
  unfolding find_scope_def by (rule find_in_set)

lemma reservation_transition_short [simp]: "length (''reservation_'' @ reservation_kind_value k) \<le> 100"
  by (cases k) simp_all

definition replay_events :: "reservation_kind \<Rightarrow> external_action \<Rightarrow> metric_event list" where
  "replay_events k x = (if k = RESERVATION_REPLAY
     then [(DUPLICATE_ACTION_PREVENTION_COUNT,
            [(L_PROVIDER, V_PROVIDER (if x_provider x = ''github'' then P_GITHUB else P_SLACK)),
             (L_OPERATION, V_OPERATION (if x_provider x = ''github'' then OP_GITHUB_COMMENT else OP_SLACK_NOTIFICATION))])]
     else [])"

lemma known_labels:
  assumes "known_operation x"
  shows "action_metric_provider x = Inr (if x_provider x = ''github'' then P_GITHUB else P_SLACK)"
    "action_metric_operation x = Inr (if x_provider x = ''github'' then OP_GITHUB_COMMENT else OP_SLACK_NOTIFICATION)"
proof -
  from assms have "(x_provider x = ''github'' \<and> x_operation x = ''upsert_deployment_context_comment'') \<or>
      (x_provider x = ''slack'' \<and> x_operation x = ''post_deployment_context_notification'')"
    by (auto simp: known_operation_def supported_external_actions_def)
  then show "action_metric_provider x = Inr (if x_provider x = ''github'' then P_GITHUB else P_SLACK)"
    "action_metric_operation x = Inr (if x_provider x = ''github'' then OP_GITHUB_COMMENT else OP_SLACK_NOTIFICATION)"
    by (elim disjE; simp add: action_metric_provider_def action_metric_operation_def all_metric_providers_def)+
qed

lemma reserve_or_get_eq:
  assumes inv: "ledger_inv d" and row: "row = reserved_row env fence p m scope desired snapshot"
    and fresh: "le_row_id env \<notin> x_id ` set (external_actions d)"
  shows "reserve_or_get fence p m scope desired snapshot env d =
     (if (p, m) \<notin> supported_external_actions
      then Inl (ValueError ''unsupported external-action provider and operation'')
      else if \<not> fence_holds fence (le_now env) d then Inl fence_error
      else if \<not> action_checks row then Inl integrity_error
      else case find_scope d scope of
        None \<Rightarrow> Inr (\<lparr>rv_action = row, rv_kind = RESERVATION_CREATED\<rparr>, [],
          add_evidence (action_evidence env row fence 1 ''reserved'' None RESERVED None) (add_action row d))
      | Some x \<Rightarrow>
          if x_provider x \<noteq> action_provider_value p \<or> x_operation x \<noteq> action_operation_value m
          then Inl (ExecutionInvariantError ''external action scope belongs to another provider operation'')
          else let k = reservation_kind_of x desired snapshot; s = the (action_status_of (x_status x)) in
            Inr (\<lparr>rv_action = same_status_row env fence x, rv_kind = k\<rparr>, replay_events k x,
              add_evidence (action_evidence env x fence (x_action_attempt_count x + 1)
                  (''reservation_'' @ reservation_kind_value k) (Some s) s None)
                (put_action (same_status_row env fence x) d)))"
proof -
  have id: "x_id row = le_row_id env" by (simp add: row reserved_row_def)
  have ev: "insert_evidence (action_evidence env row fence 1 ''reserved'' None RESERVED None) (add_action row d) =
      Inr (add_evidence (action_evidence env row fence 1 ''reserved'' None RESERVED None) (add_action row d))"
    using no_evidence_before(2) [OF inv fresh]
    by (simp add: insert_evidence_def guardR_def action_evidence_def id action_attempt_checks_def add_evidence_def)
  show ?thesis
  proof (cases "find_scope d scope")
    case None
    then show ?thesis
      using ev fresh id
      by (simp add: reserve_or_get_def assert_active_fence_eq guardR_def find_scope_def Let_def row [symmetric]
          lock_action_def find_action_add add_action_def [symmetric])
  next
    case (Some x)
    then have x: "x \<in> set (external_actions d)" by (auto dest: find_scope_Some)
    obtain s where s: "x_status x = action_status_value s" by (rule action_statusD [OF inv x])
    have fa: "find_action d (x_id x) = Some x"
      unfolding find_action_def by (rule find_by_key [OF action_tables_okD(3) [OF ledger_invD(1) [OF inv]] x])
    have lock: "lock_action (x_id x) (add_evidence e (put_action (same_status_row env fence x) d)) =
        Inr (same_status_row env fence x)" for e
      by (simp add: lock_action_Inr find_action_put fa) (simp add: same_status_row_def)
    have "known_operation (same_status_row env fence x)"
      using ledger_invD(3) [OF inv x] by (simp add: known_operation_def same_status_row_def)
    note lab = known_labels [OF this]
    have inc: "increment DUPLICATE_ACTION_PREVENTION_COUNT [(L_PROVIDER, V_PROVIDER a), (L_OPERATION, V_OPERATION b)] =
        Inr (DUPLICATE_ACTION_PREVENTION_COUNT, [(L_PROVIDER, V_PROVIDER a), (L_OPERATION, V_OPERATION b)])" for a b
      unfolding increment_Inr by (auto simp: valid_labels_def)
    have prov: "x_provider (same_status_row env fence x) = x_provider x" by (simp add: same_status_row_def)
    show ?thesis
      unfolding reserve_or_get_def assert_active_fence_eq Let_def row [symmetric] find_scope_def [symmetric]
        Some option.case append_same_status_eq [OF inv x reservation_transition_short s]
        reservation_kind_of_def [symmetric] bindR_simps lock lab prov inc
      by (simp add: guardR_def s replay_events_def)
  qed
qed

lemma reserved_row_step:
  assumes inv: "ledger_inv d" and row: "row = reserved_row env fence p m scope desired snapshot"
    and fresh: "le_row_id env \<notin> x_id ` set (external_actions d)"
      "le_evidence_id env \<notin> e_id ` set (external_action_attempts d)"
    and sup: "(p, m) \<in> supported_external_actions" and fence: "fence_holds fence now d"
    and chk: "action_checks row" and none: "find_scope d scope = None"
  shows "ledger_step d (add_evidence (action_evidence env row fence 1 ''reserved'' None RESERVED None) (add_action row d))"
proof (rule ledger_step.reserve [OF chk])
  show "known_operation row" using sup by (force simp: known_operation_def row reserved_row_def)
  show "x_action_scope_key row \<notin> x_action_scope_key ` set (external_actions d)"
    using none by (auto simp: find_scope_def find_None_iff row reserved_row_def)
qed (use fresh fence_holders [OF fence] in
    \<open>simp_all add: row reserved_row_def evidences_def action_evidence_def action_attempt_checks_def\<close>)

lemma reserve_step:
  assumes inv: "ledger_inv d" and run: "reserve_or_get fence p m scope desired snapshot env d = Inr (r, evs, d')"
    and fresh: "le_row_id env \<notin> x_id ` set (external_actions d)"
      "le_evidence_id env \<notin> e_id ` set (external_action_attempts d)"
  shows "ledger_step d d'"
proof -
  note eq = reserve_or_get_eq [OF inv refl fresh(1), of fence p m scope desired snapshot]
  from run have ok: "(p, m) \<in> supported_external_actions" "fence_holds fence (le_now env) d"
    "action_checks (reserved_row env fence p m scope desired snapshot)"
    unfolding eq by (auto split: if_splits)
  show ?thesis
  proof (cases "find_scope d scope")
    case None
    with run ok have "d' = add_evidence (action_evidence env (reserved_row env fence p m scope desired snapshot) fence 1
        ''reserved'' None RESERVED None) (add_action (reserved_row env fence p m scope desired snapshot) d)"
      unfolding eq by simp
    then show ?thesis using reserved_row_step [OF inv refl fresh ok(1,2,3) None] by simp
  next
    case (Some x)
    then have x: "x \<in> set (external_actions d)" by (auto dest: find_scope_Some)
    obtain s where s: "x_status x = action_status_value s" by (rule action_statusD [OF inv x])
    from run ok Some s have "d' = add_evidence (action_evidence env x fence (x_action_attempt_count x + 1)
        (''reservation_'' @ reservation_kind_value (reservation_kind_of x desired snapshot)) (Some s) s None)
      (put_action (same_status_row env fence x) d)"
      unfolding eq by (auto simp: Let_def split: if_splits)
    then show ?thesis
      using same_status_step [OF inv x reservation_transition_short s fence_holders [OF ok(2)] fresh(2)] by simp
  qed
qed

section \<open>Transitions\<close>

lemma set_column_keys [simp]:
  "x_id (fold set_column vs x) = x_id x" "x_action_scope_key (fold set_column vs x) = x_action_scope_key x"
  "x_provider (fold set_column vs x) = x_provider x" "x_operation (fold set_column vs x) = x_operation x"
  "x_reserved_at (fold set_column vs x) = x_reserved_at x" "x_created_at (fold set_column vs x) = x_created_at x"
  "x_revision (fold set_column vs x) = x_revision x" "x_status (fold set_column vs x) = x_status x"
  "x_task_id (fold set_column vs x) = x_task_id x" "x_current_attempt_id (fold set_column vs x) = x_current_attempt_id x"
  "x_action_attempt_count (fold set_column vs x) = x_action_attempt_count x"
  "x_last_error_code (fold set_column vs x) = x_last_error_code x"
  "x_desired_request_fingerprint (fold set_column vs x) = x_desired_request_fingerprint x"
proof (induction vs arbitrary: x)
  case (Cons v vs)
  { case 1 show ?case using Cons(1) by (cases v) simp_all next
    case 2 show ?case using Cons(2) by (cases v) simp_all next
    case 3 show ?case using Cons(3) by (cases v) simp_all next
    case 4 show ?case using Cons(4) by (cases v) simp_all next
    case 5 show ?case using Cons(5) by (cases v) simp_all next
    case 6 show ?case using Cons(6) by (cases v) simp_all next
    case 7 show ?case using Cons(7) by (cases v) simp_all next
    case 8 show ?case using Cons(8) by (cases v) simp_all next
    case 9 show ?case using Cons(9) by (cases v) simp_all next
    case 10 show ?case using Cons(10) by (cases v) simp_all next
    case 11 show ?case using Cons(11) by (cases v) simp_all next
    case 12 show ?case using Cons(12) by (cases v) simp_all next
    case 13 show ?case using Cons(13) by (cases v) simp_all }
qed simp_all

lemma transitioned_row_simps [simp]:
  "x_id (transitioned_row env fence ta st nb n x) = x_id x"
  "x_action_scope_key (transitioned_row env fence ta st nb n x) = x_action_scope_key x"
  "x_provider (transitioned_row env fence ta st nb n x) = x_provider x"
  "x_operation (transitioned_row env fence ta st nb n x) = x_operation x"
  "x_reserved_at (transitioned_row env fence ta st nb n x) = x_reserved_at x"
  "x_created_at (transitioned_row env fence ta st nb n x) = x_created_at x"
  "x_revision (transitioned_row env fence ta st nb n x) = x_revision x"
  "x_status (transitioned_row env fence ta st nb n x) = action_status_value (ta_new_status ta)"
  "x_task_id (transitioned_row env fence ta st nb n x) = f_task_id fence"
  "x_current_attempt_id (transitioned_row env fence ta st nb n x) = f_attempt_id fence"
  "x_action_attempt_count (transitioned_row env fence ta st nb n x) = n"
  "x_last_error_code (transitioned_row env fence ta st nb n x) = ta_error_code ta"
  "x_desired_request_fingerprint (transitioned_row env fence ta st nb n x) = x_desired_request_fingerprint x"
  by (simp_all add: transitioned_row_def Let_def split: option.splits)

definition transition_error :: "transition_args \<Rightarrow> exn option" where
  "transition_error ta =
     (if ta_settlement_delay ta \<noteq> None \<and> ta_not_before_delay ta \<noteq> None
      then Some (ValueError ''a transition cannot set both write settlement and retry delays'')
      else if negative_delay (ta_settlement_delay ta) \<or> negative_delay (ta_not_before_delay ta)
      then Some (ValueError ''external action delays must not be negative'')
      else None)"

definition state_error :: exn where
  "state_error = ExecutionInvariantError ''external action state changed unexpectedly''"

text \<open>The events a transition of a known action emits.\<close>

definition transition_events :: "transition_args \<Rightarrow> external_action \<Rightarrow> metric_event list" where
  "transition_events ta x = (case transition_metrics ta x of Inl _ \<Rightarrow> [] | Inr evs \<Rightarrow> evs)"

lemma transition_events_known:
  assumes "known_operation x"
  shows "transition_metrics ta x = Inr (transition_events ta x)"
    "ev \<in> set (transition_events ta x) \<Longrightarrow> valid_labels (fst ev) (snd ev)"
    "map fst (transition_events ta x) = EXTERNAL_ACTION_OUTCOME_COUNT #
       (if py_in ''reconcil'' (ta_transition ta) then [RECONCILIATION_COUNT] else [])"
proof -
  obtain evs where evs: "transition_metrics ta x = Inr evs" "\<forall>ev \<in> set evs. valid_labels (fst ev) (snd ev)"
    "map fst evs = EXTERNAL_ACTION_OUTCOME_COUNT # (if py_in ''reconcil'' (ta_transition ta) then [RECONCILIATION_COUNT] else [])"
    by (rule transition_metrics_known [OF assms, of ta])
  then have eq: "transition_events ta x = evs" by (simp add: transition_events_def)
  show "transition_metrics ta x = Inr (transition_events ta x)"
    "ev \<in> set (transition_events ta x) \<Longrightarrow> valid_labels (fst ev) (snd ev)"
    "map fst (transition_events ta x) = EXTERNAL_ACTION_OUTCOME_COUNT #
       (if py_in ''reconcil'' (ta_transition ta) then [RECONCILIATION_COUNT] else [])"
    unfolding eq using evs by simp_all
qed

lemma transition_eq:
  assumes inv: "ledger_inv d"
  shows "transition fence i ta env d =
     (case transition_error ta of Some e \<Rightarrow> Inl e
      | None \<Rightarrow>
        if \<not> fence_holds fence (le_now env) d then Inl fence_error
        else case find_action d i of None \<Rightarrow> Inl no_result_found
        | Some x \<Rightarrow>
          let previous = the (action_status_of (x_status x)); n = x_action_attempt_count x + 1 in
          if previous \<notin> ta_expected_statuses ta then Inl state_error
          else bindR (delay_of (ta_settlement_delay ta)) (\<lambda>st. bindR (delay_of (ta_not_before_delay ta)) (\<lambda>nb.
            let x' = transitioned_row env fence ta st nb n x in
            if \<not> action_checks x' \<or> length (ta_transition ta) > 100 then Inl integrity_error
            else Inr (x', transition_events ta x',
              add_evidence (action_evidence env x fence n (ta_transition ta) (Some previous) (ta_new_status ta) (ta_error_code ta))
                (put_action x' d)))))"
proof (cases "transition_error ta = None \<and> fence_holds fence (le_now env) d \<and> find_action d i \<noteq> None")
  case False
  then show ?thesis
    by (auto simp: transition_def transition_error_def assert_active_fence_eq guardR_def lock_action_def
        split: if_splits option.splits)
next
  case True
  then obtain x where fx: "find_action d i = Some x" by blast
  then have x: "x \<in> set (external_actions d)" "i = x_id x" by (auto dest: find_action_Some)
  obtain s where s: "x_status x = action_status_value s" "action_status_of (x_status x) = Some s"
    "action_status_column x = Inr s" by (rule action_statusD [OF inv x(1)])
  have te: "guardR (ta_settlement_delay ta = None \<or> ta_not_before_delay ta = None)
      (ValueError ''a transition cannot set both write settlement and retry delays'') = Inr ()"
    "guardR (\<not> (negative_delay (ta_settlement_delay ta) \<or> negative_delay (ta_not_before_delay ta)))
      (ValueError ''external action delays must not be negative'') = Inr ()"
    using True by (auto simp: transition_error_def guardR_def split: if_splits)
  have upd: "update_actions (\<lambda>r. x_id r = x_id x \<and> x_status r = action_status_value s \<and>
        x_action_attempt_count r = x_action_attempt_count x) (transitioned_row env fence ta st nb n) opn d =
      (if action_checks (transitioned_row env fence ta st nb n x)
       then Inr (put_action (transitioned_row env fence ta st nb n x) d) else Inl integrity_error)" for st nb n opn
    by (rule update_actions_single [OF inv x(1)]) (use action_unique [OF inv _ x(1)] s in auto)
  have ins: "insert_evidence (action_evidence env x fence (x_action_attempt_count x + 1) (ta_transition ta) (Some s)
        (ta_new_status ta) (ta_error_code ta)) (put_action x' d) =
      (if length (ta_transition ta) \<le> 100 then Inr (add_evidence (action_evidence env x fence (x_action_attempt_count x + 1)
        (ta_transition ta) (Some s) (ta_new_status ta) (ta_error_code ta)) (put_action x' d)) else Inl integrity_error)"
    if "fits 100 (ta_error_code ta)" for x'
    using that by (subst insert_evidence_next [OF inv x(1)]) (auto simp: action_evidence_def action_attempt_checks_def)
  have err: "action_checks (transitioned_row env fence ta st nb n x) \<Longrightarrow> fits 100 (ta_error_code ta)" for st nb n
    by (simp add: action_checks_def)
  have lock: "lock_action (x_id x) (add_evidence e (put_action (transitioned_row env fence ta st nb n x) d)) =
      Inr (transitioned_row env fence ta st nb n x)" for e st nb n
    using fx x(2) by (simp add: lock_action_Inr find_action_put)
  have known: "known_operation (transitioned_row env fence ta st nb n x)" for st nb n
    using ledger_invD(3) [OF inv x(1)] by (simp add: known_operation_def)
  note met = transition_events_known(1) [OF known]
  have fin: "bindR (if action_checks (transitioned_row env fence ta st nb n x)
        then Inr (put_action (transitioned_row env fence ta st nb n x) d) else Inl integrity_error) (\<lambda>d1.
      bindR (insert_evidence (action_evidence env x fence n (ta_transition ta) (Some s) (ta_new_status ta) (ta_error_code ta)) d1)
        (\<lambda>d2. bindR (lock_action (x_id x) d2) (\<lambda>u. bindR (transition_metrics ta u) (\<lambda>events. Inr (u, events, d2))))) =
    (let x' = transitioned_row env fence ta st nb n x in
     if \<not> action_checks x' \<or> length (ta_transition ta) > 100 then Inl integrity_error
     else Inr (x', transition_events ta x',
       add_evidence (action_evidence env x fence n (ta_transition ta) (Some s) (ta_new_status ta) (ta_error_code ta))
         (put_action x' d)))" if "n = x_action_attempt_count x + 1" for st nb n
    using err [of st nb n] ins [of "transitioned_row env fence ta st nb n x"] that
    by (cases "action_checks (transitioned_row env fence ta st nb n x)"; cases "length (ta_transition ta) > 100")
      (simp_all add: lock met Let_def)
  show ?thesis
    using True fx
    unfolding transition_def te assert_active_fence_eq lock_action_def [of i] bindR_simps
    by (simp add: guardR_def s upd fin state_error_def)
qed

lemma transition_step:
  assumes inv: "ledger_inv d" and run: "transition fence i ta env d = Inr (x', evs, d')"
    and fresh: "le_evidence_id env \<notin> e_id ` set (external_action_attempts d)"
  shows "ledger_step d d'"
proof -
  obtain x st nb where x: "find_action d i = Some x" and fence: "fence_holds fence (le_now env) d"
    and x': "x' = transitioned_row env fence ta st nb (x_action_attempt_count x + 1) x"
    and chk: "action_checks x'" and len: "length (ta_transition ta) \<le> 100"
    and d': "d' = add_evidence (action_evidence env x fence (x_action_attempt_count x + 1) (ta_transition ta)
        (Some (the (action_status_of (x_status x)))) (ta_new_status ta) (ta_error_code ta)) (put_action x' d)"
    using run unfolding transition_eq [OF inv]
    by (auto simp: result_simps Let_def split: option.splits if_splits)
  from x have mem: "x \<in> set (external_actions d)" by (auto dest: find_action_Some)
  obtain s where s: "x_status x = action_status_value s" by (rule action_statusD [OF inv mem])
  have fits: "fits 100 (ta_error_code ta)" using chk unfolding x' by (simp add: action_checks_def)
  show ?thesis
    unfolding d'
  proof (rule ledger_step.advance [OF mem _ chk])
    show "action_le x x'" by (simp add: action_le_def x')
    show "holders_exist d (x_task_id x') (x_current_attempt_id x')" using fence_holders [OF fence] by (simp add: x')
    show "evidences d (action_evidence env x fence (x_action_attempt_count x + 1) (ta_transition ta)
        (Some (the (action_status_of (x_status x)))) (ta_new_status ta) (ta_error_code ta)) x' (Some (x_status x))"
      using fresh len fits fence_holders [OF fence]
      by (simp add: evidences_def action_evidence_def action_attempt_checks_def s x')
  qed (simp add: x')
qed

section \<open>Revisions\<close>

definition revised_row :: "ledger_env \<Rightarrow> execution_fence \<Rightarrow> string \<Rightarrow> string \<Rightarrow> external_action \<Rightarrow> external_action" where
  "revised_row env fence desired snapshot x = x\<lparr>x_task_id := f_task_id fence, x_current_attempt_id := f_attempt_id fence,
     x_desired_request_fingerprint := desired, x_decision_snapshot_hash := snapshot,
     x_revision := x_revision x + 1, x_status := action_status_value RESERVED, x_completed_at := None,
     x_action_attempt_count := x_action_attempt_count x + 1, x_last_attempt_at := le_now env, x_updated_at := le_now env\<rparr>"

lemma reserved_status [simp]: "action_status_of ''reserved'' = Some RESERVED"
  using action_status_roundtrip [of RESERVED] by simp

definition revision_error :: exn where
  "revision_error = ExecutionInvariantError ''external action cannot be revised''"

definition revision_evidence :: "ledger_env \<Rightarrow> execution_fence \<Rightarrow> external_action \<Rightarrow> external_action_attempt" where
  "revision_evidence env fence x = action_evidence env (x\<lparr>x_revision := x_revision x + 1\<rparr>) fence
     (x_action_attempt_count x + 1) ''revision_reserved'' (Some ACTION_SUCCEEDED) RESERVED None"

lemma revise_eq:
  assumes inv: "ledger_inv d"
  shows "revise fence i expected desired snapshot env d =
     (if \<not> fence_holds fence (le_now env) d then Inl fence_error
      else case find_action d i of None \<Rightarrow> Inl no_result_found
      | Some x \<Rightarrow>
        if \<not> (x_status x = ''succeeded'' \<and> x_revision x = expected \<and> x_provider_resource_identifier x \<noteq> None)
        then Inl revision_error
        else if \<not> (hex64 desired \<and> hex64 snapshot) then Inl integrity_error
        else Inr (revised_row env fence desired snapshot x, [],
               add_evidence (revision_evidence env fence x) (put_action (revised_row env fence desired snapshot x) d)))"
proof (cases "fence_holds fence (le_now env) d \<and> find_action d i \<noteq> None")
  case False
  then show ?thesis by (auto simp: revise_def assert_active_fence_eq guardR_def lock_action_def split: option.splits)
next
  case True
  then obtain x where fx: "find_action d i = Some x" by blast
  then have x: "x \<in> set (external_actions d)" "i = x_id x" by (auto dest: find_action_Some)
  obtain s where s: "x_status x = action_status_value s" "action_status_of (x_status x) = Some s"
    "action_status_column x = Inr s" by (rule action_statusD [OF inv x(1)])
  have succ: "x_status x = ''succeeded'' \<longleftrightarrow> s = ACTION_SUCCEEDED" unfolding s by (cases s) simp_all
  have chk: "action_checks (revised_row env fence desired snapshot x) \<longleftrightarrow> hex64 desired \<and> hex64 snapshot"
    using action_tables_okD(5) [OF ledger_invD(1) [OF inv] x(1)]
    by (auto simp: action_checks_def revised_row_def)
  show ?thesis
  proof (cases "x_status x = ''succeeded'' \<and> x_revision x = expected \<and> x_provider_resource_identifier x \<noteq> None")
    case False
    then show ?thesis
      using True fx s succ
      by (auto simp: revise_def assert_active_fence_eq guardR_def lock_action_def revision_error_def)
  next
    case ok: True
    have upd: "update_actions (\<lambda>r. x_id r = x_id x \<and> x_revision r = expected \<and> x_status r = action_status_value ACTION_SUCCEEDED)
        (\<lambda>r. r\<lparr>x_task_id := f_task_id fence, x_current_attempt_id := f_attempt_id fence,
                     x_desired_request_fingerprint := desired, x_decision_snapshot_hash := snapshot,
                     x_revision := expected + 1, x_status := action_status_value RESERVED,
                     x_completed_at := None, x_action_attempt_count := x_action_attempt_count x + 1,
                     x_last_attempt_at := le_now env, x_updated_at := le_now env\<rparr>) ''external action revision'' d =
        (if action_checks (revised_row env fence desired snapshot x)
         then Inr (put_action (revised_row env fence desired snapshot x) d) else Inl integrity_error)"
      using ok by (subst update_actions_single [OF inv x(1)])
        (use action_unique [OF inv _ x(1)] in \<open>auto simp: revised_row_def\<close>)
    have ins: "insert_evidence (revision_evidence env fence x) (put_action (revised_row env fence desired snapshot x) d) =
        Inr (add_evidence (revision_evidence env fence x) (put_action (revised_row env fence desired snapshot x) d))"
      by (subst insert_evidence_next [OF inv x(1)])
        (simp_all add: revision_evidence_def action_evidence_def action_attempt_checks_def)
    have lock: "lock_action (x_id x) (add_evidence e (put_action (revised_row env fence desired snapshot x) d)) =
        Inr (revised_row env fence desired snapshot x)" for e
      using fx x(2) by (simp add: lock_action_Inr find_action_put) (simp add: revised_row_def)
    have g: "s = ACTION_SUCCEEDED" using ok succ by simp
    have pre: "assert_active_fence fence (le_now env) d = Inr ()" "lock_action i d = Inr x"
      "guardR (ACTION_SUCCEEDED = ACTION_SUCCEEDED \<and> x_revision x = expected \<and> x_provider_resource_identifier x \<noteq> None)
         (ExecutionInvariantError ''external action cannot be revised'') = Inr ()"
      using True fx ok by (simp_all add: assert_active_fence_eq lock_action_def)
    have ev: "action_evidence env (x\<lparr>x_revision := expected + 1\<rparr>) fence (x_action_attempt_count x + 1)
        ''revision_reserved'' (Some ACTION_SUCCEEDED) RESERVED None = revision_evidence env fence x"
      using ok by (simp add: revision_evidence_def)
    have "revise fence i expected desired snapshot env d =
        bindR (if action_checks (revised_row env fence desired snapshot x)
           then Inr (put_action (revised_row env fence desired snapshot x) d) else Inl integrity_error)
          (\<lambda>d1. bindR (insert_evidence (revision_evidence env fence x) d1)
            (\<lambda>d2. bindR (lock_action (x_id x) d2) (\<lambda>updated. Inr (updated, [], d2))))"
      unfolding revise_def Let_def pre(1,2) bindR_simps s(3) g pre(3) upd ev ..
    also have "\<dots> = (if hex64 desired \<and> hex64 snapshot then Inr (revised_row env fence desired snapshot x, [],
          add_evidence (revision_evidence env fence x) (put_action (revised_row env fence desired snapshot x) d))
        else Inl integrity_error)"
      by (simp add: chk ins lock)
    finally show ?thesis using True fx ok by simp
  qed
qed

lemma revise_step:
  assumes inv: "ledger_inv d" and run: "revise fence i expected desired snapshot env d = Inr (x', evs, d')"
    and fresh: "le_evidence_id env \<notin> e_id ` set (external_action_attempts d)"
  shows "ledger_step d d'"
proof -
  obtain x where x: "find_action d i = Some x" and fence: "fence_holds fence (le_now env) d"
    and s: "x_status x = ''succeeded''" and hex: "hex64 desired" "hex64 snapshot"
    and d': "d' = add_evidence (revision_evidence env fence x) (put_action (revised_row env fence desired snapshot x) d)"
    using run unfolding revise_eq [OF inv] by (auto split: option.splits if_splits)
  from x have mem: "x \<in> set (external_actions d)" by (auto dest: find_action_Some)
  show ?thesis
    unfolding d'
  proof (rule ledger_step.advance [OF mem])
    show "action_checks (revised_row env fence desired snapshot x)"
      using action_tables_okD(5) [OF ledger_invD(1) [OF inv] mem] hex by (auto simp: action_checks_def revised_row_def)
  qed (use fresh s fence_holders [OF fence] in \<open>simp_all add: action_le_def revised_row_def revision_evidence_def
      evidences_def action_evidence_def action_attempt_checks_def\<close>)
qed

section \<open>Artifacts\<close>

lemma insert_artifact_cases:
  assumes "insert_artifact s d = Inr (i, d')"
  obtains "artifact_checks s" "i = None" "d' = d" "artifact_key s \<in> artifact_key ` set (source_artifacts d)"
  | "artifact_checks s" "i = Some (s_id s)" "d' = add_artifact s d" "artifact_key s \<notin> artifact_key ` set (source_artifacts d)"
  using assms by (auto simp: insert_artifact_def result_simps add_artifact_def split: if_splits)

lemma store_artifact_cases:
  assumes "store_artifact s d = Inr (s', evs, d')"
  obtains "artifact_checks s" "evs = []" "d' = add_artifact s d" "s_id s' = s_id s" "s' \<in> set (source_artifacts d')"
      "artifact_key s \<notin> artifact_key ` set (source_artifacts d)"
  | r where "artifact_checks s" "evs = []" "d' = d" "s_id s' = s_id r" "s' \<in> set (source_artifacts d)"
      "r \<in> set (source_artifacts d)" "artifact_key r = artifact_key s"
proof -
  from assms obtain i d1 where ins: "insert_artifact s d = Inr (i, d1)"
    by (auto simp: store_artifact_def result_simps)
  then show ?thesis
  proof (cases rule: insert_artifact_cases)
    case 1
    with assms ins show ?thesis
      by (auto simp: store_artifact_def result_simps dest!: find_in_set intro!: that(2))
  next
    case 2
    with assms ins have "evs = []" "d' = add_artifact s d" "find (\<lambda>r. s_id r = s_id s) (source_artifacts d') = Some s'"
      by (auto simp: store_artifact_def result_simps)
    with 2 that(1) show ?thesis by (auto dest!: find_in_set)
  qed
qed

lemma record_artifact_cases:
  assumes run: "record_artifact mx fence ob env d = Inr (s', evs, d')"
  obtains b h u where "fence_holds fence (le_now env) d" "canonical_json (JObj (ob_normalized_payload ob)) = Inr b"
    "length b \<le> mx" "sha256_json (JObj (ob_normalized_payload ob)) = Inr h" "canonical_source_url (ob_source_url ob) = Inr u"
    "store_artifact (artifact_row env fence ob u h (length b)) d = Inr (s', evs, d')"
  using run unfolding record_artifact_def bindR_eq_Inr assert_active_fence_eq guardR_eq by blast

lemma record_artifact_step:
  assumes run: "record_artifact mx fence ob env d = Inr (s', evs, d')"
    and fresh: "le_row_id env \<notin> s_id ` set (source_artifacts d)"
  shows "d' = d \<or> ledger_step d d'"
  using run
proof (cases rule: record_artifact_cases)
  case (1 b h u)
  from 1(6) show ?thesis
  proof (cases rule: store_artifact_cases)
    case new: 1
    have "ledger_step d (add_artifact (artifact_row env fence ob u h (length b)) d)"
      by (rule ledger_step.artifact [OF new(1) _ new(6)])
        (use fresh fence_holders [OF 1(1)] in \<open>simp_all add: artifact_row_def\<close>)
    with new(3) show ?thesis by simp
  qed simp
qed

end
