(* ===== verification/System_Safety.thy ===== *)
theory System_Safety
  imports Queue_Safety Ledger_Operations
begin

text \<open>
  The queue and the evidence store over one database: every interleaving of API calls, workers,
  recovery and workflow writes. Each store leaves the other's tables alone, except that evidence
  refers to tasks and attempts; so the product is again a stepped system, and a stale claim is
  shut out of the evidence store too.
\<close>

section \<open>Operations\<close>

datatype ledger_op =
    OpRecord nat execution_fence observation ledger_env
  | OpReserve execution_fence action_provider action_operation string string string ledger_env
  | OpTransition execution_fence uuid transition_args ledger_env
  | OpRevise execution_fence uuid nat string string ledger_env

definition ledger_commit :: "db \<Rightarrow> exn + ('a \<times> metric_event list \<times> db) \<Rightarrow> db" where
  "ledger_commit d r = (case r of Inl _ \<Rightarrow> d | Inr (_, _, d') \<Rightarrow> d')"

primrec run_ledger_op :: "ledger_op \<Rightarrow> db \<Rightarrow> db" where
  "run_ledger_op (OpRecord mx fence ob env) d = ledger_commit d (record_artifact mx fence ob env d)"
| "run_ledger_op (OpReserve fence p m scope desired snapshot env) d =
     ledger_commit d (reserve_or_get fence p m scope desired snapshot env d)"
| "run_ledger_op (OpTransition fence i ta env) d = ledger_commit d (transition fence i ta env d)"
| "run_ledger_op (OpRevise fence i n desired snapshot env) d =
     ledger_commit d (revise fence i n desired snapshot env d)"

primrec ledger_op_fence :: "ledger_op \<Rightarrow> execution_fence" where
  "ledger_op_fence (OpRecord _ fence _ _) = fence"
| "ledger_op_fence (OpReserve fence _ _ _ _ _ _) = fence"
| "ledger_op_fence (OpTransition fence _ _ _) = fence"
| "ledger_op_fence (OpRevise fence _ _ _ _ _) = fence"

text \<open>\<open>uuid4\<close> returns fresh identifiers; nothing else is asked of a caller.\<close>

primrec ledger_op_ok :: "ledger_op \<Rightarrow> db \<Rightarrow> bool" where
  "ledger_op_ok (OpRecord _ _ _ env) d \<longleftrightarrow> le_row_id env \<notin> s_id ` set (source_artifacts d)"
| "ledger_op_ok (OpReserve _ _ _ _ _ _ env) d \<longleftrightarrow> le_row_id env \<notin> x_id ` set (external_actions d) \<and>
     le_evidence_id env \<notin> e_id ` set (external_action_attempts d)"
| "ledger_op_ok (OpTransition _ _ _ env) d \<longleftrightarrow> le_evidence_id env \<notin> e_id ` set (external_action_attempts d)"
| "ledger_op_ok (OpRevise _ _ _ _ _ env) d \<longleftrightarrow> le_evidence_id env \<notin> e_id ` set (external_action_attempts d)"

datatype system_op = Queue_Op queue_op | Ledger_Op ledger_op

primrec run_system_op :: "system_op \<Rightarrow> db \<Rightarrow> db" where
  "run_system_op (Queue_Op op) = run_queue_op op"
| "run_system_op (Ledger_Op op) = run_ledger_op op"

primrec system_op_ok :: "system_op \<Rightarrow> db \<Rightarrow> bool" where
  "system_op_ok (Queue_Op op) = queue_op_ok op"
| "system_op_ok (Ledger_Op op) = ledger_op_ok op"

definition system_inv :: "db \<Rightarrow> bool" where
  "system_inv d \<longleftrightarrow> queue_inv d \<and> ledger_inv d"

definition system_le :: "db \<Rightarrow> db \<Rightarrow> bool" where
  "system_le d d' \<longleftrightarrow> history_le d d' \<and> ledger_le d d'"

section \<open>The product\<close>

lemma run_ledger_op_step:
  assumes inv: "ledger_inv d" and ok: "ledger_op_ok op d"
  shows "run_ledger_op op d = d \<or> ledger_step d (run_ledger_op op d)"
proof (cases op)
  case (OpRecord mx fence ob env)
  then show ?thesis
    using record_artifact_step [of mx fence ob env d] ok
    by (cases "record_artifact mx fence ob env d") (auto simp: ledger_commit_def)
next
  case (OpReserve fence p m scope desired snapshot env)
  then show ?thesis
    using reserve_step [OF inv, of fence p m scope desired snapshot env] ok
    by (cases "reserve_or_get fence p m scope desired snapshot env d") (auto simp: ledger_commit_def)
next
  case (OpTransition fence i ta env)
  then show ?thesis
    using transition_step [OF inv, of fence i ta env] ok
    by (cases "transition fence i ta env d") (auto simp: ledger_commit_def)
next
  case (OpRevise fence i n desired snapshot env)
  then show ?thesis
    using revise_step [OF inv, of fence i n desired snapshot env] ok
    by (cases "revise fence i n desired snapshot env d") (auto simp: ledger_commit_def)
qed

lemma queue_inv_frame:
  "tasks d' = tasks d \<Longrightarrow> task_attempts d' = task_attempts d \<Longrightarrow> queue_inv d' = queue_inv d"
  by (simp add: queue_inv_def task_tables_ok_def attempt_numbers_def)

lemma history_le_frame: "tasks d' = tasks d \<Longrightarrow> task_attempts d' = task_attempts d \<Longrightarrow> history_le d d'"
  using history_le_refl [of d] by (simp add: history_le_def)

lemma queue_step_frame:
  "queue_step d d' \<Longrightarrow> source_artifacts d' = source_artifacts d \<and> external_actions d' = external_actions d \<and>
     external_action_attempts d' = external_action_attempts d"
  by (erule queue_step.cases) (simp_all add: add_task_def add_attempt_def put_attempt_def)

lemma history_holders: "history_le d d' \<Longrightarrow> holders_exist d t a \<Longrightarrow> holders_exist d' t a"
proof -
  assume le: "history_le d d'" and h: "holders_exist d t a"
  have "t_id x \<in> t_id ` set (tasks d')" if "x \<in> set (tasks d)" for x
  proof -
    from le that obtain x' where "x' \<in> set (tasks d')" "t_id x = t_id x'" by (auto simp: history_le_def task_le_def)
    then show ?thesis by (rule rev_image_eqI)
  qed
  moreover have "a_id x \<in> a_id ` set (task_attempts d')" if "x \<in> set (task_attempts d)" for x
  proof -
    from le that obtain x' where "x' \<in> set (task_attempts d')" "attempt_le x x'" unfolding history_le_def by blast
    then have "x' \<in> set (task_attempts d')" "a_id x = a_id x'" by (simp_all add: attempt_le_def)
    then show ?thesis by (rule rev_image_eqI)
  qed
  ultimately show ?thesis using h by (auto simp: holders_exist_def)
qed

lemma ledger_inv_frame:
  assumes "ledger_inv d" "history_le d d'"
    and "source_artifacts d' = source_artifacts d" "external_actions d' = external_actions d"
      "external_action_attempts d' = external_action_attempts d"
  shows "ledger_inv d'"
proof -
  have "action_tables_ok d'"
    using ledger_invD(1) [OF assms(1)] by (simp add: action_tables_ok_iff assms(3-) history_holders [OF assms(2)])
  moreover have "chain_ok d' x = chain_ok d x" for x by (simp add: chain_ok_def evidence_of_def assms)
  ultimately show ?thesis using assms(1) by (simp add: ledger_inv_def assms)
qed

lemma system_op_step:
  assumes "system_inv d" "system_op_ok op d"
  shows "system_inv (run_system_op op d) \<and> system_le d (run_system_op op d)"
proof (cases op)
  case (Queue_Op q)
  let ?d = "run_queue_op q d"
  have q: "queue_inv d" "queue_op_ok q d" and l: "ledger_inv d" using assms Queue_Op by (simp_all add: system_inv_def)
  have le: "history_le d ?d" and inv: "queue_inv ?d" using queue.grows [OF q] queue.keeps [OF q] by simp_all
  have frame: "source_artifacts ?d = source_artifacts d" "external_actions ?d = external_actions d"
    "external_action_attempts ?d = external_action_attempts d"
    using run_queue_op_step [OF q] queue_step_frame [of d ?d] by auto
  have "ledger_le d ?d" using ledger_le_refl [of d] by (simp add: ledger_le_def frame)
  with le inv ledger_inv_frame [OF l le frame] show ?thesis by (simp add: Queue_Op system_inv_def system_le_def)
next
  case (Ledger_Op l)
  let ?d = "run_ledger_op l d"
  have q: "queue_inv d" and l: "ledger_inv d" "ledger_op_ok l d" using assms Ledger_Op by (simp_all add: system_inv_def)
  have "?d = d \<or> ledger_step d ?d" by (rule run_ledger_op_step [OF l])
  then have "ledger_inv ?d \<and> ledger_le d ?d \<and> tasks ?d = tasks d \<and> task_attempts ?d = task_attempts d"
  proof
    assume "?d = d"
    with l(1) ledger_le_refl show ?thesis by simp
  next
    assume s: "ledger_step d ?d"
    show ?thesis using ledger_step_inv [OF s l(1)] ledger_step_le [OF s l(1)] ledger_step_frame [OF s] by simp
  qed
  then show ?thesis
    using queue_inv_frame [of ?d d] history_le_frame [of ?d d] q by (simp add: Ledger_Op system_inv_def system_le_def)
qed

interpretation sys: step_system run_system_op system_op_ok system_inv system_le
proof
  show "system_inv (run_system_op op d)" if "system_inv d" "system_op_ok op d" for d op
    using system_op_step [OF that] by blast
  show "system_le d (run_system_op op d)" if "system_inv d" "system_op_ok op d" for d op
    using system_op_step [OF that] by blast
  show "system_le d d" for d by (simp add: system_le_def history_le_refl ledger_le_refl)
  show "system_le d f" if "system_le d e" "system_le e f" for d e f
    using that by (auto simp: system_le_def intro: history_le_trans ledger_le_trans)
qed

lemma empty_system_inv [simp]: "system_inv empty_db"
  using empty_db_ok by (simp add: system_inv_def ledger_inv_def tables_ok_def) (simp add: empty_db_def)

section \<open>Stale claims and evidence\<close>

lemma superseded_no_fence:
  assumes inv: "queue_inv d" and sup: "superseded c d"
    and f: "f_task_id fence = c_task_id c" "f_attempt_number fence = c_attempt_number c"
  shows "\<not> fence_holds fence now d"
proof
  assume "fence_holds fence now d"
  then obtain a where a: "a \<in> set (task_attempts d)" "a_task_id a = c_task_id c"
    "a_attempt_number a = c_attempt_number c" "a_status a = ATTEMPT_RUNNING"
    using f by (auto simp: fence_holds_def)
  obtain b where b: "b \<in> set (task_attempts d)" "a_task_id b = c_task_id c"
    "a_attempt_number b = c_attempt_number c" "a_status b \<noteq> ATTEMPT_RUNNING"
    using sup by (auto simp: superseded_def)
  have "(a_task_id a, a_attempt_number a) = (a_task_id b, a_attempt_number b)" using a b by simp
  then have "a = b"
    using distinct_key_unique [OF task_tables_okD(5) [OF queue_invD(1) [OF inv]] a(1) b(1)] by blast
  with a b show False by simp
qed

lemma unfenced_op:
  assumes inv: "ledger_inv d" and ok: "ledger_op_ok op d"
    and unfenced: "\<And>now. \<not> fence_holds (ledger_op_fence op) now d"
  shows "run_ledger_op op d = d"
proof (cases op)
  case (OpRecord mx fence ob env)
  then have "\<nexists>r. record_artifact mx fence ob env d = Inr r"
    using unfenced by (auto elim!: record_artifact_cases)
  then show ?thesis using OpRecord by (auto simp: ledger_commit_def split: sum.splits)
next
  case (OpReserve fence p m scope desired snapshot env)
  then show ?thesis
    using unfenced ok by (auto simp: ledger_commit_def reserve_or_get_eq [OF inv refl])
next
  case (OpTransition fence i ta env)
  then show ?thesis using unfenced by (auto simp: ledger_commit_def transition_eq [OF inv] split: option.splits)
next
  case (OpRevise fence i n desired snapshot env)
  then show ?thesis using unfenced by (simp add: ledger_commit_def revise_eq [OF inv])
qed

section \<open>Examples\<close>

definition example_env :: "uuid \<Rightarrow> uuid \<Rightarrow> ledger_env" where
  "example_env i e = \<lparr>le_now = 20, le_transaction_start = 20, le_row_id = i, le_evidence_id = e\<rparr>"

definition example_reserve :: ledger_op where
  "example_reserve = OpReserve (claim_fence example_claim) GITHUB UPSERT_DEPLOYMENT_CONTEXT_COMMENT ''scope'' hex_a hex_a
     (example_env 1 2)"

lemma running_system_inv [simp]: "system_inv running_db"
  using running_db_inv by (simp add: system_inv_def ledger_inv_def action_tables_ok_def)
    (simp add: running_db_def empty_db_def)

lemma example_fence: "fence_holds (claim_fence example_claim) 20 running_db"
  by (simp add: fence_holds_def example_claim_def)
    (simp add: running_task_def running_attempt_def pending_task_def)

lemma example_reserved_row: "action_checks (reserved_row env fence GITHUB UPSERT_DEPLOYMENT_CONTEXT_COMMENT ''scope'' hex_a hex_a)"
  by (simp add: action_checks_def reserved_row_def)

lemma example_reserved:
  "\<exists>r evs d'. reserve_or_get (claim_fence example_claim) GITHUB UPSERT_DEPLOYMENT_CONTEXT_COMMENT ''scope'' hex_a hex_a
     (example_env 1 2) running_db = Inr (r, evs, d') \<and> external_actions d' \<noteq> external_actions running_db"
proof -
  have inv: "ledger_inv running_db" using running_system_inv by (simp add: system_inv_def)
  have "find_scope running_db ''scope'' = None" by (simp add: find_scope_def running_db_def empty_db_def)
  moreover have "le_row_id (example_env 1 2) \<notin> x_id ` set (external_actions running_db)"
    by (simp add: running_db_def empty_db_def)
  moreover have "(GITHUB, UPSERT_DEPLOYMENT_CONTEXT_COMMENT) \<in> supported_external_actions"
    by (simp add: supported_external_actions_def)
  moreover have "le_now (example_env 1 2) = 20" by (simp add: example_env_def)
  ultimately show ?thesis
    using reserve_or_get_eq [OF inv refl, of "example_env 1 2" "claim_fence example_claim" GITHUB
        UPSERT_DEPLOYMENT_CONTEXT_COMMENT "''scope''" hex_a hex_a] example_fence example_reserved_row
    by (simp add: add_action_def)
qed

lemma example_reserve_ok: "system_op_ok (Ledger_Op example_reserve) running_db"
  by (simp add: example_reserve_def running_db_def empty_db_def)

definition example_row :: external_action where
  "example_row = reserved_row (example_env 1 2) (claim_fence example_claim) GITHUB UPSERT_DEPLOYMENT_CONTEXT_COMMENT
     ''scope'' hex_a hex_a"

definition example_move :: transition_args where
  "example_move = \<lparr>ta_expected_statuses = {RESERVED}, ta_new_status = READY_TO_EXECUTE,
     ta_transition = ''ready_to_execute'', ta_values = [], ta_error_code = None,
     ta_settlement_delay = None, ta_not_before_delay = None\<rparr>"

lemma example_first_reservation:
  obtains d1 where "reserve_or_get (claim_fence example_claim) GITHUB UPSERT_DEPLOYMENT_CONTEXT_COMMENT ''scope'' hex_a hex_a
       (example_env 1 2) running_db = Inr (\<lparr>rv_action = example_row, rv_kind = RESERVATION_CREATED\<rparr>, [], d1)"
    "ledger_inv d1" "fence_holds (claim_fence example_claim) 20 d1" "find_action d1 1 = Some example_row"
    "system_inv d1" "external_action_attempts d1 = [action_evidence (example_env 1 2) example_row (claim_fence example_claim)
       1 ''reserved'' None RESERVED None]" "external_actions d1 = [example_row]" "source_artifacts d1 = []"
proof -
  have inv: "ledger_inv running_db" using running_system_inv by (simp add: system_inv_def)
  let ?d1 = "add_evidence (action_evidence (example_env 1 2) example_row (claim_fence example_claim) 1 ''reserved'' None
       RESERVED None) (add_action example_row running_db)"
  have empty: "external_actions running_db = []" "external_action_attempts running_db = []"
    "source_artifacts running_db = []"
    by (simp_all add: running_db_def empty_db_def)
  have run: "reserve_or_get (claim_fence example_claim) GITHUB UPSERT_DEPLOYMENT_CONTEXT_COMMENT ''scope'' hex_a hex_a
      (example_env 1 2) running_db = Inr (\<lparr>rv_action = example_row, rv_kind = RESERVATION_CREATED\<rparr>, [], ?d1)"
    by (subst reserve_or_get_eq [OF inv refl])
      (simp_all add: empty find_scope_def supported_external_actions_def example_row_def example_reserved_row
        example_fence [unfolded example_env_def] example_env_def)
  have "run_system_op (Ledger_Op example_reserve) running_db = ?d1"
    using run by (simp add: example_reserve_def ledger_commit_def)
  with sys.keeps [OF running_system_inv example_reserve_ok] have sys1: "system_inv ?d1" by simp
  have "fence_holds (claim_fence example_claim) 20 ?d1"
    using example_fence by (simp add: fence_holds_def add_evidence_def add_action_def)
  moreover have "find_action ?d1 1 = Some example_row"
    by (simp add: find_action_def add_action_def empty example_row_def reserved_row_def example_env_def)
  ultimately show ?thesis using that run sys1 by (simp add: system_inv_def add_action_def add_evidence_def empty)
qed

definition example_observation :: observation where
  "example_observation = \<lparr>ob_provider = ''jira'', ob_resource_type = ''issue'', ob_provider_resource_identifier = ''LAB-1'',
     ob_source_url = ''https://jira.example/LAB-1'', ob_source_version = ''1'', ob_data_classification = INTERNAL,
     ob_redaction_applied = True, ob_normalized_payload = [], ob_fetched_at = 15\<rparr>"

lemma example_recorded:
  "record_artifact 100 (claim_fence example_claim) example_observation (example_env i j) d =
     (if fence_holds (claim_fence example_claim) 20 d
      then store_artifact (artifact_row (example_env i j) (claim_fence example_claim) example_observation
         ''https://jira.example/LAB-1'' (sha256_hex ''{}'') 2) d
      else Inl fence_error)"
proof -
  have url: "canonical_source_url ''https://jira.example/LAB-1'' = Inr ''https://jira.example/LAB-1''" by code_simp
  have json: "canonical_json (JObj []) = Inr ''{}''" by code_simp
  show ?thesis
    by (simp add: record_artifact_def example_observation_def url json sha256_json_def assert_active_fence_eq example_env_def
        guardR_def numeral_2_eq_2)
qed

definition example_artifact :: source_artifact where
  "example_artifact = artifact_row (example_env 1 2) (claim_fence example_claim) example_observation
     ''https://jira.example/LAB-1'' (sha256_hex ''{}'') 2"

lemma example_artifact_checks: "artifact_checks (artifact_row (example_env i j) (claim_fence example_claim) example_observation
     ''https://jira.example/LAB-1'' (sha256_hex ''{}'') 2)"
  using exI [of "\<lambda>c. ''internal'' = data_classification_value c" INTERNAL]
  by (simp add: artifact_checks_def artifact_row_def example_observation_def example_env_def day_micros_def)

lemma example_stored:
  "record_artifact 100 (claim_fence example_claim) example_observation (example_env 1 2) running_db =
     Inr (example_artifact, [], add_artifact example_artifact running_db)"
proof -
  have chk: "artifact_checks example_artifact" unfolding example_artifact_def by (rule example_artifact_checks)
  have none: "source_artifacts running_db = []" by (simp add: running_db_def empty_db_def)
  show ?thesis
    unfolding example_recorded if_P [OF example_fence] example_artifact_def [symmetric]
    using chk by (simp add: store_artifact_def insert_artifact_def none add_artifact_def)
qed


lemma example_again:
  assumes "fence_holds (claim_fence example_claim) 20 d" "source_artifacts d = [example_artifact]"
  shows "\<exists>s evs d'. record_artifact 100 (claim_fence example_claim) example_observation (example_env i j) d = Inr (s, evs, d')"
proof -
  have "artifact_key (artifact_row (example_env i j) (claim_fence example_claim) example_observation
      ''https://jira.example/LAB-1'' (sha256_hex ''{}'') 2) = artifact_key example_artifact"
    by (simp add: artifact_key_def artifact_row_def example_artifact_def)
  with example_artifact_checks [of i j] show ?thesis
    unfolding example_recorded if_P [OF assms(1)] by (simp add: store_artifact_def insert_artifact_def assms(2))
qed

section \<open>Properties\<close>

text \<open>
  C1. Safety of the whole store. After any interleaving of API calls, worker and recovery
  transactions and evidence writes from the empty database, with any fences, every constraint of
  the five tables holds; the evidence of each action is numbered without a gap up to its counter,
  begins with no status, leads from status to status without a break and ends at the status the
  action has, with revisions that never decrease; and a succeeded action names its provider
  resource, the request that was applied and the time.
\<close>

theorem reachable_system_safe:
  assumes "admissible system_op_ok run_system_op ops empty_db"
  shows "let d = run_steps run_system_op ops empty_db in
    tables_ok d \<and> (\<forall>x \<in> set (external_actions d). let es = evidence_of d (x_id x) in
      map e_sequence_number es = [1..<Suc (x_action_attempt_count x)] \<and>
      follows None es (Some (x_status x)) \<and> sorted (map e_revision es) \<and> e_revision (last es) = x_revision x \<and>
      (x_status x = ''succeeded'' \<longrightarrow> x_provider_resource_identifier x \<noteq> None \<and>
         x_applied_request_fingerprint x \<noteq> None \<and> x_completed_at x \<noteq> None))"
proof -
  define d where "d = run_steps run_system_op ops empty_db"
  have inv: "system_inv d" unfolding d_def by (rule sys.run_keeps [OF empty_system_inv assms])
  then have q: "queue_inv d" and l: "ledger_inv d" by (simp_all add: system_inv_def)
  have "tables_ok d" using queue_invD(1) [OF q] ledger_invD(1) [OF l] by (simp add: tables_ok_def)
  moreover have "x_status x = ''succeeded'' \<Longrightarrow> x_provider_resource_identifier x \<noteq> None \<and>
         x_applied_request_fingerprint x \<noteq> None \<and> x_completed_at x \<noteq> None" if "x \<in> set (external_actions d)" for x
    using action_tables_okD(5) [OF ledger_invD(1) [OF l] that] by (auto simp: action_checks_def)
  moreover have "chain_ok d x" if "x \<in> set (external_actions d)" for x using ledger_invD(2) [OF l that] .
  ultimately show ?thesis unfolding d_def [symmetric] Let_def chain_ok_def by blast
qed

lemma reachable_system_safe_witness:
  "tables_ok (run_steps run_system_op [Queue_Op (OpCreate 3 1 0 ''k'' ''diagnostic'' []), Queue_Op (OpApprove 5 1)] empty_db)"
proof -
  have "is_task_type ''diagnostic''" by (simp add: is_task_type_def is_lower_def less_eq_char_def)
  then have "admissible system_op_ok run_system_op
      [Queue_Op (OpCreate 3 1 0 ''k'' ''diagnostic'' []), Queue_Op (OpApprove 5 1)] empty_db"
    by (simp add: empty_db_def)
  from reachable_system_safe [OF this] show ?thesis by (simp only: Let_def)
qed

text \<open>
  C14. Evidence is append-only. Over any later operations of the whole system the stored artifacts
  and the evidence rows stay as they are, at their place, new ones being appended; no action
  disappears, its identity, scope and reservation are kept, its revision never decreases, and
  its row is the same row unless its transition counter has grown.
\<close>

theorem evidence_is_append_only:
  assumes "system_inv d" and "admissible system_op_ok run_system_op ops d"
  shows "let d' = run_steps run_system_op ops d in
    take (length (source_artifacts d)) (source_artifacts d') = source_artifacts d \<and>
    take (length (external_action_attempts d)) (external_action_attempts d') = external_action_attempts d \<and>
    (\<forall>x i. find_action d i = Some x \<longrightarrow> (\<exists>x'. find_action d' i = Some x' \<and>
       x_action_scope_key x' = x_action_scope_key x \<and> x_provider x' = x_provider x \<and> x_operation x' = x_operation x \<and>
       x_reserved_at x' = x_reserved_at x \<and> x_revision x \<le> x_revision x' \<and>
       (x' = x \<or> x_action_attempt_count x < x_action_attempt_count x')))"
proof -
  define d' where "d' = run_steps run_system_op ops d"
  have le: "ledger_le d d'" using sys.run_grows [OF assms] by (simp add: system_le_def d'_def)
  have inv: "ledger_inv d'" using sys.run_keeps [OF assms] by (simp add: system_inv_def d'_def)
  have "\<exists>x'. find_action d' i = Some x' \<and> action_le x x'" if x: "find_action d i = Some x" for x i
  proof -
    obtain x' where x': "x' \<in> set (external_actions d')" "action_le x x'"
      using le find_action_Some [OF x] by (auto simp: ledger_le_def)
    then have "x_id x' = i" using find_action_Some [OF x] by (simp add: action_le_def)
    with find_by_key [OF action_tables_okD(3) [OF ledger_invD(1) [OF inv]] x'(1)]
    show ?thesis using x'(2) by (auto simp: find_action_def)
  qed
  then have "\<forall>x i. find_action d i = Some x \<longrightarrow> (\<exists>x'. find_action d' i = Some x' \<and>
       x_action_scope_key x' = x_action_scope_key x \<and> x_provider x' = x_provider x \<and> x_operation x' = x_operation x \<and>
       x_reserved_at x' = x_reserved_at x \<and> x_revision x \<le> x_revision x' \<and>
       (x' = x \<or> x_action_attempt_count x < x_action_attempt_count x'))"
    unfolding action_le_def by blast
  moreover have "take (length (source_artifacts d)) (source_artifacts d') = source_artifacts d"
    "take (length (external_action_attempts d)) (external_action_attempts d') = external_action_attempts d"
    using le by (auto simp: ledger_le_def)
  ultimately show ?thesis unfolding d'_def [symmetric] Let_def by blast
qed

lemma example_ready:
  assumes "ledger_inv d" "fence_holds (claim_fence example_claim) 20 d" "find_action d 1 = Some example_row"
  shows "run_system_op (Ledger_Op (OpTransition (claim_fence example_claim) 1 example_move (example_env 3 4))) d =
    add_evidence (action_evidence (example_env 3 4) example_row (claim_fence example_claim) 2 ''ready_to_execute''
        (Some RESERVED) READY_TO_EXECUTE None)
      (put_action (transitioned_row (example_env 3 4) (claim_fence example_claim) example_move None None 2 example_row) d)"
proof -
  have "action_checks (transitioned_row (example_env 3 4) (claim_fence example_claim) example_move None None 2 example_row)"
    using action_status_roundtrip [of READY_TO_EXECUTE]
    by (simp add: action_checks_def example_row_def example_move_def transitioned_row_def reserved_row_def)
  moreover have "transition_error example_move = None" "le_now (example_env 3 4) = 20"
    "delay_of (ta_settlement_delay example_move) = Inr None" "delay_of (ta_not_before_delay example_move) = Inr None"
    by (simp_all add: example_move_def transition_error_def negative_delay_def delay_of_def example_env_def)
  moreover have "x_action_attempt_count example_row + 1 = 2" "action_status_of (x_status example_row) = Some RESERVED"
    by (simp_all add: example_row_def reserved_row_def)
  moreover have "ta_expected_statuses example_move = {RESERVED}" "ta_transition example_move = ''ready_to_execute''"
    "ta_new_status example_move = READY_TO_EXECUTE" "ta_error_code example_move = None" by (simp_all add: example_move_def)
  ultimately show ?thesis
    using assms(2,3) by (simp add: transition_eq [OF assms(1)] ledger_commit_def Let_def del: One_nat_def)
qed

lemma example_journal:
  obtains d e where "system_inv d" "ledger_inv d" "fence_holds (claim_fence example_claim) 20 d"
    "find_action d 1 = Some example_row" "external_action_attempts d = [e]" "source_artifacts d = [example_artifact]"
    "e_id e = 2"
proof -
  obtain d1 where d1: "fence_holds (claim_fence example_claim) 20 d1" "find_action d1 1 = Some example_row" "system_inv d1"
    "external_action_attempts d1 = [action_evidence (example_env 1 2) example_row (claim_fence example_claim) 1 ''reserved''
       None RESERVED None]" "source_artifacts d1 = []" by (rule example_first_reservation)
  have "record_artifact 100 (claim_fence example_claim) example_observation (example_env 1 2) d1 =
      Inr (example_artifact, [], add_artifact example_artifact d1)"
    unfolding example_recorded if_P [OF d1(1)] example_artifact_def [symmetric]
    using example_artifact_checks [of 1 2, folded example_artifact_def] d1(5)
    by (simp add: store_artifact_def insert_artifact_def)
  then have "run_system_op (Ledger_Op (OpRecord 100 (claim_fence example_claim) example_observation (example_env 1 2))) d1 =
      add_artifact example_artifact d1" by (simp add: ledger_commit_def)
  moreover have "system_op_ok (Ledger_Op (OpRecord 100 (claim_fence example_claim) example_observation (example_env 1 2))) d1"
    by (simp add: d1(5))
  ultimately have "system_inv (add_artifact example_artifact d1)" using sys.keeps [OF d1(3)] by metis
  moreover have "e_id (action_evidence (example_env 1 2) example_row (claim_fence example_claim) 1 ''reserved'' None RESERVED
      None) = 2" by (simp add: action_evidence_def example_env_def)
  ultimately show ?thesis
    using d1 by (intro that [of "add_artifact example_artifact d1"])
      (auto simp: system_inv_def fence_holds_def add_artifact_def find_action_def)
qed

lemma evidence_is_append_only_witness:
  "\<exists>d e e'. source_artifacts d = [example_artifact] \<and> external_action_attempts d = [e] \<and>
     (let d' = run_steps run_system_op
        [Ledger_Op (OpTransition (claim_fence example_claim) 1 example_move (example_env 3 4))] d in
      take 1 (source_artifacts d') = [example_artifact] \<and> external_action_attempts d' = [e, e'] \<and>
      (\<exists>x'. find_action d' 1 = Some x' \<and> x_action_scope_key x' = ''scope'' \<and> x' \<noteq> example_row \<and>
         x_action_attempt_count x' = x_action_attempt_count example_row + 1))"
proof -
  obtain d e where d: "system_inv d" "ledger_inv d" "fence_holds (claim_fence example_claim) 20 d"
    "find_action d 1 = Some example_row" "external_action_attempts d = [e]" "source_artifacts d = [example_artifact]"
    "e_id e = 2" by (rule example_journal)
  define ops where
    "ops = [Ledger_Op (OpTransition (claim_fence example_claim) 1 example_move (example_env 3 4))]"
  define d' where "d' = run_steps run_system_op ops d"
  have ok: "admissible system_op_ok run_system_op ops d" by (simp add: ops_def d(5,7) example_env_def)
  note kept = evidence_is_append_only [OF d(1) ok, unfolded Let_def, folded d'_def]
  have d': "d' = add_evidence (action_evidence (example_env 3 4) example_row (claim_fence example_claim) 2
        ''ready_to_execute'' (Some RESERVED) READY_TO_EXECUTE None)
      (put_action (transitioned_row (example_env 3 4) (claim_fence example_claim) example_move None None 2 example_row) d)"
    using example_ready [OF d(2,3,4)] by (simp add: d'_def ops_def)
  have len: "length (external_action_attempts d') = 2" by (simp add: d' add_evidence_def put_action_def d(5))
  have "take 1 (external_action_attempts d') = [e]" "take 1 (source_artifacts d') = [example_artifact]"
    using kept by (simp_all add: d(5,6))
  then obtain e' where "external_action_attempts d' = [e, e']"
    using len by (cases "external_action_attempts d'") (auto simp: length_Suc_conv numeral_2_eq_2)
  moreover obtain x' where "find_action d' 1 = Some x'" "x_action_scope_key x' = x_action_scope_key example_row"
    using kept d(4) by blast
  moreover have "find_action d' 1 =
      Some (transitioned_row (example_env 3 4) (claim_fence example_claim) example_move None None 2 example_row)"
    unfolding d' using d(4) by (simp add: find_action_put transitioned_row_def example_row_def reserved_row_def example_env_def example_move_def)
  moreover have "x_action_scope_key example_row = ''scope''" "x_action_attempt_count example_row = 1"
    by (simp_all add: example_row_def reserved_row_def)
  moreover have count: "x_action_attempt_count (transitioned_row (example_env 3 4) (claim_fence example_claim) example_move
      None None 2 example_row) = 2" by (simp add: transitioned_row_def example_move_def)
  moreover have "transitioned_row (example_env 3 4) (claim_fence example_claim) example_move None None 2 example_row \<noteq> example_row"
  proof
    assume "transitioned_row (example_env 3 4) (claim_fence example_claim) example_move None None 2 example_row = example_row"
    then have "x_action_attempt_count example_row = 2" using count by simp
    then show False by (simp add: example_row_def reserved_row_def)
  qed
  ultimately show ?thesis
    using \<open>take 1 (source_artifacts d') = [example_artifact]\<close> d(5,6)
    by - (rule exI [of _ d], rule exI [of _ e], rule exI [of _ e'], unfold ops_def [symmetric] d'_def [symmetric] Let_def, auto)
qed

text \<open>
  C15. A finished attempt can no longer write evidence. Once a finalization of a claim was applied,
  then after whatever further operations of the system, every evidence operation under a fence
  for that task and attempt number, with whatever worker, token or attempt identifier it names,
  leaves the database as it is.
\<close>

theorem finished_attempts_write_no_evidence:
  assumes "system_inv d" and "run_finalization f c now d = Inr (APPLIED, d1)" and "finalization_ok f"
    and "admissible system_op_ok run_system_op ops d1"
    and "f_task_id (ledger_op_fence op) = c_task_id c" "f_attempt_number (ledger_op_fence op) = c_attempt_number c"
    and "ledger_op_ok op (run_steps run_system_op ops d1)"
  shows "run_system_op (Ledger_Op op) (run_steps run_system_op ops d1) = run_steps run_system_op ops d1"
proof -
  let ?d = "run_steps run_system_op ops d1"
  have q: "queue_inv d" using assms(1) by (simp add: system_inv_def)
  have "run_system_op (Queue_Op (OpFinalize f c now)) d = d1" using assms(2) by simp
  then have inv1: "system_inv d1" using sys.keeps [OF assms(1), of "Queue_Op (OpFinalize f c now)"] assms(3) by simp
  have inv: "system_inv ?d" by (rule sys.run_keeps [OF inv1 assms(4)])
  have "superseded c d1" by (rule applied_superseded [OF q assms(2)])
  moreover have "history_le d1 ?d" using sys.run_grows [OF inv1 assms(4)] by (simp add: system_le_def)
  ultimately have "superseded c ?d" by (rule superseded_stable)
  then have "\<not> fence_holds (ledger_op_fence op) t ?d" for t
    using superseded_no_fence inv assms(5,6) by (auto simp: system_inv_def)
  then show ?thesis using unfenced_op [OF _ assms(7)] inv by (simp add: system_inv_def)
qed

lemma finished_attempts_write_no_evidence_witness:
  "\<exists>d1. finalize_success example_claim [] 50 running_db = Inr (APPLIED, d1) \<and>
     run_system_op (Ledger_Op example_reserve) d1 = d1 \<and>
     run_system_op (Ledger_Op example_reserve) running_db \<noteq> running_db"
proof -
  have "finalizable example_claim False 50 running_task" by (simp add: example_finalizable)
  then obtain d1 where d1: "run_finalization (FinSuccess []) example_claim 50 running_db = Inr (APPLIED, d1)"
    using finalization_applies [OF running_db_inv, of running_task example_claim "FinSuccess []" 50] by auto
  have "run_queue_op (OpFinalize (FinSuccess []) example_claim 50) running_db = d1" using d1 by simp
  then have "external_actions d1 = external_actions running_db" "external_action_attempts d1 = external_action_attempts running_db"
    using run_queue_op_step [OF running_db_inv, of "OpFinalize (FinSuccess []) example_claim 50"] queue_step_frame by auto
  then have ok: "ledger_op_ok example_reserve (run_steps run_system_op [] d1)"
    by (simp add: example_reserve_def running_db_def empty_db_def)
  have "run_system_op (Ledger_Op example_reserve) d1 = d1"
    using finished_attempts_write_no_evidence [OF running_system_inv d1 _ _ _ _ ok]
    by (simp add: example_reserve_def)
  moreover have "run_system_op (Ledger_Op example_reserve) running_db \<noteq> running_db"
    using example_reserved by (auto simp: example_reserve_def ledger_commit_def)
  ultimately show ?thesis using d1 by auto
qed

end
