(* ===== verification/Ledger_Contract.thy ===== *)
theory Ledger_Contract
  imports System_Safety
begin

text \<open>
  What a caller of the evidence store may rely on: the effect of a transition and of a revision on
  every branch, one action per scope however often it is reserved, and one artifact per observed
  version of a resource.
\<close>

section \<open>Scopes\<close>

lemma find_action_mem: "ledger_inv d \<Longrightarrow> x \<in> set (external_actions d) \<Longrightarrow> find_action d (x_id x) = Some x"
  unfolding find_action_def by (rule find_by_key [OF action_tables_okD(3) [OF ledger_invD(1)]])

lemma find_scope_mem:
  assumes "ledger_inv d" "x \<in> set (external_actions d)"
  shows "find_scope d (x_action_scope_key x) = Some x"
  unfolding find_scope_def
  by (rule find_by_key [of x_action_scope_key]) (use ledger_invD(1) [OF assms(1)] assms(2) in \<open>auto simp: action_tables_ok_iff\<close>)

lemma find_scope_grows:
  assumes "find_scope d scope = Some x" "ledger_le d d'" "ledger_inv d'"
  obtains x' where "find_scope d' scope = Some x'" "action_le x x'"
proof -
  have x: "x \<in> set (external_actions d)" "x_action_scope_key x = scope" using find_scope_Some [OF assms(1)] by simp_all
  then obtain x' where x': "x' \<in> set (external_actions d')" "action_le x x'"
    using assms(2) by (auto simp: ledger_le_def)
  then have "x_action_scope_key x' = scope" using x(2) by (simp add: action_le_def)
  with find_scope_mem [OF assms(3) x'(1)] x'(2) that show ?thesis by simp
qed

lemma scope_count:
  assumes "ledger_inv d" "find_scope d scope = Some x"
  shows "length (filter (\<lambda>y. x_action_scope_key y = scope) (external_actions d)) = 1"
proof -
  have x: "x \<in> set (external_actions d)" "x_action_scope_key x = scope" using find_scope_Some [OF assms(2)] by simp_all
  have keys: "distinct (map x_action_scope_key (external_actions d))" using ledger_invD(1) [OF assms(1)] by (simp add: action_tables_ok_iff)
  have "rowcount (\<lambda>y. x_action_scope_key y = scope) (external_actions d) = 1"
    by (rule single_row(1) [OF keys x(1)]) (use distinct_key_unique [OF keys _ x(1)] x(2) in auto)
  then show ?thesis by (simp add: rowcount_def)
qed

text \<open>What a successful reservation leaves behind.\<close>

lemma reserved:
  assumes inv: "ledger_inv d" and run: "reserve_or_get fence p m scope desired snapshot env d = Inr (r, evs, d')"
    and fresh: "le_row_id env \<notin> x_id ` set (external_actions d)"
      "le_evidence_id env \<notin> e_id ` set (external_action_attempts d)"
  shows "find_scope d' scope = Some (rv_action r)" "x_provider (rv_action r) = action_provider_value p"
    "x_operation (rv_action r) = action_operation_value m"
    "case find_scope d scope of None \<Rightarrow> rv_kind r = RESERVATION_CREATED \<and> evs = [] \<and>
         external_actions d' = external_actions d @ [rv_action r]
     | Some x \<Rightarrow> rv_kind r = reservation_kind_of x desired snapshot \<and> evs = replay_events (rv_kind r) x \<and>
         rv_action r = same_status_row env fence x \<and>
         length (external_actions d') = length (external_actions d)"
proof -
  note eq = reserve_or_get_eq [OF inv refl fresh(1), of fence p m scope desired snapshot]
  have inv': "ledger_inv d'" by (rule ledger_step_inv [OF reserve_step [OF inv run fresh] inv])
  have "rv_action r \<in> set (external_actions d') \<and> x_action_scope_key (rv_action r) = scope \<and>
    x_provider (rv_action r) = action_provider_value p \<and> x_operation (rv_action r) = action_operation_value m \<and>
    (case find_scope d scope of None \<Rightarrow> rv_kind r = RESERVATION_CREATED \<and> evs = [] \<and>
         external_actions d' = external_actions d @ [rv_action r]
     | Some x \<Rightarrow> rv_kind r = reservation_kind_of x desired snapshot \<and> evs = replay_events (rv_kind r) x \<and>
         rv_action r = same_status_row env fence x \<and>
         length (external_actions d') = length (external_actions d))"
  proof (cases "find_scope d scope")
    case None
    then show ?thesis
      using run unfolding eq by (auto simp: add_action_def add_evidence_def reserved_row_def split: if_splits)
  next
    case (Some x)
    have x: "x \<in> set (external_actions d)" "x_action_scope_key x = scope" using find_scope_Some [OF Some] by simp_all
    have "length (external_actions (put_action y d)) = length (external_actions d)" for y
      by (simp add: put_action_def update_where_def)
    with Some x show ?thesis
      using run unfolding eq
      by (auto simp: Let_def put_action_set same_status_row_def add_evidence_def split: if_splits)
  qed
  then show "find_scope d' scope = Some (rv_action r)" "x_provider (rv_action r) = action_provider_value p"
    "x_operation (rv_action r) = action_operation_value m"
    "case find_scope d scope of None \<Rightarrow> rv_kind r = RESERVATION_CREATED \<and> evs = [] \<and>
         external_actions d' = external_actions d @ [rv_action r]
     | Some x \<Rightarrow> rv_kind r = reservation_kind_of x desired snapshot \<and> evs = replay_events (rv_kind r) x \<and>
         rv_action r = same_status_row env fence x \<and>
         length (external_actions d') = length (external_actions d)"
    using find_scope_mem [OF inv'] by blast+
qed

section \<open>Artifacts\<close>

lemma recorded:
  assumes inv: "ledger_inv d" and run: "record_artifact mx fence ob env d = Inr (s, evs, d')"
    and fresh: "le_row_id env \<notin> s_id ` set (source_artifacts d)"
  obtains b h u where "fence_holds fence (le_now env) d" "canonical_json (JObj (ob_normalized_payload ob)) = Inr b"
    "length b \<le> mx" "sha256_json (JObj (ob_normalized_payload ob)) = Inr h" "canonical_source_url (ob_source_url ob) = Inr u"
    "s \<in> set (source_artifacts d')" "artifact_key s = artifact_key (artifact_row env fence ob u h (length b))" "evs = []"
    "d' = d \<or> (s = artifact_row env fence ob u h (length b) \<and> d' = add_artifact s d \<and>
       artifact_key s \<notin> artifact_key ` set (source_artifacts d))"
  using run
proof (cases rule: record_artifact_cases)
  case (1 b h u)
  let ?row = "artifact_row env fence ob u h (length b)"
  have ids: "distinct (map s_id (source_artifacts d))" using ledger_invD(1) [OF inv] by (simp add: action_tables_ok_iff)
  from 1(6) show ?thesis
  proof (cases rule: store_artifact_cases)
    case new: 1
    have "s = ?row"
    proof -
      have "s_id ?row = le_row_id env" by (simp add: artifact_row_def)
      then have "s \<notin> set (source_artifacts d)" using fresh new(4) by (auto simp: image_iff)
      with new(3,5) show ?thesis by (simp add: add_artifact_def)
    qed
    with new 1 that show ?thesis by blast
  next
    case (2 r)
    then have "s = r" using distinct_key_unique [OF ids] by blast
    with 2 1 that show ?thesis by blast
  qed
qed

lemma find_action_other:
  "j \<noteq> x_id x \<Longrightarrow> find_action (add_evidence e (put_action x d)) j = find_action d j"
  by (simp add: find_action_put)

text \<open>The effect of an accepted transition: the abstract specification of the operation.\<close>

definition moved ::
  "execution_fence \<Rightarrow> uuid \<Rightarrow> transition_args \<Rightarrow> ledger_env \<Rightarrow> db \<Rightarrow> external_action \<Rightarrow> metric_event list \<Rightarrow> db \<Rightarrow> bool" where
  "moved fence i ta env d x' evs d' \<longleftrightarrow>
       (\<exists>x s e. find_action d i = Some x \<and> x_status x = action_status_value s \<and> s \<in> ta_expected_statuses ta \<and>
         find_action d' i = Some x' \<and> (\<forall>j. j \<noteq> i \<longrightarrow> find_action d' j = find_action d j) \<and>
         x_status x' = action_status_value (ta_new_status ta) \<and> x_revision x' = x_revision x \<and>
         x_action_attempt_count x' = x_action_attempt_count x + 1 \<and>
         (x_completed_at x' \<noteq> None \<longleftrightarrow> ta_new_status ta = ACTION_SUCCEEDED) \<and>
         (\<forall>q. ta_settlement_delay ta = Some (FFin q) \<longrightarrow> x_write_started_at x' = Some (le_now env) \<and>
            x_reconcile_not_before x' = Some (le_now env + micros q)) \<and>
         (\<forall>q. ta_not_before_delay ta = Some (FFin q) \<longrightarrow> x_reconcile_not_before x' = Some (le_now env + micros q)) \<and>
         external_action_attempts d' = external_action_attempts d @ [e] \<and>
         e_previous_status e = Some (x_status x) \<and> e_new_status e = x_status x' \<and>
         e_sequence_number e = x_action_attempt_count x' \<and> e_task_id e = f_task_id fence \<and>
         e_task_attempt_id e = f_attempt_id fence \<and> e_error_code e = ta_error_code ta \<and>
         map fst evs = EXTERNAL_ACTION_OUTCOME_COUNT #
           (if py_in ''reconcil'' (ta_transition ta) then [RECONCILIATION_COUNT] else []) \<and>
         list_all (\<lambda>ev. valid_labels (fst ev) (snd ev)) evs \<and>
         tasks d' = tasks d \<and> task_attempts d' = task_attempts d \<and> source_artifacts d' = source_artifacts d)"

section \<open>Properties\<close>

text \<open>
  C28. A transition on every branch. Conflicting or negative delays are value errors; without an
  active lease it is the fence error; an unknown action and an unexpected status are errors.
  From an expected status it succeeds whenever the new row satisfies the table's constraints, and
  then exactly the named action moves to the new status, its counter by one, completed exactly
  when succeeded, the settlement delay starting the write clock; one evidence row records the
  status it came from, under the caller's attempt; one outcome metric is emitted, with a
  reconciliation metric when the transition is one; nothing else in the database changes.
\<close>

theorem transition_spec:
  assumes "ledger_inv d"
  shows "(transition_error ta \<noteq> None \<longrightarrow> transition fence i ta env d = Inl (the (transition_error ta))) \<and>
    (transition_error ta = None \<and> \<not> fence_holds fence (le_now env) d \<longrightarrow> transition fence i ta env d = Inl fence_error) \<and>
    (transition_error ta = None \<and> fence_holds fence (le_now env) d \<and> find_action d i = None \<longrightarrow>
       transition fence i ta env d = Inl no_result_found) \<and>
    (\<forall>x s. transition_error ta = None \<and> fence_holds fence (le_now env) d \<and> find_action d i = Some x \<and>
       x_status x = action_status_value s \<and> s \<notin> ta_expected_statuses ta \<longrightarrow> transition fence i ta env d = Inl state_error) \<and>
    (\<forall>x s st nb. transition_error ta = None \<and> fence_holds fence (le_now env) d \<and> find_action d i = Some x \<and>
       x_status x = action_status_value s \<and> s \<in> ta_expected_statuses ta \<and> length (ta_transition ta) \<le> 100 \<and>
       delay_of (ta_settlement_delay ta) = Inr st \<and> delay_of (ta_not_before_delay ta) = Inr nb \<and>
       action_checks (transitioned_row env fence ta st nb (x_action_attempt_count x + 1) x) \<longrightarrow>
       (\<exists>x' evs d'. transition fence i ta env d = Inr (x', evs, d'))) \<and>
    (\<forall>x' evs d'. transition fence i ta env d = Inr (x', evs, d') \<longrightarrow>
       moved fence i ta env d x' evs d')"
    (is "?E1 \<and> ?E2 \<and> ?E3 \<and> ?E4 \<and> ?E5 \<and> ?S")
proof (intro conjI)
  note eq = transition_eq [OF assms, of fence i ta env]
  show ?E1 ?E2 ?E3 unfolding eq by (auto split: option.splits)
  show ?E4 ?E5 unfolding eq by (auto simp: Let_def)
  show ?S
  proof (intro allI impI)
    fix x' evs d' assume run: "transition fence i ta env d = Inr (x', evs, d')"
    obtain x st nb where x: "find_action d i = Some x" and err: "transition_error ta = None"
      and st: "delay_of (ta_settlement_delay ta) = Inr st" "delay_of (ta_not_before_delay ta) = Inr nb"
      and exp: "the (action_status_of (x_status x)) \<in> ta_expected_statuses ta"
      and x': "x' = transitioned_row env fence ta st nb (x_action_attempt_count x + 1) x"
      and chk: "action_checks x'" and evs: "evs = transition_events ta x'"
      and d': "d' = add_evidence (action_evidence env x fence (x_action_attempt_count x + 1) (ta_transition ta)
          (Some (the (action_status_of (x_status x)))) (ta_new_status ta) (ta_error_code ta)) (put_action x' d)"
      using run unfolding eq by (auto simp: result_simps Let_def split: option.splits if_splits)
    from x have mem: "x \<in> set (external_actions d)" "x_id x = i" by (auto dest: find_action_Some)
    obtain s where s: "x_status x = action_status_value s" "action_status_of (x_status x) = Some s"
      by (rule action_statusD [OF assms mem(1)])
    have known: "known_operation x'" using ledger_invD(3) [OF assms mem(1)] by (simp add: known_operation_def x')
    have "x_completed_at x' \<noteq> None \<longleftrightarrow> ta_new_status ta = ACTION_SUCCEEDED"
      using chk by (cases "ta_new_status ta") (auto simp: action_checks_def x')
    moreover have "x_write_started_at x' = Some (le_now env) \<and> x_reconcile_not_before x' = Some (le_now env + micros q)"
      if "ta_settlement_delay ta = Some (FFin q)" for q
      using that st err by (auto simp: x' transitioned_row_def delay_of_def transition_error_def result_simps Let_def split: if_splits)
    moreover have "x_reconcile_not_before x' = Some (le_now env + micros q)" if "ta_not_before_delay ta = Some (FFin q)" for q
      using that st by (auto simp: x' transitioned_row_def delay_of_def result_simps Let_def split: if_splits)
    moreover have "list_all (\<lambda>ev. valid_labels (fst ev) (snd ev)) evs"
      using transition_events_known(2) [OF known] by (auto simp: list_all_iff evs)
    ultimately show "moved fence i ta env d x' evs d'"
      unfolding moved_def
      using x s exp mem(2) transition_events_known(3) [OF known, of ta]
      by (intro exI [of _ x] exI [of _ s] exI [of _ "action_evidence env x fence (x_action_attempt_count x + 1)
          (ta_transition ta) (Some (the (action_status_of (x_status x)))) (ta_new_status ta) (ta_error_code ta)"])
        (simp add: evs d' find_action_put x' action_evidence_def)
  qed
qed

lemma transition_spec_witness:
  "\<exists>r d1 x' evs d2. reserve_or_get (claim_fence example_claim) GITHUB UPSERT_DEPLOYMENT_CONTEXT_COMMENT ''scope'' hex_a hex_a
       (example_env 1 2) running_db = Inr (r, [], d1) \<and>
     transition (claim_fence example_claim) 1 example_move (example_env 3 4) d1 = Inr (x', evs, d2) \<and>
     x_status x' = ''ready_to_execute'' \<and>
     moved (claim_fence example_claim) 1 example_move (example_env 3 4) d1 x' evs d2"
proof -
  obtain d1 where r: "reserve_or_get (claim_fence example_claim) GITHUB UPSERT_DEPLOYMENT_CONTEXT_COMMENT ''scope'' hex_a hex_a
       (example_env 1 2) running_db = Inr (\<lparr>rv_action = example_row, rv_kind = RESERVATION_CREATED\<rparr>, [], d1)"
    and d1: "ledger_inv d1" "fence_holds (claim_fence example_claim) 20 d1" "find_action d1 1 = Some example_row"
    by (rule example_first_reservation)
  have ta: "transition_error example_move = None" "RESERVED \<in> ta_expected_statuses example_move"
    "delay_of (ta_settlement_delay example_move) = Inr None" "delay_of (ta_not_before_delay example_move) = Inr None"
    "length (ta_transition example_move) \<le> 100" "le_now (example_env 3 4) = 20" "x_status example_row = action_status_value RESERVED"
    by (simp_all add: example_move_def transition_error_def negative_delay_def delay_of_def example_env_def
        example_row_def reserved_row_def)
  have "action_checks (transitioned_row (example_env 3 4) (claim_fence example_claim) example_move None None
      (x_action_attempt_count example_row + 1) example_row)"
    using action_status_roundtrip [of READY_TO_EXECUTE]
    by (simp add: action_checks_def example_row_def example_move_def transitioned_row_def reserved_row_def)
  with transition_spec [OF d1(1), of example_move "claim_fence example_claim" 1 "example_env 3 4"] d1(2,3) ta
  obtain x' evs d2 where run: "transition (claim_fence example_claim) 1 example_move (example_env 3 4) d1 = Inr (x', evs, d2)"
    "moved (claim_fence example_claim) 1 example_move (example_env 3 4) d1 x' evs d2" by metis
  then have "x_status x' = ''ready_to_execute''" by (auto simp: moved_def example_move_def)
  with r run show ?thesis by blast
qed

text \<open>
  C9. One action per scope. Once a scope was reserved, then after whatever further operations of
  the whole system, a reservation of that scope that succeeds is for the same provider and
  operation, finds the same action and creates none: it is a replay exactly when the desired
  request and the decision snapshot are the action's, a change when the request differs, a drift
  when only the snapshot does; and exactly one action has the scope.
\<close>

theorem reservation_is_unique:
  assumes "system_inv d" and "reserve_or_get fence p m scope desired snapshot env d = Inr (r, evs, d1)"
    and "ledger_op_ok (OpReserve fence p m scope desired snapshot env) d"
    and "admissible system_op_ok run_system_op ops d1" and "d2 = run_steps run_system_op ops d1"
    and "reserve_or_get fence' p' m' scope desired' snapshot' env' d2 = Inr (r', evs', d3)"
    and "ledger_op_ok (OpReserve fence' p' m' scope desired' snapshot' env') d2"
  shows "action_provider_value p' = action_provider_value p \<and> action_operation_value m' = action_operation_value m \<and>
    x_id (rv_action r') = x_id (rv_action r) \<and> length (external_actions d3) = length (external_actions d2) \<and>
    length (filter (\<lambda>y. x_action_scope_key y = scope) (external_actions d3)) = 1 \<and>
    rv_kind r' \<noteq> RESERVATION_CREATED \<and>
    (rv_kind r' = RESERVATION_REPLAY \<longleftrightarrow> x_desired_request_fingerprint (rv_action r') = desired' \<and>
       x_decision_snapshot_hash (rv_action r') = snapshot') \<and>
    (rv_kind r' = RESERVATION_CHANGED \<longleftrightarrow> x_desired_request_fingerprint (rv_action r') \<noteq> desired') \<and>
    (evs' \<noteq> [] \<longleftrightarrow> rv_kind r' = RESERVATION_REPLAY)"
proof -
  have op1: "run_system_op (Ledger_Op (OpReserve fence p m scope desired snapshot env)) d = d1"
    and op2: "run_system_op (Ledger_Op (OpReserve fence' p' m' scope desired' snapshot' env')) d2 = d3"
    using assms(2,6) by (simp_all add: ledger_commit_def)
  have inv1: "system_inv d1" using sys.keeps [OF assms(1), of "Ledger_Op _"] assms(3) op1 by (metis system_op_ok.simps(2))
  have inv2: "system_inv d2" and le: "system_le d1 d2"
    unfolding assms(5) by (rule sys.run_keeps [OF inv1 assms(4)], rule sys.run_grows [OF inv1 assms(4)])
  have inv3: "system_inv d3" using sys.keeps [OF inv2, of "Ledger_Op _"] assms(7) op2 by (metis system_op_ok.simps(2))
  have l: "ledger_inv d" "ledger_inv d2" "ledger_inv d3" using assms(1) inv2 inv3 by (simp_all add: system_inv_def)
  have fresh: "le_row_id env \<notin> x_id ` set (external_actions d)" "le_evidence_id env \<notin> e_id ` set (external_action_attempts d)"
    "le_row_id env' \<notin> x_id ` set (external_actions d2)" "le_evidence_id env' \<notin> e_id ` set (external_action_attempts d2)"
    using assms(3,7) by simp_all
  note r1 = reserved [OF l(1) assms(2) fresh(1,2)] and r2 = reserved [OF l(2) assms(6) fresh(3,4)]
  have "ledger_le d1 d2" using le by (simp add: system_le_def)
  then obtain x where x: "find_scope d2 scope = Some x" "action_le (rv_action r) x"
    using find_scope_grows [OF r1(1) _ l(2)] by blast
  have k: "rv_kind r' = reservation_kind_of x desired' snapshot'" "rv_action r' = same_status_row env' fence' x"
    "evs' = replay_events (rv_kind r') x" "length (external_actions d3) = length (external_actions d2)"
    using r2(4) x(1) by simp_all
  have same: "x_desired_request_fingerprint (rv_action r') = x_desired_request_fingerprint x"
    "x_decision_snapshot_hash (rv_action r') = x_decision_snapshot_hash x" "x_id (rv_action r') = x_id x"
    "x_provider (rv_action r') = x_provider x" "x_operation (rv_action r') = x_operation x"
    by (simp_all add: k(2) same_status_row_def)
  have "action_provider_value p' = action_provider_value p" "action_operation_value m' = action_operation_value m"
    "x_id (rv_action r') = x_id (rv_action r)"
    using r1(2,3) r2(2,3) x(2) same unfolding action_le_def by simp_all
  moreover have "rv_kind r' \<noteq> RESERVATION_CREATED \<and>
    (rv_kind r' = RESERVATION_REPLAY \<longleftrightarrow> x_desired_request_fingerprint x = desired' \<and> x_decision_snapshot_hash x = snapshot') \<and>
    (rv_kind r' = RESERVATION_CHANGED \<longleftrightarrow> x_desired_request_fingerprint x \<noteq> desired')"
    unfolding k(1) reservation_kind_of_def by simp
  moreover have "evs' \<noteq> [] \<longleftrightarrow> rv_kind r' = RESERVATION_REPLAY" unfolding k(3) replay_events_def by simp
  ultimately show ?thesis unfolding same(1,2) using k(4) scope_count [OF l(3) r2(1)] by blast
qed

lemma reservation_is_unique_witness:
  "\<exists>r d1 r' evs' d3. reserve_or_get (claim_fence example_claim) GITHUB UPSERT_DEPLOYMENT_CONTEXT_COMMENT ''scope'' hex_a hex_a
       (example_env 1 2) running_db = Inr (r, [], d1) \<and>
     reserve_or_get (claim_fence example_claim) GITHUB UPSERT_DEPLOYMENT_CONTEXT_COMMENT ''scope'' hex_a hex_a
       (example_env 5 6) d1 = Inr (r', evs', d3) \<and>
     x_id (rv_action r') = x_id (rv_action r) \<and> rv_kind r' = RESERVATION_REPLAY \<and> evs' \<noteq> []"
proof -
  let ?fence = "claim_fence example_claim" and ?m = UPSERT_DEPLOYMENT_CONTEXT_COMMENT
  obtain d1 where r: "reserve_or_get ?fence GITHUB ?m ''scope'' hex_a hex_a (example_env 1 2) running_db =
      Inr (\<lparr>rv_action = example_row, rv_kind = RESERVATION_CREATED\<rparr>, [], d1)"
    and d1: "ledger_inv d1" "fence_holds ?fence 20 d1" "system_inv d1"
    and rows: "external_action_attempts d1 = [action_evidence (example_env 1 2) example_row ?fence 1 ''reserved'' None RESERVED None]"
      "external_actions d1 = [example_row]"
    by (rule example_first_reservation)
  have fresh: "le_row_id (example_env 5 6) \<notin> x_id ` set (external_actions d1)"
    by (simp add: rows example_row_def reserved_row_def example_env_def)
  have ok: "ledger_op_ok (OpReserve ?fence GITHUB ?m ''scope'' hex_a hex_a (example_env 5 6)) d1"
    using fresh by (simp add: rows action_evidence_def example_env_def)
  have now: "le_now (example_env 5 6) = 20" by (simp add: example_env_def)
  have scope: "find_scope d1 ''scope'' = Some example_row"
    "x_provider example_row = action_provider_value GITHUB" "x_operation example_row = action_operation_value ?m"
    "x_desired_request_fingerprint example_row = hex_a" "x_decision_snapshot_hash example_row = hex_a"
    by (simp_all add: find_scope_def rows example_row_def reserved_row_def)
  have sup: "(GITHUB, ?m) \<in> supported_external_actions" by (simp add: supported_external_actions_def)
  obtain r' evs' d3 where run: "reserve_or_get ?fence GITHUB ?m ''scope'' hex_a hex_a (example_env 5 6) d1 = Inr (r', evs', d3)"
    and kind: "x_desired_request_fingerprint (rv_action r') = hex_a" "x_decision_snapshot_hash (rv_action r') = hex_a"
    unfolding reserve_or_get_eq [OF d1(1) refl fresh] now scope option.case Let_def
    using sup d1(2) example_reserved_row scope(2-) by (simp add: same_status_row_def del: action_provider_value.simps action_operation_value.simps)
  from reservation_is_unique [OF running_system_inv r _ _ _ run, of "[]"] ok example_reserve_ok kind
  have "x_id (rv_action r') = x_id example_row" "rv_kind r' = RESERVATION_REPLAY" "evs' \<noteq> []"
    by (simp_all add: example_reserve_def)
  with r run show ?thesis by fastforce
qed

text \<open>
  C40. A revision on every branch. It is refused without an active lease, for an unknown action,
  and unless the action has succeeded, is at the expected revision and names its provider
  resource. Otherwise, and exactly when both new hashes are SHA-256 digests, the action is back at
  reserved, one revision higher, with the new request and snapshot, still naming the provider
  resource it will edit; one evidence row at the new revision records the return, and nothing
  else in the database changes.
\<close>

theorem revise_spec:
  assumes "ledger_inv d"
  shows "(\<not> fence_holds fence (le_now env) d \<longrightarrow> revise fence i n desired snapshot env d = Inl fence_error) \<and>
    (fence_holds fence (le_now env) d \<and> find_action d i = None \<longrightarrow> revise fence i n desired snapshot env d = Inl no_result_found) \<and>
    (\<forall>x. fence_holds fence (le_now env) d \<and> find_action d i = Some x \<longrightarrow>
       (x_status x \<noteq> ''succeeded'' \<or> x_revision x \<noteq> n \<or> x_provider_resource_identifier x = None \<longrightarrow>
          revise fence i n desired snapshot env d = Inl revision_error) \<and>
       (x_status x = ''succeeded'' \<and> x_revision x = n \<and> x_provider_resource_identifier x \<noteq> None \<longrightarrow>
          (if hex64 desired \<and> hex64 snapshot
           then \<exists>x' e d'. revise fence i n desired snapshot env d = Inr (x', [], d') \<and>
             find_action d' i = Some x' \<and> (\<forall>j. j \<noteq> i \<longrightarrow> find_action d' j = find_action d j) \<and>
             x_status x' = ''reserved'' \<and> x_revision x' = n + 1 \<and> x_completed_at x' = None \<and>
             x_desired_request_fingerprint x' = desired \<and> x_decision_snapshot_hash x' = snapshot \<and>
             x_provider_resource_identifier x' = x_provider_resource_identifier x \<and>
             x_applied_request_fingerprint x' = x_applied_request_fingerprint x \<and>
             x_action_attempt_count x' = x_action_attempt_count x + 1 \<and>
             external_action_attempts d' = external_action_attempts d @ [e] \<and>
             e_previous_status e = Some ''succeeded'' \<and> e_new_status e = ''reserved'' \<and> e_revision e = n + 1 \<and>
             e_sequence_number e = x_action_attempt_count x' \<and> e_task_attempt_id e = f_attempt_id fence \<and>
             tasks d' = tasks d \<and> task_attempts d' = task_attempts d \<and> source_artifacts d' = source_artifacts d
           else \<exists>err. revise fence i n desired snapshot env d = Inl err)))"
    (is "?E1 \<and> ?E2 \<and> ?E3")
proof (intro conjI)
  note eq = revise_eq [OF assms, of fence i n desired snapshot env]
  show ?E1 ?E2 unfolding eq by simp_all
  show ?E3
  proof (intro allI impI conjI)
    fix x assume x: "fence_holds fence (le_now env) d \<and> find_action d i = Some x"
    show "revise fence i n desired snapshot env d = Inl revision_error"
      if "x_status x \<noteq> ''succeeded'' \<or> x_revision x \<noteq> n \<or> x_provider_resource_identifier x = None"
      using x that unfolding eq by simp
    have i: "x_id x = i" using x by (auto dest: find_action_Some)
    show "if hex64 desired \<and> hex64 snapshot
           then \<exists>x' e d'. revise fence i n desired snapshot env d = Inr (x', [], d') \<and>
             find_action d' i = Some x' \<and> (\<forall>j. j \<noteq> i \<longrightarrow> find_action d' j = find_action d j) \<and>
             x_status x' = ''reserved'' \<and> x_revision x' = n + 1 \<and> x_completed_at x' = None \<and>
             x_desired_request_fingerprint x' = desired \<and> x_decision_snapshot_hash x' = snapshot \<and>
             x_provider_resource_identifier x' = x_provider_resource_identifier x \<and>
             x_applied_request_fingerprint x' = x_applied_request_fingerprint x \<and>
             x_action_attempt_count x' = x_action_attempt_count x + 1 \<and>
             external_action_attempts d' = external_action_attempts d @ [e] \<and>
             e_previous_status e = Some ''succeeded'' \<and> e_new_status e = ''reserved'' \<and> e_revision e = n + 1 \<and>
             e_sequence_number e = x_action_attempt_count x' \<and> e_task_attempt_id e = f_attempt_id fence \<and>
             tasks d' = tasks d \<and> task_attempts d' = task_attempts d \<and> source_artifacts d' = source_artifacts d
           else \<exists>err. revise fence i n desired snapshot env d = Inl err"
      if ok: "x_status x = ''succeeded'' \<and> x_revision x = n \<and> x_provider_resource_identifier x \<noteq> None"
    proof (cases "hex64 desired \<and> hex64 snapshot")
      case True
      then have run: "revise fence i n desired snapshot env d = Inr (revised_row env fence desired snapshot x, [],
          add_evidence (revision_evidence env fence x) (put_action (revised_row env fence desired snapshot x) d))"
        using x ok unfolding eq by simp
      show ?thesis
        unfolding if_P [OF True]
        by (intro exI [of _ "revised_row env fence desired snapshot x"] exI [of _ "revision_evidence env fence x"] exI conjI, rule run)
          (use x ok i in \<open>simp_all add: find_action_put revised_row_def revision_evidence_def action_evidence_def\<close>)
    next
      case False
      show ?thesis unfolding if_not_P [OF False] using x ok False unfolding eq by auto
    qed
  qed
qed

definition example_success :: transition_args where
  "example_success = \<lparr>ta_expected_statuses = {RESERVED}, ta_new_status = ACTION_SUCCEEDED, ta_transition = ''write_succeeded'',
     ta_values = [Set_Provider_Resource_Identifier (Some ''7''), Set_Applied_Request_Fingerprint (Some hex_a)],
     ta_error_code = None, ta_settlement_delay = None, ta_not_before_delay = None\<rparr>"

lemma example_succeeded:
  obtains d x where "ledger_inv d" "fence_holds (claim_fence example_claim) 20 d" "find_action d 1 = Some x"
    "x_status x = ''succeeded''" "x_revision x = 1" "x_provider_resource_identifier x = Some ''7''"
    "x_action_attempt_count x = 2"
proof -
  obtain d where d: "ledger_inv d" "fence_holds (claim_fence example_claim) 20 d" "find_action d 1 = Some example_row"
    "system_inv d" "external_action_attempts d = [action_evidence (example_env 1 2) example_row (claim_fence example_claim) 1
       ''reserved'' None RESERVED None]" by (rule example_first_reservation)
  let ?row = "transitioned_row (example_env 3 4) (claim_fence example_claim) example_success None None 2 example_row"
  let ?e = "action_evidence (example_env 3 4) example_row (claim_fence example_claim) 2 ''write_succeeded'' (Some RESERVED)
    ACTION_SUCCEEDED None"
  have hex: "hex64 hex_a" by simp
  have row: "x_id ?row = 1" "x_status ?row = ''succeeded''" "x_revision ?row = 1"
    "x_provider_resource_identifier ?row = Some ''7''" "x_action_attempt_count ?row = 2"
    by (simp_all add: transitioned_row_def example_success_def example_row_def reserved_row_def example_env_def)
  have "action_checks ?row"
    using action_status_roundtrip [of ACTION_SUCCEEDED]
    by (simp add: action_checks_def example_row_def example_success_def transitioned_row_def reserved_row_def)
  moreover have "transition_error example_success = None" "le_now (example_env 3 4) = 20"
    "delay_of (ta_settlement_delay example_success) = Inr None" "delay_of (ta_not_before_delay example_success) = Inr None"
    by (simp_all add: example_success_def transition_error_def negative_delay_def delay_of_def example_env_def)
  moreover have "x_action_attempt_count example_row + 1 = 2" "action_status_of (x_status example_row) = Some RESERVED"
    by (simp_all add: example_row_def reserved_row_def)
  moreover have "ta_expected_statuses example_success = {RESERVED}" "ta_transition example_success = ''write_succeeded''"
    "ta_new_status example_success = ACTION_SUCCEEDED" "ta_error_code example_success = None"
    by (simp_all add: example_success_def)
  ultimately have op: "run_system_op (Ledger_Op (OpTransition (claim_fence example_claim) 1 example_success (example_env 3 4))) d =
      add_evidence ?e (put_action ?row d)"
    using d(2,3) by (simp add: transition_eq [OF d(1)] ledger_commit_def Let_def del: One_nat_def)
  have "system_op_ok (Ledger_Op (OpTransition (claim_fence example_claim) 1 example_success (example_env 3 4))) d"
    by (simp add: d(5) action_evidence_def example_env_def)
  with sys.keeps [OF d(4)] op have "system_inv (add_evidence ?e (put_action ?row d))" by metis
  then have "ledger_inv (add_evidence ?e (put_action ?row d))" by (simp add: system_inv_def)
  moreover have "fence_holds (claim_fence example_claim) 20 (add_evidence ?e (put_action ?row d))"
    using d(2) by (simp add: fence_holds_def add_evidence_def put_action_def)
  moreover have "find_action (add_evidence ?e (put_action ?row d)) 1 = Some ?row"
    using d(3) row(1) by (simp add: find_action_put)
  ultimately show ?thesis using row that by metis
qed

lemma revise_spec_witness:
  "\<exists>d x x' d'. find_action d 1 = Some x \<and> x_status x = ''succeeded'' \<and> x_revision x = 1 \<and>
     revise (claim_fence example_claim) 1 1 hex_a hex_a (example_env 5 6) d = Inr (x', [], d') \<and>
     x_status x' = ''reserved'' \<and> x_revision x' = 2 \<and> x_provider_resource_identifier x' = Some ''7'' \<and>
     revise (claim_fence example_claim) 1 2 hex_a hex_a (example_env 5 6) d = Inl revision_error"
proof -
  obtain d x where d: "ledger_inv d" "fence_holds (claim_fence example_claim) 20 d" "find_action d 1 = Some x"
    and x: "x_status x = ''succeeded''" "x_revision x = 1" "x_provider_resource_identifier x = Some ''7''"
    by (rule example_succeeded)
  have now: "le_now (example_env 5 6) = 20" by (simp add: example_env_def)
  have hex: "hex64 hex_a" by simp
  have "revise (claim_fence example_claim) 1 2 hex_a hex_a (example_env 5 6) d = Inl revision_error"
    using revise_spec [OF d(1), of "claim_fence example_claim" "example_env 5 6" 1 2 hex_a hex_a] d(2,3) x now by simp
  moreover obtain x' d' where "revise (claim_fence example_claim) 1 1 hex_a hex_a (example_env 5 6) d = Inr (x', [], d')"
    "x_status x' = ''reserved''" "x_revision x' = 2" "x_provider_resource_identifier x' = Some ''7''"
    using revise_spec [OF d(1), of "claim_fence example_claim" "example_env 5 6" 1 1 hex_a hex_a] d(2,3) x now hex
    by (auto simp: numeral_2_eq_2)
  ultimately show ?thesis using d(3) x by blast
qed

text \<open>
  Observations are recorded once. An artifact is only recorded under an active lease, from a
  payload that has a canonical form within the size limit, and the row returned is stored and
  carries the SHA-256 of that form, its size and the sanitized URL when it is new. After whatever
  further operations of the system, recording the same observation for the same task again, by
  any attempt and under any limit, returns the very same row and writes nothing.
\<close>

theorem artifact_recorded_once:
  assumes "system_inv d" and "record_artifact mx fence ob env d = Inr (s, evs, d1)"
    and "ledger_op_ok (OpRecord mx fence ob env) d"
    and "admissible system_op_ok run_system_op ops d1" and "d2 = run_steps run_system_op ops d1"
    and "record_artifact mx' fence' ob env' d2 = Inr (s', evs', d3)" and "f_task_id fence' = f_task_id fence"
    and "ledger_op_ok (OpRecord mx' fence' ob env') d2"
  shows "fence_holds fence (le_now env) d \<and> s \<in> set (source_artifacts d1) \<and> s_task_id s = f_task_id fence \<and>
    (\<exists>b u. canonical_json (JObj (ob_normalized_payload ob)) = Inr b \<and> length b \<le> mx \<and> s_content_hash s = sha256_hex b \<and>
       canonical_source_url (ob_source_url ob) = Inr u \<and>
       (d1 \<noteq> d \<longrightarrow> d1 = d\<lparr>source_artifacts := source_artifacts d @ [s]\<rparr> \<and> s_canonical_source_url s = u \<and>
          s_payload_size_bytes s = length b \<and> s_normalized_payload s = ob_normalized_payload ob \<and>
          s_observed_by_attempt_id s = f_attempt_id fence \<and> s_retention_until s > le_now env)) \<and>
    s' = s \<and> d3 = d2 \<and> evs' = []"
proof -
  have op1: "run_system_op (Ledger_Op (OpRecord mx fence ob env)) d = d1" using assms(2) by (simp add: ledger_commit_def)
  have inv1: "system_inv d1" using sys.keeps [OF assms(1), of "Ledger_Op _"] assms(3) op1 by (metis system_op_ok.simps(2))
  have inv2: "system_inv d2" and "system_le d1 d2"
    unfolding assms(5) by (rule sys.run_keeps [OF inv1 assms(4)], rule sys.run_grows [OF inv1 assms(4)])
  then have l: "ledger_inv d" "ledger_inv d2" and sub: "set (source_artifacts d1) \<subseteq> set (source_artifacts d2)"
    using assms(1) by (auto simp: system_inv_def system_le_def ledger_le_def)
  obtain b h u where r1: "fence_holds fence (le_now env) d" "canonical_json (JObj (ob_normalized_payload ob)) = Inr b"
    "length b \<le> mx" "sha256_json (JObj (ob_normalized_payload ob)) = Inr h" "canonical_source_url (ob_source_url ob) = Inr u"
    "s \<in> set (source_artifacts d1)" "artifact_key s = artifact_key (artifact_row env fence ob u h (length b))"
    "d1 = d \<or> (s = artifact_row env fence ob u h (length b) \<and> d1 = add_artifact s d)"
    by (rule recorded [OF l(1) assms(2)]) (use assms(3) in auto)
  obtain k h' u' where r2: "sha256_json (JObj (ob_normalized_payload ob)) = Inr h'" "s' \<in> set (source_artifacts d3)"
    "artifact_key s' = artifact_key (artifact_row env' fence' ob u' h' k)" "evs' = []"
    "d3 = d2 \<or> artifact_key s' \<notin> artifact_key ` set (source_artifacts d2)"
  proof -
    have fresh: "le_row_id env' \<notin> s_id ` set (source_artifacts d2)" using assms(8) by simp
    show ?thesis by (rule recorded [OF l(2) assms(6) fresh], rule that) (assumption | blast)+
  qed
  have key: "artifact_key s' = artifact_key s" using r1(4,7) r2(1,3) assms(7) by (simp add: artifact_key_def artifact_row_def)
  have s: "s \<in> set (source_artifacts d2)" using r1(6) sub by blast
  have d3: "d3 = d2" using r2(5) s unfolding key by blast
  have keys: "distinct (map artifact_key (source_artifacts d2))" using ledger_invD(1) [OF l(2)] by (simp add: action_tables_ok_iff)
  have "s' = s" using distinct_key_unique [OF keys _ s key] r2(2) unfolding d3 by blast
  moreover have "h = sha256_hex b" using r1(2,4) by (simp add: sha256_json_def)
  moreover have "s_retention_until s > le_now env" if "s = artifact_row env fence ob u h (length b)"
    using that by (cases "ob_data_classification ob") (simp_all add: artifact_row_def day_micros_def max_def)
  moreover have "s_content_hash s = h" "s_task_id s = f_task_id fence" using r1(7) by (simp_all add: artifact_key_def artifact_row_def)
  ultimately show ?thesis
    using r1(1-3,5,6,8) r2(4) d3 by (auto simp: artifact_row_def add_artifact_def)
qed

lemma artifact_recorded_once_witness:
  "\<exists>d1. record_artifact 100 (claim_fence example_claim) example_observation (example_env 1 2) running_db =
       Inr (example_artifact, [], d1) \<and>
     record_artifact 100 (claim_fence example_claim) example_observation (example_env 5 6) d1 = Inr (example_artifact, [], d1)"
proof -
  let ?d1 = "add_artifact example_artifact running_db"
  have none: "source_artifacts ?d1 = [example_artifact]" by (simp add: running_db_def empty_db_def add_artifact_def)
  have ok: "ledger_op_ok (OpRecord 100 (claim_fence example_claim) example_observation (example_env 1 2)) running_db"
    "ledger_op_ok (OpRecord 100 (claim_fence example_claim) example_observation (example_env 5 6)) ?d1"
    by (simp_all add: running_db_def empty_db_def add_artifact_def example_artifact_def artifact_row_def example_env_def)
  have "fence_holds (claim_fence example_claim) 20 ?d1" using example_fence by (simp add: fence_holds_def add_artifact_def)
  then obtain s' evs' d3 where again: "record_artifact 100 (claim_fence example_claim) example_observation (example_env 5 6) ?d1 =
      Inr (s', evs', d3)"
    using example_again [of ?d1] none by blast
  from artifact_recorded_once [OF running_system_inv example_stored ok(1) _ _ again _ ok(2), of "[]"]
  have "s' = example_artifact \<and> d3 = ?d1 \<and> evs' = []" by simp
  with example_stored again show ?thesis by blast
qed

end
