(* ===== verification/Shared_Store.thy ===== *)
theory Shared_Store
  imports System_Safety
begin

text \<open>
  The database as one process sees it between two of its calls: a \<open>tick\<close> holds what everybody else
  committed since the previous call, the readings of the clock, the draws of the random sources,
  the rows others hold locked and whether the connection fails before or after the commit. An
  operation whose identifier is in use cannot occur.
\<close>

datatype db_fault = NO_FAULT | LOST_BEFORE_COMMIT exn | LOST_AFTER_COMMIT exn

record tick =
  tk_others :: "system_op list"
  tk_fault :: db_fault
  tk_now :: time
  tk_clock :: time
  tk_raw_token :: string
  tk_locked :: "uuid set"
  tk_random :: rat

definition interfere :: "system_op list \<Rightarrow> db \<Rightarrow> db" where
  "interfere ops d = (if admissible system_op_ok run_system_op ops d then run_steps run_system_op ops d else d)"

lemma interfere_sound: "system_inv d \<Longrightarrow> system_inv (interfere ops d) \<and> system_le d (interfere ops d)"
  using sys.run_keeps [of d ops] sys.run_grows [of d ops] sys.le_refl by (simp add: interfere_def)

text \<open>A call under a tick: the commit of a transaction, seen through a connection that may fail.\<close>

definition transact :: "tick \<Rightarrow> (db \<Rightarrow> exn + ('a \<times> db)) \<Rightarrow> db \<Rightarrow> (exn + 'a) \<times> db" where
  "transact tk tx d0 =
     (let d = interfere (tk_others tk) d0
      in case tk_fault tk of
           LOST_BEFORE_COMMIT e \<Rightarrow> (Inl e, d)
         | NO_FAULT \<Rightarrow> (case tx d of Inl e \<Rightarrow> (Inl e, d) | Inr (x, d') \<Rightarrow> (Inr x, d'))
         | LOST_AFTER_COMMIT e \<Rightarrow> (case tx d of Inl e' \<Rightarrow> (Inl e', d) | Inr (x, d') \<Rightarrow> (Inl e, d')))"

lemma transact_sound:
  assumes "system_inv d" and "\<And>e x e'. system_inv e \<Longrightarrow> tx e = Inr (x, e') \<Longrightarrow> system_inv e' \<and> system_le e e'"
    and "transact tk tx d = (r, d')"
  shows "system_inv d' \<and> system_le d d'"
proof -
  let ?d = "interfere (tk_others tk) d"
  have i: "system_inv ?d" "system_le d ?d" using interfere_sound [OF assms(1)] by auto
  have "d' = ?d \<or> (\<exists>x. tx ?d = Inr (x, d'))"
    using assms(3) by (auto simp: transact_def Let_def split: db_fault.splits sum.splits)
  then show ?thesis using i assms(2) [OF i(1)] sys.le_trans by blast
qed

lemma transact_Inr:
  "transact tk tx d = (Inr x, d') \<Longrightarrow> tx (interfere (tk_others tk) d) = Inr (x, d')"
  by (auto simp: transact_def Let_def split: db_fault.splits sum.splits)

end
