(* ===== verification/Handlers.thy ===== *)
theory Handlers
  imports Worker_Domain Integration_Domain
begin

text \<open>
  \<open>worker/handlers.py\<close> and \<open>worker/diagnostic.py\<close>: what a handler sees of its task, the two signals
  of its context with the cooperative checkpoints, the registry, and the diagnostic handler. A
  sleep ends with the signals as they are when \<open>asyncio.wait\<close> returns, or with the cancellation of
  the asyncio task. pydantic's conversion of a value to a float or an integer is a parameter.
\<close>

section \<open>Task and context\<close>

record task_execution =
  te_task_id :: uuid
  te_task_type :: string
  te_task_input :: jobj
  te_attempt_id :: uuid
  te_attempt_number :: nat
  te_max_attempts :: nat
  te_execution_fence :: execution_fence

definition task_execution_of :: "claimed_task \<Rightarrow> task_execution" where
  "task_execution_of claim =
     \<lparr>te_task_id = c_task_id claim, te_task_type = c_task_type claim, te_task_input = c_task_input claim,
      te_attempt_id = c_attempt_id claim, te_attempt_number = c_attempt_number claim,
      te_max_attempts = c_max_attempts claim, te_execution_fence = claim_fence claim\<rparr>"

record signals =
  customer_cancellation :: bool
  ownership_lost :: bool

definition quiet :: signals where
  "quiet = \<lparr>customer_cancellation = False, ownership_lost = False\<rparr>"

definition raise_if_ownership_lost :: "signals \<Rightarrow> unit result" where
  "raise_if_ownership_lost sg = guardR (\<not> ownership_lost sg) OwnershipLostError"

definition raise_if_cancelled :: "signals \<Rightarrow> unit result" where
  "raise_if_cancelled sg =
     bindR (raise_if_ownership_lost sg) (\<lambda>_. guardR (\<not> customer_cancellation sg) TaskCancelled)"

datatype sleep_end = SLEPT signals | INTERRUPTED

fun context_sleep :: "signals \<Rightarrow> sleep_end \<Rightarrow> unit result" where
  "context_sleep sg (SLEPT sg') =
     bindR (raise_if_cancelled sg) (\<lambda>_.
       if customer_cancellation sg' \<or> ownership_lost sg' then raise_if_cancelled sg' else Inr ())"
| "context_sleep sg INTERRUPTED = bindR (raise_if_cancelled sg) (\<lambda>_. Inl AsyncCancelledError)"

section \<open>Registry\<close>

type_synonym 'h registry = "(string \<times> 'h) list"

definition register :: "string \<Rightarrow> 'h \<Rightarrow> 'h registry \<Rightarrow> 'h registry result" where
  "register task_type handler handlers =
     bindR (guardR (map_of handlers task_type = None)
              (ValueError (''handler already registered for '' @ task_type)))
       (\<lambda>_. Inr (handlers @ [(task_type, handler)]))"

definition registry_get :: "'h registry \<Rightarrow> string \<Rightarrow> 'h result" where
  "registry_get handlers task_type =
     expectR (KeyError (''no handler registered for '' @ task_type)) (map_of handlers task_type)"

definition supported_task_types :: "'h registry \<Rightarrow> string list" where
  "supported_task_types handlers = sort (map fst handlers)"

section \<open>The diagnostic handler\<close>

datatype diagnostic_input =
    DiagnosticSuccess
  | DiagnosticDelay rat
  | DiagnosticRetry int
  | DiagnosticPermanentFailure
  | DiagnosticTimeout rat
  | DiagnosticWaitForCancellation rat

definition only_keys :: "string list \<Rightarrow> jobj \<Rightarrow> bool" where
  "only_keys ks kvs \<longleftrightarrow> list_all (\<lambda>kv. fst kv \<in> set ks) kvs"

text \<open>A float field with inclusive upper bound; \<open>strict\<close> tells \<open>gt\<close> from \<open>ge\<close> at the lower one.\<close>

definition float_field ::
  "(json \<Rightarrow> pyfloat option) \<Rightarrow> bool \<Rightarrow> rat \<Rightarrow> rat \<Rightarrow> json option \<Rightarrow> rat result" where
  "float_field to_float strict lo hi v =
     (case v of None \<Rightarrow> Inl ValidationError
      | Some j \<Rightarrow> (case to_float j of
          Some (FFin q) \<Rightarrow> if (if strict then lo < q else lo \<le> q) \<and> q \<le> hi then Inr q else Inl ValidationError
        | _ \<Rightarrow> Inl ValidationError))"

definition diagnostic_input_adapter ::
  "coercions \<Rightarrow> (json \<Rightarrow> pyfloat option) \<Rightarrow> jobj \<Rightarrow> diagnostic_input result" where
  "diagnostic_input_adapter co to_float kvs =
     (let closed = (\<lambda>ks r. if only_keys (''mode'' # ks) kvs then r else Inl ValidationError)
      in case obj_get kvs ''mode'' of
        Some (JStr m) \<Rightarrow>
          if m = ''success'' then closed [] (Inr DiagnosticSuccess)
          else if m = ''delay'' then closed [''duration_seconds'']
            (bindR (float_field to_float True 0 30 (obj_get kvs ''duration_seconds'')) (\<lambda>q. Inr (DiagnosticDelay q)))
          else if m = ''retry_then_success'' then closed [''failures'']
            (case Option.bind (obj_get kvs ''failures'') (to_int co) of
               Some n \<Rightarrow> if 1 \<le> n \<and> n \<le> 20 then Inr (DiagnosticRetry n) else Inl ValidationError
             | None \<Rightarrow> Inl ValidationError)
          else if m = ''permanent_failure'' then closed [] (Inr DiagnosticPermanentFailure)
          else if m = ''timeout'' then closed [''duration_seconds'']
            (bindR (float_field to_float True 0 30 (obj_get kvs ''duration_seconds'')) (\<lambda>q. Inr (DiagnosticTimeout q)))
          else if m = ''wait_for_cancellation'' then closed [''checkpoint_seconds'']
            (case obj_get kvs ''checkpoint_seconds'' of
               None \<Rightarrow> Inr (DiagnosticWaitForCancellation (1 / 20))
             | v \<Rightarrow> bindR (float_field to_float False (1 / 100) 1 v) (\<lambda>q. Inr (DiagnosticWaitForCancellation q)))
          else Inl ValidationError
      | _ \<Rightarrow> Inl ValidationError)"

definition diagnostic_result :: "string \<Rightarrow> nat \<Rightarrow> handler_value" where
  "diagnostic_result outcome attempt =
     HObject [(''diagnostic'', JStr outcome), (''attempt'', JInt (int attempt))]"

text \<open>
  One run of the handler over the sleeps it makes (the signals before each and its end); \<open>None\<close>
  is a handler that is still sleeping.
\<close>

fun wait_loop :: "(signals \<times> sleep_end) list \<Rightarrow> (exn + handler_value) option" where
  "wait_loop [] = None"
| "wait_loop ((sg, s) # ss) = (case context_sleep sg s of Inl e \<Rightarrow> Some (Inl e) | Inr _ \<Rightarrow> wait_loop ss)"

definition sleep_then :: "(signals \<times> sleep_end) list \<Rightarrow> handler_value \<Rightarrow> (exn + handler_value) option" where
  "sleep_then ss v = (case ss of [] \<Rightarrow> None
     | (sg, s) # _ \<Rightarrow> Some (bindR (context_sleep sg s) (\<lambda>_. Inr v)))"

fun diagnostic_run :: "diagnostic_input \<Rightarrow> nat \<Rightarrow> (signals \<times> sleep_end) list \<Rightarrow> (exn + handler_value) option" where
  "diagnostic_run DiagnosticSuccess n ss = Some (Inr (diagnostic_result ''succeeded'' n))"
| "diagnostic_run (DiagnosticDelay _) n ss = sleep_then ss (diagnostic_result ''delayed_success'' n)"
| "diagnostic_run (DiagnosticRetry failures) n ss =
     (if int n \<le> failures then Some (Inl (RetryableTaskError ''diagnostic_retry'' None))
      else Some (Inr (diagnostic_result ''retry_succeeded'' n)))"
| "diagnostic_run DiagnosticPermanentFailure n ss = Some (Inl (PermanentTaskError ''diagnostic_permanent_failure''))"
| "diagnostic_run (DiagnosticTimeout _) n ss = sleep_then ss (diagnostic_result ''timeout_returned'' n)"
| "diagnostic_run (DiagnosticWaitForCancellation _) n ss = wait_loop ss"

definition diagnostic_execute ::
  "coercions \<Rightarrow> (json \<Rightarrow> pyfloat option) \<Rightarrow> task_execution \<Rightarrow> (signals \<times> sleep_end) list \<Rightarrow>
   (exn + handler_value) option" where
  "diagnostic_execute co to_float task ss =
     (case diagnostic_input_adapter co to_float (te_task_input task) of
        Inl e \<Rightarrow> Some (Inl e)
      | Inr payload \<Rightarrow> diagnostic_run payload (te_attempt_number task) ss)"

end
