(* ===== verification/Config.thy ===== *)
theory Config
  imports Integration_Domain
begin

text \<open>
  \<open>config.py\<close> and \<open>integrations/credentials.py\<close>: the settings record with the bounds of its
  fields, the validators, and the resolution of a credential. The parsing of environment
  variables is pydantic's; a settings value here is what the field types accept, and
  \<open>make_settings\<close> is the validation that follows. Seconds are exact rationals; a secret and a
  file path are strings.
\<close>

section \<open>Settings\<close>

record settings =
  app_name :: string
  environment :: string
  log_level :: string
  database_url :: string
  db_ready_timeout_seconds :: rat
  worker_poll_interval_seconds :: rat
  worker_lease_duration_seconds :: rat
  worker_heartbeat_interval_seconds :: rat
  worker_handler_timeout_seconds :: rat
  worker_shutdown_grace_seconds :: rat
  worker_default_max_attempts :: int
  worker_retry_base_seconds :: rat
  worker_retry_cap_seconds :: rat
  worker_max_result_bytes :: int
  enable_diagnostic_handler :: bool
  enable_deployment_context_sync :: bool
  deployment_scope_id :: "string option"
  deployment_allowed_service_ids :: "string list"
  deployment_allowed_github_repositories :: "string list"
  deployment_allowed_jira_projects :: "string list"
  deployment_minimum_policy_version :: int
  service_catalog_base_url :: string
  jira_base_url :: string
  github_base_url :: string
  github_expected_login :: "string option"
  service_catalog_token :: "string option"
  service_catalog_token_file :: "string option"
  jira_api_token :: "string option"
  jira_api_token_file :: "string option"
  jira_username :: "string option"
  github_token :: "string option"
  github_token_file :: "string option"
  enable_slack_notification :: bool
  slack_base_url :: string
  slack_bot_token :: "string option"
  slack_bot_token_file :: "string option"
  slack_expected_team_id :: "string option"
  slack_expected_user_id :: "string option"
  slack_expected_bot_id :: "string option"
  deployment_allowed_slack_channels :: "string list"
  slack_max_text_chars :: int
  slack_write_timeout_seconds :: rat
  integration_http_connect_timeout_seconds :: rat
  integration_http_read_timeout_seconds :: rat
  integration_http_write_timeout_seconds :: rat
  integration_http_pool_timeout_seconds :: rat
  integration_provider_write_timeout_seconds :: rat
  integration_settlement_delay_seconds :: rat
  integration_max_response_bytes :: int
  integration_max_pages :: int
  integration_max_items :: int
  integration_max_retry_after_seconds :: rat
  source_artifact_max_bytes :: int

text \<open>The defaults of the fields; the database URL has none.\<close>

definition default_settings :: "string \<Rightarrow> settings" where
  "default_settings url = \<lparr>
     app_name = ''NinjaTech Deployment Lab'', environment = ''development'', log_level = ''INFO'',
     database_url = url, db_ready_timeout_seconds = 2, worker_poll_interval_seconds = 1,
     worker_lease_duration_seconds = 30, worker_heartbeat_interval_seconds = 10,
     worker_handler_timeout_seconds = 300, worker_shutdown_grace_seconds = 20,
     worker_default_max_attempts = 3, worker_retry_base_seconds = 2, worker_retry_cap_seconds = 300,
     worker_max_result_bytes = 262144, enable_diagnostic_handler = False,
     enable_deployment_context_sync = False, deployment_scope_id = None,
     deployment_allowed_service_ids = [], deployment_allowed_github_repositories = [],
     deployment_allowed_jira_projects = [], deployment_minimum_policy_version = 1,
     service_catalog_base_url = ''http://127.0.0.1:8090/catalog'',
     jira_base_url = ''http://127.0.0.1:8090/jira'', github_base_url = ''http://127.0.0.1:8090/github'',
     github_expected_login = None, service_catalog_token = None, service_catalog_token_file = None,
     jira_api_token = None, jira_api_token_file = None, jira_username = None, github_token = None,
     github_token_file = None, enable_slack_notification = False,
     slack_base_url = ''http://127.0.0.1:8090/slack'', slack_bot_token = None,
     slack_bot_token_file = None, slack_expected_team_id = None, slack_expected_user_id = None,
     slack_expected_bot_id = None, deployment_allowed_slack_channels = [], slack_max_text_chars = 1000,
     slack_write_timeout_seconds = 5, integration_http_connect_timeout_seconds = 2,
     integration_http_read_timeout_seconds = 10, integration_http_write_timeout_seconds = 10,
     integration_http_pool_timeout_seconds = 2, integration_provider_write_timeout_seconds = 8,
     integration_settlement_delay_seconds = 3, integration_max_response_bytes = 1048576,
     integration_max_pages = 5, integration_max_items = 200, integration_max_retry_after_seconds = 60,
     source_artifact_max_bytes = 262144\<rparr>"


definition starts_with :: "string \<Rightarrow> string \<Rightarrow> bool" where
  "starts_with p s \<longleftrightarrow> take (length p) s = p"

definition in_range :: "'a::linorder \<Rightarrow> 'a \<Rightarrow> 'a \<Rightarrow> bool" where
  "in_range lo hi x \<longleftrightarrow> lo \<le> x \<and> x \<le> hi"

definition above :: "'a::linorder \<Rightarrow> 'a \<Rightarrow> 'a \<Rightarrow> bool" where
  "above lo hi x \<longleftrightarrow> lo < x \<and> x \<le> hi"

definition opt_length :: "nat \<Rightarrow> nat \<Rightarrow> string option \<Rightarrow> bool" where
  "opt_length lo hi s = (case s of None \<Rightarrow> True | Some v \<Rightarrow> lo \<le> length v \<and> length v \<le> hi)"

text \<open>\<open>^[a-z0-9][a-z0-9_-]{0,63}$\<close>.\<close>

definition scope_pattern :: "string \<Rightarrow> bool" where
  "scope_pattern s = (case s of [] \<Rightarrow> False | c # cs \<Rightarrow>
     (is_lower c \<or> is_digit c) \<and> length cs \<le> 63 \<and>
     list_all (\<lambda>c. is_lower c \<or> is_digit c \<or> c = CHR ''_'' \<or> c = CHR ''-'') cs)"

definition settings_fields_ok :: "settings \<Rightarrow> bool" where
  "settings_fields_ok s \<longleftrightarrow>
     environment s \<in> {''development'', ''test'', ''demo'', ''sandbox'', ''staging'', ''production''} \<and>
     log_level s \<in> {''DEBUG'', ''INFO'', ''WARNING'', ''ERROR'', ''CRITICAL''} \<and>
     database_url s \<noteq> [] \<and>
     above 0 30 (db_ready_timeout_seconds s) \<and>
     in_range (5/100) 60 (worker_poll_interval_seconds s) \<and>
     in_range 1 3600 (worker_lease_duration_seconds s) \<and>
     in_range (1/10) 1200 (worker_heartbeat_interval_seconds s) \<and>
     in_range (1/10) 86400 (worker_handler_timeout_seconds s) \<and>
     in_range (1/10) 3600 (worker_shutdown_grace_seconds s) \<and>
     in_range 1 100 (worker_default_max_attempts s) \<and>
     in_range (1/100) 3600 (worker_retry_base_seconds s) \<and>
     in_range (1/100) 86400 (worker_retry_cap_seconds s) \<and>
     in_range 1 16777216 (worker_max_result_bytes s) \<and>
     (case deployment_scope_id s of None \<Rightarrow> True | Some v \<Rightarrow> scope_pattern v) \<and>
     1 \<le> deployment_minimum_policy_version s \<and>
     opt_length 1 255 (jira_username s) \<and>
     opt_length 1 255 (slack_expected_team_id s) \<and>
     opt_length 1 255 (slack_expected_user_id s) \<and>
     opt_length 1 255 (slack_expected_bot_id s) \<and>
     list_all slack_channel (deployment_allowed_slack_channels s) \<and>
     in_range 100 4000 (slack_max_text_chars s) \<and>
     above 0 60 (slack_write_timeout_seconds s) \<and>
     above 0 30 (integration_http_connect_timeout_seconds s) \<and>
     above 0 120 (integration_http_read_timeout_seconds s) \<and>
     above 0 120 (integration_http_write_timeout_seconds s) \<and>
     above 0 30 (integration_http_pool_timeout_seconds s) \<and>
     above 0 60 (integration_provider_write_timeout_seconds s) \<and>
     in_range (1/10) 300 (integration_settlement_delay_seconds s) \<and>
     in_range 1024 16777216 (integration_max_response_bytes s) \<and>
     in_range 1 20 (integration_max_pages s) \<and>
     in_range 1 1000 (integration_max_items s) \<and>
     in_range 0 3600 (integration_max_retry_after_seconds s) \<and>
     in_range 1024 16777216 (source_artifact_max_bytes s)"

section \<open>Validators\<close>

text \<open>\<open>str.isspace\<close> on the code points below 256, and whether \<open>s.strip()\<close> is non-empty.\<close>

definition is_space :: "char \<Rightarrow> bool" where
  "is_space c = (let n = (of_char c :: nat) in 9 \<le> n \<and> n \<le> 13 \<or> 28 \<le> n \<and> n \<le> 32 \<or> n = 133 \<or> n = 160)"

definition py_strip :: "string \<Rightarrow> string" where
  "py_strip s = rev (dropWhile is_space (rev (dropWhile is_space s)))"

definition present :: "string option \<Rightarrow> bool" where
  "present s = (case s of None \<Rightarrow> False | Some v \<Rightarrow> py_strip v \<noteq> [])"

text \<open>A validator returns; or raises a \<open>ValueError\<close>, which pydantic reports as the validation error.\<close>

definition check :: "bool \<Rightarrow> string \<Rightarrow> unit result" where
  "check violated msg = guardR (\<not> violated) (ValueError msg)"

fun checks :: "unit result list \<Rightarrow> unit result" where
  "checks [] = Inr ()"
| "checks (c # cs) = bindR c (\<lambda>_. checks cs)"

definition require_async_postgresql_url :: "string \<Rightarrow> unit result" where
  "require_async_postgresql_url v =
     check (\<not> starts_with ''postgresql+asyncpg://'' v) ''database_url must use the postgresql+asyncpg scheme''"

definition non_empty :: "string option \<Rightarrow> bool" where
  "non_empty s = (case s of None \<Rightarrow> False | Some v \<Rightarrow> v \<noteq> [])"

definition validate_integration_base_url :: "settings \<Rightarrow> string \<Rightarrow> unit result" where
  "validate_integration_base_url s value =
     bindR (urlsplit value) (\<lambda>parsed. checks [
       check (\<not> http_scheme (u_scheme parsed) \<or> hostname parsed = None)
         ''integration base URLs must be absolute HTTP(S) URLs'',
       check (non_empty (username parsed) \<or> non_empty (password parsed) \<or> u_query parsed \<noteq> [] \<or> u_fragment parsed \<noteq> [])
         ''integration base URLs must not contain credentials, queries, or fragments'',
       check (environment s \<in> {''staging'', ''production''} \<and> u_scheme parsed \<noteq> ''https'')
         ''staging and production integration base URLs must use HTTPS''])"

definition non_production :: "settings \<Rightarrow> bool" where
  "non_production s \<longleftrightarrow> environment s \<in> {''development'', ''test'', ''demo'', ''sandbox''}"

definition deployment_checks :: "settings \<Rightarrow> unit result" where
  "deployment_checks s = checks [
     check (\<not> non_production s)
       ''deployment_context_sync cannot be enabled in staging or production without authentication and tenancy'',
     check (deployment_scope_id s = None) ''deployment_scope_id is required when deployment_context_sync is enabled'',
     check (deployment_allowed_service_ids s = []) ''at least one deployment service must be allowlisted'',
     check (deployment_allowed_github_repositories s = []) ''at least one GitHub repository must be allowlisted'',
     check (deployment_allowed_jira_projects s = []) ''at least one Jira project must be allowlisted'',
     check (\<not> present (github_expected_login s))
       ''github_expected_login is required when deployment_context_sync is enabled'',
     validate_integration_base_url s (service_catalog_base_url s),
     validate_integration_base_url s (jira_base_url s),
     validate_integration_base_url s (github_base_url s),
     check (integration_provider_write_timeout_seconds s \<ge> worker_lease_duration_seconds s)
       ''provider write timeout must be shorter than the worker lease'']"

definition absolute_path :: "string \<Rightarrow> bool" where
  "absolute_path p = starts_with ''/'' p"

definition slack_checks :: "settings \<Rightarrow> unit result" where
  "slack_checks s = checks [
     check (\<not> non_production s)
       ''Slack notifications cannot be enabled in staging or production without authentication and tenancy'',
     check (\<not> enable_deployment_context_sync s) ''Slack notifications require deployment_context_sync'',
     check (\<not> present (slack_expected_team_id s)) ''slack_expected_team_id is required when Slack is enabled'',
     check (\<not> present (slack_expected_user_id s)) ''slack_expected_user_id is required when Slack is enabled'',
     check (deployment_allowed_slack_channels s = []) ''at least one Slack channel must be allowlisted'',
     check (slack_bot_token s = None \<and> slack_bot_token_file s = None) ''Slack requires one bot-token credential source'',
     check (case slack_bot_token_file s of None \<Rightarrow> False | Some p \<Rightarrow> \<not> absolute_path p)
       ''Slack bot-token file path must be absolute'',
     validate_integration_base_url s (slack_base_url s),
     check (slack_write_timeout_seconds s \<ge> worker_lease_duration_seconds s)
       ''Slack write timeout must be shorter than the worker lease'']"

definition credential_check :: "string \<Rightarrow> string option \<Rightarrow> string option \<Rightarrow> unit result" where
  "credential_check name inline_secret secret_file =
     check (inline_secret \<noteq> None \<and> secret_file \<noteq> None)
       (name @ '' credential must use either an environment value or a file'')"

definition validate_worker_safety :: "settings \<Rightarrow> unit result" where
  "validate_worker_safety s = checks [
     check (worker_heartbeat_interval_seconds s * 3 > worker_lease_duration_seconds s)
       ''worker heartbeat interval must be at most one third of the lease duration'',
     check (worker_retry_base_seconds s > worker_retry_cap_seconds s) ''worker retry base must not exceed the retry cap'',
     check (enable_diagnostic_handler s \<and> environment s \<notin> {''development'', ''test''})
       ''diagnostic handler may only be enabled in development or test'',
     if enable_deployment_context_sync s then deployment_checks s else Inr (),
     if enable_slack_notification s then slack_checks s else Inr (),
     credential_check ''service catalog'' (service_catalog_token s) (service_catalog_token_file s),
     credential_check ''Jira'' (jira_api_token s) (jira_api_token_file s),
     credential_check ''GitHub'' (github_token s) (github_token_file s),
     credential_check ''Slack'' (slack_bot_token s) (slack_bot_token_file s)]"

definition make_settings :: "settings \<Rightarrow> settings result" where
  "make_settings s =
     (case bindR (guardR (settings_fields_ok s) ValidationError) (\<lambda>_.
           bindR (require_async_postgresql_url (database_url s)) (\<lambda>_. validate_worker_safety s)) of
        Inl _ \<Rightarrow> Inl ValidationError
      | Inr _ \<Rightarrow> Inr s)"

section \<open>Credentials\<close>

text \<open>\<open>EnvironmentOrFileCredential.get_secret\<close>; \<open>read_text\<close> is the file system.\<close>

definition get_secret :: "(string \<Rightarrow> string result) \<Rightarrow> string option \<Rightarrow> string option \<Rightarrow> string option result" where
  "get_secret read_text v path = (case v of
     Some secret \<Rightarrow> Inr (Some secret)
   | None \<Rightarrow> (case path of
       None \<Rightarrow> Inr None
     | Some p \<Rightarrow> bindR (read_text p) (\<lambda>text.
         let secret = py_strip text in
         if secret = [] then Inl (ValueError ''credential file is empty'') else Inr (Some secret))))"

section \<open>Lemmas\<close>

lemma check_Inr [simp]: "check v m = Inr u \<longleftrightarrow> \<not> v"
  by (simp add: check_def)

lemma checks_Inr: "checks cs = Inr u \<longleftrightarrow> (\<forall>c \<in> set cs. c = Inr ())"
proof (induction cs)
  case (Cons c cs)
  then show ?case by (cases c) auto
qed simp

declare checks.simps [simp del]

definition safe_base_url :: "string \<Rightarrow> bool" where
  "safe_base_url v \<longleftrightarrow> (case urlsplit v of Inl _ \<Rightarrow> False
     | Inr u \<Rightarrow> http_scheme (u_scheme u) \<and> hostname u \<noteq> None \<and>
         \<not> non_empty (username u) \<and> \<not> non_empty (password u) \<and> u_query u = [] \<and> u_fragment u = [])"

lemma base_url_safe: "validate_integration_base_url s v = Inr () \<Longrightarrow> safe_base_url v"
  by (auto simp: validate_integration_base_url_def result_simps checks_Inr safe_base_url_def)

lemma make_settings_Inr:
  "make_settings s = Inr s' \<longleftrightarrow> s' = s \<and> settings_fields_ok s \<and>
     require_async_postgresql_url (database_url s) = Inr () \<and> validate_worker_safety s = Inr ()"
  by (auto simp: make_settings_def result_simps split: sum.splits)

section \<open>Properties\<close>

text \<open>
  C39. Validated settings are safe to run with. Three heartbeats fit into a lease and every
  provider write ends within it, the backoff is positive and capped, at least one attempt is
  allowed, the diagnostic handler exists only in development and test, and the deployment workflow
  and Slack never run in staging or production, never without their allowlists and expected
  identities, and only against base URLs without credentials, query or fragment; a credential has
  at most one source; validation changes nothing and has one error.
\<close>

theorem settings_are_safe:
  assumes "make_settings s = Inr s'"
  shows "s' = s \<and> (worker_heartbeat_interval_seconds s * 3 \<le> worker_lease_duration_seconds s) \<and>
    0 < worker_retry_base_seconds s \<and> worker_retry_base_seconds s \<le> worker_retry_cap_seconds s \<and>
    1 \<le> worker_default_max_attempts s \<and> 1 \<le> worker_max_result_bytes s \<and>
    (enable_diagnostic_handler s \<longrightarrow> environment s \<in> {''development'', ''test''}) \<and>
    (enable_slack_notification s \<longrightarrow> enable_deployment_context_sync s) \<and>
    (enable_deployment_context_sync s \<longrightarrow>
       environment s \<notin> {''staging'', ''production''} \<and> deployment_scope_id s \<noteq> None \<and>
       deployment_allowed_service_ids s \<noteq> [] \<and> deployment_allowed_github_repositories s \<noteq> [] \<and>
       deployment_allowed_jira_projects s \<noteq> [] \<and> present (github_expected_login s) \<and>
       (\<forall>v \<in> {service_catalog_base_url s, jira_base_url s, github_base_url s}. safe_base_url v) \<and>
       integration_provider_write_timeout_seconds s < worker_lease_duration_seconds s) \<and>
    (enable_slack_notification s \<longrightarrow>
       deployment_allowed_slack_channels s \<noteq> [] \<and> (\<forall>c \<in> set (deployment_allowed_slack_channels s). slack_channel c) \<and>
       present (slack_expected_team_id s) \<and> present (slack_expected_user_id s) \<and> safe_base_url (slack_base_url s) \<and>
       (\<exists>secret. get_secret (\<lambda>_. Inr ''t'') (slack_bot_token s) (slack_bot_token_file s) = Inr (Some secret)) \<and>
       slack_write_timeout_seconds s < worker_lease_duration_seconds s) \<and>
    (\<forall>(v, f) \<in> {(service_catalog_token s, service_catalog_token_file s), (jira_api_token s, jira_api_token_file s),
       (github_token s, github_token_file s), (slack_bot_token s, slack_bot_token_file s)}. v = None \<or> f = None)"
proof -
  have f: "settings_fields_ok s" and w: "validate_worker_safety s = Inr ()" and "s' = s"
    using assms by (simp_all add: make_settings_Inr)
  have dep: "enable_deployment_context_sync s \<Longrightarrow> deployment_checks s = Inr ()"
    and sl: "enable_slack_notification s \<Longrightarrow> slack_checks s = Inr ()"
    and cred: "\<forall>(v, f) \<in> {(service_catalog_token s, service_catalog_token_file s), (jira_api_token s, jira_api_token_file s),
       (github_token s, github_token_file s), (slack_bot_token s, slack_bot_token_file s)}. v = None \<or> f = None"
    and misc: "worker_heartbeat_interval_seconds s * 3 \<le> worker_lease_duration_seconds s"
      "worker_retry_base_seconds s \<le> worker_retry_cap_seconds s"
      "enable_diagnostic_handler s \<longrightarrow> environment s \<in> {''development'', ''test''}"
    using w by (auto simp: validate_worker_safety_def checks_Inr credential_check_def)
  have pos: "0 < worker_retry_base_seconds s" "1 \<le> worker_default_max_attempts s" "1 \<le> worker_max_result_bytes s"
    "\<forall>c \<in> set (deployment_allowed_slack_channels s). slack_channel c"
    using f by (auto simp: settings_fields_ok_def in_range_def list_all_iff)
  have dep': "environment s \<notin> {''staging'', ''production''} \<and> deployment_scope_id s \<noteq> None \<and>
       deployment_allowed_service_ids s \<noteq> [] \<and> deployment_allowed_github_repositories s \<noteq> [] \<and>
       deployment_allowed_jira_projects s \<noteq> [] \<and> present (github_expected_login s) \<and>
       (\<forall>v \<in> {service_catalog_base_url s, jira_base_url s, github_base_url s}. safe_base_url v) \<and>
       integration_provider_write_timeout_seconds s < worker_lease_duration_seconds s"
    if "enable_deployment_context_sync s"
    using dep [OF that] by (auto simp: deployment_checks_def checks_Inr non_production_def dest: base_url_safe)
  have sl': "enable_deployment_context_sync s \<and> deployment_allowed_slack_channels s \<noteq> [] \<and>
       present (slack_expected_team_id s) \<and> present (slack_expected_user_id s) \<and> safe_base_url (slack_base_url s) \<and>
       (\<exists>secret. get_secret (\<lambda>_. Inr ''t'') (slack_bot_token s) (slack_bot_token_file s) = Inr (Some secret)) \<and>
       slack_write_timeout_seconds s < worker_lease_duration_seconds s"
    if "enable_slack_notification s"
    using sl [OF that]
    by (auto simp: slack_checks_def checks_Inr get_secret_def py_strip_def is_space_def Let_def
        dest: base_url_safe split: option.splits)
  show ?thesis using \<open>s' = s\<close> misc pos dep' sl' cred by blast
qed

lemma settings_are_safe_witness:
  "make_settings (default_settings ''postgresql+asyncpg://db'') = Inr (default_settings ''postgresql+asyncpg://db'') \<and>
   0 < worker_retry_base_seconds (default_settings ''postgresql+asyncpg://db'')"
proof -
  let ?s = "default_settings ''postgresql+asyncpg://db''"
  have "settings_fields_ok ?s"
    by (simp add: settings_fields_ok_def default_settings_def in_range_def above_def opt_length_def)
  moreover have "require_async_postgresql_url (database_url ?s) = Inr ()"
    by (simp add: require_async_postgresql_url_def default_settings_def starts_with_def)
  moreover have "validate_worker_safety ?s = Inr ()"
    by (simp add: validate_worker_safety_def checks_Inr credential_check_def default_settings_def)
  ultimately have 1: "make_settings ?s = Inr ?s" by (simp add: make_settings_Inr)
  from 1 settings_are_safe [OF 1] show ?thesis by blast
qed

end
