(* ===== verification/Worker_Runner.thy ===== *)
theory Worker_Runner
  imports Shared_Store Handlers Config
begin

text \<open>
  \<open>worker/runner.py\<close>: the loop of one worker over the shared database. The world of a worker is the
  database, its two flags, the signals of the running handler and the names of the events it
  logged. What it does not control is an argument: for every database call a \<open>tick\<close> (what others
  committed since its previous call, the clock readings, a fault of the connection), for every
  wait what \<open>asyncio.wait\<close> returned with. Others include further processes, the handler's own evidence
  writes and the heartbeats that go on while a finalization runs; an operation whose identifier is
  in use cannot occur. The loop itself runs over a list of rounds, a finite prefix of its life.
\<close>

section \<open>The world\<close>

record worker =
  wr_db :: db
  wr_calls :: nat
  wr_stop_claiming :: bool
  wr_shutdown :: bool
  wr_signals :: signals
  wr_log :: "string list"

type_synonym 'a runner = "(worker, exn, 'a) io"

text \<open>The arguments of the constructor, the clock and connection, and \<open>uuid4\<close>.\<close>

record runner_env =
  rn_settings :: settings
  rn_registry :: "unit registry"
  rn_worker_id :: string
  rn_retry_policy :: retry_policy
  rn_ticks :: "nat \<Rightarrow> tick"
  rn_uuid4 :: "uuid list \<Rightarrow> uuid"

definition db_call :: "runner_env \<Rightarrow> (tick \<Rightarrow> db \<Rightarrow> exn + ('a \<times> db)) \<Rightarrow> 'a runner" where
  "db_call rn tx = (\<lambda>w. let tk = rn_ticks rn (wr_calls w) in
     case transact tk (tx tk) (wr_db w) of (r, d') \<Rightarrow> (r, w\<lparr>wr_db := d', wr_calls := wr_calls w + 1\<rparr>))"

definition log_event :: "string \<Rightarrow> unit runner" where
  "log_event event = (\<lambda>w. (Inr (), w\<lparr>wr_log := wr_log w @ [event]\<rparr>))"

definition stop_claiming :: "unit runner" where
  "stop_claiming = (\<lambda>w. (Inr (), w\<lparr>wr_stop_claiming := True\<rparr>))"

definition set_signal :: "(signals \<Rightarrow> signals) \<Rightarrow> unit runner" where
  "set_signal f = (\<lambda>w. (Inr (), w\<lparr>wr_signals := f (wr_signals w)\<rparr>))"

definition set_customer_cancellation :: "unit runner" where
  "set_customer_cancellation = set_signal (\<lambda>sg. sg\<lparr>customer_cancellation := True\<rparr>)"

definition set_ownership_lost :: "unit runner" where
  "set_ownership_lost = set_signal (\<lambda>sg. sg\<lparr>ownership_lost := True\<rparr>)"

definition observe_shutdown :: "bool \<Rightarrow> bool runner" where
  "observe_shutdown b = (\<lambda>w. (Inr (wr_shutdown w \<or> b), w\<lparr>wr_shutdown := wr_shutdown w \<or> b\<rparr>))"

section \<open>Repository calls\<close>

definition lease_seconds :: "runner_env \<Rightarrow> seconds" where
  "lease_seconds rn = worker_lease_duration_seconds (rn_settings rn)"

definition call_recover :: "runner_env \<Rightarrow> recovery_result option runner" where
  "call_recover rn = db_call rn (\<lambda>tk. recover_one_expired
     (delay_seconds (rn_retry_policy rn) (tk_random tk)) (tk_locked tk) (tk_now tk))"

definition call_claim :: "runner_env \<Rightarrow> claimed_task option runner" where
  "call_claim rn = db_call rn (\<lambda>tk d. claim_one (supported_task_types (rn_registry rn)) (rn_worker_id rn)
     (lease_seconds rn) (tk_raw_token tk) (rn_uuid4 rn (map a_id (task_attempts d))) (tk_locked tk)
     (tk_now tk) (tk_clock tk) d)"

definition call_heartbeat :: "runner_env \<Rightarrow> claimed_task \<Rightarrow> heartbeat_result runner" where
  "call_heartbeat rn claim = db_call rn (\<lambda>tk. heartbeat claim (lease_seconds rn) (tk_now tk))"

definition call_finalize_success :: "runner_env \<Rightarrow> claimed_task \<Rightarrow> jobj \<Rightarrow> fence_result runner" where
  "call_finalize_success rn claim result_value = db_call rn (\<lambda>tk. finalize_success claim result_value (tk_now tk))"

definition call_finalize_cancellation :: "runner_env \<Rightarrow> claimed_task \<Rightarrow> fence_result runner" where
  "call_finalize_cancellation rn claim = db_call rn (\<lambda>tk. finalize_cancellation claim (tk_now tk))"

definition call_finalize_failure ::
  "runner_env \<Rightarrow> claimed_task \<Rightarrow> string \<Rightarrow> string \<Rightarrow> string \<Rightarrow> fence_result runner" where
  "call_finalize_failure rn claim error_code error_summary terminal_reason =
     db_call rn (\<lambda>tk. finalize_failure claim error_code error_summary terminal_reason (tk_now tk))"

fun pf_value :: "pyfloat \<Rightarrow> rat" where
  "pf_value (FFin q) = q"
| "pf_value _ = 0"

text \<open>\<open>timedelta(seconds=delay)\<close> is evaluated before the transaction; it has no value for an infinity or a NaN.\<close>

definition call_schedule_retry ::
  "runner_env \<Rightarrow> claimed_task \<Rightarrow> pyfloat \<Rightarrow> string \<Rightarrow> string \<Rightarrow> string \<Rightarrow> fence_result runner" where
  "call_schedule_retry rn claim delay error_code error_summary terminal_reason =
     bindE (liftR (timedelta_seconds delay)) (\<lambda>_. db_call rn (\<lambda>tk.
       schedule_retry claim (pf_value delay) error_code error_summary terminal_reason (tk_now tk) (tk_clock tk)))"

section \<open>Outcomes\<close>

definition record_stale_execution :: "unit runner" where
  "record_stale_execution = seqE stop_claiming (log_event ''stale_worker_update_rejected'')"

definition finalize_customer_cancellation :: "runner_env \<Rightarrow> claimed_task \<Rightarrow> unit runner" where
  "finalize_customer_cancellation rn claim =
     bindE (call_finalize_cancellation rn claim) (\<lambda>fence_result.
       if fence_result \<noteq> APPLIED then record_stale_execution else log_event ''task_cancelled'')"

text \<open>The result tells whether the caller returns.\<close>

definition handle_failed_fence :: "runner_env \<Rightarrow> claimed_task \<Rightarrow> fence_result \<Rightarrow> bool runner" where
  "handle_failed_fence rn claim fence_result =
     (if fence_result = APPLIED then ret False
      else if fence_result = CANCELLATION_REQUESTED
      then seqE (finalize_customer_cancellation rn claim) (ret True)
      else seqE record_stale_execution (ret True))"

definition retry_delay :: "runner_env \<Rightarrow> claimed_task \<Rightarrow> pyfloat option \<Rightarrow> pyfloat runner" where
  "retry_delay rn claim retry_after_seconds = (case retry_after_seconds of
       Some v \<Rightarrow> ret v
     | None \<Rightarrow> (\<lambda>w. (map_sum id FFin (delay_seconds (rn_retry_policy rn)
         (tk_random (rn_ticks rn (wr_calls w))) (c_attempt_number claim)), w)))"

definition finalize_failure_policy ::
  "runner_env \<Rightarrow> claimed_task \<Rightarrow> string \<Rightarrow> string \<Rightarrow> string \<Rightarrow> bool \<Rightarrow> pyfloat option \<Rightarrow> unit runner" where
  "finalize_failure_policy rn claim error_code error_summary terminal_reason retryable retry_after_seconds =
     (if retryable \<and> c_attempt_number claim < c_max_attempts claim then
        bindE (retry_delay rn claim retry_after_seconds) (\<lambda>delay.
        bindE (call_schedule_retry rn claim delay error_code error_summary terminal_reason) (\<lambda>fence_result.
        bindE (handle_failed_fence rn claim fence_result) (\<lambda>returned.
          if returned then ret () else log_event ''task_retry_scheduled'')))
      else
        let final_reason = (if retryable \<and> c_attempt_number claim \<ge> c_max_attempts claim
              then ''max_attempts_exhausted'' else terminal_reason) in
        bindE (call_finalize_failure rn claim error_code error_summary final_reason) (\<lambda>fence_result.
        bindE (handle_failed_fence rn claim fence_result) (\<lambda>returned.
          if returned then ret () else log_event ''task_failed'')))"

text \<open>The \<open>except\<close> clauses, in their order; the handler's task is done, or \<open>result()\<close> raises.\<close>

definition handler_failure :: "runner_env \<Rightarrow> claimed_task \<Rightarrow> exn \<Rightarrow> unit runner" where
  "handler_failure rn claim e = (case e of
       TaskCancelled \<Rightarrow> finalize_customer_cancellation rn claim
     | OwnershipLostError \<Rightarrow> seqE stop_claiming (log_event ''worker_ownership_lost'')
     | RetryableTaskError error_code retry_after_seconds \<Rightarrow> finalize_failure_policy rn claim error_code
         ''Task execution failed and will be retried'' ''retryable_error'' True retry_after_seconds
     | HandlerContractError \<Rightarrow> finalize_failure_policy rn claim ''handler_contract_error''
         ''Handler returned an invalid result'' ''handler_contract_error'' False None
     | PermanentTaskError error_code \<Rightarrow> finalize_failure_policy rn claim error_code
         ''Task execution failed permanently'' ''permanent_error'' False None
     | AsyncCancelledError \<Rightarrow> stop_claiming
     | _ \<Rightarrow> seqE (log_event ''handler_unexpected_exception'') (finalize_failure_policy rn claim ''unexpected_error''
         ''Task execution failed unexpectedly'' ''unexpected_error'' True None))"

definition handle_handler_completion ::
  "runner_env \<Rightarrow> claimed_task \<Rightarrow> (exn + handler_value) option \<Rightarrow> unit runner" where
  "handle_handler_completion rn claim outcome =
     (case bindR (case outcome of None \<Rightarrow> Inl (OtherException ''InvalidStateError'') | Some r \<Rightarrow> r)
             (validate_handler_result (nat (worker_max_result_bytes (rn_settings rn)))) of
        Inl e \<Rightarrow> handler_failure rn claim e
      | Inr result_value \<Rightarrow>
          bindE (call_finalize_success rn claim result_value) (\<lambda>fence_result.
          bindE (handle_failed_fence rn claim fence_result) (\<lambda>returned.
            if returned then ret () else log_event ''task_succeeded'')))"

section \<open>Execution\<close>

text \<open>The heartbeats that fire during a wait; the loop ends with a cause or is still running.\<close>

fun heartbeat_loop :: "runner_env \<Rightarrow> claimed_task \<Rightarrow> nat \<Rightarrow> stop_cause option runner" where
  "heartbeat_loop rn claim 0 = ret None"
| "heartbeat_loop rn claim (Suc n) = (\<lambda>w. case call_heartbeat rn claim w of
       (Inl e, w') \<Rightarrow>
         if e = AsyncCancelledError then (Inl e, w')
         else seqE set_ownership_lost (seqE (log_event ''worker_ownership_lost'') (ret (Some OWNERSHIP_LOSS))) w'
     | (Inr r, w') \<Rightarrow>
         if r = HEARTBEAT_CANCELLATION_REQUESTED
         then seqE set_customer_cancellation (ret (Some CUSTOMER_CANCELLATION)) w'
         else seqE (log_event ''task_heartbeat'') (heartbeat_loop rn claim n) w')"

text \<open>How a wait ended: heartbeats that fired, the handler's outcome, the timer, the shutdown event.\<close>

record wake =
  wk_beats :: nat
  wk_handler :: "(exn + handler_value) option"
  wk_timeout :: bool
  wk_shutdown :: bool

datatype cancelled_handler = HANDLER_STOPS "exn + handler_value" | HANDLER_KEEPS_RUNNING

record execution =
  ex_first :: wake
  ex_grace :: wake
  ex_cancelled :: cancelled_handler

definition completed_cause :: "stop_cause option \<Rightarrow> bool \<Rightarrow> stop_cause option" where
  "completed_cause hb timeout =
     (case hb of Some c \<Rightarrow> Some c | None \<Rightarrow> if timeout then Some TIMEOUT else None)"

text \<open>A handler that answers its cancellation with \<open>TimeoutError\<close> is taken for one that goes on.\<close>

definition wait_for_cancelled_handler :: "cancelled_handler \<Rightarrow> bool" where
  "wait_for_cancelled_handler h = (case h of
     HANDLER_KEEPS_RUNNING \<Rightarrow> False
   | HANDLER_STOPS r \<Rightarrow> r \<noteq> Inl (OtherException ''TimeoutError''))"

definition handler_stopped :: "stop_cause \<Rightarrow> cancelled_handler \<Rightarrow> bool" where
  "handler_stopped cause h =
     (if cause = WORKER_SHUTDOWN then h \<noteq> HANDLER_KEEPS_RUNNING else wait_for_cancelled_handler h)"

text \<open>The two waits: the cause that stops the execution, or the handler's outcome.\<close>

definition await_execution ::
  "runner_env \<Rightarrow> claimed_task \<Rightarrow> execution \<Rightarrow> (stop_cause option \<times> (exn + handler_value) option) runner" where
  "await_execution rn claim ex =
     bindE (heartbeat_loop rn claim (wk_beats (ex_first ex))) (\<lambda>hb.
     bindE (observe_shutdown (wk_shutdown (ex_first ex))) (\<lambda>shutdown_done.
     let cause = completed_cause hb (wk_timeout (ex_first ex)) in
     if shutdown_done \<and> cause = None \<and> wk_handler (ex_first ex) = None then
       bindE (heartbeat_loop rn claim (wk_beats (ex_grace ex))) (\<lambda>hb'.
         ret (if hb' = None \<and> \<not> wk_timeout (ex_grace ex) \<and> wk_handler (ex_grace ex) = None then Some WORKER_SHUTDOWN
              else completed_cause hb' (wk_timeout (ex_grace ex)), wk_handler (ex_grace ex)))
     else ret (cause, wk_handler (ex_first ex))))"

definition stop_handler :: "stop_cause \<Rightarrow> cancelled_handler \<Rightarrow> unit runner" where
  "stop_handler cause h =
     seqE (if cause = CUSTOMER_CANCELLATION then set_customer_cancellation else ret ())
    (seqE (if cause = OWNERSHIP_LOSS then seqE set_ownership_lost stop_claiming else ret ())
          (if \<not> handler_stopped cause h then stop_claiming else ret ()))"

definition settle ::
  "runner_env \<Rightarrow> claimed_task \<Rightarrow> stop_cause option \<Rightarrow> (exn + handler_value) option \<Rightarrow> unit runner" where
  "settle rn claim cause outcome = (case cause of
       Some CUSTOMER_CANCELLATION \<Rightarrow> finalize_customer_cancellation rn claim
     | Some TIMEOUT \<Rightarrow> seqE (log_event ''handler_timeout'') (finalize_failure_policy rn claim ''execution_timeout''
         ''Task execution exceeded its time limit'' ''execution_timeout'' True None)
     | Some _ \<Rightarrow> ret ()
     | None \<Rightarrow> handle_handler_completion rn claim outcome)"

definition execute_claim :: "runner_env \<Rightarrow> execution \<Rightarrow> claimed_task \<Rightarrow> unit runner" where
  "execute_claim rn ex claim =
     bindE (liftR (registry_get (rn_registry rn) (c_task_type claim))) (\<lambda>_.
     seqE (set_signal (\<lambda>_. quiet))
    (bindE (await_execution rn claim ex) (\<lambda>(cause, outcome).
     seqE (case cause of None \<Rightarrow> ret () | Some c \<Rightarrow> stop_handler c (ex_cancelled ex))
          (settle rn claim cause outcome))))"

section \<open>The loop\<close>

record round =
  ro_shutdown :: bool
  ro_poll_shutdown :: bool
  ro_execution :: execution

definition poll_wait :: "round \<Rightarrow> unit runner" where
  "poll_wait ro = bindE (observe_shutdown (ro_poll_shutdown ro)) (\<lambda>_. ret ())"

definition acquire :: "runner_env \<Rightarrow> claimed_task option runner" where
  "acquire rn =
     bindE (call_recover rn) (\<lambda>recovery.
     seqE (if recovery \<noteq> None then log_event ''task_lease_expired'' else ret ()) (call_claim rn))"

text \<open>\<open>except Exception\<close>: every exception but the cancellation of the asyncio task.\<close>

definition run_round :: "runner_env \<Rightarrow> round \<Rightarrow> unit runner" where
  "run_round rn ro =
     bindE (catchE (bindE (acquire rn) (\<lambda>claim. ret (Some claim)))
       (\<lambda>e. if e = AsyncCancelledError then None else Some (seqE (log_event ''worker_database_unavailable'') (ret None))))
     (\<lambda>acquired. case acquired of
        None \<Rightarrow> poll_wait ro
      | Some None \<Rightarrow> poll_wait ro
      | Some (Some claim) \<Rightarrow> seqE (log_event ''task_claimed'') (execute_claim rn (ro_execution ro) claim))"

text \<open>The loop condition; a signal may arrive at any time before it is read.\<close>

fun run_rounds :: "runner_env \<Rightarrow> round list \<Rightarrow> unit runner" where
  "run_rounds rn [] = ret ()"
| "run_rounds rn (ro # ros) = (\<lambda>w.
     if wr_shutdown w \<or> ro_shutdown ro \<or> wr_stop_claiming w then (Inr (), w\<lparr>wr_shutdown := wr_shutdown w \<or> ro_shutdown ro\<rparr>)
     else seqE (run_round rn ro) (run_rounds rn ros) w)"

definition run :: "runner_env \<Rightarrow> round list \<Rightarrow> unit runner" where
  "run rn ros w = (case seqE (log_event ''worker_started'') (run_rounds rn ros) w of
     (r, w') \<Rightarrow> (case log_event ''worker_stopping'' w' of (_, w'') \<Rightarrow> (r, w'')))"

definition start_worker :: "db \<Rightarrow> worker" where
  "start_worker d = \<lparr>wr_db = d, wr_calls = 0, wr_stop_claiming = False, wr_shutdown = False,
     wr_signals = quiet, wr_log = []\<rparr>"

end
