(* ===== verification/Runner_Safety.thy ===== *)
theory Runner_Safety
  imports Worker_Runner
begin

text \<open>
  The runner over the store: whatever others do and whatever the connection loses, a worker keeps
  every invariant of the database, leaves no claim behind that it could still be executing, and
  writes for a completed handler exactly the finalization its outcome asks for.
\<close>

section \<open>Database calls\<close>

text \<open>\<open>uuid4\<close> does not repeat an identifier; the worker identifier fits its column.\<close>

definition sound_env :: "runner_env \<Rightarrow> bool" where
  "sound_env rn \<longleftrightarrow> (\<forall>xs. rn_uuid4 rn xs \<notin> set xs) \<and> length (rn_worker_id rn) \<le> 255"

definition kept :: "db \<Rightarrow> bool \<Rightarrow> worker \<Rightarrow> bool" where
  "kept d0 sh w \<longleftrightarrow> system_inv (wr_db w) \<and> system_le d0 (wr_db w) \<and> (sh \<longrightarrow> wr_shutdown w)"

lemma kept_simps [simp]:
  "kept d0 sh (w\<lparr>wr_log := l\<rparr>) = kept d0 sh w" "kept d0 sh (w\<lparr>wr_stop_claiming := b\<rparr>) = kept d0 sh w"
  "kept d0 sh (w\<lparr>wr_signals := sg\<rparr>) = kept d0 sh w"
  by (simp_all add: kept_def)

text \<open>A transaction is sound when its commit is a step of the system; \<open>R\<close> is what its result tells.\<close>

definition sound_tx :: "(tick \<Rightarrow> db \<Rightarrow> exn + ('a \<times> db)) \<Rightarrow> ('a \<Rightarrow> db \<Rightarrow> bool) \<Rightarrow> bool" where
  "sound_tx tx R \<longleftrightarrow> (\<forall>tk d x d'. system_inv d \<and> tx tk d = Inr (x, d') \<longrightarrow> system_inv d' \<and> system_le d d' \<and> R x d')"

lemma hoare_db_call:
  assumes "sound_tx tx R"
  shows "hoare (kept d0 sh) (db_call rn tx) (\<lambda>x w. kept d0 sh w \<and> R x (wr_db w)) (\<lambda>_. kept d0 sh)"
  unfolding hoare_def
proof (intro allI impI)
  fix w assume k: "kept d0 sh w"
  let ?tk = "rn_ticks rn (wr_calls w)"
  obtain r d' where run: "transact ?tk (tx ?tk) (wr_db w) = (r, d')" by (cases "transact ?tk (tx ?tk) (wr_db w)")
  have sound: "system_inv e' \<and> system_le e e' \<and> R x e'" if "system_inv e" "tx ?tk e = Inr (x, e')" for e x e'
    using assms that unfolding sound_tx_def by blast
  have "system_inv d' \<and> system_le (wr_db w) d'"
    by (rule transact_sound [OF _ _ run]) (use k sound in \<open>auto simp: kept_def\<close>)
  then have "kept d0 sh (w\<lparr>wr_db := d', wr_calls := wr_calls w + 1\<rparr>)"
    using k sys.le_trans by (auto simp: kept_def)
  moreover have "R x d'" if "r = Inr x" for x
    using sound [OF _ transact_Inr [of ?tk "tx ?tk" "wr_db w" x d']] that run interfere_sound k by (auto simp: kept_def)
  ultimately show "case db_call rn tx w of (Inl e, w') \<Rightarrow> kept d0 sh w' | (Inr x, w') \<Rightarrow> kept d0 sh w' \<and> R x (wr_db w')"
    by (cases r) (simp_all add: db_call_def run)
qed

lemma sound_tx_op:
  assumes "\<And>tk d x d'. system_inv d \<Longrightarrow> tx tk d = Inr (x, d') \<Longrightarrow>
    (\<exists>op. system_op_ok op d \<and> run_system_op op d = d') \<and> (queue_inv d \<longrightarrow> R x d')"
  shows "sound_tx tx R"
  unfolding sound_tx_def
proof (intro allI impI)
  fix tk d x d' assume a: "system_inv d \<and> tx tk d = Inr (x, d')"
  then obtain op where "system_op_ok op d" "run_system_op op d = d'" and R: "queue_inv d \<longrightarrow> R x d'" using assms by blast
  then have "system_inv d' \<and> system_le d d'" using sys.keeps [of d op] sys.grows [of d op] a by auto
  with R a show "system_inv d' \<and> system_le d d' \<and> R x d'" by (simp add: system_inv_def)
qed

lemma sound_tx_finalization:
  assumes "\<And>tk d. tx tk d = run_finalization (f tk) c (now tk) d" and "\<And>tk. finalization_ok (f tk)"
  shows "sound_tx tx (\<lambda>r d'. r = APPLIED \<longrightarrow> superseded c d')"
proof (rule sound_tx_op)
  fix tk d r d' assume "tx tk d = Inr (r, d')"
  then have run: "run_finalization (f tk) c (now tk) d = Inr (r, d')" using assms(1) by simp
  then have "system_op_ok (Queue_Op (OpFinalize (f tk) c (now tk))) d \<and>
      run_system_op (Queue_Op (OpFinalize (f tk) c (now tk))) d = d'" using assms(2) by simp
  with applied_superseded run show "(\<exists>op. system_op_ok op d \<and> run_system_op op d = d') \<and>
      (queue_inv d \<longrightarrow> r = APPLIED \<longrightarrow> superseded c d')" by blast
qed

abbreviation closes :: "db \<Rightarrow> bool \<Rightarrow> claimed_task \<Rightarrow> fence_result runner \<Rightarrow> bool" where
  "closes d0 sh c m \<equiv> hoare (kept d0 sh) m (\<lambda>r w. kept d0 sh w \<and> (r = APPLIED \<longrightarrow> superseded c (wr_db w))) (\<lambda>_. kept d0 sh)"

lemma hoare_finalize_success: "closes d0 sh c (call_finalize_success rn c v)"
  unfolding call_finalize_success_def
  by (rule hoare_db_call, rule sound_tx_finalization [where f = "\<lambda>_. FinSuccess v" and now = tk_now]) simp_all

lemma hoare_finalize_cancellation: "closes d0 sh c (call_finalize_cancellation rn c)"
  unfolding call_finalize_cancellation_def
  by (rule hoare_db_call, rule sound_tx_finalization [where f = "\<lambda>_. FinCancellation" and now = tk_now]) simp_all

lemma hoare_finalize_failure:
  "length code \<le> 100 \<Longrightarrow> length summary \<le> 500 \<Longrightarrow> length reason \<le> 100 \<Longrightarrow>
   closes d0 sh c (call_finalize_failure rn c code summary reason)"
  unfolding call_finalize_failure_def
  by (rule hoare_db_call, rule sound_tx_finalization [where f = "\<lambda>_. FinFailure code summary reason" and now = tk_now]) simp_all

lemma hoare_schedule_retry:
  assumes "length code \<le> 100" "length summary \<le> 500" "length reason \<le> 100"
  shows "closes d0 sh c (call_schedule_retry rn c delay code summary reason)"
  unfolding call_schedule_retry_def
proof (rule hoare_bind)
  show "hoare (kept d0 sh) (liftR (timedelta_seconds delay)) (\<lambda>_. kept d0 sh) (\<lambda>_. kept d0 sh)"
    by (rule hoare_liftR) simp_all
  show "closes d0 sh c (db_call rn (\<lambda>tk. schedule_retry c (pf_value delay) code summary reason (tk_now tk) (tk_clock tk)))"
    by (rule hoare_db_call, rule sound_tx_finalization
        [where f = "\<lambda>tk. FinRetry (pf_value delay) code summary reason (tk_clock tk)" and now = tk_now]) (use assms in simp_all)
qed

lemma hoare_heartbeat:
  "hoare (kept d0 sh) (call_heartbeat rn c) (\<lambda>_. kept d0 sh) (\<lambda>_. kept d0 sh)"
proof -
  have "sound_tx (\<lambda>tk. heartbeat c (lease_seconds rn) (tk_now tk)) (\<lambda>_ _. True)"
  proof (rule sound_tx_op)
    fix tk d x d' assume "heartbeat c (lease_seconds rn) (tk_now tk) d = Inr (x, d')"
    then show "(\<exists>op. system_op_ok op d \<and> run_system_op op d = d') \<and> (queue_inv d \<longrightarrow> True)"
      by (intro conjI exI [of _ "Queue_Op (OpHeartbeat c (lease_seconds rn) (tk_now tk))"]) simp_all
  qed
  then show ?thesis using hoare_db_call unfolding call_heartbeat_def by fastforce
qed

lemma hoare_recover: "hoare (kept d0 sh) (call_recover rn) (\<lambda>_. kept d0 sh) (\<lambda>_. kept d0 sh)"
proof -
  let ?tx = "\<lambda>tk. recover_one_expired (delay_seconds (rn_retry_policy rn) (tk_random tk)) (tk_locked tk) (tk_now tk)"
  have "sound_tx ?tx (\<lambda>_ _. True)"
  proof (rule sound_tx_op)
    fix tk d x d' assume "?tx tk d = Inr (x, d')"
    then show "(\<exists>op. system_op_ok op d \<and> run_system_op op d = d') \<and> (queue_inv d \<longrightarrow> True)"
      by (intro conjI exI [of _ "Queue_Op (OpRecover (delay_seconds (rn_retry_policy rn) (tk_random tk)) (tk_locked tk) (tk_now tk))"])
        simp_all
  qed
  then show ?thesis using hoare_db_call unfolding call_recover_def by fastforce
qed

lemma hoare_claim:
  assumes "sound_env rn"
  shows "hoare (kept d0 sh) (call_claim rn) (\<lambda>_. kept d0 sh) (\<lambda>_. kept d0 sh)"
proof -
  let ?tx = "\<lambda>tk d. claim_one (supported_task_types (rn_registry rn)) (rn_worker_id rn) (lease_seconds rn) (tk_raw_token tk)
    (rn_uuid4 rn (map a_id (task_attempts d))) (tk_locked tk) (tk_now tk) (tk_clock tk) d"
  have "sound_tx ?tx (\<lambda>_ _. True)"
  proof (rule sound_tx_op)
    fix tk d x d' assume run: "?tx tk d = Inr (x, d')"
    have "rn_uuid4 rn (map a_id (task_attempts d)) \<notin> set (map a_id (task_attempts d))"
      using assms unfolding sound_env_def by blast
    with run assms show "(\<exists>op. system_op_ok op d \<and> run_system_op op d = d') \<and> (queue_inv d \<longrightarrow> True)"
      by (intro conjI exI [of _ "Queue_Op (OpClaim (supported_task_types (rn_registry rn)) (rn_worker_id rn) (lease_seconds rn)
            (tk_raw_token tk) (rn_uuid4 rn (map a_id (task_attempts d))) (tk_locked tk) (tk_now tk) (tk_clock tk))"])
        (simp_all add: sound_env_def)
  qed
  then show ?thesis using hoare_db_call unfolding call_claim_def by fastforce
qed

section \<open>Outcomes\<close>

text \<open>A claim the worker is done with, or a worker that takes no further claim.\<close>

definition released :: "db \<Rightarrow> bool \<Rightarrow> claimed_task \<Rightarrow> worker \<Rightarrow> bool" where
  "released d0 sh c w \<longleftrightarrow> kept d0 sh w \<and> (superseded c (wr_db w) \<or> wr_stop_claiming w)"

lemma released_simps [simp]: "released d0 sh c (w\<lparr>wr_log := l\<rparr>) = released d0 sh c w"
  by (simp add: released_def)

lemma hoare_log: "(\<And>w l. P (w\<lparr>wr_log := l\<rparr>) = P w) \<Longrightarrow> hoare P (log_event e) (\<lambda>_. P) E"
  by (simp add: log_event_def hoare_def)

lemma hoare_stop: "hoare (kept d0 sh) stop_claiming (\<lambda>_ w. kept d0 sh w \<and> wr_stop_claiming w) E"
  by (simp add: stop_claiming_def hoare_def)

lemma hoare_stale: "hoare (kept d0 sh) record_stale_execution (\<lambda>_. released d0 sh c) E"
  unfolding record_stale_execution_def seqE_def stop_claiming_def log_event_def
  by (simp add: hoare_def bindE_def released_def)

lemma hoare_customer_cancellation:
  "hoare (kept d0 sh) (finalize_customer_cancellation rn c) (\<lambda>_. released d0 sh c) (\<lambda>_. kept d0 sh)"
  unfolding finalize_customer_cancellation_def
proof (rule hoare_bind [OF hoare_finalize_cancellation])
  fix r
  show "hoare (\<lambda>w. kept d0 sh w \<and> (r = APPLIED \<longrightarrow> superseded c (wr_db w)))
      (if r \<noteq> APPLIED then record_stale_execution else log_event ''task_cancelled'') (\<lambda>_. released d0 sh c) (\<lambda>_. kept d0 sh)"
    by (rule hoare_if, rule hoare_conseq [OF hoare_stale], simp_all)
      (rule hoare_conseq [OF hoare_log [of "released d0 sh c"]], simp_all add: released_def)
qed

text \<open>What follows every finalization: a refused one is a cancellation or stale.\<close>

lemma hoare_after_fence:
  "hoare (\<lambda>w. kept d0 sh w \<and> (r = APPLIED \<longrightarrow> superseded c (wr_db w)))
     (bindE (handle_failed_fence rn c r) (\<lambda>returned. if returned then ret () else log_event event))
     (\<lambda>_. released d0 sh c) (\<lambda>_. kept d0 sh)"
proof (rule hoare_bind [where R = "\<lambda>_. released d0 sh c"])
  show "hoare (\<lambda>w. kept d0 sh w \<and> (r = APPLIED \<longrightarrow> superseded c (wr_db w))) (handle_failed_fence rn c r)
      (\<lambda>_. released d0 sh c) (\<lambda>_. kept d0 sh)"
    unfolding handle_failed_fence_def
    by (intro hoare_if; (rule hoare_seq [where R = "released d0 sh c"])?)
      (auto intro!: hoare_ret hoare_conseq [OF hoare_customer_cancellation] hoare_conseq [OF hoare_stale]
        simp: released_def)
  show "hoare (released d0 sh c) (if returned then ret () else log_event event) (\<lambda>_. released d0 sh c) (\<lambda>_. kept d0 sh)" for returned
    by (intro hoare_if hoare_ret hoare_log) simp_all
qed

lemma hoare_failure_policy:
  assumes "length code \<le> 100" "length summary \<le> 500" "length reason \<le> 100"
  shows "hoare (kept d0 sh) (finalize_failure_policy rn c code summary reason retryable after)
     (\<lambda>_. released d0 sh c) (\<lambda>_. kept d0 sh)"
proof -
  have delay: "hoare (kept d0 sh) (retry_delay rn c after) (\<lambda>_. kept d0 sh) (\<lambda>_. kept d0 sh)"
    by (simp add: retry_delay_def hoare_def effect_simps split: option.splits sum.splits)
  show ?thesis
    unfolding finalize_failure_policy_def Let_def
    by (intro hoare_if hoare_bind [OF delay] hoare_bind [OF hoare_schedule_retry] hoare_bind [OF hoare_finalize_failure]
        hoare_after_fence) (use assms in simp_all)
qed

text \<open>The error codes of the handlers are short constants.\<close>

definition short_outcome :: "(exn + handler_value) option \<Rightarrow> bool" where
  "short_outcome r \<longleftrightarrow> (case r of Some (Inl e) \<Rightarrow> length (error_code_of e) \<le> 100 | _ \<Rightarrow> True)"

lemma hoare_handler_failure:
  assumes "length (error_code_of e) \<le> 100"
  shows "hoare (kept d0 sh) (handler_failure rn c e) (\<lambda>_. released d0 sh c) (\<lambda>_. kept d0 sh)"
proof -
  note policy = hoare_failure_policy
  have stop: "hoare (kept d0 sh) stop_claiming (\<lambda>_. released d0 sh c) (\<lambda>_. kept d0 sh)"
    by (rule hoare_conseq [OF hoare_stop [where E = "\<lambda>_. kept d0 sh"]]) (auto simp: released_def)
  have lost: "hoare (kept d0 sh) (seqE stop_claiming (log_event ev)) (\<lambda>_. released d0 sh c) (\<lambda>_. kept d0 sh)" for ev
    by (rule hoare_seq [OF stop], rule hoare_log) simp
  have other: "hoare (kept d0 sh) (seqE (log_event ev) (finalize_failure_policy rn c ''unexpected_error''
         ''Task execution failed unexpectedly'' ''unexpected_error'' True None)) (\<lambda>_. released d0 sh c) (\<lambda>_. kept d0 sh)" for ev
    by (rule hoare_seq [where R = "kept d0 sh"], rule hoare_log, simp, rule policy) simp_all
  show ?thesis
    using assms hoare_customer_cancellation [of d0 sh rn c]
    by (cases e) (auto simp: handler_failure_def intro!: stop lost other policy)
qed

lemma validated_short:
  assumes "short_outcome r"
    and "bindR (case r of None \<Rightarrow> Inl (OtherException s) | Some r \<Rightarrow> r) (validate_handler_result n) = Inl e"
  shows "length (error_code_of e) \<le> 100"
  using assms
  by (auto simp: short_outcome_def result_simps dest!: validate_handler_result_error split: option.splits sum.splits)

lemma hoare_completion:
  assumes "short_outcome r"
  shows "hoare (kept d0 sh) (handle_handler_completion rn c r) (\<lambda>_. released d0 sh c) (\<lambda>_. kept d0 sh)"
proof (cases "bindR (case r of None \<Rightarrow> Inl (OtherException ''InvalidStateError'') | Some r \<Rightarrow> r)
    (validate_handler_result (nat (worker_max_result_bytes (rn_settings rn))))")
  case (Inl e)
  then show ?thesis
    using hoare_handler_failure [OF validated_short [OF assms Inl]] by (simp add: handle_handler_completion_def)
next
  case (Inr v)
  then show ?thesis
    by (simp add: handle_handler_completion_def hoare_bind [OF hoare_finalize_success hoare_after_fence])
qed

section \<open>Execution\<close>

lemma hoare_heartbeat_loop:
  "hoare (kept d0 sh) (heartbeat_loop rn c n) (\<lambda>r w. kept d0 sh w \<and> r \<noteq> Some WORKER_SHUTDOWN \<and> r \<noteq> Some TIMEOUT) (\<lambda>_. kept d0 sh)"
proof (induction n)
  case 0
  show ?case by (simp add: hoare_ret)
next
  case (Suc n)
  show ?case
    unfolding hoare_def
  proof (intro allI impI)
    fix w assume k: "kept d0 sh w"
    show "case heartbeat_loop rn c (Suc n) w of
        (Inl e, w') \<Rightarrow> kept d0 sh w'
      | (Inr r, w') \<Rightarrow> kept d0 sh w' \<and> r \<noteq> Some WORKER_SHUTDOWN \<and> r \<noteq> Some TIMEOUT"
    proof (cases "call_heartbeat rn c w")
      case (Pair x w')
      then have k': "kept d0 sh w'" using k hoareD_ret [OF hoare_heartbeat k] hoareD_raise [OF hoare_heartbeat k] by (cases x) auto
      have IH: "case heartbeat_loop rn c n (w'\<lparr>wr_log := l\<rparr>) of (Inl e, w'') \<Rightarrow> kept d0 sh w''
          | (Inr r, w'') \<Rightarrow> kept d0 sh w'' \<and> r \<noteq> Some WORKER_SHUTDOWN \<and> r \<noteq> Some TIMEOUT" for l
        using Suc k' by (simp add: hoare_def)
      show ?thesis
        using k' IH
        by (cases x) (auto simp: Pair seqE_def bindE_def log_event_def set_ownership_lost_def set_customer_cancellation_def
            set_signal_def ret_def)
    qed
  qed
qed

text \<open>A stop cause is in force: the signal or the flag that belongs to it is up.\<close>

definition awaited :: "db \<Rightarrow> execution \<Rightarrow> stop_cause option \<times> (exn + handler_value) option \<Rightarrow> worker \<Rightarrow> bool" where
  "awaited d0 ex r w \<longleftrightarrow> kept d0 (fst r = Some WORKER_SHUTDOWN) w \<and> snd r \<in> {wk_handler (ex_first ex), wk_handler (ex_grace ex)}"

lemma hoare_observe:
  "hoare (kept d0 sh) (observe_shutdown b) (\<lambda>r w. kept d0 (sh \<or> r) w) E"
  by (simp add: observe_shutdown_def hoare_def kept_def)

lemma kept_weaken: "kept d0 sh w \<Longrightarrow> (sh' \<Longrightarrow> sh) \<Longrightarrow> kept d0 sh' w"
  by (auto simp: kept_def)

lemma hoare_await:
  "hoare (kept d0 False) (await_execution rn c ex) (awaited d0 ex) (\<lambda>_. kept d0 False)"
  unfolding await_execution_def
proof (rule hoare_bind [OF hoare_heartbeat_loop])
  fix hb
  let ?P = "\<lambda>w. kept d0 False w \<and> hb \<noteq> Some WORKER_SHUTDOWN \<and> hb \<noteq> Some TIMEOUT"
  show "hoare ?P (bindE (observe_shutdown (wk_shutdown (ex_first ex))) (\<lambda>shutdown_done.
     let cause = completed_cause hb (wk_timeout (ex_first ex)) in
     if shutdown_done \<and> cause = None \<and> wk_handler (ex_first ex) = None then
       bindE (heartbeat_loop rn c (wk_beats (ex_grace ex))) (\<lambda>hb'.
         ret (if hb' = None \<and> \<not> wk_timeout (ex_grace ex) \<and> wk_handler (ex_grace ex) = None then Some WORKER_SHUTDOWN
              else completed_cause hb' (wk_timeout (ex_grace ex)), wk_handler (ex_grace ex)))
     else ret (cause, wk_handler (ex_first ex)))) (awaited d0 ex) (\<lambda>_. kept d0 False)"
    unfolding Let_def
  proof (rule hoare_bind [where R = "\<lambda>sd w. kept d0 sd w \<and> hb \<noteq> Some WORKER_SHUTDOWN"], goal_cases)
    case 1
    show ?case by (rule hoare_pre_pure [of _ "hb \<noteq> Some WORKER_SHUTDOWN"], simp)
      (rule hoare_conseq [OF hoare_observe], auto)
  next
    case (2 sd)
    show ?case
    proof (rule hoare_if)
      assume "sd \<and> completed_cause hb (wk_timeout (ex_first ex)) = None \<and> wk_handler (ex_first ex) = None"
      then have pre: "kept d0 sd w \<and> hb \<noteq> Some WORKER_SHUTDOWN \<Longrightarrow> kept d0 True w" for w by simp
      show "hoare (\<lambda>w. kept d0 sd w \<and> hb \<noteq> Some WORKER_SHUTDOWN) (bindE (heartbeat_loop rn c (wk_beats (ex_grace ex))) (\<lambda>hb'.
         ret (if hb' = None \<and> \<not> wk_timeout (ex_grace ex) \<and> wk_handler (ex_grace ex) = None then Some WORKER_SHUTDOWN
              else completed_cause hb' (wk_timeout (ex_grace ex)), wk_handler (ex_grace ex))))
         (awaited d0 ex) (\<lambda>_. kept d0 False)"
        by (rule hoare_bind, rule hoare_conseq [OF hoare_heartbeat_loop [of d0 True]], rule pre, assumption, assumption)
          (auto simp: awaited_def completed_cause_def intro!: hoare_ret intro: kept_weaken split: option.splits)
    next
      assume "\<not> (sd \<and> completed_cause hb (wk_timeout (ex_first ex)) = None \<and> wk_handler (ex_first ex) = None)"
      show "hoare (\<lambda>w. kept d0 sd w \<and> hb \<noteq> Some WORKER_SHUTDOWN) (ret (completed_cause hb (wk_timeout (ex_first ex)), wk_handler (ex_first ex)))
         (awaited d0 ex) (\<lambda>_. kept d0 False)"
        by (rule hoare_ret) (auto simp: awaited_def completed_cause_def intro: kept_weaken split: option.splits if_splits)
    qed
  qed
qed

definition short_execution :: "execution \<Rightarrow> bool" where
  "short_execution ex \<longleftrightarrow> short_outcome (wk_handler (ex_first ex)) \<and> short_outcome (wk_handler (ex_grace ex))"

definition let_go :: "db \<Rightarrow> claimed_task \<Rightarrow> worker \<Rightarrow> bool" where
  "let_go d0 c w \<longleftrightarrow> kept d0 False w \<and> (superseded c (wr_db w) \<or> wr_stop_claiming w \<or> wr_shutdown w)"

lemma hoare_stop_handler:
  "hoare (kept d0 sh) (stop_handler cause h) (\<lambda>_ w. kept d0 sh w \<and> (cause = OWNERSHIP_LOSS \<longrightarrow> wr_stop_claiming w)) E"
  unfolding stop_handler_def seqE_def set_customer_cancellation_def set_ownership_lost_def set_signal_def stop_claiming_def
  by (simp add: hoare_def bindE_def ret_def)

lemma hoare_settle:
  assumes "short_outcome r"
  shows "hoare (\<lambda>w. kept d0 (cause = Some WORKER_SHUTDOWN) w \<and> (cause = Some OWNERSHIP_LOSS \<longrightarrow> wr_stop_claiming w))
     (settle rn c cause r) (\<lambda>_. let_go d0 c) (\<lambda>_. kept d0 False)"
proof -
  have weak: "hoare (\<lambda>w. kept d0 (cause = Some WORKER_SHUTDOWN) w \<and> (cause = Some OWNERSHIP_LOSS \<longrightarrow> wr_stop_claiming w))
      m (\<lambda>_. let_go d0 c) (\<lambda>_. kept d0 False)"
    if "hoare (kept d0 False) m (\<lambda>_. released d0 False c) (\<lambda>_. kept d0 False)" for m
    by (rule hoare_conseq [OF that]) (auto simp: let_go_def released_def intro: kept_weaken)
  have timeout: "hoare (kept d0 False) (seqE (log_event ev) (finalize_failure_policy rn c ''execution_timeout''
         ''Task execution exceeded its time limit'' ''execution_timeout'' True None)) (\<lambda>_. released d0 False c) (\<lambda>_. kept d0 False)" for ev
    by (rule hoare_seq [where R = "kept d0 False"], rule hoare_log, simp, rule hoare_failure_policy) simp_all
  show ?thesis
  proof (cases cause)
    case None
    then show ?thesis using weak [OF hoare_completion [OF assms, of d0 False rn c]] by (simp add: settle_def)
  next
    case (Some k)
    then show ?thesis
      using weak [OF hoare_customer_cancellation [of d0 False rn c]] weak [OF timeout]
      by (cases k) (auto simp: settle_def let_go_def kept_def intro!: hoare_ret)
  qed
qed

lemma hoare_execute:
  assumes "short_execution ex"
  shows "hoare (kept d0 False) (execute_claim rn ex c) (\<lambda>_. let_go d0 c) (\<lambda>_. kept d0 False)"
  unfolding execute_claim_def
proof (rule hoare_bind)
  show "hoare (kept d0 False) (liftR (registry_get (rn_registry rn) (c_task_type c))) (\<lambda>_. kept d0 False) (\<lambda>_. kept d0 False)"
    by (rule hoare_liftR) simp_all
  show "hoare (kept d0 False) (seqE (set_signal (\<lambda>_. quiet)) (bindE (await_execution rn c ex) (\<lambda>(cause, outcome).
     seqE (case cause of None \<Rightarrow> ret () | Some c \<Rightarrow> stop_handler c (ex_cancelled ex)) (settle rn c cause outcome))))
     (\<lambda>_. let_go d0 c) (\<lambda>_. kept d0 False)" for u :: unit
  proof (rule hoare_seq [where R = "kept d0 False"])
    show "hoare (kept d0 False) (set_signal (\<lambda>_. quiet)) (\<lambda>_. kept d0 False) (\<lambda>_. kept d0 False)"
      by (simp add: set_signal_def hoare_def)
    show "hoare (kept d0 False) (bindE (await_execution rn c ex) (\<lambda>(cause, outcome).
       seqE (case cause of None \<Rightarrow> ret () | Some c \<Rightarrow> stop_handler c (ex_cancelled ex)) (settle rn c cause outcome)))
       (\<lambda>_. let_go d0 c) (\<lambda>_. kept d0 False)"
    proof (rule hoare_bind [OF hoare_await], clarify)
      fix cause r
      let ?sh = "cause = Some WORKER_SHUTDOWN"
      have stop: "hoare (kept d0 ?sh) (case cause of None \<Rightarrow> ret () | Some k \<Rightarrow> stop_handler k (ex_cancelled ex))
          (\<lambda>_ w. kept d0 ?sh w \<and> (cause = Some OWNERSHIP_LOSS \<longrightarrow> wr_stop_claiming w)) (\<lambda>_. kept d0 False)"
        using hoare_stop_handler [of d0 ?sh _ "ex_cancelled ex"] by (cases cause) (auto intro: hoare_ret)
      show "hoare (awaited d0 ex (cause, r)) (seqE (case cause of None \<Rightarrow> ret () | Some k \<Rightarrow> stop_handler k (ex_cancelled ex))
          (settle rn c cause r)) (\<lambda>_. let_go d0 c) (\<lambda>_. kept d0 False)"
      proof (rule hoare_pre_pure [of _ "short_outcome r"])
        show "short_outcome r" if "awaited d0 ex (cause, r) w" for w
          using that assms by (auto simp: awaited_def short_execution_def)
        show "hoare (awaited d0 ex (cause, r)) (seqE (case cause of None \<Rightarrow> ret () | Some k \<Rightarrow> stop_handler k (ex_cancelled ex))
            (settle rn c cause r)) (\<lambda>_. let_go d0 c) (\<lambda>_. kept d0 False)" if "short_outcome r"
          by (rule hoare_conseq [OF hoare_seq [OF stop hoare_settle [OF that]]]) (auto simp: awaited_def)
      qed
    qed
  qed
qed

section \<open>The loop\<close>

lemma hoare_poll: "hoare (kept d0 False) (poll_wait ro) (\<lambda>_. kept d0 False) (\<lambda>_. kept d0 False)"
  by (simp add: poll_wait_def observe_shutdown_def hoare_def bindE_def ret_def kept_def)

lemma hoare_acquire:
  assumes "sound_env rn"
  shows "hoare (kept d0 False) (acquire rn) (\<lambda>_. kept d0 False) (\<lambda>_. kept d0 False)"
  unfolding acquire_def
proof (rule hoare_bind [OF hoare_recover])
  show "hoare (kept d0 False) (seqE (if r \<noteq> None then log_event ''task_lease_expired'' else ret ()) (call_claim rn))
      (\<lambda>_. kept d0 False) (\<lambda>_. kept d0 False)" for r
    by (rule hoare_seq [OF _ hoare_claim [OF assms]], intro hoare_if hoare_log hoare_ret) simp_all
qed

lemma hoare_round:
  assumes "sound_env rn" "short_execution (ro_execution ro)"
  shows "hoare (kept d0 False) (run_round rn ro) (\<lambda>_. kept d0 False) (\<lambda>_. kept d0 False)"
  unfolding run_round_def
proof (rule hoare_bind [where R = "\<lambda>_. kept d0 False"])
  show "hoare (kept d0 False) (catchE (bindE (acquire rn) (\<lambda>claim. ret (Some claim)))
       (\<lambda>e. if e = AsyncCancelledError then None else Some (seqE (log_event ''worker_database_unavailable'') (ret None))))
     (\<lambda>_. kept d0 False) (\<lambda>_. kept d0 False)"
  proof (rule hoare_catch [where R = "\<lambda>_. kept d0 False"])
    show "hoare (kept d0 False) (bindE (acquire rn) (\<lambda>claim. ret (Some claim))) (\<lambda>_. kept d0 False) (\<lambda>_. kept d0 False)"
      by (rule hoare_bind [OF hoare_acquire [OF assms(1)]], rule hoare_ret)
    show "hoare (kept d0 False) k (\<lambda>_. kept d0 False) (\<lambda>_. kept d0 False)"
      if "(if e = AsyncCancelledError then None else Some (seqE (log_event ''worker_database_unavailable'') (ret None))) = Some k" for e k
      using that by (auto split: if_splits intro!: hoare_seq [where R = "kept d0 False"] hoare_log hoare_ret)
  qed
  show "hoare (kept d0 False) (case acquired of None \<Rightarrow> poll_wait ro | Some None \<Rightarrow> poll_wait ro
      | Some (Some claim) \<Rightarrow> seqE (log_event ''task_claimed'') (execute_claim rn (ro_execution ro) claim))
     (\<lambda>_. kept d0 False) (\<lambda>_. kept d0 False)" for acquired
  proof -
    have "hoare (kept d0 False) (seqE (log_event ''task_claimed'') (execute_claim rn (ro_execution ro) claim))
        (\<lambda>_. kept d0 False) (\<lambda>_. kept d0 False)" for claim
      by (rule hoare_seq [where R = "kept d0 False"], rule hoare_log, simp,
          rule hoare_conseq [OF hoare_execute [OF assms(2)]]) (auto simp: let_go_def)
    then show ?thesis using hoare_poll by (auto split: option.splits)
  qed
qed

lemma hoare_rounds:
  assumes "sound_env rn" "\<forall>ro \<in> set ros. short_execution (ro_execution ro)"
  shows "hoare (kept d0 False) (run_rounds rn ros) (\<lambda>_. kept d0 False) (\<lambda>_. kept d0 False)"
  using assms(2)
proof (induction ros)
  case Nil
  show ?case by (simp add: hoare_ret)
next
  case (Cons ro ros)
  have "hoare (kept d0 False) (seqE (run_round rn ro) (run_rounds rn ros)) (\<lambda>_. kept d0 False) (\<lambda>_. kept d0 False)"
    by (rule hoare_seq [OF hoare_round [OF assms(1)]]) (use Cons in auto)
  then show ?case unfolding hoare_def by (auto simp: kept_def)
qed

section \<open>What an outcome asks for\<close>

text \<open>
  The documented failure semantics: the finalization of a completed handler, \<open>None\<close> when the worker
  must retire without a write, an exception when the delay is not a number of seconds.
\<close>

definition failure_class :: "exn \<Rightarrow> bool \<times> string \<times> string \<times> string \<times> pyfloat option" where
  "failure_class e = (case e of
     RetryableTaskError code after \<Rightarrow> (True, code, ''Task execution failed and will be retried'', ''retryable_error'', after)
   | HandlerContractError \<Rightarrow> (False, ''handler_contract_error'', ''Handler returned an invalid result'', ''handler_contract_error'', None)
   | PermanentTaskError code \<Rightarrow> (False, code, ''Task execution failed permanently'', ''permanent_error'', None)
   | _ \<Rightarrow> (True, ''unexpected_error'', ''Task execution failed unexpectedly'', ''unexpected_error'', None))"

definition failure_finalization :: "runner_env \<Rightarrow> tick \<Rightarrow> claimed_task \<Rightarrow> exn \<Rightarrow> finalization result" where
  "failure_finalization rn tk c e = (case failure_class e of (retryable, code, summary, reason, after) \<Rightarrow>
     if retryable \<and> c_attempt_number c < c_max_attempts c then
       bindR (case after of Some v \<Rightarrow> Inr v
              | None \<Rightarrow> map_sum id FFin (delay_seconds (rn_retry_policy rn) (tk_random tk) (c_attempt_number c))) (\<lambda>delay.
       bindR (timedelta_seconds delay) (\<lambda>_. Inr (FinRetry (pf_value delay) code summary reason (tk_clock tk))))
     else Inr (FinFailure code summary (if retryable then ''max_attempts_exhausted'' else reason)))"

definition outcome_finalization ::
  "runner_env \<Rightarrow> tick \<Rightarrow> claimed_task \<Rightarrow> exn + handler_value \<Rightarrow> finalization option result" where
  "outcome_finalization rn tk c outcome =
     (case bindR outcome (validate_handler_result (nat (worker_max_result_bytes (rn_settings rn)))) of
        Inr v \<Rightarrow> Inr (Some (FinSuccess v))
      | Inl TaskCancelled \<Rightarrow> Inr (Some FinCancellation)
      | Inl OwnershipLostError \<Rightarrow> Inr None
      | Inl AsyncCancelledError \<Rightarrow> Inr None
      | Inl e \<Rightarrow> bindR (failure_finalization rn tk c e) (\<lambda>f. Inr (Some f)))"

fun outcome_event :: "finalization \<Rightarrow> string" where
  "outcome_event (FinSuccess _) = ''task_succeeded''"
| "outcome_event (FinRetry _ _ _ _ _) = ''task_retry_scheduled''"
| "outcome_event (FinFailure _ _ _) = ''task_failed''"
| "outcome_event FinCancellation = ''task_cancelled''"

lemma finalization_outcome:
  assumes inv: "queue_inv d" and t: "find (active_fence c now) (tasks d) = Some t" "t_cancellation_requested_at t = None"
  shows "f \<noteq> FinCancellation \<Longrightarrow> finalization_fits f \<Longrightarrow> \<exists>d' t'. run_finalization f c now d = Inr (APPLIED, d') \<and> find_task d' (t_id t) = Some t' \<and>
      t_status t' = final_status f \<and> t_result t' = final_result f \<and> t_last_error_code t' = final_error f \<and>
      t_available_at t' = final_available f"
    "run_finalization FinCancellation c now d = Inr (STALE, d)"
    "f \<noteq> FinCancellation \<Longrightarrow> \<not> finalization_fits f \<Longrightarrow> run_finalization f c now d = Inl data_error"
proof -
  have mem: "t \<in> set (tasks d)" "active_fence c now t" using find_in_set [OF t(1)] by simp_all
  note ok = queue_invD(1) [OF inv]
  {
    assume f: "f \<noteq> FinCancellation" "finalization_fits f"
    obtain tv av where eq: "\<And>c now d. run_finalization f c now d = finalize c (f = FinCancellation) tv av now d"
      and ids: "\<And>t. t_id (snd tv t) = t_id t" "\<And>a. a_id (snd av a) = a_id a"
      and fits: "fst tv \<and> fst av \<longleftrightarrow> finalization_fits f"
      and tv: "\<And>t. t_status (snd tv t) = final_status f" "\<And>t. t_result (snd tv t) = final_result f"
        "\<And>t. t_available_at (snd tv t) = final_available f" "\<And>t. t_last_error_code (snd tv t) = final_error f"
      by (rule run_finalization_eq [of f]) blast
    have fin: "finalizable c (f = FinCancellation) now t" using mem t(2) f by (simp add: finalizable_def)
    show "\<exists>d' t'. run_finalization f c now d = Inr (APPLIED, d') \<and> find_task d' (t_id t) = Some t' \<and>
        t_status t' = final_status f \<and> t_result t' = final_result f \<and> t_last_error_code t' = final_error f \<and>
        t_available_at t' = final_available f"
    proof (rule finalize_cases [OF inv ids, of c "f = FinCancellation" now])
      assume "\<forall>t \<in> set (tasks d). \<not> finalizable c (f = FinCancellation) now t"
      with fin mem show ?thesis by blast
    next
      assume "\<not> (fst tv \<and> fst av)"
      with f fits show ?thesis by simp
    next
      fix t1 a
      let ?t = "release_row now (snd tv t1)" and ?a = "(snd av a)\<lparr>a_finished_at := Some now\<rparr>"
      assume t1: "t1 \<in> set (tasks d)" "finalizable c (f = FinCancellation) now t1"
        and run: "finalize c (f = FinCancellation) tv av now d = Inr (APPLIED, put_attempt ?a (flush_task ?t d))"
      have "t1 = t" using active_fence_unique [OF ok mem t1(1)] t1(2) by (simp add: finalizable_def)
      then have "find_task (put_attempt ?a (flush_task ?t d)) (t_id t) = Some ?t"
        using flush_task_find [of ?t d "t_id t"] find_task_unique [OF ok mem(1)] ids
        by (simp add: put_attempt_def find_task_def release_row_def)
      with run show ?thesis unfolding eq by (auto simp: release_row_def tv)
    qed
  }
  {
    assume f: "f \<noteq> FinCancellation" "\<not> finalization_fits f"
    obtain tv av where eq: "\<And>c now d. run_finalization f c now d = finalize c (f = FinCancellation) tv av now d"
      and ids: "\<And>t. t_id (snd tv t) = t_id t" "\<And>a. a_id (snd av a) = a_id a"
      and fits: "fst tv \<and> fst av \<longleftrightarrow> finalization_fits f"
      by (rule run_finalization_eq [of f]) blast
    have "finalizable c (f = FinCancellation) now t" using mem t(2) f by (simp add: finalizable_def)
    then show "run_finalization f c now d = Inl data_error"
      unfolding eq by (rule_tac finalize_cases [OF inv ids, of c "f = FinCancellation" now]) (use mem f fits in auto)
  }
  obtain tv av where eq: "\<And>c now d. run_finalization FinCancellation c now d = finalize c True tv av now d"
    and ids: "\<And>t. t_id (snd tv t) = t_id t" "\<And>a. a_id (snd av a) = a_id a"
    by (rule run_finalization_eq [of FinCancellation]) simp
  show "run_finalization FinCancellation c now d = Inr (STALE, d)"
  proof (rule finalize_cases [OF inv ids, of c True now])
    assume "finalize c True tv av now d = Inr (classify_failed_fence c now d, d)"
    then show ?thesis unfolding eq using t by (simp add: classify_failed_fence_def)
  next
    fix t1 assume t1: "t1 \<in> set (tasks d)" "finalizable c True now t1"
    then have "t1 = t" using active_fence_unique [OF ok mem t1(1)] by (simp add: finalizable_def)
    with t1(2) t(2) show ?thesis by (simp add: finalizable_def)
  next
    fix t1 assume t1: "t1 \<in> set (tasks d)" "finalizable c True now t1"
    then have "t1 = t" using active_fence_unique [OF ok mem t1(1)] by (simp add: finalizable_def)
    with t1(2) t(2) show ?thesis by (simp add: finalizable_def)
  qed
qed

lemma db_call_eq:
  assumes "tk_fault (rn_ticks rn (wr_calls w)) = NO_FAULT"
    and "tx (rn_ticks rn (wr_calls w)) (interfere (tk_others (rn_ticks rn (wr_calls w))) (wr_db w)) = Inr (x, d')"
  shows "db_call rn tx w = (Inr x, w\<lparr>wr_db := d', wr_calls := wr_calls w + 1\<rparr>)"
  using assms by (simp add: db_call_def transact_def)

lemma db_call_error:
  assumes "tk_fault (rn_ticks rn (wr_calls w)) = NO_FAULT"
    and "tx (rn_ticks rn (wr_calls w)) (interfere (tk_others (rn_ticks rn (wr_calls w))) (wr_db w)) = Inl e"
  shows "\<exists>w'. db_call rn tx w = (Inl e, w') \<and> wr_db w' = interfere (tk_others (rn_ticks rn (wr_calls w))) (wr_db w)"
  using assms by (simp add: db_call_def transact_def)

text \<open>The three finalizations as the runner issues them, for a tick that lets them pass.\<close>

definition issue :: "runner_env \<Rightarrow> claimed_task \<Rightarrow> finalization \<Rightarrow> unit runner" where
  "issue rn c f = bindE (db_call rn (\<lambda>tk. run_finalization f c (tk_now tk))) (\<lambda>r.
     bindE (handle_failed_fence rn c r) (\<lambda>returned. if returned then ret () else log_event (outcome_event f)))"

lemma issue_applied:
  assumes "tk_fault (rn_ticks rn (wr_calls w)) = NO_FAULT"
    and "run_finalization f c (tk_now (rn_ticks rn (wr_calls w)))
      (interfere (tk_others (rn_ticks rn (wr_calls w))) (wr_db w)) = Inr (APPLIED, d')"
  shows "issue rn c f w = (Inr (), w\<lparr>wr_db := d', wr_calls := wr_calls w + 1, wr_log := wr_log w @ [outcome_event f]\<rparr>)"
  using db_call_eq [of rn w "\<lambda>tk. run_finalization f c (tk_now tk)", OF assms]
  by (simp add: issue_def bindE_def handle_failed_fence_def log_event_def ret_def)

lemma bindE_step: "m w = (Inr x, w') \<Longrightarrow> bindE m f w = f x w'"
  by (simp add: bindE_def)

lemma bindE_stop: "m w = (Inl e, w') \<Longrightarrow> bindE m f w = (Inl e, w')"
  by (simp add: bindE_def)

lemma bindE_cong_at: "m w = n w \<Longrightarrow> bindE m f w = bindE n f w"
  by (simp add: bindE_def)

lemma db_call_cong:
  "(\<And>d. tx (rn_ticks rn (wr_calls w)) d = tx' (rn_ticks rn (wr_calls w)) d) \<Longrightarrow> db_call rn tx w = db_call rn tx' w"
proof -
  assume "\<And>d. tx (rn_ticks rn (wr_calls w)) d = tx' (rn_ticks rn (wr_calls w)) d"
  then have "tx (rn_ticks rn (wr_calls w)) = tx' (rn_ticks rn (wr_calls w))" by (rule ext)
  then show ?thesis by (simp add: db_call_def)
qed

lemma retry_delay_eq:
  "retry_delay rn c after w = (case after of Some v \<Rightarrow> Inr v
     | None \<Rightarrow> map_sum id FFin (delay_seconds (rn_retry_policy rn) (tk_random (rn_ticks rn (wr_calls w))) (c_attempt_number c)), w)"
  by (simp add: retry_delay_def ret_def split: option.splits)

text \<open>A failure is issued as the finalization it asks for, or its delay raises before any write.\<close>

lemma failure_policy_issue:
  assumes "failure_class e = (retryable, code, summary, reason, after)"
  shows "finalize_failure_policy rn c code summary reason retryable after w =
    (case failure_finalization rn (rn_ticks rn (wr_calls w)) c e of Inl e' \<Rightarrow> (Inl e', w) | Inr f \<Rightarrow> issue rn c f w)"
proof (cases "retryable \<and> c_attempt_number c < c_max_attempts c")
  case False
  then have "failure_finalization rn (rn_ticks rn (wr_calls w)) c e =
      Inr (FinFailure code summary (if retryable then ''max_attempts_exhausted'' else reason))"
    by (auto simp: failure_finalization_def assms)
  moreover have "(if retryable \<and> c_attempt_number c \<ge> c_max_attempts c then ''max_attempts_exhausted'' else reason) =
      (if retryable then ''max_attempts_exhausted'' else reason)" using False by auto
  moreover have "finalize_failure c code summary r now = run_finalization (FinFailure code summary r) c now" for r now
    by (rule ext) simp
  ultimately show ?thesis
    using False by (auto simp: finalize_failure_policy_def issue_def call_finalize_failure_def cong: if_cong)
next
  case True
  let ?tk = "rn_ticks rn (wr_calls w)"
  let ?delay = "case after of Some v \<Rightarrow> Inr v
     | None \<Rightarrow> map_sum id FFin (delay_seconds (rn_retry_policy rn) (tk_random ?tk) (c_attempt_number c))"
  have fin: "failure_finalization rn ?tk c e = bindR ?delay (\<lambda>delay. bindR (timedelta_seconds delay) (\<lambda>_.
      Inr (FinRetry (pf_value delay) code summary reason (tk_clock ?tk))))"
    using True by (simp add: failure_finalization_def assms)
  show ?thesis
  proof (cases "?delay")
    case (Inl e')
    then show ?thesis
      unfolding fin finalize_failure_policy_def if_P [OF True]
      by (subst bindE_stop [of "retry_delay rn c after" w e' w]) (simp_all add: retry_delay_eq)
  next
    case (Inr delay)
    have run: "finalize_failure_policy rn c code summary reason retryable after w =
        bindE (call_schedule_retry rn c delay code summary reason) (\<lambda>r.
          bindE (handle_failed_fence rn c r) (\<lambda>returned. if returned then ret () else log_event ''task_retry_scheduled'')) w"
      unfolding finalize_failure_policy_def if_P [OF True]
      by (rule bindE_step) (simp add: retry_delay_eq Inr)
    show ?thesis
    proof (cases "timedelta_seconds delay")
      case (Inl e')
      then have "call_schedule_retry rn c delay code summary reason w = (Inl e', w)"
        by (simp add: call_schedule_retry_def bindE_def liftR_def)
      with Inl show ?thesis unfolding fin run Inr by (simp add: bindE_stop)
    next
      case (Inr s)
      then have "call_schedule_retry rn c delay code summary reason w =
          db_call rn (\<lambda>tk. run_finalization (FinRetry (pf_value delay) code summary reason (tk_clock ?tk)) c (tk_now tk)) w"
        unfolding call_schedule_retry_def
        by (subst bindE_step [of _ w s w]) (auto simp: liftR_def intro: db_call_cong)
      then show ?thesis
        unfolding fin run \<open>?delay = Inr delay\<close> bindR_simps Inr sum.case issue_def outcome_event.simps
        by (rule bindE_cong_at)
    qed
  qed
qed

lemma handler_failure_issue:
  assumes "e \<noteq> TaskCancelled" "e \<noteq> OwnershipLostError" "e \<noteq> AsyncCancelledError"
  obtains l where "handler_failure rn c e w =
    (case failure_finalization rn (rn_ticks rn (wr_calls w)) c e of
       Inl e' \<Rightarrow> (Inl e', w\<lparr>wr_log := l\<rparr>) | Inr f \<Rightarrow> issue rn c f (w\<lparr>wr_log := l\<rparr>))"
proof -
  obtain retryable code summary reason after where cls: "failure_class e = (retryable, code, summary, reason, after)"
    by (cases "failure_class e") auto
  have "handler_failure rn c e = finalize_failure_policy rn c code summary reason retryable after \<or>
      handler_failure rn c e = seqE (log_event ''handler_unexpected_exception'')
        (finalize_failure_policy rn c code summary reason retryable after)"
    using cls assms by (cases e) (auto simp: handler_failure_def failure_class_def)
  then show ?thesis
  proof
    assume "handler_failure rn c e = finalize_failure_policy rn c code summary reason retryable after"
    moreover have "w\<lparr>wr_log := wr_log w\<rparr> = w" by simp
    ultimately show ?thesis using that [of "wr_log w"] failure_policy_issue [OF cls, of rn c w] by metis
  next
    let ?l = "wr_log w @ [''handler_unexpected_exception'']"
    assume "handler_failure rn c e = seqE (log_event ''handler_unexpected_exception'')
        (finalize_failure_policy rn c code summary reason retryable after)"
    then show ?thesis
      using that [of ?l] failure_policy_issue [OF cls, of rn c "w\<lparr>wr_log := ?l\<rparr>"]
      by (simp add: seqE_def bindE_def log_event_def)
  qed
qed

section \<open>Examples\<close>

definition example_tick :: tick where
  "example_tick = \<lparr>tk_others = [], tk_fault = NO_FAULT, tk_now = 50, tk_clock = 50, tk_raw_token = ''t'', tk_locked = {},
     tk_random = 0\<rparr>"

definition example_runner :: runner_env where
  "example_runner = \<lparr>rn_settings = default_settings ''postgresql+asyncpg://db'', rn_registry = [(''diagnostic'', ())],
     rn_worker_id = ''worker'', rn_retry_policy = \<lparr>base_seconds = 1, cap_seconds = 30\<rparr>,
     rn_ticks = (\<lambda>_. example_tick), rn_uuid4 = (\<lambda>xs. Suc (sum_list xs))\<rparr>"

definition example_wake :: "(exn + handler_value) option \<Rightarrow> bool \<Rightarrow> wake" where
  "example_wake r shutdown = \<lparr>wk_beats = 0, wk_handler = r, wk_timeout = False, wk_shutdown = shutdown\<rparr>"

definition example_execution :: execution where
  "example_execution = \<lparr>ex_first = example_wake None True, ex_grace = example_wake None False,
     ex_cancelled = HANDLER_STOPS (Inl AsyncCancelledError)\<rparr>"

lemma example_runner_sound: "sound_env example_runner"
proof -
  have "Suc (sum_list xs) \<notin> set xs" for xs :: "nat list" using member_le_sum_list [of "Suc (sum_list xs)" xs] by auto
  then show ?thesis by (simp add: sound_env_def example_runner_def)
qed

lemma example_execution_short: "short_execution example_execution"
  by (simp add: short_execution_def short_outcome_def example_execution_def example_wake_def)

section \<open>Properties\<close>

text \<open>
  C13. A worker keeps the store. However many rounds a worker runs, whatever other processes and
  handlers commit in between, whichever database calls fail before or after their commit, and
  however its waits end, every invariant of the database holds afterwards, nothing that history
  forbids to change was changed, and the worker logs that it is stopping, also when it raises.
\<close>

theorem worker_keeps_store:
  assumes "system_inv d" "sound_env rn" "\<forall>ro \<in> set ros. short_execution (ro_execution ro)"
  shows "case run rn ros (start_worker d) of (r, w) \<Rightarrow>
    system_inv (wr_db w) \<and> system_le d (wr_db w) \<and> last (wr_log w) = ''worker_stopping''"
proof -
  define w0 where "w0 = (start_worker d)\<lparr>wr_log := [''worker_started'']\<rparr>"
  have k: "kept d False w0" using assms(1) sys.le_refl by (simp add: kept_def w0_def start_worker_def)
  obtain r w where rw: "run_rounds rn ros w0 = (r, w)" by (cases "run_rounds rn ros w0")
  have "kept d False w"
  proof (cases r)
    case (Inl e)
    then show ?thesis using hoareD_raise [OF hoare_rounds [OF assms(2,3), of d] k] rw by simp
  next
    case (Inr u)
    then show ?thesis using hoareD_ret [OF hoare_rounds [OF assms(2,3), of d] k] rw by simp
  qed
  moreover have "run rn ros (start_worker d) = (r, w\<lparr>wr_log := wr_log w @ [''worker_stopping'']\<rparr>)"
    using rw by (simp add: run_def seqE_def bindE_def log_event_def start_worker_def w0_def)
  ultimately show ?thesis by (simp add: kept_def)
qed

lemma worker_keeps_store_witness:
  "case run example_runner [\<lparr>ro_shutdown = False, ro_poll_shutdown = True, ro_execution = example_execution\<rparr>]
      (start_worker running_db) of (r, w) \<Rightarrow>
     system_inv (wr_db w) \<and> system_le running_db (wr_db w) \<and> last (wr_log w) = ''worker_stopping''"
  by (rule worker_keeps_store [OF running_system_inv example_runner_sound]) (simp add: example_execution_short)

text \<open>
  C3. No claim is left behind. When the execution of a claim returns, whatever cause stopped it
  and whatever was lost, the attempt is finished in the database, so every later write under the
  claim is refused, or the worker has shut down or retired, and then its loop runs no further
  round: it never claims a second task while it may still own the first.
\<close>

theorem no_claim_is_left_behind:
  assumes "system_inv (wr_db w)" "short_execution ex" "execute_claim rn ex c w = (Inr (), w')"
  shows "superseded c (wr_db w') \<or>
    ((wr_stop_claiming w' \<or> wr_shutdown w') \<and>
     (\<forall>ros. fst (run_rounds rn ros w') = Inr () \<and> wr_db (snd (run_rounds rn ros w')) = wr_db w' \<and>
        wr_calls (snd (run_rounds rn ros w')) = wr_calls w'))"
proof -
  have "kept (wr_db w) False w" using assms(1) sys.le_refl by (simp add: kept_def)
  then have "let_go (wr_db w) c w'" by (rule hoareD_ret [OF hoare_execute [OF assms(2)] _ assms(3)])
  moreover have "fst (run_rounds rn ros w') = Inr () \<and> wr_db (snd (run_rounds rn ros w')) = wr_db w' \<and>
      wr_calls (snd (run_rounds rn ros w')) = wr_calls w'" if "wr_stop_claiming w' \<or> wr_shutdown w'" for ros
    using that by (cases ros) (auto simp: effect_simps)
  ultimately show ?thesis by (auto simp: let_go_def)
qed

lemma no_claim_is_left_behind_witness:
  "\<exists>w'. execute_claim example_runner example_execution example_claim (start_worker running_db) = (Inr (), w') \<and>
     wr_db w' = running_db \<and> wr_shutdown w' \<and>
     fst (run_rounds example_runner [\<lparr>ro_shutdown = False, ro_poll_shutdown = False, ro_execution = example_execution\<rparr>] w') = Inr ()"
proof -
  let ?w' = "(start_worker running_db)\<lparr>wr_shutdown := True\<rparr>"
  have run: "execute_claim example_runner example_execution example_claim (start_worker running_db) = (Inr (), ?w')"
    by (simp add: execute_claim_def example_runner_def example_claim_def example_execution_def example_wake_def
        registry_get_def await_execution_def observe_shutdown_def completed_cause_def stop_handler_def handler_stopped_def
        settle_def set_signal_def seqE_def bindE_def liftR_def ret_def start_worker_def quiet_def)
  have "\<not> superseded example_claim (wr_db ?w')"
    by (simp add: superseded_def start_worker_def running_attempt_def)
  with no_claim_is_left_behind [OF _ example_execution_short run]
  have stop: "\<forall>ros. fst (run_rounds example_runner ros ?w') = Inr ()" by (simp add: start_worker_def)
  show ?thesis by (rule exI [of _ ?w'], intro conjI, rule run, simp add: start_worker_def, simp, rule spec [OF stop])
qed

text \<open>A finalization that was carried out: the task as it demands, and nothing else changed in the worker.\<close>

definition carried_out :: "claimed_task \<Rightarrow> time \<Rightarrow> db \<Rightarrow> worker \<Rightarrow> uuid \<Rightarrow> finalization \<Rightarrow> worker \<Rightarrow> bool" where
  "carried_out c now d w i f w' \<longleftrightarrow> run_finalization f c now d = Inr (APPLIED, wr_db w') \<and>
     wr_stop_claiming w' = wr_stop_claiming w \<and> last (wr_log w') = outcome_event f \<and>
     (\<exists>t'. find_task (wr_db w') i = Some t' \<and> t_status t' = final_status f \<and> t_result t' = final_result f \<and>
        t_last_error_code t' = final_error f \<and> t_available_at t' = final_available f)"

lemma issue_carried_out:
  assumes "queue_inv d" "tk = rn_ticks rn (wr_calls w)" "tk_fault tk = NO_FAULT" "d = interfere (tk_others tk) (wr_db w)"
    and "find (active_fence c (tk_now tk)) (tasks d) = Some t" "t_cancellation_requested_at t = None" "f \<noteq> FinCancellation"
    and "finalization_fits f"
  shows "\<exists>w'. issue rn c f (w\<lparr>wr_log := l\<rparr>) = (Inr (), w') \<and> carried_out c (tk_now tk) d w (t_id t) f w'"
proof -
  obtain d' t' where d': "run_finalization f c (tk_now tk) d = Inr (APPLIED, d')" "find_task d' (t_id t) = Some t'"
    "t_status t' = final_status f" "t_result t' = final_result f" "t_last_error_code t' = final_error f"
    "t_available_at t' = final_available f"
    using finalization_outcome(1) [OF assms(1,5-8)] by blast
  have "issue rn c f (w\<lparr>wr_log := l\<rparr>) = (Inr (), w\<lparr>wr_db := d', wr_calls := wr_calls w + 1, wr_log := l @ [outcome_event f]\<rparr>)"
    using issue_applied [of rn "w\<lparr>wr_log := l\<rparr>" f c d'] d'(1) assms(2-4) by simp
  then show ?thesis using d' by (simp add: carried_out_def)
qed

lemma issue_refused:
  assumes "queue_inv d" "tk = rn_ticks rn (wr_calls w)" "tk_fault tk = NO_FAULT" "d = interfere (tk_others tk) (wr_db w)"
    and "find (active_fence c (tk_now tk)) (tasks d) = Some t" "t_cancellation_requested_at t = None" "f \<noteq> FinCancellation"
    and "\<not> finalization_fits f"
  shows "\<exists>w'. issue rn c f (w\<lparr>wr_log := l\<rparr>) = (Inl data_error, w') \<and> wr_db w' = d"
proof -
  obtain w' where "db_call rn (\<lambda>tk. run_finalization f c (tk_now tk)) (w\<lparr>wr_log := l\<rparr>) = (Inl data_error, w')" "wr_db w' = d"
    using db_call_error [of rn "w\<lparr>wr_log := l\<rparr>" "\<lambda>tk. run_finalization f c (tk_now tk)" data_error]
      finalization_outcome(3) [OF assms(1,5-8)] assms(2-4) by auto
  then show ?thesis by (simp add: issue_def bindE_stop)
qed

text \<open>The answer to a finalization: carried out, or refused by PostgreSQL with nothing written.\<close>

definition answered :: "claimed_task \<Rightarrow> time \<Rightarrow> db \<Rightarrow> worker \<Rightarrow> uuid \<Rightarrow> finalization \<Rightarrow> (exn + unit) \<times> worker \<Rightarrow> bool" where
  "answered c now d w i f r \<longleftrightarrow>
     (if finalization_fits f then fst r = Inr () \<and> carried_out c now d w i f (snd r)
      else fst r = Inl data_error \<and> wr_db (snd r) = d)"

lemma issue_answered:
  assumes "queue_inv d" "tk = rn_ticks rn (wr_calls w)" "tk_fault tk = NO_FAULT" "d = interfere (tk_others tk) (wr_db w)"
    and "find (active_fence c (tk_now tk)) (tasks d) = Some t" "t_cancellation_requested_at t = None" "f \<noteq> FinCancellation"
  shows "answered c (tk_now tk) d w (t_id t) f (issue rn c f (w\<lparr>wr_log := l\<rparr>))"
  using issue_carried_out [OF assms, of l] issue_refused [OF assms, of l] by (auto simp: answered_def)

lemma failure_carried_out:
  assumes "queue_inv d" "tk = rn_ticks rn (wr_calls w)" "tk_fault tk = NO_FAULT" "d = interfere (tk_others tk) (wr_db w)"
    and "find (active_fence c (tk_now tk)) (tasks d) = Some t" "t_cancellation_requested_at t = None"
    and other: "e \<noteq> TaskCancelled" "e \<noteq> OwnershipLostError" "e \<noteq> AsyncCancelledError"
  shows "case failure_finalization rn tk c e of
      Inl e' \<Rightarrow> \<exists>w'. handler_failure rn c e w = (Inl e', w') \<and> wr_db w' = wr_db w
    | Inr f \<Rightarrow> f \<noteq> FinCancellation \<and> answered c (tk_now tk) d w (t_id t) f (handler_failure rn c e w)"
proof -
  obtain l where l: "handler_failure rn c e w = (case failure_finalization rn tk c e of
      Inl e' \<Rightarrow> (Inl e', w\<lparr>wr_log := l\<rparr>) | Inr f \<Rightarrow> issue rn c f (w\<lparr>wr_log := l\<rparr>))"
    unfolding assms(2) by (rule handler_failure_issue [OF other])
  show ?thesis
  proof (cases "failure_finalization rn tk c e")
    case (Inl e')
    then show ?thesis unfolding l by simp
  next
    case (Inr f)
    then have "f \<noteq> FinCancellation"
      by (auto simp: failure_finalization_def result_simps split: prod.splits if_splits)
    then show ?thesis unfolding l Inr using issue_answered [OF assms(1-6), of f l] by simp
  qed
qed

text \<open>The exceptions that stop the worker or leave the claim alone.\<close>

lemma handler_stopped_exceptions:
  assumes "queue_inv d" "tk = rn_ticks rn (wr_calls w)" "tk_fault tk = NO_FAULT" "d = interfere (tk_others tk) (wr_db w)"
    and "find (active_fence c (tk_now tk)) (tasks d) = Some t" "t_cancellation_requested_at t = None"
  shows "\<exists>w'. handler_failure rn c TaskCancelled w = (Inr (), w') \<and> wr_db w' = d \<and> wr_stop_claiming w'"
    and "\<exists>w'. handler_failure rn c OwnershipLostError w = (Inr (), w') \<and> wr_db w' = wr_db w \<and> wr_stop_claiming w'"
    and "\<exists>w'. handler_failure rn c AsyncCancelledError w = (Inr (), w') \<and> wr_db w' = wr_db w \<and> wr_stop_claiming w'"
proof -
  have "call_finalize_cancellation rn c w = (Inr STALE, w\<lparr>wr_db := d, wr_calls := wr_calls w + 1\<rparr>)"
    using db_call_eq [of rn w "\<lambda>tk. finalize_cancellation c (tk_now tk)" STALE d] finalization_outcome(2) [OF assms(1,5,6)] assms(2-4)
    by (simp add: call_finalize_cancellation_def)
  then show "\<exists>w'. handler_failure rn c TaskCancelled w = (Inr (), w') \<and> wr_db w' = d \<and> wr_stop_claiming w'"
    by (simp add: handler_failure_def finalize_customer_cancellation_def bindE_def record_stale_execution_def seqE_def
        stop_claiming_def log_event_def)
qed (simp_all add: handler_failure_def seqE_def bindE_def stop_claiming_def log_event_def)

text \<open>
  C11. A completed handler gets the finalization its outcome asks for. While the lease is active
  and no cancellation was requested, a valid result succeeds the task, a retryable or unexpected
  error returns it to the queue as long as attempts are left and fails it as exhausted otherwise,
  a contract violation or a permanent error fails it; a handler that reports lost ownership or a
  cancellation nobody requested makes the worker retire without a write. The finalization is
  carried out exactly when PostgreSQL takes its values; a code that is too long, a NUL or a retry
  time out of range makes it raise with nothing written. A delay \<open>timedelta\<close> has no value for (a NaN,
  an infinity, more than 999999999 days) raises before the call.
\<close>

theorem completion_refines_policy:
  assumes "system_inv (wr_db w)" "tk = rn_ticks rn (wr_calls w)" "tk_fault tk = NO_FAULT"
    and "d = interfere (tk_others tk) (wr_db w)"
    and "find (active_fence c (tk_now tk)) (tasks d) = Some t" "t_cancellation_requested_at t = None"
  shows "case outcome_finalization rn tk c outcome of
      Inl e \<Rightarrow> \<exists>w'. handle_handler_completion rn c (Some outcome) w = (Inl e, w') \<and> wr_db w' = wr_db w
    | Inr None \<Rightarrow> \<exists>w'. handle_handler_completion rn c (Some outcome) w = (Inr (), w') \<and> wr_db w' = wr_db w \<and>
        wr_stop_claiming w'
    | Inr (Some f) \<Rightarrow>
        if f = FinCancellation
        then \<exists>w'. handle_handler_completion rn c (Some outcome) w = (Inr (), w') \<and> wr_db w' = d \<and> wr_stop_claiming w'
        else answered c (tk_now tk) d w (t_id t) f (handle_handler_completion rn c (Some outcome) w)"
proof -
  have inv: "queue_inv d" using interfere_sound [OF assms(1)] assms(4) by (simp add: system_inv_def)
  show ?thesis
  proof (cases "bindR outcome (validate_handler_result (nat (worker_max_result_bytes (rn_settings rn))))")
    case (Inr v)
    have "finalize_success c v now = run_finalization (FinSuccess v) c now" for now by (rule ext) simp
    then have "handle_handler_completion rn c (Some outcome) w = issue rn c (FinSuccess v) w"
      using Inr by (simp add: handle_handler_completion_def issue_def call_finalize_success_def cong: if_cong)
    then show ?thesis
      using issue_answered [OF inv assms(2-6), of "FinSuccess v" "wr_log w"] Inr by (simp add: outcome_finalization_def)
  next
    case (Inl e)
    then have run: "handle_handler_completion rn c (Some outcome) w = handler_failure rn c e w"
      by (simp add: handle_handler_completion_def)
    show ?thesis
    proof (cases "e = TaskCancelled \<or> e = OwnershipLostError \<or> e = AsyncCancelledError")
      case True
      then show ?thesis
        using handler_stopped_exceptions [OF inv assms(2-6)] Inl unfolding run by (auto simp: outcome_finalization_def)
    next
      case False
      then have "outcome_finalization rn tk c outcome = bindR (failure_finalization rn tk c e) (\<lambda>f. Inr (Some f))"
        using Inl by (cases e) (simp_all add: outcome_finalization_def)
      then show ?thesis
        using failure_carried_out [OF inv assms(2-6), of e] False unfolding run by (cases "failure_finalization rn tk c e") simp_all
    qed
  qed
qed

lemma completion_refines_policy_witness:
  "\<exists>w' t'. handle_handler_completion example_runner example_claim (Some (Inr (HObject []))) (start_worker running_db) = (Inr (), w') \<and>
     find_task (wr_db w') 11 = Some t' \<and> t_status t' = SUCCEEDED \<and> t_result t' = Some []"
proof -
  let ?w = "start_worker running_db"
  have "canonical_json (JObj []) = Inr ''{}''" by code_simp
  then have "encode (dumps (JObj [])) = ''{}''" unfolding canonical_json_Inr by (elim conjE) (rule sym)
  then have "validate_handler_result 262144 (HObject []) = Inr []" unfolding validate_handler_result_iff by simp
  then have out: "outcome_finalization example_runner (rn_ticks example_runner (wr_calls ?w)) example_claim (Inr (HObject [])) =
      Inr (Some (FinSuccess []))"
    by (simp add: outcome_finalization_def example_runner_def default_settings_def)
  have tick: "example_tick = rn_ticks example_runner (wr_calls ?w)" by (simp add: example_runner_def)
  have d: "running_db = interfere (tk_others example_tick) (wr_db ?w)"
    by (simp add: interfere_def example_tick_def start_worker_def)
  have act: "find (active_fence example_claim (tk_now example_tick)) (tasks running_db) = Some running_task"
    using example_claim_active [of 50] by (simp add: example_tick_def)
  have quiet: "t_cancellation_requested_at running_task = None" "t_id running_task = 11"
    by (simp_all add: running_task_def pending_task_def)
  have inv: "system_inv (wr_db ?w)" by (simp add: start_worker_def)
  have fault: "tk_fault example_tick = NO_FAULT" by (simp add: example_tick_def)
  from completion_refines_policy [OF inv tick fault d act quiet(1), of "Inr (HObject [])"]
  obtain w' t' where "handle_handler_completion example_runner example_claim (Some (Inr (HObject []))) ?w = (Inr (), w')"
    "find_task (wr_db w') (t_id running_task) = Some t'" "t_status t' = final_status (FinSuccess [])"
    "t_result t' = final_result (FinSuccess [])"
    unfolding tick out
    by (cases "handle_handler_completion example_runner example_claim (Some (Inr (HObject []))) ?w")
      (auto simp: answered_def carried_out_def)
  then show ?thesis unfolding quiet(2) by auto
qed

end
