(* ===== verification/Handler_World.thy ===== *)
theory Handler_World
  imports Shared_Store Handlers Config
begin

text \<open>
  The world a deployment handler runs in: the shared database seen through its own calls, the
  signals of its context, the providers, and the metrics it emits. What a provider answers to a
  call, which signals are up at a checkpoint, the clocks and the identifiers are an environment;
  the calls a handler makes are recorded in a trace. The types of the provider protocols of
  \<open>connectors.py\<close> and \<open>slack.py\<close> are here too.
\<close>

section \<open>Provider types\<close>

record github_comment =
  cm_identifier :: string
  cm_body :: string
  cm_url :: string
  cm_updated_at :: time

record comment_search =
  cs_comments :: "github_comment list"
  cs_complete :: bool

record slack_message =
  sm_channel :: string
  sm_text :: string
  sm_mrkdwn :: bool
  sm_unfurl_links :: bool
  sm_unfurl_media :: bool

record slack_receipt =
  rc_channel :: string
  rc_timestamp :: string

datatype provider_request =
    FetchRecords string
  | VerifyGitHubIdentity
  | FetchContext string int
  | FetchIssue string
  | GetComment string string
  | FindCommentsByMarker string int string
  | CreateComment string int string
  | UpdateComment string string string
  | VerifySlackIdentity
  | PostNotification slack_message

fun is_provider_write :: "provider_request \<Rightarrow> bool" where
  "is_provider_write (CreateComment _ _ _) = True"
| "is_provider_write (UpdateComment _ _ _) = True"
| "is_provider_write (PostNotification _) = True"
| "is_provider_write _ = False"

section \<open>Environment and world\<close>

text \<open>
  \<open>hn_isoformat\<close> and \<open>hn_json_time\<close> render a datetime with its UTC offset, which a timestamp does
  not carry.
\<close>

record handler_env =
  hn_settings :: settings
  hn_coercions :: coercions
  hn_ticks :: "nat \<Rightarrow> tick"
  hn_uuid4 :: "uuid list \<Rightarrow> uuid"
  hn_signals :: "nat \<Rightarrow> signals"
  hn_clock :: "nat \<Rightarrow> time"
  hn_isoformat :: "time \<Rightarrow> string"
  hn_json_time :: "time \<Rightarrow> string"
  hn_slack_configured :: bool
  hn_records :: "nat \<Rightarrow> exn + catalog_record list"
  hn_github_identity :: "nat \<Rightarrow> exn + bool"
  hn_context :: "nat \<Rightarrow> exn + github_context"
  hn_issue :: "nat \<Rightarrow> exn + jira_item"
  hn_comment :: "nat \<Rightarrow> exn + github_comment option"
  hn_search :: "nat \<Rightarrow> exn + comment_search"
  hn_written :: "nat \<Rightarrow> exn + github_comment"
  hn_slack_identity :: "nat \<Rightarrow> exn + bool"
  hn_receipt :: "nat \<Rightarrow> exn + slack_receipt"

record handler_world =
  hw_db :: db
  hw_calls :: nat
  hw_checks :: nat
  hw_requests :: nat
  hw_trace :: "provider_request list"
  hw_metrics :: "metric_event list"

type_synonym 'a handler_io = "(handler_world, exn, 'a) io"

section \<open>Primitives\<close>

definition ledger_env_of :: "handler_env \<Rightarrow> tick \<Rightarrow> db \<Rightarrow> ledger_env" where
  "ledger_env_of hn tk d =
     \<lparr>le_now = tk_now tk, le_transaction_start = tk_clock tk,
      le_row_id = hn_uuid4 hn (map s_id (source_artifacts d) @ map x_id (external_actions d)),
      le_evidence_id = hn_uuid4 hn (map e_id (external_action_attempts d))\<rparr>"

text \<open>A transaction of the evidence store; its metrics are emitted before the commit.\<close>

definition store_call :: "handler_env \<Rightarrow> (ledger_env \<Rightarrow> 'a ledger_tx) \<Rightarrow> 'a handler_io" where
  "store_call hn tx = (\<lambda>w.
     let tk = hn_ticks hn (hw_calls w);
         run = (\<lambda>d. bindR (tx (ledger_env_of hn tk d) d) (\<lambda>(x, events, d'). Inr ((x, events), d')))
     in case transact tk run (hw_db w) of (r, d') \<Rightarrow>
       (map_sum id fst r, w\<lparr>hw_db := d', hw_calls := hw_calls w + 1,
          hw_metrics := hw_metrics w @ (case r of Inl _ \<Rightarrow> [] | Inr (_, events) \<Rightarrow> events)\<rparr>))"

text \<open>A query in a session of its own.\<close>

definition store_read :: "handler_env \<Rightarrow> (tick \<Rightarrow> db \<Rightarrow> 'a) \<Rightarrow> 'a handler_io" where
  "store_read hn q = (\<lambda>w. let tk = hn_ticks hn (hw_calls w) in
     case transact tk (\<lambda>d. Inr (q tk d, d)) (hw_db w) of (r, d') \<Rightarrow>
       (r, w\<lparr>hw_db := d', hw_calls := hw_calls w + 1\<rparr>))"

definition checkpoint :: "handler_env \<Rightarrow> (signals \<Rightarrow> unit result) \<Rightarrow> unit handler_io" where
  "checkpoint hn raise_if = (\<lambda>w. (raise_if (hn_signals hn (hw_checks w)), w\<lparr>hw_checks := hw_checks w + 1\<rparr>))"

definition check_cancelled :: "handler_env \<Rightarrow> unit handler_io" where
  "check_cancelled hn = checkpoint hn raise_if_cancelled"

definition check_ownership :: "handler_env \<Rightarrow> unit handler_io" where
  "check_ownership hn = checkpoint hn raise_if_ownership_lost"

definition ask :: "provider_request \<Rightarrow> (nat \<Rightarrow> exn + 'a) \<Rightarrow> 'a handler_io" where
  "ask request answers = (\<lambda>w. (answers (hw_requests w),
     w\<lparr>hw_requests := hw_requests w + 1, hw_trace := hw_trace w @ [request]\<rparr>))"

definition now_utc :: "handler_env \<Rightarrow> time handler_io" where
  "now_utc hn = (\<lambda>w. (Inr (hn_clock hn (hw_requests w)), w))"

definition emit_metric :: "metric_name \<Rightarrow> metric_labels \<Rightarrow> unit handler_io" where
  "emit_metric name labels = bindE (liftR (increment name labels)) (\<lambda>event.
     (\<lambda>w. (Inr (), w\<lparr>hw_metrics := hw_metrics w @ [event]\<rparr>)))"

section \<open>Actions\<close>

definition move_action ::
  "handler_env \<Rightarrow> task_execution \<Rightarrow> uuid \<Rightarrow> action_status set \<Rightarrow> action_status \<Rightarrow> string \<Rightarrow> column_value list \<Rightarrow>
   string option \<Rightarrow> rat option \<Rightarrow> pyfloat option \<Rightarrow> external_action handler_io" where
  "move_action hn task action_id expected new_status name values error_code settlement not_before =
     store_call hn (\<lambda>env. transition (te_execution_fence task) action_id
       \<lparr>ta_expected_statuses = expected, ta_new_status = new_status, ta_transition = name, ta_values = values,
        ta_error_code = error_code, ta_settlement_delay = map_option FFin settlement,
        ta_not_before_delay = not_before\<rparr> env)"

definition action_holdoff :: "handler_env \<Rightarrow> uuid \<Rightarrow> seconds handler_io" where
  "action_holdoff hn action_id = store_read hn (\<lambda>tk. reconciliation_delay_seconds action_id (tk_clock tk))"

definition action_reference :: "external_action \<Rightarrow> action_ref result" where
  "action_reference x =
     bindR (action_status_column x) (\<lambda>status.
     bindR (guardR (\<not> (status = ACTION_SUCCEEDED \<and> x_provider_resource_identifier x = None))
              (ExecutionInvariantError ''successful external action has no provider identifier'')) (\<lambda>_.
       Inr \<lparr>ar_action_id = x_id x, ar_provider = x_provider x, ar_operation = x_operation x, ar_revision = x_revision x,
            ar_provider_resource_identifier = x_provider_resource_identifier x,
            ar_provider_url = (if x_provider_resource_identifier x \<noteq> None then x_provider_url x else None)\<rparr>))"

end
