(* ===== verification/Rendering.thy ===== *)
theory Rendering
  imports Handler_World
begin

text \<open>
  \<open>integrations/rendering.py\<close>, \<open>safe_marker\<close>, and the message and identity texts of
  \<open>integrations/slack.py\<close>: the GitHub comment, the Slack notification with its bounds, the action
  scope keys and the snapshot hashes. All of them are functions of decided data only.
\<close>

section \<open>Text\<close>

text \<open>\<open>html.escape\<close>; the code replaces the ampersand first, so one pass is the same.\<close>

definition html_char :: "bool \<Rightarrow> char \<Rightarrow> string" where
  "html_char quoted c =
     (if c = CHR ''&'' then ''&amp;'' else if c = CHR ''<'' then ''&lt;'' else if c = CHR ''>'' then ''&gt;''
      else if quoted \<and> c = CHR 0x22 then ''&quot;'' else if quoted \<and> c = CHR 0x27 then ''&#x27;'' else [c])"

definition html_escape :: "bool \<Rightarrow> string \<Rightarrow> string" where
  "html_escape quoted s = concat (map (html_char quoted) s)"

definition line_break :: "char \<Rightarrow> bool" where
  "line_break c \<longleftrightarrow> c \<in> {CHR 0x0A, CHR 0x0B, CHR 0x0C, CHR 0x0D, CHR 0x1C, CHR 0x1D, CHR 0x1E, CHR 0x85}"

text \<open>\<open>len(text.splitlines())\<close>; a carriage return and the newline after it are one break.\<close>

fun count_lines :: "string \<Rightarrow> nat" where
  "count_lines [] = 0"
| "count_lines [c] = 1"
| "count_lines (c # d # s) =
     (if line_break c \<and> \<not> (c = CHR 0x0D \<and> d = CHR 0x0A) then 1 + count_lines (d # s)
      else count_lines (d # s))"

definition join_lines :: "string list \<Rightarrow> string" where
  "join_lines ls = (case ls of [] \<Rightarrow> [] | l # ls' \<Rightarrow> l @ concat (map (\<lambda>x. CHR 0x0A # x) ls'))"

section \<open>Sources\<close>

definition reference_key :: "source_ref \<Rightarrow> string \<times> string \<times> string \<times> string \<times> string" where
  "reference_key r = (sr_provider r, sr_resource_type r, sr_provider_resource_identifier r,
     sr_source_version r, sr_content_hash r)"

definition sorted_references :: "source_ref list \<Rightarrow> source_ref list" where
  "sorted_references refs = sort_key reference_key refs"

definition reference_json :: "source_ref \<Rightarrow> json" where
  "reference_json r = JObj
     [(''provider'', JStr (sr_provider r)), (''resource_type'', JStr (sr_resource_type r)),
      (''provider_resource_identifier'', JStr (sr_provider_resource_identifier r)),
      (''source_version'', JStr (sr_source_version r)), (''content_hash'', JStr (sr_content_hash r))]"

section \<open>The GitHub comment\<close>

definition max_comment_bytes :: nat where
  "max_comment_bytes = 32768"

definition safe_marker :: "string \<Rightarrow> string" where
  "safe_marker action_scope_key =
     ''<!-- ninjatech-deployment-context:'' @ sha256_hex (encode action_scope_key) @ '' -->''"

definition source_line :: "source_ref \<Rightarrow> string" where
  "source_line r = ''- `'' @ html_escape True (sr_provider r) @ ''` '' @
     ''`'' @ html_escape True (sr_resource_type r) @ ''` '' @
     ''`'' @ html_escape True (sr_provider_resource_identifier r) @ ''` '' @
     ''(version `'' @ html_escape True (sr_source_version r) @ ''`)''"

definition reason_line :: "string \<Rightarrow> string" where
  "reason_line reason = ''- '' @ html_escape True reason"

definition nl :: string where
  "nl = [CHR 0x0A]"

definition comment_text ::
  "(time \<Rightarrow> string) \<Rightarrow> string \<Rightarrow> decision \<Rightarrow> catalog_record \<Rightarrow> github_context \<Rightarrow> jira_item \<Rightarrow> string" where
  "comment_text isoformat action_scope_key dec service github jira =
     safe_marker action_scope_key @ nl @
     ''## Deployment context'' @ nl @ nl @
     ''**Decision:** `'' @ decision_outcome_value (d_outcome dec) @ ''`'' @ nl @ nl @
     ''**Service:** `'' @ html_escape True (k_canonical_service_id service) @ ''`  '' @ nl @
     ''**Repository:** `'' @ html_escape True (g_full_name github) @ ''`  '' @ nl @
     ''**Jira issue:** `'' @ html_escape True (j_key jira) @ ''`  '' @ nl @
     ''**Policy version:** `'' @ str_int (d_policy_version dec) @ ''`  '' @ nl @
     ''**Generated:** `'' @ isoformat (d_generated_at dec) @ ''`'' @ nl @ nl @
     ''### Reasons'' @ nl @ join_lines (map reason_line (d_reasons dec)) @ nl @ nl @
     ''### Source references'' @ nl @
     join_lines (map source_line (sorted_references (d_source_references dec))) @ nl"

definition render_github_comment ::
  "(time \<Rightarrow> string) \<Rightarrow> string \<Rightarrow> decision \<Rightarrow> catalog_record \<Rightarrow> github_context \<Rightarrow> jira_item \<Rightarrow> string result" where
  "render_github_comment isoformat action_scope_key dec service github jira =
     (let rendered = comment_text isoformat action_scope_key dec service github jira
      in bindR (guardR (length (encode rendered) \<le> max_comment_bytes)
           (ValueError ''rendered GitHub comment exceeds its safe size limit'')) (\<lambda>_. Inr rendered))"

section \<open>The Slack notification\<close>

definition notification_text :: "decision \<Rightarrow> string \<Rightarrow> action_ref \<Rightarrow> string \<Rightarrow> string" where
  "notification_text dec canonical_service_id github_action url =
     ''Deployment context sync'' @ nl @
     ''Decision: '' @ decision_outcome_value (d_outcome dec) @ nl @
     ''Service: '' @ html_escape False canonical_service_id @ nl @
     ''Authoritative GitHub: <'' @ html_escape True url @ ''|deployment-context comment>'' @ nl @
     ''GitHub revision: '' @ str_int (int (ar_revision github_action))"

definition render_slack_notification :: "decision \<Rightarrow> string \<Rightarrow> action_ref \<Rightarrow> int \<Rightarrow> string result" where
  "render_slack_notification dec canonical_service_id github_action maximum_characters =
     (case ar_provider_url github_action of
        None \<Rightarrow> Inl (ValueError ''confirmed GitHub action requires a bounded URL'')
      | Some url \<Rightarrow>
          bindR (guardR (length url \<le> 2000) (ValueError ''confirmed GitHub action requires a bounded URL'')) (\<lambda>_.
          bindR (urlsplit url) (\<lambda>parsed.
          bindR (guardR (u_scheme parsed \<in> {''http'', ''https''} \<and> hostname parsed \<noteq> None)
                   (ValueError ''GitHub action URL must be absolute HTTP(S)'')) (\<lambda>_.
          let text = notification_text dec canonical_service_id github_action url in
          bindR (guardR (int (length text) \<le> maximum_characters \<and> length (encode text) \<le> 4000 \<and> count_lines text \<le> 6)
                   (ValueError ''Slack notification exceeds its bounded message contract'')) (\<lambda>_. Inr text)))))"

definition make_slack_message :: "string \<Rightarrow> string \<Rightarrow> slack_message result" where
  "make_slack_message channel text =
     bindR (guardR (slack_channel channel \<and> 1 \<le> length text \<and> length text \<le> 4000) ValidationError)
       (\<lambda>_. Inr \<lparr>sm_channel = channel, sm_text = text, sm_mrkdwn = True, sm_unfurl_links = False, sm_unfurl_media = False\<rparr>)"

definition provider_payload :: "slack_message \<Rightarrow> jobj" where
  "provider_payload m =
     [(''channel'', JStr (sm_channel m)), (''text'', JStr (sm_text m)), (''mrkdwn'', JBool (sm_mrkdwn m)),
      (''unfurl_links'', JBool (sm_unfurl_links m)), (''unfurl_media'', JBool (sm_unfurl_media m))]"

section \<open>Scopes and snapshots\<close>

definition github_scope_key :: "string option \<Rightarrow> int \<Rightarrow> int \<Rightarrow> string \<Rightarrow> string result" where
  "github_scope_key deployment_scope repository_id issue_number canonical_service_id =
     (case deployment_scope of
        None \<Rightarrow> Inl (PermanentTaskError ''deployment_scope_not_configured'')
      | Some scope \<Rightarrow> Inr (workflow_version @ '':'' @ scope @ '':'' @ str_int repository_id @ '':'' @
          str_int issue_number @ '':'' @ canonical_service_id @ '':github_comment''))"

definition slack_action_scope_key ::
  "string option \<Rightarrow> string option \<Rightarrow> int \<Rightarrow> int \<Rightarrow> string \<Rightarrow> nat \<Rightarrow> string \<Rightarrow> string result" where
  "slack_action_scope_key deployment_scope expected_team_id repository_id issue_number canonical_service_id
     github_action_revision channel_id =
     bindR (expectR (ValueError ''deployment scope is required'') deployment_scope) (\<lambda>scope.
     bindR (expectR (ValueError ''expected Slack team is required'') expected_team_id) (\<lambda>team.
       Inr (workflow_version @ '':'' @ scope @ '':slack_team:'' @ team @ '':'' @ str_int repository_id @ '':'' @
         str_int issue_number @ '':'' @ canonical_service_id @ '':github_revision:'' @
         str_int (int github_action_revision) @ '':slack_channel:'' @ channel_id @ '':notification'')))"

definition decision_snapshot_hash :: "decision \<Rightarrow> string result" where
  "decision_snapshot_hash dec = sha256_json (JObj
     [(''workflow_version'', JStr workflow_version), (''policy_version'', JInt (d_policy_version dec)),
      (''outcome'', JStr (decision_outcome_value (d_outcome dec))),
      (''reason_codes'', JArr (map (\<lambda>c. JStr (reason_code_value c)) (d_reason_codes dec))),
      (''sources'', JArr (map reference_json (sorted_references (d_source_references dec))))])"

definition optional_json :: "string option \<Rightarrow> json" where
  "optional_json v = (case v of None \<Rightarrow> JNull | Some s \<Rightarrow> JStr s)"

definition slack_decision_snapshot_hash :: "decision \<Rightarrow> action_ref \<Rightarrow> string \<Rightarrow> string option \<Rightarrow> string result" where
  "slack_decision_snapshot_hash dec github_action channel_id expected_team_id =
     bindR (expectR (ValueError ''expected Slack team is required'') expected_team_id) (\<lambda>team.
     sha256_json (JObj
       [(''workflow_version'', JStr workflow_version),
        (''decision'', JObj
          [(''outcome'', JStr (decision_outcome_value (d_outcome dec))),
           (''reason_codes'', JArr (map JStr (sort (map reason_code_value (d_reason_codes dec))))),
           (''policy_version'', JInt (d_policy_version dec))]),
        (''sources'', JArr (map reference_json (sorted_references (d_source_references dec)))),
        (''authoritative_github'', JObj
          [(''provider_resource_identifier'', optional_json (ar_provider_resource_identifier github_action)),
           (''revision'', JInt (int (ar_revision github_action)))]),
        (''slack_team'', JStr team), (''channel'', JStr channel_id)]))"

end
