(* ===== verification/Slack_Delivery.thy ===== *)
theory Slack_Delivery
  imports Rendering
begin

text \<open>
  \<open>SlackDeliveryService\<close> of \<open>integrations/slack.py\<close>: the secondary delivery, which reserves its own
  action, never resends a message whose outcome is unknown, and reports every provider failure as
  a result.
\<close>

section \<open>Results\<close>

definition delivery_result ::
  "delivery_state \<Rightarrow> external_action \<Rightarrow> string option \<Rightarrow> slack_result handler_io" where
  "delivery_result state action error_code =
     seqE (emit_metric SLACK_DELIVERY_STATE_COUNT [(L_DELIVERY_STATE, V_DELIVERY_STATE state)])
    (seqE (if state = DELIVERY_OUTCOME_UNKNOWN
           then emit_metric OUTCOME_UNKNOWN_COUNT [(L_PROVIDER, V_PROVIDER P_SLACK), (L_OPERATION, V_OPERATION OP_SLACK_NOTIFICATION)]
           else ret ())
     (liftR (bindR (action_reference action) (\<lambda>reference.
        make_slack_result \<lparr>sl_requested = True, sl_state = state, sl_action = Some reference,
          sl_safe_error_code = error_code\<rparr>))))"

text \<open>\<open>action.last_error_code or default\<close>.\<close>

definition last_error_or :: "string \<Rightarrow> external_action \<Rightarrow> string option" where
  "last_error_or fallback x = (case x_last_error_code x of None \<Rightarrow> Some fallback
     | Some c \<Rightarrow> if c = [] then Some fallback else Some c)"

definition known_unsent_delay :: "pyfloat option \<Rightarrow> pyfloat" where
  "known_unsent_delay retry_after = (case retry_after of None \<Rightarrow> FFin 5 | Some v \<Rightarrow> py_max (FFin 1) v)"

definition unsent_statuses :: "action_status set" where
  "unsent_statuses = {RESERVED, READY_TO_EXECUTE, RETRYABLE_FAILURE}"

section \<open>Delivery\<close>

record delivery_request =
  dr_channel_id :: string
  dr_canonical_service_id :: string
  dr_github_repository_id :: int
  dr_github_issue_number :: int
  dr_github_action :: action_ref
  dr_decision :: decision

text \<open>What an action that was reserved before allows: a final answer, or \<open>None\<close> to go on.\<close>

definition earlier_outcome ::
  "handler_env \<Rightarrow> task_execution \<Rightarrow> external_action \<Rightarrow> action_status \<Rightarrow> slack_result option handler_io" where
  "earlier_outcome hn task action status =
     (let answer = (\<lambda>state code. bindE (delivery_result state action code) (\<lambda>r. ret (Some r))) in
      if status = ACTION_SUCCEEDED then answer DELIVERY_SUCCEEDED None
      else if status = OUTCOME_UNKNOWN
      then answer DELIVERY_OUTCOME_UNKNOWN (last_error_or ''slack_manual_reconciliation_required'' action)
      else if status = PERMANENT_FAILURE
      then answer DELIVERY_PERMANENT_FAILURE (last_error_or ''slack_delivery_requires_attention'' action)
      else if status = ACTION_NEEDS_HUMAN_REVIEW
      then answer DELIVERY_NEEDS_HUMAN_REVIEW (last_error_or ''slack_delivery_requires_attention'' action)
      else if status = EXECUTING then
        seqE (check_cancelled hn)
       (bindE (move_action hn task (x_id action) {EXECUTING} OUTCOME_UNKNOWN ''slack_previous_write_unresolved'' []
                 (Some ''slack_manual_reconciliation_required'') None None) (\<lambda>action'.
        bindE (delivery_result DELIVERY_OUTCOME_UNKNOWN action' (Some ''slack_manual_reconciliation_required'')) (\<lambda>r. ret (Some r))))
      else if status = RETRYABLE_FAILURE then
        bindE (action_holdoff hn (x_id action)) (\<lambda>delay.
        seqE (check_cancelled hn)
          (if delay > 0 then answer DELIVERY_RETRYABLE_FAILURE (last_error_or ''slack_retry_not_ready'' action) else ret None))
      else ret None)"

text \<open>A provider failure as the transition it asks for and the state it is reported with.\<close>

record refusal =
  rf_status :: action_status
  rf_transition :: string
  rf_values :: "column_value list"
  rf_code :: string
  rf_not_before :: "pyfloat option"
  rf_state :: delivery_state

definition report_refusal ::
  "handler_env \<Rightarrow> task_execution \<Rightarrow> external_action \<Rightarrow> action_status set \<Rightarrow> refusal \<Rightarrow> slack_result handler_io" where
  "report_refusal hn task action expected rf =
     bindE (move_action hn task (x_id action) expected (rf_status rf) (rf_transition rf) (rf_values rf)
              (Some (rf_code rf)) None (rf_not_before rf)) (\<lambda>action'.
     seqE (check_cancelled hn) (delivery_result (rf_state rf) action' (Some (rf_code rf))))"

fun identity_refusal :: "exn \<Rightarrow> refusal option" where
  "identity_refusal (SlackRetryableFailure code retry_after) = Some
     \<lparr>rf_status = RETRYABLE_FAILURE, rf_transition = ''slack_identity_retryable_failure'',
      rf_values = [Set_Write_Started_At None], rf_code = code,
      rf_not_before = Some (known_unsent_delay retry_after), rf_state = DELIVERY_RETRYABLE_FAILURE\<rparr>"
| "identity_refusal (SlackPermanentFailure code) = Some
     \<lparr>rf_status = PERMANENT_FAILURE, rf_transition = ''slack_identity_permanent_failure'',
      rf_values = [Set_Write_Started_At None, Set_Reconcile_Not_Before None], rf_code = code,
      rf_not_before = None, rf_state = DELIVERY_PERMANENT_FAILURE\<rparr>"
| "identity_refusal _ = None"

definition identity_mismatch :: refusal where
  "identity_mismatch =
     \<lparr>rf_status = ACTION_NEEDS_HUMAN_REVIEW, rf_transition = ''slack_identity_mismatch'',
      rf_values = [Set_Write_Started_At None, Set_Reconcile_Not_Before None], rf_code = ''slack_identity_mismatch'',
      rf_not_before = None, rf_state = DELIVERY_NEEDS_HUMAN_REVIEW\<rparr>"

fun post_refusal :: "exn \<Rightarrow> refusal option" where
  "post_refusal (SlackRetryableFailure code retry_after) = Some
     \<lparr>rf_status = RETRYABLE_FAILURE, rf_transition = ''slack_retryable_failure'',
      rf_values = [Set_Write_Started_At None], rf_code = code,
      rf_not_before = Some (known_unsent_delay retry_after), rf_state = DELIVERY_RETRYABLE_FAILURE\<rparr>"
| "post_refusal (SlackPermanentFailure code) = Some
     \<lparr>rf_status = PERMANENT_FAILURE, rf_transition = ''slack_permanent_failure'', rf_values = [], rf_code = code,
      rf_not_before = None, rf_state = DELIVERY_PERMANENT_FAILURE\<rparr>"
| "post_refusal (SlackOutcomeUnknown code) = Some
     \<lparr>rf_status = OUTCOME_UNKNOWN, rf_transition = ''slack_outcome_unknown'', rf_values = [], rf_code = code,
      rf_not_before = None, rf_state = DELIVERY_OUTCOME_UNKNOWN\<rparr>"
| "post_refusal _ = None"

text \<open>\<open>try\<close> around a provider call, the named exceptions as values.\<close>

definition attempt_call :: "(exn \<Rightarrow> 'r option) \<Rightarrow> 'a handler_io \<Rightarrow> ('r + 'a) handler_io" where
  "attempt_call named m = catchE (bindE m (\<lambda>x. ret (Inr x)))
     (\<lambda>e. map_option (\<lambda>r. ret (Inl r)) (named e))"

definition verify_slack_identity :: "handler_env \<Rightarrow> task_execution \<Rightarrow> external_action \<Rightarrow> slack_result option handler_io" where
  "verify_slack_identity hn task action =
     bindE (attempt_call identity_refusal (ask VerifySlackIdentity (hn_slack_identity hn))) (\<lambda>v.
     seqE (check_cancelled hn) (case v of
         Inl rf \<Rightarrow> bindE (report_refusal hn task action unsent_statuses rf) (\<lambda>r. ret (Some r))
       | Inr verified \<Rightarrow>
           if verified then ret None
           else bindE (report_refusal hn task action unsent_statuses identity_mismatch) (\<lambda>r. ret (Some r))))"

definition receipt_identifier :: "slack_receipt \<Rightarrow> string" where
  "receipt_identifier receipt = rc_channel receipt @ '':'' @ rc_timestamp receipt"

definition post_message ::
  "handler_env \<Rightarrow> task_execution \<Rightarrow> external_action \<Rightarrow> slack_message \<Rightarrow> string \<Rightarrow> slack_result handler_io" where
  "post_message hn task action message desired_fingerprint =
     seqE (check_cancelled hn)
    (bindE (move_action hn task (x_id action) unsent_statuses EXECUTING ''slack_write_started'' [] None
              (Some (slack_write_timeout_seconds (hn_settings hn))) None) (\<lambda>action'.
     seqE (check_cancelled hn)
    (bindE (attempt_call post_refusal (ask (PostNotification message) (hn_receipt hn))) (\<lambda>v.
     seqE (check_ownership hn) (case v of
         Inl rf \<Rightarrow> report_refusal hn task action' {EXECUTING} rf
       | Inr receipt \<Rightarrow>
           bindE (liftR (sha256_json (JObj [(''channel'', JStr (rc_channel receipt)), (''timestamp'', JStr (rc_timestamp receipt))])))
             (\<lambda>response_fingerprint.
           bindE (move_action hn task (x_id action') {EXECUTING} ACTION_SUCCEEDED ''slack_write_succeeded''
                    [Set_Provider_Resource_Identifier (Some (receipt_identifier receipt)), Set_Provider_Url None,
                     Set_Response_Fingerprint (Some response_fingerprint),
                     Set_Applied_Request_Fingerprint (Some desired_fingerprint)] None None None) (\<lambda>sent.
           seqE (check_cancelled hn) (delivery_result DELIVERY_SUCCEEDED sent None))))))))"

definition deliver :: "handler_env \<Rightarrow> task_execution \<Rightarrow> delivery_request \<Rightarrow> slack_result handler_io" where
  "deliver hn task request =
     (let s = hn_settings hn in
     seqE (check_cancelled hn)
    (bindE (liftR (render_slack_notification (dr_decision request) (dr_canonical_service_id request)
                     (dr_github_action request) (slack_max_text_chars s))) (\<lambda>text.
     bindE (liftR (make_slack_message (dr_channel_id request) text)) (\<lambda>message.
     bindE (liftR (slack_action_scope_key (deployment_scope_id s) (slack_expected_team_id s)
                     (dr_github_repository_id request) (dr_github_issue_number request)
                     (dr_canonical_service_id request) (ar_revision (dr_github_action request))
                     (dr_channel_id request))) (\<lambda>scope.
     bindE (liftR (sha256_json (JObj (provider_payload message)))) (\<lambda>desired_fingerprint.
     bindE (liftR (slack_decision_snapshot_hash (dr_decision request) (dr_github_action request)
                     (dr_channel_id request) (slack_expected_team_id s))) (\<lambda>snapshot_hash.
     bindE (store_call hn (reserve_or_get (te_execution_fence task) SLACK POST_DEPLOYMENT_CONTEXT_NOTIFICATION
                     scope desired_fingerprint snapshot_hash)) (\<lambda>reservation.
     let action = rv_action reservation in
     if rv_kind reservation \<in> {RESERVATION_CHANGED, RESERVATION_SOURCE_DRIFT}
     then delivery_result DELIVERY_NEEDS_HUMAN_REVIEW action (Some ''slack_action_evidence_changed'')
     else
       bindE (liftR (action_status_column action)) (\<lambda>status.
       bindE (earlier_outcome hn task action status) (\<lambda>answer. case answer of
           Some r \<Rightarrow> ret r
         | None \<Rightarrow>
             seqE (check_cancelled hn)
            (bindE (verify_slack_identity hn task action) (\<lambda>refused. case refused of
                 Some r \<Rightarrow> ret r
               | None \<Rightarrow> post_message hn task action message desired_fingerprint))))))))))))"

end
