(* ===== verification/Policy.thy ===== *)
theory Policy
  imports Config
begin

text \<open>
  \<open>integrations/policy.py\<close>: the static scope check before any network access and the evaluation of
  the service catalog. A Python set of signatures is a set; \<open>max(..., key=...)\<close> is the first
  candidate with the greatest source version in the order of code points.
\<close>

section \<open>Evaluations\<close>

record policy_evaluation =
  pe_outcome :: decision_outcome
  pe_reason_codes :: "reason_code list"
  pe_reasons :: "string list"
  pe_record :: "catalog_record option"

definition policy_result ::
  "decision_outcome \<Rightarrow> reason_code \<Rightarrow> string \<Rightarrow> catalog_record option \<Rightarrow> policy_evaluation" where
  "policy_result outcome code reason r =
     \<lparr>pe_outcome = outcome, pe_reason_codes = [code], pe_reasons = [reason], pe_record = r\<rparr>"

definition listed :: "string \<Rightarrow> string list \<Rightarrow> bool" where
  "listed v items \<longleftrightarrow> casefold v \<in> casefold ` set items"

definition jira_project :: "string \<Rightarrow> string" where
  "jira_project key = fst (partition_at (CHR ''-'') key)"

definition evaluate_static_scope :: "sync_input \<Rightarrow> settings \<Rightarrow> policy_evaluation option" where
  "evaluate_static_scope i s =
     (if \<not> listed (i_service_id i) (deployment_allowed_service_ids s) then
        Some (policy_result BLOCKED SERVICE_NOT_ALLOWED
          ''The requested service is outside the configured deployment scope.'' None)
      else if \<not> listed (i_github_repository i) (deployment_allowed_github_repositories s) then
        Some (policy_result BLOCKED REPOSITORY_NOT_ALLOWED
          ''The requested repository is outside the configured deployment scope.'' None)
      else if \<not> listed (jira_project (i_jira_issue_key i)) (deployment_allowed_jira_projects s) then
        Some (policy_result BLOCKED JIRA_PROJECT_NOT_ALLOWED
          ''The requested Jira project is outside the configured deployment scope.'' None)
      else None)"

section \<open>Catalog authority\<close>

definition resolves :: "string \<Rightarrow> catalog_record \<Rightarrow> bool" where
  "resolves requested r \<longleftrightarrow>
     requested \<in> {casefold (k_service_id r), casefold (k_canonical_service_id r)} \<union> casefold ` set (k_aliases r)"

type_synonym signature =
  "string \<times> int \<times> string list \<times> string option \<times> data_classification \<times> bool \<times> string option \<times> bool"

definition signature :: "catalog_record \<Rightarrow> signature" where
  "signature r = (casefold (k_canonical_service_id r), k_policy_version r, k_approved_repositories r,
     k_service_owner r, k_data_classification r, k_automatic_publication_allowed r,
     k_required_reviewer r, k_allow_automatic_updates r)"

fun max_by :: "('a \<Rightarrow> 'b::linorder) \<Rightarrow> 'a \<Rightarrow> 'a list \<Rightarrow> 'a" where
  "max_by key best [] = best"
| "max_by key best (x # xs) = max_by key (if key best < key x then x else best) xs"

definition evaluate_record :: "sync_input \<Rightarrow> settings \<Rightarrow> catalog_record \<Rightarrow> policy_evaluation" where
  "evaluate_record i s r =
     (if k_service_owner r = None then
        policy_result NEEDS_HUMAN_REVIEW SERVICE_OWNER_MISSING
          ''The service catalog does not identify an accountable service owner.'' (Some r)
      else if k_data_classification r = RESTRICTED then
        policy_result BLOCKED DATA_CLASSIFICATION_BLOCKED
          ''Restricted service data is not eligible for this automated workflow.'' (Some r)
      else if k_data_classification r = CONFIDENTIAL then
        policy_result NEEDS_HUMAN_REVIEW DATA_CLASSIFICATION_BLOCKED
          ''Confidential service data requires a human-reviewed workflow.'' (Some r)
      else if k_policy_version r < deployment_minimum_policy_version s then
        policy_result NEEDS_HUMAN_REVIEW POLICY_STALE
          ''The service policy version is older than the configured minimum.'' (Some r)
      else if casefold (i_github_repository i) \<notin> set (k_approved_repositories r) then
        policy_result BLOCKED REPOSITORY_NOT_OWNED_BY_SERVICE
          ''The service catalog does not authorize this repository for the service.'' (Some r)
      else if \<not> k_automatic_publication_allowed r then
        policy_result NEEDS_HUMAN_REVIEW AUTOMATIC_PUBLICATION_DISABLED
          ''The service policy does not permit automatic publication.'' (Some r)
      else if k_required_reviewer r \<noteq> None then
        policy_result NEEDS_HUMAN_REVIEW REVIEWER_REQUIRED
          ''The service policy requires a named reviewer before publication.'' (Some r)
      else
        policy_result READY REASON_READY
          ''Policy and ownership checks permit the bounded deployment-context action.'' (Some r))"

definition evaluate_service_catalog :: "sync_input \<Rightarrow> catalog_record list \<Rightarrow> settings \<Rightarrow> policy_evaluation" where
  "evaluate_service_catalog i records s =
     (case filter (resolves (casefold (i_service_id i))) records of
        [] \<Rightarrow> policy_result BLOCKED SERVICE_RECORD_MALFORMED
                ''No authoritative service-catalog record resolved the requested service.'' None
      | c # cs \<Rightarrow>
          if card (signature ` set (c # cs)) \<noteq> 1 then
            policy_result NEEDS_HUMAN_REVIEW SERVICE_RECORD_CONFLICT
              ''Conflicting service-catalog records require an owner to choose authority.'' None
          else evaluate_record i s (max_by k_source_version c cs))"

section \<open>Lemmas\<close>

lemma max_by_mem: "max_by key x xs \<in> set (x # xs)"
proof (induction xs arbitrary: x)
  case (Cons y xs)
  then show ?case using Cons [of y] Cons [of x] by auto
qed simp

lemma max_by_ge: "y \<in> set (x # xs) \<Longrightarrow> key y \<le> key (max_by key x xs)"
proof (induction xs arbitrary: x y)
  case (Cons z xs)
  have base: "key x \<le> key (max_by key x xs)" "key z \<le> key (max_by key z xs)" using Cons.IH by auto
  show ?case
  proof (cases "key x < key z")
    case True
    with Cons.prems Cons.IH [of y z] base(2) show ?thesis by auto
  next
    case False
    with Cons.prems Cons.IH [of y x] base(1) show ?thesis by auto
  qed
qed simp

text \<open>The verdict: outcome and reasons without the record that is shown with them.\<close>

definition verdict :: "policy_evaluation \<Rightarrow> decision_outcome \<times> reason_code list \<times> string list" where
  "verdict e = (pe_outcome e, pe_reason_codes e, pe_reasons e)"

lemma evaluate_record_signature:
  "signature r = signature r' \<Longrightarrow> verdict (evaluate_record i s r) = verdict (evaluate_record i s r')"
  by (simp add: signature_def evaluate_record_def verdict_def policy_result_def)

definition authorized :: "sync_input \<Rightarrow> settings \<Rightarrow> catalog_record \<Rightarrow> bool" where
  "authorized i s r \<longleftrightarrow>
     k_service_owner r \<noteq> None \<and> k_data_classification r \<in> {PUBLIC, INTERNAL} \<and>
     deployment_minimum_policy_version s \<le> k_policy_version r \<and>
     casefold (i_github_repository i) \<in> set (k_approved_repositories r) \<and>
     k_automatic_publication_allowed r \<and> k_required_reviewer r = None"

lemma evaluate_record_ready: "pe_outcome (evaluate_record i s r) = READY \<longleftrightarrow> authorized i s r"
  by (cases "k_data_classification r") (auto simp: evaluate_record_def policy_result_def authorized_def)

lemma evaluate_record_record: "pe_record (evaluate_record i s r) = Some r"
  by (simp add: evaluate_record_def policy_result_def)

lemma signatures_equal: "card (signature ` set (c # cs)) = 1 \<longleftrightarrow> (\<forall>r \<in> set (c # cs). signature r = signature c)"
proof -
  have "card (signature ` set (c # cs)) = 1 \<longleftrightarrow> (\<exists>x. signature ` set (c # cs) = {x})"
    by (simp add: card_1_singleton_iff)
  also have "\<dots> \<longleftrightarrow> (\<forall>r \<in> set (c # cs). signature r = signature c)" by auto
  finally show ?thesis .
qed

lemma evaluate_cases:
  obtains "filter (resolves (casefold (i_service_id i))) records = []"
      "evaluate_service_catalog i records s = policy_result BLOCKED SERVICE_RECORD_MALFORMED
         ''No authoritative service-catalog record resolved the requested service.'' None"
  | r r' where "r \<in> set records" "r' \<in> set records" "resolves (casefold (i_service_id i)) r"
      "resolves (casefold (i_service_id i)) r'" "signature r \<noteq> signature r'"
      "evaluate_service_catalog i records s = policy_result NEEDS_HUMAN_REVIEW SERVICE_RECORD_CONFLICT
         ''Conflicting service-catalog records require an owner to choose authority.'' None"
  | r where "r \<in> set records" "resolves (casefold (i_service_id i)) r"
      "\<And>r'. r' \<in> set records \<Longrightarrow> resolves (casefold (i_service_id i)) r' \<Longrightarrow>
         signature r' = signature r \<and> k_source_version r' \<le> k_source_version r"
      "evaluate_service_catalog i records s = evaluate_record i s r"
proof (cases "filter (resolves (casefold (i_service_id i))) records")
  case Nil
  with that(1) show ?thesis by (simp add: evaluate_service_catalog_def)
next
  case (Cons c cs)
  then have mem: "r \<in> set (c # cs) \<longleftrightarrow> r \<in> set records \<and> resolves (casefold (i_service_id i)) r" for r
    unfolding Cons [symmetric] by auto
  show ?thesis
  proof (cases "\<forall>r \<in> set (c # cs). signature r = signature c")
    case True
    then have "evaluate_service_catalog i records s = evaluate_record i s (max_by k_source_version c cs)"
      unfolding evaluate_service_catalog_def Cons list.case signatures_equal [symmetric] by simp
    moreover have "signature r' = signature (max_by k_source_version c cs) \<and>
        k_source_version r' \<le> k_source_version (max_by k_source_version c cs)" if "r' \<in> set (c # cs)" for r'
      using True that max_by_mem [of k_source_version c cs] max_by_ge [OF that] by metis
    ultimately show ?thesis using that(3) mem max_by_mem [of k_source_version c cs] by metis
  next
    case False
    then obtain r where "r \<in> set (c # cs)" "signature r \<noteq> signature c" by blast
    moreover from False have "evaluate_service_catalog i records s = policy_result NEEDS_HUMAN_REVIEW SERVICE_RECORD_CONFLICT
         ''Conflicting service-catalog records require an owner to choose authority.'' None"
      unfolding evaluate_service_catalog_def Cons list.case signatures_equal [symmetric] by simp
    ultimately show ?thesis using that(2) mem [of r] mem [of c] by (metis list.set_intros(1))
  qed
qed

section \<open>The verdict\<close>

lemma catalog_ready_iff:
  "pe_outcome (evaluate_service_catalog i records s) = READY \<longleftrightarrow>
     (\<exists>r \<in> set records. resolves (casefold (i_service_id i)) r) \<and>
     (\<forall>r \<in> set records. resolves (casefold (i_service_id i)) r \<longrightarrow> authorized i s r \<and>
        (\<forall>r' \<in> set records. resolves (casefold (i_service_id i)) r' \<longrightarrow> signature r' = signature r))"
proof (cases rule: evaluate_cases [of i records s])
  case 1
  then show ?thesis by (simp add: policy_result_def filter_empty_conv)
next
  case (2 r r')
  then have "pe_outcome (evaluate_service_catalog i records s) \<noteq> READY" by (simp add: policy_result_def)
  with 2(1-5) show ?thesis by metis
next
  case (3 r)
  have "signature r = signature r' \<Longrightarrow> authorized i s r \<longleftrightarrow> authorized i s r'" for r r'
    by (simp add: signature_def authorized_def)
  then show ?thesis unfolding 3(4) evaluate_record_ready using 3 by metis
qed

lemma catalog_record_shown:
  assumes "pe_record (evaluate_service_catalog i records s) = Some r"
  shows "r \<in> set records" "resolves (casefold (i_service_id i)) r"
    "\<forall>r' \<in> set records. resolves (casefold (i_service_id i)) r' \<longrightarrow> k_source_version r' \<le> k_source_version r"
proof (atomize (full), cases rule: evaluate_cases [of i records s])
  case (3 r')
  then have "r' = r" using assms unfolding 3(4) evaluate_record_record by simp
  with 3 show "r \<in> set records \<and> resolves (casefold (i_service_id i)) r \<and>
    (\<forall>r' \<in> set records. resolves (casefold (i_service_id i)) r' \<longrightarrow> k_source_version r' \<le> k_source_version r)" by blast
qed (use assms in \<open>simp_all add: policy_result_def\<close>)

text \<open>Records with the same set give the same verdict: the three cases depend on the set alone.\<close>

lemma verdict_of_set:
  assumes same: "set records' = set records"
  shows "verdict (evaluate_service_catalog i records' s) = verdict (evaluate_service_catalog i records s)"
proof (cases rule: evaluate_cases [of i records s])
  case 1
  then have "filter (resolves (casefold (i_service_id i))) records' = []" using same by (simp add: filter_empty_conv)
  with 1 show ?thesis by (simp add: evaluate_service_catalog_def)
next
  case (2 r r')
  note r = 2
  show ?thesis
  proof (cases rule: evaluate_cases [of i records' s])
    case 1
    with r same show ?thesis by (metis filter_empty_conv)
  next
    case (2 q q')
    with r(6) show ?thesis by simp
  next
    case (3 q)
    with r(1-5) same show ?thesis by metis
  qed
next
  case (3 r)
  note r = 3
  show ?thesis
  proof (cases rule: evaluate_cases [of i records' s])
    case 1
    with r same show ?thesis by (metis filter_empty_conv)
  next
    case (2 q q')
    with r same show ?thesis by metis
  next
    case (3 q)
    with r same have "signature q = signature r" by metis
    then show ?thesis unfolding r(4) 3(4) by (rule evaluate_record_signature)
  qed
qed

lemma static_scope_cases:
  "evaluate_static_scope i s = None \<longleftrightarrow>
     listed (i_service_id i) (deployment_allowed_service_ids s) \<and>
     listed (i_github_repository i) (deployment_allowed_github_repositories s) \<and>
     listed (jira_project (i_jira_issue_key i)) (deployment_allowed_jira_projects s)"
  "evaluate_static_scope i s = Some e \<Longrightarrow> pe_outcome e = BLOCKED"
  by (auto simp: evaluate_static_scope_def policy_result_def split: if_splits)

section \<open>Properties\<close>

text \<open>
  C21. The policy fails closed. The static scope lets a request pass exactly when service,
  repository and project are allowlisted up to case, and otherwise blocks it. The catalog answers
  ready exactly when some record resolves the service, all that do carry the same authority, and
  it has an owner, releasable data, a current policy, this repository, automatic publication and
  no required reviewer; the record shown is a resolving one with the latest source version; and
  the verdict does not depend on the order or the repetition of the records.
\<close>

theorem policy_fails_closed:
  "(evaluate_static_scope i s = None \<longleftrightarrow>
      listed (i_service_id i) (deployment_allowed_service_ids s) \<and>
      listed (i_github_repository i) (deployment_allowed_github_repositories s) \<and>
      listed (jira_project (i_jira_issue_key i)) (deployment_allowed_jira_projects s)) \<and>
   (\<forall>e. evaluate_static_scope i s = Some e \<longrightarrow> pe_outcome e = BLOCKED) \<and>
   (pe_outcome (evaluate_service_catalog i records s) = READY \<longleftrightarrow>
      (\<exists>r \<in> set records. resolves (casefold (i_service_id i)) r) \<and>
      (\<forall>r \<in> set records. resolves (casefold (i_service_id i)) r \<longrightarrow> authorized i s r \<and>
         (\<forall>r' \<in> set records. resolves (casefold (i_service_id i)) r' \<longrightarrow> signature r' = signature r))) \<and>
   (\<forall>r. pe_record (evaluate_service_catalog i records s) = Some r \<longrightarrow>
      r \<in> set records \<and> resolves (casefold (i_service_id i)) r \<and>
      (\<forall>r' \<in> set records. resolves (casefold (i_service_id i)) r' \<longrightarrow> k_source_version r' \<le> k_source_version r)) \<and>
   (\<forall>records'. set records' = set records \<longrightarrow>
      verdict (evaluate_service_catalog i records' s) = verdict (evaluate_service_catalog i records s))"
proof (intro conjI allI impI)
  show "evaluate_static_scope i s = None \<longleftrightarrow>
      listed (i_service_id i) (deployment_allowed_service_ids s) \<and>
      listed (i_github_repository i) (deployment_allowed_github_repositories s) \<and>
      listed (jira_project (i_jira_issue_key i)) (deployment_allowed_jira_projects s)" by (rule static_scope_cases(1))
  show "pe_outcome e = BLOCKED" if "evaluate_static_scope i s = Some e" for e using that by (rule static_scope_cases(2))
  show "pe_outcome (evaluate_service_catalog i records s) = READY \<longleftrightarrow>
      (\<exists>r \<in> set records. resolves (casefold (i_service_id i)) r) \<and>
      (\<forall>r \<in> set records. resolves (casefold (i_service_id i)) r \<longrightarrow> authorized i s r \<and>
         (\<forall>r' \<in> set records. resolves (casefold (i_service_id i)) r' \<longrightarrow> signature r' = signature r))"
    by (rule catalog_ready_iff)
  fix r assume "pe_record (evaluate_service_catalog i records s) = Some r"
  from catalog_record_shown [OF this] show "r \<in> set records" "resolves (casefold (i_service_id i)) r"
    "\<forall>r' \<in> set records. resolves (casefold (i_service_id i)) r' \<longrightarrow> k_source_version r' \<le> k_source_version r" .
qed (rule verdict_of_set)

definition example_record :: catalog_record where
  "example_record = \<lparr>k_service_id = ''s'', k_canonical_service_id = ''s'', k_aliases = [],
     k_service_owner = Some ''team'', k_criticality = ''low'', k_approved_repositories = [''o/r''],
     k_data_classification = INTERNAL, k_policy_version = 1, k_automatic_publication_allowed = True,
     k_required_reviewer = None, k_allow_automatic_updates = False, k_source_version = ''1'',
     k_source_url = ''http://c''\<rparr>"

lemma policy_fails_closed_witness:
  "pe_outcome (evaluate_service_catalog example_input [example_record] (default_settings ''db'')) = READY \<and>
   evaluate_static_scope example_input (default_settings ''db'') \<noteq> None"
proof -
  have "resolves (casefold (i_service_id example_input)) example_record"
    by (simp add: resolves_def example_input_def example_record_def)
  moreover have "authorized example_input (default_settings ''db'') example_record"
    by (simp add: authorized_def example_input_def example_record_def default_settings_def casefold_char_def Let_def)
  moreover have "\<not> listed (i_service_id example_input) (deployment_allowed_service_ids (default_settings ''db''))"
    by (simp add: listed_def default_settings_def)
  ultimately show ?thesis
    using policy_fails_closed [where i = example_input and s = "default_settings ''db''" and records = "[example_record]"]
    by simp
qed

end
