(* ===== verification/Workflow.thy ===== *)
theory Workflow
  imports Slack_Delivery Policy
begin

text \<open>
  \<open>integrations/workflow.py\<close>: the deployment-context handler, from the validated input over policy,
  evidence and reservation to reconciliation, the one authoritative write and the secondary
  notification. A result stays a value of the model's type until \<open>execute\<close> dumps it: parsing the
  dump of a result gives the result back, which is what \<open>_finish\<close> does with it first.
\<close>

section \<open>Provider failures\<close>

fun task_error :: "exn \<Rightarrow> exn option" where
  "task_error (RetryableProviderError code retry_after) = Some (RetryableTaskError code retry_after)"
| "task_error (PermanentProviderError code) = Some (PermanentTaskError code)"
| "task_error (ProviderNotFoundError code) = Some (PermanentTaskError code)"
| "task_error _ = None"

definition provider_call :: "'a handler_io \<Rightarrow> 'a handler_io" where
  "provider_call m = catchE m (\<lambda>e. map_option raise (task_error e))"

section \<open>Results\<close>

definition no_slack :: slack_result where
  "no_slack = \<lparr>sl_requested = False, sl_state = NOT_REQUESTED, sl_action = None, sl_safe_error_code = None\<rparr>"

definition result_of :: "decision \<Rightarrow> source_ref list \<Rightarrow> action_ref option \<Rightarrow> sync_result" where
  "result_of dec references action =
     \<lparr>w_workflow_version = workflow_version, w_decision = dec, w_source_artifacts = references,
      w_github_action = action, w_slack_notification = no_slack\<rparr>"

definition shown_policy_version :: "policy_evaluation \<Rightarrow> int" where
  "shown_policy_version evaluation = (case pe_record evaluation of Some r \<Rightarrow> k_policy_version r | None \<Rightarrow> 1)"

definition evaluation_result :: "policy_evaluation \<Rightarrow> source_ref list \<Rightarrow> time \<Rightarrow> sync_result" where
  "evaluation_result evaluation references generated_at = result_of
     \<lparr>d_outcome = pe_outcome evaluation, d_reason_codes = pe_reason_codes evaluation, d_reasons = pe_reasons evaluation,
      d_source_references = references, d_policy_version = shown_policy_version evaluation,
      d_generated_at = generated_at\<rparr> references None"

definition review_result ::
  "decision_outcome \<Rightarrow> policy_evaluation \<Rightarrow> source_ref list \<Rightarrow> reason_code \<Rightarrow> string \<Rightarrow> time \<Rightarrow> sync_result" where
  "review_result outcome evaluation references code reason generated_at = result_of
     \<lparr>d_outcome = outcome, d_reason_codes = [code], d_reasons = [reason], d_source_references = references,
      d_policy_version = shown_policy_version evaluation, d_generated_at = generated_at\<rparr> references None"

definition action_review_result ::
  "decision \<Rightarrow> source_ref list \<Rightarrow> external_action \<Rightarrow> reason_code \<Rightarrow> string \<Rightarrow> sync_result result" where
  "action_review_result dec references action code reason =
     bindR (action_reference action) (\<lambda>reference. Inr (result_of
       (dec\<lparr>d_outcome := NEEDS_HUMAN_REVIEW, d_reason_codes := [code], d_reasons := [reason]\<rparr>) references (Some reference)))"

definition success_result :: "decision \<Rightarrow> source_ref list \<Rightarrow> external_action \<Rightarrow> sync_result result" where
  "success_result dec references action =
     bindR (action_reference action) (\<lambda>reference. Inr (result_of dec references (Some reference)))"

section \<open>Source evidence\<close>

definition is_restricted :: "data_classification \<Rightarrow> bool" where
  "is_restricted c \<longleftrightarrow> c \<in> {CONFIDENTIAL, RESTRICTED}"

definition catalog_payload :: "catalog_record \<Rightarrow> jobj" where
  "catalog_payload r =
     [(''canonical_service_id'', JStr (k_canonical_service_id r)),
      (''data_classification'', JStr (data_classification_value (k_data_classification r))),
      (''deployment_policy_version'', JInt (k_policy_version r)),
      (''source_version'', JStr (k_source_version r))] @
     (if is_restricted (k_data_classification r) then [] else
     [(''service_owner'', optional_json (k_service_owner r)),
      (''criticality'', JStr (k_criticality r)),
      (''approved_repositories'', JArr (map JStr (k_approved_repositories r))),
      (''automatic_publication_allowed'', JBool (k_automatic_publication_allowed r)),
      (''required_reviewer'', optional_json (k_required_reviewer r)),
      (''allow_automatic_updates'', JBool (k_allow_automatic_updates r))])"

definition github_payload :: "github_context \<Rightarrow> jobj" where
  "github_payload g =
     [(''full_name'', JStr (g_full_name g)), (''repository_id'', JInt (g_repository_id g)),
      (''visibility'', JStr (g_visibility g)), (''archived'', JBool (g_archived g)),
      (''default_branch'', JStr (g_default_branch g)), (''default_branch_head_sha'', JStr (g_head_sha g)),
      (''issue_number'', JInt (g_issue_number g)), (''issue_state'', JStr (g_issue_state g)),
      (''issue_title'', JStr (g_issue_title g)), (''is_pull_request'', JBool (g_is_pull_request g)),
      (''source_url'', JStr (g_source_url g)), (''source_version'', JStr (g_source_version g))]"

definition jira_payload :: "(time \<Rightarrow> string) \<Rightarrow> data_classification \<Rightarrow> jira_item \<Rightarrow> jobj" where
  "jira_payload json_time classification j =
     filter (\<lambda>kv. \<not> (is_restricted classification \<and> fst kv = ''normalized_description_text''))
     [(''key'', JStr (j_key j)), (''title'', JStr (j_title j)),
      (''normalized_description_text'', JStr (j_description j)), (''status'', JStr (j_status j)),
      (''priority'', optional_json (j_priority j)), (''labels'', JArr (map JStr (j_labels j))),
      (''assignee_identifier'', optional_json (j_assignee j)), (''updated_at'', JStr (json_time (j_updated_at j))),
      (''source_url'', JStr (j_source_url j)), (''source_version'', JStr (j_source_version j))]"

definition record_evidence :: "handler_env \<Rightarrow> task_execution \<Rightarrow> observation \<Rightarrow> source_ref handler_io" where
  "record_evidence hn task ob =
     bindE (now_utc hn) (\<lambda>fetched_at.
     bindE (store_call hn (record_artifact (nat (source_artifact_max_bytes (hn_settings hn))) (te_execution_fence task)
              (ob\<lparr>ob_fetched_at := fetched_at\<rparr>))) (\<lambda>artifact.
       liftR (source_reference artifact)))"

definition catalog_observation :: "catalog_record \<Rightarrow> observation" where
  "catalog_observation r =
     \<lparr>ob_provider = ''service_catalog'', ob_resource_type = ''service'',
      ob_provider_resource_identifier = k_canonical_service_id r, ob_source_url = k_source_url r,
      ob_source_version = k_source_version r, ob_data_classification = k_data_classification r,
      ob_redaction_applied = is_restricted (k_data_classification r),
      ob_normalized_payload = catalog_payload r, ob_fetched_at = 0\<rparr>"

definition record_catalog :: "handler_env \<Rightarrow> task_execution \<Rightarrow> catalog_record list \<Rightarrow> source_ref list handler_io" where
  "record_catalog hn task records = mapE (\<lambda>r. record_evidence hn task (catalog_observation r)) records"

definition record_github :: "handler_env \<Rightarrow> task_execution \<Rightarrow> github_context \<Rightarrow> source_ref handler_io" where
  "record_github hn task g = record_evidence hn task
     \<lparr>ob_provider = ''github'', ob_resource_type = ''repository_issue_context'',
      ob_provider_resource_identifier = str_int (g_repository_id g) @ '':issue:'' @ str_int (g_issue_number g),
      ob_source_url = g_source_url g, ob_source_version = g_source_version g, ob_data_classification = INTERNAL,
      ob_redaction_applied = False, ob_normalized_payload = github_payload g, ob_fetched_at = 0\<rparr>"

definition record_jira ::
  "handler_env \<Rightarrow> task_execution \<Rightarrow> jira_item \<Rightarrow> data_classification \<Rightarrow> source_ref handler_io" where
  "record_jira hn task j classification = record_evidence hn task
     \<lparr>ob_provider = ''jira'', ob_resource_type = ''work_item'', ob_provider_resource_identifier = j_key j,
      ob_source_url = j_source_url j, ob_source_version = j_source_version j, ob_data_classification = classification,
      ob_redaction_applied = is_restricted classification,
      ob_normalized_payload = jira_payload (hn_json_time hn) classification j, ob_fetched_at = 0\<rparr>"

definition log_decision :: "policy_evaluation \<Rightarrow> unit handler_io" where
  "log_decision evaluation = emit_metric POLICY_DECISION_COUNT [(L_DECISION, V_DECISION (pe_outcome evaluation))]"

section \<open>Reconciliation\<close>

definition needs_review :: "reason_code \<Rightarrow> string \<Rightarrow> 'a handler_io" where
  "needs_review code reason = raise (ReconciliationNeedsReview code reason)"

definition reconcile_comment ::
  "handler_env \<Rightarrow> external_action \<Rightarrow> string \<Rightarrow> int \<Rightarrow> string \<Rightarrow> github_comment option handler_io" where
  "reconcile_comment hn action repository issue_number marker =
     (case x_provider_resource_identifier action of
        Some identifier \<Rightarrow>
          bindE (ask (GetComment repository identifier) (hn_comment hn)) (\<lambda>found. case found of
              None \<Rightarrow> needs_review COMMENT_MISSING
                ''A previously bound GitHub comment was deleted and will not be recreated.''
            | Some comment \<Rightarrow>
                if \<not> py_in marker (cm_body comment)
                then needs_review COMMENT_MARKER_MISSING
                  ''The previously bound GitHub comment no longer has its identity marker.''
                else ret (Some comment))
      | None \<Rightarrow>
          bindE (if x_reconcile_not_before action \<noteq> None then action_holdoff hn (x_id action) else ret 0) (\<lambda>holdoff.
          if holdoff > 0
          then raise (RetryableProviderError ''github_reconciliation_holdoff'' (Some (FFin (max (1 / 10) holdoff))))
          else
            bindE (ask (FindCommentsByMarker repository issue_number marker) (hn_search hn)) (\<lambda>search.
              if \<not> cs_complete search
              then needs_review RECONCILIATION_INCONCLUSIVE
                ''GitHub comment pagination was incomplete, so no write was attempted.''
              else case cs_comments search of
                  [] \<Rightarrow> ret None
                | [comment] \<Rightarrow> ret (Some comment)
                | _ \<Rightarrow> needs_review MULTIPLE_COMMENTS_FOUND
                    ''Multiple GitHub comments share the authoritative action marker.'')))"

definition complete_success ::
  "handler_env \<Rightarrow> task_execution \<Rightarrow> external_action \<Rightarrow> github_comment \<Rightarrow> string \<Rightarrow> action_status set \<Rightarrow> string \<Rightarrow>
   external_action handler_io" where
  "complete_success hn task action comment desired_fingerprint expected name =
     bindE (liftR (sha256_json (JObj [(''identifier'', JStr (cm_identifier comment)), (''url'', JStr (cm_url comment))])))
       (\<lambda>response_fingerprint.
     move_action hn task (x_id action) expected ACTION_SUCCEEDED name
       [Set_Provider_Resource_Identifier (Some (cm_identifier comment)), Set_Provider_Url (Some (cm_url comment)),
        Set_Applied_Request_Fingerprint (Some desired_fingerprint),
        Set_Response_Fingerprint (Some response_fingerprint)] None None None)"

text \<open>The exceptions the clauses around \<open>_reconcile_comment\<close> name.\<close>

datatype reconcile_stop = RECONCILE_LATER string "pyfloat option" | RECONCILE_REVIEW reason_code string

fun reconcile_stop_of :: "exn \<Rightarrow> reconcile_stop option" where
  "reconcile_stop_of (RetryableProviderError code retry_after) = Some (RECONCILE_LATER code retry_after)"
| "reconcile_stop_of (ReconciliationNeedsReview code reason) = Some (RECONCILE_REVIEW code reason)"
| "reconcile_stop_of _ = None"

definition start_reconciliation :: "handler_env \<Rightarrow> task_execution \<Rightarrow> external_action \<Rightarrow> external_action handler_io" where
  "start_reconciliation hn task action =
     bindE (liftR (action_status_column action)) (\<lambda>status.
       if status \<notin> {RECONCILING, READY_TO_EXECUTE}
       then move_action hn task (x_id action) {RESERVED, RETRYABLE_FAILURE, OUTCOME_UNKNOWN, EXECUTING} RECONCILING
              ''reconciliation_started'' [] None None None
       else ret action)"

section \<open>The authoritative write\<close>

text \<open>A failed write as the transition it asks for and the error the task ends with.\<close>

record write_failure =
  wf_status :: action_status
  wf_transition :: string
  wf_code :: string
  wf_error :: exn

fun write_failure_of :: "exn \<Rightarrow> write_failure option" where
  "write_failure_of (ProviderWriteOutcomeUnknown code) = Some
     \<lparr>wf_status = OUTCOME_UNKNOWN, wf_transition = ''write_outcome_unknown'', wf_code = code,
      wf_error = RetryableTaskError code None\<rparr>"
| "write_failure_of (RetryableProviderError code retry_after) = Some
     \<lparr>wf_status = RETRYABLE_FAILURE, wf_transition = ''write_retryable_failure'', wf_code = code,
      wf_error = RetryableTaskError code retry_after\<rparr>"
| "write_failure_of (PermanentProviderError code) = Some
     \<lparr>wf_status = PERMANENT_FAILURE, wf_transition = ''write_permanent_failure'', wf_code = code,
      wf_error = PermanentTaskError code\<rparr>"
| "write_failure_of (ProviderNotFoundError code) = Some
     \<lparr>wf_status = PERMANENT_FAILURE, wf_transition = ''write_permanent_failure'', wf_code = code,
      wf_error = PermanentTaskError code\<rparr>"
| "write_failure_of _ = None"

definition write_request :: "external_action \<Rightarrow> string \<Rightarrow> int \<Rightarrow> string \<Rightarrow> provider_request" where
  "write_request action repository issue_number body = (case x_provider_resource_identifier action of
     None \<Rightarrow> CreateComment repository issue_number body
   | Some identifier \<Rightarrow> UpdateComment repository identifier body)"

definition write_comment ::
  "handler_env \<Rightarrow> task_execution \<Rightarrow> external_action \<Rightarrow> string \<Rightarrow> int \<Rightarrow> string \<Rightarrow> string \<Rightarrow> decision \<Rightarrow>
   source_ref list \<Rightarrow> sync_result handler_io" where
  "write_comment hn task action repository issue_number body desired_fingerprint dec references =
     bindE (move_action hn task (x_id action) {RECONCILING} READY_TO_EXECUTE ''reconciliation_completed_no_match''
              [] None None None) (\<lambda>ready.
     seqE (check_cancelled hn)
    (bindE (move_action hn task (x_id ready) {READY_TO_EXECUTE} EXECUTING ''write_started'' [] None
              (Some (integration_settlement_delay_seconds (hn_settings hn))) None) (\<lambda>executing.
     seqE (check_cancelled hn)
    (bindE (attempt_call write_failure_of (ask (write_request executing repository issue_number body) (hn_written hn)))
      (\<lambda>written. case written of
         Inl failed \<Rightarrow>
           seqE (move_action hn task (x_id executing) {EXECUTING} (wf_status failed) (wf_transition failed) []
                   (Some (wf_code failed)) None None)
             (raise (wf_error failed))
       | Inr comment \<Rightarrow>
           seqE (check_ownership hn)
          (bindE (complete_success hn task executing comment desired_fingerprint {EXECUTING} ''write_succeeded'') (\<lambda>done.
           seqE (check_cancelled hn) (liftR (success_result dec references done)))))))))"

definition adopt_comment ::
  "handler_env \<Rightarrow> task_execution \<Rightarrow> external_action \<Rightarrow> github_comment \<Rightarrow> string \<Rightarrow> decision \<Rightarrow> source_ref list \<Rightarrow>
   sync_result handler_io" where
  "adopt_comment hn task action comment desired_fingerprint dec references =
     seqE (check_ownership hn)
    (bindE (complete_success hn task action comment desired_fingerprint {RECONCILING} ''reconciled_succeeded'') (\<lambda>done.
     seqE (check_cancelled hn) (liftR (success_result dec references done))))"

text \<open>May the content of a comment that differs be overwritten by a controlled revision?\<close>

definition revision_outdated :: "external_action \<Rightarrow> string \<Rightarrow> bool" where
  "revision_outdated action desired_fingerprint \<longleftrightarrow>
     x_revision action > 1 \<and> x_applied_request_fingerprint action \<noteq> None \<and>
     x_applied_request_fingerprint action \<noteq> Some desired_fingerprint"

text \<open>The two \<open>except\<close> clauses.\<close>

definition stop_reconciliation ::
  "handler_env \<Rightarrow> task_execution \<Rightarrow> external_action \<Rightarrow> reconcile_stop \<Rightarrow> decision \<Rightarrow> source_ref list \<Rightarrow> sync_result handler_io" where
  "stop_reconciliation hn task action stop dec references = (case stop of
     RECONCILE_LATER code retry_after \<Rightarrow>
       seqE (move_action hn task (x_id action) {RECONCILING} RETRYABLE_FAILURE ''reconciliation_retryable_failure''
               [] (Some code) None None)
         (raise (RetryableTaskError code retry_after))
   | RECONCILE_REVIEW code reason \<Rightarrow>
       bindE (move_action hn task (x_id action) {RECONCILING} ACTION_NEEDS_HUMAN_REVIEW
                ''reconciliation_needs_human_review'' [Set_Completed_At None] (Some (reason_code_value code)) None None)
         (\<lambda>action'. liftR (action_review_result dec references action' code reason)))"

definition compare_comment ::
  "handler_env \<Rightarrow> task_execution \<Rightarrow> external_action \<Rightarrow> github_comment \<Rightarrow> string \<Rightarrow> int \<Rightarrow> string \<Rightarrow> string \<Rightarrow> decision \<Rightarrow>
   source_ref list \<Rightarrow> sync_result handler_io" where
  "compare_comment hn task action comment repository issue_number body desired_fingerprint dec references =
     bindE (liftR (sha256_json (JObj [(''body'', JStr (cm_body comment))]))) (\<lambda>fingerprint.
       if fingerprint = desired_fingerprint
       then adopt_comment hn task action comment desired_fingerprint dec references
       else if revision_outdated action desired_fingerprint
       then write_comment hn task action repository issue_number body desired_fingerprint dec references
       else
         bindE (move_action hn task (x_id action) {RECONCILING} ACTION_NEEDS_HUMAN_REVIEW
                  ''reconciled_content_mismatch'' [] (Some (reason_code_value RECONCILIATION_INCONCLUSIVE)) None None)
           (\<lambda>action'. liftR (action_review_result dec references action' RECONCILIATION_INCONCLUSIVE
              ''The matching GitHub comment does not contain the expected revision.'')))"

definition reconcile_and_apply ::
  "handler_env \<Rightarrow> task_execution \<Rightarrow> external_action \<Rightarrow> string \<Rightarrow> int \<Rightarrow> string \<Rightarrow> string \<Rightarrow> decision \<Rightarrow>
   source_ref list \<Rightarrow> sync_result handler_io" where
  "reconcile_and_apply hn task reserved_action repository issue_number body desired_fingerprint dec references =
     bindE (start_reconciliation hn task reserved_action) (\<lambda>action.
     seqE (check_cancelled hn)
    (bindE (attempt_call reconcile_stop_of
              (reconcile_comment hn action repository issue_number (safe_marker (x_action_scope_key action))))
      (\<lambda>found. case found of
         Inl stop \<Rightarrow> stop_reconciliation hn task action stop dec references
       | Inr None \<Rightarrow> write_comment hn task action repository issue_number body desired_fingerprint dec references
       | Inr (Some comment) \<Rightarrow>
           compare_comment hn task action comment repository issue_number body desired_fingerprint dec references)))"

text \<open>A reserved scope whose content changed: \<open>Inl\<close> the action to apply again, \<open>Inr\<close> a final result.\<close>

definition prepare_controlled_revision ::
  "handler_env \<Rightarrow> task_execution \<Rightarrow> external_action \<Rightarrow> catalog_record \<Rightarrow> string \<Rightarrow> string \<Rightarrow> string \<Rightarrow> decision \<Rightarrow>
   source_ref list \<Rightarrow> (external_action + sync_result) handler_io" where
  "prepare_controlled_revision hn task action service repository desired_fingerprint snapshot_hash dec references =
     (let refused = (\<lambda>code reason.
            bindE (liftR (action_review_result dec references action code reason)) (\<lambda>r. ret (Inr r)));
          scope_changed = refused ACTION_SCOPE_CHANGED
            ''The authoritative action scope already has different applied content.'' in
      if \<not> k_allow_automatic_updates service then scope_changed
      else bindE (liftR (action_status_column action)) (\<lambda>status.
        if status \<noteq> ACTION_SUCCEEDED then scope_changed
        else case x_provider_resource_identifier action of
            None \<Rightarrow> scope_changed
          | Some identifier \<Rightarrow>
              seqE (check_cancelled hn)
             (bindE (provider_call (ask (GetComment repository identifier) (hn_comment hn))) (\<lambda>found.
                if (case found of None \<Rightarrow> True
                    | Some comment \<Rightarrow> \<not> py_in (safe_marker (x_action_scope_key action)) (cm_body comment))
                then refused COMMENT_MISSING ''The exact authoritative comment cannot be safely updated.''
                else
                  seqE (check_cancelled hn)
                 (bindE (store_call hn (revise (te_execution_fence task) (x_id action) (x_revision action)
                           desired_fingerprint snapshot_hash)) (\<lambda>revised. ret (Inl revised)))))))"

section \<open>The secondary notification\<close>

definition validate_slack_request :: "handler_env \<Rightarrow> sync_input \<Rightarrow> unit result" where
  "validate_slack_request hn i =
     (if \<not> i_publish_slack_notification i then Inr ()
      else bindR (guardR (enable_slack_notification (hn_settings hn)) (PermanentTaskError ''slack_notification_not_enabled'')) (\<lambda>_.
           bindR (expectR (PermanentTaskError ''slack_channel_required'') (i_slack_channel_id i)) (\<lambda>channel_id.
           bindR (guardR (channel_id \<in> set (deployment_allowed_slack_channels (hn_settings hn)))
                    (PermanentTaskError ''slack_channel_not_allowed'')) (\<lambda>_.
             guardR (hn_slack_configured hn) (PermanentTaskError ''slack_delivery_not_configured'')))))"

definition slack_unavailable :: slack_result where
  "slack_unavailable = \<lparr>sl_requested = True, sl_state = DELIVERY_NEEDS_HUMAN_REVIEW, sl_action = None,
     sl_safe_error_code = Some ''slack_authoritative_action_unavailable''\<rparr>"

text \<open>The delivery a result allows: a confirmed action of a \<open>READY\<close> decision, for a known target.\<close>

definition delivery_request_of ::
  "sync_result \<Rightarrow> sync_input \<Rightarrow> github_context option \<Rightarrow> catalog_record option \<Rightarrow> delivery_request option" where
  "delivery_request_of r i github service =
     (case (w_github_action r, github, service, i_slack_channel_id i) of
        (Some action, Some g, Some k, Some channel_id) \<Rightarrow>
          if d_outcome (w_decision r) \<noteq> READY \<or> ar_provider_resource_identifier action = None then None
          else Some \<lparr>dr_channel_id = channel_id, dr_canonical_service_id = k_canonical_service_id k,
                 dr_github_repository_id = g_repository_id g, dr_github_issue_number = g_issue_number g,
                 dr_github_action = action, dr_decision = w_decision r\<rparr>
      | _ \<Rightarrow> None)"

definition finish ::
  "handler_env \<Rightarrow> task_execution \<Rightarrow> sync_input \<Rightarrow> github_context option \<Rightarrow> catalog_record option \<Rightarrow> sync_result \<Rightarrow>
   sync_result handler_io" where
  "finish hn task i github service r =
     (if \<not> i_publish_slack_notification i then ret r
      else case delivery_request_of r i github service of
          None \<Rightarrow> ret (r\<lparr>w_slack_notification := slack_unavailable\<rparr>)
        | Some request \<Rightarrow>
            seqE (check_cancelled hn)
           (seqE (liftR (guardR (hn_slack_configured hn) (PermanentTaskError ''slack_delivery_not_configured'')))
           (bindE (deliver hn task request) (\<lambda>slack. ret (r\<lparr>w_slack_notification := slack\<rparr>)))))"

section \<open>The handler\<close>

text \<open>
  \<open>execute\<close>, in four stretches of its body: the reserved action, the evidence of Jira with the
  rendered comment, the evidence of GitHub, and the policy.
\<close>

definition with_reservation ::
  "handler_env \<Rightarrow> task_execution \<Rightarrow> sync_input \<Rightarrow> catalog_record \<Rightarrow> github_context \<Rightarrow> decision \<Rightarrow> source_ref list \<Rightarrow>
   string \<Rightarrow> string \<Rightarrow> string \<Rightarrow> reservation \<Rightarrow> sync_result handler_io" where
  "with_reservation hn task i service github dec references body desired_fingerprint snapshot_hash reservation =
     (let action = rv_action reservation; kind = rv_kind reservation;
          done = finish hn task i (Some github) (Some service);
          apply_it = (\<lambda>x. bindE (reconcile_and_apply hn task x (i_github_repository i) (i_github_issue_number i) body
                                 desired_fingerprint dec references) done) in
      if kind = RESERVATION_SOURCE_DRIFT then
        bindE (liftR (action_review_result dec references action SOURCE_VERSION_DRIFT
                 ''Source evidence changed after this action scope was reserved.'')) done
      else if kind = RESERVATION_CHANGED then
        bindE (prepare_controlled_revision hn task action service (i_github_repository i) desired_fingerprint
                 snapshot_hash dec references) (\<lambda>prepared. case prepared of
            Inr r \<Rightarrow> done r
          | Inl revised \<Rightarrow> apply_it revised)
      else if kind = RESERVATION_REPLAY then
        bindE (liftR (action_status_column action)) (\<lambda>status.
          if status = ACTION_SUCCEEDED then bindE (liftR (success_result dec references action)) done
          else if status \<in> {ACTION_NEEDS_HUMAN_REVIEW, PERMANENT_FAILURE} then
            bindE (liftR (action_review_result dec references action RECONCILIATION_INCONCLUSIVE
                     ''The existing authoritative action requires human resolution.'')) done
          else apply_it action)
      else apply_it action)"

text \<open>An \<open>ExecutionInvariantError\<close> of the reservation gives way to a signal that is up.\<close>

definition reserve_comment ::
  "handler_env \<Rightarrow> task_execution \<Rightarrow> string \<Rightarrow> string \<Rightarrow> string \<Rightarrow> reservation handler_io" where
  "reserve_comment hn task action_scope_key desired_fingerprint snapshot_hash =
     catchE (store_call hn (reserve_or_get (te_execution_fence task) GITHUB UPSERT_DEPLOYMENT_CONTEXT_COMMENT
               action_scope_key desired_fingerprint snapshot_hash))
       (\<lambda>e. case e of ExecutionInvariantError m \<Rightarrow> Some (seqE (check_cancelled hn) (raise e)) | _ \<Rightarrow> None)"

definition with_jira ::
  "handler_env \<Rightarrow> task_execution \<Rightarrow> sync_input \<Rightarrow> policy_evaluation \<Rightarrow> catalog_record \<Rightarrow> github_context \<Rightarrow>
   source_ref list \<Rightarrow> sync_result handler_io" where
  "with_jira hn task i evaluation service github references0 =
     seqE (check_cancelled hn)
    (bindE (provider_call (ask (FetchIssue (i_jira_issue_key i)) (hn_issue hn))) (\<lambda>jira.
     seqE (check_cancelled hn)
    (if casefold (j_key jira) \<noteq> casefold (i_jira_issue_key i) then
       bindE (now_utc hn) (\<lambda>now. finish hn task i None None (review_result NEEDS_HUMAN_REVIEW evaluation references0
         JIRA_ISSUE_IDENTITY_MISMATCH ''Jira returned a work item other than the requested issue.'' now))
     else
       bindE (record_jira hn task jira (k_data_classification service)) (\<lambda>jira_reference.
       let references = references0 @ [jira_reference];
           dec = \<lparr>d_outcome = READY, d_reason_codes = pe_reason_codes evaluation, d_reasons = pe_reasons evaluation,
                  d_source_references = references, d_policy_version = k_policy_version service,
                  d_generated_at = j_updated_at jira\<rparr> in
       bindE (liftR (github_scope_key (deployment_scope_id (hn_settings hn)) (g_repository_id github)
                (i_github_issue_number i) (k_canonical_service_id service))) (\<lambda>action_scope_key.
       bindE (liftR (render_github_comment (hn_isoformat hn) action_scope_key dec service github jira)) (\<lambda>body.
       bindE (liftR (sha256_json (JObj [(''body'', JStr body)]))) (\<lambda>desired_fingerprint.
       bindE (liftR (decision_snapshot_hash dec)) (\<lambda>snapshot_hash.
       seqE (check_cancelled hn)
      (bindE (reserve_comment hn task action_scope_key desired_fingerprint snapshot_hash)
        (with_reservation hn task i service github dec references body desired_fingerprint snapshot_hash))))))))))"

text \<open>What makes a GitHub target unfit, in the order of the checks after its evidence is recorded.\<close>

definition unfit_target :: "github_context \<Rightarrow> (decision_outcome \<times> reason_code \<times> string) option" where
  "unfit_target g =
     (if g_is_pull_request g then
        Some (BLOCKED, TARGET_IS_PULL_REQUEST, ''Pull requests are not valid targets for deployment-context comments.'')
      else if g_archived g then
        Some (NEEDS_HUMAN_REVIEW, REPOSITORY_ARCHIVED, ''The authoritative GitHub repository is archived.'')
      else if casefold (g_issue_state g) \<noteq> ''open'' then
        Some (NEEDS_HUMAN_REVIEW, ISSUE_CLOSED, ''The target GitHub issue is not open.'')
      else None)"

text \<open>A context of another target, before any evidence is recorded.\<close>

definition foreign_target :: "sync_input \<Rightarrow> github_context \<Rightarrow> (reason_code \<times> string) option" where
  "foreign_target i g =
     (if casefold (g_full_name g) \<noteq> casefold (i_github_repository i) then
        Some (GITHUB_REPOSITORY_IDENTITY_MISMATCH, ''GitHub returned a repository other than the requested repository.'')
      else if g_issue_number g \<noteq> i_github_issue_number i then
        Some (GITHUB_ISSUE_IDENTITY_MISMATCH, ''GitHub returned an issue other than the requested issue.'')
      else None)"

definition with_github ::
  "handler_env \<Rightarrow> task_execution \<Rightarrow> sync_input \<Rightarrow> policy_evaluation \<Rightarrow> catalog_record \<Rightarrow> source_ref list \<Rightarrow>
   sync_result handler_io" where
  "with_github hn task i evaluation service catalog_references =
     (let review = (\<lambda>outcome references code reason. bindE (now_utc hn) (\<lambda>now.
            finish hn task i None None (review_result outcome evaluation references code reason now))) in
     seqE (check_cancelled hn)
    (bindE (provider_call (ask VerifyGitHubIdentity (hn_github_identity hn))) (\<lambda>verified.
     if \<not> verified then
       review NEEDS_HUMAN_REVIEW catalog_references PROVIDER_IDENTITY_UNVERIFIED
         ''The configured GitHub identity could not be verified.''
     else
       bindE (provider_call (ask (FetchContext (i_github_repository i) (i_github_issue_number i)) (hn_context hn))) (\<lambda>github.
       seqE (check_cancelled hn)
      (case foreign_target i github of
         Some (code, reason) \<Rightarrow> review NEEDS_HUMAN_REVIEW catalog_references code reason
       | None \<Rightarrow>
           bindE (record_github hn task github) (\<lambda>github_reference.
           let references = catalog_references @ [github_reference] in
           case unfit_target github of
             Some (outcome, code, reason) \<Rightarrow> review outcome references code reason
           | None \<Rightarrow> with_jira hn task i evaluation service github references))))))"

definition with_catalog :: "handler_env \<Rightarrow> task_execution \<Rightarrow> sync_input \<Rightarrow> sync_result handler_io" where
  "with_catalog hn task i =
     bindE (provider_call (ask (FetchRecords (i_service_id i)) (hn_records hn))) (\<lambda>records.
     seqE (check_cancelled hn)
    (let evaluation = evaluate_service_catalog i records (hn_settings hn) in
     seqE (log_decision evaluation)
    (bindE (record_catalog hn task records) (\<lambda>catalog_references.
     if pe_outcome evaluation \<noteq> READY then
       bindE (now_utc hn) (\<lambda>now. finish hn task i None None (evaluation_result evaluation catalog_references now))
     else case pe_record evaluation of
         None \<Rightarrow> raise (PermanentTaskError ''service_catalog_contract_error'')
       | Some service \<Rightarrow> with_github hn task i evaluation service catalog_references))))"

definition execute_sync :: "handler_env \<Rightarrow> task_execution \<Rightarrow> sync_result handler_io" where
  "execute_sync hn task =
     bindE (case validate_sync_input (hn_coercions hn) (te_task_input task) of
         Inl e \<Rightarrow> raise (if e = ValidationError then PermanentTaskError ''deployment_context_input_invalid'' else e)
       | Inr i \<Rightarrow> ret i) (\<lambda>i.
     seqE (liftR (validate_slack_request hn i))
    (seqE (check_cancelled hn)
    (case evaluate_static_scope i (hn_settings hn) of
       Some evaluation \<Rightarrow>
         seqE (log_decision evaluation)
        (bindE (now_utc hn) (\<lambda>now. finish hn task i None None (evaluation_result evaluation [] now)))
     | None \<Rightarrow> with_catalog hn task i)))"

section \<open>The value the worker stores\<close>

text \<open>\<open>model_dump(mode="json")\<close>.\<close>

definition dump_reference :: "source_ref \<Rightarrow> json" where
  "dump_reference r = JObj
     [(''artifact_id'', JStr (uuid_str (sr_artifact_id r))), (''provider'', JStr (sr_provider r)),
      (''resource_type'', JStr (sr_resource_type r)),
      (''provider_resource_identifier'', JStr (sr_provider_resource_identifier r)),
      (''source_version'', JStr (sr_source_version r)), (''content_hash'', JStr (sr_content_hash r))]"

definition dump_action :: "action_ref option \<Rightarrow> json" where
  "dump_action a = (case a of None \<Rightarrow> JNull
     | Some r \<Rightarrow> JObj
         [(''action_id'', JStr (uuid_str (ar_action_id r))), (''provider'', JStr (ar_provider r)),
          (''operation'', JStr (ar_operation r)), (''revision'', JInt (int (ar_revision r))),
          (''provider_resource_identifier'', optional_json (ar_provider_resource_identifier r)),
          (''provider_url'', optional_json (ar_provider_url r))])"

definition dump_decision :: "(time \<Rightarrow> string) \<Rightarrow> decision \<Rightarrow> json" where
  "dump_decision json_time dec = JObj
     [(''outcome'', JStr (decision_outcome_value (d_outcome dec))),
      (''reason_codes'', JArr (map (\<lambda>c. JStr (reason_code_value c)) (d_reason_codes dec))),
      (''reasons'', JArr (map JStr (d_reasons dec))),
      (''source_references'', JArr (map dump_reference (d_source_references dec))),
      (''policy_version'', JInt (d_policy_version dec)),
      (''generated_at'', JStr (json_time (d_generated_at dec)))]"

definition dump_slack :: "slack_result \<Rightarrow> json" where
  "dump_slack r = JObj
     [(''requested'', JBool (sl_requested r)), (''state'', JStr (delivery_state_value (sl_state r))),
      (''action'', dump_action (sl_action r)), (''safe_error_code'', optional_json (sl_safe_error_code r))]"

definition dump_result :: "(time \<Rightarrow> string) \<Rightarrow> sync_result \<Rightarrow> jobj" where
  "dump_result json_time r =
     [(''workflow_version'', JStr (w_workflow_version r)), (''decision'', dump_decision json_time (w_decision r)),
      (''source_artifacts'', JArr (map dump_reference (w_source_artifacts r))),
      (''authoritative_github_action'', dump_action (w_github_action r)),
      (''secondary_slack_notification'', dump_slack (w_slack_notification r))]"

definition execute :: "handler_env \<Rightarrow> task_execution \<Rightarrow> handler_value handler_io" where
  "execute hn task = bindE (execute_sync hn task) (\<lambda>r. ret (HObject (dump_result (hn_json_time hn) r)))"

end
