(* ===== verification/Handler_Safety.thy ===== *)
theory Handler_Safety
  imports Workflow Ledger_Contract
begin

text \<open>
  The handlers over the shared store: rules that carry the invariant of the database and the calls
  made so far through a handler, and the properties of the deployment-context handler that rest on
  them. \<open>silent\<close> steps ask no provider, \<open>reading\<close> steps may ask but write nothing.
\<close>

section \<open>Runs\<close>

definition fresh_ids :: "handler_env \<Rightarrow> bool" where
  "fresh_ids hn \<longleftrightarrow> (\<forall>xs. hn_uuid4 hn xs \<notin> set xs)"

text \<open>The statuses from which an action may be sent: nothing was sent, or the provider is known to lack it.\<close>

definition sendable :: "string \<Rightarrow> action_status set" where
  "sendable name = (if name = ''write_started'' then {READY_TO_EXECUTE} else unsent_statuses)"

text \<open>An entry for a write of this attempt that the ledger did not have at the start.\<close>

definition logged :: "execution_fence \<Rightarrow> db \<Rightarrow> db \<Rightarrow> string \<Rightarrow> bool" where
  "logged fence d0 d name \<longleftrightarrow> list_ex (\<lambda>e. e_transition e = name \<and> e_task_attempt_id e = f_attempt_id fence \<and>
       e_new_status e = ''executing'' \<and> e_previous_status e \<in> Some ` action_status_value ` sendable name)
     (drop (length (external_action_attempts d0)) (external_action_attempts d))"

record run_start =
  rs_world :: handler_world
  rs_fence :: execution_fence

definition new_calls :: "handler_world \<Rightarrow> handler_world \<Rightarrow> provider_request list" where
  "new_calls w0 w = drop (length (hw_trace w0)) (hw_trace w)"

text \<open>
  A point of a run: the store is sound and has only grown, the calls of the run with the writes
  \<open>ws\<close> among them, the entries \<open>S\<close> it has in the ledger and the number of calls.
\<close>

definition point :: "run_start \<Rightarrow> string set \<Rightarrow> provider_request list \<Rightarrow> nat \<Rightarrow> handler_world \<Rightarrow> bool" where
  "point rs S ws n w \<longleftrightarrow> system_inv (hw_db w) \<and> system_le (hw_db (rs_world rs)) (hw_db w) \<and>
     (\<exists>new. hw_trace w = hw_trace (rs_world rs) @ new \<and> filter is_provider_write new = ws) \<and>
     (\<forall>name \<in> S. logged (rs_fence rs) (hw_db (rs_world rs)) (hw_db w) name) \<and> hw_requests w = n"

definition silent :: "'a handler_io \<Rightarrow> bool" where
  "silent m \<longleftrightarrow> (\<forall>rs S ws n. hoare (point rs S ws n) m (\<lambda>_. point rs S ws n) (\<lambda>_. point rs S ws n))"

definition somewhere :: "run_start \<Rightarrow> string set \<Rightarrow> provider_request list \<Rightarrow> handler_world \<Rightarrow> bool" where
  "somewhere rs S ws w \<longleftrightarrow> point rs S ws (hw_requests w) w"

definition reading :: "'a handler_io \<Rightarrow> bool" where
  "reading m \<longleftrightarrow> (\<forall>rs S ws. hoare (somewhere rs S ws) m (\<lambda>_. somewhere rs S ws) (\<lambda>_. somewhere rs S ws))"

named_theorems silent_intros \<open>steps that ask no provider\<close>
named_theorems reading_intros \<open>steps that write nothing\<close>

lemma silentD: "silent m \<Longrightarrow> hoare (point rs S ws n) m (\<lambda>_. point rs S ws n) (\<lambda>_. point rs S ws n)"
  by (simp add: silent_def)

lemma readingD: "reading m \<Longrightarrow> hoare (somewhere rs S ws) m (\<lambda>_. somewhere rs S ws) (\<lambda>_. somewhere rs S ws)"
  by (simp add: reading_def)

lemma point_somewhere: "point rs S ws n w \<Longrightarrow> somewhere rs S ws w"
  by (simp add: somewhere_def point_def)

lemma silent_reading: "silent m \<Longrightarrow> reading m"
  unfolding reading_def
proof (intro allI)
  fix rs S ws assume q: "silent m"
  show "hoare (somewhere rs S ws) m (\<lambda>_. somewhere rs S ws) (\<lambda>_. somewhere rs S ws)"
  proof (rule hoareI)
    fix w x w' assume "somewhere rs S ws w" "m w = (Inr x, w')"
    then show "somewhere rs S ws w'"
      using hoareD_ret [OF silentD [OF q]] unfolding somewhere_def [of _ _ _ w] by (blast intro: point_somewhere)
  next
    fix w e w' assume "somewhere rs S ws w" "m w = (Inl e, w')"
    then show "somewhere rs S ws w'"
      using hoareD_raise [OF silentD [OF q]] unfolding somewhere_def [of _ _ _ w] by (blast intro: point_somewhere)
  qed
qed

section \<open>Composition\<close>

lemma hoare_keeps:
  "hoare I (ret x) (\<lambda>_. I) (\<lambda>_. I)" "hoare I (raise e) (\<lambda>_. I) (\<lambda>_. I)" "hoare I (liftR r) (\<lambda>_. I) (\<lambda>_. I)"
  "hoare I m (\<lambda>_. I) (\<lambda>_. I) \<Longrightarrow> (\<And>x. hoare I (f x) (\<lambda>_. I) (\<lambda>_. I)) \<Longrightarrow> hoare I (bindE m f) (\<lambda>_. I) (\<lambda>_. I)"
  "hoare I m (\<lambda>_. I) (\<lambda>_. I) \<Longrightarrow> hoare I k (\<lambda>_. I) (\<lambda>_. I) \<Longrightarrow> hoare I (seqE m k) (\<lambda>_. I) (\<lambda>_. I)"
  "(\<And>x. hoare I (f x) (\<lambda>_. I) (\<lambda>_. I)) \<Longrightarrow> hoare I (mapE f xs) (\<lambda>_. I) (\<lambda>_. I)"
proof -
  show "hoare I (ret x) (\<lambda>_. I) (\<lambda>_. I)" "hoare I (raise e) (\<lambda>_. I) (\<lambda>_. I)" "hoare I (liftR r) (\<lambda>_. I) (\<lambda>_. I)"
    by (auto intro: hoare_ret hoare_raise hoare_liftR)
qed (rule hoare_bind hoare_seq hoare_mapE; assumption)+

lemma silent_rules [silent_intros]:
  "silent (ret x)" "silent (raise e)" "silent (liftR r)"
  "silent m \<Longrightarrow> (\<And>x. silent (f x)) \<Longrightarrow> silent (bindE m f)"
  "silent m \<Longrightarrow> silent k \<Longrightarrow> silent (seqE m k)"
  "(b \<Longrightarrow> silent yes) \<Longrightarrow> (\<not> b \<Longrightarrow> silent no) \<Longrightarrow> silent (if b then yes else no)"
  "silent none \<Longrightarrow> (\<And>v. silent (g v)) \<Longrightarrow> silent (case opt of None \<Rightarrow> none | Some v \<Rightarrow> g v)"
  "(\<And>v. silent (each v)) \<Longrightarrow> silent (mapE each xs)"
  by (simp_all add: silent_def hoare_keeps split: option.splits)

lemma reading_rules [reading_intros]:
  "reading m \<Longrightarrow> (\<And>x. reading (f x)) \<Longrightarrow> reading (bindE m f)"
  "reading m \<Longrightarrow> reading k \<Longrightarrow> reading (seqE m k)"
  "(b \<Longrightarrow> reading yes) \<Longrightarrow> (\<not> b \<Longrightarrow> reading no) \<Longrightarrow> reading (if b then yes else no)"
  "reading none \<Longrightarrow> (\<And>v. reading (g v)) \<Longrightarrow> reading (case opt of None \<Rightarrow> none | Some v \<Rightarrow> g v)"
  by (simp_all add: reading_def hoare_keeps split: option.splits)

lemma reading_catch: "reading m \<Longrightarrow> (\<And>e k. h e = Some k \<Longrightarrow> reading k) \<Longrightarrow> reading (catchE m h)"
  unfolding reading_def by (blast intro: hoare_catch)

lemma silent_catch: "silent m \<Longrightarrow> (\<And>e k. h e = Some k \<Longrightarrow> silent k) \<Longrightarrow> silent (catchE m h)"
  unfolding silent_def by (blast intro: hoare_catch)

lemma hoare_ask:
  assumes "\<not> is_provider_write q"
  shows "hoare (point rs S ws n) (ask q answers) (\<lambda>x w. point rs S ws (Suc n) w \<and> answers n = Inr x)
     (\<lambda>_. point rs S ws (Suc n))"
proof -
  have "point rs S ws (Suc n) (w\<lparr>hw_requests := Suc n, hw_trace := hw_trace w @ [q]\<rparr>)" if "point rs S ws n w" for w
    using that assms by (auto simp: point_def)
  then show ?thesis by (auto simp: hoare_def ask_def point_def split: sum.splits)
qed

lemma reading_ask [reading_intros]: "\<not> is_provider_write q \<Longrightarrow> reading (ask q answers)"
  by (auto simp: reading_def hoare_def somewhere_def ask_def point_def split: sum.splits)

lemma reading_attempt: "reading m \<Longrightarrow> reading (attempt_call named m)"
  unfolding attempt_call_def
  by (intro reading_catch reading_rules) (auto intro: silent_reading silent_rules)

section \<open>Signals, clocks and metrics\<close>

lemma silent_checkpoint [silent_intros]: "silent (checkpoint hn r)"
proof -
  have "point rs S ws n (w\<lparr>hw_checks := k\<rparr>) = point rs S ws n w" for rs S ws n w k by (simp add: point_def)
  then show ?thesis by (auto simp: silent_def hoare_def checkpoint_def split: sum.splits)
qed

lemma silent_signals [silent_intros]: "silent (check_cancelled hn)" "silent (check_ownership hn)" "silent (now_utc hn)"
  by (simp_all add: check_cancelled_def check_ownership_def silent_checkpoint)
    (simp add: silent_def hoare_def now_utc_def)

lemma silent_metric [silent_intros]: "silent (emit_metric name labels)"
proof -
  have "silent (\<lambda>w. (Inr (), w\<lparr>hw_metrics := hw_metrics w @ [event]\<rparr>) :: (exn + unit) \<times> handler_world)" for event
    by (simp add: silent_def hoare_def point_def)
  then show ?thesis unfolding emit_metric_def by (intro silent_intros)
qed

section \<open>Store calls\<close>

lemma logged_mono:
  assumes "system_le d d'" "system_le d0 d" "logged fence d0 d name"
  shows "logged fence d0 d' name"
proof -
  obtain es where es: "external_action_attempts d = external_action_attempts d0 @ es"
    using assms(2) by (auto simp: system_le_def ledger_le_def)
  obtain fs where "external_action_attempts d' = external_action_attempts d @ fs"
    using assms(1) by (auto simp: system_le_def ledger_le_def)
  with assms(3) es show ?thesis by (auto simp: logged_def)
qed

lemma point_db:
  assumes "point rs S ws n w" "system_inv d'" "system_le (hw_db w) d'"
  shows "point rs S ws n (w\<lparr>hw_db := d', hw_calls := k, hw_metrics := ms\<rparr>)"
    "point rs S ws n (w\<lparr>hw_db := d', hw_calls := k\<rparr>)"
  using assms logged_mono [OF assms(3)] sys.le_trans [OF _ assms(3)] by (auto simp: point_def)

text \<open>A transaction of the ledger is sound when its commit is an operation of the system.\<close>

definition ledger_sound :: "(ledger_env \<Rightarrow> 'a ledger_tx) \<Rightarrow> ('a \<Rightarrow> db \<Rightarrow> db \<Rightarrow> bool) \<Rightarrow> bool" where
  "ledger_sound tx R \<longleftrightarrow> (\<forall>env d x events d'. system_inv d \<and> tx env d = Inr (x, events, d') \<and>
      le_row_id env \<notin> s_id ` set (source_artifacts d) \<and> le_row_id env \<notin> x_id ` set (external_actions d) \<and>
      le_evidence_id env \<notin> e_id ` set (external_action_attempts d) \<longrightarrow>
      (\<exists>op. ledger_op_ok op d \<and> run_ledger_op op d = d') \<and> R x d d')"

lemma hoare_store_call:
  assumes "fresh_ids hn" "ledger_sound tx R"
  shows "hoare (point rs S ws n) (store_call hn tx)
    (\<lambda>x w. point rs S ws n w \<and> (\<exists>d. system_inv d \<and> system_le (hw_db (rs_world rs)) d \<and> R x d (hw_db w)))
    (\<lambda>_. point rs S ws n)"
  unfolding hoare_def
proof (intro allI impI)
  fix w assume p: "point rs S ws n w"
  let ?tk = "hn_ticks hn (hw_calls w)"
  let ?run = "\<lambda>d. bindR (tx (ledger_env_of hn ?tk d) d) (\<lambda>(x, events, d'). Inr ((x, events), d'))"
  obtain r d' where run: "transact ?tk ?run (hw_db w) = (r, d')" by (cases "transact ?tk ?run (hw_db w)")
  have sound: "(system_inv e' \<and> system_le e e') \<and> R x e e'" if "system_inv e" "?run e = Inr ((x, evs), e')" for e x evs e'
  proof -
    have ids: "le_row_id (ledger_env_of hn ?tk e) \<notin> s_id ` set (source_artifacts e) \<union> x_id ` set (external_actions e)"
      "le_evidence_id (ledger_env_of hn ?tk e) \<notin> e_id ` set (external_action_attempts e)"
      using assms(1) unfolding fresh_ids_def ledger_env_of_def by (simp_all flip: set_map set_append)
    from that(2) have tx: "tx (ledger_env_of hn ?tk e) e = Inr (x, evs, e')" by (auto simp: result_simps)
    have "(\<exists>op. ledger_op_ok op e \<and> run_ledger_op op e = e') \<and> R x e e'"
      using assms(2) unfolding ledger_sound_def
      by (elim allE [of _ "ledger_env_of hn ?tk e"] allE [of _ e] allE [of _ x] allE [of _ evs] allE [of _ e'] mp)
        (use that(1) tx ids in blast)
    then obtain op where op: "ledger_op_ok op e" "run_ledger_op op e = e'" and R: "R x e e'" by blast
    have "system_op_ok (Ledger_Op op) e" "run_system_op (Ledger_Op op) e = e'" using op by simp_all
    then show ?thesis using sys.keeps [of e "Ledger_Op op"] sys.grows [of e "Ledger_Op op"] that(1) R by auto
  qed
  have inv: "system_inv (hw_db w)" and grown: "system_le (hw_db (rs_world rs)) (hw_db w)" using p by (simp_all add: point_def)
  have d': "system_inv d' \<and> system_le (hw_db w) d'"
    by (rule transact_sound [OF inv _ run]) (metis sound surj_pair)
  have R: "\<exists>d. system_inv d \<and> system_le (hw_db (rs_world rs)) d \<and> R x d d'" if "r = Inr (x, evs)" for x evs
    using sound [OF _ transact_Inr [of ?tk ?run "hw_db w" "(x, evs)" d']] that run interfere_sound [OF inv]
      sys.le_trans [OF grown] by blast
  show "case store_call hn tx w of (Inl e, w') \<Rightarrow> point rs S ws n w'
     | (Inr x, w') \<Rightarrow> point rs S ws n w' \<and> (\<exists>d. system_inv d \<and> system_le (hw_db (rs_world rs)) d \<and> R x d (hw_db w'))"
    using point_db [OF p] d' R by (cases r) (auto simp: store_call_def Let_def run)
qed

lemma ledger_sound_ops:
  "ledger_sound (record_artifact mx fence ob) (\<lambda>_ _ _. True)"
  "ledger_sound (reserve_or_get fence p m scope desired snapshot) (\<lambda>_ _ _. True)"
  "ledger_sound (revise fence i k desired snapshot) (\<lambda>_ _ _. True)"
  unfolding ledger_sound_def
  subgoal by (intro allI impI conjI exI [of _ "OpRecord mx fence ob env" for env]) (auto simp: ledger_commit_def)
  subgoal by (intro allI impI conjI exI [of _ "OpReserve fence p m scope desired snapshot env" for env]) (auto simp: ledger_commit_def)
  subgoal by (intro allI impI conjI exI [of _ "OpRevise fence i k desired snapshot env" for env]) (auto simp: ledger_commit_def)
  done

lemma hoare_move:
  assumes "fresh_ids hn"
  shows "hoare (point rs S ws n) (move_action hn task i expected new name values err settlement not_before)
    (\<lambda>x w. point rs S ws n w \<and>
       (new = EXECUTING \<and> te_execution_fence task = rs_fence rs \<and> expected \<subseteq> sendable name \<longrightarrow>
          point rs (insert name S) ws n w))
    (\<lambda>_. point rs S ws n)"
proof -
  let ?ta = "\<lparr>ta_expected_statuses = expected, ta_new_status = new, ta_transition = name, ta_values = values,
      ta_error_code = err, ta_settlement_delay = map_option FFin settlement, ta_not_before_delay = not_before\<rparr>"
  let ?R = "\<lambda>(x :: external_action) d d'. \<exists>e. external_action_attempts d' = external_action_attempts d @ [e] \<and>
      e_transition e = name \<and> e_task_attempt_id e = f_attempt_id (te_execution_fence task) \<and>
      e_new_status e = action_status_value new \<and> e_previous_status e \<in> Some ` action_status_value ` expected"
  have "ledger_sound (\<lambda>env. transition (te_execution_fence task) i ?ta env) ?R"
    unfolding ledger_sound_def
  proof (intro allI impI conjI)
    fix env d x events d'
    assume a: "system_inv d \<and> transition (te_execution_fence task) i ?ta env d = Inr (x, events, d') \<and>
      le_row_id env \<notin> s_id ` set (source_artifacts d) \<and> le_row_id env \<notin> x_id ` set (external_actions d) \<and>
      le_evidence_id env \<notin> e_id ` set (external_action_attempts d)"
    then show "\<exists>op. ledger_op_ok op d \<and> run_ledger_op op d = d'"
      by (intro exI [of _ "OpTransition (te_execution_fence task) i ?ta env"]) (simp add: ledger_commit_def)
    have "ledger_inv d" using a by (simp add: system_inv_def)
    with a show "?R x d d'"
      by (auto simp: transition_eq Let_def result_simps action_evidence_def add_evidence_def put_action_def
          split: option.splits if_splits)
  qed
  from hoare_store_call [OF assms this] show ?thesis
    unfolding move_action_def
  proof (rule hoare_conseq)
    fix x w
    assume p: "point rs S ws n w \<and> (\<exists>d. system_inv d \<and> system_le (hw_db (rs_world rs)) d \<and> ?R x d (hw_db w))"
    then obtain d e where d: "system_le (hw_db (rs_world rs)) d"
      "external_action_attempts (hw_db w) = external_action_attempts d @ [e]" "e_transition e = name"
      "e_task_attempt_id e = f_attempt_id (te_execution_fence task)" "e_new_status e = action_status_value new"
      "e_previous_status e \<in> Some ` action_status_value ` expected" by blast
    then obtain es where "external_action_attempts d = external_action_attempts (hw_db (rs_world rs)) @ es"
      by (auto simp: system_le_def ledger_le_def)
    with d p show "point rs S ws n w \<and>
       (new = EXECUTING \<and> te_execution_fence task = rs_fence rs \<and> expected \<subseteq> sendable name \<longrightarrow>
          point rs (insert name S) ws n w)"
      by (auto simp: point_def logged_def)
  qed auto
qed

lemma silent_store:
  assumes "fresh_ids hn"
  shows "ledger_sound tx R \<Longrightarrow> silent (store_call hn tx)"
    "silent (move_action hn task i expected new name values err settlement not_before)"
  unfolding silent_def
  by (auto intro: hoare_conseq [OF hoare_store_call [OF assms]] hoare_conseq [OF hoare_move [OF assms]])

lemma silent_read [silent_intros]: "silent (store_read hn q)"
  unfolding silent_def
proof (intro allI)
  fix rs S ws n
  show "hoare (point rs S ws n) (store_read hn q) (\<lambda>_. point rs S ws n) (\<lambda>_. point rs S ws n)"
    unfolding hoare_def
  proof (intro allI impI)
    fix w assume p: "point rs S ws n w"
    let ?tk = "hn_ticks hn (hw_calls w)"
    obtain r d' where run: "transact ?tk (\<lambda>d. Inr (q ?tk d, d)) (hw_db w) = (r, d')"
      by (cases "transact ?tk (\<lambda>d. Inr (q ?tk d, d)) (hw_db w)")
    have "system_inv d' \<and> system_le (hw_db w) d'"
      by (rule transact_sound [OF _ _ run]) (use p sys.le_refl in \<open>auto simp: point_def\<close>)
    then show "case store_read hn q w of (Inl e, w') \<Rightarrow> point rs S ws n w' | (Inr x, w') \<Rightarrow> point rs S ws n w'"
      using point_db(2) [OF p] by (cases r) (auto simp: store_read_def Let_def run)
  qed
qed

section \<open>From point to point\<close>

lemma reading_into:
  "reading m \<Longrightarrow> (\<And>w. somewhere rs S ws w \<Longrightarrow> Z w) \<Longrightarrow> hoare (somewhere rs S ws) m (\<lambda>_. somewhere rs S ws) (\<lambda>_. Z)"
  by (rule hoare_conseq [OF readingD]) auto

lemma reading_end:
  "reading m \<Longrightarrow> (\<And>w. somewhere rs S ws w \<Longrightarrow> Z w) \<Longrightarrow> hoare (somewhere rs S ws) m (\<lambda>_. Z) (\<lambda>_. Z)"
  by (rule hoare_conseq [OF readingD]) auto

lemma silent_into:
  "silent m \<Longrightarrow> (\<And>w. somewhere rs S ws w \<Longrightarrow> Z w) \<Longrightarrow> hoare (point rs S ws n) m (\<lambda>_. point rs S ws n) (\<lambda>_. Z)"
  by (rule hoare_conseq [OF silentD]) (auto intro: point_somewhere)

lemma silent_end:
  "silent m \<Longrightarrow> (\<And>w. somewhere rs S ws w \<Longrightarrow> Z w) \<Longrightarrow> hoare (point rs S ws n) m (\<lambda>_. Z) (\<lambda>_. Z)"
  by (rule hoare_conseq [OF silentD]) (auto intro: point_somewhere)

lemma hoare_ask_write:
  "is_provider_write q \<Longrightarrow> hoare (somewhere rs S ws) (ask q answers) (\<lambda>_. somewhere rs S (ws @ [q])) (\<lambda>_. somewhere rs S (ws @ [q]))"
  by (auto simp: hoare_def somewhere_def point_def ask_def split: sum.splits)

lemma hoare_attempt:
  assumes "hoare P m (\<lambda>_. Q) (\<lambda>_. Q)"
  shows "hoare P (attempt_call named m) (\<lambda>_. Q) (\<lambda>_. Q)"
  unfolding attempt_call_def
  by (rule hoare_catch [where R = "\<lambda>_. Q"]) (auto intro: hoare_bind [OF assms] hoare_ret)

lemma hoare_move_executing:
  assumes "fresh_ids hn" "te_execution_fence task = rs_fence rs" "\<And>w. somewhere rs S ws w \<Longrightarrow> Z w"
    and "expected \<subseteq> sendable name"
  shows "hoare (somewhere rs S ws) (move_action hn task i expected EXECUTING name values err settlement not_before)
    (\<lambda>_. somewhere rs (insert name S) ws) (\<lambda>_. Z)"
proof (rule hoareI)
  note move = hoare_move [OF assms(1), of rs S ws _ task i expected EXECUTING name "values" err settlement not_before]
  fix w x w'
  assume "somewhere rs S ws w" "move_action hn task i expected EXECUTING name values err settlement not_before w = (Inr x, w')"
  then show "somewhere rs (insert name S) ws w'"
    using hoareD_ret [OF move] assms(2,4) unfolding somewhere_def [of _ _ _ w] by (blast intro: point_somewhere)
next
  note move = hoare_move [OF assms(1), of rs S ws _ task i expected EXECUTING name "values" err settlement not_before]
  fix w e w'
  assume "somewhere rs S ws w" "move_action hn task i expected EXECUTING name values err settlement not_before w = (Inl e, w')"
  then show "Z w'"
    using hoareD_raise [OF move] assms(3) unfolding somewhere_def [of _ _ _ w] by (blast intro: point_somewhere)
qed

lemma somewhere_weaken: "somewhere rs S ws w \<Longrightarrow> S' \<subseteq> S \<Longrightarrow> somewhere rs S' ws w"
  by (auto simp: somewhere_def point_def)

section \<open>Steps of the handler\<close>

lemma silent_calls:
  assumes "fresh_ids hn"
  shows "silent (move_action hn task i expected new name values err settlement not_before)"
    "silent (store_call hn (record_artifact mx fence ob))"
    "silent (store_call hn (reserve_or_get fence p m scope desired snapshot))"
    "silent (store_call hn (revise fence i k desired snapshot))"
  by - (rule silent_store [OF assms] ledger_sound_ops)+

lemma silent_slack_steps:
  assumes "fresh_ids hn"
  shows "silent (delivery_result state action code)" "silent (report_refusal hn task action expected rf)"
    "silent (earlier_outcome hn task action status)"
  unfolding delivery_result_def report_refusal_def earlier_outcome_def action_holdoff_def Let_def
  by - (intro silent_intros silent_calls [OF assms])+

lemma silent_steps:
  assumes "fresh_ids hn"
  shows "silent (complete_success hn task action comment desired expected name)"
    "silent (start_reconciliation hn task action)" "silent (log_decision evaluation)"
    "silent (record_evidence hn task ob)" "silent (record_catalog hn task records)"
    "silent (record_github hn task github)" "silent (record_jira hn task jira classification)"
  unfolding complete_success_def start_reconciliation_def log_decision_def record_evidence_def record_catalog_def
    record_github_def record_jira_def
  by - (intro silent_intros silent_calls [OF assms])+

lemma silent_reserve: "fresh_ids hn \<Longrightarrow> silent (reserve_comment hn task scope desired snapshot)"
  unfolding reserve_comment_def
  by (rule silent_catch) (auto intro: silent_intros silent_calls split: exn.splits)

lemma reading_steps:
  assumes "fresh_ids hn"
  shows "reading (reconcile_comment hn action repository issue_number marker)"
    "reading (verify_slack_identity hn task action)"
    "reading (prepare_controlled_revision hn task action service repository desired snapshot dec references)"
proof -
  have provider: "reading m \<Longrightarrow> reading (provider_call m)" for m :: "'a handler_io"
    unfolding provider_call_def by (rule reading_catch) (auto intro: silent_reading silent_intros)
  show "reading (reconcile_comment hn action repository issue_number marker)"
    unfolding reconcile_comment_def needs_review_def action_holdoff_def
    by (intro reading_intros silent_reading [OF silent_rules(1)] silent_reading [OF silent_read])
      (simp_all add: silent_reading silent_rules split: list.split)
  show "reading (verify_slack_identity hn task action)"
    unfolding verify_slack_identity_def
    by (intro reading_intros reading_attempt silent_reading [OF silent_signals(1)]) 
      (auto intro!: silent_reading silent_intros silent_slack_steps [OF assms] split: sum.splits)
  show "reading (prepare_controlled_revision hn task action service repository desired snapshot dec references)"
    unfolding prepare_controlled_revision_def Let_def
    by (intro reading_intros provider silent_reading [OF silent_signals(1)] silent_reading [OF silent_rules(3)]
        silent_reading [OF silent_rules(1)] silent_reading [OF silent_calls(4) [OF assms]]) simp
qed

section \<open>Writes\<close>

definition is_github_write :: "provider_request \<Rightarrow> bool" where
  "is_github_write q \<longleftrightarrow> is_provider_write q \<and> (\<nexists>m. q = PostNotification m)"

fun journal_name :: "provider_request \<Rightarrow> string" where
  "journal_name (PostNotification _) = ''slack_write_started''"
| "journal_name _ = ''write_started''"

text \<open>At most one comment and then at most one notification, each after its entry in the ledger.\<close>

definition comment_calls :: "string \<Rightarrow> int \<Rightarrow> provider_request list \<Rightarrow> bool" where
  "comment_calls repository issue_number g \<longleftrightarrow>
     g = [] \<or> (\<exists>body. g = [CreateComment repository issue_number body]) \<or>
     (\<exists>identifier body. g = [UpdateComment repository identifier body])"

definition commented :: "run_start \<Rightarrow> string \<Rightarrow> int \<Rightarrow> provider_request list \<Rightarrow> handler_world \<Rightarrow> bool" where
  "commented rs repository issue_number g w \<longleftrightarrow>
     comment_calls repository issue_number g \<and> somewhere rs (journal_name ` set g) g w"

lemma write_request_cases:
  "is_provider_write (write_request x repository k body)" "journal_name (write_request x repository k body) = ''write_started''"
  "(\<exists>b. write_request x repository k body = CreateComment repository k b) \<or>
   (\<exists>i b. write_request x repository k body = UpdateComment repository i b)"
  by (auto simp: write_request_def split: option.splits)

text \<open>The shape of both writes: the entry is committed, then the call, then its outcome is recorded.\<close>

lemma hoare_journaled_write:
  assumes "fresh_ids hn" "te_execution_fence task = rs_fence rs"
    and writes: "\<And>x. is_provider_write (q x)" and rest: "\<And>x v. reading (rest_of x v)"
    and unwritten: "\<And>w. somewhere rs S ws w \<Longrightarrow> Z w"
    and written: "\<And>x w. somewhere rs (insert name S) (ws @ [q x]) w \<Longrightarrow> Z w"
    and expected: "expected \<subseteq> sendable name"
  shows "hoare (somewhere rs S ws)
    (bindE (move_action hn task i expected EXECUTING name values err settlement not_before) (\<lambda>x.
       seqE (check_cancelled hn) (bindE (attempt_call named (ask (q x) answers)) (rest_of x)))) (\<lambda>_. Z) (\<lambda>_. Z)"
proof (rule hoare_bind [OF hoare_move_executing [OF assms(1,2) unwritten expected]], assumption)
  fix x
  have logged: "somewhere rs (insert name S) ws w \<Longrightarrow> Z w" for w
    by (rule unwritten) (auto elim: somewhere_weaken)
  show "hoare (somewhere rs (insert name S) ws)
      (seqE (check_cancelled hn) (bindE (attempt_call named (ask (q x) answers)) (rest_of x))) (\<lambda>_. Z) (\<lambda>_. Z)"
  proof (rule hoare_seq [OF reading_into])
    show "reading (check_cancelled hn)" by (rule silent_reading [OF silent_signals(1)])
    show "hoare (somewhere rs (insert name S) ws) (bindE (attempt_call named (ask (q x) answers)) (rest_of x)) (\<lambda>_. Z) (\<lambda>_. Z)"
    proof (rule hoare_bind)
      show "hoare (somewhere rs (insert name S) (ws @ [q x])) (rest_of x v) (\<lambda>_. Z) (\<lambda>_. Z)" for v
        by (rule reading_end [OF rest written])
      show "hoare (somewhere rs (insert name S) ws) (attempt_call named (ask (q x) answers))
          (\<lambda>_. somewhere rs (insert name S) (ws @ [q x])) (\<lambda>_. Z)"
        by (rule hoare_conseq [OF hoare_attempt [OF hoare_ask_write [OF writes]]]) (auto intro: written)
    qed
  qed (rule logged)
qed

lemma hoare_write_comment:
  assumes "fresh_ids hn" "te_execution_fence task = rs_fence rs"
  shows "hoare (somewhere rs {} []) (write_comment hn task action repository issue_number body desired dec references)
    (\<lambda>_ w. \<exists>g. commented rs repository issue_number g w) (\<lambda>_ w. \<exists>g. commented rs repository issue_number g w)"
proof -
  let ?Z = "\<lambda>w. \<exists>g. commented rs repository issue_number g w"
  have none: "?Z w" if "somewhere rs {} [] w" for w using that by (intro exI [of _ "[]"]) (auto simp: commented_def comment_calls_def)
  have one: "?Z w" if "somewhere rs {''write_started''} ([] @ [write_request x repository issue_number body]) w" for w x
    using that write_request_cases [of x repository issue_number body]
    by (intro exI [of _ "[write_request x repository issue_number body]"]) (auto simp: commented_def comment_calls_def)
  note silents = silent_signals silent_calls [OF assms(1)] silent_steps(1) [OF assms(1)] silent_rules
  show ?thesis
    unfolding write_comment_def
    by (intro hoare_bind [OF reading_into] hoare_seq [OF reading_into] hoare_journaled_write [OF assms] none one)
      (auto simp: sendable_def intro!: silent_reading silents write_request_cases(1) split: sum.splits)
qed

lemma hoare_reconcile_and_apply:
  assumes "fresh_ids hn" "te_execution_fence task = rs_fence rs"
  shows "hoare (somewhere rs {} []) (reconcile_and_apply hn task action repository issue_number body desired dec references)
    (\<lambda>_ w. \<exists>g. commented rs repository issue_number g w) (\<lambda>_ w. \<exists>g. commented rs repository issue_number g w)"
proof -
  let ?Z = "\<lambda>w. \<exists>g. commented rs repository issue_number g w"
  have none: "?Z w" if "somewhere rs {} [] w" for w using that by (intro exI [of _ "[]"]) (auto simp: commented_def comment_calls_def)
  note silents = silent_signals silent_calls [OF assms(1)] silent_steps(1,2) [OF assms(1)] silent_rules
  have stopped: "reading (stop_reconciliation hn task x stop dec references)" for x stop
    unfolding stop_reconciliation_def by (cases stop) (auto intro!: silent_reading silents)
  have compared: "hoare (somewhere rs {} []) (compare_comment hn task x comment repository issue_number body desired dec references)
      (\<lambda>_. ?Z) (\<lambda>_. ?Z)" for x comment
    unfolding compare_comment_def adopt_comment_def
    by (intro hoare_bind [OF reading_into] hoare_if hoare_write_comment [OF assms] none reading_end)
      (auto intro!: silent_reading silents)
  have chosen: "hoare (somewhere rs {} []) (case found of
         Inl stop \<Rightarrow> stop_reconciliation hn task x stop dec references
       | Inr None \<Rightarrow> write_comment hn task x repository issue_number body desired dec references
       | Inr (Some comment) \<Rightarrow> compare_comment hn task x comment repository issue_number body desired dec references)
      (\<lambda>_. ?Z) (\<lambda>_. ?Z)" for x found
    using reading_end [OF stopped none] hoare_write_comment [OF assms] compared
    by (auto split: sum.splits option.splits)
  show ?thesis
    unfolding reconcile_and_apply_def
    by (intro hoare_bind [OF reading_into] hoare_seq [OF reading_into] none chosen)
      (rule reading_attempt silent_reading [OF silent_signals(1)] silent_reading [OF silent_steps(2) [OF assms(1)]]
        reading_steps(1) [OF assms(1)] | assumption)+
qed

section \<open>The notification\<close>

text \<open>A run that may have posted one message to the channel of the request.\<close>

definition notified :: "run_start \<Rightarrow> string \<Rightarrow> provider_request list \<Rightarrow> handler_world \<Rightarrow> bool" where
  "notified rs channel g w \<longleftrightarrow> somewhere rs (journal_name ` set g) g w \<or>
     (\<exists>m. sm_channel m = channel \<and> somewhere rs (journal_name ` set (g @ [PostNotification m])) (g @ [PostNotification m]) w)"

lemma hoare_post_message:
  assumes "fresh_ids hn" "te_execution_fence task = rs_fence rs"
  shows "hoare (somewhere rs (journal_name ` set g) g) (post_message hn task action message desired)
    (\<lambda>_. notified rs (sm_channel message) g) (\<lambda>_. notified rs (sm_channel message) g)"
proof -
  let ?Z = "notified rs (sm_channel message) g"
  note silents = silent_signals silent_calls [OF assms(1)] silent_slack_steps [OF assms(1)] silent_rules
  have none: "?Z w" if "somewhere rs (journal_name ` set g) g w" for w using that by (simp add: notified_def)
  have one: "?Z w" if "somewhere rs (insert ''slack_write_started'' (journal_name ` set g)) (g @ [PostNotification message]) w" for w
    using that by (auto simp: notified_def)
  have recorded: "reading (seqE (check_ownership hn) (case v of
         Inl rf \<Rightarrow> report_refusal hn task x {EXECUTING} rf
       | Inr receipt \<Rightarrow>
           bindE (liftR (sha256_json (JObj [(''channel'', JStr (rc_channel receipt)), (''timestamp'', JStr (rc_timestamp receipt))])))
             (\<lambda>response_fingerprint.
           bindE (move_action hn task (x_id x) {EXECUTING} ACTION_SUCCEEDED ''slack_write_succeeded''
                    [Set_Provider_Resource_Identifier (Some (receipt_identifier receipt)), Set_Provider_Url None,
                     Set_Response_Fingerprint (Some response_fingerprint),
                     Set_Applied_Request_Fingerprint (Some desired)] None None None) (\<lambda>sent.
           seqE (check_cancelled hn) (delivery_result DELIVERY_SUCCEEDED sent None)))))" for x v
    by (cases v) (auto intro!: silent_reading silents)
  show ?thesis
    unfolding post_message_def
    by (intro hoare_seq [OF reading_into] hoare_journaled_write [OF assms] none one recorded)
      (auto simp: sendable_def intro!: silent_reading silents)
qed

lemma hoare_deliver:
  assumes "fresh_ids hn" "te_execution_fence task = rs_fence rs"
  shows "hoare (somewhere rs (journal_name ` set g) g) (deliver hn task request)
    (\<lambda>_. notified rs (dr_channel_id request) g) (\<lambda>_. notified rs (dr_channel_id request) g)"
proof -
  let ?Z = "notified rs (dr_channel_id request) g"
  note silents = silent_signals silent_calls [OF assms(1)] silent_slack_steps [OF assms(1)] silent_rules
  have none: "?Z w" if "somewhere rs (journal_name ` set g) g w" for w using that by (simp add: notified_def)
  have message: "hoare (somewhere rs (journal_name ` set g) g)
      (bindE (liftR (make_slack_message (dr_channel_id request) body)) f) (\<lambda>_. ?Z) (\<lambda>_. ?Z)"
    if "\<And>m. sm_channel m = dr_channel_id request \<Longrightarrow> hoare (somewhere rs (journal_name ` set g) g) (f m) (\<lambda>_. ?Z) (\<lambda>_. ?Z)"
    for body and f :: "slack_message \<Rightarrow> slack_result handler_io"
    using that none by (auto simp: make_slack_message_def guardR_def hoare_def effect_simps bindE_def)
  have posted: "hoare (somewhere rs (journal_name ` set g) g) (post_message hn task x m desired) (\<lambda>_. ?Z) (\<lambda>_. ?Z)"
    if "sm_channel m = dr_channel_id request" for x m desired
    using hoare_post_message [OF assms, of g x m desired] that by simp
  show ?thesis
    unfolding deliver_def Let_def
    by (intro message hoare_bind [OF reading_into] hoare_seq [OF reading_into] hoare_if hoare_case_option none posted reading_end)
      (assumption | rule reading_steps(2) [OF assms(1)] silents [THEN silent_reading])+
qed

section \<open>The whole handler\<close>

text \<open>What the answers to a run whose first call is the \<open>n\<close>th must say before it may publish.\<close>

definition may_publish :: "handler_env \<Rightarrow> task_execution \<Rightarrow> nat \<Rightarrow> bool" where
  "may_publish hn task n \<longleftrightarrow> (case validate_sync_input (hn_coercions hn) (te_task_input task) of
     Inl _ \<Rightarrow> False
   | Inr i \<Rightarrow>
       evaluate_static_scope i (hn_settings hn) = None \<and>
       (case hn_records hn n of Inl _ \<Rightarrow> False
        | Inr records \<Rightarrow> pe_outcome (evaluate_service_catalog i records (hn_settings hn)) = READY) \<and>
       hn_github_identity hn (n + 1) = Inr True \<and>
       (case hn_context hn (n + 2) of Inl _ \<Rightarrow> False
        | Inr github \<Rightarrow> foreign_target i github = None \<and> unfit_target github = None) \<and>
       (case hn_issue hn (n + 3) of Inl _ \<Rightarrow> False
        | Inr jira \<Rightarrow> casefold (j_key jira) = casefold (i_jira_issue_key i)))"

definition slack_target :: "handler_env \<Rightarrow> sync_input \<Rightarrow> slack_message \<Rightarrow> bool" where
  "slack_target hn i m \<longleftrightarrow> i_publish_slack_notification i \<and> enable_slack_notification (hn_settings hn) \<and>
     i_slack_channel_id i = Some (sm_channel m) \<and> sm_channel m \<in> set (deployment_allowed_slack_channels (hn_settings hn))"

definition concluded :: "run_start \<Rightarrow> handler_env \<Rightarrow> task_execution \<Rightarrow> nat \<Rightarrow> handler_world \<Rightarrow> bool" where
  "concluded rs hn task n w \<longleftrightarrow> (\<exists>g p. somewhere rs (journal_name ` set (g @ p)) (g @ p) w \<and>
     (g @ p \<noteq> [] \<longrightarrow> may_publish hn task n \<and> (\<exists>i. validate_sync_input (hn_coercions hn) (te_task_input task) = Inr i \<and>
        comment_calls (i_github_repository i) (i_github_issue_number i) g \<and>
        (p = [] \<or> (\<exists>m. p = [PostNotification m] \<and> slack_target hn i m)))))"

lemma concluded_none: "somewhere rs {} [] w \<Longrightarrow> concluded rs hn task n w"
  unfolding concluded_def by (intro exI [of _ "[]"]) simp

lemma finish_none: "silent (finish hn task i None service r)"
  unfolding finish_def delivery_request_of_def by (auto intro: silent_intros split: option.splits)

lemma hoare_ex: "(\<And>g. hoare (P g) m Q E) \<Longrightarrow> hoare (\<lambda>w. \<exists>g. P g w) m Q E"
  by (rule hoareI) (blast dest: hoareD_ret hoareD_raise)+

lemma hoare_finish:
  assumes "fresh_ids hn" "te_execution_fence task = rs_fence rs" "may_publish hn task n"
    and i: "validate_sync_input (hn_coercions hn) (te_task_input task) = Inr i" "validate_slack_request hn i = Inr ()"
  shows "hoare (commented rs (i_github_repository i) (i_github_issue_number i) g) (finish hn task i github service r)
    (\<lambda>_. concluded rs hn task n) (\<lambda>_. concluded rs hn task n)"
proof (rule hoare_pre_pure)
  let ?Z = "concluded rs hn task n"
  assume g: "comment_calls (i_github_repository i) (i_github_issue_number i) g"
  have none: "?Z w" if "somewhere rs (journal_name ` set g) g w" for w
    unfolding concluded_def using that g assms(3) i(1) by (intro exI [of _ g] exI [of _ "[]"]) simp
  have sent: "?Z w" if "notified rs c g w" "slack_target hn i \<lparr>sm_channel = c, sm_text = [], sm_mrkdwn = True,
      sm_unfurl_links = False, sm_unfurl_media = False\<rparr>" for c w
    using that(1) unfolding notified_def
  proof
    assume "\<exists>m. sm_channel m = c \<and> somewhere rs (journal_name ` set (g @ [PostNotification m])) (g @ [PostNotification m]) w"
    then obtain m where "sm_channel m = c" "somewhere rs (journal_name ` set (g @ [PostNotification m])) (g @ [PostNotification m]) w"
      by blast
    then show ?thesis
      unfolding concluded_def using that(2) g assms(3) i(1)
      by (intro exI [of _ g] exI [of _ "[PostNotification m]"]) (auto simp: slack_target_def)
  qed (rule none)
  have target: "slack_target hn i \<lparr>sm_channel = dr_channel_id request, sm_text = [], sm_mrkdwn = True,
      sm_unfurl_links = False, sm_unfurl_media = False\<rparr>"
    if "i_publish_slack_notification i" "delivery_request_of r i github service = Some request" for request
    using that i(2) by (auto simp: slack_target_def delivery_request_of_def validate_slack_request_def result_simps
        split: option.splits if_splits)
  note silents = silent_reading [OF silent_signals(1)] silent_reading [OF silent_rules(1)] silent_reading [OF silent_rules(3)]
  have "hoare (somewhere rs (journal_name ` set g) g) (finish hn task i github service r) (\<lambda>_. ?Z) (\<lambda>_. ?Z)"
    unfolding finish_def
  proof (intro hoare_if hoare_case_option hoare_seq [OF reading_into] reading_end [OF silents(2)] silents none; assumption?)
    fix request assume pub: "\<not> \<not> i_publish_slack_notification i" and req: "delivery_request_of r i github service = Some request"
    have "hoare (somewhere rs (journal_name ` set g) g) (deliver hn task request) (\<lambda>_. ?Z) (\<lambda>_. ?Z)"
      by (rule hoare_conseq [OF hoare_deliver [OF assms(1,2)]]) (use sent target [OF _ req] pub in auto)
    then show "hoare (somewhere rs (journal_name ` set g) g) (bindE (deliver hn task request)
        (\<lambda>slack. ret (r\<lparr>w_slack_notification := slack\<rparr>))) (\<lambda>_. ?Z) (\<lambda>_. ?Z)"
      by (rule hoare_bind) (simp add: hoare_ret)
  qed
  then show "hoare (commented rs (i_github_repository i) (i_github_issue_number i) g) (finish hn task i github service r) (\<lambda>_. ?Z) (\<lambda>_. ?Z)"
    by (rule hoare_conseq) (auto simp: commented_def)
qed (simp add: commented_def)

lemma hoare_with_reservation:
  assumes "fresh_ids hn" "te_execution_fence task = rs_fence rs" "may_publish hn task n"
    and i: "validate_sync_input (hn_coercions hn) (te_task_input task) = Inr i" "validate_slack_request hn i = Inr ()"
  shows "hoare (somewhere rs {} []) (with_reservation hn task i service github dec references body desired snapshot reservation)
    (\<lambda>_. concluded rs hn task n) (\<lambda>_. concluded rs hn task n)"
proof -
  let ?Z = "concluded rs hn task n"
  have finished: "hoare (somewhere rs {} []) (finish hn task i (Some github) (Some service) r) (\<lambda>_. ?Z) (\<lambda>_. ?Z)" for r
    by (rule hoare_conseq [OF hoare_finish [OF assms, of "[]"]]) (auto simp: commented_def comment_calls_def)
  have applied: "hoare (somewhere rs {} []) (bindE (reconcile_and_apply hn task x (i_github_repository i) (i_github_issue_number i)
      body desired dec references) (finish hn task i (Some github) (Some service))) (\<lambda>_. ?Z) (\<lambda>_. ?Z)" for x
  proof (rule hoare_bind)
    show "hoare (\<lambda>w. \<exists>g. commented rs (i_github_repository i) (i_github_issue_number i) g w)
        (finish hn task i (Some github) (Some service) r) (\<lambda>_. ?Z) (\<lambda>_. ?Z)" for r
      by (rule hoare_ex, rule hoare_finish [OF assms])
    show "hoare (somewhere rs {} []) (reconcile_and_apply hn task x (i_github_repository i) (i_github_issue_number i)
        body desired dec references) (\<lambda>_ w. \<exists>g. commented rs (i_github_repository i) (i_github_issue_number i) g w) (\<lambda>_. ?Z)"
    proof (rule hoare_conseq [OF hoare_reconcile_and_apply [OF assms(1,2)]], assumption, assumption)
      fix e :: exn and w
      assume "\<exists>g. commented rs (i_github_repository i) (i_github_issue_number i) g w"
      then show "?Z w"
        unfolding concluded_def using assms(3) i(1) by (elim exE) (rule exI, rule exI [of _ "[]"], auto simp: commented_def)
    qed
  qed
  have prepared: "hoare (somewhere rs {} []) (case v of Inr r \<Rightarrow> finish hn task i (Some github) (Some service) r
      | Inl revised \<Rightarrow> bindE (reconcile_and_apply hn task revised (i_github_repository i) (i_github_issue_number i)
      body desired dec references) (finish hn task i (Some github) (Some service))) (\<lambda>_. ?Z) (\<lambda>_. ?Z)" for v
    using finished applied by (cases v) simp_all
  show ?thesis
    unfolding with_reservation_def Let_def
    by (intro hoare_if hoare_bind [OF reading_into] finished applied prepared)
      (assumption | rule concluded_none reading_steps(3) [OF assms(1)] silent_reading [OF silent_rules(3)])+
qed

lemma hoare_pre_conj: "(b \<Longrightarrow> hoare P m Q E) \<Longrightarrow> hoare (\<lambda>w. P w \<and> b) m Q E"
  by (cases b) (simp_all add: hoare_def)

lemma hoare_provider:
  assumes "\<not> is_provider_write q" "\<And>w. somewhere rs S ws w \<Longrightarrow> Z w"
  shows "hoare (point rs S ws n) (provider_call (ask q answers)) (\<lambda>x w. point rs S ws (Suc n) w \<and> answers n = Inr x) (\<lambda>_. Z)"
  unfolding provider_call_def
  by (rule hoare_catch [OF hoare_ask [OF assms(1)]]) (auto intro!: hoare_raise assms(2) intro: point_somewhere)

lemma hoare_from_point: "hoare (somewhere rs S ws) m Q E \<Longrightarrow> hoare (point rs S ws n) m Q E"
  by (erule hoare_conseq) (auto intro: point_somewhere)

lemma silent_concluded:
  "silent m \<Longrightarrow> hoare (point rs {} [] n) m (\<lambda>_. point rs {} [] n) (\<lambda>_. concluded rs hn task k)"
  "silent m \<Longrightarrow> hoare (point rs {} [] n) m (\<lambda>_. concluded rs hn task k) (\<lambda>_. concluded rs hn task k)"
  by (rule silent_into, assumption, rule concluded_none, assumption) (rule silent_end, assumption, rule concluded_none)

lemma hoare_now_finish:
  "hoare (point rs {} [] n) (bindE (now_utc hn) (\<lambda>now. finish hn task i None service (r now)))
     (\<lambda>_. concluded rs hn task k) (\<lambda>_. concluded rs hn task k)"
  by (intro silent_end silent_rules(4) silent_signals finish_none concluded_none)

lemma hoare_with_jira:
  assumes "fresh_ids hn" "te_execution_fence task = rs_fence rs"
    and granted: "\<And>jira. hn_issue hn k = Inr jira \<Longrightarrow> casefold (j_key jira) = casefold (i_jira_issue_key i) \<Longrightarrow> may_publish hn task n"
    and i: "validate_sync_input (hn_coercions hn) (te_task_input task) = Inr i" "validate_slack_request hn i = Inr ()"
  shows "hoare (point rs {} [] k) (with_jira hn task i evaluation service github references)
    (\<lambda>_. concluded rs hn task n) (\<lambda>_. concluded rs hn task n)"
  unfolding with_jira_def
proof (intro hoare_seq [OF silent_into] hoare_bind [OF hoare_provider] hoare_pre_conj hoare_if hoare_now_finish concluded_none, goal_cases)
  case 1
  show ?case by (rule silent_signals)
next
  case (2 w)
  then show ?case .
next
  case 3
  show ?case by simp
next
  case (4 w)
  then show ?case .
next
  case (5 jira)
  show ?case by (rule silent_signals)
next
  case (6 jira w)
  then show ?case by simp
next
  case (7 jira)
  then have grant: "may_publish hn task n" by (auto intro: granted)
  note silents = silent_steps(7) [OF assms(1)] silent_rules(3) silent_signals(1) silent_reserve [OF assms(1)]
  note last = hoare_with_reservation [OF assms(1,2) grant i]
  show ?case
    unfolding Let_def
    by (rule hoare_from_point, intro hoare_bind [OF reading_into] hoare_seq [OF reading_into] last concluded_none)
      (assumption | rule silents [THEN silent_reading])+
qed

text \<open>The facts a stage relies on, collected call by call.\<close>

definition policy_ready :: "handler_env \<Rightarrow> sync_input \<Rightarrow> nat \<Rightarrow> bool" where
  "policy_ready hn i n \<longleftrightarrow> evaluate_static_scope i (hn_settings hn) = None \<and>
     (\<exists>records. hn_records hn n = Inr records \<and> pe_outcome (evaluate_service_catalog i records (hn_settings hn)) = READY)"

lemma hoare_with_github:
  assumes "fresh_ids hn" "te_execution_fence task = rs_fence rs" "policy_ready hn i n"
    and i: "validate_sync_input (hn_coercions hn) (te_task_input task) = Inr i" "validate_slack_request hn i = Inr ()"
  shows "hoare (point rs {} [] (Suc n)) (with_github hn task i evaluation service references)
    (\<lambda>_. concluded rs hn task n) (\<lambda>_. concluded rs hn task n)"
  unfolding with_github_def Let_def
proof (intro hoare_seq [OF silent_into] hoare_bind [OF hoare_provider] hoare_pre_conj hoare_if hoare_now_finish concluded_none, goal_cases)
  case (9 verified github)
  note silents = silent_steps(6) [OF assms(1)]
  show ?case
  proof (cases "foreign_target i github")
    case None
    have "hoare (point rs {} [] (Suc (Suc (Suc n)))) (with_jira hn task i evaluation service github references')
        (\<lambda>_. concluded rs hn task n) (\<lambda>_. concluded rs hn task n)" if "unfit_target github = None" for references'
    proof (rule hoare_with_jira [OF assms(1,2) _ i])
      fix jira assume jira: "hn_issue hn (Suc (Suc (Suc n))) = Inr jira" "casefold (j_key jira) = casefold (i_jira_issue_key i)"
      obtain records where "hn_records hn n = Inr records" "pe_outcome (evaluate_service_catalog i records (hn_settings hn)) = READY"
        "evaluate_static_scope i (hn_settings hn) = None" using assms(3) by (auto simp: policy_ready_def)
      with 9 jira None that i show "may_publish hn task n" by (simp add: may_publish_def eval_nat_numeral)
    qed
    with None show ?thesis
      by (auto intro!: hoare_bind [OF silent_concluded(1) [OF silents]] hoare_now_finish split: option.splits)
  qed (auto intro: hoare_now_finish split: prod.splits)
qed (simp_all add: silent_signals)

lemma hoare_with_catalog:
  assumes "fresh_ids hn" "te_execution_fence task = rs_fence rs" "evaluate_static_scope i (hn_settings hn) = None"
    and i: "validate_sync_input (hn_coercions hn) (te_task_input task) = Inr i" "validate_slack_request hn i = Inr ()"
  shows "hoare (point rs {} [] n) (with_catalog hn task i) (\<lambda>_. concluded rs hn task n) (\<lambda>_. concluded rs hn task n)"
  unfolding with_catalog_def Let_def
proof (intro hoare_seq [OF silent_into] hoare_bind [OF hoare_provider] hoare_pre_conj concluded_none, goal_cases)
  case (7 records)
  have "hoare (point rs {} [] (Suc n)) (with_github hn task i evaluation service references)
      (\<lambda>_. concluded rs hn task n) (\<lambda>_. concluded rs hn task n)"
    if "pe_outcome (evaluate_service_catalog i records (hn_settings hn)) = READY" for evaluation service references
    by (rule hoare_with_github [OF assms(1,2) _ i]) (use 7 that assms(3) in \<open>auto simp: policy_ready_def\<close>)
  then show ?case
    by (intro hoare_bind [OF silent_concluded(1) [OF silent_steps(5) [OF assms(1)]]] hoare_if hoare_now_finish
        hoare_case_option silent_concluded(2) [OF silent_rules(2)]) auto
qed (simp_all add: silent_signals silent_steps [OF assms(1)])

lemma hoare_execute_sync:
  assumes "fresh_ids hn" "te_execution_fence task = rs_fence rs"
  shows "hoare (point rs {} [] n) (execute_sync hn task) (\<lambda>_. concluded rs hn task n) (\<lambda>_. concluded rs hn task n)"
proof (cases "validate_sync_input (hn_coercions hn) (te_task_input task)")
  case (Inl e)
  then show ?thesis
    by (simp add: execute_sync_def) (auto intro: silent_concluded silent_rules)
next
  case i: (Inr i)
  show ?thesis
  proof (cases "validate_slack_request hn i")
    case (Inl e)
    then show ?thesis
      by (auto simp: execute_sync_def i seqE_def hoare_def bindE_def effect_simps intro: concluded_none point_somewhere)
  next
    case (Inr u)
    then have ok: "validate_slack_request hn i = Inr ()" by simp
    show ?thesis
      unfolding execute_sync_def i sum.case bindE_ret
      by (intro hoare_seq [OF silent_into] hoare_case_option hoare_with_catalog [OF assms _ i ok] hoare_now_finish
          concluded_none) (assumption | rule silent_signals silent_steps [OF assms(1)] silent_rules)+
  qed
qed

lemma execute_concluded:
  assumes "fresh_ids hn" "system_inv (hw_db w)" "execute hn task w = (r, w')"
  shows "concluded \<lparr>rs_world = w, rs_fence = te_execution_fence task\<rparr> hn task (hw_requests w) w'"
proof -
  let ?rs = "\<lparr>rs_world = w, rs_fence = te_execution_fence task\<rparr>"
  have start: "point ?rs {} [] (hw_requests w) w" using assms(2) by (simp add: point_def sys.le_refl)
  have run: "hoare (point ?rs {} [] (hw_requests w)) (execute hn task)
      (\<lambda>_. concluded ?rs hn task (hw_requests w)) (\<lambda>_. concluded ?rs hn task (hw_requests w))"
    unfolding execute_def
    by (rule hoare_bind [OF hoare_execute_sync [OF assms(1)]]) (simp_all add: hoare_ret)
  show ?thesis using hoareD_ret [OF run start] hoareD_raise [OF run start] assms(3) by (cases r) auto
qed

lemma concludedE:
  assumes "concluded \<lparr>rs_world = w, rs_fence = fence\<rparr> hn task n w'"
  obtains g p where "filter is_provider_write (new_calls w w') = g @ p" "hw_trace w' = hw_trace w @ new_calls w w'"
    "system_inv (hw_db w')" "system_le (hw_db w) (hw_db w')"
    "\<And>q. q \<in> set (g @ p) \<Longrightarrow> logged fence (hw_db w) (hw_db w') (journal_name q)"
    "g @ p \<noteq> [] \<longrightarrow> may_publish hn task n \<and> (\<exists>i. validate_sync_input (hn_coercions hn) (te_task_input task) = Inr i \<and>
        comment_calls (i_github_repository i) (i_github_issue_number i) g \<and>
        (p = [] \<or> (\<exists>m. p = [PostNotification m] \<and> slack_target hn i m)))"
proof -
  from assms obtain g p where at: "somewhere \<lparr>rs_world = w, rs_fence = fence\<rparr> (journal_name ` set (g @ p)) (g @ p) w'"
    and rest: "g @ p \<noteq> [] \<longrightarrow> may_publish hn task n \<and> (\<exists>i. validate_sync_input (hn_coercions hn) (te_task_input task) = Inr i \<and>
        comment_calls (i_github_repository i) (i_github_issue_number i) g \<and>
        (p = [] \<or> (\<exists>m. p = [PostNotification m] \<and> slack_target hn i m)))" by (auto simp: concluded_def)
  from at obtain new where "hw_trace w' = hw_trace w @ new" "filter is_provider_write new = g @ p"
    by (auto simp: somewhere_def point_def)
  moreover from this have "new_calls w w' = new" by (simp add: new_calls_def)
  ultimately show ?thesis using at rest by (intro that [of g p]) (auto simp: somewhere_def point_def)
qed

section \<open>Examples\<close>

definition example_tick :: tick where
  "example_tick = \<lparr>tk_others = [], tk_fault = NO_FAULT, tk_now = 20, tk_clock = 20, tk_raw_token = [], tk_locked = {},
     tk_random = 0\<rparr>"

definition example_handler :: handler_env where
  "example_handler = \<lparr>hn_settings = (default_settings ''db'')\<lparr>deployment_scope_id := Some ''lab'',
       deployment_allowed_service_ids := [''s''], deployment_allowed_github_repositories := [''o/r''],
       deployment_allowed_jira_projects := [''A'']\<rparr>,
     hn_coercions = json_coercions, hn_ticks = (\<lambda>_. example_tick), hn_uuid4 = (\<lambda>xs. Suc (sum_list xs)),
     hn_signals = (\<lambda>_. quiet), hn_clock = (\<lambda>_. 20), hn_isoformat = (\<lambda>_. ''T''), hn_json_time = (\<lambda>_. ''T''),
     hn_slack_configured = False, hn_records = (\<lambda>_. Inr [example_record]), hn_github_identity = (\<lambda>_. Inr True),
     hn_context = (\<lambda>_. Inr \<lparr>g_full_name = ''o/r'', g_repository_id = 5, g_visibility = ''public'', g_archived = False,
       g_default_branch = ''main'', g_head_sha = ''abcdef0'', g_issue_number = 7, g_issue_state = ''open'',
       g_issue_title = ''t'', g_is_pull_request = False, g_source_url = ''http://g/1'', g_source_version = ''v''\<rparr>),
     hn_issue = (\<lambda>_. Inr \<lparr>j_key = ''A-1'', j_title = ''t'', j_description = ''d'', j_status = ''open'', j_priority = None,
       j_labels = [], j_assignee = None, j_updated_at = 1, j_source_url = ''http://j/1'', j_source_version = ''2''\<rparr>),
     hn_comment = (\<lambda>_. Inr None), hn_search = (\<lambda>_. Inr \<lparr>cs_comments = [], cs_complete = True\<rparr>),
     hn_written = (\<lambda>_. Inr \<lparr>cm_identifier = ''99'', cm_body = ''x'', cm_url = ''http://g/1#99'', cm_updated_at = 3\<rparr>),
     hn_slack_identity = (\<lambda>_. Inr True), hn_receipt = (\<lambda>_. Inr \<lparr>rc_channel = ''C12345678'', rc_timestamp = ''1.2''\<rparr>)\<rparr>"

definition example_task :: "jobj \<Rightarrow> task_execution" where
  "example_task task_input = \<lparr>te_task_id = 1, te_task_type = ''deployment_context_sync'', te_task_input = task_input,
     te_attempt_id = 1, te_attempt_number = 1, te_max_attempts = 3, te_execution_fence = claim_fence example_claim\<rparr>"

definition example_world :: handler_world where
  "example_world = \<lparr>hw_db = running_db, hw_calls = 0, hw_checks = 0, hw_requests = 0, hw_trace = [], hw_metrics = []\<rparr>"

lemma example_fresh: "fresh_ids example_handler"
proof -
  have "Suc (sum_list xs) \<notin> set xs" for xs :: "nat list" using member_le_sum_list [of "Suc (sum_list xs)" xs] by auto
  then show ?thesis by (simp add: fresh_ids_def example_handler_def)
qed

lemma example_world_inv: "system_inv (hw_db example_world)"
  by (simp add: example_world_def)

section \<open>Properties\<close>

text \<open>
  Whatever the providers answer, whatever others commit between its calls and whatever
  connection is lost, the deployment handler keeps every invariant of the database, and history:
  artifacts and ledger entries stay where they are, no action loses its identity, and the calls
  made before stay in the trace.
\<close>

theorem handler_keeps_store:
  assumes "fresh_ids hn" "system_inv (hw_db w)" "execute hn task w = (r, w')"
  shows "system_inv (hw_db w') \<and> tables_ok (hw_db w') \<and> system_le (hw_db w) (hw_db w') \<and>
    take (length (source_artifacts (hw_db w))) (source_artifacts (hw_db w')) = source_artifacts (hw_db w) \<and>
    take (length (external_action_attempts (hw_db w))) (external_action_attempts (hw_db w')) =
      external_action_attempts (hw_db w) \<and>
    hw_trace w' = hw_trace w @ new_calls w w'"
proof -
  obtain g p where trace: "hw_trace w' = hw_trace w @ new_calls w w'" and inv: "system_inv (hw_db w')"
    and le: "system_le (hw_db w) (hw_db w')" by (rule concludedE [OF execute_concluded [OF assms]])
  have "tables_ok (hw_db w')" using inv by (simp add: system_inv_def tables_ok_def queue_invD(1) ledger_invD(1))
  moreover obtain ss es where "source_artifacts (hw_db w') = source_artifacts (hw_db w) @ ss"
    "external_action_attempts (hw_db w') = external_action_attempts (hw_db w) @ es"
    using le by (auto simp: system_le_def ledger_le_def)
  ultimately show ?thesis using inv le trace by simp
qed

lemma handler_keeps_store_witness:
  "tables_ok (hw_db (snd (execute example_handler (example_task (dump_sync_input example_input)) example_world)))"
  using handler_keeps_store [OF example_fresh example_world_inv, of "example_task (dump_sync_input example_input)"
      "fst (execute example_handler (example_task (dump_sync_input example_input)) example_world)"
      "snd (execute example_handler (example_task (dump_sync_input example_input)) example_world)"] by simp

text \<open>
  C5. Nothing is published without the policy. Unless the input is valid and within the static
  scope, the catalog's verdict is ready, the identity is verified, and the GitHub and Jira targets
  the providers return are the requested and fit ones, a run of the handler writes to no provider,
  whatever the state of the ledger.
\<close>

theorem nothing_published_without_policy:
  assumes "fresh_ids hn" "system_inv (hw_db w)" "execute hn task w = (r, w')"
    and "\<not> may_publish hn task (hw_requests w)"
  shows "filter is_provider_write (new_calls w w') = []"
  by (rule concludedE [OF execute_concluded [OF assms(1-3)]]) (use assms(4) in auto)

lemma nothing_published_without_policy_witness:
  "filter is_provider_write (new_calls example_world (snd (execute example_handler (example_task []) example_world))) = []"
proof -
  have "\<not> may_publish example_handler (example_task []) (hw_requests example_world)"
    by (simp add: may_publish_def example_task_def validate_sync_input_def required_field_def obj_get_def)
  from nothing_published_without_policy [OF example_fresh example_world_inv surjective_pairing this] show ?thesis .
qed

text \<open>
  C4. Write-ahead and at most once. A run writes at most one comment, to the requested repository
  and issue, and after it at most one message, to the requested and allowed channel; and for each
  of them the ledger has, from this run on, an entry of this very attempt that moved the action
  from a status in which nothing was sent to executing. So no write escapes reconciliation.
\<close>

theorem writes_are_journaled:
  assumes "fresh_ids hn" "system_inv (hw_db w)" "execute hn task w = (r, w')"
  shows "\<exists>g p. filter is_provider_write (new_calls w w') = g @ p \<and> length g \<le> 1 \<and> length p \<le> 1 \<and>
    list_all (\<lambda>q. logged (te_execution_fence task) (hw_db w) (hw_db w') (journal_name q)) (g @ p) \<and>
    (g @ p = [] \<or> (\<exists>i. validate_sync_input (hn_coercions hn) (te_task_input task) = Inr i \<and>
       comment_calls (i_github_repository i) (i_github_issue_number i) g \<and>
       (p = [] \<or> (\<exists>m. p = [PostNotification m] \<and> slack_target hn i m))))"
proof (rule concludedE [OF execute_concluded [OF assms]])
  fix g p
  assume calls: "filter is_provider_write (new_calls w w') = g @ p"
    and logged: "\<And>q. q \<in> set (g @ p) \<Longrightarrow> logged (te_execution_fence task) (hw_db w) (hw_db w') (journal_name q)"
    and cases: "g @ p \<noteq> [] \<longrightarrow> may_publish hn task (hw_requests w) \<and>
      (\<exists>i. validate_sync_input (hn_coercions hn) (te_task_input task) = Inr i \<and>
        comment_calls (i_github_repository i) (i_github_issue_number i) g \<and>
        (p = [] \<or> (\<exists>m. p = [PostNotification m] \<and> slack_target hn i m)))"
  from cases have "length g \<le> 1" "length p \<le> 1"
    by (cases "g @ p = []"; auto simp: comment_calls_def)+
  moreover have "list_all (\<lambda>q. logged (te_execution_fence task) (hw_db w) (hw_db w') (journal_name q)) (g @ p)"
    using logged by (simp add: list_all_iff)
  ultimately show ?thesis using calls cases by blast
qed

lemma writes_are_journaled_witness:
  "length (filter is_provider_write (new_calls example_world
     (snd (execute example_handler (example_task (dump_sync_input example_input)) example_world)))) \<le> 2"
proof -
  obtain g p where "filter is_provider_write (new_calls example_world (snd (execute example_handler
        (example_task (dump_sync_input example_input)) example_world))) = g @ p" "length g \<le> 1" "length p \<le> 1"
    using writes_are_journaled [OF example_fresh example_world_inv surjective_pairing,
        of "example_task (dump_sync_input example_input)"] by blast
  then show ?thesis by simp
qed

end
