(* ===== verification/Task_Api.thy ===== *)
theory Task_Api
  imports Task_Service Integration_Domain
begin

text \<open>
  The HTTP surface of the tasks: \<open>tasks/api.py\<close> and the request and response models of
  \<open>tasks/schemas.py\<close>. An endpoint is a function from the request and the tables to a response and
  the tables it leaves. FastAPI's part is modelled as it documents it: a body or a header that
  fails validation is answered 422 before the endpoint runs, a registered exception by its
  handler, and any other exception 500; an exception rolls the transaction back.
\<close>

section \<open>Requests\<close>

text \<open>\<open>IdempotencyKey\<close>.\<close>

definition idempotency_key_ok :: "string \<Rightarrow> bool" where
  "idempotency_key_ok s \<longleftrightarrow> 1 \<le> length s \<and> length s \<le> 255 \<and> list_all is_visible s"

record create_request =
  cr_task_type :: string
  cr_input :: jobj

text \<open>\<open>TaskCreateRequest\<close>: no extra field, both required, the input finite at every depth.\<close>

definition validate_create_request :: "json \<Rightarrow> create_request result" where
  "validate_create_request body = (case body of
     JObj kvs \<Rightarrow>
       bindR (guardR (list_all (\<lambda>(k, _). k = ''task_type'' \<or> k = ''input'') kvs) ValidationError) (\<lambda>_.
       (case (obj_get kvs ''task_type'', obj_get kvs ''input'') of
          (Some (JStr ty), Some (JObj inp)) \<Rightarrow>
            bindR (guardR (is_task_type ty) ValidationError) (\<lambda>_.
            (case reject_non_finite_numbers (JObj inp) of
               Inl _ \<Rightarrow> Inl ValidationError
             | Inr _ \<Rightarrow> Inr \<lparr>cr_task_type = ty, cr_input = inp\<rparr>))
        | _ \<Rightarrow> Inl ValidationError))
   | _ \<Rightarrow> Inl ValidationError)"

section \<open>Responses\<close>

record task_response =
  tr_id :: uuid
  tr_task_type :: string
  tr_input :: jobj
  tr_status :: task_status
  tr_attempt_count :: nat
  tr_max_attempts :: nat
  tr_available_at :: "time option"
  tr_cancellation_requested_at :: "time option"
  tr_result :: "jobj option"
  tr_last_error_code :: "string option"
  tr_last_error_summary :: "string option"
  tr_created_at :: time
  tr_updated_at :: time

definition task_response_of :: "task \<Rightarrow> task_response" where
  "task_response_of t = \<lparr>tr_id = t_id t, tr_task_type = t_task_type t, tr_input = t_task_input t,
     tr_status = t_status t, tr_attempt_count = t_attempt_count t, tr_max_attempts = t_max_attempts t,
     tr_available_at = t_available_at t, tr_cancellation_requested_at = t_cancellation_requested_at t,
     tr_result = t_result t, tr_last_error_code = t_last_error_code t,
     tr_last_error_summary = t_last_error_summary t, tr_created_at = t_created_at t,
     tr_updated_at = t_updated_at t\<rparr>"

datatype body = Task_Body task_response | Error_Body string string | Validation_Body | No_Body

record response =
  status_code :: nat
  content :: body

text \<open>The messages of \<open>str(error)\<close> for the exceptions of \<open>tasks/domain.py\<close>.\<close>

fun error_message :: "exn \<Rightarrow> string" where
  "error_message (TaskNotFoundError i) = ''Task '' @ uuid_str i @ '' was not found''"
| "error_message IdempotencyConflictError = ''Idempotency-Key was already used for a different request''"
| "error_message (InvalidTaskTransitionError s c) =
     ''Command '' @ task_command_value c @ '' is not allowed from status '' @ task_status_value s"
| "error_message _ = ''''"

definition error_response :: "nat \<Rightarrow> string \<Rightarrow> string \<Rightarrow> response" where
  "error_response n code message = \<lparr>status_code = n, content = Error_Body code message\<rparr>"

text \<open>The registered exception handlers; an exception without one is a 500.\<close>

fun handle_exception :: "exn \<Rightarrow> response" where
  "handle_exception (TaskNotFoundError i) =
     error_response 404 ''task_not_found'' (error_message (TaskNotFoundError i))"
| "handle_exception IdempotencyConflictError =
     error_response 409 ''idempotency_conflict'' (error_message IdempotencyConflictError)"
| "handle_exception (InvalidTaskTransitionError s c) =
     error_response 409 ''invalid_task_transition'' (error_message (InvalidTaskTransitionError s c))"
| "handle_exception _ = \<lparr>status_code = 500, content = No_Body\<rparr>"

definition validation_failure :: response where
  "validation_failure = \<lparr>status_code = 422, content = Validation_Body\<rparr>"

definition respond :: "db \<Rightarrow> exn + (response \<times> db) \<Rightarrow> response \<times> db" where
  "respond d r = (case r of Inl e \<Rightarrow> (handle_exception e, d) | Inr x \<Rightarrow> x)"

section \<open>Endpoints\<close>

definition api_create_task ::
  "coercions \<Rightarrow> nat \<Rightarrow> uuid \<Rightarrow> time \<Rightarrow> string option \<Rightarrow> json \<Rightarrow> db \<Rightarrow> response \<times> db" where
  "api_create_task co worker_default_max_attempts task_id now key_header request_body d =
     (case (key_header, validate_create_request request_body) of
        (Some key, Inr payload) \<Rightarrow>
          if \<not> idempotency_key_ok key then (validation_failure, d)
          else respond d (
            bindR (normalize_task_input co (cr_task_type payload) (cr_input payload)) (\<lambda>task_input.
            bindR (create_task worker_default_max_attempts task_id now key (cr_task_type payload) task_input d)
              (\<lambda>(result, d'). Inr (\<lparr>status_code = (if created result then 201 else 200),
                 content = Task_Body (task_response_of (created_task result))\<rparr>, d'))))
      | _ \<Rightarrow> (validation_failure, d))"

definition api_get_task :: "uuid \<Rightarrow> db \<Rightarrow> response \<times> db" where
  "api_get_task task_id d = respond d (bindR (get_task task_id d) (\<lambda>t.
     Inr (\<lparr>status_code = 200, content = Task_Body (task_response_of t)\<rparr>, d)))"

definition api_approve_task :: "time \<Rightarrow> uuid \<Rightarrow> db \<Rightarrow> response \<times> db" where
  "api_approve_task now task_id d = respond d (bindR (approve_task now task_id d) (\<lambda>(t, d').
     Inr (\<lparr>status_code = 200, content = Task_Body (task_response_of t)\<rparr>, d')))"

definition api_cancel_task :: "time \<Rightarrow> uuid \<Rightarrow> db \<Rightarrow> response \<times> db" where
  "api_cancel_task now task_id d = respond d (bindR (cancel_task now task_id d) (\<lambda>(t, d').
     Inr (\<lparr>status_code = (if t_status t = RUNNING then 202 else 200),
           content = Task_Body (task_response_of t)\<rparr>, d')))"

section \<open>Lemmas\<close>

text \<open>The task the create endpoint stores or replays, with the checks that precede it.\<close>

definition create_call ::
  "coercions \<Rightarrow> nat \<Rightarrow> uuid \<Rightarrow> time \<Rightarrow> string \<Rightarrow> create_request \<Rightarrow> db \<Rightarrow> exn + (create_task_result \<times> db)" where
  "create_call co m i now key p d =
     bindR (normalize_task_input co (cr_task_type p) (cr_input p)) (\<lambda>task_input.
       create_task m i now key (cr_task_type p) task_input d)"

lemma api_create_task_cases:
  "api_create_task co m i now hdr body d =
     (case (hdr, validate_create_request body) of
        (Some key, Inr p) \<Rightarrow>
          if \<not> idempotency_key_ok key then (validation_failure, d)
          else (case create_call co m i now key p d of
             Inl e \<Rightarrow> (handle_exception e, d)
           | Inr (r, d') \<Rightarrow> (\<lparr>status_code = (if created r then 201 else 200),
               content = Task_Body (task_response_of (created_task r))\<rparr>, d'))
      | _ \<Rightarrow> (validation_failure, d))"
  by (auto simp: api_create_task_def create_call_def respond_def bindR_def split: option.splits sum.splits prod.splits)

lemma validate_create_request_Inr:
  assumes "validate_create_request body = Inr p"
  shows "is_task_type (cr_task_type p)" and "\<not> contains_non_finite (JObj (cr_input p))"
proof -
  have "\<not> contains_non_finite (JObj inp)" if "reject_non_finite_numbers (JObj inp) = Inr u" for inp u
    using that reject_iff_contains(1) [of "JObj inp"] by (metis Inl_Inr_False)
  then show "is_task_type (cr_task_type p)" "\<not> contains_non_finite (JObj (cr_input p))"
    using assms
    by (auto simp: validate_create_request_def result_simps
        simp del: contains_non_finite.simps reject_non_finite_numbers.simps
        split: json.splits option.splits sum.splits)
qed

lemma normalized_finite:
  assumes "normalize_task_input co ty inp = Inr j" and "\<not> contains_non_finite (JObj inp)"
  shows "\<not> contains_non_finite (JObj j)"
  using assms dump_finite by (auto simp: normalize_task_input_def result_simps split: if_splits)

lemma create_task_errors:
  assumes "create_task m i now key ty inp d = Inl e" and "\<not> contains_non_finite (JObj inp)"
  shows "if jsonb_ok (JObj inp) then e = IdempotencyConflictError \<and> key \<in> t_idempotency_key ` set (tasks d)
    else e = data_error"
  using assms
  by (cases "jsonb_ok (JObj inp)") (auto simp: create_task_def task_request_fingerprint_def json_bytes_def
      insert_if_absent_def get_by_idempotency_key_def Let_def find_None_iff simp del: jsonb_ok.simps
      split: option.splits if_splits)

lemma create_call_errors:
  assumes "create_call co m i now key p d = Inl e" and "\<not> contains_non_finite (JObj (cr_input p))"
  shows "(e = ValidationError \<and> cr_task_type p = ''deployment_context_sync'' \<and>
      validate_sync_input co (cr_input p) = Inl ValidationError) \<or>
    (\<exists>j. normalize_task_input co (cr_task_type p) (cr_input p) = Inr j \<and>
       (if jsonb_ok (JObj j) then e = IdempotencyConflictError \<and> key \<in> t_idempotency_key ` set (tasks d)
        else e = data_error))"
proof (cases "normalize_task_input co (cr_task_type p) (cr_input p)")
  case (Inl e')
  with assms(1) show ?thesis
    by (auto simp: create_call_def normalize_task_input_def result_simps dest: validate_sync_input_error split: if_splits)
next
  case (Inr j)
  with assms normalized_finite [OF Inr assms(2)] show ?thesis
    using create_task_errors [of m i now key "cr_task_type p" j d e]
    by (simp add: create_call_def del: jsonb_ok.simps contains_non_finite.simps)
qed

lemma create_call_Inr:
  assumes run: "create_call co m i now key p d = Inr (r, d')" and ok: "task_tables_ok d"
    and fresh: "i \<notin> t_id ` set (tasks d)" and m: "1 \<le> m"
    and key: "idempotency_key_ok key" and ty: "is_task_type (cr_task_type p)"
  shows "task_tables_ok d'"
    and "d' = (if created r then d\<lparr>tasks := tasks d @ [created_task r]\<rparr> else d)"
    and "created r \<Longrightarrow> t_status (created_task r) = PENDING_APPROVAL \<and> t_id (created_task r) = i"
    and "t_idempotency_key (created_task r) = key"
    and "created_task r \<in> set (tasks d')"
    and "create_call co m2 i2 now2 key p d' = Inr (\<lparr>created_task = created_task r, created = False\<rparr>, d')"
proof -
  obtain j where j: "normalize_task_input co (cr_task_type p) (cr_input p) = Inr j"
    and run': "create_task m i now key (cr_task_type p) j d = Inr (r, d')"
    using run by (auto simp: create_call_def result_simps)
  have "length key \<in> {1..255}" using key by (simp add: idempotency_key_ok_def)
  with create_task_ok [OF run' ok fresh m _ ty] show "task_tables_ok d'" by blast
  note stored = create_task_stored [OF run']
  then show "t_idempotency_key (created_task r) = key" "created_task r \<in> set (tasks d')"
    unfolding get_by_idempotency_key_def by (auto dest: find_in_set)
  show "d' = (if created r then d\<lparr>tasks := tasks d @ [created_task r]\<rparr> else d)"
    "created r \<Longrightarrow> t_status (created_task r) = PENDING_APPROVAL \<and> t_id (created_task r) = i"
    using run' by (auto elim!: create_task_cases)
  have "create_task m2 i2 now2 key (cr_task_type p) j d' = Inr (\<lparr>created_task = created_task r, created = False\<rparr>, d')"
    unfolding create_task_again [OF stored create_task_storable [OF run']] using run' by (auto elim!: create_task_cases)
  then show "create_call co m2 i2 now2 key p d' = Inr (\<lparr>created_task = created_task r, created = False\<rparr>, d')"
    by (simp add: create_call_def j)
qed

lemma api_get_task_eq:
  "api_get_task i d = (case find_task d i of
     None \<Rightarrow> (handle_exception (TaskNotFoundError i), d)
   | Some t \<Rightarrow> (\<lparr>status_code = 200, content = Task_Body (task_response_of t)\<rparr>, d))"
  by (simp add: api_get_task_def get_task_def get_by_id_def respond_def split: option.splits)

section \<open>Properties\<close>

text \<open>
  C37. The create endpoint, on every branch. A missing or malformed key and a malformed body are
  422; a 201 writes exactly one pending row and returns it; a 200, a 409, a 422 and a 500 write
  nothing; the constraints hold in every case; and once a request was answered 201 or 200,
  repeating it is answered 200 with the same body and writes nothing. A well-formed request is
  answered 500 exactly when a deployment request's input fails its model, for the validation
  happens inside the endpoint where no handler is registered for it, or when the input has a NUL
  in a string or a key, which the schema lets through and PostgreSQL refuses as JSONB.
\<close>

theorem api_create_task_spec:
  assumes "task_tables_ok d" and "i \<notin> t_id ` set (tasks d)" and "1 \<le> m"
    and "api_create_task co m i now hdr body d = (r, d')"
  shows "task_tables_ok d' \<and> status_code r \<in> {200, 201, 409, 422, 500} \<and>
    (status_code r = 201 \<longrightarrow> (\<exists>key t. hdr = Some key \<and> d' = d\<lparr>tasks := tasks d @ [t]\<rparr> \<and>
       t_idempotency_key t = key \<and> t_status t = PENDING_APPROVAL \<and> content r = Task_Body (task_response_of t))) \<and>
    (status_code r \<noteq> 201 \<longrightarrow> d' = d) \<and>
    (status_code r \<in> {200, 201} \<longrightarrow>
       api_create_task co m2 i2 now2 hdr body d' = (\<lparr>status_code = 200, content = content r\<rparr>, d')) \<and>
    (status_code r = 422 \<longleftrightarrow>
       \<not> (\<exists>key p. hdr = Some key \<and> idempotency_key_ok key \<and> validate_create_request body = Inr p)) \<and>
    (status_code r = 500 \<longleftrightarrow> (\<exists>key p. hdr = Some key \<and> idempotency_key_ok key \<and>
       validate_create_request body = Inr p \<and>
       (cr_task_type p = ''deployment_context_sync'' \<and> validate_sync_input co (cr_input p) = Inl ValidationError \<or>
        (\<exists>j. normalize_task_input co (cr_task_type p) (cr_input p) = Inr j \<and> \<not> jsonb_ok (JObj j)))))"
proof (cases "\<exists>key p. hdr = Some key \<and> idempotency_key_ok key \<and> validate_create_request body = Inr p")
  case False
  then have "(r, d') = (validation_failure, d)"
    using assms(4) by (auto simp: api_create_task_cases split: option.splits sum.splits if_splits)
  with False assms(1) show ?thesis by (auto simp: validation_failure_def)
next
  case True
  then obtain key p where req: "hdr = Some key" "idempotency_key_ok key" "validate_create_request body = Inr p" by blast
  note p = validate_create_request_Inr [OF req(3)]
  show ?thesis
  proof (cases "create_call co m i now key p d")
    case (Inl e)
    then have res: "r = handle_exception e" "d' = d" using assms(4) req by (auto simp: api_create_task_cases)
    from create_call_errors [OF Inl p(2)] show ?thesis
      using res req assms(1)
      by (auto simp: error_response_def normalize_task_input_def result_simps data_error_def
          simp del: jsonb_ok.simps split: if_splits)
  next
    case (Inr x)
    obtain c d2 where x: "x = (c, d2)" by (cases x)
    note ci = create_call_Inr [OF Inr [unfolded x] assms(1,2,3) req(2) p(1)]
    have res: "r = \<lparr>status_code = (if created c then 201 else 200), content = Task_Body (task_response_of (created_task c))\<rparr>"
      "d' = d2" using assms(4) req Inr x by (auto simp: api_create_task_cases)
    have valid: "\<not> (cr_task_type p = ''deployment_context_sync'' \<and> validate_sync_input co (cr_input p) = Inl ValidationError)"
      using Inr x by (auto simp: create_call_def normalize_task_input_def)
    have stored: "jsonb_ok (JObj j)" if "normalize_task_input co (cr_task_type p) (cr_input p) = Inr j" for j
      using Inr x that by (auto simp: create_call_def simp del: jsonb_ok.simps dest: create_task_storable)
    show ?thesis
      using ci(1-4) ci(6) [of m2 i2 now2] res req valid stored
      by (auto simp: api_create_task_cases simp del: jsonb_ok.simps)
  qed
qed

lemma api_create_task_spec_witness:
  "status_code (fst (api_create_task json_coercions 3 1 0 (Some ''k'')
     (JObj [(''task_type'', JStr ''deployment_context_sync''), (''input'', JObj [])]) empty_db)) = 500 \<and>
   status_code (fst (api_create_task json_coercions 3 1 0 (Some ''k'')
     (JObj [(''task_type'', JStr ''t''), (''input'', JObj [(''a'', JStr [CHR 0x00])])]) empty_db)) = 500"
proof -
  let ?body = "JObj [(''task_type'', JStr ''deployment_context_sync''), (''input'', JObj [])]"
  let ?nul = "JObj [(''task_type'', JStr ''t''), (''input'', JObj [(''a'', JStr [CHR 0x00])])]"
  obtain r d' where run: "api_create_task json_coercions 3 1 0 (Some ''k'') ?body empty_db = (r, d')" by (metis surj_pair)
  obtain q e' where nul: "api_create_task json_coercions 3 1 0 (Some ''k'') ?nul empty_db = (q, e')" by (metis surj_pair)
  have "is_task_type ''deployment_context_sync''" "is_task_type ''t''"
    by (simp_all add: is_task_type_def is_lower_def is_digit_def less_eq_char_def)
  then have v: "validate_create_request ?body = Inr \<lparr>cr_task_type = ''deployment_context_sync'', cr_input = []\<rparr>"
    "validate_create_request ?nul = Inr \<lparr>cr_task_type = ''t'', cr_input = [(''a'', JStr [CHR 0x00])]\<rparr>"
    by (simp_all add: validate_create_request_def obj_get_def)
  have k: "idempotency_key_ok ''k''" by (simp add: idempotency_key_ok_def is_visible_def)
  have bad: "validate_sync_input json_coercions [] = Inl ValidationError"
    by (simp add: validate_sync_input_def required_field_def obj_get_def)
  have plain: "normalize_task_input json_coercions ''t'' [(''a'', JStr [CHR 0x00])] = Inr [(''a'', JStr [CHR 0x00])]"
    by (simp add: normalize_task_input_def)
  have ok: "task_tables_ok empty_db" using empty_db_ok by (simp only: tables_ok_def)
  from api_create_task_spec [OF ok _ _ run] v(1) k bad have "status_code r = 500" by (simp add: empty_db_def)
  moreover from api_create_task_spec [OF ok _ _ nul] v(2) k plain have "status_code q = 500" by (simp add: empty_db_def)
  ultimately show ?thesis unfolding run nul by simp
qed

text \<open>
  C38. The command endpoints answer every task identifier: 404 exactly for an unknown task, 409 exactly
  for a status that refuses the command, 202 exactly for a cancellation that a running task still
  has to honour, otherwise 200. An error writes nothing, and after a success a read of the task
  returns the body that was answered.
\<close>

theorem api_commands_spec:
  assumes "task_tables_ok d"
  shows "(case api_approve_task now i d of (r, d') \<Rightarrow>
      status_code r = (case find_task d i of None \<Rightarrow> 404
        | Some t \<Rightarrow> if t_status t \<in> {PENDING_APPROVAL, APPROVED} then 200 else 409) \<and>
      (status_code r \<noteq> 200 \<longrightarrow> d' = d) \<and>
      (status_code r = 200 \<longrightarrow> api_get_task i d' = (r, d'))) \<and>
    (case api_cancel_task now i d of (r, d') \<Rightarrow>
      status_code r = (case find_task d i of None \<Rightarrow> 404
        | Some t \<Rightarrow> if t_status t = RUNNING then 202 else if t_status t \<in> {SUCCEEDED, FAILED} then 409 else 200) \<and>
      (status_code r \<notin> {200, 202} \<longrightarrow> d' = d) \<and>
      (status_code r \<in> {200, 202} \<longrightarrow> api_get_task i d' = (\<lparr>status_code = 200, content = content r\<rparr>, d')))"
proof (cases "find_task d i")
  case None
  then show ?thesis
    by (simp add: api_approve_task_def api_cancel_task_def approve_task_eq cancel_task_eq [OF assms]
        respond_def error_response_def)
next
  case (Some t)
  then have i: "t_id t = i" by (auto dest: find_task_Some)
  have rows: "find_task (flush_task (approved_row now t) d) i = Some (approved_row now t)"
    "find_task (flush_task (cancelled_row now t) d) i = Some (cancelled_row now t)"
    using Some i by (simp_all add: flush_task_find approved_row_def cancelled_row_def)
  have chk: "task_checks t" using Some assms by (auto dest: find_task_Some task_tables_okD(3))
  then have run: "t_status t \<notin> {RUNNING, CANCELLED} \<Longrightarrow> t_cancellation_requested_at t = None"
    by (auto simp: task_checks_def)
  show ?thesis
    using Some rows run unfolding api_approve_task_def api_cancel_task_def approve_task_eq cancel_task_eq [OF assms] api_get_task_eq
    by (cases "t_status t") (auto simp: respond_def error_response_def cancelled_row_def)
qed

lemma api_commands_spec_witness:
  "status_code (fst (api_cancel_task 40 11 running_db)) = 202 \<and> status_code (fst (api_approve_task 40 12 running_db)) = 404"
  using api_commands_spec [OF running_db_ok, where now = 40 and i = 11]
    api_commands_spec [OF running_db_ok, where now = 40 and i = 12]
  by (auto simp: running_task_def pending_task_def split: prod.splits)

end
