(* ===== verification/Observability.thy ===== *)
theory Observability
  imports Json_Model Urls
begin

text \<open>
  \<open>observability.py\<close>: request identifiers, the JSON log line with its field allowlist, the
  sanitized validation errors and the ASGI middleware. An application is what it does to a
  request: the messages it sends and the exception it ends with, if any; a log record is its
  standard parts and the attributes its \<open>extra\<close> dictionary added.
\<close>

section \<open>Request identifiers\<close>

text \<open>\<open>^[A-Za-z0-9][A-Za-z0-9._:-]{0,127}$\<close>.\<close>

definition request_id_char :: "char \<Rightarrow> bool" where
  "request_id_char c \<longleftrightarrow> is_alpha c \<or> is_digit c \<or> c = CHR ''.'' \<or> c = CHR ''_'' \<or> c = CHR '':'' \<or> c = CHR ''-''"

definition request_id_pattern :: "string \<Rightarrow> bool" where
  "request_id_pattern s = (case s of [] \<Rightarrow> False | c # cs \<Rightarrow>
     (is_alpha c \<or> is_digit c) \<and> length cs \<le> 127 \<and> list_all request_id_char cs)"

definition normalize_request_id :: "uuid \<Rightarrow> string option \<Rightarrow> string" where
  "normalize_request_id fresh candidate = (case candidate of
     Some c \<Rightarrow> if request_id_pattern c then c else uuid_hex fresh
   | None \<Rightarrow> uuid_hex fresh)"

section \<open>Log lines\<close>

definition extra_fields :: "string list" where
  "extra_fields = [''action_id'', ''action_status'', ''attempt_id'', ''attempt_number'', ''artifact_id'',
     ''decision_reason_code'', ''duration_ms'', ''environment'', ''event'', ''error_code'', ''exception_type'',
     ''http_method'', ''http_path'', ''idempotency_key_hash'', ''metric_kind'', ''metric_labels'', ''metric_name'',
     ''metric_value'', ''new_status'', ''next_attempt_at'', ''next_attempt_delay_seconds'', ''previous_status'',
     ''provider'', ''provider_resource_id'', ''resource_type'', ''revision'', ''status_code'', ''task_id'',
     ''task_type'', ''terminal_reason'', ''worker_id_hash'']"

record log_record =
  lr_timestamp :: string
  lr_level :: string
  lr_logger :: string
  lr_message :: string
  lr_attributes :: "(string \<times> json) list"

definition log_payload :: "string \<Rightarrow> string option \<Rightarrow> log_record \<Rightarrow> (string \<times> json) list" where
  "log_payload service request_id r =
     [(''timestamp'', JStr (lr_timestamp r)), (''level'', JStr (lr_level r)), (''logger'', JStr (lr_logger r)),
      (''message'', JStr (lr_message r)), (''service'', JStr service),
      (''request_id'', case request_id of None \<Rightarrow> JNull | Some i \<Rightarrow> JStr i)] @
     List.map_filter (\<lambda>f. map_option (Pair f) (map_of (lr_attributes r) f)) extra_fields"

text \<open>\<open>json.dumps\<close> without \<open>sort_keys\<close> at the top level.\<close>

definition format_record :: "string \<Rightarrow> string option \<Rightarrow> log_record \<Rightarrow> string" where
  "format_record service request_id r =
     ''{'' @ join '','' (map (\<lambda>kv. dump_string (fst kv) @ '':'' @ dumps (snd kv)) (log_payload service request_id r)) @ ''}''"

section \<open>Validation errors\<close>

text \<open>
  An item of pydantic's error list. The handler drops its input; the location and the message are
  pydantic's and pass unchanged, and they are not free of what was submitted: the location of an
  unexpected field is its submitted name, and a message can quote submitted characters.
\<close>

record validation_item =
  vi_type :: string
  vi_loc :: "json list"
  vi_msg :: string
  vi_input :: json

definition sanitized_validation_detail :: "validation_item list \<Rightarrow> nat \<times> json" where
  "sanitized_validation_detail errors =
     (422, JObj [(''detail'', JArr (map (\<lambda>e. JObj [(''type'', JStr (vi_type e)), (''loc'', JArr (vi_loc e)),
        (''msg'', JStr (vi_msg e))]) errors))])"

section \<open>Middleware\<close>

datatype message = Response_Start int "(string \<times> string) list" | Response_Body string

type_synonym app_run = "message list \<times> exn option"

definition request_id_header :: string where
  "request_id_header = ''x-request-id''"

text \<open>\<open>MutableHeaders[name] = value\<close>: the first entry is replaced, duplicates go, else appended.\<close>

fun set_header :: "string \<Rightarrow> string \<Rightarrow> (string \<times> string) list \<Rightarrow> (string \<times> string) list" where
  "set_header name v [] = [(name, v)]"
| "set_header name v ((k, w) # hs) =
     (if k = name then (name, v) # filter (\<lambda>h. fst h \<noteq> name) hs else (k, w) # set_header name v hs)"

fun send_with_request_id :: "string \<Rightarrow> message \<Rightarrow> message" where
  "send_with_request_id request_id (Response_Start status hs) =
     Response_Start status (set_header request_id_header request_id hs)"
| "send_with_request_id _ (Response_Body b) = Response_Body b"

definition final_status :: "message list \<Rightarrow> int" where
  "final_status ms = fold (\<lambda>m s. case m of Response_Start st _ \<Rightarrow> st | Response_Body _ \<Rightarrow> s) ms 500"

datatype log_event = Request_Failed string string | Request_Completed string string int

text \<open>
  The middleware: what is sent, the events logged, and what is raised. The application sees the
  request identifier of the context variable; \<open>except Exception\<close> does not see a cancellation.
\<close>

definition request_context_middleware ::
  "string \<Rightarrow> uuid \<Rightarrow> string option \<Rightarrow> string \<Rightarrow> string \<Rightarrow> (string option \<Rightarrow> app_run) \<Rightarrow> message list \<times> log_event list \<times> exn option" where
  "request_context_middleware scope_type fresh header http_method http_path app =
     (if scope_type \<noteq> ''http'' then (case app None of (messages, raised) \<Rightarrow> (messages, [], raised)) else
      let request_id = normalize_request_id fresh header;
          (messages, raised) = app (Some request_id)
      in (map (send_with_request_id request_id) messages,
          (if raised = None \<or> raised = Some AsyncCancelledError then [] else [Request_Failed http_method http_path]) @
          [Request_Completed http_method http_path (final_status messages)],
          raised))"

section \<open>Lemmas\<close>

lemma hex_digit_char: "n < 16 \<Longrightarrow> is_digit (hex_digit n) \<or> is_lower (hex_digit n)"
proof -
  assume "n < 16"
  then have "n \<in> set [0..<16]" by simp
  moreover have "list_all (\<lambda>n. is_digit (hex_digit n) \<or> is_lower (hex_digit n)) [0..<16]" by code_simp
  ultimately show ?thesis by (simp only: list_all_iff)
qed

lemma uuid_hex_pattern: "request_id_pattern (uuid_hex n)"
proof -
  have len: "length (uuid_hex n) = 32" by (simp add: uuid_hex_def)
  have chars: "is_digit c \<or> is_lower c" if "c \<in> set (uuid_hex n)" for c
  proof -
    from that obtain k where "c = hex_digit (n div 16 ^ k mod 16)" by (auto simp: uuid_hex_def)
    then show ?thesis using hex_digit_char [of "n div 16 ^ k mod 16"] by simp
  qed
  obtain c cs where u: "uuid_hex n = c # cs" using len by (cases "uuid_hex n") auto
  with chars have "is_digit c \<or> is_lower c" "\<forall>d \<in> set cs. is_digit d \<or> is_lower d" by auto
  with len u show ?thesis
    by (auto simp: request_id_pattern_def request_id_char_def is_alpha_def list_all_iff)
qed

lemma normalize_request_id_pattern: "request_id_pattern (normalize_request_id fresh candidate)"
  by (auto simp: normalize_request_id_def uuid_hex_pattern split: option.splits)

lemma set_header_once: "filter (\<lambda>h. fst h = name) (set_header name v hs) = [(name, v)]"
  by (induction name v hs rule: set_header.induct) (auto simp: filter_empty_conv)

lemma set_header_others: "filter (\<lambda>h. fst h \<noteq> name) (set_header name v hs) = filter (\<lambda>h. fst h \<noteq> name) hs"
  by (induction name v hs rule: set_header.induct) auto

lemma payload_keys:
  "set (map fst (log_payload service i r)) \<subseteq>
     {''timestamp'', ''level'', ''logger'', ''message'', ''service'', ''request_id''} \<union> set extra_fields"
  by (auto simp: log_payload_def map_filter_def)

lemma payload_agree:
  assumes "\<forall>f \<in> set extra_fields. map_of (lr_attributes r) f = map_of (lr_attributes r') f"
    and "lr_timestamp r = lr_timestamp r'" "lr_level r = lr_level r'" "lr_logger r = lr_logger r'"
    "lr_message r = lr_message r'"
  shows "log_payload service i r = log_payload service i r'"
proof -
  have "List.map_filter (\<lambda>f. map_option (Pair f) (map_of (lr_attributes r) f)) fs =
      List.map_filter (\<lambda>f. map_option (Pair f) (map_of (lr_attributes r') f)) fs" if "set fs \<subseteq> set extra_fields" for fs
    using that
  proof (induction fs)
    case (Cons f fs)
    then have "map_of (lr_attributes r) f = map_of (lr_attributes r') f" using assms(1) by simp
    with Cons show ?case by (simp add: map_filter_simps split: option.splits)
  qed (simp add: map_filter_simps)
  with assms(2-) show ?thesis by (simp add: log_payload_def)
qed

section \<open>Properties\<close>

text \<open>
  Every response is correlated. For whatever the application does, each response start
  carries exactly one request-id header, whose value is the client's identifier when that is
  safe and is always a safe token; status, body messages and all other headers pass unchanged;
  exactly one completion event is logged, with the last status sent or 500, and an exception is
  logged and raised again.
\<close>

theorem middleware_correlates:
  assumes "request_context_middleware ''http'' fresh header m p app = (sent, events, raised)"
  shows "\<exists>i. request_id_pattern i \<and> (\<forall>h. header = Some h \<and> request_id_pattern h \<longrightarrow> i = h) \<and>
    raised = snd (app (Some i)) \<and> length sent = length (fst (app (Some i))) \<and>
    (\<forall>(x, y) \<in> set (zip (fst (app (Some i))) sent). case x of
       Response_Body b \<Rightarrow> y = Response_Body b
     | Response_Start st hs \<Rightarrow> (\<exists>hs'. y = Response_Start st hs' \<and>
         filter (\<lambda>h. fst h = request_id_header) hs' = [(request_id_header, i)] \<and>
         filter (\<lambda>h. fst h \<noteq> request_id_header) hs' = filter (\<lambda>h. fst h \<noteq> request_id_header) hs)) \<and>
    filter (\<lambda>e. \<exists>s. e = Request_Completed m p s) events = [Request_Completed m p (final_status sent)] \<and>
    (raised \<noteq> None \<and> raised \<noteq> Some AsyncCancelledError \<longleftrightarrow> Request_Failed m p \<in> set events)"
proof -
  define i where "i = normalize_request_id fresh header"
  obtain ms ex where app: "app (Some i) = (ms, ex)" by (metis surj_pair)
  have "(sent, events, raised) = (map (send_with_request_id i) ms,
      (if ex = None \<or> ex = Some AsyncCancelledError then [] else [Request_Failed m p]) @
      [Request_Completed m p (final_status ms)], ex)"
    unfolding assms [symmetric] request_context_middleware_def i_def [symmetric] Let_def app by simp
  then have run: "sent = map (send_with_request_id i) ms" "raised = ex"
    "events = (if ex = None \<or> ex = Some AsyncCancelledError then [] else [Request_Failed m p]) @
      [Request_Completed m p (final_status ms)]"
    by (simp_all only: prod.inject)
  have fold: "fold (\<lambda>m s. case m of Response_Start st _ \<Rightarrow> st | Response_Body _ \<Rightarrow> s) (map (send_with_request_id i) xs) s =
      fold (\<lambda>m s. case m of Response_Start st _ \<Rightarrow> st | Response_Body _ \<Rightarrow> s) xs s" for xs s
  proof (induction xs arbitrary: s)
    case (Cons x xs)
    then show ?case by (cases x) auto
  qed simp
  have each: "\<forall>(x, y) \<in> set (zip ms sent). case x of
       Response_Body b \<Rightarrow> y = Response_Body b
     | Response_Start st hs \<Rightarrow> (\<exists>hs'. y = Response_Start st hs' \<and>
         filter (\<lambda>h. fst h = request_id_header) hs' = [(request_id_header, i)] \<and>
         filter (\<lambda>h. fst h \<noteq> request_id_header) hs' = filter (\<lambda>h. fst h \<noteq> request_id_header) hs)"
  proof (intro ballI, unfold case_prod_beta)
    fix z
    assume "z \<in> set (zip ms sent)"
    then have "snd z = send_with_request_id i (fst z)" unfolding run by (auto simp: set_zip)
    then show "case fst z of
       Response_Body b \<Rightarrow> snd z = Response_Body b
     | Response_Start st hs \<Rightarrow> (\<exists>hs'. snd z = Response_Start st hs' \<and>
         filter (\<lambda>h. fst h = request_id_header) hs' = [(request_id_header, i)] \<and>
         filter (\<lambda>h. fst h \<noteq> request_id_header) hs' = filter (\<lambda>h. fst h \<noteq> request_id_header) hs)"
      by (cases "fst z") (simp_all add: set_header_once set_header_others)
  qed
  have "\<forall>h. header = Some h \<and> request_id_pattern h \<longrightarrow> i = h"
    by (auto simp: i_def normalize_request_id_def split: option.splits)
  moreover have "request_id_pattern i" unfolding i_def by (rule normalize_request_id_pattern)
  moreover have "final_status sent = final_status ms" unfolding run final_status_def fold ..
  moreover have "filter (\<lambda>e. \<exists>s. e = Request_Completed m p s) events = [Request_Completed m p (final_status ms)]"
    "raised \<noteq> None \<and> raised \<noteq> Some AsyncCancelledError \<longleftrightarrow> Request_Failed m p \<in> set events"
    unfolding run(2,3) by (cases "ex = None \<or> ex = Some AsyncCancelledError"; force)+
  moreover have "raised = snd (app (Some i))" "length sent = length (fst (app (Some i)))" "fst (app (Some i)) = ms"
    using run(1,2) app by simp_all
  ultimately show ?thesis using each by (intro exI [of _ i]) simp
qed

lemma middleware_correlates_witness:
  "fst (request_context_middleware ''http'' 5 (Some ''req-1'') ''GET'' ''/tasks''
      (\<lambda>_. ([Response_Start 200 [(''x-request-id'', ''old''), (''a'', ''b'')], Response_Body ''ok''], None))) =
    [Response_Start 200 [(''x-request-id'', ''req-1''), (''a'', ''b'')], Response_Body ''ok'']"
proof -
  let ?app = "(\<lambda>_. ([Response_Start 200 [(''x-request-id'', ''old''), (''a'', ''b'')], Response_Body ''ok''], None)) :: string option \<Rightarrow> app_run"
  have ok: "request_id_pattern ''req-1''" 
    by (simp add: request_id_pattern_def request_id_char_def is_alpha_def is_lower_def is_digit_def less_eq_char_def)
  obtain sent events raised where run: "request_context_middleware ''http'' 5 (Some ''req-1'') ''GET'' ''/tasks'' ?app = (sent, events, raised)"
    by (metis surj_pair)
  from middleware_correlates [OF run] have "raised = None" by auto
  then show ?thesis
    using ok by (simp add: request_context_middleware_def normalize_request_id_def request_id_header_def)
qed

text \<open>
  The keys of a log line are the standard ones and the allowlisted attributes, every allowlisted
  attribute of the record is shown, and an attribute outside the allowlist has no influence on
  the line.
\<close>

theorem logs_are_allowlisted:
  "set (map fst (log_payload service i r)) \<subseteq>
      {''timestamp'', ''level'', ''logger'', ''message'', ''service'', ''request_id''} \<union> set extra_fields \<and>
   (k \<in> set extra_fields \<or>
      format_record service i (r\<lparr>lr_attributes := (k, v) # lr_attributes r\<rparr>) = format_record service i r) \<and>
   (\<forall>f \<in> set extra_fields. \<forall>v. map_of (lr_attributes r) f = Some v \<longrightarrow> (f, v) \<in> set (log_payload service i r))"
proof -
  have "format_record service i (r\<lparr>lr_attributes := (k, v) # lr_attributes r\<rparr>) = format_record service i r"
    if "k \<notin> set extra_fields"
    using that payload_agree [of "r\<lparr>lr_attributes := (k, v) # lr_attributes r\<rparr>" r service i]
    by (auto simp: format_record_def)
  moreover have "(f, v) \<in> set (log_payload service i r)"
    if "f \<in> set extra_fields" "map_of (lr_attributes r) f = Some v" for f v
    using that by (force simp: log_payload_def map_filter_def)
  ultimately show ?thesis using payload_keys [of service i r] by blast
qed

lemma logs_are_allowlisted_witness:
  "(''task_id'', JStr ''t'') \<in> set (log_payload ''svc'' None \<lparr>lr_timestamp = ''now'', lr_level = ''INFO'',
     lr_logger = ''l'', lr_message = ''m'', lr_attributes = [(''secret'', JNull), (''task_id'', JStr ''t'')]\<rparr>)"
proof -
  let ?r = "\<lparr>lr_timestamp = ''now'', lr_level = ''INFO'', lr_logger = ''l'', lr_message = ''m'',
     lr_attributes = [(''secret'', JNull), (''task_id'', JStr ''t'')]\<rparr>"
  have "''task_id'' \<in> set extra_fields" by (simp add: extra_fields_def)
  moreover have "map_of (lr_attributes ?r) ''task_id'' = Some (JStr ''t'')" by simp
  ultimately show ?thesis
    using logs_are_allowlisted [where r = ?r and service = "''svc''" and i = None] by blast
qed

end
