(* ===== verification/Http_Client.thy ===== *)
theory Http_Client
  imports Config Metrics
begin

text \<open>
  \<open>integrations/http.py\<close>: the bounded HTTP boundary every provider client goes through. The
  transport (httpx2 and the network) is an environment: what it answers to a request is a function
  of all requests handed to it so far, the last one being the current one, so that any stateful
  server is such a function. An answer is a fault before the response, or a response with its
  chunks, which may break off. \<open>json.loads\<close> is a parameter, since a document may hold code points
  and floats outside this model. Log records are the metric records of the structured sink.
\<close>

section \<open>URLs of requests\<close>

text \<open>\<open>s.lstrip("/")\<close> and \<open>s.rstrip("/")\<close>.\<close>

definition strip_left :: "string \<Rightarrow> string" where
  "strip_left s = dropWhile (\<lambda>c. c = CHR ''/'') s"

definition strip_right :: "string \<Rightarrow> string" where
  "strip_right s = rev (strip_left (rev s))"

text \<open>
  \<open>urllib.parse.quote(s, safe="")\<close>: every byte of the UTF-8 text that is not a letter, a digit
  or one of \<open>_.-~\<close> becomes an escape.
\<close>

definition always_safe :: "char \<Rightarrow> bool" where
  "always_safe c \<longleftrightarrow> is_alpha c \<or> is_digit c \<or> c \<in> {CHR ''_'', CHR ''.'', CHR ''-'', CHR ''~''}"

definition upper_hex :: "nat \<Rightarrow> char" where
  "upper_hex n = (if n < 10 then char_of (48 + n) else char_of (55 + n))"

definition quote_byte :: "char \<Rightarrow> string" where
  "quote_byte c = (if always_safe c then [c]
     else let n = (of_char c :: nat) in [CHR ''%'', upper_hex (n div 16), upper_hex (n mod 16)])"

definition url_quote :: "string \<Rightarrow> string" where
  "url_quote s = concat (map quote_byte (encode s))"

text \<open>
  \<open>urljoin\<close> against an absolute HTTP(S) base with a host, which the settings demand of every base
  URL. A reference with another scheme is taken as it is; one with parameters keeps them on its
  last segment, as \<open>urlparse\<close> splits them.
\<close>

text \<open>\<open>_splitparams\<close> looks for \<open>;\<close> after the last slash.\<close>

definition split_params :: "string \<Rightarrow> string \<times> string option" where
  "split_params path = (case rpartition_at (CHR ''/'') path of
     (None, segment) \<Rightarrow> partition_at (CHR '';'') segment
   | (Some front, segment) \<Rightarrow>
       (case partition_at (CHR '';'') segment of (name, params) \<Rightarrow> (front @ CHR ''/'' # name, params)))"

definition with_params :: "string \<Rightarrow> string option \<Rightarrow> string" where
  "with_params path params = (case params of
     None \<Rightarrow> path | Some p \<Rightarrow> if p = [] then path else path @ CHR '';'' # p)"

text \<open>The loop over the segments: \<open>..\<close> removes the segment before it, if there is one.\<close>

definition resolve_segment :: "string list \<Rightarrow> string \<Rightarrow> string list" where
  "resolve_segment resolved seg =
     (if seg = ''..'' then butlast resolved else if seg = ''.'' then resolved else resolved @ [seg])"

definition resolve_segments :: "string list \<Rightarrow> string list" where
  "resolve_segments segments =
     (let resolved = foldl resolve_segment [] segments
      in if last segments = ''.'' \<or> last segments = ''..'' then resolved @ [[]] else resolved)"

text \<open>\<open>segments[1:-1] = filter(None, segments[1:-1])\<close>.\<close>

definition drop_empty_inner :: "string list \<Rightarrow> string list" where
  "drop_empty_inner segments =
     take 1 segments @ filter (\<lambda>s. s \<noteq> []) (butlast (drop 1 segments)) @
     (if length segments \<le> 1 then [] else [last segments])"

definition join_path :: "string \<Rightarrow> string \<Rightarrow> string" where
  "join_path base_path path =
     (let base_parts = split_on (CHR ''/'') base_path;
          kept = (if last base_parts = [] then base_parts else butlast base_parts);
          segments = (if take 1 path = ''/'' then split_on (CHR ''/'') path
                      else drop_empty_inner (kept @ split_on (CHR ''/'') path));
          joined = join ''/'' (resolve_segments segments)
      in if joined = [] then ''/'' else joined)"

definition urljoin :: "string \<Rightarrow> string \<Rightarrow> string result" where
  "urljoin base reference =
     (if reference = [] then Inr base
      else bindR (urlsplit base) (\<lambda>b. bindR (urlsplit reference) (\<lambda>r.
        if u_scheme r \<noteq> [] \<and> u_scheme r \<noteq> u_scheme b then Inr reference
        else if u_netloc r \<noteq> []
          then Inr (urlunsplit (u_scheme b) (u_netloc r) (u_path r) (u_query r) (u_fragment r))
        else case split_params (u_path r) of (path, params) \<Rightarrow>
          if path = [] \<and> with_params [] params = []
          then Inr (urlunsplit (u_scheme b) (u_netloc b) (u_path b)
                     (if u_query r = [] then u_query b else u_query r) (u_fragment r))
          else Inr (urlunsplit (u_scheme b) (u_netloc b)
                     (with_params (join_path (fst (split_params (u_path b))) path) params)
                     (u_query r) (u_fragment r)))))"

text \<open>\<open>IntegrationHttpClient._trusted_url\<close>; the tests are made in order, and reading a port may raise.\<close>

definition escaped_host :: exn where
  "escaped_host = ValueError ''provider URL escaped the configured host''"

definition trusted_url :: "string \<Rightarrow> string \<Rightarrow> string result" where
  "trusted_url base_url path =
     (if take 2 path = ''//'' then Inl (ValueError ''provider path must not replace the configured host'')
      else let normalized_base = strip_right base_url @ ''/'' in
        bindR (urljoin normalized_base (strip_left path)) (\<lambda>url.
        bindR (urlsplit normalized_base) (\<lambda>base.
        bindR (urlsplit url) (\<lambda>parsed.
        bindR (guardR (u_scheme parsed = u_scheme base \<and> hostname parsed = hostname base) escaped_host) (\<lambda>_.
        bindR (port parsed) (\<lambda>p. bindR (port base) (\<lambda>q.
        bindR (guardR (p = q \<and> username parsed = None \<and> password parsed = None) escaped_host) (\<lambda>_.
          Inr url))))))))"

section \<open>The transport\<close>

record http_request =
  rq_method :: string
  rq_url :: string
  rq_headers :: "(string \<times> string) list"
  rq_body :: "jobj option"
  rq_timeout :: "rat option"

text \<open>
  The exceptions of httpx2 the client names, and any other exception of the call: a cancellation,
  a \<open>ValueError\<close>, or an exception of another class. None is one of the integration's own.
\<close>

datatype foreign = Cancelled | BadValue string | Unlisted string

primrec foreign_exn :: "foreign \<Rightarrow> exn" where
  "foreign_exn Cancelled = AsyncCancelledError"
| "foreign_exn (BadValue msg) = ValueError msg"
| "foreign_exn (Unlisted name) = OtherException name"

datatype transport_error =
    ConnectError | ConnectTimeout | PoolTimeout
  | ReadError | ReadTimeout | RemoteProtocolError | WriteError | WriteTimeout
  | OtherTransportError foreign

datatype transport_answer =
    NoResponse transport_error
  | Response int "(string \<times> string) list" "string list" "transport_error option"

fun is_connect_failure :: "transport_error \<Rightarrow> bool" where
  "is_connect_failure ConnectError = True"
| "is_connect_failure ConnectTimeout = True"
| "is_connect_failure PoolTimeout = True"
| "is_connect_failure _ = False"

fun is_transfer_failure :: "transport_error \<Rightarrow> bool" where
  "is_transfer_failure ReadError = True"
| "is_transfer_failure ReadTimeout = True"
| "is_transfer_failure RemoteProtocolError = True"
| "is_transfer_failure WriteError = True"
| "is_transfer_failure WriteTimeout = True"
| "is_transfer_failure _ = False"

text \<open>
  \<open>json.loads\<close> of bytes: a value; one of the two errors the client handles; another exception.
\<close>

datatype loaded = Loaded json | DecodeError | LoadsRaises foreign

record http_env =
  he_transport :: "http_request list \<Rightarrow> transport_answer"
  he_monotonic :: "nat \<Rightarrow> rat"
  he_loads :: "string \<Rightarrow> loaded"

record http_world =
  ht_sent :: "http_request list"
  ht_clock :: nat
  ht_metrics :: "metric_record list"

type_synonym ('w, 'a) http_io = "('w http_world_scheme, exn, 'a) io"

record json_response =
  js_status :: int
  js_headers :: "(string \<times> string) list"
  js_payload :: json

section \<open>The body of a response\<close>

text \<open>\<open>{key.lower(): value ...}\<close>: the last of several equal keys wins.\<close>

definition lower_char :: "char \<Rightarrow> string" where
  "lower_char c = (if of_char c = (223::nat) then [c] else casefold_char c)"

definition lower_headers :: "(string \<times> string) list \<Rightarrow> (string \<times> string) list" where
  "lower_headers hs = foldl (\<lambda>d kv. dict_set d (concat (map lower_char (fst kv))) (snd kv)) [] hs"

definition header :: "(string \<times> string) list \<Rightarrow> string \<Rightarrow> string option" where
  "header hs name = map_of hs name"

definition ends_with :: "string \<Rightarrow> string \<Rightarrow> bool" where
  "ends_with p s \<longleftrightarrow> starts_with (rev p) (rev s)"

definition is_json_content_type :: "string \<Rightarrow> bool" where
  "is_json_content_type v =
     (let media_type = casefold (py_strip (fst (partition_at (CHR '';'') v)))
      in media_type = ''application/json'' \<or> ends_with ''+json'' media_type)"

text \<open>The exceptions inside the \<open>try\<close>: an error the code raises, or one of the transport.\<close>

datatype http_fault = Raised exn | Broken transport_error

definition too_large :: "bool \<Rightarrow> exn" where
  "too_large is_write = (if is_write then AmbiguousWriteError else ResponseTooLargeError)"

definition bad_body :: "bool \<Rightarrow> exn" where
  "bad_body is_write = (if is_write then AmbiguousWriteError else ProviderContractError)"

text \<open>The bytes are counted as they arrive, before the status or the content type is looked at.\<close>

fun receive :: "bool \<Rightarrow> int \<Rightarrow> string \<Rightarrow> string list \<Rightarrow> transport_error option \<Rightarrow> http_fault + string" where
  "receive is_write limit body [] None = Inr body"
| "receive is_write limit body [] (Some e) = Inl (Broken e)"
| "receive is_write limit body (chunk # chunks) broken =
     (if int (length (body @ chunk)) > limit then Inl (Raised (too_large is_write))
      else receive is_write limit (body @ chunk) chunks broken)"

definition is_success :: "int \<Rightarrow> bool" where
  "is_success status \<longleftrightarrow> 200 \<le> status \<and> status < 300"

text \<open>A payload that is absent is \<open>None\<close>, which is also what the document \<open>null\<close> loads to.\<close>

definition decode_payload ::
  "http_env \<Rightarrow> bool \<Rightarrow> int \<Rightarrow> (string \<times> string) list \<Rightarrow> string \<Rightarrow> http_fault + json" where
  "decode_payload he is_write status headers body =
     (if \<not> is_success status \<or> body = [] then Inr JNull
      else if \<not> is_json_content_type (case header headers ''content-type'' of None \<Rightarrow> [] | Some v \<Rightarrow> v)
        then Inl (Raised (bad_body is_write))
      else case he_loads he body of
        Loaded v \<Rightarrow> Inr v
      | DecodeError \<Rightarrow> Inl (Raised (bad_body is_write))
      | LoadsRaises e \<Rightarrow> Inl (Raised (foreign_exn e)))"

definition status_outcome :: "int \<Rightarrow> metric_outcome" where
  "status_outcome status =
     (if status = 429 then O_RATE_LIMITED
      else if status \<ge> 500 \<or> status = 408 then O_RETRYABLE_FAILURE
      else if status \<ge> 400 then O_PERMANENT_FAILURE
      else O_SUCCESS)"

text \<open>
  The \<open>except\<close> clauses: the exception that leaves the \<open>try\<close> and the outcome that is counted.
  \<open>current\<close> is the outcome when the exception arose; no clause changes it for an exception
  that none of them names.
\<close>

definition handle_fault :: "bool \<Rightarrow> metric_outcome \<Rightarrow> http_fault \<Rightarrow> exn \<times> metric_outcome" where
  "handle_fault is_write current fault = (case fault of
     Raised e \<Rightarrow>
       (e, if e = AmbiguousWriteError then O_OUTCOME_UNKNOWN
           else if is_provider_contract_error e then O_CONTRACT_FAILURE else current)
   | Broken t \<Rightarrow>
       if is_connect_failure t then (RetryableHttpError, O_RETRYABLE_FAILURE)
       else if is_transfer_failure t
         then if is_write then (AmbiguousWriteError, O_OUTCOME_UNKNOWN)
              else (RetryableHttpError, O_RETRYABLE_FAILURE)
       else case t of OtherTransportError e \<Rightarrow> (foreign_exn e, current) | _ \<Rightarrow> (RetryableHttpError, current))"

section \<open>A request\<close>

record http_call =
  hc_method :: string
  hc_base_url :: string
  hc_path :: string
  hc_headers :: "(string \<times> string) list"
  hc_json :: "jobj option"
  hc_correlation :: "string option"
  hc_write :: bool
  hc_timeout :: "rat option"
  hc_provider :: metric_provider
  hc_operation :: metric_operation

definition monotonic :: "http_env \<Rightarrow> ('w, rat) http_io" where
  "monotonic he = (\<lambda>w. (Inr (he_monotonic he (ht_clock w)), w\<lparr>ht_clock := ht_clock w + 1\<rparr>))"

definition transmit :: "http_env \<Rightarrow> http_request \<Rightarrow> ('w, transport_answer) http_io" where
  "transmit he rq = (\<lambda>w. let sent = ht_sent w @ [rq] in (Inr (he_transport he sent), w\<lparr>ht_sent := sent\<rparr>))"

definition record_metric :: "metric_record result \<Rightarrow> ('w, unit) http_io" where
  "record_metric r = bindE (liftR r) (\<lambda>m. (\<lambda>w. (Inr (), w\<lparr>ht_metrics := ht_metrics w @ [m]\<rparr>)))"

definition call_labels :: "http_call \<Rightarrow> metric_labels" where
  "call_labels hc = [(L_PROVIDER, V_PROVIDER (hc_provider hc)), (L_OPERATION, V_OPERATION (hc_operation hc))]"

definition request_of :: "http_call \<Rightarrow> string \<Rightarrow> http_request" where
  "request_of hc url =
     \<lparr>rq_method = hc_method hc, rq_url = url,
      rq_headers = (case hc_correlation hc of None \<Rightarrow> hc_headers hc
                    | Some c \<Rightarrow> dict_set (hc_headers hc) ''X-Correlation-ID'' c),
      rq_body = hc_json hc, rq_timeout = hc_timeout hc\<rparr>"

text \<open>The \<open>try\<close> statement: what it returns or raises, and the value of \<open>outcome\<close> when it ends.\<close>

definition failed :: "bool \<Rightarrow> metric_outcome \<Rightarrow> http_fault \<Rightarrow> (exn + json_response) \<times> metric_outcome" where
  "failed is_write current fault = (case handle_fault is_write current fault of (e, outcome) \<Rightarrow> (Inl e, outcome))"

definition exchange ::
  "http_env \<Rightarrow> int \<Rightarrow> http_call \<Rightarrow> transport_answer \<Rightarrow> ('w, (exn + json_response) \<times> metric_outcome) http_io" where
  "exchange he limit hc answer = (case answer of
     NoResponse t \<Rightarrow> ret (failed (hc_write hc) O_SUCCESS (Broken t))
   | Response status raw_headers chunks broken \<Rightarrow>
       (case receive (hc_write hc) limit [] chunks broken of
          Inl fault \<Rightarrow> ret (failed (hc_write hc) O_SUCCESS fault)
        | Inr body \<Rightarrow>
            (let headers = lower_headers raw_headers in
             case decode_payload he (hc_write hc) status headers body of
               Inl fault \<Rightarrow> ret (failed (hc_write hc) O_SUCCESS fault)
             | Inr payload \<Rightarrow>
                 (let response = \<lparr>js_status = status, js_headers = headers, js_payload = payload\<rparr> in
                  if status = 429
                  then catchE
                    (bindE (record_metric (logging_increment PROVIDER_RATE_LIMIT_COUNT (call_labels hc) 1))
                      (\<lambda>_. ret (Inr response, O_RATE_LIMITED)))
                    (\<lambda>e. Some (ret (failed (hc_write hc) O_RATE_LIMITED (Raised e))))
                  else ret (Inr response, status_outcome status)))))"

text \<open>\<open>request_json\<close>: the \<open>finally\<close> clause counts and times every request that was attempted.\<close>

definition request_json :: "http_env \<Rightarrow> int \<Rightarrow> http_call \<Rightarrow> ('w, json_response) http_io" where
  "request_json he limit hc =
     bindE (monotonic he) (\<lambda>started.
     bindE (liftR (trusted_url (hc_base_url hc) (hc_path hc))) (\<lambda>url.
     bindE (bindE (transmit he (request_of hc url)) (exchange he limit hc)) (\<lambda>(result, outcome).
     let labels = call_labels hc @ [(L_OUTCOME, V_OUTCOME outcome)] in
     bindE (record_metric (logging_increment PROVIDER_REQUEST_COUNT labels 1)) (\<lambda>_.
     bindE (monotonic he) (\<lambda>ended.
     bindE (record_metric (logging_observe PROVIDER_LATENCY_SECONDS (ended - started) labels)) (\<lambda>_.
       liftR result))))))"

end
