(* ===== verification/Connectors.thy ===== *)
theory Connectors
  imports Http_Client Handler_World Rendering
begin

text \<open>
  \<open>integrations/connectors.py\<close>: the readers of the service catalog, Jira and GitHub and the writer
  of GitHub comments, over the HTTP boundary. Each client parses a provider document into the
  records of the workflow and turns every status and transport fault into one of the provider
  errors. \<open>datetime.fromisoformat\<close> and \<open>str\<close> of a container are parameters of the environment.
\<close>

section \<open>Fields of a document\<close>

text \<open>\<open>payload.get(name)\<close>, where a missing key reads as \<open>None\<close>.\<close>

definition field :: "jobj \<Rightarrow> string \<Rightarrow> json" where
  "field kvs name = (case obj_get kvs name of None \<Rightarrow> JNull | Some v \<Rightarrow> v)"

definition object_payload :: "json \<Rightarrow> jobj result" where
  "object_payload v = (case v of JObj kvs \<Rightarrow> Inr kvs | _ \<Rightarrow> Inl (PermanentProviderError ''provider_contract_error''))"

definition string_value :: "json \<Rightarrow> string result" where
  "string_value v = (case v of
     JStr s \<Rightarrow> if s = [] then Inl (ValueError ''expected non-empty string'') else Inr s
   | _ \<Rightarrow> Inl (ValueError ''expected non-empty string''))"

definition required_string :: "jobj \<Rightarrow> string \<Rightarrow> string result" where
  "required_string kvs name = (case field kvs name of
     JStr s \<Rightarrow> if s = [] then Inl (ValueError name) else Inr s
   | _ \<Rightarrow> Inl (ValueError name))"

definition required_int :: "jobj \<Rightarrow> string \<Rightarrow> int result" where
  "required_int kvs name = (case field kvs name of JInt i \<Rightarrow> Inr i | _ \<Rightarrow> Inl (ValueError name))"

definition required_bool :: "jobj \<Rightarrow> string \<Rightarrow> bool result" where
  "required_bool kvs name = (case field kvs name of JBool b \<Rightarrow> Inr b | _ \<Rightarrow> Inl (ValueError name))"

definition nested_name :: "json \<Rightarrow> string result" where
  "nested_name v = bindR (object_payload v) (\<lambda>kvs. required_string kvs ''name'')"

definition optional_nested_name :: "json \<Rightarrow> string option result" where
  "optional_nested_name v = (if v = JNull then Inr None else bindR (nested_name v) (\<lambda>s. Inr (Some s)))"

fun non_empty_string :: "json \<Rightarrow> string option" where
  "non_empty_string (JStr s) = (if s = [] then None else Some s)"
| "non_empty_string _ = None"

definition first_string :: "jobj \<Rightarrow> string list \<Rightarrow> string option" where
  "first_string kvs names =
     (case List.map_filter (\<lambda>name. non_empty_string (field kvs name)) names of [] \<Rightarrow> None | s # _ \<Rightarrow> Some s)"

definition optional_assignee :: "json \<Rightarrow> string option result" where
  "optional_assignee v =
     (if v = JNull then Inr None
      else bindR (object_payload v) (\<lambda>kvs. Inr (first_string kvs [''accountId'', ''key'', ''name''])))"

definition string_list :: "json \<Rightarrow> string list result" where
  "string_list v = (case v of
     JNull \<Rightarrow> Inr []
   | JArr items \<Rightarrow>
       if list_all (\<lambda>i. as_str i \<noteq> None) items then Inr (List.map_filter as_str items)
       else Inl (ValueError ''expected a string list'')
   | _ \<Rightarrow> Inl (ValueError ''expected a string list''))"

definition optional_string :: "json \<Rightarrow> string option result" where
  "optional_string v = (if v = JNull then Inr None else bindR (string_value v) (\<lambda>s. Inr (Some s)))"

definition int_value :: "json \<Rightarrow> int result" where
  "int_value v = (case v of JInt i \<Rightarrow> Inr i | _ \<Rightarrow> Inl (ValueError ''expected integer''))"

definition bool_value :: "json \<Rightarrow> bool result" where
  "bool_value v = (case v of JBool b \<Rightarrow> Inr b | _ \<Rightarrow> Inl (ValueError ''expected boolean''))"

text \<open>\<open>bool(v)\<close>: a finite float is printed as \<open>0.0\<close> or \<open>-0.0\<close> exactly when it is zero.\<close>

fun truthy :: "json \<Rightarrow> bool" where
  "truthy JNull = False"
| "truthy (JBool b) = b"
| "truthy (JInt i) = (i \<noteq> 0)"
| "truthy (JFloat x) = (x \<noteq> JFinite ''0.0'' \<and> x \<noteq> JFinite ''-0.0'')"
| "truthy (JStr s) = (s \<noteq> [])"
| "truthy (JArr xs) = (xs \<noteq> [])"
| "truthy (JObj kvs) = (kvs \<noteq> [])"

text \<open>\<open>str(v)\<close>; of a list or a dict it is the parameter.\<close>

definition py_str :: "(json \<Rightarrow> string) \<Rightarrow> json \<Rightarrow> string" where
  "py_str container v = (case v of
     JNull \<Rightarrow> ''None''
   | JBool b \<Rightarrow> (if b then ''True'' else ''False'')
   | JInt i \<Rightarrow> str_int i
   | JFloat x \<Rightarrow> (case x of JNaN \<Rightarrow> ''nan'' | JPosInf \<Rightarrow> ''inf'' | JNegInf \<Rightarrow> ''-inf'' | JFinite s \<Rightarrow> s)
   | JStr s \<Rightarrow> s
   | _ \<Rightarrow> container v)"

section \<open>Delays and credentials\<close>

text \<open>
  \<open>float(raw)\<close>: optional sign, digits with single underscores between them, a fraction, an exponent;
  or an infinity or not a number. The value is exact.
\<close>

fun digit_groups :: "string \<Rightarrow> string option" where
  "digit_groups [] = None"
| "digit_groups [c] = (if is_digit c then Some [c] else None)"
| "digit_groups (c # d # s) =
     (if \<not> is_digit c then None
      else if d = CHR ''_'' then map_option ((#) c) (digit_groups s)
      else map_option ((#) c) (digit_groups (d # s)))"

definition digits_or_none :: "string \<Rightarrow> string option" where
  "digits_or_none s = (if s = [] then Some [] else digit_groups s)"

definition signed :: "string \<Rightarrow> bool \<times> string" where
  "signed s = (case s of
     c # r \<Rightarrow> if c = CHR ''-'' then (True, r) else if c = CHR ''+'' then (False, r) else (False, s)
   | [] \<Rightarrow> (False, s))"

definition exponent :: "string option \<Rightarrow> int option" where
  "exponent e = (case e of
     None \<Rightarrow> Some 0
   | Some s \<Rightarrow> (case signed s of (neg, ds) \<Rightarrow>
       map_option (\<lambda>d. let n = int (digits_to_nat d) in if neg then - n else n) (digit_groups ds)))"

definition power_of_ten :: "int \<Rightarrow> rat" where
  "power_of_ten e = (if 0 \<le> e then 10 ^ nat e else 1 / 10 ^ nat (- e))"

definition decimal :: "string \<Rightarrow> rat option" where
  "decimal s = (case partition_at (CHR ''e'') s of (mantissa, e) \<Rightarrow>
     (case partition_at (CHR ''.'') mantissa of (whole, fraction) \<Rightarrow>
       let frac = (case fraction of None \<Rightarrow> [] | Some f \<Rightarrow> f) in
       if whole = [] \<and> frac = [] then None
       else (case (digits_or_none whole, digits_or_none frac, exponent e) of
         (Some w, Some f, Some x) \<Rightarrow>
           Some (of_nat (digits_to_nat (w @ f)) * power_of_ten (x - int (length f)))
       | _ \<Rightarrow> None)))"

definition py_float :: "string \<Rightarrow> pyfloat option" where
  "py_float raw = (case signed (map ascii_lower (py_strip raw)) of (neg, s) \<Rightarrow>
     if s = ''inf'' \<or> s = ''infinity'' then Some (if neg then FNegInf else FPosInf)
     else if s = ''nan'' then Some FNaN
     else map_option (\<lambda>q. FFin (if neg then - q else q)) (decimal s))"

text \<open>\<open>_retry_after\<close> of \<open>connectors.py\<close>: \<open>min(maximum, max(0.0, float(raw)))\<close>.\<close>

definition retry_after :: "(string \<times> string) list \<Rightarrow> rat \<Rightarrow> pyfloat option" where
  "retry_after headers maximum = (case header headers ''retry-after'' of
     None \<Rightarrow> None
   | Some raw \<Rightarrow> map_option (\<lambda>x. py_min (FFin maximum) (py_max (FFin 0) x)) (py_float raw))"

text \<open>\<open>base64.b64encode\<close>.\<close>

definition base64_alphabet :: string where
  "base64_alphabet = ''ABCDEFGHIJKLMNOPQRSTUVWXYZabcdefghijklmnopqrstuvwxyz0123456789+/''"

definition base64_group :: "nat \<Rightarrow> string" where
  "base64_group n = map (\<lambda>k. base64_alphabet ! ((n div 64 ^ k) mod 64)) [3, 2, 1, 0]"

fun base64 :: "nat list \<Rightarrow> string" where
  "base64 [] = []"
| "base64 [a] = take 2 (base64_group (a * 65536)) @ ''==''"
| "base64 [a, b] = take 3 (base64_group (a * 65536 + b * 256)) @ ''=''"
| "base64 (a # b # c # bs) = base64_group (a * 65536 + b * 256 + c) @ base64 bs"

definition basic_auth_header :: "string \<Rightarrow> string option \<Rightarrow> (string \<times> string) list" where
  "basic_auth_header user secret = (case secret of
     None \<Rightarrow> []
   | Some s \<Rightarrow> [(''Authorization'', ''Basic '' @ base64 (map of_char (encode (user @ '':'' @ s))))])"

definition bearer_headers :: "string option \<Rightarrow> (string \<times> string) list" where
  "bearer_headers secret = (case secret of None \<Rightarrow> [] | Some s \<Rightarrow> [(''Authorization'', ''Bearer '' @ s)])"

section \<open>Descriptions\<close>

text \<open>\<open>s.split()\<close>.\<close>

function split_words :: "string \<Rightarrow> string list" where
  "split_words s =
     (case dropWhile is_space s of [] \<Rightarrow> []
      | c # r \<Rightarrow> takeWhile (\<lambda>x. \<not> is_space x) (c # r) # split_words (dropWhile (\<lambda>x. \<not> is_space x) (c # r)))"
  by pat_completeness auto

lemma length_after_word:
  "dropWhile is_space s = c # r \<Longrightarrow> length (dropWhile (\<lambda>x. \<not> is_space x) (c # r)) < length s"
proof -
  assume drop: "dropWhile is_space s = c # r"
  then have "\<not> is_space c" by (metis hd_dropWhile list.distinct(1) list.sel(1))
  then have "length (dropWhile (\<lambda>x. \<not> is_space x) (c # r)) \<le> length r" by (simp add: length_dropWhile_le)
  also have "\<dots> < length s" using drop length_dropWhile_le [of is_space s] by simp
  finally show ?thesis .
qed

termination split_words
  by (relation "measure length") (simp_all only: in_measure length_after_word wf_measure)

declare split_words.simps [simp del]

definition max_text :: nat where
  "max_text = 20000"

text \<open>The test \<open>type in {...}\<close> hashes the type, which a list or a dict does not allow.\<close>

definition type_error :: exn where
  "type_error = OtherException ''TypeError''"

definition ends_block :: "json \<Rightarrow> bool result" where
  "ends_block v = (case v of
     JStr s \<Rightarrow> Inr (s \<in> {''paragraph'', ''heading'', ''listItem''})
   | JArr _ \<Rightarrow> Inl type_error
   | JObj _ \<Rightarrow> Inl type_error
   | _ \<Rightarrow> Inr False)"

text \<open>
  The recursive \<open>visit\<close>, passing the joined \<open>output\<close>. It ends because the depth grows with every
  level and stops at 40, whatever the document.
\<close>

function visit :: "json \<Rightarrow> nat \<Rightarrow> string \<Rightarrow> string result"
and visit_children :: "json list \<Rightarrow> nat \<Rightarrow> string \<Rightarrow> string result" where
  "visit node depth out =
     (if depth > 40 \<or> length out > max_text then Inr out
      else case node of
        JObj kvs \<Rightarrow>
          bindR (let shown = (case field kvs ''text'' of JStr s \<Rightarrow> out @ s | _ \<Rightarrow> out) in
                 case field kvs ''content'' of
                   JArr children \<Rightarrow> visit_children (take 500 children) (depth + 1) shown
                 | _ \<Rightarrow> Inr shown) (\<lambda>out'.
          bindR (ends_block (field kvs ''type'')) (\<lambda>block.
            Inr (if block then out' @ [CHR 0x0A] else out')))
      | JArr children \<Rightarrow> visit_children (take 500 children) (depth + 1) out
      | _ \<Rightarrow> Inr out)"
| "visit_children [] depth out = Inr out"
| "visit_children (child # children) depth out =
     bindR (visit child depth out) (\<lambda>out'. visit_children children depth out')"
  by pat_completeness auto

termination
  by (relation "measures [\<lambda>x. case x of Inl (_, d, _) \<Rightarrow> 42 - d | Inr (_, d, _) \<Rightarrow> 42 - d,
                           \<lambda>x. case x of Inl _ \<Rightarrow> 0 | Inr (cs, _, _) \<Rightarrow> 1 + length cs]") auto

declare visit.simps [simp del]

definition jira_adf_to_text :: "json \<Rightarrow> string result" where
  "jira_adf_to_text v = (case v of
     JNull \<Rightarrow> Inr []
   | JStr s \<Rightarrow> Inr (take max_text s)
   | JObj kvs \<Rightarrow> bindR (visit v 0 []) (\<lambda>out. Inr (take max_text (join '' '' (split_words out))))
   | _ \<Rightarrow> Inl (ValueError ''Jira description is neither text nor ADF''))"

end
