(* ===== verification/Provider_Clients.thy ===== *)
theory Provider_Clients
  imports Connectors
begin

text \<open>
  The clients of \<open>integrations/connectors.py\<close>: \<open>ServiceCatalogClient\<close>, \<open>JiraClient\<close> and
  \<open>GitHubClient\<close> with the classification of their reads and writes and the normalization of the
  provider documents. A client reads its credential before every request; what it reads is part
  of the environment, since a credential file may change.
\<close>

record client_env =
  ce_http :: http_env
  ce_settings :: settings
  ce_secret :: "metric_provider \<Rightarrow> nat \<Rightarrow> string option result"
  ce_fromisoformat :: "string \<Rightarrow> time option"
  ce_container_str :: "json \<Rightarrow> string"

section \<open>Reads\<close>

definition credential :: "client_env \<Rightarrow> metric_provider \<Rightarrow> ('w, string option) http_io" where
  "credential ce provider = (\<lambda>w. (ce_secret ce provider (length (ht_sent w)), w))"

text \<open>\<open>except A: raise B from None\<close>, as a function of the exception.\<close>

definition rethrow :: "(exn \<Rightarrow> exn) \<Rightarrow> ('w, 'a) http_io \<Rightarrow> ('w, 'a) http_io" where
  "rethrow f m = catchE m (\<lambda>e. Some (raise (f e)))"

definition classify_read :: "settings \<Rightarrow> string \<Rightarrow> json_response \<Rightarrow> unit result" where
  "classify_read s not_found response = (let status = js_status response in
     if is_success status then Inr ()
     else if status = 404 then Inl (ProviderNotFoundError not_found)
     else if status \<in> {408, 429, 500, 502, 503, 504}
       then Inl (RetryableProviderError ''provider_read_retryable''
                   (retry_after (js_headers response) (integration_max_retry_after_seconds s)))
     else if status \<in> {401, 403} then Inl (PermanentProviderError ''provider_identity_rejected'')
     else Inl (PermanentProviderError ''provider_read_rejected''))"

record read_target =
  rd_provider :: metric_provider
  rd_base_url :: "settings \<Rightarrow> string"
  rd_headers :: "settings \<Rightarrow> string option \<Rightarrow> (string \<times> string) list"
  rd_unavailable :: string
  rd_contract :: string
  rd_not_found :: string

definition read_error :: "read_target \<Rightarrow> exn \<Rightarrow> exn" where
  "read_error rd e =
     (if e = RetryableHttpError then RetryableProviderError (rd_unavailable rd) None
      else if is_provider_contract_error e then PermanentProviderError (rd_contract rd)
      else e)"

definition read_call :: "settings \<Rightarrow> read_target \<Rightarrow> metric_operation \<Rightarrow> string \<Rightarrow> string \<Rightarrow> string option \<Rightarrow> http_call" where
  "read_call s rd operation correlation path secret =
     \<lparr>hc_method = ''GET'', hc_base_url = rd_base_url rd s, hc_path = path, hc_headers = rd_headers rd s secret,
      hc_json = None, hc_correlation = Some correlation, hc_write = False, hc_timeout = None,
      hc_provider = rd_provider rd, hc_operation = operation\<rparr>"

definition provider_read ::
  "client_env \<Rightarrow> read_target \<Rightarrow> metric_operation \<Rightarrow> string \<Rightarrow> string \<Rightarrow> ('w, json_response) http_io" where
  "provider_read ce rd operation correlation path = (let s = ce_settings ce in
     bindE (rethrow (read_error rd)
       (bindE (credential ce (rd_provider rd)) (\<lambda>secret.
          request_json (ce_http ce) (integration_max_response_bytes s)
            (read_call s rd operation correlation path secret)))) (\<lambda>response.
     bindE (liftR (classify_read s (rd_not_found rd) response)) (\<lambda>_. ret response)))"

text \<open>The exceptions of a normalization that become the contract error of the provider.\<close>

definition is_shape_error :: "exn \<Rightarrow> bool" where
  "is_shape_error e \<longleftrightarrow> is_value_error e \<or> e = type_error"

definition on_error :: "(exn \<Rightarrow> bool) \<Rightarrow> exn \<Rightarrow> 'a result \<Rightarrow> 'a result" where
  "on_error caught instead r = (case r of Inl e \<Rightarrow> Inl (if caught e then instead else e) | Inr x \<Rightarrow> Inr x)"

definition fromisoformat :: "client_env \<Rightarrow> string \<Rightarrow> time result" where
  "fromisoformat ce s = expectR (ValueError ''Invalid isoformat string'') (ce_fromisoformat ce s)"

section \<open>Service catalog\<close>

definition catalog_target :: read_target where
  "catalog_target =
     \<lparr>rd_provider = P_SERVICE_CATALOG, rd_base_url = service_catalog_base_url, rd_headers = (\<lambda>_. bearer_headers),
      rd_unavailable = ''service_catalog_unavailable'', rd_contract = ''service_catalog_contract_error'',
      rd_not_found = ''service_not_found''\<rparr>"

text \<open>The inner function \<open>first\<close>: the first of the names with a value other than \<open>None\<close>.\<close>

definition first_of :: "jobj \<Rightarrow> string list \<Rightarrow> json" where
  "first_of kvs names =
     (case filter (\<lambda>name. field kvs name \<noteq> JNull) names of [] \<Rightarrow> JNull | name # _ \<Rightarrow> field kvs name)"

definition classification_of :: "string \<Rightarrow> data_classification option" where
  "classification_of v = List.find (\<lambda>c. data_classification_value c = v) [PUBLIC, INTERNAL, CONFIDENTIAL, RESTRICTED]"

definition sorted_unique :: "string list \<Rightarrow> string list" where
  "sorted_unique xs = sort (remdups xs)"

definition normalize_service_record :: "jobj \<Rightarrow> catalog_record result" where
  "normalize_service_record kvs =
     on_error is_shape_error (PermanentProviderError ''service_catalog_contract_error'') (
     bindR (string_value (first_of kvs [''service_id'', ''serviceId'', ''legacy_id''])) (\<lambda>service_id.
     bindR (string_value (first_of kvs [''canonical_service_id'', ''canonicalId'', ''service_id''])) (\<lambda>canonical_id.
     bindR (string_list (first_of kvs [''approved_repositories'', ''repositories'', ''repo_names''])) (\<lambda>repositories.
     bindR (string_list (first_of kvs [''aliases'', ''legacy_ids''])) (\<lambda>aliases.
     bindR (optional_string (first_of kvs [''service_owner'', ''owner'', ''owner_id''])) (\<lambda>owner.
     bindR (string_value (first_of kvs [''criticality'', ''tier'', ''service_tier''])) (\<lambda>criticality.
     bindR (string_value (first_of kvs [''data_classification'', ''classification''])) (\<lambda>classification.
     bindR (int_value (first_of kvs [''deployment_policy_version'', ''policy_version''])) (\<lambda>version.
     bindR (bool_value (first_of kvs [''automatic_publication_allowed'', ''auto_publish''])) (\<lambda>automatic.
     bindR (optional_string (first_of kvs [''required_reviewer'', ''reviewer''])) (\<lambda>reviewer.
     bindR (string_value (first_of kvs [''source_version'', ''etag'', ''version''])) (\<lambda>source_version.
     bindR (bindR (string_value (first_of kvs [''source_url'', ''url''])) canonical_source_url) (\<lambda>source_url.
     bindR (expectR ValidationError (classification_of (casefold classification))) (\<lambda>data_classification.
       make_catalog_record
         \<lparr>k_service_id = service_id, k_canonical_service_id = canonical_id,
          k_aliases = sorted_unique aliases, k_service_owner = owner, k_criticality = criticality,
          k_approved_repositories = sorted_unique (map casefold repositories),
          k_data_classification = data_classification, k_policy_version = version,
          k_automatic_publication_allowed = automatic, k_required_reviewer = reviewer,
          k_allow_automatic_updates = truthy (first_of kvs [''allow_automatic_updates'']),
          k_source_version = source_version, k_source_url = source_url\<rparr>))))))))))))))"

definition fetch_records :: "client_env \<Rightarrow> string \<Rightarrow> string \<Rightarrow> ('w, catalog_record list) http_io" where
  "fetch_records ce service_id correlation =
     bindE (provider_read ce catalog_target OP_READ correlation (''services?service_id='' @ url_quote service_id)) (\<lambda>response.
     liftR (bindR (object_payload (js_payload response)) (\<lambda>payload. case field payload ''records'' of
       JArr raw_records \<Rightarrow> mapR (\<lambda>raw. bindR (object_payload raw) normalize_service_record) raw_records
     | _ \<Rightarrow> Inl (PermanentProviderError ''service_catalog_contract_error''))))"

section \<open>Jira\<close>

definition jira_headers :: "settings \<Rightarrow> string option \<Rightarrow> (string \<times> string) list" where
  "jira_headers s secret = (case jira_username s of
     None \<Rightarrow> bearer_headers secret | Some user \<Rightarrow> basic_auth_header user secret)"

definition jira_target :: read_target where
  "jira_target =
     \<lparr>rd_provider = P_JIRA, rd_base_url = jira_base_url, rd_headers = jira_headers,
      rd_unavailable = ''jira_unavailable'', rd_contract = ''jira_contract_error'',
      rd_not_found = ''jira_issue_not_found''\<rparr>"

definition normalize_issue :: "client_env \<Rightarrow> jobj \<Rightarrow> jobj \<Rightarrow> jira_item result" where
  "normalize_issue ce payload flds =
     on_error is_shape_error (PermanentProviderError ''jira_contract_error'') (
     bindR (bindR (required_string flds ''updated'') (fromisoformat ce)) (\<lambda>updated_at.
     bindR (bindR (required_string payload ''self'') canonical_source_url) (\<lambda>source_url.
     bindR (jira_adf_to_text (field flds ''description'')) (\<lambda>description.
     bindR (required_string payload ''key'') (\<lambda>key.
     bindR (required_string flds ''summary'') (\<lambda>title.
     bindR (nested_name (field flds ''status'')) (\<lambda>status.
     bindR (optional_nested_name (field flds ''priority'')) (\<lambda>priority.
     bindR (string_list (field flds ''labels'')) (\<lambda>labels.
     bindR (optional_assignee (field flds ''assignee'')) (\<lambda>assignee.
     let version = field payload ''version'' in
       make_jira_item
         \<lparr>j_key = key, j_title = title, j_description = description, j_status = status, j_priority = priority,
          j_labels = labels, j_assignee = assignee, j_updated_at = updated_at, j_source_url = source_url,
          j_source_version = py_str (ce_container_str ce)
            (if truthy version then version else field flds ''updated'')\<rparr>))))))))))"

definition fetch_issue :: "client_env \<Rightarrow> string \<Rightarrow> string \<Rightarrow> ('w, jira_item) http_io" where
  "fetch_issue ce issue_key correlation =
     bindE (provider_read ce jira_target OP_READ correlation (''rest/api/3/issue/'' @ url_quote issue_key)) (\<lambda>response.
     liftR (bindR (object_payload (js_payload response)) (\<lambda>payload.
            bindR (object_payload (field payload ''fields'')) (\<lambda>flds.
              normalize_issue ce payload flds))))"

section \<open>GitHub\<close>

definition github_headers :: "settings \<Rightarrow> string option \<Rightarrow> (string \<times> string) list" where
  "github_headers s secret = bearer_headers secret @
     [(''Accept'', ''application/vnd.github+json''), (''X-GitHub-Api-Version'', ''2022-11-28'')]"

definition github_target :: read_target where
  "github_target =
     \<lparr>rd_provider = P_GITHUB, rd_base_url = github_base_url, rd_headers = github_headers,
      rd_unavailable = ''github_unavailable'', rd_contract = ''github_contract_error'',
      rd_not_found = ''github_resource_not_found''\<rparr>"

definition github_contract_error :: exn where
  "github_contract_error = PermanentProviderError ''github_contract_error''"

definition write_unknown :: exn where
  "write_unknown = ProviderWriteOutcomeUnknown ''github_write_outcome_unknown''"

definition write_call :: "settings \<Rightarrow> string \<Rightarrow> string \<Rightarrow> jobj \<Rightarrow> string \<Rightarrow> string option \<Rightarrow> http_call" where
  "write_call s verb path payload correlation secret =
     \<lparr>hc_method = verb, hc_base_url = github_base_url s, hc_path = path, hc_headers = github_headers s secret,
      hc_json = Some payload, hc_correlation = Some correlation, hc_write = True,
      hc_timeout = Some (integration_provider_write_timeout_seconds s),
      hc_provider = P_GITHUB, hc_operation = OP_WRITE\<rparr>"

definition write_error :: "exn \<Rightarrow> exn" where
  "write_error e =
     (if e = AmbiguousWriteError then write_unknown
      else if e = RetryableHttpError then RetryableProviderError ''github_write_pretransmission_failure'' None
      else if is_provider_contract_error e then write_unknown
      else e)"

definition classify_write :: "settings \<Rightarrow> json_response \<Rightarrow> json_response result" where
  "classify_write s response = (let status = js_status response in
     if is_success status then (if js_payload response = JNull then Inl write_unknown else Inr response)
     else if status = 429
       then Inl (RetryableProviderError ''github_rate_limited''
                   (retry_after (js_headers response) (integration_max_retry_after_seconds s)))
     else if status = 408 then Inl write_unknown
     else if status \<in> {500, 502, 503, 504} then Inl write_unknown
     else if status \<in> {401, 403} then Inl (PermanentProviderError ''github_write_forbidden'')
     else if status = 404 then Inl (PermanentProviderError ''github_write_target_not_found'')
     else Inl (PermanentProviderError ''github_write_rejected''))"

definition github_write ::
  "client_env \<Rightarrow> string \<Rightarrow> string \<Rightarrow> jobj \<Rightarrow> string \<Rightarrow> ('w, json_response) http_io" where
  "github_write ce verb path payload correlation = (let s = ce_settings ce in
     bindE (rethrow write_error
       (bindE (credential ce P_GITHUB) (\<lambda>secret.
          request_json (ce_http ce) (integration_max_response_bytes s)
            (write_call s verb path payload correlation secret)))) (\<lambda>response.
     liftR (classify_write s response)))"

text \<open>\<open>owner, name = repository.split("/", maxsplit=1)\<close>.\<close>

definition repository_path :: "string \<Rightarrow> string result" where
  "repository_path repository = (case partition_at (CHR ''/'') repository of
     (owner, Some name) \<Rightarrow> Inr (url_quote owner @ ''/'' @ url_quote name)
   | (_, None) \<Rightarrow> Inl (ValueError ''not enough values to unpack''))"

definition normalize_comment :: "client_env \<Rightarrow> bool \<Rightarrow> json \<Rightarrow> github_comment result" where
  "normalize_comment ce ambiguous_on_failure payload =
     on_error (\<lambda>e. is_shape_error e \<or> is_permanent_provider_error e)
       (if ambiguous_on_failure then write_unknown else github_contract_error) (
     bindR (object_payload payload) (\<lambda>v.
     bindR (required_int v ''id'') (\<lambda>identifier.
     bindR (required_string v ''body'') (\<lambda>body.
     bindR (bindR (required_string v ''html_url'') provider_action_url) (\<lambda>url.
     bindR (bindR (required_string v ''updated_at'') (fromisoformat ce)) (\<lambda>updated_at.
       Inr \<lparr>cm_identifier = str_int identifier, cm_body = body, cm_url = url, cm_updated_at = updated_at\<rparr>))))))"

definition github_identity :: "client_env \<Rightarrow> string \<Rightarrow> ('w, bool) http_io" where
  "github_identity ce correlation =
     bindE (provider_read ce github_target OP_IDENTITY correlation ''user'') (\<lambda>response.
     liftR (bindR (on_error (\<lambda>e. is_permanent_provider_error e \<or> is_value_error e) github_contract_error
                    (bindR (object_payload (js_payload response)) (\<lambda>payload. required_string payload ''login''))) (\<lambda>login.
       Inr (case github_expected_login (ce_settings ce) of
              None \<Rightarrow> False | Some expected \<Rightarrow> casefold login = casefold expected))))"

definition normalize_context :: "string \<Rightarrow> jobj \<Rightarrow> jobj \<Rightarrow> jobj \<Rightarrow> github_context result" where
  "normalize_context default_branch repository_payload commit_payload issue_payload =
     on_error is_shape_error github_contract_error (
     bindR (required_string commit_payload ''sha'') (\<lambda>sha.
     bindR (required_string repository_payload ''full_name'') (\<lambda>full_name.
     bindR (required_int repository_payload ''id'') (\<lambda>repository_id.
     bindR (required_string repository_payload ''visibility'') (\<lambda>visibility.
     bindR (required_bool repository_payload ''archived'') (\<lambda>archived.
     bindR (required_int issue_payload ''number'') (\<lambda>issue_number.
     bindR (required_string issue_payload ''state'') (\<lambda>issue_state.
     bindR (required_string issue_payload ''title'') (\<lambda>issue_title.
     bindR (bindR (required_string issue_payload ''html_url'') canonical_source_url) (\<lambda>source_url.
     bindR (required_string issue_payload ''updated_at'') (\<lambda>updated_at.
       make_github_context
         \<lparr>g_full_name = full_name, g_repository_id = repository_id, g_visibility = visibility,
          g_archived = archived, g_default_branch = default_branch, g_head_sha = sha,
          g_issue_number = issue_number, g_issue_state = issue_state, g_issue_title = issue_title,
          g_is_pull_request = (obj_get issue_payload ''pull_request'' \<noteq> None),
          g_source_url = source_url, g_source_version = sha @ '':'' @ updated_at\<rparr>)))))))))))"

definition fetch_context :: "client_env \<Rightarrow> string \<Rightarrow> int \<Rightarrow> string \<Rightarrow> ('w, github_context) http_io" where
  "fetch_context ce repository issue_number correlation =
     bindE (liftR (repository_path repository)) (\<lambda>repo_path.
     bindE (provider_read ce github_target OP_READ correlation (''repos/'' @ repo_path)) (\<lambda>repository_response.
     bindE (liftR (on_error (\<lambda>e. is_permanent_provider_error e \<or> is_value_error e) github_contract_error
              (bindR (object_payload (js_payload repository_response)) (\<lambda>payload.
               bindR (required_string payload ''default_branch'') (\<lambda>branch. Inr (payload, branch))))))
       (\<lambda>(repository_payload, default_branch).
     bindE (provider_read ce github_target OP_READ correlation
              (''repos/'' @ repo_path @ ''/commits/'' @ url_quote default_branch)) (\<lambda>commit_response.
     bindE (provider_read ce github_target OP_READ correlation
              (''repos/'' @ repo_path @ ''/issues/'' @ str_int issue_number)) (\<lambda>issue_response.
     liftR (bindR (object_payload (js_payload commit_response)) (\<lambda>commit_payload.
            bindR (object_payload (js_payload issue_response)) (\<lambda>issue_payload.
              normalize_context default_branch repository_payload commit_payload issue_payload))))))))"

definition get_comment :: "client_env \<Rightarrow> string \<Rightarrow> string \<Rightarrow> string \<Rightarrow> ('w, github_comment option) http_io" where
  "get_comment ce repository comment_id correlation =
     bindE (catchE
       (bindE (liftR (repository_path repository)) (\<lambda>repo_path.
        bindE (provider_read ce github_target OP_RECONCILIATION correlation
                 (''repos/'' @ repo_path @ ''/issues/comments/'' @ url_quote comment_id)) (\<lambda>response. ret (Some response))))
       (\<lambda>e. case e of ProviderNotFoundError _ \<Rightarrow> Some (ret None) | _ \<Rightarrow> None)) (\<lambda>found. case found of
         None \<Rightarrow> ret None
       | Some response \<Rightarrow>
           liftR (bindR (normalize_comment ce False (js_payload response)) (\<lambda>comment. Inr (Some comment))))"

definition comments_page :: nat where
  "comments_page = 100"

definition read_comments_page ::
  "client_env \<Rightarrow> string \<Rightarrow> int \<Rightarrow> string \<Rightarrow> nat \<Rightarrow> ('w, github_comment list) http_io" where
  "read_comments_page ce repository issue_number correlation page =
     bindE (liftR (repository_path repository)) (\<lambda>repo_path.
     bindE (provider_read ce github_target OP_RECONCILIATION correlation
              (''repos/'' @ repo_path @ ''/issues/'' @ str_int issue_number @ ''/comments?per_page=100&page='' @
               nat_digits page)) (\<lambda>response.
     case js_payload response of
       JArr items \<Rightarrow> liftR (mapR (normalize_comment ce False) items)
     | _ \<Rightarrow> raise github_contract_error))"

text \<open>The loop over the pages that are left, with \<open>matches\<close> and \<open>seen\<close>.\<close>

fun scan_pages ::
  "client_env \<Rightarrow> string \<Rightarrow> int \<Rightarrow> string \<Rightarrow> string \<Rightarrow> nat list \<Rightarrow> github_comment list \<Rightarrow> nat \<Rightarrow>
   ('w, comment_search) http_io" where
  "scan_pages ce repository issue_number marker correlation [] matches seen =
     ret \<lparr>cs_comments = matches, cs_complete = True\<rparr>"
| "scan_pages ce repository issue_number marker correlation (page # pages) matches seen =
     bindE (read_comments_page ce repository issue_number correlation page) (\<lambda>comments.
     let seen' = seen + length comments;
         matches' = matches @ filter (\<lambda>c. py_in marker (cm_body c)) comments;
         s = ce_settings ce
     in if length comments < comments_page then ret \<lparr>cs_comments = matches', cs_complete = True\<rparr>
        else if int page = integration_max_pages s \<or> int seen' \<ge> integration_max_items s
          then ret \<lparr>cs_comments = matches', cs_complete = False\<rparr>
        else scan_pages ce repository issue_number marker correlation pages matches' seen')"

definition find_comments_by_marker ::
  "client_env \<Rightarrow> string \<Rightarrow> int \<Rightarrow> string \<Rightarrow> string \<Rightarrow> ('w, comment_search) http_io" where
  "find_comments_by_marker ce repository issue_number marker correlation =
     scan_pages ce repository issue_number marker correlation
       [1..<nat (integration_max_pages (ce_settings ce) + 1)] [] 0"

definition create_comment :: "client_env \<Rightarrow> string \<Rightarrow> int \<Rightarrow> string \<Rightarrow> string \<Rightarrow> ('w, github_comment) http_io" where
  "create_comment ce repository issue_number body correlation =
     bindE (liftR (repository_path repository)) (\<lambda>repo_path.
     bindE (github_write ce ''POST'' (''repos/'' @ repo_path @ ''/issues/'' @ str_int issue_number @ ''/comments'')
              [(''body'', JStr body)] correlation) (\<lambda>response.
     liftR (normalize_comment ce True (js_payload response))))"

definition update_comment :: "client_env \<Rightarrow> string \<Rightarrow> string \<Rightarrow> string \<Rightarrow> string \<Rightarrow> ('w, github_comment) http_io" where
  "update_comment ce repository comment_id body correlation =
     bindE (liftR (repository_path repository)) (\<lambda>repo_path.
     bindE (github_write ce ''PATCH'' (''repos/'' @ repo_path @ ''/issues/comments/'' @ url_quote comment_id)
              [(''body'', JStr body)] correlation) (\<lambda>response.
     liftR (normalize_comment ce True (js_payload response))))"

end
