(* ===== verification/Slack_Client.thy ===== *)
theory Slack_Client
  imports Provider_Clients
begin

text \<open>
  \<open>SlackClient\<close> of \<open>integrations/slack.py\<close>: the identity check with its cache and the posting of a
  message, over the HTTP boundary. The cache lives in the world of the client, beside the requests
  sent; the clock it is compared with is the monotonic clock of the HTTP environment.
\<close>

section \<open>State\<close>

record slack_identity =
  si_team_id :: string
  si_user_id :: string
  si_bot_id :: "string option"

text \<open>The fingerprint is the SHA-256 digest of the token.\<close>

record identity_cache =
  ic_fingerprint :: string
  ic_team_id :: "string option"
  ic_user_id :: "string option"
  ic_bot_id :: "string option"
  ic_verified_until :: rat

record slack_world = http_world +
  sw_cache :: "identity_cache option"

type_synonym 'a slack_io = "(slack_world, exn, 'a) io"

definition identity_cache_seconds :: rat where
  "identity_cache_seconds = 300"

section \<open>Helpers\<close>

definition slack_object :: "exn \<Rightarrow> json \<Rightarrow> jobj result" where
  "slack_object e v = (case v of JObj kvs \<Rightarrow> Inr kvs | _ \<Rightarrow> Inl e)"

definition slack_required_string :: "jobj \<Rightarrow> string \<Rightarrow> string result" where
  "slack_required_string kvs key =
     expectR (ValueError ''required Slack field is invalid'') (non_empty_string (field kvs key))"

definition slack_optional_string :: "jobj \<Rightarrow> string \<Rightarrow> string option result" where
  "slack_optional_string kvs key =
     (if field kvs key = JNull then Inr None
      else bindR (expectR (ValueError ''optional Slack field is invalid'') (non_empty_string (field kvs key)))
             (\<lambda>s. Inr (Some s)))"

definition make_slack_identity :: "slack_identity \<Rightarrow> slack_identity result" where
  "make_slack_identity i =
     bindR (guardR (in_range 1 255 (length (si_team_id i)) \<and> in_range 1 255 (length (si_user_id i)) \<and>
                    optionally (\<lambda>b. in_range 1 255 (length b)) (si_bot_id i)) ValidationError) (\<lambda>_. Inr i)"

definition slack_identity_of :: "jobj \<Rightarrow> slack_identity result" where
  "slack_identity_of kvs =
     on_error is_value_error (SlackPermanentFailure ''slack_auth_malformed'') (
     bindR (slack_required_string kvs ''team_id'') (\<lambda>team.
     bindR (slack_required_string kvs ''user_id'') (\<lambda>user.
     bindR (slack_optional_string kvs ''bot_id'') (\<lambda>bot.
       make_slack_identity \<lparr>si_team_id = team, si_user_id = user, si_bot_id = bot\<rparr>))))"

definition slack_safe_codes :: "(string \<times> string) list" where
  "slack_safe_codes =
     [(''invalid_auth'', ''slack_auth_rejected''), (''not_authed'', ''slack_auth_rejected''),
      (''token_revoked'', ''slack_auth_rejected''), (''missing_scope'', ''slack_missing_scope''),
      (''channel_not_found'', ''slack_channel_not_found''), (''not_in_channel'', ''slack_bot_not_in_channel''),
      (''is_archived'', ''slack_channel_archived''), (''restricted_action'', ''slack_restricted_action'')]"

definition slack_api_error :: "jobj \<Rightarrow> bool \<Rightarrow> exn" where
  "slack_api_error kvs identity =
     (let error = (case field kvs ''error'' of JStr s \<Rightarrow> s | _ \<Rightarrow> ''unknown_error'') in
      if error = ''ratelimited'' then SlackRetryableFailure ''slack_rate_limited'' None
      else if identity then SlackPermanentFailure ''slack_auth_rejected''
      else SlackPermanentFailure (case map_of slack_safe_codes error of
             None \<Rightarrow> ''slack_write_rejected'' | Some code \<Rightarrow> code))"

text \<open>\<open>_retry_after\<close> of \<open>slack.py\<close>: \<open>min(max(float(value), 0.0), maximum)\<close>.\<close>

definition slack_retry_after :: "(string \<times> string) list \<Rightarrow> rat \<Rightarrow> pyfloat option" where
  "slack_retry_after headers maximum = (case header headers ''retry-after'' of
     None \<Rightarrow> None
   | Some raw \<Rightarrow> map_option (\<lambda>x. py_min (py_max x (FFin 0)) (FFin maximum)) (py_float raw))"

text \<open>\<open>[0-9]{1,20}\.[0-9]{1,12}\<close>.\<close>

definition message_timestamp :: "string \<Rightarrow> bool" where
  "message_timestamp s = (case partition_at (CHR ''.'') s of
     (a, Some b) \<Rightarrow> in_range 1 20 (length a) \<and> list_all is_digit a \<and> in_range 1 12 (length b) \<and> list_all is_digit b
   | (_, None) \<Rightarrow> False)"

definition make_slack_receipt :: "slack_receipt \<Rightarrow> slack_receipt result" where
  "make_slack_receipt r =
     bindR (guardR (slack_channel (rc_channel r) \<and> message_timestamp (rc_timestamp r)) ValidationError) (\<lambda>_. Inr r)"

section \<open>Credential and cache\<close>

text \<open>\<open>OSError\<close> and the subclasses that reading a file raises.\<close>

fun is_os_error :: "exn \<Rightarrow> bool" where
  "is_os_error (OtherException name) =
     (name \<in> {''OSError'', ''FileNotFoundError'', ''PermissionError'', ''IsADirectoryError'', ''NotADirectoryError''})"
| "is_os_error _ = False"

definition current_credential :: "client_env \<Rightarrow> (string \<times> string) slack_io" where
  "current_credential ce =
     bindE (catchE (credential ce P_SLACK)
       (\<lambda>e. if is_os_error e \<or> is_value_error e
            then Some (raise (SlackPermanentFailure ''slack_credential_missing'')) else None)) (\<lambda>secret.
     case secret of
       None \<Rightarrow> raise (SlackPermanentFailure ''slack_credential_missing'')
     | Some token \<Rightarrow> if token = [] then raise (SlackPermanentFailure ''slack_credential_missing'')
                     else ret (token, sha256_hex (encode token)))"

definition cache_matches :: "settings \<Rightarrow> string \<Rightarrow> identity_cache \<Rightarrow> bool" where
  "cache_matches s fingerprint c \<longleftrightarrow>
     fingerprint = ic_fingerprint c \<and> slack_expected_team_id s = ic_team_id c \<and>
     slack_expected_user_id s = ic_user_id c \<and> slack_expected_bot_id s = ic_bot_id c"

text \<open>\<open>_cache_authorizes\<close> reads the clock only when there is a cache.\<close>

definition cache_authorizes :: "client_env \<Rightarrow> string \<Rightarrow> bool slack_io" where
  "cache_authorizes ce fingerprint = (\<lambda>w. case sw_cache w of
     None \<Rightarrow> (Inr False, w)
   | Some c \<Rightarrow> bindE (monotonic (ce_http ce)) (\<lambda>now.
       ret (now < ic_verified_until c \<and> cache_matches (ce_settings ce) fingerprint c)) w)"

definition set_cache :: "identity_cache option \<Rightarrow> unit slack_io" where
  "set_cache c = (\<lambda>w. (Inr (), w\<lparr>sw_cache := c\<rparr>))"

section \<open>Requests\<close>

definition slack_call :: "settings \<Rightarrow> string \<Rightarrow> jobj \<Rightarrow> string \<Rightarrow> bool \<Rightarrow> metric_operation \<Rightarrow> string \<Rightarrow> http_call" where
  "slack_call s path payload correlation is_write operation token =
     \<lparr>hc_method = ''POST'', hc_base_url = slack_base_url s, hc_path = path,
      hc_headers = [(''Authorization'', ''Bearer '' @ token), (''Content-Type'', ''application/json; charset=utf-8'')],
      hc_json = Some payload, hc_correlation = Some correlation, hc_write = is_write,
      hc_timeout = (if is_write then Some (slack_write_timeout_seconds s) else None),
      hc_provider = P_SLACK, hc_operation = operation\<rparr>"

definition slack_request ::
  "client_env \<Rightarrow> string \<Rightarrow> jobj \<Rightarrow> string \<Rightarrow> bool \<Rightarrow> metric_operation \<Rightarrow> string \<Rightarrow> json_response slack_io" where
  "slack_request ce path payload correlation is_write operation token =
     request_json (ce_http ce) (integration_max_response_bytes (ce_settings ce))
       (slack_call (ce_settings ce) path payload correlation is_write operation token)"

definition classify_read_response :: "settings \<Rightarrow> json_response \<Rightarrow> unit result" where
  "classify_read_response s response = (let status = js_status response in
     if is_success status then Inr ()
     else if status = 429
       then Inl (SlackRetryableFailure ''slack_rate_limited''
                   (slack_retry_after (js_headers response) (integration_max_retry_after_seconds s)))
     else if status \<in> {408, 500, 502, 503, 504} then Inl (SlackRetryableFailure ''slack_identity_unavailable'' None)
     else if status \<in> {401, 403} then Inl (SlackPermanentFailure ''slack_auth_rejected'')
     else Inl (SlackPermanentFailure ''slack_identity_rejected''))"

definition identity_error :: "exn \<Rightarrow> exn" where
  "identity_error e =
     (if e = RetryableHttpError then SlackRetryableFailure ''slack_identity_unavailable'' None
      else if is_provider_contract_error e then SlackPermanentFailure ''slack_auth_malformed''
      else e)"

text \<open>IDs are compared exactly; a bot ID only when one is configured.\<close>

definition identity_valid :: "settings \<Rightarrow> slack_identity \<Rightarrow> bool" where
  "identity_valid s i \<longleftrightarrow>
     Some (si_team_id i) = slack_expected_team_id s \<and> Some (si_user_id i) = slack_expected_user_id s \<and>
     (slack_expected_bot_id s = None \<or> si_bot_id i = slack_expected_bot_id s)"

definition identity_answer :: "settings \<Rightarrow> json_response \<Rightarrow> bool result" where
  "identity_answer s response =
     bindR (classify_read_response s response) (\<lambda>_.
     bindR (slack_object (SlackPermanentFailure ''slack_auth_malformed'') (js_payload response)) (\<lambda>payload.
     bindR (guardR (field payload ''ok'' = JBool True) (slack_api_error payload True)) (\<lambda>_.
     bindR (slack_identity_of payload) (\<lambda>i. Inr (identity_valid s i)))))"

definition verify_identity :: "client_env \<Rightarrow> string \<Rightarrow> bool slack_io" where
  "verify_identity ce correlation = (let s = ce_settings ce in
     bindE (current_credential ce) (\<lambda>(token, fingerprint).
     bindE (cache_authorizes ce fingerprint) (\<lambda>authorized.
       if authorized then ret True
       else bindE (rethrow identity_error (slack_request ce ''auth.test'' [] correlation False OP_IDENTITY token)) (\<lambda>response.
         bindE (liftR (identity_answer s response)) (\<lambda>valid.
           if valid
           then bindE (monotonic (ce_http ce)) (\<lambda>now.
             bindE (set_cache (Some \<lparr>ic_fingerprint = fingerprint, ic_team_id = slack_expected_team_id s,
                 ic_user_id = slack_expected_user_id s, ic_bot_id = slack_expected_bot_id s,
                 ic_verified_until = now + identity_cache_seconds\<rparr>)) (\<lambda>_. ret True))
           else bindE (set_cache None) (\<lambda>_. ret False))))))"

definition slack_unknown :: exn where
  "slack_unknown = SlackOutcomeUnknown ''slack_write_outcome_unknown''"

definition post_error :: "exn \<Rightarrow> exn" where
  "post_error e =
     (if e = AmbiguousWriteError then slack_unknown
      else if e = RetryableHttpError then SlackRetryableFailure ''slack_write_pretransmission_failure'' None
      else if is_provider_contract_error e then slack_unknown
      else e)"

definition classify_post :: "settings \<Rightarrow> json_response \<Rightarrow> unit result" where
  "classify_post s response = (let status = js_status response in
     if status = 429
       then Inl (SlackRetryableFailure ''slack_rate_limited''
                   (slack_retry_after (js_headers response) (integration_max_retry_after_seconds s)))
     else if status \<in> {408, 500, 502, 503, 504} then Inl slack_unknown
     else if status \<in> {401, 403} then Inl (SlackPermanentFailure ''slack_auth_rejected'')
     else if \<not> is_success status then Inl (SlackPermanentFailure ''slack_write_rejected'')
     else Inr ())"

definition receipt_of :: "slack_message \<Rightarrow> jobj \<Rightarrow> slack_receipt result" where
  "receipt_of request payload = (case (field payload ''channel'', field payload ''ts'') of
     (JStr c, JStr ts) \<Rightarrow>
       if c \<noteq> sm_channel request \<or> \<not> message_timestamp ts then Inl slack_unknown
       else make_slack_receipt \<lparr>rc_channel = c, rc_timestamp = ts\<rparr>
   | _ \<Rightarrow> Inl slack_unknown)"

definition post_answer :: "settings \<Rightarrow> slack_message \<Rightarrow> json_response \<Rightarrow> slack_receipt result" where
  "post_answer s request response =
     bindR (classify_post s response) (\<lambda>_.
     bindR (slack_object slack_unknown (js_payload response)) (\<lambda>payload.
     bindR (guardR (field payload ''ok'' \<in> {JBool True, JBool False}) slack_unknown) (\<lambda>_.
     bindR (guardR (field payload ''ok'' = JBool True) (slack_api_error payload False)) (\<lambda>_.
       receipt_of request payload))))"

definition post_notification :: "client_env \<Rightarrow> slack_message \<Rightarrow> string \<Rightarrow> slack_receipt slack_io" where
  "post_notification ce request correlation =
     bindE (current_credential ce) (\<lambda>(token, fingerprint).
     bindE (cache_authorizes ce fingerprint) (\<lambda>authorized.
       if \<not> authorized then raise (SlackRetryableFailure ''slack_identity_verification_required'' None)
       else bindE (rethrow post_error
              (slack_request ce ''chat.postMessage'' (provider_payload request) correlation True OP_WRITE token)) (\<lambda>response.
         liftR (post_answer (ce_settings ce) request response))))"

end
