(* ===== verification/Http_Boundary.thy ===== *)
theory Http_Boundary
  imports Slack_Client
begin

text \<open>
  What the HTTP boundary guarantees to the clients: where its requests go and how many they are
  (\<open>emits\<close>), and what an answer of the transport turns into (\<open>settled\<close>), so that the properties
  of the clients speak of the answers only.
\<close>

named_theorems emits_intros \<open>which requests a step hands to the transport\<close>

section \<open>Where requests go\<close>

text \<open>
  The URL has the scheme, host and port of the base URL and carries no user information.
\<close>

definition same_origin :: "string \<Rightarrow> string \<Rightarrow> bool" where
  "same_origin base_url url \<longleftrightarrow>
     (case (urlsplit (strip_right base_url @ ''/''), urlsplit url) of
        (Inr b, Inr u) \<Rightarrow> u_scheme u = u_scheme b \<and> hostname u = hostname b \<and>
          (\<exists>p. port u = Inr p \<and> port b = Inr p) \<and> username u = None \<and> password u = None
      | _ \<Rightarrow> False)"

lemma trusted_url_origin: "trusted_url base_url path = Inr url \<Longrightarrow> same_origin base_url url"
  by (auto simp: trusted_url_def same_origin_def Let_def result_simps split: if_splits)

definition emits :: "(http_request \<Rightarrow> bool) \<Rightarrow> nat \<Rightarrow> ('w, 'a) http_io \<Rightarrow> bool" where
  "emits P n m \<longleftrightarrow> (\<forall>w. \<exists>sent. ht_sent (snd (m w)) = ht_sent w @ sent \<and> length sent \<le> n \<and> list_all P sent)"

lemma emitsI:
  "(\<And>w. \<exists>sent. ht_sent (snd (m w)) = ht_sent w @ sent \<and> length sent \<le> n \<and> list_all P sent) \<Longrightarrow> emits P n m"
  by (simp add: emits_def)

lemma emitsE:
  assumes "emits P n m"
  obtains sent where "ht_sent (snd (m w)) = ht_sent w @ sent" "length sent \<le> n" "list_all P sent"
  using assms by (auto simp: emits_def)

lemma emits_weaken: "emits P n m \<Longrightarrow> n \<le> n' \<Longrightarrow> (\<And>rq. P rq \<Longrightarrow> P' rq) \<Longrightarrow> emits P' n' m"
  unfolding emits_def by (meson list.pred_mono_strong order_trans)

lemma emits_bind:
  assumes "emits P n m" and "\<And>x. emits P k (f x)"
  shows "emits P (n + k) (bindE m f)"
proof (rule emitsI)
  fix w
  obtain s1 where 1: "ht_sent (snd (m w)) = ht_sent w @ s1" "length s1 \<le> n" "list_all P s1"
    by (rule emitsE [OF assms(1)])
  show "\<exists>sent. ht_sent (snd (bindE m f w)) = ht_sent w @ sent \<and> length sent \<le> n + k \<and> list_all P sent"
  proof (cases "m w")
    case (Pair r w1)
    show ?thesis
    proof (cases r)
      case (Inl e)
      with Pair 1 show ?thesis by (auto simp: bindE_def)
    next
      case (Inr x)
      obtain s2 where "ht_sent (snd (f x w1)) = ht_sent w1 @ s2" "length s2 \<le> k" "list_all P s2"
        by (rule emitsE [OF assms(2)])
      with Pair Inr 1 show ?thesis by (intro exI [of _ "s1 @ s2"]) (simp add: bindE_def)
    qed
  qed
qed

lemma emits_catch:
  assumes "emits P n m" and "\<And>e k. h e = Some k \<Longrightarrow> emits P 0 k"
  shows "emits P n (catchE m h)"
proof (rule emitsI)
  fix w
  obtain s1 where 1: "ht_sent (snd (m w)) = ht_sent w @ s1" "length s1 \<le> n" "list_all P s1"
    by (rule emitsE [OF assms(1)])
  have k: "ht_sent (snd (k w1)) = ht_sent w1" if "h e = Some k" for e k w1
    using emitsE [OF assms(2) [OF that], of w1] by force
  show "\<exists>sent. ht_sent (snd (catchE m h w)) = ht_sent w @ sent \<and> length sent \<le> n \<and> list_all P sent"
    using 1 k by (intro exI [of _ s1]) (auto simp: catchE_def split: prod.splits sum.splits option.splits)
qed

lemma emits_none [emits_intros]:
  "emits P 0 (ret x)" "emits P 0 (raise e)" "emits P 0 (liftR res)" "emits P 0 (record_metric r)" "emits P 0 (monotonic he)"
  "emits P 0 (credential ce p)"
  by (auto simp: emits_def ret_def raise_def liftR_def record_metric_def monotonic_def credential_def bindE_def
      split: sum.splits)

lemma emits_bind_none:
  "emits P 0 m \<Longrightarrow> (\<And>x. emits P n (f x)) \<Longrightarrow> emits P n (bindE m f)"
  "emits P n m \<Longrightarrow> (\<And>x. emits P 0 (f x)) \<Longrightarrow> emits P n (bindE m f)"
  using emits_bind [of P 0 m n f] emits_bind [of P n m 0 f] by simp_all

lemma emits_rethrow: "emits P n m \<Longrightarrow> emits P n (rethrow f m)"
  unfolding rethrow_def by (rule emits_catch) (auto intro: emits_intros)

lemma emits_if: "(b \<Longrightarrow> emits P n m) \<Longrightarrow> (\<not> b \<Longrightarrow> emits P n k) \<Longrightarrow> emits P n (if b then m else k)"
  by simp

section \<open>What an answer turns into\<close>

text \<open>\<open>exchange\<close> without the rate-limit counter: a function of the answer.\<close>

definition settled ::
  "http_env \<Rightarrow> int \<Rightarrow> http_call \<Rightarrow> transport_answer \<Rightarrow> (exn + json_response) \<times> metric_outcome" where
  "settled he limit hc answer = (case answer of
     NoResponse t \<Rightarrow> failed (hc_write hc) O_SUCCESS (Broken t)
   | Response status raw_headers chunks broken \<Rightarrow>
       (case receive (hc_write hc) limit [] chunks broken of
          Inl fault \<Rightarrow> failed (hc_write hc) O_SUCCESS fault
        | Inr body \<Rightarrow>
            (case decode_payload he (hc_write hc) status (lower_headers raw_headers) body of
               Inl fault \<Rightarrow> failed (hc_write hc) O_SUCCESS fault
             | Inr payload \<Rightarrow>
                 (Inr \<lparr>js_status = status, js_headers = lower_headers raw_headers, js_payload = payload\<rparr>,
                  status_outcome status))))"

text \<open>The label mappings of the client fit the contract of their metrics, so that no metric raises.\<close>

lemma call_metrics_accepted:
  "\<exists>m. logging_increment PROVIDER_RATE_LIMIT_COUNT (call_labels hc) 1 = Inr m"
  "\<exists>m. logging_increment PROVIDER_REQUEST_COUNT (call_labels hc @ [(L_OUTCOME, V_OUTCOME outcome)]) 1 = Inr m"
  "0 \<le> q \<Longrightarrow> \<exists>m. logging_observe PROVIDER_LATENCY_SECONDS q (call_labels hc @ [(L_OUTCOME, V_OUTCOME outcome)]) = Inr m"
  by (auto simp: logging_increment_def logging_observe_def emit_def result_simps safe_labels_iff valid_labels_def
      call_labels_def)

lemma record_metric_ok: "r = Inr m \<Longrightarrow> record_metric r w = (Inr (), w\<lparr>ht_metrics := ht_metrics w @ [m]\<rparr>)"
  by (simp add: record_metric_def liftR_def bindE_def)

lemma exchange_settled:
  "\<exists>ms. exchange he limit hc answer w = (Inr (settled he limit hc answer), w\<lparr>ht_metrics := ht_metrics w @ ms\<rparr>)"
proof -
  have none: "\<exists>ms. w = w\<lparr>ht_metrics := ht_metrics w @ ms\<rparr>" by (intro exI [of _ "[]"]) simp
  have one: "\<exists>ms. w\<lparr>ht_metrics := ht_metrics w @ [m]\<rparr> = w\<lparr>ht_metrics := ht_metrics w @ ms\<rparr>" for m by blast
  obtain m where m: "logging_increment PROVIDER_RATE_LIMIT_COUNT (call_labels hc) 1 = Inr m"
    using call_metrics_accepted(1) by blast
  have limited: "catchE (bindE (record_metric (logging_increment PROVIDER_RATE_LIMIT_COUNT (call_labels hc) 1))
      (\<lambda>_. ret x)) h w = (Inr x, w\<lparr>ht_metrics := ht_metrics w @ [m]\<rparr>)" for x h
    using record_metric_ok [OF m, of w] by (simp add: catchE_def bindE_def ret_def)
  show ?thesis
    by (cases answer)
      (auto simp: exchange_def settled_def effect_simps(1) status_outcome_def Let_def limited none one split: sum.split)
qed

text \<open>The monotonic clock does not go back.\<close>

definition clock_ok :: "http_env \<Rightarrow> bool" where
  "clock_ok he \<longleftrightarrow> mono (he_monotonic he)"

lemma request_json_run:
  assumes clock: "clock_ok he"
  obtains (untrusted) e w' where "trusted_url (hc_base_url hc) (hc_path hc) = Inl e"
      "request_json he limit hc w = (Inl e, w')" "ht_sent w' = ht_sent w"
  | (sent) url w' where "trusted_url (hc_base_url hc) (hc_path hc) = Inr url"
      "request_json he limit hc w =
         (fst (settled he limit hc (he_transport he (ht_sent w @ [request_of hc url]))), w')"
      "ht_sent w' = ht_sent w @ [request_of hc url]"
proof (cases "trusted_url (hc_base_url hc) (hc_path hc)")
  case (Inl e)
  then show ?thesis
    by (intro untrusted [of e "w\<lparr>ht_clock := ht_clock w + 1\<rparr>"]) (auto simp: request_json_def monotonic_def bindE_def liftR_def)
next
  case (Inr url)
  define w1 where "w1 = w\<lparr>ht_clock := ht_clock w + 1, ht_sent := ht_sent w @ [request_of hc url]\<rparr>"
  define a where "a = he_transport he (ht_sent w @ [request_of hc url])"
  obtain ms where ex: "exchange he limit hc a w1 = (Inr (settled he limit hc a), w1\<lparr>ht_metrics := ht_metrics w1 @ ms\<rparr>)"
    using exchange_settled by blast
  obtain r outcome where s: "settled he limit hc a = (r, outcome)" by fastforce
  let ?labels = "call_labels hc @ [(L_OUTCOME, V_OUTCOME outcome)]"
  obtain m1 where m1: "logging_increment PROVIDER_REQUEST_COUNT ?labels 1 = Inr m1"
    using call_metrics_accepted(2) by blast
  have "he_monotonic he (ht_clock w) \<le> he_monotonic he (Suc (ht_clock w))"
    using clock by (simp add: clock_ok_def monoD)
  then obtain m2 where m2: "logging_observe PROVIDER_LATENCY_SECONDS
      (he_monotonic he (Suc (ht_clock w)) - he_monotonic he (ht_clock w)) ?labels = Inr m2"
    using call_metrics_accepted(3) [of "he_monotonic he (Suc (ht_clock w)) - he_monotonic he (ht_clock w)"] by auto
  have "\<exists>w'. request_json he limit hc w = (r, w') \<and> ht_sent w' = ht_sent w @ [request_of hc url]"
    using ex s m1 m2 Inr unfolding w1_def a_def
    by (simp add: request_json_def monotonic_def transmit_def record_metric_def bindE_def liftR_def Let_def)
  then obtain w' where "request_json he limit hc w = (r, w')" "ht_sent w' = ht_sent w @ [request_of hc url]" by blast
  then show ?thesis using Inr s unfolding a_def by (intro sent [of url w']) simp_all
qed

section \<open>Steps of a request\<close>

lemma emits_exchange [emits_intros]: "emits P 0 (exchange he limit hc answer)"
proof (rule emitsI)
  fix w :: "'a http_world_scheme"
  obtain ms where "exchange he limit hc answer w = (Inr (settled he limit hc answer), w\<lparr>ht_metrics := ht_metrics w @ ms\<rparr>)"
    using exchange_settled by blast
  then show "\<exists>sent. ht_sent (snd (exchange he limit hc answer w)) = ht_sent w @ sent \<and> length sent \<le> 0 \<and> list_all P sent"
    by simp
qed

lemma emits_transmit: "P rq \<Longrightarrow> emits P 1 (transmit he rq)"
  by (simp add: emits_def transmit_def Let_def)

lemma emits_request_json:
  assumes "\<And>url. trusted_url (hc_base_url hc) (hc_path hc) = Inr url \<Longrightarrow> P (request_of hc url)"
  shows "emits P 1 (request_json he limit hc :: ('b, json_response) http_io)"
proof (cases "trusted_url (hc_base_url hc) (hc_path hc)")
  case (Inl e)
  then show ?thesis
    by (auto simp: request_json_def emits_def monotonic_def bindE_def liftR_def)
next
  case (Inr url)
  have "emits P 1 (bindE (transmit he (request_of hc url)) (exchange he limit hc) :: ('b, _) http_io)"
    by (rule emits_bind_none(2), rule emits_transmit, rule assms, rule Inr, rule emits_exchange)
  then have rest: "emits P 1 (bindE (bindE (transmit he (request_of hc url)) (exchange he limit hc)) f)"
    if "\<And>x. emits P 0 (f x)" for f :: "_ \<Rightarrow> ('b, json_response) http_io"
    using that by (rule emits_bind_none(2))
  show ?thesis
    unfolding request_json_def Inr
  proof (rule emits_bind_none(1) [OF emits_none(5)])
    fix started
    have lift: "bindE (liftR (Inr url)) f = f url" for f :: "_ \<Rightarrow> ('b, json_response) http_io"
      by (rule ext) (simp add: bindE_def liftR_def)
    show "emits P 1 (bindE (liftR (Inr url)) (\<lambda>url.
        bindE (bindE (transmit he (request_of hc url)) (exchange he limit hc)) (\<lambda>(result, outcome).
        let labels = call_labels hc @ [(L_OUTCOME, V_OUTCOME outcome)] in
        bindE (record_metric (logging_increment PROVIDER_REQUEST_COUNT labels 1)) (\<lambda>_.
        bindE (monotonic he) (\<lambda>ended.
        bindE (record_metric (logging_observe PROVIDER_LATENCY_SECONDS (ended - started) labels)) (\<lambda>_.
          liftR result))))) :: ('b, json_response) http_io)"
      unfolding lift
      by (rule rest) (auto simp: Let_def split: prod.split intro!: emits_bind_none(1) emits_none)
  qed
qed

end
