(* ===== verification/Client_Safety.thy ===== *)
theory Client_Safety
  imports Http_Boundary
begin

text \<open>
  Which requests the provider clients send: to which host, with which credential, how many.
\<close>

section \<open>The operations of the clients\<close>

text \<open>One operation of a provider protocol, performed by its client for one task; results dropped.\<close>

definition ignoring :: "('w, 'a) http_io \<Rightarrow> ('w, unit) http_io" where
  "ignoring m = bindE m (\<lambda>_. ret ())"

primrec perform :: "client_env \<Rightarrow> string \<Rightarrow> provider_request \<Rightarrow> unit slack_io" where
  "perform ce correlation (FetchRecords service_id) = ignoring (fetch_records ce service_id correlation)"
| "perform ce correlation VerifyGitHubIdentity = ignoring (github_identity ce correlation)"
| "perform ce correlation (FetchContext repository number) = ignoring (fetch_context ce repository number correlation)"
| "perform ce correlation (FetchIssue key) = ignoring (fetch_issue ce key correlation)"
| "perform ce correlation (GetComment repository comment) = ignoring (get_comment ce repository comment correlation)"
| "perform ce correlation (FindCommentsByMarker repository number marker) =
     ignoring (find_comments_by_marker ce repository number marker correlation)"
| "perform ce correlation (CreateComment repository number body) =
     ignoring (create_comment ce repository number body correlation)"
| "perform ce correlation (UpdateComment repository comment body) =
     ignoring (update_comment ce repository comment body correlation)"
| "perform ce correlation VerifySlackIdentity = ignoring (verify_identity ce correlation)"
| "perform ce correlation (PostNotification message) = ignoring (post_notification ce message correlation)"

primrec provider_of :: "provider_request \<Rightarrow> metric_provider" where
  "provider_of (FetchRecords _) = P_SERVICE_CATALOG"
| "provider_of VerifyGitHubIdentity = P_GITHUB"
| "provider_of (FetchContext _ _) = P_GITHUB"
| "provider_of (FetchIssue _) = P_JIRA"
| "provider_of (GetComment _ _) = P_GITHUB"
| "provider_of (FindCommentsByMarker _ _ _) = P_GITHUB"
| "provider_of (CreateComment _ _ _) = P_GITHUB"
| "provider_of (UpdateComment _ _ _) = P_GITHUB"
| "provider_of VerifySlackIdentity = P_SLACK"
| "provider_of (PostNotification _) = P_SLACK"

primrec base_url_of :: "settings \<Rightarrow> metric_provider \<Rightarrow> string" where
  "base_url_of s P_SERVICE_CATALOG = service_catalog_base_url s"
| "base_url_of s P_JIRA = jira_base_url s"
| "base_url_of s P_GITHUB = github_base_url s"
| "base_url_of s P_SLACK = slack_base_url s"

text \<open>The header that shows a secret to a provider: basic authentication only for a Jira user.\<close>

definition authorization :: "settings \<Rightarrow> metric_provider \<Rightarrow> string \<Rightarrow> string" where
  "authorization s p secret = (case (p, jira_username s) of
     (P_JIRA, Some user) \<Rightarrow> ''Basic '' @ base64 (map of_char (encode (user @ '':'' @ secret)))
   | _ \<Rightarrow> ''Bearer '' @ secret)"

text \<open>A request for one provider shows at most a credential that was configured for this provider.\<close>

definition own_credential :: "client_env \<Rightarrow> metric_provider \<Rightarrow> http_request \<Rightarrow> bool" where
  "own_credential ce p rq \<longleftrightarrow> (case header (rq_headers rq) ''Authorization'' of
     None \<Rightarrow> True
   | Some v \<Rightarrow> \<exists>n secret. ce_secret ce p n = Inr (Some secret) \<and> v = authorization (ce_settings ce) p secret)"

definition request_limit :: "settings \<Rightarrow> provider_request \<Rightarrow> nat" where
  "request_limit s q = (case q of
     FetchContext _ _ \<Rightarrow> 3 | FindCommentsByMarker _ _ _ \<Rightarrow> nat (integration_max_pages s) | _ \<Rightarrow> 1)"

definition write_timeout_of :: "settings \<Rightarrow> metric_provider \<Rightarrow> rat" where
  "write_timeout_of s p = (if p = P_SLACK then slack_write_timeout_seconds s else integration_provider_write_timeout_seconds s)"

text \<open>
  What every request of an operation looks like. Reads are \<open>GET\<close> without a body, except Slack's
  \<open>auth.test\<close>, a \<open>POST\<close> of the empty object; writes have their time limit.
\<close>

definition expected_request :: "client_env \<Rightarrow> string \<Rightarrow> provider_request \<Rightarrow> http_request \<Rightarrow> bool" where
  "expected_request ce correlation q rq \<longleftrightarrow>
     (let s = ce_settings ce; p = provider_of q in
      same_origin (base_url_of s p) (rq_url rq) \<and> own_credential ce p rq \<and>
      header (rq_headers rq) ''X-Correlation-ID'' = Some correlation \<and>
      (if is_provider_write q
       then rq_method rq \<in> {''POST'', ''PATCH''} \<and> rq_timeout rq = Some (write_timeout_of s p)
       else rq_timeout rq = None \<and>
         (rq_method rq = ''GET'' \<and> rq_body rq = None \<or> p = P_SLACK \<and> rq_method rq = ''POST'' \<and> rq_body rq = Some [])))"

section \<open>Requests of the steps\<close>

lemma emits_with_secret:
  assumes "\<And>n secret. ce_secret ce p n = Inr secret \<Longrightarrow> emits P k (f secret)"
  shows "emits P k (bindE (credential ce p) f)"
proof (rule emitsI)
  fix w
  show "\<exists>sent. ht_sent (snd (bindE (credential ce p) f w)) = ht_sent w @ sent \<and> length sent \<le> k \<and> list_all P sent"
  proof (cases "ce_secret ce p (length (ht_sent w))")
    case (Inl e)
    then show ?thesis by (simp add: bindE_def credential_def)
  next
    case (Inr secret)
    then show ?thesis
      using emitsE [OF assms [OF Inr], of w] by (simp add: bindE_def credential_def) metis
  qed
qed

text \<open>The three targets of reads are the four providers but Slack.\<close>

definition target_ok :: "read_target \<Rightarrow> bool" where
  "target_ok rd \<longleftrightarrow> rd \<in> {catalog_target, jira_target, github_target}"

lemma read_target_fits:
  assumes "target_ok rd"
  shows "rd_base_url rd s = base_url_of s (rd_provider rd)"
    and "header (rd_headers rd s secret) ''Authorization'' =
           map_option (authorization s (rd_provider rd)) secret"
  using assms
  by (auto simp: target_ok_def catalog_target_def jira_target_def github_target_def header_def bearer_headers_def
      github_headers_def jira_headers_def basic_auth_header_def authorization_def split: option.splits)

lemma expected_read:
  assumes "target_ok rd" and "ce_secret ce (rd_provider rd) n = Inr secret"
    and "provider_of q = rd_provider rd" and "\<not> is_provider_write q"
    and "trusted_url (rd_base_url rd (ce_settings ce)) path = Inr url"
  shows "expected_request ce correlation q (request_of (read_call (ce_settings ce) rd operation correlation path secret) url)"
  using assms trusted_url_origin [OF assms(5)] read_target_fits [OF assms(1)]
  by (auto simp: expected_request_def own_credential_def request_of_def read_call_def header_def map_of_dict_set Let_def
      split: option.splits)

lemma emits_provider_read:
  assumes "target_ok rd" and "provider_of q = rd_provider rd" and "\<not> is_provider_write q"
  shows "emits (expected_request ce correlation q) 1 (provider_read ce rd operation correlation path)"
proof -
  have "emits (expected_request ce correlation q) 1
          (bindE (credential ce (rd_provider rd)) (\<lambda>secret.
             request_json (ce_http ce) (integration_max_response_bytes (ce_settings ce))
               (read_call (ce_settings ce) rd operation correlation path secret)))"
    by (intro emits_with_secret emits_request_json) (auto simp: read_call_def [abs_def] intro!: expected_read [unfolded read_call_def] assms)
  then show ?thesis
    unfolding provider_read_def Let_def
    by (intro emits_bind_none(2) [OF emits_rethrow]) (auto intro: emits_bind_none emits_intros)
qed

lemma emits_github_write:
  assumes "is_provider_write q" and "provider_of q = P_GITHUB" and "verb \<in> {''POST'', ''PATCH''}"
  shows "emits (expected_request ce correlation q) 1 (github_write ce verb path payload correlation)"
proof -
  have "expected_request ce correlation q
          (request_of (write_call (ce_settings ce) verb path payload correlation secret) url)"
    if "ce_secret ce P_GITHUB n = Inr secret" "trusted_url (github_base_url (ce_settings ce)) path = Inr url"
    for n secret url
    using assms that trusted_url_origin [OF that(2)]
    by (auto simp: expected_request_def own_credential_def request_of_def write_call_def header_def map_of_dict_set
        Let_def github_headers_def bearer_headers_def authorization_def write_timeout_of_def split: option.splits)
  then have "emits (expected_request ce correlation q) 1
          (bindE (credential ce P_GITHUB) (\<lambda>secret.
             request_json (ce_http ce) (integration_max_response_bytes (ce_settings ce))
               (write_call (ce_settings ce) verb path payload correlation secret)))"
    by (intro emits_with_secret emits_request_json) (simp add: write_call_def)
  then show ?thesis
    unfolding github_write_def Let_def
    by (intro emits_bind_none(2) [OF emits_rethrow]) (auto intro: emits_intros)
qed

lemma emits_ignoring: "emits P n m \<Longrightarrow> emits P n (ignoring m)"
  unfolding ignoring_def by (rule emits_bind_none(2)) (auto intro: emits_intros)

lemma emits_comments_page:
  assumes "provider_of q = P_GITHUB" and "\<not> is_provider_write q"
  shows "emits (expected_request ce correlation q) 1 (read_comments_page ce repository number correlation page)"
  unfolding read_comments_page_def
  by (intro emits_bind_none(1) [OF emits_none(3)] emits_bind_none(2) [OF emits_provider_read])
    (auto simp: assms target_ok_def github_target_def intro: emits_intros split: json.splits)

lemma emits_scan_pages:
  assumes "provider_of q = P_GITHUB" and "\<not> is_provider_write q"
  shows "emits (expected_request ce correlation q) (length pages)
    (scan_pages ce repository number marker correlation pages matches seen)"
proof (induction pages arbitrary: matches seen)
  case Nil
  then show ?case by (auto intro: emits_intros)
next
  case (Cons page pages)
  have len: "length (page # pages) = 1 + length pages" by simp
  show ?case
    unfolding scan_pages.simps len
    by (rule emits_bind [OF emits_comments_page [OF assms]])
      (auto simp: Let_def intro: Cons.IH emits_weaken [OF emits_none(1)])
qed

lemma emits_slack_token:
  assumes "\<And>token. (\<exists>n. ce_secret ce P_SLACK n = Inr (Some token)) \<Longrightarrow> emits P k (f (token, sha256_hex (encode token)))"
  shows "emits P k (bindE (current_credential ce) f)"
  unfolding current_credential_def bindE_assoc
proof (rule emitsI)
  fix w
  let ?c = "bindE (catchE (credential ce P_SLACK)
       (\<lambda>e. if is_os_error e \<or> is_value_error e
            then Some (raise (SlackPermanentFailure ''slack_credential_missing'')) else None)) (\<lambda>secret.
     bindE (case secret of
       None \<Rightarrow> raise (SlackPermanentFailure ''slack_credential_missing'')
     | Some token \<Rightarrow> if token = [] then raise (SlackPermanentFailure ''slack_credential_missing'')
                     else ret (token, sha256_hex (encode token))) f)"
  show "\<exists>sent. ht_sent (snd (?c w)) = ht_sent w @ sent \<and> length sent \<le> k \<and> list_all P sent"
  proof (cases "\<exists>token. ce_secret ce P_SLACK (length (ht_sent w)) = Inr (Some token) \<and> token \<noteq> []")
    case True
    then obtain token where t: "ce_secret ce P_SLACK (length (ht_sent w)) = Inr (Some token)" "token \<noteq> []" by blast
    then show ?thesis
      using emitsE [OF assms, of token w] by (simp add: bindE_def catchE_def credential_def ret_def) metis
  next
    case False
    then show ?thesis
      by (cases "ce_secret ce P_SLACK (length (ht_sent w))")
        (auto simp: bindE_def catchE_def credential_def raise_def split: option.splits)
  qed
qed

lemma emits_slack_state [emits_intros]:
  "emits P 0 (cache_authorizes ce fingerprint)" "emits P 0 (set_cache c)"
  by (auto simp: emits_def cache_authorizes_def set_cache_def monotonic_def bindE_def ret_def split: option.splits)

lemma emits_slack_request:
  assumes "provider_of q = P_SLACK" and "ce_secret ce P_SLACK n = Inr (Some token)"
    and "is_write = is_provider_write q" and "is_write \<or> payload = []"
  shows "emits (expected_request ce correlation q) 1
    (slack_request ce path payload correlation is_write operation token)"
  unfolding slack_request_def
proof (rule emits_request_json)
  fix url
  assume "trusted_url (hc_base_url (slack_call (ce_settings ce) path payload correlation is_write operation token))
    (hc_path (slack_call (ce_settings ce) path payload correlation is_write operation token)) = Inr url"
  then have "same_origin (slack_base_url (ce_settings ce)) url"
    by (auto simp: slack_call_def dest: trusted_url_origin)
  then show "expected_request ce correlation q
      (request_of (slack_call (ce_settings ce) path payload correlation is_write operation token) url)"
    using assms
    by (auto simp: expected_request_def own_credential_def request_of_def slack_call_def header_def map_of_dict_set
        Let_def authorization_def write_timeout_of_def)
qed

lemma emits_read_then:
  assumes "provider_of q = P_GITHUB" and "\<not> is_provider_write q" and "\<And>x. emits (expected_request ce correlation q) n (f x)"
  shows "emits (expected_request ce correlation q) (1 + n)
    (bindE (provider_read ce github_target operation correlation path) f)"
  by (rule emits_bind [OF emits_provider_read]) (simp_all add: assms target_ok_def github_target_def)

lemma emits_fetch_context:
  assumes "provider_of q = P_GITHUB" and "\<not> is_provider_write q"
  shows "emits (expected_request ce correlation q) (1 + (1 + (1 + 0))) (fetch_context ce repository number correlation)"
  unfolding fetch_context_def case_prod_unfold
  by (rule emits_bind_none(1) [OF emits_none(3)], rule emits_read_then [OF assms],
      rule emits_bind_none(1) [OF emits_none(3)], rule emits_read_then [OF assms],
      rule emits_read_then [OF assms], rule emits_none(3))

lemma emits_get_comment:
  assumes "provider_of q = P_GITHUB" and "\<not> is_provider_write q"
  shows "emits (expected_request ce correlation q) 1 (get_comment ce repository comment correlation)"
  unfolding get_comment_def
proof (rule emits_bind_none(2), rule emits_catch)
  show "emits (expected_request ce correlation q) 1
      (bindE (liftR (repository_path repository)) (\<lambda>repo_path.
        bindE (provider_read ce github_target OP_RECONCILIATION correlation
                 (''repos/'' @ repo_path @ ''/issues/comments/'' @ url_quote comment)) (\<lambda>response. ret (Some response))))"
    by (rule emits_bind_none(1) [OF emits_none(3)], rule emits_bind_none(2) [OF emits_provider_read emits_none(1)])
      (simp_all add: assms target_ok_def github_target_def)
qed (auto intro: emits_intros split: exn.splits option.splits)

lemma emits_single_read:
  assumes "target_ok rd" and "provider_of q = rd_provider rd" and "\<not> is_provider_write q"
  shows "emits (expected_request ce correlation q) 1
    (bindE (provider_read ce rd operation correlation path) (\<lambda>response. liftR (f response)))"
  by (rule emits_bind_none(2) [OF emits_provider_read [OF assms] emits_none(3)])

lemma emits_single_write:
  assumes "is_provider_write q" and "provider_of q = P_GITHUB" and "verb \<in> {''POST'', ''PATCH''}"
  shows "emits (expected_request ce correlation q) 1
    (bindE (liftR r) (\<lambda>p. bindE (github_write ce verb (path p) payload correlation) (\<lambda>response. liftR (f response))))"
  by (rule emits_bind_none(1) [OF emits_none(3)], rule emits_bind_none(2) [OF emits_github_write [OF assms] emits_none(3)])

lemma emits_slack_calls:
  "emits (expected_request ce correlation VerifySlackIdentity) 1 (verify_identity ce correlation)"
  "emits (expected_request ce correlation (PostNotification message)) 1 (post_notification ce message correlation)"
proof -
  have verify: "emits (expected_request ce correlation VerifySlackIdentity) 1
      (bindE (rethrow identity_error (slack_request ce ''auth.test'' [] correlation False OP_IDENTITY token)) f)"
    if "ce_secret ce P_SLACK n = Inr (Some token)" "\<And>x. emits (expected_request ce correlation VerifySlackIdentity) 0 (f x)"
    for n token and f :: "json_response \<Rightarrow> bool slack_io"
    by (rule emits_bind_none(2) [OF emits_rethrow [OF emits_slack_request [OF _ that(1)]] that(2)]) simp_all
  have post: "emits (expected_request ce correlation (PostNotification message)) 1
      (bindE (rethrow post_error (slack_request ce ''chat.postMessage'' payload correlation True OP_WRITE token)) (\<lambda>x. liftR (f x)))"
    if "ce_secret ce P_SLACK n = Inr (Some token)"
    for n token payload and f :: "json_response \<Rightarrow> slack_receipt result"
    by (rule emits_bind_none(2) [OF emits_rethrow [OF emits_slack_request [OF _ that]] emits_none(3)]) simp_all
  note states = emits_bind_none(1) [OF emits_slack_state(1)]
  show "emits (expected_request ce correlation VerifySlackIdentity) 1 (verify_identity ce correlation)"
    unfolding verify_identity_def Let_def
    by (rule emits_slack_token, elim exE)
      (auto intro!: states verify emits_bind_none(1) [OF emits_none(3)] emits_bind_none(1) [OF emits_none(5)]
        emits_bind_none(1) [OF emits_slack_state(2)] emits_none
        intro: emits_weaken [OF emits_none(1)] simp del: One_nat_def)
  show "emits (expected_request ce correlation (PostNotification message)) 1 (post_notification ce message correlation)"
    unfolding post_notification_def Let_def
    by (rule emits_slack_token, elim exE)
      (auto intro!: states post intro: emits_weaken [OF emits_none(2)] simp del: One_nat_def)
qed

lemma emits_perform:
  "emits (expected_request ce correlation q) (request_limit (ce_settings ce) q) (perform ce correlation q)"
proof (cases q)
  case (FindCommentsByMarker repository number marker)
  then show ?thesis
    using emits_scan_pages [of q ce correlation "[1..<nat (integration_max_pages (ce_settings ce) + 1)]" repository number marker "[]" 0]
    by (auto simp: request_limit_def find_comments_by_marker_def intro!: emits_ignoring elim: emits_weaken)
next
  case (FetchContext repository number)
  then show ?thesis
    using emits_fetch_context [of q ce correlation repository number]
    by (auto simp: request_limit_def numeral_3_eq_3 intro!: emits_ignoring)
qed (simp_all add: request_limit_def emits_ignoring emits_get_comment emits_slack_calls fetch_records_def github_identity_def fetch_issue_def create_comment_def
  update_comment_def emits_single_read emits_single_write target_ok_def catalog_target_def jira_target_def github_target_def del: One_nat_def)

end
