(* ===== verification/Client_Results.thy ===== *)
theory Client_Results
  imports Client_Safety
begin

text \<open>
  What the clients make of an answer: when a write is reported as not made, refused, made or
  unknown, and what every value a client returns satisfies.
\<close>

section \<open>Answers\<close>

text \<open>The connection failed: the request never reached the provider.\<close>

definition connection_failed :: "transport_answer \<Rightarrow> bool" where
  "connection_failed a = (case a of
     NoResponse t \<Rightarrow> is_connect_failure t
   | Response _ _ _ broken \<Rightarrow> (case broken of None \<Rightarrow> False | Some t \<Rightarrow> is_connect_failure t))"

text \<open>The response that an answer delivers as a whole, within the size limit and well formed.\<close>

definition delivered :: "http_env \<Rightarrow> int \<Rightarrow> transport_answer \<Rightarrow> json_response option" where
  "delivered he limit a = (case a of
     Response status raw_headers chunks None \<Rightarrow>
       (let body = concat chunks; headers = lower_headers raw_headers;
            response = (\<lambda>v. Some \<lparr>js_status = status, js_headers = headers, js_payload = v\<rparr>) in
        if chunks \<noteq> [] \<and> limit < int (length body) then None
        else if \<not> is_success status \<or> body = [] then response JNull
        else if is_json_content_type (case header headers ''content-type'' of None \<Rightarrow> [] | Some v \<Rightarrow> v)
          then (case he_loads he body of Loaded v \<Rightarrow> response v | _ \<Rightarrow> None)
        else None)
   | _ \<Rightarrow> None)"

text \<open>An exception of the transport or the JSON parser that no \<open>except\<close> clause names.\<close>

definition foreign_failure :: "http_env \<Rightarrow> transport_answer \<Rightarrow> exn \<Rightarrow> bool" where
  "foreign_failure he a e \<longleftrightarrow> (\<exists>f. e = foreign_exn f \<and> (case a of
     NoResponse t \<Rightarrow> t = OtherTransportError f
   | Response _ _ chunks broken \<Rightarrow>
       broken = Some (OtherTransportError f) \<or> he_loads he (concat chunks) = LoadsRaises f))"

lemma receive_Inr:
  "receive is_write limit body chunks broken = Inr b \<Longrightarrow>
     broken = None \<and> b = body @ concat chunks \<and> (chunks = [] \<or> int (length b) \<le> limit)"
proof (induction is_write limit body chunks broken rule: receive.induct)
  case (3 is_write limit body chunk chunks broken)
  then show ?case by (cases chunks) (auto split: if_splits)
qed auto

lemma receive_whole:
  "chunks = [] \<or> int (length (body @ concat chunks)) \<le> limit \<Longrightarrow>
     receive is_write limit body chunks None = Inr (body @ concat chunks)"
  by (induction is_write limit body chunks "None :: transport_error option" rule: receive.induct) auto

lemma receive_Inl:
  "receive is_write limit body chunks broken = Inl fault \<Longrightarrow>
     fault = Raised (too_large is_write) \<or> (\<exists>t. broken = Some t \<and> fault = Broken t)"
  by (induction is_write limit body chunks broken rule: receive.induct) (auto split: if_splits)

lemma fst_failed [simp]: "fst (failed is_write current fault) = Inl (fst (handle_fault is_write current fault))"
  by (simp add: failed_def split: prod.split)

lemma receive_iff:
  "receive is_write limit [] chunks broken = Inr body \<longleftrightarrow>
     broken = None \<and> body = concat chunks \<and> (chunks = [] \<or> int (length body) \<le> limit)"
proof
  assume "receive is_write limit [] chunks broken = Inr body"
  from receive_Inr [OF this] show "broken = None \<and> body = concat chunks \<and> (chunks = [] \<or> int (length body) \<le> limit)"
    unfolding append_Nil .
next
  assume "broken = None \<and> body = concat chunks \<and> (chunks = [] \<or> int (length body) \<le> limit)"
  then have whole: "broken = None" "body = concat chunks" and size: "chunks = [] \<or> int (length body) \<le> limit"
    by blast+
  from size have "chunks = [] \<or> int (length ([] @ concat chunks)) \<le> limit"
    unfolding whole(2) append_Nil .
  from receive_whole [OF this, of is_write] show "receive is_write limit [] chunks broken = Inr body"
    unfolding whole append_Nil .
qed

lemma settled_delivered:
  "fst (settled he limit hc a) = Inr response \<longleftrightarrow> delivered he limit a = Some response"
proof (cases a)
  case (NoResponse t)
  then show ?thesis by (simp add: settled_def delivered_def)
next
  case (Response status raw_headers chunks broken)
  show ?thesis
  proof (cases "receive (hc_write hc) limit [] chunks broken")
    case (Inl fault)
    then have "broken \<noteq> None \<or> chunks \<noteq> [] \<and> limit < int (length (concat chunks))"
      using receive_iff [of "hc_write hc" limit chunks broken "concat chunks"] by auto
    with Inl show ?thesis by (cases broken) (auto simp: Response settled_def delivered_def Let_def)
  next
    case (Inr body)
    then have "broken = None" "body = concat chunks" "chunks = [] \<or> int (length body) \<le> limit"
      unfolding receive_iff by blast+
    with Inr show ?thesis
      by (auto simp: Response settled_def delivered_def decode_payload_def Let_def split: loaded.splits option.splits)
  qed
qed

lemma settled_write_failure:
  assumes "hc_write hc" and "fst (settled he limit hc a) = Inl e"
  shows "e = RetryableHttpError \<and> connection_failed a \<or> e = AmbiguousWriteError \<or> foreign_failure he a e"
proof (cases a)
  case (NoResponse t)
  with assms show ?thesis
    by (cases t) (auto simp: settled_def handle_fault_def connection_failed_def foreign_failure_def)
next
  case (Response status raw_headers chunks broken)
  show ?thesis
  proof (cases "receive (hc_write hc) limit [] chunks broken")
    case (Inl fault)
    from receive_Inl [OF this] show ?thesis
    proof (elim disjE exE conjE)
      assume "fault = Raised (too_large (hc_write hc))"
      with Inl assms show ?thesis by (simp add: Response settled_def handle_fault_def too_large_def)
    next
      fix t
      assume "broken = Some t" "fault = Broken t"
      with Inl assms show ?thesis
        by (cases t) (auto simp: Response settled_def handle_fault_def connection_failed_def foreign_failure_def)
    qed
  next
    case (Inr body)
    then have "broken = None" "body = concat chunks" by (simp_all add: receive_iff)
    with Inr assms show ?thesis
      by (auto simp: Response settled_def handle_fault_def foreign_failure_def decode_payload_def bad_body_def
          split: loaded.splits if_splits)
  qed
qed

section \<open>Runs of a write\<close>

text \<open>
  A call ends without a request, with the response delivered, or with a failure of the exchange.
\<close>

lemma write_request_run:
  assumes "clock_ok he" and "hc_write hc" and "request_json he limit hc w = (r, w')"
  obtains (unsent) e where "r = Inl e" "ht_sent w' = ht_sent w" "trusted_url (hc_base_url hc) (hc_path hc) = Inl e"
  | (delivered) url response where "ht_sent w' = ht_sent w @ [request_of hc url]"
      "delivered he limit (he_transport he (ht_sent w')) = Some response" "r = Inr response"
  | (failed) url e where "ht_sent w' = ht_sent w @ [request_of hc url]" "r = Inl e"
      "e = RetryableHttpError \<and> connection_failed (he_transport he (ht_sent w')) \<or> e = AmbiguousWriteError \<or>
       foreign_failure he (he_transport he (ht_sent w')) e"
      "delivered he limit (he_transport he (ht_sent w')) = None"
proof (rule request_json_run [OF assms(1), of hc limit w])
  fix e w1
  assume "trusted_url (hc_base_url hc) (hc_path hc) = Inl e" "request_json he limit hc w = (Inl e, w1)" "ht_sent w1 = ht_sent w"
  with assms(3) show thesis by (intro unsent) simp_all
next
  fix url w1
  assume "request_json he limit hc w =
      (fst (settled he limit hc (he_transport he (ht_sent w @ [request_of hc url]))), w1)"
    and "ht_sent w1 = ht_sent w @ [request_of hc url]"
  with assms(3) have w': "ht_sent w' = ht_sent w @ [request_of hc url]"
    and r: "fst (settled he limit hc (he_transport he (ht_sent w'))) = r" by simp_all
  show thesis
  proof (cases r)
    case (Inl e)
    then have "delivered he limit (he_transport he (ht_sent w')) = None"
      using r settled_delivered [of he limit hc "he_transport he (ht_sent w')"]
      by (cases "delivered he limit (he_transport he (ht_sent w'))") auto
    with r w' Inl show thesis
      using settled_write_failure [OF assms(2)] by (intro failed) auto
  next
    case (Inr response)
    with r w' show thesis by (intro delivered) (auto simp: settled_delivered)
  qed
qed

lemma github_write_run:
  assumes "clock_ok (ce_http ce)" and "github_write ce verb path payload correlation w = (r, w')"
  obtains (unsent) e where "r = Inl e" "ht_sent w' = ht_sent w"
  | (delivered) rq response where "ht_sent w' = ht_sent w @ [rq]" "rq_method rq = verb" "rq_body rq = Some payload"
      "delivered (ce_http ce) (integration_max_response_bytes (ce_settings ce)) (he_transport (ce_http ce) (ht_sent w')) = Some response"
      "r = classify_write (ce_settings ce) response"
  | (failed) rq e where "ht_sent w' = ht_sent w @ [rq]" "rq_method rq = verb" "rq_body rq = Some payload" "r = Inl (write_error e)"
      "e = RetryableHttpError \<and> connection_failed (he_transport (ce_http ce) (ht_sent w')) \<or> e = AmbiguousWriteError \<or>
       foreign_failure (ce_http ce) (he_transport (ce_http ce) (ht_sent w')) e"
      "delivered (ce_http ce) (integration_max_response_bytes (ce_settings ce)) (he_transport (ce_http ce) (ht_sent w')) = None"
proof (cases "ce_secret ce P_GITHUB (length (ht_sent w))")
  case (Inl e)
  with assms(2) show thesis
    by (intro unsent) (auto simp: github_write_def rethrow_def catchE_def bindE_def credential_def raise_def Let_def)
next
  case (Inr secret)
  let ?call = "write_call (ce_settings ce) verb path payload correlation secret"
  obtain x w1 where run: "request_json (ce_http ce) (integration_max_response_bytes (ce_settings ce)) ?call w = (x, w1)"
    by fastforce
  with assms(2) Inr have r: "w' = w1" "r = (case x of Inl e \<Rightarrow> Inl (write_error e) | Inr response \<Rightarrow> classify_write (ce_settings ce) response)"
    by (auto simp: github_write_def rethrow_def catchE_def bindE_def credential_def raise_def liftR_def Let_def split: sum.splits)
  have call: "hc_write ?call" "rq_method (request_of ?call url) = verb" "rq_body (request_of ?call url) = Some payload" for url
    by (simp_all add: write_call_def request_of_def)
  show thesis
    using write_request_run [OF assms(1) call(1) run]
    by cases (use r call in \<open>auto intro: unsent delivered failed\<close>)
qed

text \<open>
  What HTTP itself says of a status: a client error (other than 408, a request that timed out, and
  429, a rate limit) refuses the request, so nothing was written. A success, a redirect, an
  informational status, 408 and a server error do not say that nothing was written. The code takes
  the statuses of this open group that it does not list for refusals.
\<close>

definition definite_refusal :: "int \<Rightarrow> bool" where
  "definite_refusal status \<longleftrightarrow> 400 \<le> status \<and> status < 500 \<and> status \<noteq> 408 \<and> status \<noteq> 429"

definition listed_as_open :: "int \<Rightarrow> bool" where
  "listed_as_open status \<longleftrightarrow> is_success status \<or> status \<in> {408, 500, 502, 503, 504}"

definition unlisted_status :: "int \<Rightarrow> bool" where
  "unlisted_status status \<longleftrightarrow> \<not> definite_refusal status \<and> \<not> listed_as_open status \<and> status \<noteq> 429"

text \<open>
  The report of a comment write, from the requests before and after it. Without a request there is
  an exception. With a request: a comment is what the provider confirmed; a retryable failure
  means that the connection failed or the provider limited the rate; a permanent one that the
  provider refused, or answered with an unlisted status, which refuses nothing; an unknown outcome
  that no answer arrived as a whole or one that leaves it open. Any other exception is one of the
  transport or of \<open>json.loads\<close> that no clause names.
\<close>

definition honest_write ::
  "client_env \<Rightarrow> http_request list \<Rightarrow> exn + github_comment \<Rightarrow> http_request list \<Rightarrow> bool" where
  "honest_write ce earlier r later \<longleftrightarrow>
     later = earlier \<and> (\<exists>e. r = Inl e) \<or>
     (\<exists>rq. later = earlier @ [rq] \<and>
       (let a = he_transport (ce_http ce) later;
            d = delivered (ce_http ce) (integration_max_response_bytes (ce_settings ce)) a in
        case r of
          Inr c \<Rightarrow> \<exists>response payload i. d = Some response \<and> is_success (js_status response) \<and>
            js_payload response = JObj payload \<and> field payload ''id'' = JInt i \<and> cm_identifier c = str_int i \<and>
            field payload ''body'' = JStr (cm_body c)
        | Inl e \<Rightarrow> (case e of
            RetryableProviderError _ _ \<Rightarrow> connection_failed a \<or> (\<exists>response. d = Some response \<and> js_status response = 429)
          | PermanentProviderError _ \<Rightarrow> (\<exists>response. d = Some response \<and>
              (definite_refusal (js_status response) \<or> unlisted_status (js_status response)))
          | ProviderWriteOutcomeUnknown _ \<Rightarrow> (\<forall>response. d = Some response \<longrightarrow> listed_as_open (js_status response))
          | _ \<Rightarrow> foreign_failure (ce_http ce) a e)))"

lemma classify_write_cases:
  "classify_write s response = Inr x \<Longrightarrow> x = response \<and> is_success (js_status response)"
  "classify_write s response = Inl e \<Longrightarrow>
     (\<exists>c d. e = RetryableProviderError c d) \<and> js_status response = 429 \<or>
     (\<exists>c. e = PermanentProviderError c) \<and> (definite_refusal (js_status response) \<or> unlisted_status (js_status response)) \<or>
     e = write_unknown \<and> listed_as_open (js_status response)"
  by (auto simp: classify_write_def definite_refusal_def unlisted_status_def listed_as_open_def Let_def split: if_splits)

lemma check_netloc_error: "check_netloc n = Inl e \<Longrightarrow> is_value_error e"
  by (auto simp: check_netloc_def check_bracketed_netloc_def check_bracketed_host_def bad_ipv6_def Let_def result_simps
      split: prod.splits if_splits option.splits)

lemma urlsplit_error: "urlsplit v = Inl e \<Longrightarrow> is_value_error e"
  by (auto simp: urlsplit_def Let_def result_simps dest: check_netloc_error split: prod.splits if_splits)

lemma port_error: "port u = Inl e \<Longrightarrow> is_value_error e"
  by (auto simp: port_def split: option.splits list.splits if_splits)

lemma url_errors:
  "provider_action_url v = Inl e \<Longrightarrow> is_value_error e"
  "canonical_source_url v' = Inl e' \<Longrightarrow> is_value_error e'"
  by (auto simp: provider_action_url_def canonical_source_url_def Let_def result_simps
      split: option.splits if_splits dest: urlsplit_error port_error)

lemma field_errors:
  "required_string kvs name = Inl e1 \<Longrightarrow> is_value_error e1"
  "required_int kvs name = Inl e2 \<Longrightarrow> is_value_error e2"
  "required_bool kvs name = Inl e3 \<Longrightarrow> is_value_error e3"
  "object_payload v = Inl e4 \<Longrightarrow> e4 = PermanentProviderError ''provider_contract_error''"
  "fromisoformat ce t = Inl e5 \<Longrightarrow> is_value_error e5"
  "string_value v = Inl e6 \<Longrightarrow> is_value_error e6"
  "string_list v = Inl e7 \<Longrightarrow> is_value_error e7"
  "int_value v = Inl e8 \<Longrightarrow> is_value_error e8"
  "bool_value v = Inl e9 \<Longrightarrow> is_value_error e9"
  by (auto simp: required_string_def required_int_def required_bool_def object_payload_def fromisoformat_def
      string_value_def string_list_def int_value_def bool_value_def split: json.splits if_splits)

lemma field_values:
  "required_string kvs name = Inr s \<longleftrightarrow> field kvs name = JStr s \<and> s \<noteq> []"
  "required_int kvs name = Inr i \<longleftrightarrow> field kvs name = JInt i"
  "object_payload v = Inr kvs \<longleftrightarrow> v = JObj kvs"
  by (auto simp: required_string_def required_int_def object_payload_def split: json.splits if_splits)

lemma on_error_eq:
  "on_error caught e r = Inr x \<longleftrightarrow> r = Inr x"
  "on_error caught e r = Inl e' \<longleftrightarrow> (\<exists>e0. r = Inl e0 \<and> e' = (if caught e0 then e else e0))"
  by (auto simp: on_error_def split: sum.splits)

lemma normalize_comment_Inr:
  "normalize_comment ce amb v = Inr c \<Longrightarrow>
     \<exists>payload i. v = JObj payload \<and> field payload ''id'' = JInt i \<and> cm_identifier c = str_int i \<and>
       field payload ''body'' = JStr (cm_body c)"
  by (auto simp: normalize_comment_def on_error_eq result_simps field_values)

lemma normalize_comment_Inl:
  "normalize_comment ce amb v = Inl e \<Longrightarrow> e = (if amb then write_unknown else github_contract_error)"
  by (auto simp: normalize_comment_def on_error_eq result_simps is_shape_error_def
      dest: field_errors url_errors split: if_splits)

lemma foreign_failure_exn: "foreign_failure he a e \<Longrightarrow> write_error e = e \<and> post_error e = e \<and> (\<exists>f. e = foreign_exn f)"
proof -
  assume "foreign_failure he a e"
  then obtain f where f: "e = foreign_exn f" by (auto simp: foreign_failure_def)
  have "write_error e = e \<and> post_error e = e" unfolding f by (cases f) (simp_all add: write_error_def post_error_def)
  with f show ?thesis by blast
qed

lemma honest_comment_write:
  assumes "clock_ok (ce_http ce)"
    and "bindE (liftR (repository_path repository)) (\<lambda>repo_path.
       bindE (github_write ce verb (path repo_path) payload correlation) (\<lambda>response.
       liftR (normalize_comment ce True (js_payload response)))) w = (r, w')"
  shows "honest_write ce (ht_sent w) r (ht_sent w')"
proof (cases "repository_path repository")
  case (Inl e)
  with assms(2) show ?thesis by (auto simp: honest_write_def bindE_def liftR_def)
next
  case (Inr repo_path)
  obtain x w1 where run: "github_write ce verb (path repo_path) payload correlation w = (x, w1)" by fastforce
  with assms(2) Inr have r: "w' = w1" "r = bindR x (\<lambda>response. normalize_comment ce True (js_payload response))"
    by (auto simp: bindE_def liftR_def split: sum.splits)
  from assms(1) run show ?thesis
  proof (cases rule: github_write_run)
    case (unsent e)
    then show ?thesis using r by (auto simp: honest_write_def)
  next
    case (delivered rq response)
    show ?thesis
    proof (cases "classify_write (ce_settings ce) response")
      case (Inl e)
      then have "r = Inl e" using r delivered by simp
      then show ?thesis using classify_write_cases(2) [OF Inl] delivered r
        by (auto simp: honest_write_def Let_def write_unknown_def)
    next
      case (Inr x')
      then have x': "x' = response" "is_success (js_status response)" using classify_write_cases(1) by blast+
      show ?thesis
      proof (cases "normalize_comment ce True (js_payload response)")
        case (Inl e)
        then have "r = Inl write_unknown" using normalize_comment_Inl [OF Inl] Inr x' delivered r by simp
        then show ?thesis using delivered r x'(2) by (auto simp: honest_write_def Let_def write_unknown_def listed_as_open_def)
      next
        case (Inr c)
        then have "r = Inr c" using \<open>classify_write (ce_settings ce) response = Inr x'\<close> x' delivered r by simp
        then show ?thesis using normalize_comment_Inr [OF Inr] x'(2) delivered r
          by (auto simp: honest_write_def Let_def)
      qed
    qed
  next
    case (failed rq e)
    have sent: "ht_sent w' = ht_sent w @ [rq]" and re: "r = Inl (write_error e)"
      and none: "delivered (ce_http ce) (integration_max_response_bytes (ce_settings ce)) (he_transport (ce_http ce) (ht_sent w')) = None"
      using r failed by simp_all
    from failed(5) show ?thesis
    proof (elim disjE conjE)
      assume "e = RetryableHttpError" "connection_failed (he_transport (ce_http ce) (ht_sent w1))"
      with sent re r(1) show ?thesis by (auto simp: honest_write_def Let_def write_error_def)
    next
      assume "e = AmbiguousWriteError"
      with sent re none show ?thesis by (auto simp: honest_write_def Let_def write_error_def write_unknown_def)
    next
      assume f: "foreign_failure (ce_http ce) (he_transport (ce_http ce) (ht_sent w1)) e"
      then have "r = Inl e" "\<exists>f. e = foreign_exn f" using foreign_failure_exn re by auto
      then obtain g where "r = Inl (foreign_exn g)" "e = foreign_exn g" by blast
      with sent f r(1) show ?thesis by (cases g) (auto simp: honest_write_def Let_def)
    qed
  qed
qed

section \<open>Posts to Slack\<close>

text \<open>
  An honest report of a post. Without a request there is an exception; with one, a receipt is what
  Slack confirmed for the requested channel, a retryable failure means that the connection failed
  or Slack limited the rate, a permanent one that Slack refused by its status or by \<open>ok: false\<close> or
  answered with an unlisted status, an unknown outcome that no answer arrived as a whole or one
  that leaves it open.
\<close>

definition honest_post ::
  "client_env \<Rightarrow> slack_message \<Rightarrow> http_request list \<Rightarrow> exn + slack_receipt \<Rightarrow> http_request list \<Rightarrow> bool" where
  "honest_post ce message earlier r later \<longleftrightarrow>
     later = earlier \<and> (\<exists>e. r = Inl e) \<or>
     (\<exists>rq. later = earlier @ [rq] \<and>
       (let a = he_transport (ce_http ce) later;
            d = delivered (ce_http ce) (integration_max_response_bytes (ce_settings ce)) a;
            said = (\<lambda>ok payload. \<exists>response. d = Some response \<and> is_success (js_status response) \<and>
              js_payload response = JObj payload \<and> field payload ''ok'' = JBool ok) in
        case r of
          Inr c \<Rightarrow> rc_channel c = sm_channel message \<and> message_timestamp (rc_timestamp c) \<and>
            (\<exists>payload. said True payload \<and> field payload ''ts'' = JStr (rc_timestamp c))
        | Inl e \<Rightarrow> (case e of
            SlackRetryableFailure _ _ \<Rightarrow> connection_failed a \<or> (\<exists>response. d = Some response \<and> js_status response = 429) \<or>
              (\<exists>payload. said False payload \<and> field payload ''error'' = JStr ''ratelimited'')
          | SlackPermanentFailure _ \<Rightarrow> (\<exists>response. d = Some response \<and>
                (definite_refusal (js_status response) \<or> unlisted_status (js_status response))) \<or>
              (\<exists>payload. said False payload)
          | SlackOutcomeUnknown _ \<Rightarrow> (\<forall>response. d = Some response \<longrightarrow> listed_as_open (js_status response))
          | ValidationError \<Rightarrow> (\<exists>payload. said True payload) \<and> \<not> slack_channel (sm_channel message)
          | _ \<Rightarrow> foreign_failure (ce_http ce) a e)))"

lemma classify_post_cases:
  "classify_post s response = Inr u \<Longrightarrow> is_success (js_status response)"
  "classify_post s response = Inl e \<Longrightarrow>
     (\<exists>c d. e = SlackRetryableFailure c d) \<and> js_status response = 429 \<or>
     (\<exists>c. e = SlackPermanentFailure c) \<and> (definite_refusal (js_status response) \<or> unlisted_status (js_status response)) \<or>
     e = slack_unknown \<and> listed_as_open (js_status response)"
  by (auto simp: classify_post_def definite_refusal_def unlisted_status_def listed_as_open_def is_success_def Let_def
      split: if_splits)

lemma slack_api_error_cases:
  "(\<exists>c d. slack_api_error kvs False = SlackRetryableFailure c d) \<and> field kvs ''error'' = JStr ''ratelimited'' \<or>
   (\<exists>c. slack_api_error kvs False = SlackPermanentFailure c)"
  by (auto simp: slack_api_error_def Let_def split: json.splits)

lemma receipt_of_cases:
  "receipt_of m kvs = Inr c \<Longrightarrow>
     rc_channel c = sm_channel m \<and> field kvs ''ts'' = JStr (rc_timestamp c) \<and> message_timestamp (rc_timestamp c)"
  "receipt_of m kvs = Inl e \<Longrightarrow> e = slack_unknown \<or> e = ValidationError \<and> \<not> slack_channel (sm_channel m)"
  by (auto simp: receipt_of_def make_slack_receipt_def result_simps split: json.splits if_splits)

text \<open>What a delivered response is reported as.\<close>

lemma post_answer_cases:
  "post_answer s m response = Inr c \<Longrightarrow>
     is_success (js_status response) \<and> rc_channel c = sm_channel m \<and> message_timestamp (rc_timestamp c) \<and>
     (\<exists>kvs. js_payload response = JObj kvs \<and> field kvs ''ok'' = JBool True \<and> field kvs ''ts'' = JStr (rc_timestamp c))"
  "post_answer s m response = Inl e \<Longrightarrow>
     (\<exists>c d. e = SlackRetryableFailure c d) \<and> js_status response = 429 \<or>
     (\<exists>c. e = SlackPermanentFailure c) \<and> (definite_refusal (js_status response) \<or> unlisted_status (js_status response)) \<or>
     e = slack_unknown \<and> listed_as_open (js_status response) \<or>
     (\<exists>kvs. is_success (js_status response) \<and> js_payload response = JObj kvs \<and>
        (field kvs ''ok'' = JBool True \<and> e = ValidationError \<and> \<not> slack_channel (sm_channel m) \<or>
         field kvs ''ok'' = JBool False \<and>
           ((\<exists>c d. e = SlackRetryableFailure c d) \<and> field kvs ''error'' = JStr ''ratelimited'' \<or>
            (\<exists>c. e = SlackPermanentFailure c))))"
proof -
  show "is_success (js_status response) \<and> rc_channel c = sm_channel m \<and> message_timestamp (rc_timestamp c) \<and>
     (\<exists>kvs. js_payload response = JObj kvs \<and> field kvs ''ok'' = JBool True \<and> field kvs ''ts'' = JStr (rc_timestamp c))"
    if "post_answer s m response = Inr c"
    using that by (auto simp: post_answer_def slack_object_def result_simps dest: classify_post_cases(1) receipt_of_cases(1)
        split: json.splits)
  assume "post_answer s m response = Inl e"
  then consider "classify_post s response = Inl e"
    | "e = slack_unknown" "is_success (js_status response)"
    | kvs where "is_success (js_status response)" "js_payload response = JObj kvs" "field kvs ''ok'' = JBool False"
        "e = slack_api_error kvs False"
    | kvs where "is_success (js_status response)" "js_payload response = JObj kvs" "field kvs ''ok'' = JBool True"
        "receipt_of m kvs = Inl e"
    by (auto simp: post_answer_def slack_object_def result_simps dest: classify_post_cases(1) split: json.splits)
  then show "(\<exists>c d. e = SlackRetryableFailure c d) \<and> js_status response = 429 \<or>
     (\<exists>c. e = SlackPermanentFailure c) \<and> (definite_refusal (js_status response) \<or> unlisted_status (js_status response)) \<or>
     e = slack_unknown \<and> listed_as_open (js_status response) \<or>
     (\<exists>kvs. is_success (js_status response) \<and> js_payload response = JObj kvs \<and>
        (field kvs ''ok'' = JBool True \<and> e = ValidationError \<and> \<not> slack_channel (sm_channel m) \<or>
         field kvs ''ok'' = JBool False \<and>
           ((\<exists>c d. e = SlackRetryableFailure c d) \<and> field kvs ''error'' = JStr ''ratelimited'' \<or>
            (\<exists>c. e = SlackPermanentFailure c))))"
  proof cases
    case 1
    then show ?thesis using classify_post_cases(2) by blast
  next
    case (3 kvs)
    then show ?thesis using slack_api_error_cases [of kvs] by blast
  next
    case (4 kvs)
    then show ?thesis using receipt_of_cases(2) by (auto simp: listed_as_open_def)
  qed (auto simp: listed_as_open_def)
qed

lemma slack_steps_world:
  "snd (current_credential ce w) = w"
  "ht_sent (snd (cache_authorizes ce fingerprint w)) = ht_sent w"
  by (auto simp: current_credential_def catchE_def bindE_def credential_def raise_def ret_def cache_authorizes_def
      monotonic_def split: option.splits sum.splits)

lemma honest_post_notification:
  assumes "clock_ok (ce_http ce)" and "post_notification ce message correlation w = (r, w')"
  shows "honest_post ce message (ht_sent w) r (ht_sent w')"
proof (cases "current_credential ce w")
  case (Pair x w0)
  then have w0: "w0 = w" using slack_steps_world(1) [of ce w] by simp
  show ?thesis
  proof (cases x)
    case (Inl e)
    with Pair w0 assms(2) show ?thesis by (auto simp: honest_post_def post_notification_def bindE_def)
  next
    case (Inr tf)
    obtain token fingerprint where tf: "tf = (token, fingerprint)" by (cases tf)
    obtain y w1 where cache: "cache_authorizes ce fingerprint w = (y, w1)" by fastforce
    then have w1: "ht_sent w1 = ht_sent w" using slack_steps_world(2) [of ce fingerprint w] by simp
    show ?thesis
    proof (cases "y = Inr True")
      case False
      with Pair Inr tf w0 cache w1 assms(2) show ?thesis
        by (auto simp: honest_post_def post_notification_def bindE_def raise_def split: sum.splits if_splits)
    next
      case True
      let ?call = "slack_call (ce_settings ce) ''chat.postMessage'' (provider_payload message) correlation True OP_WRITE token"
      obtain z w2 where run: "request_json (ce_http ce) (integration_max_response_bytes (ce_settings ce)) ?call w1 = (z, w2)"
        by fastforce
      have r: "w' = w2" "r = (case z of Inl e \<Rightarrow> Inl (post_error e) | Inr response \<Rightarrow> post_answer (ce_settings ce) message response)"
        using Pair Inr tf w0 cache True run assms(2)
        by (auto simp: post_notification_def slack_request_def bindE_def rethrow_def catchE_def raise_def liftR_def split: sum.splits)
      have "hc_write ?call" by (simp add: slack_call_def)
      from assms(1) this run show ?thesis
      proof (cases rule: write_request_run)
        case (unsent e)
        then show ?thesis using r w1 by (simp add: honest_post_def)
      next
        case (delivered url response)
        then have ans: "post_answer (ce_settings ce) message response = r" using r by simp
        have sent: "ht_sent w' = ht_sent w @ [request_of ?call url]" using delivered r w1 by simp
        have d: "delivered (ce_http ce) (integration_max_response_bytes (ce_settings ce))
            (he_transport (ce_http ce) (ht_sent w @ [request_of ?call url])) = Some response"
          using delivered w1 by simp
        show ?thesis
        proof (cases r)
          case (Inl e)
          show ?thesis using post_answer_cases(2) [OF ans [unfolded Inl]]
            by (elim disjE exE conjE) (auto simp: honest_post_def sent d Inl Let_def slack_unknown_def)
        next
          case (Inr c)
          show ?thesis using post_answer_cases(1) [OF ans [unfolded Inr]]
            by (elim exE conjE) (auto simp: honest_post_def sent d Inr Let_def)
        qed
      next
        case (failed url e)
        then have sent: "ht_sent w' = ht_sent w @ [request_of ?call url]" and re: "r = Inl (post_error e)"
          and none: "delivered (ce_http ce) (integration_max_response_bytes (ce_settings ce)) (he_transport (ce_http ce) (ht_sent w')) = None"
          using r w1 by simp_all
        from failed(3) show ?thesis
        proof (elim disjE conjE)
          assume "e = RetryableHttpError" "connection_failed (he_transport (ce_http ce) (ht_sent w2))"
          with sent re r(1) show ?thesis by (auto simp: honest_post_def Let_def post_error_def)
        next
          assume "e = AmbiguousWriteError"
          with sent re none show ?thesis by (auto simp: honest_post_def Let_def post_error_def slack_unknown_def)
        next
          assume f: "foreign_failure (ce_http ce) (he_transport (ce_http ce) (ht_sent w2)) e"
          then have "r = Inl e" "\<exists>f. e = foreign_exn f" using foreign_failure_exn re by auto
          then obtain g where "r = Inl (foreign_exn g)" "e = foreign_exn g" by blast
          with sent f r(1) show ?thesis by (cases g) (auto simp: honest_post_def Let_def)
        qed
      qed
    qed
  qed
qed

end
