(* ===== verification/Comment_Search.thy ===== *)
theory Comment_Search
  imports Client_Safety
begin

text \<open>
  The bounded search for the comments that carry a marker. The contract of a listing is the
  locale \<open>comment_listing\<close>: page \<open>p\<close> of a list of comments is its \<open>p\<close>-th slice of 100.
\<close>

text \<open>The last page a search reads when all pages are full: the page bound or the item bound.\<close>

definition last_page :: "settings \<Rightarrow> nat" where
  "last_page s = min (nat (integration_max_pages s)) (nat ((integration_max_items s + 99) div 100))"

definition search_bounds :: "settings \<Rightarrow> bool" where
  "search_bounds s \<longleftrightarrow> 1 \<le> integration_max_pages s \<and> 1 \<le> integration_max_items s"

lemma settings_search_bounds: "make_settings s = Inr s' \<Longrightarrow> search_bounds s'"
  by (auto simp: make_settings_Inr settings_fields_ok_def search_bounds_def in_range_def)

lemma last_page_stops:
  assumes "search_bounds s" and "1 \<le> p"
  shows "int p = integration_max_pages s \<or> integration_max_items s \<le> 100 * int p \<longleftrightarrow>
    p = last_page s \<or> last_page s < p \<and> (int p = integration_max_pages s \<or> integration_max_items s \<le> 100 * int p)"
    and "p < last_page s \<Longrightarrow> int p < integration_max_pages s \<and> 100 * int p < integration_max_items s"
    and "1 \<le> last_page s" and "int (last_page s) \<le> integration_max_pages s"
  using assms by (auto simp: last_page_def search_bounds_def min_def split: if_splits; linarith)+

definition page_of :: "nat \<Rightarrow> 'a list \<Rightarrow> 'a list" where
  "page_of p xs = take comments_page (drop (comments_page * (p - 1)) xs)"

definition marked :: "string \<Rightarrow> github_comment \<Rightarrow> bool" where
  "marked marker c \<longleftrightarrow> py_in marker (cm_body c)"

text \<open>Slices of 100 add up.\<close>

lemma page_of_add: "1 \<le> p \<Longrightarrow> take (100 * (p - 1)) xs @ page_of p xs = take (100 * p) xs"
proof -
  assume "1 \<le> p"
  then have "100 * p = 100 * (p - 1) + 100" by simp
  then show ?thesis unfolding page_of_def comments_page_def by (metis take_add)
qed

lemma length_page_of: "length (page_of p xs) = min 100 (length xs - 100 * (p - 1))"
  by (simp add: page_of_def comments_page_def)

text \<open>What a search over a listing should answer.\<close>

definition search_result :: "settings \<Rightarrow> string \<Rightarrow> github_comment list \<Rightarrow> comment_search" where
  "search_result s marker comments =
     \<lparr>cs_comments = filter (marked marker) (take (100 * last_page s) comments),
      cs_complete = (length comments < 100 * last_page s)\<rparr>"

text \<open>
  The bound holds without any contract: a page that is not short has at least 100 comments, so
  after \<open>last_page\<close> pages one of the bounds stops the loop, whatever the provider answers.
\<close>

lemma scan_bounded:
  assumes "search_bounds (ce_settings ce)" and "provider_of q = P_GITHUB" and "\<not> is_provider_write q"
    and "1 \<le> p" and "p \<le> last_page (ce_settings ce)" and "100 * (p - 1) \<le> seen"
  shows "emits (expected_request ce correlation q) (last_page (ce_settings ce) + 1 - p)
    (scan_pages ce repository number marker correlation [p..<Suc (nat (integration_max_pages (ce_settings ce)))] matches seen
      :: ('w, comment_search) http_io)"
  using assms(4-6)
proof (induction p arbitrary: matches seen rule: measure_induct_rule [of "\<lambda>p. last_page (ce_settings ce) - p"])
  case (less p matches seen)
  let ?m = "nat (integration_max_pages (ce_settings ce))" and ?last = "last_page (ce_settings ce)"
  have "p < Suc ?m" using less.prems(2) last_page_stops(4) [OF assms(1) less.prems(1)] by linarith
  then have pages: "[p..<Suc ?m] = p # [Suc p..<Suc ?m]" by (rule upt_conv_Cons)
  have len: "?last + 1 - p = 1 + (?last - p)" using less.prems(2) by simp
  have next_page: "emits (expected_request ce correlation q) (?last - p)
      (scan_pages ce repository number marker correlation [Suc p..<Suc ?m] matches' seen' :: ('w, comment_search) http_io)"
    if going: "\<not> (int p = integration_max_pages (ce_settings ce) \<or> integration_max_items (ce_settings ce) \<le> int seen')" "100 * p \<le> seen'"
    for matches' seen'
  proof -
    have "p \<noteq> ?last" using last_page_stops(1) [OF assms(1) less.prems(1)] going by auto
    then have prems: "?last - Suc p < ?last - p" "1 \<le> Suc p" "Suc p \<le> ?last" "100 * (Suc p - 1) \<le> seen'"
      using less.prems(2) going(2) by simp_all
    have "?last + 1 - Suc p = ?last - p" by simp
    then show ?thesis using less.IH [OF prems, of matches'] by metis
  qed
  have found: "emits (expected_request ce correlation q) n (ret search)" for n and search :: comment_search
    by (simp add: emits_def ret_def)
  show ?case
    unfolding pages scan_pages.simps len
    by (rule emits_bind [OF emits_comments_page [OF assms(2,3)]])
      (use less.prems next_page found in \<open>auto simp: Let_def comments_page_def simp del: upt_Suc\<close>)
qed

lemma scan_matches:
  assumes "fst (scan_pages ce repository number marker correlation pages matches seen w) = Inr found"
    and "list_all (marked marker) matches"
  shows "list_all (marked marker) (cs_comments found)"
  using assms
proof (induction pages arbitrary: matches seen w)
  case (Cons page pages)
  obtain r w' where read: "read_comments_page ce repository number correlation page w = (r, w')" by fastforce
  then obtain comments where "r = Inr comments" using Cons.prems(1) by (cases r) (simp_all add: bindE_def)
  moreover have "list_all (marked marker) (matches @ filter (\<lambda>c. py_in marker (cm_body c)) comments)"
    using Cons.prems(2) by (auto simp: list_all_iff marked_def)
  ultimately show ?case using Cons.prems(1) Cons.IH read by (auto simp: bindE_def ret_def Let_def split: if_splits)
qed (auto simp: ret_def)

locale comment_listing =
  fixes ce :: client_env and repository :: string and number :: int and correlation :: string
    and comments :: "github_comment list" and inv :: "'w http_world_scheme \<Rightarrow> bool"
  assumes bounds: "inv w \<Longrightarrow> search_bounds (ce_settings ce)"
    and page: "inv w \<Longrightarrow> 1 \<le> p \<Longrightarrow> p \<le> last_page (ce_settings ce) \<Longrightarrow> \<exists>w' rq.
      read_comments_page ce repository number correlation p w = (Inr (page_of p comments), w') \<and>
      ht_sent w' = ht_sent w @ [rq] \<and> inv w'"
begin

text \<open>One round of the loop on page \<open>p\<close> when all pages before it were full.\<close>

lemma scan_round:
  assumes "inv w" and p: "1 \<le> p" "p \<le> last_page (ce_settings ce)" "100 * (p - 1) \<le> length comments"
  obtains w' rq where "ht_sent w' = ht_sent w @ [rq]" "inv w'"
    "scan_pages ce repository number marker correlation (p # pages)
       (filter (marked marker) (take (100 * (p - 1)) comments)) (100 * (p - 1)) w =
     (if length comments < 100 * p \<or> p = last_page (ce_settings ce) then (Inr (search_result (ce_settings ce) marker comments), w')
      else scan_pages ce repository number marker correlation pages
             (filter (marked marker) (take (100 * p) comments)) (100 * p) w')"
proof -
  obtain w' rq where run: "read_comments_page ce repository number correlation p w = (Inr (page_of p comments), w')"
    and w': "ht_sent w' = ht_sent w @ [rq]" "inv w'"
    using page [OF assms(1) p(1,2)] by blast
  have matches: "filter (marked marker) (take (100 * (p - 1)) comments) @
      filter (\<lambda>c. py_in marker (cm_body c)) (page_of p comments) = filter (marked marker) (take (100 * p) comments)"
    using page_of_add [OF p(1), of comments] by (metis (mono_tags, lifting) filter_append filter_cong marked_def)
  have short: "length (page_of p comments) < 100 \<longleftrightarrow> length comments < 100 * p"
    and full: "\<not> length comments < 100 * p \<Longrightarrow> 100 * (p - 1) + length (page_of p comments) = 100 * p"
    using p(1,3) by (auto simp: length_page_of)
  have all: "length comments < 100 * p \<Longrightarrow> take (100 * p) comments = take (100 * last_page (ce_settings ce)) comments"
    using p(2) by simp
  have done': "length comments < 100 * p \<Longrightarrow> length comments < 100 * last_page (ce_settings ce)"
    using p(2) by simp
  have stop: "int p = integration_max_pages (ce_settings ce) \<or> integration_max_items (ce_settings ce) \<le> 100 * int p
      \<longleftrightarrow> p = last_page (ce_settings ce)"
    using last_page_stops [OF bounds [OF assms(1)] p(1)] p(2) by (cases "p < last_page (ce_settings ce)") auto
  show ?thesis
    using run w' matches short full all done' stop
    by (intro that [of w' rq]) (auto simp: bindE_def ret_def Let_def comments_page_def search_result_def)
qed

lemma scan_from:
  assumes "inv w" and "1 \<le> p" and "p \<le> last_page (ce_settings ce)" and "100 * (p - 1) \<le> length comments"
  shows "\<exists>w' sent. scan_pages ce repository number marker correlation
      [p..<Suc (nat (integration_max_pages (ce_settings ce)))]
      (filter (marked marker) (take (100 * (p - 1)) comments)) (100 * (p - 1)) w = (Inr (search_result (ce_settings ce) marker comments), w') \<and>
    ht_sent w' = ht_sent w @ sent \<and>
    length sent + (p - 1) = min (last_page (ce_settings ce)) (length comments div 100 + 1) \<and> inv w'"
  using assms
proof (induction p arbitrary: w rule: measure_induct_rule [of "\<lambda>p. last_page (ce_settings ce) - p"])
  case (less p w)
  let ?m = "nat (integration_max_pages (ce_settings ce))"
  have "p < Suc ?m" using less.prems(3) last_page_stops(4) [OF bounds [OF less.prems(1)] less.prems(2)] by linarith
  then have pages: "[p..<Suc ?m] = p # [Suc p..<Suc ?m]" by (rule upt_conv_Cons)
  obtain w1 rq where w1: "ht_sent w1 = ht_sent w @ [rq]" "inv w1"
    and run: "scan_pages ce repository number marker correlation (p # [Suc p..<Suc ?m])
       (filter (marked marker) (take (100 * (p - 1)) comments)) (100 * (p - 1)) w =
     (if length comments < 100 * p \<or> p = last_page (ce_settings ce) then (Inr (search_result (ce_settings ce) marker comments), w1)
      else scan_pages ce repository number marker correlation [Suc p..<Suc ?m]
             (filter (marked marker) (take (100 * p) comments)) (100 * p) w1)"
    by (rule scan_round [OF less.prems])
  show ?case
  proof (cases "length comments < 100 * p \<or> p = last_page (ce_settings ce)")
    case True
    then have "1 + (p - 1) = min (last_page (ce_settings ce)) (length comments div 100 + 1)"
      using less.prems(2-4) by (auto simp: min_def)
    with True run w1 show ?thesis unfolding pages by (intro exI [of _ w1] exI [of _ "[rq]"]) simp
  next
    case False
    then have prems: "1 \<le> Suc p" "Suc p \<le> last_page (ce_settings ce)" "100 * (Suc p - 1) \<le> length comments"
      using less.prems(3) by auto
    have "last_page (ce_settings ce) - Suc p < last_page (ce_settings ce) - p" using prems(2) by simp
    from less.IH [OF this w1(2) prems] obtain w' sent where
      "scan_pages ce repository number marker correlation [Suc p..<Suc ?m]
         (filter (marked marker) (take (100 * p) comments)) (100 * p) w1 = (Inr (search_result (ce_settings ce) marker comments), w')"
      "ht_sent w' = ht_sent w1 @ sent" "inv w'"
      "length sent + p = min (last_page (ce_settings ce)) (length comments div 100 + 1)" by auto
    with False run w1 less.prems(2) show ?thesis
      unfolding pages by (intro exI [of _ w'] exI [of _ "rq # sent"]) auto
  qed
qed

lemma search_exact:
  assumes "inv w"
  obtains w' sent where "find_comments_by_marker ce repository number marker correlation w = (Inr (search_result (ce_settings ce) marker comments), w')"
    "ht_sent w' = ht_sent w @ sent" "inv w'"
    "length sent = min (last_page (ce_settings ce)) (length comments div 100 + 1)"
proof -
  have "nat (integration_max_pages (ce_settings ce) + 1) = Suc (nat (integration_max_pages (ce_settings ce)))"
    using bounds [OF assms] unfolding search_bounds_def by linarith
  then show ?thesis
    using scan_from [OF assms le_refl last_page_stops(3) [OF bounds [OF assms] le_refl]] that
    by (auto simp: find_comments_by_marker_def)
qed

end

section \<open>Property\<close>

text \<open>
  C18. The search for a marker ends. With validated settings, whatever GitHub answers (pages that
  never get shorter, pages longer than asked for, errors), a search sends at most as many requests
  as the page and item bounds allow, never more than ten, and every comment it returns carries the
  marker.
\<close>

theorem search_terminates:
  assumes "make_settings s = Inr (ce_settings ce)"
  shows "case find_comments_by_marker ce repository number marker correlation w of (r, w') \<Rightarrow>
    (\<exists>sent. ht_sent w' = ht_sent w @ sent \<and> length sent \<le> last_page (ce_settings ce)) \<and>
    last_page (ce_settings ce) \<le> 10 \<and>
    (case r of Inl _ \<Rightarrow> True | Inr found \<Rightarrow> list_all (\<lambda>c. py_in marker (cm_body c)) (cs_comments found))"
proof -
  let ?s = "ce_settings ce"
  have bounds: "search_bounds ?s" by (rule settings_search_bounds [OF assms])
  have "integration_max_items ?s \<le> 1000"
    using assms by (auto simp: make_settings_Inr settings_fields_ok_def in_range_def)
  then have "nat ((integration_max_items ?s + 99) div 100) \<le> 10" by linarith
  then have ten: "last_page ?s \<le> 10" unfolding last_page_def by (rule min.coboundedI2)
  have pages: "nat (integration_max_pages ?s + 1) = Suc (nat (integration_max_pages ?s))"
    using bounds unfolding search_bounds_def by linarith
  obtain r w' where run: "find_comments_by_marker ce repository number marker correlation w = (r, w')" by fastforce
  then have scan: "scan_pages ce repository number marker correlation [1..<Suc (nat (integration_max_pages ?s))] [] 0 w = (r, w')"
    by (simp add: find_comments_by_marker_def pages)
  have "emits (expected_request ce correlation (FindCommentsByMarker repository number marker)) (last_page ?s + 1 - 1)
      (scan_pages ce repository number marker correlation [1..<Suc (nat (integration_max_pages ?s))] [] 0)"
    by (rule scan_bounded [OF bounds]) (use last_page_stops(3) [OF bounds le_refl] in simp_all)
  then obtain sent where "ht_sent w' = ht_sent w @ sent" "length sent \<le> last_page ?s"
    unfolding emits_def by (metis add_diff_cancel_right' scan snd_conv)
  moreover have "list_all (marked marker) (cs_comments found)" if "r = Inr found" for found
    by (rule scan_matches [OF trans [OF arg_cong [OF scan, of fst]]]) (simp_all add: that)
  ultimately show ?thesis using ten by (auto simp: run marked_def [abs_def] split: sum.split)
qed

theorem search_terminates_witness:
  "\<forall>(ce :: client_env) repository number marker correlation w. \<exists>sent. ht_sent (snd (find_comments_by_marker
       (ce\<lparr>ce_settings := default_settings ''postgresql+asyncpg://db''\<rparr>) repository number marker correlation w)) =
     ht_sent w @ sent \<and> length sent \<le> 2"
proof (intro allI)
  fix ce :: client_env and repository number marker correlation and w :: "'w http_world_scheme"
  let ?s = "default_settings ''postgresql+asyncpg://db''"
  have valid: "make_settings ?s = Inr (ce_settings (ce\<lparr>ce_settings := ?s\<rparr>))"
    unfolding make_settings_Inr
    by (simp add: settings_fields_ok_def default_settings_def in_range_def above_def opt_length_def
        require_async_postgresql_url_def starts_with_def validate_worker_safety_def checks_Inr credential_check_def)
  have "last_page ?s = 2" by (simp add: last_page_def default_settings_def)
  then show "\<exists>sent. ht_sent (snd (find_comments_by_marker (ce\<lparr>ce_settings := ?s\<rparr>) repository number marker correlation w)) =
      ht_sent w @ sent \<and> length sent \<le> 2"
    using search_terminates [OF valid, where repository = repository and number = number and marker = marker and correlation = correlation and w = w]
    by (auto split: prod.splits)
qed

end
