(* ===== verification/Client_Types.thy ===== *)
theory Client_Types
  imports Client_Results Comment_Search
begin

text \<open>
  The types of the provider protocols as invariants: what every value a client returns satisfies,
  whatever document the provider sent, and that no error of the HTTP boundary leaves a client.
\<close>

section \<open>Well-formed results\<close>

text \<open>
  A sanitized source URL: scheme, host, optional port in range and path, without credentials, query
  and fragment; sanitizing it again changes nothing when its host is no IP literal.
\<close>

definition sanitized :: "string \<Rightarrow> bool" where
  "sanitized url \<longleftrightarrow> (\<exists>sc raw p path. url = sc @ ''://'' @ lower_host raw @ p @ path \<and> http_scheme sc \<and> raw \<noteq> [] \<and>
     set raw \<inter> {CHR ''/'', CHR ''?'', CHR ''#'', CHR ''@''} = {} \<and>
     (p = [] \<or> (\<exists>n \<le> 65535. p = CHR '':'' # nat_digits n)) \<and>
     (path = [] \<or> hd path = CHR ''/'') \<and> set path \<inter> {CHR ''?'', CHR ''#''} = {} \<and>
     (plain_host raw \<longrightarrow> canonical_source_url url = Inr url))"

definition well_formed_record :: "catalog_record \<Rightarrow> bool" where
  "well_formed_record k \<longleftrightarrow>
     k_service_id k \<noteq> [] \<and> k_canonical_service_id k \<noteq> [] \<and> k_criticality k \<noteq> [] \<and> k_source_version k \<noteq> [] \<and>
     k_service_owner k \<noteq> Some [] \<and> k_required_reviewer k \<noteq> Some [] \<and> 1 \<le> k_policy_version k \<and>
     sorted (k_aliases k) \<and> distinct (k_aliases k) \<and>
     sorted (k_approved_repositories k) \<and> distinct (k_approved_repositories k) \<and>
     list_all (\<lambda>r. casefold r = r) (k_approved_repositories k) \<and> sanitized (k_source_url k)"

definition well_formed_issue :: "jira_item \<Rightarrow> bool" where
  "well_formed_issue j \<longleftrightarrow>
     j_key j \<noteq> [] \<and> j_title j \<noteq> [] \<and> length (j_title j) \<le> 500 \<and> length (j_description j) \<le> 20000 \<and>
     j_status j \<noteq> [] \<and> length (j_status j) \<le> 100 \<and> j_priority j \<noteq> Some [] \<and> fits 100 (j_priority j) \<and>
     j_assignee j \<noteq> Some [] \<and> fits 255 (j_assignee j) \<and> sanitized (j_source_url j)"

definition well_formed_context :: "github_context \<Rightarrow> bool" where
  "well_formed_context g \<longleftrightarrow>
     g_full_name g \<noteq> [] \<and> 1 \<le> g_repository_id g \<and> g_visibility g \<noteq> [] \<and> g_default_branch g \<noteq> [] \<and>
     head_sha (g_head_sha g) \<and> 1 \<le> g_issue_number g \<and> g_issue_state g \<noteq> [] \<and>
     g_issue_title g \<noteq> [] \<and> length (g_issue_title g) \<le> 500 \<and> sanitized (g_source_url g) \<and>
     starts_with (g_head_sha g @ '':'') (g_source_version g)"

definition well_formed_comment :: "github_comment \<Rightarrow> bool" where
  "well_formed_comment c \<longleftrightarrow>
     (\<exists>i. cm_identifier c = str_int i) \<and> cm_body c \<noteq> [] \<and> provider_action_url (cm_url c) = Inr (cm_url c)"

definition well_formed_receipt :: "slack_message \<Rightarrow> slack_receipt \<Rightarrow> bool" where
  "well_formed_receipt m r \<longleftrightarrow>
     rc_channel r = sm_channel m \<and> slack_channel (rc_channel r) \<and> message_timestamp (rc_timestamp r)"

fun is_http_error :: "exn \<Rightarrow> bool" where
  "is_http_error RetryableHttpError = True"
| "is_http_error ProviderContractError = True"
| "is_http_error ResponseTooLargeError = True"
| "is_http_error AmbiguousWriteError = True"
| "is_http_error _ = False"

section \<open>Normalizations\<close>

lemma string_value_Inr: "string_value v = Inr s \<Longrightarrow> s \<noteq> []"
  by (auto simp: string_value_def split: json.splits if_splits)

lemma optional_string_Inr: "optional_string v = Inr s \<Longrightarrow> s \<noteq> Some []"
  by (auto simp: optional_string_def result_simps dest: string_value_Inr split: if_splits)

lemma canonical_url_sanitized: "canonical_source_url v = Inr s \<Longrightarrow> sanitized s"
  unfolding sanitized_def by (drule canonical_source_url_facts, elim exE conjE) (intro exI conjI; assumption)

lemma sorted_unique_ok: "sorted (sorted_unique xs)" "distinct (sorted_unique xs)" "set (sorted_unique xs) = set xs"
  by (simp_all add: sorted_unique_def)

lemma normalize_service_record_Inr: "normalize_service_record kvs = Inr k \<Longrightarrow> well_formed_record k"
  by (auto simp: normalize_service_record_def on_error_eq result_simps make_catalog_record_def well_formed_record_def
      sorted_unique_ok list_all_iff dest: string_value_Inr optional_string_Inr canonical_url_sanitized)

lemma jira_text_length: "jira_adf_to_text v = Inr s \<Longrightarrow> length s \<le> 20000"
  by (auto simp: jira_adf_to_text_def max_text_def result_simps split: json.splits)

lemma nested_name_Inr: "nested_name v = Inr s \<Longrightarrow> s \<noteq> []"
  by (auto simp: nested_name_def result_simps field_values)

lemma optional_nested_name_Inr: "optional_nested_name v = Inr s \<Longrightarrow> s \<noteq> Some []"
  by (auto simp: optional_nested_name_def result_simps dest: nested_name_Inr split: if_splits)

lemma non_empty_string_Some: "non_empty_string v = Some s \<Longrightarrow> s \<noteq> []"
  by (cases v) (auto split: if_splits)

lemma first_string_Some: "first_string kvs names = Some s \<Longrightarrow> s \<noteq> []"
proof -
  assume "first_string kvs names = Some s"
  then have "s \<in> set (List.map_filter (\<lambda>name. non_empty_string (field kvs name)) names)"
    by (auto simp: first_string_def split: list.splits)
  then show ?thesis by (auto simp: List.map_filter_def dest: non_empty_string_Some)
qed

lemma optional_assignee_Inr: "optional_assignee v = Inr s \<Longrightarrow> s \<noteq> Some []"
  by (auto simp: optional_assignee_def result_simps dest: first_string_Some split: if_splits)

lemma normalize_issue_Inr: "normalize_issue ce payload flds = Inr j \<Longrightarrow> well_formed_issue j"
  by (auto simp: normalize_issue_def on_error_eq result_simps make_jira_item_def well_formed_issue_def Let_def field_values
      dest: canonical_url_sanitized jira_text_length nested_name_Inr optional_nested_name_Inr optional_assignee_Inr)

lemma normalize_context_Inr: "branch \<noteq> [] \<Longrightarrow> normalize_context branch rp cp ip = Inr g \<Longrightarrow> well_formed_context g"
  by (auto simp: normalize_context_def on_error_eq result_simps make_github_context_def well_formed_context_def
      field_values starts_with_def dest: canonical_url_sanitized)

lemma normalize_comment_wf: "normalize_comment ce amb v = Inr c \<Longrightarrow> well_formed_comment c"
proof -
  assume "normalize_comment ce amb v = Inr c"
  then obtain kvs i raw where "cm_identifier c = str_int i" "cm_body c \<noteq> []"
    and "provider_action_url raw = Inr (cm_url c)"
    by (auto simp: normalize_comment_def on_error_eq result_simps field_values)
  then show ?thesis using provider_action_url_facts [of raw "cm_url c"] by (auto simp: well_formed_comment_def)
qed

section \<open>Operations\<close>

abbreviation (input) anywhere :: "'w \<Rightarrow> bool" where
  "anywhere \<equiv> \<lambda>_. True"

lemma logging_errors:
  "logging_increment name labels n = Inl e1 \<Longrightarrow> is_value_error e1"
  "logging_observe name labels' q = Inl e2 \<Longrightarrow> is_value_error e2"
proof -
  have safe: "safe_labels name ls = Inl e \<Longrightarrow> is_value_error e" for ls e
    using mapR_guard [of "\<lambda>(k, v). label_type_ok k v" "ValueError ''metric label value is outside its allowlisted enum''"
        "\<lambda>(k, v). (metric_label_value k, label_text v)" ls]
    by (auto simp: safe_labels_def result_simps case_prod_unfold split: if_splits)
  show "logging_increment name labels n = Inl e1 \<Longrightarrow> is_value_error e1"
    "logging_observe name labels' q = Inl e2 \<Longrightarrow> is_value_error e2"
    by (auto simp: logging_increment_def logging_observe_def emit_def result_simps dest: safe split: if_splits)
qed

lemma trusted_url_error: "trusted_url b p = Inl e \<Longrightarrow> is_value_error e"
  by (auto simp: trusted_url_def urljoin_def escaped_host_def Let_def result_simps
      dest: urlsplit_error port_error split: if_splits prod.splits)

lemma foreign_exn_not_http [simp]:
  "foreign_exn f \<noteq> AmbiguousWriteError" "foreign_exn f \<noteq> RetryableHttpError" "\<not> is_provider_contract_error (foreign_exn f)"
  "\<not> is_http_error (foreign_exn f)"
  by (cases f; simp)+

lemma read_not_ambiguous:
  assumes "\<not> hc_write hc"
  shows "fst (settled he limit hc a) \<noteq> Inl AmbiguousWriteError"
proof -
  have broken: "fst (handle_fault False current (Broken t)) \<noteq> AmbiguousWriteError" for current t
    by (cases t) (auto simp: handle_fault_def)
  have raised: "e \<noteq> AmbiguousWriteError \<Longrightarrow> fst (handle_fault False current (Raised e)) \<noteq> AmbiguousWriteError" for current e
    by (simp add: handle_fault_def)
  have decode: "decode_payload he False st hs b = Inl fault \<Longrightarrow> \<exists>e. fault = Raised e \<and> e \<noteq> AmbiguousWriteError" for st hs b fault
    by (cases "he_loads he b") (simp_all add: decode_payload_def bad_body_def split: if_splits, auto)
  show ?thesis
  proof (cases a)
    case (NoResponse t)
    then show ?thesis using assms broken by (simp add: settled_def)
  next
    case (Response st hs chunks br)
    show ?thesis
    proof (cases "receive False limit [] chunks br")
      case (Inl fault)
      with receive_Inl [OF this] show ?thesis
        using assms broken raised by (auto simp: Response settled_def too_large_def)
    next
      case (Inr body)
      then show ?thesis
        using assms raised decode by (fastforce simp: Response settled_def split: sum.splits)
    qed
  qed
qed

text \<open>A call raises a \<open>ValueError\<close> of its own, or ends as the exchange did.\<close>

lemma request_json_outcome:
  obtains (value_error) e where "fst (request_json he limit hc w) = Inl e" "is_value_error e"
  | (settled) a where "fst (request_json he limit hc w) = fst (settled he limit hc a)"
proof (cases "trusted_url (hc_base_url hc) (hc_path hc)")
  case (Inl e)
  then show thesis
    by (intro value_error [of e]) (auto simp: request_json_def monotonic_def bindE_def liftR_def dest: trusted_url_error)
next
  case (Inr url)
  define w1 where "w1 = w\<lparr>ht_clock := ht_clock w + 1, ht_sent := ht_sent w @ [request_of hc url]\<rparr>"
  define a where "a = he_transport he (ht_sent w @ [request_of hc url])"
  obtain ms where ex: "exchange he limit hc a w1 = (Inr (settled he limit hc a), w1\<lparr>ht_metrics := ht_metrics w1 @ ms\<rparr>)"
    using exchange_settled by blast
  obtain r outcome where s: "settled he limit hc a = (r, outcome)" by fastforce
  let ?labels = "call_labels hc @ [(L_OUTCOME, V_OUTCOME outcome)]"
  obtain m1 where m1: "logging_increment PROVIDER_REQUEST_COUNT ?labels 1 = Inr m1"
    using call_metrics_accepted(2) by blast
  let ?observed = "logging_observe PROVIDER_LATENCY_SECONDS
      (he_monotonic he (Suc (ht_clock w)) - he_monotonic he (ht_clock w)) ?labels"
  have "fst (request_json he limit hc w) = (case ?observed of Inl e \<Rightarrow> Inl e | Inr _ \<Rightarrow> r)"
    using ex s m1 Inr unfolding w1_def a_def
    by (auto simp: request_json_def monotonic_def transmit_def record_metric_def bindE_def liftR_def Let_def split: sum.split)
  then show thesis
    using s by (cases ?observed) (auto intro: value_error settled [of a] dest: logging_errors(2))
qed

lemma read_request_errors:
  assumes "\<not> hc_write hc"
  shows "hoare anywhere (request_json he limit hc) (\<lambda>_. anywhere) (\<lambda>e _. e \<noteq> AmbiguousWriteError)"
proof (rule hoareI)
  fix w e w'
  assume run: "request_json he limit hc w = (Inl e, w')"
  show "e \<noteq> AmbiguousWriteError"
  proof (rule request_json_outcome [of he limit hc w])
    fix e'
    assume "fst (request_json he limit hc w) = Inl e'" "is_value_error e'"
    with run show ?thesis by auto
  next
    fix a
    assume "fst (request_json he limit hc w) = fst (settled he limit hc a)"
    with run read_not_ambiguous [OF assms, of he limit a] show ?thesis by auto
  qed
qed simp

text \<open>Credentials raise no error of the HTTP boundary.\<close>

definition credentials_ok :: "client_env \<Rightarrow> bool" where
  "credentials_ok ce \<longleftrightarrow> (\<forall>p n e. ce_secret ce p n = Inl e \<longrightarrow> \<not> is_http_error e)"

lemma read_error_safe: "e \<noteq> AmbiguousWriteError \<Longrightarrow> \<not> is_http_error (read_error rd e)"
  by (cases e) (auto simp: read_error_def)

lemma write_error_safe: "\<not> is_http_error (write_error e)" "\<not> is_http_error (post_error e)"
  by (cases e; simp add: write_error_def post_error_def write_unknown_def slack_unknown_def)+

lemma identity_error_safe: "e \<noteq> AmbiguousWriteError \<Longrightarrow> \<not> is_http_error (identity_error e)"
  by (cases e) (auto simp: identity_error_def)

definition safe_end :: "('a \<Rightarrow> bool) \<Rightarrow> ('w, 'a) http_io \<Rightarrow> bool" where
  "safe_end P m \<longleftrightarrow> hoare (\<lambda>_. True) m (\<lambda>x _. P x) (\<lambda>e _. \<not> is_http_error e)"

lemma safe_end_bind: "safe_end P m \<Longrightarrow> (\<And>x. P x \<Longrightarrow> safe_end Q (f x)) \<Longrightarrow> safe_end Q (bindE m f)"
  unfolding safe_end_def by (rule hoare_bind, assumption) (auto simp: hoare_def)

lemma safe_end_pure:
  "(\<And>x. r = Inr x \<Longrightarrow> P x) \<Longrightarrow> (\<And>e. r = Inl e \<Longrightarrow> \<not> is_http_error e) \<Longrightarrow> safe_end P (liftR r)"
  "P y \<Longrightarrow> safe_end P (ret y)"
  "\<not> is_http_error e \<Longrightarrow> safe_end P (raise e)"
  unfolding safe_end_def by (cases r) (simp_all add: hoare_def effect_simps)

lemma safe_end_rethrow:
  assumes "hoare (\<lambda>_. True) m (\<lambda>_ _. True) (\<lambda>e _. E e)" and "\<And>e. E e \<Longrightarrow> \<not> is_http_error (f e)"
  shows "safe_end (\<lambda>_. True) (rethrow f m)"
  unfolding safe_end_def rethrow_def
  by (rule hoare_catch [OF assms(1)]) (auto simp: hoare_def effect_simps assms(2))

lemma hoare_credential:
  "credentials_ok ce \<Longrightarrow> hoare (\<lambda>_. True) (credential ce p) (\<lambda>_ _. True) (\<lambda>e _. \<not> is_http_error e)"
  by (auto simp: hoare_def credential_def credentials_ok_def split: sum.split)

lemma value_error_safe: "is_value_error e \<Longrightarrow> \<not> is_http_error e"
  by (cases e) auto

lemma safe_end_read:
  assumes "credentials_ok ce"
  shows "safe_end (\<lambda>_. True) (provider_read ce rd operation correlation path)"
  unfolding provider_read_def Let_def
proof (rule safe_end_bind, rule safe_end_rethrow)
  show "hoare (\<lambda>_. True) (bindE (credential ce (rd_provider rd)) (\<lambda>secret.
      request_json (ce_http ce) (integration_max_response_bytes (ce_settings ce))
        (read_call (ce_settings ce) rd operation correlation path secret)))
    (\<lambda>_ _. True) (\<lambda>e _. e \<noteq> AmbiguousWriteError)"
    by (rule hoare_bind [OF hoare_conseq [OF hoare_credential [OF assms]]], simp, rule TrueI)
      (auto intro: read_request_errors simp: read_call_def)
  show "safe_end (\<lambda>_. True) (bindE (liftR (classify_read (ce_settings ce) (rd_not_found rd) response)) (\<lambda>_. ret response))"
    for response
    by (rule safe_end_bind [OF safe_end_pure(1) safe_end_pure(2)]) (auto simp: classify_read_def Let_def split: if_splits)
qed (rule read_error_safe)

lemma safe_end_write: "safe_end (\<lambda>_. True) (github_write ce verb path payload correlation)"
  unfolding github_write_def Let_def
proof (rule safe_end_bind, rule safe_end_rethrow)
  show "hoare (\<lambda>_. True) (bindE (credential ce P_GITHUB) (\<lambda>secret.
      request_json (ce_http ce) (integration_max_response_bytes (ce_settings ce))
        (write_call (ce_settings ce) verb path payload correlation secret)))
    (\<lambda>_ _. True) (\<lambda>_ _. True)"
    by (simp add: hoare_def split: prod.split sum.split)
  show "safe_end (\<lambda>_. True) (liftR (classify_write (ce_settings ce) response))" for response
    by (rule safe_end_pure(1)) (auto simp: write_unknown_def dest: classify_write_cases(2))
qed (rule write_error_safe)

section \<open>Errors of the normalizations\<close>

lemma caught_safe:
  "\<not> is_http_error instead \<Longrightarrow> (\<And>e. r = Inl e \<Longrightarrow> \<not> is_http_error e) \<Longrightarrow> on_error caught instead r = Inl e \<Longrightarrow>
   \<not> is_http_error e"
  by (auto simp: on_error_eq split: if_splits)

lemma field_errors_safe:
  "optional_string v = Inl e1 \<Longrightarrow> \<not> is_http_error e1"
  "nested_name v = Inl e2 \<Longrightarrow> \<not> is_http_error e2"
  "optional_nested_name v = Inl e3 \<Longrightarrow> \<not> is_http_error e3"
  "optional_assignee v = Inl e4 \<Longrightarrow> \<not> is_http_error e4"
  "object_payload v = Inl e5 \<Longrightarrow> \<not> is_http_error e5"
  by (auto simp: optional_string_def nested_name_def optional_nested_name_def optional_assignee_def result_simps
      dest: field_errors value_error_safe split: if_splits)

lemma ends_block_safe: "ends_block v = Inl e \<Longrightarrow> e = type_error"
  by (cases v) (auto simp: ends_block_def)

lemma visit_safe:
  "visit node depth out = Inl e \<Longrightarrow> e = type_error"
  "visit_children children depth out = Inl e \<Longrightarrow> e = type_error"
proof (induction node depth out and children depth out rule: visit_visit_children.induct)
  case (1 node depth out)
  show ?case
  proof (cases node)
    case (JObj kvs)
    then show ?thesis
      using 1 by (subst (asm) visit.simps, cases "field kvs ''content''")
        (auto simp: result_simps Let_def dest: ends_block_safe split: if_splits)
  qed (use 1 in \<open>auto simp: visit.simps split: if_splits\<close>)
qed (auto simp: result_simps)

lemma jira_text_safe: "jira_adf_to_text v = Inl e \<Longrightarrow> \<not> is_http_error e"
  by (auto simp: jira_adf_to_text_def type_error_def result_simps dest: visit_safe split: json.splits)

lemma normalizations_safe:
  "normalize_service_record kvs = Inl e1 \<Longrightarrow> \<not> is_http_error e1"
  "normalize_issue ce payload flds = Inl e2 \<Longrightarrow> \<not> is_http_error e2"
  "normalize_context branch rp cp ip = Inl e3 \<Longrightarrow> \<not> is_http_error e3"
  "normalize_comment ce amb v = Inl e4 \<Longrightarrow> \<not> is_http_error e4"
proof -
  show "\<not> is_http_error e1" if "normalize_service_record kvs = Inl e1"
    by (rule caught_safe [OF _ _ that [unfolded normalize_service_record_def]])
      (auto simp: result_simps make_catalog_record_def dest: field_errors field_errors_safe url_errors value_error_safe)
  show "\<not> is_http_error e2" if "normalize_issue ce payload flds = Inl e2"
    by (rule caught_safe [OF _ _ that [unfolded normalize_issue_def]])
      (auto simp: result_simps make_jira_item_def Let_def
        dest: field_errors field_errors_safe url_errors value_error_safe jira_text_safe)
  show "\<not> is_http_error e3" if "normalize_context branch rp cp ip = Inl e3"
    by (rule caught_safe [OF _ _ that [unfolded normalize_context_def]])
      (auto simp: result_simps make_github_context_def github_contract_error_def
        dest: field_errors url_errors value_error_safe)
  show "\<not> is_http_error e4" if "normalize_comment ce amb v = Inl e4"
    using normalize_comment_Inl [OF that] by (auto simp: write_unknown_def github_contract_error_def)
qed

section \<open>Typed operations\<close>

lemma mapR_all: "mapR f xs = Inr ys \<Longrightarrow> (\<And>x y. f x = Inr y \<Longrightarrow> P y) \<Longrightarrow> list_all P ys"
  by (induction xs arbitrary: ys) (auto simp: result_simps)

lemma mapR_Inl: "mapR f xs = Inl e \<Longrightarrow> \<exists>x \<in> set xs. f x = Inl e"
  by (induction xs) (auto simp: result_simps)

lemma records_of_payload:
  fixes payload :: jobj
  defines "r \<equiv> case field payload ''records'' of
       JArr raw_records \<Rightarrow> mapR (\<lambda>raw. bindR (object_payload raw) normalize_service_record) raw_records
     | _ \<Rightarrow> Inl (PermanentProviderError ''service_catalog_contract_error'')"
  shows "r = Inr ks \<Longrightarrow> list_all well_formed_record ks" and "r = Inl e \<Longrightarrow> \<not> is_http_error e"
  unfolding r_def
  by (cases "field payload ''records''";
      auto simp: result_simps dest!: mapR_Inl dest: field_errors_safe normalizations_safe
        elim!: mapR_all intro: normalize_service_record_Inr)+

lemma typed_fetch_records:
  assumes "credentials_ok ce"
  shows "safe_end (list_all well_formed_record) (fetch_records ce service_id correlation)"
  unfolding fetch_records_def
  by (rule safe_end_bind [OF safe_end_read [OF assms]], rule safe_end_pure(1))
    (auto simp only: bindR_eq_Inr bindR_eq_Inl dest: records_of_payload field_errors_safe)

lemma typed_fetch_issue:
  assumes "credentials_ok ce"
  shows "safe_end well_formed_issue (fetch_issue ce key correlation)"
  unfolding fetch_issue_def
  by (rule safe_end_bind [OF safe_end_read [OF assms]], rule safe_end_pure(1))
    (auto simp: result_simps dest: field_errors_safe normalizations_safe intro: normalize_issue_Inr)

lemma typed_identity:
  assumes "credentials_ok ce"
  shows "safe_end (\<lambda>_. True) (github_identity ce correlation)"
  unfolding github_identity_def
  by (rule safe_end_bind [OF safe_end_read [OF assms]], rule safe_end_pure(1), rule TrueI)
    (auto simp: on_error_eq result_simps github_contract_error_def
      dest: field_errors_safe field_errors value_error_safe split: if_splits)

lemma repository_path_safe: "repository_path r = Inl e \<Longrightarrow> \<not> is_http_error e"
  by (auto simp: repository_path_def split: prod.splits option.splits)

lemma safe_end_path: "(\<And>x. safe_end Q (f x)) \<Longrightarrow> safe_end Q (bindE (liftR (repository_path r)) f)"
  by (rule safe_end_bind [OF safe_end_pure(1), of _ "\<lambda>_. True"]) (auto dest: repository_path_safe)

lemma typed_fetch_context:
  assumes "credentials_ok ce"
  shows "safe_end well_formed_context (fetch_context ce repository number correlation)"
  unfolding fetch_context_def
proof (rule safe_end_path, rule safe_end_bind [OF safe_end_read [OF assms]])
  fix repo_path repository_response
  let ?branch = "on_error (\<lambda>e. is_permanent_provider_error e \<or> is_value_error e) github_contract_error
              (bindR (object_payload (js_payload repository_response)) (\<lambda>payload.
               bindR (required_string payload ''default_branch'') (\<lambda>branch. Inr (payload, branch))))"
  have branch: "safe_end (\<lambda>x. snd x \<noteq> []) (liftR ?branch)"
    by (rule safe_end_pure(1))
      (auto simp: on_error_eq result_simps field_values github_contract_error_def
        dest: field_errors_safe field_errors value_error_safe split: if_splits)
  show "safe_end well_formed_context (bindE (liftR ?branch) (\<lambda>(repository_payload, default_branch).
     bindE (provider_read ce github_target OP_READ correlation
              (''repos/'' @ repo_path @ ''/commits/'' @ url_quote default_branch)) (\<lambda>commit_response.
     bindE (provider_read ce github_target OP_READ correlation
              (''repos/'' @ repo_path @ ''/issues/'' @ str_int number)) (\<lambda>issue_response.
     liftR (bindR (object_payload (js_payload commit_response)) (\<lambda>commit_payload.
            bindR (object_payload (js_payload issue_response)) (\<lambda>issue_payload.
              normalize_context default_branch repository_payload commit_payload issue_payload)))))))"
    unfolding case_prod_unfold
    by (rule safe_end_bind [OF branch], rule safe_end_bind [OF safe_end_read [OF assms]],
        rule safe_end_bind [OF safe_end_read [OF assms]], rule safe_end_pure(1))
      (auto simp: result_simps dest: field_errors_safe normalizations_safe intro: normalize_context_Inr)
qed

lemma typed_get_comment:
  assumes "credentials_ok ce"
  shows "safe_end (\<lambda>c. case c of None \<Rightarrow> True | Some c \<Rightarrow> well_formed_comment c) (get_comment ce repository comment correlation)"
  unfolding get_comment_def
proof (rule safe_end_bind)
  have read: "safe_end (\<lambda>_. True) (bindE (liftR (repository_path repository)) (\<lambda>repo_path.
        bindE (provider_read ce github_target OP_RECONCILIATION correlation
                 (''repos/'' @ repo_path @ ''/issues/comments/'' @ url_quote comment)) (\<lambda>response. ret (Some response))))"
    by (rule safe_end_path, rule safe_end_bind [OF safe_end_read [OF assms]], rule safe_end_pure(2)) simp
  show "safe_end (\<lambda>_. True) (catchE (bindE (liftR (repository_path repository)) (\<lambda>repo_path.
        bindE (provider_read ce github_target OP_RECONCILIATION correlation
                 (''repos/'' @ repo_path @ ''/issues/comments/'' @ url_quote comment)) (\<lambda>response. ret (Some response))))
      (\<lambda>e. case e of ProviderNotFoundError _ \<Rightarrow> Some (ret None) | _ \<Rightarrow> None))"
    unfolding safe_end_def
    by (rule hoare_catch [OF read [unfolded safe_end_def]]) (auto simp: hoare_def effect_simps split: exn.splits)
qed (auto intro!: safe_end_pure simp: result_simps dest: normalize_comment_wf normalizations_safe split: option.splits)

lemma typed_scan_pages:
  assumes "credentials_ok ce"
  shows "list_all (\<lambda>c. well_formed_comment c \<and> marked marker c) matches \<Longrightarrow>
    safe_end (\<lambda>r. list_all (\<lambda>c. well_formed_comment c \<and> marked marker c) (cs_comments r))
      (scan_pages ce repository number marker correlation pages matches seen)"
proof (induction pages arbitrary: matches seen)
  case Nil
  then show ?case by (auto intro: safe_end_pure)
next
  case (Cons page pages)
  have page: "safe_end (list_all well_formed_comment) (read_comments_page ce repository number correlation page)"
    unfolding read_comments_page_def
    by (rule safe_end_path, rule safe_end_bind [OF safe_end_read [OF assms]])
      (auto intro!: safe_end_pure simp: github_contract_error_def split: json.splits
        dest: mapR_Inl normalizations_safe elim!: mapR_all intro: normalize_comment_wf)
  show ?case
    unfolding scan_pages.simps
    by (rule safe_end_bind [OF page])
      (use Cons.prems in \<open>auto simp: Let_def list_all_iff marked_def intro!: Cons.IH [unfolded list_all_iff marked_def] safe_end_pure\<close>)
qed

lemma typed_writes:
  "safe_end well_formed_comment (create_comment ce repository number body correlation)"
  "safe_end well_formed_comment (update_comment ce repository comment body correlation)"
  unfolding create_comment_def update_comment_def
  by (rule safe_end_path, rule safe_end_bind [OF safe_end_write], rule safe_end_pure(1),
      auto dest: normalize_comment_wf normalizations_safe)+

lemma safe_end_token:
  assumes "\<And>t f. safe_end Q (g (t, f))"
  shows "credentials_ok ce \<Longrightarrow> safe_end Q (bindE (current_credential ce) g)"
proof (rule safe_end_bind [of "\<lambda>_. True"])
  assume ok: "credentials_ok ce"
  show "safe_end (\<lambda>_. True) (current_credential ce)"
    unfolding current_credential_def safe_end_def
    by (rule hoare_bind [OF hoare_catch [OF hoare_credential [OF ok]]])
      (auto simp: hoare_def effect_simps split: option.splits if_splits)
  show "safe_end Q (g x)" for x using assms by (cases x) simp
qed

lemma safe_end_steps:
  "safe_end (\<lambda>_. True) (cache_authorizes ce fingerprint)" "safe_end (\<lambda>_. True) (set_cache c)"
  "safe_end (\<lambda>_. True) (monotonic he)"
  by (auto simp: safe_end_def hoare_def cache_authorizes_def set_cache_def monotonic_def bindE_def ret_def
      split: option.splits)

lemma identity_parts_safe:
  "classify_read_response s response = Inl e1 \<Longrightarrow> \<not> is_http_error e1"
  "slack_object (SlackPermanentFailure code) v = Inl e2 \<Longrightarrow> \<not> is_http_error e2"
  "slack_identity_of kvs = Inl e3 \<Longrightarrow> \<not> is_http_error e3"
  by (auto simp: classify_read_response_def slack_object_def slack_identity_of_def on_error_eq result_simps Let_def
      slack_required_string_def slack_optional_string_def make_slack_identity_def split: if_splits json.splits)

lemma slack_api_error_safe: "\<not> is_http_error (slack_api_error kvs identity)"
  by (simp add: slack_api_error_def Let_def)

lemma identity_answer_safe: "identity_answer s response = Inl e \<Longrightarrow> \<not> is_http_error e"
  by (auto simp: identity_answer_def result_simps slack_api_error_safe dest: identity_parts_safe)

lemma typed_verify_identity:
  assumes "credentials_ok ce"
  shows "safe_end (\<lambda>_. True) (verify_identity ce correlation)"
proof -
  have request: "safe_end (\<lambda>_. True)
      (rethrow identity_error (slack_request ce ''auth.test'' [] correlation False OP_IDENTITY token))" for token
    unfolding slack_request_def
    by (rule safe_end_rethrow [OF read_request_errors identity_error_safe]) (simp_all add: slack_call_def)
  show ?thesis
    unfolding verify_identity_def Let_def
    by (rule safe_end_token [OF _ assms])
      (auto intro!: safe_end_bind [OF safe_end_steps(1)] safe_end_bind [OF request] safe_end_bind [OF safe_end_pure(1)]
        safe_end_bind [OF safe_end_steps(2)] safe_end_bind [OF safe_end_steps(3)] safe_end_pure(2) dest: identity_answer_safe)
qed

lemma receipt_of_typed: "receipt_of m kvs = Inr c \<Longrightarrow> well_formed_receipt m c"
  by (cases "field kvs ''channel''"; cases "field kvs ''ts''")
    (auto simp: receipt_of_def well_formed_receipt_def make_slack_receipt_def result_simps split: if_splits)

lemma post_answer_typed: "post_answer s m response = Inr c \<Longrightarrow> well_formed_receipt m c"
  by (auto simp: post_answer_def result_simps dest: receipt_of_typed)

lemma post_answer_safe: "post_answer s m response = Inl e \<Longrightarrow> \<not> is_http_error e"
  by (auto simp: slack_unknown_def dest!: post_answer_cases(2))

lemma typed_post_notification:
  assumes "credentials_ok ce"
  shows "safe_end (well_formed_receipt message) (post_notification ce message correlation)"
proof -
  have request: "safe_end (\<lambda>_. True) (rethrow post_error
      (slack_request ce ''chat.postMessage'' (provider_payload message) correlation True OP_WRITE token))" for token
    by (rule safe_end_rethrow [of _ "\<lambda>_. True"]) (auto simp: write_error_safe hoare_def split: prod.split sum.split)
  show ?thesis
    unfolding post_notification_def
    by (rule safe_end_token [OF _ assms])
      (auto intro!: safe_end_bind [OF safe_end_steps(1)] safe_end_bind [OF request] safe_end_pure
        dest: post_answer_typed post_answer_safe)
qed

end
