(* ===== verification/Simulator.thy ===== *)
theory Simulator
  imports Http_Client Integration_Domain
begin

text \<open>
  \<open>simulator/main.py\<close>: the provider simulator of the development stack, a FastAPI application
  over one state. Each endpoint is a function of the state; \<open>serve\<close> is the routing of a request to
  its endpoint, and \<open>simulated_transport\<close> is the transport that the simulator is to the HTTP
  client: its answer to a request after the requests before it.

  FastAPI, pydantic and the JSON renderer are outside the repository: the conversion of a parameter
  and the rendering of a document are parameters. A delayed answer is no answer in the client's
  time limit; the comment whose acceptance is delayed waits in the state until the environment says
  that its delay is over. Names in a path are ASCII.
\<close>

section \<open>State\<close>

record sim_comment =
  sc_id :: int
  sc_repository :: string
  sc_issue_number :: int
  sc_body :: string
  sc_html_url :: string
  sc_updated_at :: string

record sim_message =
  sg_channel :: string
  sg_timestamp :: string
  sg_text :: string

text \<open>\<open>comments\<close> is a dict by identifier, in insertion order.\<close>

record sim_state =
  sim_comments :: "sim_comment list"
  next_comment_id :: int
  create_calls :: nat
  update_calls :: nat
  catalog_calls :: nat
  github_read_calls :: nat
  jira_calls :: nat
  delayed_acceptance_started :: bool
  slack_identity_calls :: nat
  slack_post_calls :: nat
  slack_messages :: "sim_message list"
  next_slack_timestamp :: int
  delayed_comment :: "(string \<times> string) option"

definition initial_state :: sim_state where
  "initial_state =
     \<lparr>sim_comments = [], next_comment_id = 1000, create_calls = 0, update_calls = 0, catalog_calls = 0,
      github_read_calls = 0, jira_calls = 0, delayed_acceptance_started = False, slack_identity_calls = 0,
      slack_post_calls = 0, slack_messages = [], next_slack_timestamp = 1722000000,
      delayed_comment = None\<rparr>"

text \<open>
  By the number of the request: the clock, read as text, and whether the delayed comment has been
  accepted by then. \<open>sm_coercions\<close> and \<open>sm_render\<close> are the parameters.
\<close>

record sim_env =
  sm_now :: "nat \<Rightarrow> string"
  sm_delay_over :: "nat \<Rightarrow> bool"
  sm_coercions :: coercions
  sm_render :: "json \<Rightarrow> string"

text \<open>An endpoint returns a document with a status, text with headers, or nothing in time.\<close>

datatype reply =
    Document int json
  | TextReply int string
  | LimitedReply json string
  | NoReply

type_synonym endpoint = "sim_state \<Rightarrow> reply \<times> sim_state"

definition not_found :: reply where
  "not_found = Document 404 (JObj [(''detail'', JStr ''Not Found'')])"

text \<open>FastAPI's answer to a parameter or body that does not validate; its details are left out.\<close>

definition unprocessable :: reply where
  "unprocessable = Document 422 (JObj [(''detail'', JArr [])])"

section \<open>Catalog and Jira\<close>

definition strings :: "string list \<Rightarrow> json" where
  "strings xs = JArr (map JStr xs)"

definition service_record :: "string \<Rightarrow> string option \<Rightarrow> string \<Rightarrow> string list \<Rightarrow> int \<Rightarrow> json" where
  "service_record service_id owner classification repositories policy_version = JObj
     [(''serviceId'', JStr service_id), (''canonicalId'', JStr service_id),
      (''legacy_ids'', strings (if service_id = ''payments-api'' then [''payments-legacy''] else [])),
      (''owner'', case owner of None \<Rightarrow> JNull | Some s \<Rightarrow> JStr s), (''tier'', JStr ''tier-1''),
      (''repo_names'', strings (if repositories = [] then [''Customer/Example-Service''] else repositories)),
      (''classification'', JStr classification), (''policy_version'', JInt policy_version),
      (''auto_publish'', JBool True), (''reviewer'', JNull), (''allow_automatic_updates'', JBool True),
      (''etag'', JStr (service_id @ ''-policy-'' @ str_int policy_version)),
      (''url'', JStr (''http://simulator:8090/catalog/services/'' @ service_id @ ''?internal=true''))]"

definition default_record :: "string \<Rightarrow> json" where
  "default_record service_id = service_record service_id (Some ''team-payments'') ''internal'' [] 7"

definition catalog_records :: "(string \<times> json list) list" where
  "catalog_records =
     [(''payments-api'', [default_record ''payments-api'']),
      (''payments-legacy'', [default_record ''payments-api'']),
      (''blocked-service'', [service_record ''blocked-service'' (Some ''team-payments'') ''restricted''
                               [''customer/blocked-service''] 7]),
      (''missing-owner'', [service_record ''missing-owner'' None ''internal'' [] 7]),
      (''conflicting-service'', [default_record ''conflicting-service'',
         service_record ''conflicting-service'' (Some ''team-payments'') ''internal'' [] 8])]"

definition catalog_services :: "string \<Rightarrow> endpoint" where
  "catalog_services service_id st =
     (Document 200 (JObj [(''records'',
        JArr (case map_of catalog_records (casefold service_id) of None \<Rightarrow> [] | Some rs \<Rightarrow> rs))]),
      st\<lparr>catalog_calls := catalog_calls st + 1\<rparr>)"

definition named :: "string \<Rightarrow> json" where
  "named s = JObj [(''name'', JStr s)]"

definition jira_issue_document :: "string \<Rightarrow> json" where
  "jira_issue_document issue_key = JObj
     [(''key'', JStr issue_key),
      (''self'', JStr (''http://simulator:8090/jira/rest/api/3/issue/'' @ issue_key)),
      (''version'', JStr ''jira-v1''),
      (''fields'', JObj
        [(''summary'', JStr ''Prepare the bounded deployment context''),
         (''description'', JObj
           [(''type'', JStr ''doc''), (''version'', JInt 1),
            (''content'', JArr [JObj [(''type'', JStr ''paragraph''),
               (''content'', JArr [JObj [(''type'', JStr ''text''), (''text'', JStr ''Deployment evidence.'')]])]])]),
         (''status'', named ''In Progress''), (''priority'', named ''High''), (''labels'', strings [''deployment'']),
         (''assignee'', JObj [(''accountId'', JStr ''user-123'')]),
         (''updated'', JStr ''2026-07-27T12:00:00+00:00'')])]"

definition jira_issue :: "string \<Rightarrow> endpoint" where
  "jira_issue issue_key st =
     (if issue_key \<in> {''ENG-123'', ''ENG-124'', ''ENG-198'', ''ENG-199''}
      then Document 200 (jira_issue_document issue_key) else not_found,
      st\<lparr>jira_calls := jira_calls st + 1\<rparr>)"

section \<open>GitHub reads\<close>

definition github_reading :: "reply \<Rightarrow> endpoint" where
  "github_reading r st = (r, st\<lparr>github_read_calls := github_read_calls st + 1\<rparr>)"

definition github_user :: endpoint where
  "github_user = github_reading (Document 200 (JObj [(''login'', JStr ''simulator-bot'')]))"

definition github_repository :: "string \<Rightarrow> string \<Rightarrow> endpoint" where
  "github_repository owner repository = github_reading (Document 200 (JObj
     [(''id'', JInt 424242), (''full_name'', JStr (owner @ ''/'' @ repository)), (''visibility'', JStr ''private''),
      (''archived'', JBool (casefold repository = ''archived-service'')), (''default_branch'', JStr ''main'')]))"

definition github_commit :: endpoint where
  "github_commit = github_reading (Document 200 (JObj [(''sha'', JStr (replicate 40 CHR ''a''))]))"

definition github_issue :: "string \<Rightarrow> string \<Rightarrow> int \<Rightarrow> endpoint" where
  "github_issue owner repository issue_number = github_reading (Document 200 (JObj
     [(''number'', JInt issue_number), (''state'', JStr (if issue_number = 97 then ''closed'' else ''open'')),
      (''title'', JStr ''Deployment context request''),
      (''html_url'', JStr (''http://simulator:8090/github/'' @ owner @ ''/'' @ repository @ ''/issues/'' @ str_int issue_number)),
      (''updated_at'', JStr ''2026-07-27T12:00:00+00:00'')]))"

definition public_comment :: "sim_comment \<Rightarrow> json" where
  "public_comment c = JObj
     [(''id'', JInt (sc_id c)), (''body'', JStr (sc_body c)), (''html_url'', JStr (sc_html_url c)),
      (''updated_at'', JStr (sc_updated_at c))]"

definition full_name :: "string \<Rightarrow> string \<Rightarrow> string" where
  "full_name owner repository = casefold (owner @ ''/'' @ repository)"

definition comments_of :: "string \<Rightarrow> string \<Rightarrow> int \<Rightarrow> sim_state \<Rightarrow> sim_comment list" where
  "comments_of owner repository issue_number st =
     filter (\<lambda>c. sc_repository c = full_name owner repository \<and> sc_issue_number c = issue_number) (sim_comments st)"

definition list_comments :: "string \<Rightarrow> string \<Rightarrow> int \<Rightarrow> nat \<Rightarrow> nat \<Rightarrow> endpoint" where
  "list_comments owner repository issue_number per_page page st =
     github_reading (Document 200 (JArr (map public_comment
       (take per_page (drop ((page - 1) * per_page) (comments_of owner repository issue_number st)))))) st"

definition comment_by_id :: "string \<Rightarrow> string \<Rightarrow> int \<Rightarrow> sim_state \<Rightarrow> sim_comment option" where
  "comment_by_id owner repository comment_id st =
     (case List.find (\<lambda>c. sc_id c = comment_id) (sim_comments st) of
        None \<Rightarrow> None
      | Some c \<Rightarrow> if sc_repository c \<noteq> full_name owner repository then None else Some c)"

definition read_comment :: "string \<Rightarrow> string \<Rightarrow> int \<Rightarrow> endpoint" where
  "read_comment owner repository comment_id st =
     github_reading (case comment_by_id owner repository comment_id st of
       None \<Rightarrow> not_found | Some c \<Rightarrow> Document 200 (public_comment c)) st"

section \<open>GitHub writes\<close>

text \<open>\<open>CommentBody\<close>: one field of 1 to 32768 characters.\<close>

definition comment_body :: "jobj option \<Rightarrow> string option" where
  "comment_body payload = (case payload of
     Some [(name, JStr body)] \<Rightarrow>
       if name = ''body'' \<and> 1 \<le> length body \<and> length body \<le> 32768 then Some body else None
   | _ \<Rightarrow> None)"

definition new_comment :: "string \<Rightarrow> string \<Rightarrow> int \<Rightarrow> string \<Rightarrow> sim_state \<Rightarrow> sim_comment" where
  "new_comment now repository issue_number body st =
     \<lparr>sc_id = next_comment_id st, sc_repository = casefold repository, sc_issue_number = issue_number, sc_body = body,
      sc_html_url = ''http://simulator:8090/github/'' @ repository @ ''/issues/'' @ str_int issue_number @
        ''#issuecomment-'' @ str_int (next_comment_id st),
      sc_updated_at = now\<rparr>"

definition add_comment :: "string \<Rightarrow> string \<Rightarrow> int \<Rightarrow> string \<Rightarrow> sim_state \<Rightarrow> sim_comment \<times> sim_state" where
  "add_comment now repository issue_number body st =
     (let c = new_comment now repository issue_number body st in
      (c, st\<lparr>sim_comments := sim_comments st @ [c], next_comment_id := next_comment_id st + 1\<rparr>))"

text \<open>
  Issue 198 accepts the comment and answers with a malformed document; the first comment on issue
  199 is accepted later, and the answer does not come before the client's time limit.
\<close>

definition sim_create_comment :: "string \<Rightarrow> string \<Rightarrow> string \<Rightarrow> int \<Rightarrow> string \<Rightarrow> endpoint" where
  "sim_create_comment now owner repository issue_number body st0 =
     (let st = st0\<lparr>create_calls := create_calls st0 + 1\<rparr>;
          name = owner @ ''/'' @ repository
      in if issue_number = 198 then
           (case add_comment now name issue_number body st of (c, st') \<Rightarrow> (TextReply 201 ''accepted-but-malformed'', st'))
         else if issue_number = 199 \<and> \<not> delayed_acceptance_started st then
           (NoReply, st\<lparr>delayed_acceptance_started := True, delayed_comment := Some (name, body)\<rparr>)
         else (case add_comment now name issue_number body st of (c, st') \<Rightarrow> (Document 201 (public_comment c), st')))"

definition sim_update_comment :: "string \<Rightarrow> string \<Rightarrow> string \<Rightarrow> int \<Rightarrow> string \<Rightarrow> endpoint" where
  "sim_update_comment now owner repository comment_id body st0 =
     (let st = st0\<lparr>update_calls := update_calls st0 + 1\<rparr> in
      case comment_by_id owner repository comment_id st of
        None \<Rightarrow> (not_found, st)
      | Some c \<Rightarrow> (let c' = c\<lparr>sc_body := body, sc_updated_at := now\<rparr> in
          (Document 200 (public_comment c'),
           st\<lparr>sim_comments := map (\<lambda>d. if sc_id d = comment_id then c' else d) (sim_comments st)\<rparr>)))"

text \<open>\<open>_delayed_comment\<close> when its sleep is over.\<close>

definition accept_delayed :: "string \<Rightarrow> sim_state \<Rightarrow> sim_state" where
  "accept_delayed now st = (case delayed_comment st of
     None \<Rightarrow> st
   | Some (name, body) \<Rightarrow> snd (add_comment now name 199 body (st\<lparr>delayed_comment := None\<rparr>)))"

section \<open>Slack\<close>

definition slack_auth_test :: "string option \<Rightarrow> endpoint" where
  "slack_auth_test authorization st =
     (Document 200 (case authorization of
        None \<Rightarrow> JObj [(''ok'', JBool False), (''error'', JStr ''invalid_auth'')]
      | Some a \<Rightarrow>
          if ends_with ''simulator-revoked-token'' a then JObj [(''ok'', JBool False), (''error'', JStr ''invalid_auth'')]
          else JObj
            [(''ok'', JBool True),
             (''team_id'', JStr (if ends_with ''simulator-wrong-team-token'' a then ''T0000000000'' else ''T1234567890'')),
             (''user_id'', JStr (if ends_with ''simulator-wrong-user-token'' a then ''U0000000000'' else ''U1234567890'')),
             (''bot_id'', JStr (if ends_with ''simulator-wrong-bot-token'' a then ''B0000000000'' else ''B1234567890'')),
             (''team'', JStr ''Fictional Simulator'')]),
      st\<lparr>slack_identity_calls := slack_identity_calls st + 1\<rparr>)"

record sim_message_body =
  mb_channel :: string
  mb_text :: string
  mb_mrkdwn :: bool
  mb_unfurl_links :: bool
  mb_unfurl_media :: bool

definition add_slack_message :: "sim_message_body \<Rightarrow> sim_state \<Rightarrow> sim_message \<times> sim_state" where
  "add_slack_message payload st =
     (let m = \<lparr>sg_channel = mb_channel payload, sg_timestamp = str_int (next_slack_timestamp st) @ ''.000001'',
               sg_text = mb_text payload\<rparr>
      in (m, st\<lparr>slack_messages := slack_messages st @ [m], next_slack_timestamp := next_slack_timestamp st + 1\<rparr>))"

definition slack_post_message :: "sim_message_body \<Rightarrow> endpoint" where
  "slack_post_message payload st0 =
     (let st = st0\<lparr>slack_post_calls := slack_post_calls st0 + 1\<rparr> in
      if \<not> mb_mrkdwn payload \<or> mb_unfurl_links payload \<or> mb_unfurl_media payload
        then (Document 200 (JObj [(''ok'', JBool False), (''error'', JStr ''invalid_arguments'')]), st)
      else if mb_channel payload = ''CRATELIMIT1''
        then (LimitedReply (JObj [(''ok'', JBool False), (''error'', JStr ''ratelimited'')]) ''1'', st)
      else if mb_channel payload = ''CPERMFAIL01''
        then (Document 200 (JObj [(''ok'', JBool False), (''error'', JStr ''channel_not_found'')]), st)
      else (case add_slack_message payload st of (m, st') \<Rightarrow>
        (if mb_channel payload = ''CUNKNOWN001'' then TextReply 200 ''accepted-but-malformed''
         else if mb_channel payload = ''CDELAYED001'' then NoReply
         else Document 200 (JObj [(''ok'', JBool True), (''channel'', JStr (sg_channel m)), (''ts'', JStr (sg_timestamp m))]),
         st')))"

text \<open>\<open>SlackMessageBody\<close>: five required fields and no other.\<close>

definition slack_message_body :: "coercions \<Rightarrow> jobj option \<Rightarrow> sim_message_body option" where
  "slack_message_body co payload = (case payload of
     None \<Rightarrow> None
   | Some kvs \<Rightarrow>
       if fst ` set kvs \<noteq> {''channel'', ''text'', ''mrkdwn'', ''unfurl_links'', ''unfurl_media''} then None
       else (case (obj_get kvs ''channel'', obj_get kvs ''text'',
                   Option.bind (obj_get kvs ''mrkdwn'') (to_bool co),
                   Option.bind (obj_get kvs ''unfurl_links'') (to_bool co),
                   Option.bind (obj_get kvs ''unfurl_media'') (to_bool co)) of
         (Some (JStr channel), Some (JStr text), Some mrkdwn, Some links, Some media) \<Rightarrow>
           if slack_channel channel \<and> 1 \<le> length text \<and> length text \<le> 4000
           then Some \<lparr>mb_channel = channel, mb_text = text, mb_mrkdwn = mrkdwn, mb_unfurl_links = links, mb_unfurl_media = media\<rparr>
           else None
       | _ \<Rightarrow> None))"

section \<open>Evidence and start\<close>

definition count :: "nat \<Rightarrow> json" where
  "count n = JInt (int n)"

definition evidence :: endpoint where
  "evidence st = (Document 200 (JObj
     [(''catalog_calls'', count (catalog_calls st)), (''github_read_calls'', count (github_read_calls st)),
      (''jira_calls'', count (jira_calls st)), (''create_calls'', count (create_calls st)),
      (''update_calls'', count (update_calls st)), (''comment_count'', count (length (sim_comments st))),
      (''slack_identity_calls'', count (slack_identity_calls st)), (''slack_post_calls'', count (slack_post_calls st)),
      (''slack_message_count'', count (length (slack_messages st)))]), st)"

text \<open>\<open>prevent_production_start\<close>, from the value of \<open>NINJATECH_ENVIRONMENT\<close>.\<close>

definition prevent_production_start :: "string option \<Rightarrow> unit result" where
  "prevent_production_start environment_variable =
     guardR (casefold (case environment_variable of None \<Rightarrow> ''development'' | Some e \<Rightarrow> e) \<notin> {''staging'', ''production''})
       (RuntimeError ''provider simulator is forbidden in staging and production'')"

section \<open>Routing\<close>

fun hex_value :: "char \<Rightarrow> nat option" where
  "hex_value c = (let n = (of_char c :: nat) in
     if 48 \<le> n \<and> n \<le> 57 then Some (n - 48)
     else if 65 \<le> n \<and> n \<le> 70 then Some (n - 55)
     else if 97 \<le> n \<and> n \<le> 102 then Some (n - 87) else None)"

text \<open>The server decodes the escapes of a path before it is split.\<close>

fun percent_decode :: "string \<Rightarrow> string" where
  "percent_decode (c # d # e # s) =
     (if c = CHR ''%'' then (case (hex_value d, hex_value e) of
        (Some h, Some l) \<Rightarrow> char_of (16 * h + l) # percent_decode s
      | _ \<Rightarrow> c # percent_decode (d # e # s))
      else c # percent_decode (d # e # s))"
| "percent_decode s = s"

definition query_parameter :: "string \<Rightarrow> string \<Rightarrow> string option" where
  "query_parameter query name =
     map_of (rev (map (\<lambda>part. case partition_at (CHR ''='') part of
                (k, v) \<Rightarrow> (k, percent_decode (case v of None \<Rightarrow> [] | Some x \<Rightarrow> x))) (split_on (CHR ''&'') query))) name"

definition with_int :: "coercions \<Rightarrow> string \<Rightarrow> (int \<Rightarrow> endpoint) \<Rightarrow> endpoint" where
  "with_int co s k = (case to_int co (JStr s) of None \<Rightarrow> (\<lambda>st. (unprocessable, st)) | Some i \<Rightarrow> k i)"

definition bounded_parameter :: "coercions \<Rightarrow> string \<Rightarrow> string \<Rightarrow> int \<Rightarrow> int \<Rightarrow> int option \<Rightarrow> int option" where
  "bounded_parameter co query name default_value least greatest = (case query_parameter query name of
     None \<Rightarrow> Some default_value
   | Some s \<Rightarrow> (case to_int co (JStr s) of
       None \<Rightarrow> None
     | Some i \<Rightarrow> if least \<le> i \<and> optionally (\<lambda>g. i \<le> g) greatest then Some i else None))"

definition page_endpoint :: "coercions \<Rightarrow> string \<Rightarrow> string \<Rightarrow> string \<Rightarrow> string \<Rightarrow> endpoint" where
  "page_endpoint co query owner repository number =
     with_int co number (\<lambda>issue_number.
       case (bounded_parameter co query ''per_page'' 100 1 (Some 100), bounded_parameter co query ''page'' 1 1 None) of
         (Some per_page, Some page) \<Rightarrow> list_comments owner repository issue_number (nat per_page) (nat page)
       | _ \<Rightarrow> (\<lambda>st. (unprocessable, st)))"

definition with_body :: "jobj option \<Rightarrow> (string \<Rightarrow> endpoint) \<Rightarrow> endpoint" where
  "with_body payload k = (case comment_body payload of None \<Rightarrow> (\<lambda>st. (unprocessable, st)) | Some body \<Rightarrow> k body)"

text \<open>The routes under \<open>/github/repos/{owner}/{repository}\<close>, in the order of their declaration.\<close>

definition repository_route ::
  "coercions \<Rightarrow> string \<Rightarrow> http_request \<Rightarrow> string \<Rightarrow> string \<Rightarrow> string \<Rightarrow> string list \<Rightarrow> endpoint option" where
  "repository_route co now rq query owner repository rest = (let verb = rq_method rq in case rest of
     [] \<Rightarrow> if verb = ''GET'' then Some (github_repository owner repository) else None
   | [a, b] \<Rightarrow>
       if a = ''commits'' \<and> verb = ''GET'' \<and> b \<noteq> [] then Some github_commit
       else if a = ''issues'' \<and> verb = ''GET'' \<and> b \<noteq> [] then Some (with_int co b (github_issue owner repository))
       else None
   | [a, b, c] \<Rightarrow>
       if a = ''issues'' \<and> c = ''comments'' \<and> verb = ''GET'' \<and> b \<noteq> []
         then Some (page_endpoint co query owner repository b)
       else if a = ''issues'' \<and> c = ''comments'' \<and> verb = ''POST'' \<and> b \<noteq> []
         then Some (with_int co b (\<lambda>i. with_body (rq_body rq) (sim_create_comment now owner repository i)))
       else if a = ''issues'' \<and> b = ''comments'' \<and> verb = ''GET'' \<and> c \<noteq> []
         then Some (with_int co c (read_comment owner repository))
       else if a = ''issues'' \<and> b = ''comments'' \<and> verb = ''PATCH'' \<and> c \<noteq> []
         then Some (with_int co c (\<lambda>i. with_body (rq_body rq) (sim_update_comment now owner repository i)))
       else None
   | _ \<Rightarrow> None)"

definition request_header :: "http_request \<Rightarrow> string \<Rightarrow> string option" where
  "request_header rq name = map_of (map (\<lambda>(k, v). (concat (map lower_char k), v)) (rq_headers rq)) name"

definition route :: "sim_env \<Rightarrow> string \<Rightarrow> http_request \<Rightarrow> string \<Rightarrow> string list \<Rightarrow> endpoint option" where
  "route env now rq query segments = (let co = sm_coercions env; verb = rq_method rq in
     case segments of
       [] \<Rightarrow> None
     | leading # rest \<Rightarrow>
        if rest = [''health''] \<and> verb = ''GET'' then Some (\<lambda>st. (Document 200 (JObj [(''status'', JStr ''ok'')]), st))
        else if rest = [''catalog'', ''services''] \<and> verb = ''GET''
          then Some (case query_parameter query ''service_id'' of
                 None \<Rightarrow> (\<lambda>st. (unprocessable, st))
               | Some s \<Rightarrow> if s = [] then (\<lambda>st. (unprocessable, st)) else catalog_services s)
        else if rest = [''github'', ''user''] \<and> verb = ''GET'' then Some github_user
        else if rest = [''slack'', ''auth.test''] \<and> verb = ''POST''
          then Some (slack_auth_test (request_header rq ''authorization''))
        else if rest = [''slack'', ''chat.postMessage''] \<and> verb = ''POST''
          then Some (case slack_message_body co (rq_body rq) of
                 None \<Rightarrow> (\<lambda>st. (unprocessable, st)) | Some payload \<Rightarrow> slack_post_message payload)
        else if rest = [''__simulator'', ''evidence''] \<and> verb = ''GET'' then Some evidence
        else if take 5 rest = [''jira'', ''rest'', ''api'', ''3'', ''issue''] \<and> verb = ''GET''
          then (case drop 5 rest of [key] \<Rightarrow> if key = [] then None else Some (jira_issue key) | _ \<Rightarrow> None)
        else if take 2 rest = [''github'', ''repos'']
          then (case drop 2 rest of
              owner # repository # rest' \<Rightarrow>
                if owner = [] \<or> repository = [] then None
                else repository_route co now rq query owner repository rest'
            | _ \<Rightarrow> None)
        else None)"

section \<open>The simulator as a transport\<close>

definition answer_of :: "sim_env \<Rightarrow> reply \<Rightarrow> transport_answer" where
  "answer_of env r = (case r of
     Document status v \<Rightarrow> Response status [(''content-type'', ''application/json'')] [sm_render env v] None
   | TextReply status body \<Rightarrow> Response status [(''content-type'', ''text/plain; charset=utf-8'')] [body] None
   | LimitedReply v delay \<Rightarrow>
       Response 429 [(''retry-after'', delay), (''content-type'', ''application/json'')] [sm_render env v] None
   | NoReply \<Rightarrow> NoResponse ReadTimeout)"

definition serve :: "sim_env \<Rightarrow> nat \<Rightarrow> http_request \<Rightarrow> sim_state \<Rightarrow> reply \<times> sim_state" where
  "serve env n rq st0 =
     (let st = (if sm_delay_over env n then accept_delayed (sm_now env n) st0 else st0) in
      case urlsplit (rq_url rq) of
        Inl _ \<Rightarrow> (not_found, st)
      | Inr u \<Rightarrow>
          (case route env (sm_now env n) rq (u_query u) (split_on (CHR ''/'') (percent_decode (u_path u))) of
             None \<Rightarrow> (not_found, st)
           | Some endpoint \<Rightarrow> endpoint st))"

fun state_after :: "sim_env \<Rightarrow> http_request list \<Rightarrow> sim_state" where
  "state_after env [] = initial_state"
| "state_after env (rq # earlier) = snd (serve env (length earlier) rq (state_after env earlier))"

text \<open>The answer to the last request, after the ones before it; \<open>state_after\<close> takes the latest first.\<close>

definition simulated_transport :: "sim_env \<Rightarrow> http_request list \<Rightarrow> transport_answer" where
  "simulated_transport env requests = (case rev requests of
     [] \<Rightarrow> NoResponse ConnectError
   | rq # earlier \<Rightarrow> answer_of env (fst (serve env (length earlier) rq (state_after env earlier))))"

end
