(* ===== verification/Provider_Urls.thy ===== *)
theory Provider_Urls
  imports Http_Client
begin

text \<open>
  The URL of a provider request: under a base URL, a path of plain segments and a plain query end
  up where they should, and the server splits the URL back into the same segments.
\<close>

section \<open>Segments\<close>

definition path_char :: "char \<Rightarrow> bool" where
  "path_char c \<longleftrightarrow> always_safe c \<or> c = CHR ''%''"

definition query_char :: "char \<Rightarrow> bool" where
  "query_char c \<longleftrightarrow> path_char c \<or> c = CHR ''='' \<or> c = CHR ''&''"

text \<open>A segment that path resolution leaves alone.\<close>

definition plain_segment :: "string \<Rightarrow> bool" where
  "plain_segment s \<longleftrightarrow> s \<noteq> [] \<and> s \<noteq> ''.'' \<and> s \<noteq> ''..'' \<and> list_all path_char s"

lemma path_char_code:
  assumes "path_char c"
  shows "37 \<le> (of_char c :: nat)" and "of_char c \<notin> {47, 58, 59, 63, 64, 91, 93 :: nat}"
    and "(of_char c :: nat) \<le> 126"
proof -
  from assms consider "is_lower c" | "is_upper c" | "is_digit c" | "c \<in> {CHR ''_'', CHR ''.'', CHR ''-'', CHR ''~'', CHR ''%''}"
    by (auto simp: path_char_def always_safe_def is_alpha_def)
  then have "37 \<le> (of_char c :: nat) \<and> of_char c \<notin> {47, 58, 59, 63, 64, 91, 93 :: nat} \<and> (of_char c :: nat) \<le> 126"
  proof cases
    case 1
    then have "97 \<le> (of_char c :: nat)" "(of_char c :: nat) \<le> 122" by (simp_all add: is_lower_def less_eq_char_def)
    then show ?thesis by simp
  next
    case 2
    then have "65 \<le> (of_char c :: nat)" "(of_char c :: nat) \<le> 90" by (simp_all add: is_upper_def less_eq_char_def)
    then show ?thesis by simp
  next
    case 3
    then have "48 \<le> (of_char c :: nat)" "(of_char c :: nat) \<le> 57" by (simp_all add: is_digit_iff)
    then show ?thesis by simp
  qed auto
  then show "37 \<le> (of_char c :: nat)" "of_char c \<notin> {47, 58, 59, 63, 64, 91, 93 :: nat}" "(of_char c :: nat) \<le> 126"
    by blast+
qed

lemma path_char_not:
  assumes "path_char c"
  shows "c \<notin> {CHR ''/'', CHR ''?'', CHR ''#'', CHR '':'', CHR '';'', CHR ''@'', CHR ''['', CHR '']''}"
proof
  assume "c \<in> {CHR ''/'', CHR ''?'', CHR ''#'', CHR '':'', CHR '';'', CHR ''@'', CHR ''['', CHR '']''}"
  then have "of_char c \<in> {35, 47, 58, 59, 63, 64, 91, 93 :: nat}" by (elim insertE) simp_all
  with path_char_code [OF assms] show False by simp
qed

lemma path_char_visible: "path_char c \<Longrightarrow> \<not> unsafe_char c \<and> 32 < (of_char c :: nat)"
  using path_char_code(1) [of c] by (auto simp: unsafe_char_def)

lemma query_char_not:
  assumes "query_char c"
  shows "c \<notin> {CHR ''/'', CHR ''?'', CHR ''#'', CHR '':''}" and "\<not> unsafe_char c"
proof -
  from assms consider "path_char c" | "c = CHR ''=''" | "c = CHR ''&''" by (auto simp: query_char_def)
  then have "c \<notin> {CHR ''/'', CHR ''?'', CHR ''#'', CHR '':''} \<and> \<not> unsafe_char c"
  proof cases
    case 1
    then show ?thesis using path_char_not path_char_visible by blast
  qed (simp_all add: unsafe_char_def)
  then show "c \<notin> {CHR ''/'', CHR ''?'', CHR ''#'', CHR '':''}" and "\<not> unsafe_char c" by blast+
qed

lemma split_on_plain: "c \<notin> set s \<Longrightarrow> split_on c s = [s]"
  by (induction s) auto

lemma split_on_sep: "c \<notin> set s \<Longrightarrow> split_on c (s @ c # r) = s # split_on c r"
  by (induction s) auto

lemma split_on_join:
  "segs \<noteq> [] \<Longrightarrow> list_all (\<lambda>s. CHR ''/'' \<notin> set s) segs \<Longrightarrow> split_on (CHR ''/'') (join ''/'' segs) = segs"
proof (induction segs rule: induct_list012)
  case (3 s t segs)
  then show ?case using split_on_sep [of "CHR ''/''" s "join ''/'' (t # segs)"] by simp
qed (auto simp: split_on_plain)

lemma join_append:
  "xs \<noteq> [] \<Longrightarrow> ys \<noteq> [] \<Longrightarrow> join sep (xs @ ys) = join sep xs @ sep @ join sep ys"
  by (induction xs rule: induct_list012) (auto simp: neq_Nil_conv)

lemma set_join: "set (join sep segs) \<subseteq> set sep \<union> \<Union> (set ` set segs)"
  by (induction segs rule: induct_list012) auto

lemma set_join_plain:
  "list_all plain_segment segs \<Longrightarrow> c \<in> set (join ''/'' segs) \<Longrightarrow> c = CHR ''/'' \<or> path_char c"
  using set_join [of "''/''" segs] by (auto simp: list_all_iff plain_segment_def subset_iff)

lemma join_plain_start:
  assumes "list_all plain_segment segs" "segs \<noteq> []"
  obtains c r where "join ''/'' segs = c # r" "path_char c"
  using assms by (cases segs; cases "tl segs") (auto simp: plain_segment_def neq_Nil_conv)

section \<open>Resolution\<close>

lemma resolve_plain: "list_all plain_segment segs \<Longrightarrow> foldl resolve_segment acc segs = acc @ segs"
  by (induction segs arbitrary: acc) (auto simp: resolve_segment_def plain_segment_def)

lemma split_params_plain:
  assumes "CHR '';'' \<notin> set path"
  shows "split_params path = (path, None)"
proof (cases "partition_at (CHR ''/'') (rev path)")
  case (Pair a b)
  show ?thesis
  proof (cases b)
    case None
    with Pair have "rev a = path" using partition_at_None [of "CHR ''/''" "rev path"] by simp
    with Pair None assms show ?thesis by (simp add: split_params_def rpartition_at_def partition_at_whole)
  next
    case (Some r)
    with Pair have "rev path = a @ CHR ''/'' # r" using partition_at_Some [of "CHR ''/''" "rev path" r] by simp
    then have path: "path = rev r @ CHR ''/'' # rev a" by (metis rev_append rev_rev_ident rev.simps(2) append.assoc append_Cons append_Nil)
    then have "partition_at (CHR '';'') (rev a) = (rev a, None)" using assms by (intro partition_at_whole) auto
    with Pair Some path show ?thesis by (simp add: split_params_def rpartition_at_def)
  qed
qed

lemma plain_no_slash: "list_all plain_segment segs \<Longrightarrow> list_all (\<lambda>s. CHR ''/'' \<notin> set s) segs"
  using path_char_not by (fastforce simp: list_all_iff plain_segment_def)

lemma join_path_plain:
  assumes "list_all plain_segment segs" "segs \<noteq> []" "list_all plain_segment pre" "pre \<noteq> []"
  shows "join_path (''/'' @ join ''/'' pre @ ''/'') (join ''/'' segs) = ''/'' @ join ''/'' (pre @ segs)"
proof -
  have base: "''/'' @ join ''/'' pre @ ''/'' = join ''/'' ([] # pre @ [[]])"
    using assms(4) join_append [of "[[]]" "pre @ [[]]" "''/''"] join_append [of pre "[[]]" "''/''"] by simp
  have parts: "split_on (CHR ''/'') (join ''/'' ([] # pre @ [[]])) = [] # pre @ [[]]"
    by (rule split_on_join) (use plain_no_slash [OF assms(3)] in simp_all)
  have path: "split_on (CHR ''/'') (join ''/'' segs) = segs"
    by (rule split_on_join [OF assms(2) plain_no_slash [OF assms(1)]])
  obtain c r where "join ''/'' segs = c # r" "path_char c" by (rule join_plain_start [OF assms(1,2)])
  then have start: "take 1 (join ''/'' segs) \<noteq> ''/''" using path_char_not [of c] by auto
  obtain front final where segs: "segs = front @ [final]" using assms(2) by (metis rev_exhaust)
  have "filter (\<lambda>s. s \<noteq> []) (pre @ front) = pre @ front"
    using assms(1,3) unfolding segs by (auto simp: filter_id_conv list_all_iff plain_segment_def)
  then have inner: "drop_empty_inner (([] # pre @ [[]]) @ segs) = [] # pre @ segs"
    unfolding segs by (simp add: drop_empty_inner_def butlast_append)
  have "plain_segment final" using assms(1) unfolding segs by simp
  then have "resolve_segments ([] # pre @ segs) = [] # pre @ segs"
    using resolve_plain [of "pre @ segs" "[[]]"] assms(1,3) unfolding segs
    by (simp add: resolve_segments_def resolve_segment_def plain_segment_def Let_def)
  moreover have "join ''/'' ([] # pre @ segs) = ''/'' @ join ''/'' (pre @ segs)"
    using assms(4) join_append [of "[[]]" "pre @ segs" "''/''"] by simp
  ultimately show ?thesis
    unfolding base join_path_def parts path using start inner by (simp add: Let_def)
qed

section \<open>Requests under a base URL\<close>

definition with_query :: "string \<Rightarrow> string \<Rightarrow> string" where
  "with_query path query = path @ (if query = [] then [] else CHR ''?'' # query)"

lemma split_query:
  assumes "CHR ''?'' \<notin> set path" "CHR ''#'' \<notin> set path" "CHR ''#'' \<notin> set query"
  shows "partition_at (CHR ''#'') (with_query path query) = (with_query path query, None)"
    and "partition_at (CHR ''?'') (with_query path query) = (path, if query = [] then None else Some query)"
  using assms partition_at_append [of "CHR ''?''" path query] partition_at_whole [of "CHR ''?''" path]
  by (auto simp: with_query_def intro!: partition_at_whole)

definition path_text :: "string \<Rightarrow> bool" where
  "path_text path \<longleftrightarrow> list_all (\<lambda>c. c = CHR ''/'' \<or> path_char c) path"

lemma path_text_simps [simp]:
  "path_text []" "path_text (CHR ''/'' # s) = path_text s" "path_text (s @ t) \<longleftrightarrow> path_text s \<and> path_text t"
  by (simp_all add: path_text_def)

lemma path_text_join: "list_all plain_segment segs \<Longrightarrow> path_text (join ''/'' segs)"
  using set_join_plain by (auto simp: path_text_def list_all_iff)

lemma path_chars:
  assumes "path_text path"
  shows "CHR ''?'' \<notin> set path" "CHR ''#'' \<notin> set path" "CHR '':'' \<notin> set path"
    "CHR '';'' \<notin> set path" "list_all (\<lambda>c. \<not> unsafe_char c) path"
proof -
  have c: "c \<notin> {CHR ''?'', CHR ''#'', CHR '':'', CHR '';''} \<and> \<not> unsafe_char c" if "c \<in> set path" for c
  proof -
    from assms that have "c = CHR ''/'' \<or> path_char c" by (auto simp: path_text_def list_all_iff)
    then show ?thesis
    proof
      assume "c = CHR ''/''"
      then show ?thesis by (simp add: unsafe_char_def)
    next
      assume "path_char c"
      then show ?thesis using path_char_not path_char_visible by blast
    qed
  qed
  then show "CHR ''?'' \<notin> set path" "CHR ''#'' \<notin> set path" "CHR '':'' \<notin> set path"
    "CHR '';'' \<notin> set path" "list_all (\<lambda>c. \<not> unsafe_char c) path"
    by (auto simp: list_all_iff)
qed

lemma query_chars:
  assumes "list_all query_char query"
  shows "CHR ''#'' \<notin> set query" "CHR '':'' \<notin> set query" "list_all (\<lambda>c. \<not> unsafe_char c) query"
  using assms query_char_not by (fastforce simp: list_all_iff)+

lemma urlsplit_reference:
  assumes segs: "list_all plain_segment segs" "segs \<noteq> []" and query: "list_all query_char query"
  shows "urlsplit (with_query (join ''/'' segs) query) =
    Inr \<lparr>u_scheme = [], u_netloc = [], u_path = join ''/'' segs, u_query = query, u_fragment = []\<rparr>"
proof -
  let ?url = "with_query (join ''/'' segs) query"
  note p = path_chars [OF path_text_join [OF segs(1)]] and q = query_chars [OF query]
  obtain c r where start: "join ''/'' segs = c # r" "path_char c" by (rule join_plain_start [OF segs])
  then have hd: "?url = c # r @ (if query = [] then [] else CHR ''?'' # query)" by (simp add: with_query_def)
  have "list_all (\<lambda>c. \<not> unsafe_char c) ?url" using p(5) q(3) by (auto simp: with_query_def unsafe_char_def)
  then have "filter (\<lambda>c. \<not> unsafe_char c) ?url = ?url" by (simp add: filter_id_conv list_all_iff)
  moreover have "dropWhile (\<lambda>c. of_char c \<le> (32::nat)) ?url = ?url"
    using path_char_visible [OF start(2)] unfolding hd by simp
  moreover have "split_scheme ?url = ([], ?url)"
  proof -
    have "CHR '':'' \<notin> set ?url" using p(3) q(2) by (simp add: with_query_def)
    then show ?thesis by (simp add: split_scheme_def partition_at_whole)
  qed
  moreover have "split_netloc ?url = ([], ?url)"
    using path_char_not [OF start(2)] unfolding hd by (simp add: split_netloc_def)
  ultimately show ?thesis
    using split_query [OF p(1,2) q(1)] by (simp add: urlsplit_def)
qed

lemma urlsplit_absolute:
  assumes sc: "http_scheme sc" and netloc: "list_all (\<lambda>c. path_char c \<or> c = CHR '':'') netloc"
    and path: "path_text rest" and query: "list_all query_char query"
  shows "urlsplit (sc @ ''://'' @ netloc @ with_query (''/'' @ rest) query) =
    Inr \<lparr>u_scheme = sc, u_netloc = netloc, u_path = ''/'' @ rest, u_query = query, u_fragment = []\<rparr>"
proof -
  let ?path = "''/'' @ rest"
  let ?url = "sc @ ''://'' @ netloc @ with_query ?path query"
  note p = path_chars [OF path] and q = query_chars [OF query]
  have n: "c \<notin> {CHR ''/'', CHR ''?'', CHR ''#'', CHR ''['', CHR '']''} \<and> \<not> unsafe_char c" if "c \<in> set netloc" for c
  proof -
    from netloc that have "path_char c \<or> c = CHR '':''" by (auto simp: list_all_iff)
    then show ?thesis
    proof
      assume "path_char c"
      then show ?thesis using path_char_not path_char_visible by blast
    qed (simp add: unsafe_char_def)
  qed
  have "list_all (\<lambda>c. \<not> unsafe_char c) ?url"
  proof -
    have "list_all (\<lambda>c. \<not> unsafe_char c) sc" using sc by (auto simp: http_scheme_def unsafe_char_def)
    moreover have "list_all (\<lambda>c. \<not> unsafe_char c) netloc" using n by (simp add: list_all_iff)
    moreover have "list_all (\<lambda>c. \<not> unsafe_char c) (with_query ?path query)"
      using p(5) q(3) by (simp add: with_query_def unsafe_char_def)
    ultimately show ?thesis by (simp add: unsafe_char_def)
  qed
  then have "filter (\<lambda>c. \<not> unsafe_char c) ?url = ?url" by (simp add: filter_id_conv list_all_iff)
  moreover have "dropWhile (\<lambda>c. of_char c \<le> (32::nat)) ?url = ?url" using sc by (auto simp: http_scheme_def)
  moreover have "split_netloc (''//'' @ netloc @ with_query ?path query) = (netloc, with_query ?path query)"
    by (rule split_netloc_clean) (use n in \<open>auto simp: with_query_def netloc_end_def\<close>)
  moreover have "partition_at (CHR ''#'') (with_query ?path query) = (with_query ?path query, None)"
    "partition_at (CHR ''?'') (with_query ?path query) = (?path, if query = [] then None else Some query)"
    by (rule split_query; use p q in simp)+
  moreover have "CHR ''['' \<notin> set netloc" "CHR '']'' \<notin> set netloc" using n by blast+
  ultimately show ?thesis
    using split_scheme_http [OF sc, of "netloc @ with_query ?path query"] by (simp add: urlsplit_def)
qed

lemma join_plain_last:
  assumes "list_all plain_segment segs" "segs \<noteq> []"
  obtains r c where "join ''/'' segs = r @ [c]" "path_char c"
proof -
  obtain front final where segs: "segs = front @ [final]" using assms(2) by (metis rev_exhaust)
  then obtain r c where "final = r @ [c]" "path_char c"
    using assms(1) by (cases final rule: rev_cases) (auto simp: plain_segment_def)
  then show thesis
    using segs join_append [of front "[final]" "''/''"] that [of "r" c]
      that [of "join ''/'' front @ ''/'' @ r" c] by (cases "front = []") auto
qed

lemma strip_plain:
  "c \<noteq> CHR ''/'' \<Longrightarrow> strip_right (s @ [c]) = s @ [c]" "c \<noteq> CHR ''/'' \<Longrightarrow> strip_left (c # s) = c # s"
  by (simp_all add: strip_right_def strip_left_def)

text \<open>An absolute HTTP(S) base URL of plain parts, without credentials.\<close>

definition plain_base :: "string \<Rightarrow> string \<Rightarrow> string list \<Rightarrow> string \<Rightarrow> bool" where
  "plain_base sc netloc pre base_url \<longleftrightarrow>
     http_scheme sc \<and> list_all (\<lambda>c. path_char c \<or> c = CHR '':'') netloc \<and> list_all plain_segment pre \<and> pre \<noteq> [] \<and>
     base_url = sc @ ''://'' @ netloc @ ''/'' @ join ''/'' pre \<and>
     netloc \<noteq> [] \<and> (\<exists>p. port \<lparr>u_scheme = sc, u_netloc = netloc, u_path = [], u_query = [], u_fragment = []\<rparr> = Inr p)"

lemma port_netloc: "u_netloc u = u_netloc v \<Longrightarrow> port u = port v"
  by (simp add: port_def hostinfo_def)

lemma trusted_url_plain:
  assumes base: "plain_base sc netloc pre base_url"
    and segs: "list_all plain_segment segs" "segs \<noteq> []" and query: "list_all query_char query"
  shows "trusted_url base_url (with_query (join ''/'' segs) query) =
    Inr (sc @ ''://'' @ netloc @ with_query (''/'' @ join ''/'' (pre @ segs)) query)"
proof -
  have sc: "http_scheme sc" and netloc: "list_all (\<lambda>c. path_char c \<or> c = CHR '':'') netloc" and pre: "list_all plain_segment pre" "pre \<noteq> []"
    and b: "base_url = sc @ ''://'' @ netloc @ ''/'' @ join ''/'' pre" and ne: "netloc \<noteq> []"
    using base by (simp_all add: plain_base_def)
  let ?path = "with_query (join ''/'' segs) query"
  let ?base = "sc @ ''://'' @ netloc @ with_query (''/'' @ join ''/'' pre @ ''/'') []"
  let ?url = "sc @ ''://'' @ netloc @ with_query (''/'' @ join ''/'' (pre @ segs)) query"
  obtain c r where start: "join ''/'' segs = c # r" "path_char c" by (rule join_plain_start [OF segs])
  have c: "c \<noteq> CHR ''/''" using path_char_not [OF start(2)] by blast
  then have path: "take 2 ?path \<noteq> ''//''" "strip_left ?path = ?path" "?path \<noteq> []"
    by (simp_all add: with_query_def start strip_plain)
  obtain r' c' where last: "join ''/'' pre = r' @ [c']" "path_char c'" by (rule join_plain_last [OF pre])
  have "c' \<noteq> CHR ''/''" using path_char_not [OF last(2)] by blast
  then have norm: "strip_right base_url @ ''/'' = ?base"
    using strip_plain(1) [of c' "sc @ ''://'' @ netloc @ ''/'' @ r'"] by (simp add: b last with_query_def)
  let ?u = "\<lambda>path query. \<lparr>u_scheme = sc, u_netloc = netloc, u_path = path, u_query = query, u_fragment = []\<rparr>"
  have base_path: "''/'' @ join ''/'' pre @ ''/'' = ''/'' @ join ''/'' (pre @ [[]])"
    using join_append [OF pre(2), of "[[]]" "''/''"] by simp
  have split_base: "urlsplit ?base = Inr (?u (''/'' @ join ''/'' pre @ ''/'') [])"
    by (rule urlsplit_absolute [OF sc netloc]) (simp_all add: path_text_join [OF pre(1)])
  have split_url: "urlsplit ?url = Inr (?u (''/'' @ join ''/'' (pre @ segs)) query)"
    by (rule urlsplit_absolute [OF sc netloc _ query]) (use pre segs in \<open>simp add: path_text_join\<close>)
  have "CHR '';'' \<notin> set (join ''/'' segs)" "CHR '';'' \<notin> set (''/'' @ join ''/'' pre @ ''/'')"
    using path_chars(4) [OF path_text_join [OF segs(1)]] path_chars(4) [OF path_text_join [OF pre(1)]] by auto
  then have params: "split_params (join ''/'' segs) = (join ''/'' segs, None)"
    "split_params (''/'' @ join ''/'' pre @ ''/'') = (''/'' @ join ''/'' pre @ ''/'', None)"
    by - (erule split_params_plain)+
  have "join ''/'' segs \<noteq> []" using start(1) by simp
  moreover have "urlunsplit sc netloc (''/'' @ join ''/'' (pre @ segs)) query [] = ?url"
    by (simp add: urlunsplit_def with_query_def)
  ultimately have joined: "urljoin ?base ?path = Inr ?url"
    unfolding urljoin_def split_base urlsplit_reference [OF segs query] bindR_simps split_url.select_convs params
      fst_conv join_path_plain [OF segs pre] with_params_def prod.case option.case
    using path(3) by simp
  have at: "CHR ''@'' \<notin> set netloc"
    using netloc path_char_not by (fastforce simp: list_all_iff)
  have "username (?u q1 q2) = None" "password (?u q1 q2) = None" for q1 q2
    using rpartition_None [of "CHR ''@''" netloc] at by (simp_all add: username_def password_def)
  moreover have "port (?u q1 q2) = port (?u [] [])" for q1 q2 by (rule port_netloc) simp
  moreover obtain p where "port (?u [] []) = Inr p" using base by (auto simp: plain_base_def)
  moreover have "hostname (?u (''/'' @ join ''/'' (pre @ segs)) query) = hostname (?u (''/'' @ join ''/'' pre @ ''/'') [])"
    using hostinfo_netloc [of "?u (''/'' @ join ''/'' (pre @ segs)) query" "?u (''/'' @ join ''/'' pre @ ''/'') []"] by simp
  ultimately show ?thesis
    unfolding trusted_url_def if_not_P [OF path(1)] norm path(2) Let_def joined bindR_simps split_base split_url
    by simp
qed

end
