(* ===== verification/Simulated_GitHub.thy ===== *)
theory Simulated_GitHub
  imports Simulator Provider_Urls Comment_Search Client_Results
begin

text \<open>
  The GitHub client against the provider simulator: the two are composed through the HTTP boundary
  and the URLs, so that what the client finds is what the simulator has stored.
\<close>

section \<open>The simulator's side\<close>

text \<open>An owner or repository name that needs no escapes and is no dot segment.\<close>

definition plain_name :: "string \<Rightarrow> bool" where
  "plain_name s \<longleftrightarrow> s \<noteq> [] \<and> s \<noteq> ''.'' \<and> s \<noteq> ''..'' \<and> list_all always_safe s"

lemma plain_name_segment: "plain_name s \<Longrightarrow> plain_segment s"
  by (auto simp: plain_name_def plain_segment_def path_char_def list_all_iff)

lemma always_safe_no_escape: "always_safe c \<Longrightarrow> c \<noteq> CHR ''%'' \<and> of_char c < (128::nat)"
proof -
  assume c: "always_safe c"
  have "\<not> always_safe (CHR ''%'')"
    by (simp add: always_safe_def is_alpha_def is_lower_def is_upper_def is_digit_iff less_eq_char_def)
  with c have "c \<noteq> CHR ''%''" by blast
  moreover have "(of_char c :: nat) \<le> 126" using c by (intro path_char_code(3)) (simp add: path_char_def)
  ultimately show ?thesis by simp
qed

lemma percent_decode_plain: "CHR ''%'' \<notin> set s \<Longrightarrow> percent_decode s = s"
  by (induction s rule: percent_decode.induct) auto

lemma url_quote_plain: "list_all always_safe s \<Longrightarrow> url_quote s = s"
  by (induction s) (auto simp: url_quote_def utf8_char_def quote_byte_def Let_def dest: always_safe_no_escape)

lemma digits_plain: "plain_name (nat_digits n)"
proof -
  have d: "list_all is_digit (nat_digits n)" by (rule nat_digits_digits)
  then have "nat_digits n \<noteq> ''.'' \<and> nat_digits n \<noteq> ''..''" by (auto simp: is_digit_iff)
  with d nat_digits_nonempty [of n] show ?thesis
    by (auto simp: plain_name_def always_safe_def list_all_iff)
qed

lemma digits_chars:
  "c \<in> set (nat_digits n) \<Longrightarrow> is_digit c"
  using nat_digits_digits [of n] by (auto simp: list_all_iff)

lemma accept_delayed_other:
  "number \<noteq> 199 \<Longrightarrow> comments_of owner name number (accept_delayed now st) = comments_of owner name number st"
  by (auto simp: accept_delayed_def comments_of_def add_comment_def new_comment_def Let_def split: option.splits prod.splits)

definition comments_path :: "string \<Rightarrow> string \<Rightarrow> int \<Rightarrow> string list" where
  "comments_path owner name number = [''repos'', owner, name, ''issues'', str_int number, ''comments'']"

definition page_query :: "nat \<Rightarrow> string" where
  "page_query p = ''per_page=100&page='' @ nat_digits p"

lemma query_literal: "list_all query_char ''per_page=100&page=''"
  by (simp add: query_char_def path_char_def always_safe_def is_alpha_def is_lower_def is_upper_def is_digit_iff less_eq_char_def)

lemma page_query_chars: "list_all query_char (page_query p)"
proof -
  have "list_all query_char (nat_digits p)"
    by (auto simp: list_all_iff query_char_def path_char_def always_safe_def dest: digits_chars)
  then show ?thesis unfolding page_query_def list_all_append using query_literal by blast
qed

lemma page_parameters:
  "query_parameter (page_query p) ''per_page'' = Some ''100''"
  "query_parameter (page_query p) ''page'' = Some (nat_digits p)"
proof -
  have no: "CHR ''&'' \<notin> set (nat_digits p)" "CHR ''%'' \<notin> set (nat_digits p)"
    by (auto simp: is_digit_iff dest!: digits_chars)
  have "split_on (CHR ''&'') (page_query p) = [''per_page=100'', ''page='' @ nat_digits p]"
    using no split_on_plain [of "CHR ''&''" "nat_digits p"] by (auto simp: page_query_def)
  then show "query_parameter (page_query p) ''per_page'' = Some ''100''"
    "query_parameter (page_query p) ''page'' = Some (nat_digits p)"
    using no by (simp_all add: query_parameter_def percent_decode_plain)
qed

text \<open>What the simulator sees of a request under \<open>/github\<close>.\<close>

lemma serve_path:
  assumes url: "rq_url rq = sc @ ''://'' @ netloc @ with_query (''/'' @ join ''/'' (''github'' # segs)) query"
    and sc: "http_scheme sc" "list_all (\<lambda>c. path_char c \<or> c = CHR '':'') netloc"
    and segs: "list_all plain_name segs" and query: "list_all query_char query"
  shows "serve env n rq st =
    (let st' = (if sm_delay_over env n then accept_delayed (sm_now env n) st else st) in
     case route env (sm_now env n) rq query ([] # ''github'' # segs) of
       None \<Rightarrow> (not_found, st') | Some endpoint \<Rightarrow> endpoint st')"
proof -
  have plain: "list_all plain_segment segs" using segs plain_name_segment by (auto simp: list_all_iff)
  have g: "plain_segment ''github''"
    by (simp add: plain_segment_def path_char_def always_safe_def is_alpha_def is_lower_def is_upper_def less_eq_char_def)
  have u: "urlsplit (rq_url rq) = Inr \<lparr>u_scheme = sc, u_netloc = netloc,
      u_path = ''/'' @ join ''/'' (''github'' # segs), u_query = query, u_fragment = []\<rparr>"
    unfolding url by (rule urlsplit_absolute [OF sc path_text_join query]) (use plain g in simp)
  have "CHR ''%'' \<notin> set (join ''/'' (''github'' # segs))"
    using set_join [of "''/''" "''github'' # segs"] segs always_safe_no_escape
    by (fastforce simp: plain_name_def list_all_iff)
  then have decode: "percent_decode (''/'' @ join ''/'' (''github'' # segs)) = ''/'' @ join ''/'' (''github'' # segs)"
    by (intro percent_decode_plain) auto
  have "split_on (CHR ''/'') ([] @ CHR ''/'' # join ''/'' (''github'' # segs)) = [] # ''github'' # segs"
    unfolding split_on_sep [of "CHR ''/''" "[]", simplified]
    using split_on_join [OF _ plain_no_slash, of "''github'' # segs"] plain g by simp
  then show ?thesis
    unfolding serve_def u using decode by (simp add: Let_def)
qed

text \<open>An issue of a repository, as the client and the simulator name it.\<close>

definition plain_issue :: "string \<Rightarrow> string \<Rightarrow> int \<Rightarrow> bool" where
  "plain_issue owner name number \<longleftrightarrow> plain_name owner \<and> plain_name name \<and> 1 \<le> number \<and> number \<noteq> 198 \<and> number \<noteq> 199"

lemma issue_number_text: "plain_issue owner name number \<Longrightarrow> str_int number = nat_digits (nat number)"
  by (simp add: plain_issue_def str_int_def)

definition reads_numbers :: "coercions \<Rightarrow> bool" where
  "reads_numbers co \<longleftrightarrow> (\<forall>n. to_int co (JStr (nat_digits n)) = Some (int n))"

lemma reads_number: "reads_numbers co \<Longrightarrow> plain_issue owner name number \<Longrightarrow> to_int co (JStr (str_int number)) = Some number"
  by (simp add: reads_numbers_def issue_number_text) (simp add: plain_issue_def)

lemma reads_hundred: "reads_numbers co \<Longrightarrow> to_int co (JStr ''100'') = Some 100"
proof -
  assume co: "reads_numbers co"
  have "nat_digits 100 = ''100''" by code_simp
  then show ?thesis using co by (metis of_nat_numeral reads_numbers_def)
qed

lemma comments_path_plain:
  assumes "plain_issue owner name number"
  shows "list_all plain_name (comments_path owner name number)" "list_all plain_segment (comments_path owner name number)"
    "comments_path owner name number \<noteq> []"
proof -
  have literal: "plain_name ''repos''" "plain_name ''issues''" "plain_name ''comments''"
    by (simp_all add: plain_name_def always_safe_def is_alpha_def is_lower_def is_upper_def less_eq_char_def)
  then show all: "list_all plain_name (comments_path owner name number)"
    using assms digits_plain [of "nat number"] issue_number_text [OF assms] by (simp add: comments_path_def plain_issue_def)
  then show "list_all plain_segment (comments_path owner name number)"
    using plain_name_segment by (auto simp: list_all_iff)
  show "comments_path owner name number \<noteq> []" by (simp add: comments_path_def)
qed

text \<open>The state in which the simulator handles its next request.\<close>

definition current :: "sim_env \<Rightarrow> nat \<Rightarrow> sim_state \<Rightarrow> sim_state" where
  "current env n st = (if sm_delay_over env n then accept_delayed (sm_now env n) st else st)"

lemma comments_of_current:
  "plain_issue owner name number \<Longrightarrow> comments_of owner name number (current env n st) = comments_of owner name number st"
  by (auto simp: current_def plain_issue_def accept_delayed_other)

definition github_url :: "string \<Rightarrow> string \<Rightarrow> string list \<Rightarrow> string \<Rightarrow> string" where
  "github_url sc netloc segs query = sc @ ''://'' @ netloc @ with_query (''/'' @ join ''/'' (''github'' # segs)) query"

lemma serve_page:
  assumes sc: "http_scheme sc" "list_all (\<lambda>c. path_char c \<or> c = CHR '':'') netloc"
    and issue: "plain_issue owner name number" and co: "reads_numbers (sm_coercions env)" and p: "1 \<le> p"
    and rq: "rq_method rq = ''GET''" "rq_url rq = github_url sc netloc (comments_path owner name number) (page_query p)"
  shows "serve env n rq st =
    (Document 200 (JArr (map public_comment (page_of p (comments_of owner name number st)))),
     (current env n st)\<lparr>github_read_calls := github_read_calls (current env n st) + 1\<rparr>)"
proof -
  have names: "owner \<noteq> []" "name \<noteq> []" using issue by (auto simp: plain_issue_def plain_name_def)
  have num: "str_int number \<noteq> []" using issue_number_text [OF issue] nat_digits_nonempty by simp
  have page: "to_int (sm_coercions env) (JStr (nat_digits p)) = Some (int p)" using co by (simp add: reads_numbers_def)
  have "route env now rq (page_query p) ([] # ''github'' # comments_path owner name number) =
      Some (list_comments owner name number 100 p)" for now
    using rq(1) names num p
    by (simp add: route_def repository_route_def comments_path_def page_endpoint_def with_int_def reads_number [OF co issue]
        bounded_parameter_def page_parameters reads_hundred [OF co] page)
  then show ?thesis
    using serve_path [OF rq(2) [unfolded github_url_def] sc comments_path_plain(1) [OF issue] page_query_chars, of env n st]
    by (simp add: Let_def list_comments_def github_reading_def page_of_def comments_page_def comments_of_current [OF issue]
        mult.commute flip: current_def)
qed

lemma serve_create:
  fixes n :: nat and st :: sim_state
  assumes sc: "http_scheme sc" "list_all (\<lambda>c. path_char c \<or> c = CHR '':'') netloc"
    and issue: "plain_issue owner name number" and co: "reads_numbers (sm_coercions env)"
    and body: "1 \<le> length body" "length body \<le> 32768"
    and rq: "rq_method rq = ''POST''" "rq_url rq = github_url sc netloc (comments_path owner name number) []"
      "rq_body rq = Some [(''body'', JStr body)]"
  defines "c \<equiv> new_comment (sm_now env n) (owner @ ''/'' @ name) number body (current env n st)"
  shows "fst (serve env n rq st) = Document 201 (public_comment c)"
    and "comments_of owner name number (snd (serve env n rq st)) = comments_of owner name number st @ [c]"
proof -
  have names: "owner \<noteq> []" "name \<noteq> []" using issue by (auto simp: plain_issue_def plain_name_def)
  have num: "str_int number \<noteq> []" using issue_number_text [OF issue] nat_digits_nonempty by simp
  have "route env now rq [] ([] # ''github'' # comments_path owner name number) =
      Some (sim_create_comment now owner name number body)" for now
    using rq(1) rq(3) names num body
    by (simp add: route_def repository_route_def comments_path_def with_int_def reads_number [OF co issue]
        with_body_def comment_body_def)
  then have run: "serve env n rq st = sim_create_comment (sm_now env n) owner name number body (current env n st)"
    using serve_path [OF rq(2) [unfolded github_url_def] sc comments_path_plain(1) [OF issue], of env n st]
    by (simp add: Let_def flip: current_def)
  have "number \<noteq> 198" "number \<noteq> 199" using issue by (simp_all add: plain_issue_def)
  then have created: "sim_create_comment (sm_now env n) owner name number body (current env n st) =
     (Document 201 (public_comment c), (current env n st)\<lparr>create_calls := create_calls (current env n st) + 1,
        sim_comments := sim_comments (current env n st) @ [c], next_comment_id := next_comment_id (current env n st) + 1\<rparr>)"
    by (simp add: sim_create_comment_def add_comment_def new_comment_def c_def Let_def)
  show "fst (serve env n rq st) = Document 201 (public_comment c)" unfolding run created by simp
  have "sc_repository c = full_name owner name" "sc_issue_number c = number"
    by (simp_all add: c_def new_comment_def full_name_def)
  then have "comments_of owner name number (snd (serve env n rq st)) = comments_of owner name number (current env n st) @ [c]"
    unfolding run created by (simp add: comments_of_def)
  then show "comments_of owner name number (snd (serve env n rq st)) = comments_of owner name number st @ [c]"
    by (simp add: comments_of_current [OF issue])
qed

section \<open>The client's side\<close>

text \<open>The simulator as it stands after the requests of a world.\<close>

definition simulator_of :: "sim_env \<Rightarrow> 'w http_world_scheme \<Rightarrow> sim_state" where
  "simulator_of env w = state_after env (rev (ht_sent w))"

lemma simulated_answer:
  "simulated_transport env (ht_sent w @ [rq]) = answer_of env (fst (serve env (length (ht_sent w)) rq (simulator_of env w)))"
  by (simp add: simulated_transport_def simulator_of_def)

lemma simulator_step:
  "ht_sent w' = ht_sent w @ [rq] \<Longrightarrow>
   simulator_of env w' = snd (serve env (length (ht_sent w)) rq (simulator_of env w))"
  by (simp add: simulator_of_def)

text \<open>A document the client can read: within its size limit, and loaded as it was rendered.\<close>

definition readable :: "client_env \<Rightarrow> sim_env \<Rightarrow> json \<Rightarrow> bool" where
  "readable ce env doc \<longleftrightarrow> (let body = sm_render env doc in
     body \<noteq> [] \<and> int (length body) \<le> integration_max_response_bytes (ce_settings ce) \<and>
     he_loads (ce_http ce) body = Loaded doc)"

text \<open>A client whose HTTP boundary leads to the simulator, with a credential for GitHub.\<close>

definition simulated_client :: "client_env \<Rightarrow> sim_env \<Rightarrow> string \<Rightarrow> string \<Rightarrow> bool" where
  "simulated_client ce env sc netloc \<longleftrightarrow>
     he_transport (ce_http ce) = simulated_transport env \<and> clock_ok (ce_http ce) \<and>
     plain_base sc netloc [''github''] (github_base_url (ce_settings ce)) \<and>
     (\<forall>n. \<exists>secret. ce_secret ce P_GITHUB n = Inr secret) \<and>
     reads_numbers (sm_coercions env) \<and> search_bounds (ce_settings ce)"

lemma delivered_document:
  assumes "readable ce env doc" and "is_success status"
  shows "delivered (ce_http ce) (integration_max_response_bytes (ce_settings ce)) (answer_of env (Document status doc)) =
    Some \<lparr>js_status = status, js_headers = [(''content-type'', ''application/json'')], js_payload = doc\<rparr>"
proof -
  have "lower_headers [(''content-type'', ''application/json'')] = [(''content-type'', ''application/json'')]"
    by code_simp
  moreover have "is_json_content_type ''application/json''" by code_simp
  ultimately show ?thesis
    using assms by (auto simp: delivered_def answer_of_def readable_def Let_def header_def)
qed

lemma provider_read_delivered:
  fixes operation :: metric_operation and correlation :: string
  assumes clock: "clock_ok (ce_http ce)" and secret: "ce_secret ce (rd_provider rd) (length (ht_sent w)) = Inr secret"
    and url: "trusted_url (rd_base_url rd (ce_settings ce)) path = Inr url"
  defines "rq \<equiv> request_of (read_call (ce_settings ce) rd operation correlation path secret) url"
  assumes answer: "delivered (ce_http ce) (integration_max_response_bytes (ce_settings ce))
      (he_transport (ce_http ce) (ht_sent w @ [rq])) = Some response" and ok: "is_success (js_status response)"
  obtains w' where "provider_read ce rd operation correlation path w = (Inr response, w')" "ht_sent w' = ht_sent w @ [rq]"
proof -
  let ?call = "read_call (ce_settings ce) rd operation correlation path secret"
  have call: "hc_base_url ?call = rd_base_url rd (ce_settings ce)" "hc_path ?call = path" by (simp_all add: read_call_def)
  show thesis
  proof (rule request_json_run [OF clock, of ?call "integration_max_response_bytes (ce_settings ce)" w])
    fix e w'
    assume "trusted_url (hc_base_url ?call) (hc_path ?call) = Inl e"
    then show thesis using url by (simp add: call)
  next
    fix url' w'
    assume "trusted_url (hc_base_url ?call) (hc_path ?call) = Inr url'"
      and run: "request_json (ce_http ce) (integration_max_response_bytes (ce_settings ce)) ?call w =
        (fst (settled (ce_http ce) (integration_max_response_bytes (ce_settings ce)) ?call
           (he_transport (ce_http ce) (ht_sent w @ [request_of ?call url']))), w')"
      and w': "ht_sent w' = ht_sent w @ [request_of ?call url']"
    then have u: "url' = url" using url by (simp add: call)
    have "fst (settled (ce_http ce) (integration_max_response_bytes (ce_settings ce)) ?call
           (he_transport (ce_http ce) (ht_sent w @ [rq]))) = Inr response"
      using answer by (simp add: settled_delivered)
    then have "provider_read ce rd operation correlation path w = (Inr response, w')"
      using run secret ok unfolding u rq_def
      by (simp add: provider_read_def rethrow_def catchE_def bindE_def credential_def liftR_def ret_def classify_read_def Let_def)
    then show thesis using w' unfolding u rq_def [symmetric] by (rule that)
  qed
qed

lemma github_write_delivered:
  fixes verb :: string and payload :: jobj and correlation :: string
  assumes clock: "clock_ok (ce_http ce)" and secret: "ce_secret ce P_GITHUB (length (ht_sent w)) = Inr secret"
    and url: "trusted_url (github_base_url (ce_settings ce)) path = Inr url"
  defines "rq \<equiv> request_of (write_call (ce_settings ce) verb path payload correlation secret) url"
  assumes answer: "delivered (ce_http ce) (integration_max_response_bytes (ce_settings ce))
      (he_transport (ce_http ce) (ht_sent w @ [rq])) = Some response"
  obtains w' where "github_write ce verb path payload correlation w = (classify_write (ce_settings ce) response, w')"
    "ht_sent w' = ht_sent w @ [rq]"
proof -
  let ?call = "write_call (ce_settings ce) verb path payload correlation secret"
  have call: "hc_base_url ?call = github_base_url (ce_settings ce)" "hc_path ?call = path" by (simp_all add: write_call_def)
  show thesis
  proof (rule request_json_run [OF clock, of ?call "integration_max_response_bytes (ce_settings ce)" w])
    fix e w'
    assume "trusted_url (hc_base_url ?call) (hc_path ?call) = Inl e"
    then show thesis using url by (simp add: call)
  next
    fix url' w'
    assume "trusted_url (hc_base_url ?call) (hc_path ?call) = Inr url'"
      and run: "request_json (ce_http ce) (integration_max_response_bytes (ce_settings ce)) ?call w =
        (fst (settled (ce_http ce) (integration_max_response_bytes (ce_settings ce)) ?call
           (he_transport (ce_http ce) (ht_sent w @ [request_of ?call url']))), w')"
      and w': "ht_sent w' = ht_sent w @ [request_of ?call url']"
    then have u: "url' = url" using url by (simp add: call)
    have "fst (settled (ce_http ce) (integration_max_response_bytes (ce_settings ce)) ?call
           (he_transport (ce_http ce) (ht_sent w @ [rq]))) = Inr response"
      using answer by (simp add: settled_delivered)
    then have "github_write ce verb path payload correlation w = (classify_write (ce_settings ce) response, w')"
      using run secret unfolding u rq_def
      by (simp add: github_write_def rethrow_def catchE_def bindE_def credential_def liftR_def Let_def)
    then show thesis using w' unfolding u rq_def [symmetric] by (rule that)
  qed
qed

section \<open>Listing\<close>

lemma issue_paths:
  assumes "plain_issue owner name number"
  shows "repository_path (owner @ ''/'' @ name) = Inr (owner @ ''/'' @ name)"
    and "''repos/'' @ (owner @ ''/'' @ name) @ ''/issues/'' @ str_int number @ ''/comments?per_page=100&page='' @ nat_digits p =
      with_query (join ''/'' (comments_path owner name number)) (page_query p)"
    and "''repos/'' @ (owner @ ''/'' @ name) @ ''/issues/'' @ str_int number @ ''/comments'' =
      with_query (join ''/'' (comments_path owner name number)) []"
proof -
  have names: "list_all always_safe owner" "list_all always_safe name"
    using assms by (simp_all add: plain_issue_def plain_name_def)
  have "\<not> always_safe (CHR ''/'')" using path_char_not [of "CHR ''/''"] by (auto simp: path_char_def)
  then have "CHR ''/'' \<notin> set owner" using names(1) by (auto simp: list_all_iff)
  then have "partition_at (CHR ''/'') (owner @ CHR ''/'' # name) = (owner, Some name)" by (rule partition_at_append)
  then show "repository_path (owner @ ''/'' @ name) = Inr (owner @ ''/'' @ name)"
    using names by (simp add: repository_path_def url_quote_plain)
qed (simp_all add: comments_path_def with_query_def page_query_def)

text \<open>The invariant of a listing: the comments of the issue are read as these, page by page.\<close>

definition simulated_listing ::
  "client_env \<Rightarrow> sim_env \<Rightarrow> string \<Rightarrow> string \<Rightarrow> string \<Rightarrow> string \<Rightarrow> int \<Rightarrow> github_comment list \<Rightarrow>
   'w http_world_scheme \<Rightarrow> bool" where
  "simulated_listing ce env sc netloc owner name number comments w \<longleftrightarrow>
     simulated_client ce env sc netloc \<and> plain_issue owner name number \<and>
     (let stored = comments_of owner name number (simulator_of env w) in
       mapR (\<lambda>c. normalize_comment ce False (public_comment c)) stored = Inr comments \<and>
       list_all (\<lambda>p. readable ce env (JArr (map public_comment (page_of p stored)))) [1..<Suc (last_page (ce_settings ce))])"

lemma mapR_append: "mapR f (xs @ ys) = bindR (mapR f xs) (\<lambda>us. bindR (mapR f ys) (\<lambda>vs. Inr (us @ vs)))"
  by (induction xs) (auto simp: bindR_def split: sum.splits)

lemma mapR_take_drop: "mapR f xs = Inr ys \<Longrightarrow> mapR f (take n (drop k xs)) = Inr (take n (drop k ys))"
proof -
  assume all: "mapR f xs = Inr ys"
  then have len: "length ys = length xs" by (rule mapR_length)
  have split: "\<exists>us vs. mapR f as = Inr us \<and> mapR f bs = Inr vs \<and> us @ vs = zs" if "mapR f (as @ bs) = Inr zs" for as bs zs
    using that by (auto simp: mapR_append bindR_def split: sum.splits)
  from split [of "take k xs" "drop k xs" ys] all obtain us vs
    where "mapR f (take k xs) = Inr us" "mapR f (drop k xs) = Inr vs" "us @ vs = ys" by auto
  then have dropped: "mapR f (drop k xs) = Inr (drop k ys)"
    using mapR_length [of f "take k xs" us] len by (auto simp: min_def)
  from split [of "take n (drop k xs)" "drop n (drop k xs)" "drop k ys", unfolded append_take_drop_id, OF dropped]
  obtain us' vs' where "mapR f (take n (drop k xs)) = Inr us'" "us' @ vs' = drop k ys" by blast
  then show ?thesis
    using mapR_length [of f "take n (drop k xs)" us'] len by (metis append_eq_conv_conj length_drop length_take take_take min.idem append_take_drop_id take_append)
qed

lemma mapR_map_comp: "mapR f (map g xs) = mapR (\<lambda>x. f (g x)) xs"
  by (induction xs) auto

lemma simulated_page:
  assumes listing: "simulated_listing ce env sc netloc owner name number comments w" and p: "1 \<le> p" "p \<le> last_page (ce_settings ce)"
  shows "\<exists>w' rq. read_comments_page ce (owner @ ''/'' @ name) number correlation p w = (Inr (page_of p comments), w') \<and>
      ht_sent w' = ht_sent w @ [rq] \<and> simulated_listing ce env sc netloc owner name number comments w'"
proof -
  let ?st = "simulator_of env w"
  let ?stored = "comments_of owner name number ?st"
  let ?body = "JArr (map public_comment (page_of p ?stored))"
  have client: "simulated_client ce env sc netloc" and issue: "plain_issue owner name number"
    and items: "mapR (\<lambda>c. normalize_comment ce False (public_comment c)) ?stored = Inr comments"
    and pages: "list_all (\<lambda>p. readable ce env (JArr (map public_comment (page_of p ?stored)))) [1..<Suc (last_page (ce_settings ce))]"
    using listing by (simp_all add: simulated_listing_def Let_def)
  have base: "plain_base sc netloc [''github''] (github_base_url (ce_settings ce))"
    and co: "reads_numbers (sm_coercions env)" and clock: "clock_ok (ce_http ce)"
    and transport: "he_transport (ce_http ce) = simulated_transport env"
    using client by (simp_all add: simulated_client_def)
  obtain secret where secret: "ce_secret ce P_GITHUB (length (ht_sent w)) = Inr secret"
    using client by (auto simp: simulated_client_def)
  have sc: "http_scheme sc" "list_all (\<lambda>c. path_char c \<or> c = CHR '':'') netloc" using base by (simp_all add: plain_base_def)
  define path where "path = with_query (join ''/'' (comments_path owner name number)) (page_query p)"
  define url where "url = github_url sc netloc (comments_path owner name number) (page_query p)"
  have trusted: "trusted_url (rd_base_url github_target (ce_settings ce)) path = Inr url"
    using trusted_url_plain [OF base comments_path_plain(2,3) [OF issue] page_query_chars]
    by (simp add: path_def url_def github_url_def github_target_def)
  define rq where "rq = request_of (read_call (ce_settings ce) github_target OP_RECONCILIATION correlation path secret) url"
  have rq: "rq_method rq = ''GET''" "rq_url rq = github_url sc netloc (comments_path owner name number) (page_query p)"
    by (simp_all add: rq_def request_of_def read_call_def url_def)
  have readable: "readable ce env ?body" using pages p by (auto simp: list_all_iff)
  have served: "serve env (length (ht_sent w)) rq ?st = (Document 200 ?body,
     (current env (length (ht_sent w)) ?st)\<lparr>github_read_calls := github_read_calls (current env (length (ht_sent w)) ?st) + 1\<rparr>)"
    by (rule serve_page [OF sc issue co p(1) rq])
  let ?response = "\<lparr>js_status = 200, js_headers = [(''content-type'', ''application/json'')], js_payload = ?body\<rparr>"
  have answer: "delivered (ce_http ce) (integration_max_response_bytes (ce_settings ce))
      (he_transport (ce_http ce) (ht_sent w @ [rq])) = Some ?response"
    unfolding transport simulated_answer served using delivered_document [OF readable, of 200] by (simp add: is_success_def)
  obtain w' where run: "provider_read ce github_target OP_RECONCILIATION correlation path w = (Inr ?response, w')"
    and w': "ht_sent w' = ht_sent w @ [rq]"
    by (rule provider_read_delivered [OF clock _ trusted answer [unfolded rq_def]])
      (use secret in \<open>simp_all add: github_target_def is_success_def rq_def\<close>)
  have "mapR (normalize_comment ce False) (map public_comment (page_of p ?stored)) = Inr (page_of p comments)"
    unfolding mapR_map_comp page_of_def by (rule mapR_take_drop [OF items])
  then have "read_comments_page ce (owner @ ''/'' @ name) number correlation p w = (Inr (page_of p comments), w')"
    using run unfolding read_comments_page_def issue_paths(1) [OF issue] path_def bindE_def liftR_def
    by (simp only: sum.case prod.case issue_paths(2) [OF issue] split_conv) simp
  moreover have "comments_of owner name number (simulator_of env w') = ?stored"
    unfolding simulator_step [OF w'] served
    using comments_of_current [OF issue] by (simp add: comments_of_def)
  then have "simulated_listing ce env sc netloc owner name number comments w'"
    using listing by (simp add: simulated_listing_def)
  ultimately show ?thesis using w' by blast
qed

text \<open>So the client's listing of an issue of the simulator is a \<open>comment_listing\<close>.\<close>

interpretation simulated: comment_listing ce "owner @ ''/'' @ name" number correlation comments
    "simulated_listing ce env sc netloc owner name number comments"
  for ce owner name number correlation comments env sc netloc
proof
  show "search_bounds (ce_settings ce)" if "simulated_listing ce env sc netloc owner name number comments w"
    for w :: "'w http_world_scheme"
    using that by (simp add: simulated_listing_def simulated_client_def)
qed (rule simulated_page)

section \<open>Creating\<close>

text \<open>
  The comment that the simulator will create from a body, and what the client must be able to
  read: its document, and the pages of the issue once it is stored. \<open>comments\<close> are the comments of
  the issue with the new one, as the client reads them.
\<close>

definition created_comment :: "sim_env \<Rightarrow> string \<Rightarrow> string \<Rightarrow> int \<Rightarrow> string \<Rightarrow> 'w http_world_scheme \<Rightarrow> sim_comment" where
  "created_comment env owner name number body w = (let n = length (ht_sent w) in
     new_comment (sm_now env n) (owner @ ''/'' @ name) number body (current env n (simulator_of env w)))"

definition storable ::
  "client_env \<Rightarrow> sim_env \<Rightarrow> string \<Rightarrow> string \<Rightarrow> int \<Rightarrow> string \<Rightarrow> github_comment list \<Rightarrow> 'w http_world_scheme \<Rightarrow> bool" where
  "storable ce env owner name number body comments w \<longleftrightarrow>
     (let c = created_comment env owner name number body w;
          stored = comments_of owner name number (simulator_of env w) @ [c] in
       1 \<le> length body \<and> length body \<le> 32768 \<and>
       mapR (\<lambda>c. normalize_comment ce False (public_comment c)) stored = Inr comments \<and>
       readable ce env (public_comment c) \<and>
       list_all (\<lambda>p. readable ce env (JArr (map public_comment (page_of p stored)))) [1..<Suc (last_page (ce_settings ce))])"

lemma normalize_comment_ambiguous:
  "normalize_comment ce amb v = Inr c \<Longrightarrow> normalize_comment ce amb' v = Inr c"
  by (auto simp: normalize_comment_def on_error_eq)

lemma mapR_last:
  assumes "mapR f (xs @ [x]) = Inr ys"
  obtains us where "mapR f xs = Inr us" "f x = Inr (last ys)" "ys = us @ [last ys]"
  using assms by (auto simp: mapR_append bindR_def split: sum.splits)

lemma simulated_create:
  assumes client: "simulated_client ce env sc netloc" and issue: "plain_issue owner name number"
    and storable: "storable ce env owner name number body comments w"
  obtains w' where "create_comment ce (owner @ ''/'' @ name) number body correlation w = (Inr (last comments), w')"
    "simulated_listing ce env sc netloc owner name number comments w'" "cm_body (last comments) = body" "comments \<noteq> []"
proof -
  let ?st = "simulator_of env w" and ?n = "length (ht_sent w)"
  let ?c = "created_comment env owner name number body w"
  let ?stored = "comments_of owner name number ?st"
  let ?response = "\<lparr>js_status = 201, js_headers = [(''content-type'', ''application/json'')], js_payload = public_comment ?c\<rparr>"
  have body: "1 \<le> length body" "length body \<le> 32768"
    and items: "mapR (\<lambda>c. normalize_comment ce False (public_comment c)) (?stored @ [?c]) = Inr comments"
    and readable: "readable ce env (public_comment ?c)"
    and pages: "list_all (\<lambda>p. readable ce env (JArr (map public_comment (page_of p (?stored @ [?c]))))) [1..<Suc (last_page (ce_settings ce))]"
    using storable by (simp_all add: storable_def Let_def)
  have base: "plain_base sc netloc [''github''] (github_base_url (ce_settings ce))"
    and co: "reads_numbers (sm_coercions env)" and clock: "clock_ok (ce_http ce)"
    and transport: "he_transport (ce_http ce) = simulated_transport env"
    using client by (simp_all add: simulated_client_def)
  obtain secret where secret: "ce_secret ce P_GITHUB ?n = Inr secret" using client by (auto simp: simulated_client_def)
  have sc: "http_scheme sc" "list_all (\<lambda>c. path_char c \<or> c = CHR '':'') netloc" using base by (simp_all add: plain_base_def)
  define path where "path = with_query (join ''/'' (comments_path owner name number)) []"
  define url where "url = github_url sc netloc (comments_path owner name number) []"
  have trusted: "trusted_url (github_base_url (ce_settings ce)) path = Inr url"
    using trusted_url_plain [OF base comments_path_plain(2,3) [OF issue], of "[]"]
    by (simp add: path_def url_def github_url_def)
  define rq where "rq = request_of (write_call (ce_settings ce) ''POST'' path [(''body'', JStr body)] correlation secret) url"
  have rq: "rq_method rq = ''POST''" "rq_url rq = github_url sc netloc (comments_path owner name number) []"
    "rq_body rq = Some [(''body'', JStr body)]"
    by (simp_all add: rq_def request_of_def write_call_def url_def)
  note served = serve_create [OF sc issue co body rq, of ?n ?st, folded created_comment_def [unfolded Let_def]]
  have answer: "delivered (ce_http ce) (integration_max_response_bytes (ce_settings ce))
      (he_transport (ce_http ce) (ht_sent w @ [rq])) = Some ?response"
    unfolding transport simulated_answer served(1) using delivered_document [OF readable, of 201] by (simp add: is_success_def)
  obtain w' where run: "github_write ce ''POST'' path [(''body'', JStr body)] correlation w = (classify_write (ce_settings ce) ?response, w')"
    and w': "ht_sent w' = ht_sent w @ [rq]"
    by (rule github_write_delivered [OF clock secret trusted answer [unfolded rq_def]]) (simp add: rq_def)
  have accepted: "classify_write (ce_settings ce) ?response = Inr ?response"
    by (simp add: classify_write_def is_success_def public_comment_def Let_def)
  obtain us where new: "normalize_comment ce False (public_comment ?c) = Inr (last comments)" and "comments = us @ [last comments]"
    by (rule mapR_last [OF items])
  then have "comments \<noteq> []" by blast
  moreover have "create_comment ce (owner @ ''/'' @ name) number body correlation w = (Inr (last comments), w')"
    using run normalize_comment_ambiguous [OF new, of True]
    unfolding create_comment_def issue_paths(1) [OF issue] path_def accepted bindE_def liftR_def
    by (simp only: sum.case prod.case issue_paths(3) [OF issue] split_conv) simp
  moreover have "cm_body (last comments) = body"
    using normalize_comment_Inr [OF new]
    by (auto simp: public_comment_def field_def obj_get_def created_comment_def new_comment_def Let_def)
  moreover have "comments_of owner name number (simulator_of env w') = ?stored @ [?c]"
    unfolding simulator_step [OF w'] by (rule served(2))
  then have "simulated_listing ce env sc netloc owner name number comments w'"
    using client issue items pages by (simp add: simulated_listing_def Let_def)
  ultimately show thesis using that by blast
qed

end
