(* ===== verification/Client_Contract.thy ===== *)
theory Client_Contract
  imports Client_Types Simulated_GitHub
begin

text \<open>
  What the provider clients promise the workflow, over all their operations, and one client of
  the provider simulator on which the promises are evaluated.
\<close>

section \<open>A client of the simulator\<close>

definition example_comment :: "int \<Rightarrow> string \<Rightarrow> json" where
  "example_comment i body = JObj
     [(''id'', JInt i), (''body'', JStr body),
      (''html_url'', JStr (''http://simulator:8090/github/o/r/issues/7#issuecomment-'' @ str_int i)), (''updated_at'', JStr ''T'')]"

definition example_documents :: "json list" where
  "example_documents = [JArr [], JArr [example_comment 1000 ''hi''], example_comment 1000 ''hi'']"

definition example_simulator :: sim_env where
  "example_simulator = \<lparr>sm_now = (\<lambda>_. ''T''), sm_delay_over = (\<lambda>_. False),
     sm_coercions = \<lparr>to_int = (\<lambda>v. case v of JStr s \<Rightarrow> Some (int (digits_value s)) | _ \<Rightarrow> None), to_bool = (\<lambda>_. None)\<rparr>,
     sm_render = dumps\<rparr>"

definition example_client :: client_env where
  "example_client = \<lparr>
     ce_http = \<lparr>he_transport = simulated_transport example_simulator, he_monotonic = of_nat,
       he_loads = (\<lambda>s. case List.find (\<lambda>v. dumps v = s) example_documents of None \<Rightarrow> DecodeError | Some v \<Rightarrow> Loaded v)\<rparr>,
     ce_settings = (default_settings ''postgresql+asyncpg://db'')\<lparr>github_base_url := ''http://simulator/github''\<rparr>, ce_secret = (\<lambda>_ _. Inr (Some ''t'')),
     ce_fromisoformat = (\<lambda>_. Some 0), ce_container_str = dumps\<rparr>"

definition example_web :: slack_world where
  "example_web = \<lparr>ht_sent = [], ht_clock = 0, ht_metrics = [], sw_cache = None\<rparr>"

definition example_read :: github_comment where
  "example_read = \<lparr>cm_identifier = ''1000'', cm_body = ''hi'',
     cm_url = ''http://simulator:8090/github/o/r/issues/7#issuecomment-1000'', cm_updated_at = 0\<rparr>"

lemma example_readable: "v \<in> set example_documents \<Longrightarrow> readable example_client example_simulator v"
proof -
  have "\<forall>v \<in> set example_documents. readable example_client example_simulator v"
    by code_simp
  then show "v \<in> set example_documents \<Longrightarrow> readable example_client example_simulator v" by blast
qed

lemma example_created: "public_comment (created_comment example_simulator ''o'' ''r'' 7 ''hi'' example_web) = example_comment 1000 ''hi''"
  by code_simp

lemma simulator_starts_empty: "comments_of ''o'' ''r'' 7 (simulator_of example_simulator example_web) = []"
  by code_simp

lemma example_normalized: "normalize_comment example_client False (example_comment 1000 ''hi'') = Inr example_read"
  by code_simp

lemma example_last_page: "last_page (ce_settings example_client) = 2"
  by (simp add: last_page_def example_client_def default_settings_def)

lemma example_simulated: "simulated_client example_client example_simulator ''http'' ''simulator''"
proof -
  have "mono (of_nat :: nat \<Rightarrow> rat)" by (rule monoI) simp
  moreover have "reads_numbers (sm_coercions example_simulator)"
    by (simp add: reads_numbers_def example_simulator_def nat_digits_value)
  moreover have "plain_base ''http'' ''simulator'' [''github''] (github_base_url (ce_settings example_client))"
  proof -
    have "plain_segment ''github''" "list_all (\<lambda>c. path_char c \<or> c = CHR '':'') ''simulator''"
      by code_simp+
    moreover have "port \<lparr>u_scheme = ''http'', u_netloc = ''simulator'', u_path = [], u_query = [], u_fragment = []\<rparr> = Inr None"
      by (simp add: port_def hostinfo_def rpartition_at_def)
    ultimately show ?thesis by (simp add: plain_base_def example_client_def default_settings_def http_scheme_def)
  qed
  ultimately show ?thesis
    by (simp add: simulated_client_def clock_ok_def example_client_def search_bounds_def default_settings_def)
qed

lemma example_issue: "plain_issue ''o'' ''r'' 7"
  by (simp add: plain_issue_def plain_name_def always_safe_def is_alpha_def is_lower_def is_upper_def less_eq_char_def)

lemma example_storable: "storable example_client example_simulator ''o'' ''r'' 7 ''hi'' [example_read] example_web"
proof -
  have pages: "[1..<Suc (last_page (ce_settings example_client))] = [1, 2]" by (simp add: example_last_page upt_rec)
  have "page_of 1 [c] = [c]" "page_of 2 [c] = []" for c :: sim_comment
    by (simp_all add: page_of_def comments_page_def)
  then show ?thesis
    unfolding storable_def Let_def simulator_starts_empty pages
    using example_normalized example_readable
    by (simp add: example_created example_documents_def bindR_def)
qed

lemmas example_create = simulated_create [OF example_simulated example_issue example_storable]

section \<open>Properties\<close>

text \<open>An answer of a client: a value that satisfies the predicate, or an error of the provider protocols.\<close>

definition answers :: "('a \<Rightarrow> bool) \<Rightarrow> (exn + 'a) \<times> 'w \<Rightarrow> bool" where
  "answers P r \<longleftrightarrow> (case fst r of Inr x \<Rightarrow> P x | Inl e \<Rightarrow> \<not> is_http_error e)"

lemma answers_safe: "safe_end P m \<Longrightarrow> answers P (m w)"
  unfolding safe_end_def hoare_def answers_def by (cases "m w") (auto dest!: spec [of _ w] split: sum.splits)

definition found :: "string \<Rightarrow> comment_search \<Rightarrow> bool" where
  "found marker r \<longleftrightarrow> list_all (\<lambda>c. well_formed_comment c \<and> marked marker c) (cs_comments r)"

text \<open>
  C22. The provider clients are typed. Whatever the providers answer: catalog records, issues,
  repository contexts, comments and receipts that a client returns satisfy the promises of their
  models (required text present and within its limits, sanitized source URLs, safe action URLs,
  normalized policy lists, positive identifiers, the receipt is for the requested channel); a
  search returns only comments with the marker; and no error of the HTTP layer escapes, so that
  the workflow sees the errors of the provider protocols only. The credential source must not
  raise errors of the HTTP layer itself.
\<close>

theorem clients_are_typed:
  assumes "credentials_ok ce"
  shows "answers (list_all well_formed_record) (fetch_records ce service_id correlation w) \<and>
    answers well_formed_issue (fetch_issue ce key correlation w) \<and>
    answers (\<lambda>_. True) (github_identity ce correlation w) \<and>
    answers well_formed_context (fetch_context ce repository number correlation w) \<and>
    answers (optionally well_formed_comment) (get_comment ce repository identifier correlation w) \<and>
    answers (found marker) (find_comments_by_marker ce repository number marker correlation w) \<and>
    answers well_formed_comment (create_comment ce repository number body correlation w) \<and>
    answers well_formed_comment (update_comment ce repository identifier body correlation w) \<and>
    answers (\<lambda>_. True) (verify_identity ce correlation v) \<and>
    answers (well_formed_receipt message) (post_notification ce message correlation v)"
proof -
  have search: "safe_end (found marker) (find_comments_by_marker ce repository number marker correlation)"
    unfolding find_comments_by_marker_def found_def by (rule typed_scan_pages [OF assms]) simp
  have comment: "safe_end (optionally well_formed_comment) (get_comment ce repository identifier correlation)"
    using typed_get_comment [OF assms] unfolding optionally_def by (simp cong: option.case_cong)
  show ?thesis
    by (intro conjI answers_safe typed_fetch_records typed_fetch_issue typed_identity typed_fetch_context typed_writes
        typed_verify_identity typed_post_notification search comment assms)
qed

lemma clients_are_typed_witness:
  "credentials_ok example_client \<and>
   answers well_formed_comment (create_comment example_client ''o/r'' 7 ''hi'' ''c'' example_web) \<and>
   (\<exists>c. fst (create_comment example_client ''o/r'' 7 ''hi'' ''c'' example_web) = Inr c)"
proof -
  have ok: "credentials_ok example_client" by (simp add: credentials_ok_def example_client_def)
  obtain w' where "create_comment example_client (''o'' @ ''/'' @ ''r'') 7 ''hi'' ''c'' example_web = (Inr (last [example_read]), w')"
    by (rule example_create)
  with ok clients_are_typed [OF ok, where repository = "''o/r''" and number = 7 and body = "''hi''" and correlation = "''c''" and w = example_web] show ?thesis by simp
qed

text \<open>
  C17. The clients send what they should and no more. For every operation of the workflow, whatever
  the providers answer and even when the credential source fails: all requests go to the origin of
  the configured base URL of the provider the operation belongs to, show no credential but this
  provider's, carry the correlation identifier, are reads for a reading operation, which set no time
  limit, and time-limited writes otherwise; an operation sends one request, the repository context three and the search
  for a marker at most one for each page it may read.
\<close>

theorem clients_send_to_their_provider:
  "\<exists>sent. ht_sent (snd (perform ce correlation q w)) = ht_sent w @ sent \<and>
     length sent \<le> request_limit (ce_settings ce) q \<and> list_all (expected_request ce correlation q) sent"
  by (rule emitsE [OF emits_perform, of ce correlation q w]) blast



text \<open>
  C16. A comment that was written is found again. Client and provider simulator composed through
  the HTTP layer and the URLs: on an issue with plain names, when the simulator's documents can
  be read, creating a comment returns it with the body that was sent, and the search
  that follows returns exactly the comments of the issue with the marker, in their order, among
  those on the pages it may read; it reports completeness iff there can be no more, reads no page
  twice and stops at the first page that is not full. If the body carries the marker and the
  search is complete the new comment is among the results.
\<close>

theorem comment_round_trip:
  assumes "simulated_client ce env sc netloc" and "plain_issue owner name number"
    and "storable ce env owner name number body comments w"
  shows "\<exists>w' w'' sent.
    create_comment ce (owner @ ''/'' @ name) number body correlation w = (Inr (last comments), w') \<and>
    cm_body (last comments) = body \<and>
    find_comments_by_marker ce (owner @ ''/'' @ name) number marker correlation w' =
      (Inr (search_result (ce_settings ce) marker comments), w'') \<and>
    ht_sent w'' = ht_sent w' @ sent \<and>
    length sent = min (last_page (ce_settings ce)) (length comments div 100 + 1) \<and>
    (py_in marker body \<and> cs_complete (search_result (ce_settings ce) marker comments) \<longrightarrow>
      last comments \<in> set (cs_comments (search_result (ce_settings ce) marker comments)))"
proof -
  obtain w' where w': "create_comment ce (owner @ ''/'' @ name) number body correlation w = (Inr (last comments), w')"
      "simulated_listing ce env sc netloc owner name number comments w'" "cm_body (last comments) = body" "comments \<noteq> []"
    by (rule simulated_create [OF assms])
  obtain w'' sent where w'': "find_comments_by_marker ce (owner @ ''/'' @ name) number marker correlation w' =
      (Inr (search_result (ce_settings ce) marker comments), w'')" "ht_sent w'' = ht_sent w' @ sent"
      "length sent = min (last_page (ce_settings ce)) (length comments div 100 + 1)"
    by (rule simulated.search_exact [OF w'(2)])
  have "last comments \<in> set (cs_comments (search_result (ce_settings ce) marker comments))"
    if "py_in marker body" "cs_complete (search_result (ce_settings ce) marker comments)"
    using that w'(3,4) by (simp add: search_result_def marked_def)
  with w' w'' show ?thesis by blast
qed

lemma comment_round_trip_witness:
  "\<exists>w' w''. create_comment example_client ''o/r'' 7 ''hi'' ''c'' example_web = (Inr example_read, w') \<and>
     find_comments_by_marker example_client ''o/r'' 7 ''h'' ''c'' w' =
       (Inr \<lparr>cs_comments = [example_read], cs_complete = True\<rparr>, w'') \<and>
     length (ht_sent w'') = Suc (length (ht_sent w'))"
proof -
  have "search_result (ce_settings example_client) ''h'' [example_read] = \<lparr>cs_comments = [example_read], cs_complete = True\<rparr>"
    by (simp add: search_result_def example_last_page marked_def example_read_def)
  then show ?thesis
    using comment_round_trip [OF example_simulated example_issue example_storable, of "''c''" "''h''"]
    by (auto simp: example_last_page)
qed

end
