(* ===== verification/Slack_Identity.thy ===== *)
theory Slack_Identity
  imports Client_Results
begin

text \<open>
  The identity cache of the Slack client over whole runs of client operations: a message is sent
  only while a confirmation of the identity of its token is fresh.
\<close>

section \<open>Runs of client operations\<close>

primrec perform_all :: "client_env \<Rightarrow> (string \<times> provider_request) list \<Rightarrow> slack_world \<Rightarrow> slack_world" where
  "perform_all ce [] w = w"
| "perform_all ce (q # qs) w = perform_all ce qs (snd (perform ce (fst q) (snd q) w))"

lemma perform_all_append: "perform_all ce (qs @ rs) w = perform_all ce rs (perform_all ce qs w)"
  by (induction qs arbitrary: w) simp_all

section \<open>Steps that leave the cache\<close>

definition steady :: "'a slack_io \<Rightarrow> bool" where
  "steady m \<longleftrightarrow> (\<forall>w. sw_cache (snd (m w)) = sw_cache w)"

named_theorems steady_intros

lemma steadyD: "steady m \<Longrightarrow> m w = (r, w') \<Longrightarrow> sw_cache w' = sw_cache w"
  by (metis snd_conv steady_def)

lemma steady_none [steady_intros]:
  "steady (ret x)" "steady (raise e)" "steady (liftR r)" "steady (credential ce p)" "steady (monotonic he)"
  "steady (transmit he rq)" "steady (record_metric m)" "steady (cache_authorizes ce fingerprint)"
  by (auto simp: steady_def effect_simps credential_def monotonic_def transmit_def record_metric_def bindE_def
      cache_authorizes_def Let_def split: sum.splits option.splits)

lemma steady_bind [steady_intros]: "steady m \<Longrightarrow> (\<And>x. steady (f x)) \<Longrightarrow> steady (bindE m f)"
  unfolding steady_def bindE_def by (auto split: prod.split sum.split) (metis snd_conv)+

lemma steady_catch [steady_intros]: "steady m \<Longrightarrow> (\<And>e k. h e = Some k \<Longrightarrow> steady k) \<Longrightarrow> steady (catchE m h)"
  unfolding steady_def catchE_def by (auto split: prod.split sum.split option.split) (metis snd_conv)+

lemma steady_exchange [steady_intros]: "steady (exchange he limit hc answer)"
proof -
  have "sw_cache (snd (exchange he limit hc answer w)) = sw_cache w" for w :: slack_world
  proof -
    obtain ms where "exchange he limit hc answer w = (Inr (settled he limit hc answer), w\<lparr>ht_metrics := ht_metrics w @ ms\<rparr>)"
      using exchange_settled by blast
    then show ?thesis by simp
  qed
  then show ?thesis by (simp add: steady_def)
qed

lemma steady_request_json [steady_intros]: "steady (request_json he limit hc)"
  unfolding request_json_def Let_def case_prod_unfold by (intro steady_intros)

lemma steady_rethrow [steady_intros]: "steady m \<Longrightarrow> steady (rethrow f m)"
  unfolding rethrow_def by (rule steady_catch) (auto intro: steady_intros)

lemma steady_clients [steady_intros]:
  "steady (provider_read ce rd operation correlation path)"
  "steady (github_write ce verb path payload correlation)"
  "steady (slack_request ce path payload correlation is_write operation token)"
  unfolding provider_read_def github_write_def slack_request_def Let_def by (intro steady_intros)+

lemma steady_page [steady_intros]: "steady (read_comments_page ce repository number correlation page)"
  unfolding read_comments_page_def by (intro steady_intros) (auto intro: steady_intros split: json.splits)

lemma steady_scan [steady_intros]: "steady (scan_pages ce repository number marker correlation pages matches seen)"
  by (induction pages arbitrary: matches seen) (auto simp: Let_def intro!: steady_intros)

lemma steady_credential [steady_intros]: "steady (current_credential ce)"
  unfolding current_credential_def by (auto intro!: steady_intros split: option.splits if_splits)

lemma steady_get_comment [steady_intros]: "steady (get_comment ce repository identifier correlation)"
  unfolding get_comment_def by (auto intro!: steady_intros split: exn.splits option.splits)

lemma steady_operations [steady_intros]:
  "steady (fetch_records ce service_id correlation)" "steady (github_identity ce correlation)"
  "steady (fetch_context ce repository number correlation)" "steady (fetch_issue ce key correlation)"
  "steady (find_comments_by_marker ce repository number marker correlation)"
  "steady (create_comment ce repository number body correlation)"
  "steady (update_comment ce repository identifier body correlation)"
  "steady (post_notification ce message correlation)"
  unfolding fetch_records_def github_identity_def fetch_context_def fetch_issue_def find_comments_by_marker_def
    create_comment_def update_comment_def post_notification_def Let_def case_prod_unfold
  by (auto intro!: steady_intros)

lemma steady_perform: "q \<noteq> VerifySlackIdentity \<Longrightarrow> steady (perform ce correlation q)"
  by (cases q) (auto simp: ignoring_def intro!: steady_intros)

section \<open>Confirmation\<close>

text \<open>
  The last of these requests showed a token with this fingerprint to Slack, and its answer
  confirmed the configured identity.
\<close>

definition confirmed :: "client_env \<Rightarrow> string \<Rightarrow> http_request list \<Rightarrow> bool" where
  "confirmed ce fingerprint requests \<longleftrightarrow>
     (\<exists>token. sha256_hex (encode token) = fingerprint \<and>
        header (rq_headers (last requests)) ''Authorization'' = Some (''Bearer '' @ token)) \<and>
     same_origin (slack_base_url (ce_settings ce)) (rq_url (last requests)) \<and>
     (\<exists>response. delivered (ce_http ce) (integration_max_response_bytes (ce_settings ce)) (he_transport (ce_http ce) requests) =
        Some response \<and> identity_answer (ce_settings ce) response = Inr True)"

text \<open>The cache of a run is backed by a verification in it, and lasts 300 seconds from its end.\<close>

definition backed :: "client_env \<Rightarrow> slack_world \<Rightarrow> (string \<times> provider_request) list \<Rightarrow> identity_cache \<Rightarrow> bool" where
  "backed ce start qs c \<longleftrightarrow>
     (\<exists>past correlation later rq. qs = past @ (correlation, VerifySlackIdentity) # later \<and>
        (let v = perform_all ce past start; v' = perform_all ce (past @ [(correlation, VerifySlackIdentity)]) start in
         ht_sent v' = ht_sent v @ [rq] \<and> confirmed ce (ic_fingerprint c) (ht_sent v') \<and>
         ic_verified_until c = he_monotonic (ce_http ce) (ht_clock v' - 1) + identity_cache_seconds))"

lemma backed_later: "backed ce start qs c \<Longrightarrow> backed ce start (qs @ [q]) c"
  unfolding backed_def by fastforce

lemma current_credential_Inr:
  "current_credential ce w = (Inr (token, fingerprint), w') \<Longrightarrow>
     w' = w \<and> ce_secret ce P_SLACK (length (ht_sent w)) = Inr (Some token) \<and> fingerprint = sha256_hex (encode token)"
  by (auto simp: current_credential_def catchE_def bindE_def credential_def raise_def ret_def
      split: option.splits sum.splits if_splits)

lemma bindE_cases:
  assumes "bindE m f w = (r, w')"
  obtains e where "m w = (Inl e, w')" "r = Inl e" | x w1 where "m w = (Inr x, w1)" "f x w1 = (r, w')"
  using assms by (auto simp: bindE_def split: prod.splits sum.splits)

lemma cache_authorizes_world: "ht_sent (snd (cache_authorizes ce fingerprint w)) = ht_sent w"
  by (rule slack_steps_world(2))

lemma auth_test_confirms:
  assumes clock: "clock_ok (ce_http ce)"
    and run: "rethrow f (slack_request ce ''auth.test'' [] correlation False OP_IDENTITY token) w = (Inr response, w')"
    and ok: "identity_answer (ce_settings ce) response = Inr True"
  obtains rq where "ht_sent w' = ht_sent w @ [rq]" "confirmed ce (sha256_hex (encode token)) (ht_sent w')"
proof -
  let ?call = "slack_call (ce_settings ce) ''auth.test'' [] correlation False OP_IDENTITY token"
  have request: "request_json (ce_http ce) (integration_max_response_bytes (ce_settings ce)) ?call w = (Inr response, w')"
    using run by (auto simp: rethrow_def catchE_def slack_request_def raise_def split: prod.splits sum.splits)
  show thesis
  proof (rule request_json_run [OF clock, of ?call "integration_max_response_bytes (ce_settings ce)" w])
    fix url w1
    assume url: "trusted_url (hc_base_url ?call) (hc_path ?call) = Inr url"
      and "request_json (ce_http ce) (integration_max_response_bytes (ce_settings ce)) ?call w =
        (fst (settled (ce_http ce) (integration_max_response_bytes (ce_settings ce)) ?call
           (he_transport (ce_http ce) (ht_sent w @ [request_of ?call url]))), w1)"
      and w1: "ht_sent w1 = ht_sent w @ [request_of ?call url]"
    then have settled: "fst (settled (ce_http ce) (integration_max_response_bytes (ce_settings ce)) ?call
           (he_transport (ce_http ce) (ht_sent w @ [request_of ?call url]))) = Inr response" and "w1 = w'"
      using request by simp_all
    have "same_origin (slack_base_url (ce_settings ce)) url"
      using trusted_url_origin [OF url] by (simp add: slack_call_def)
    moreover have "header (rq_headers (request_of ?call url)) ''Authorization'' = Some (''Bearer '' @ token)"
      by (simp add: request_of_def slack_call_def header_def map_of_dict_set)
    ultimately have "confirmed ce (sha256_hex (encode token)) (ht_sent w @ [request_of ?call url])"
      using settled ok by (auto simp: confirmed_def settled_delivered request_of_def)
    then show thesis using that [of "request_of ?call url"] w1 \<open>w1 = w'\<close> by simp
  qed (use request in auto)
qed

lemma steady_auth_test: "steady (rethrow f (slack_request ce ''auth.test'' [] correlation False OP_IDENTITY token))"
  by (intro steady_intros)

lemma verify_identity_cache:
  assumes clock: "clock_ok (ce_http ce)" and run: "verify_identity ce correlation w = (r, w')"
    and cache: "sw_cache w' = Some c" and new: "sw_cache w' \<noteq> sw_cache w"
  obtains rq where "ht_sent w' = ht_sent w @ [rq]" "confirmed ce (ic_fingerprint c) (ht_sent w')"
    "ic_verified_until c = he_monotonic (ce_http ce) (ht_clock w' - 1) + identity_cache_seconds"
proof -
  let ?s = "ce_settings ce"
  show thesis
    using run unfolding verify_identity_def Let_def
  proof (rule bindE_cases, goal_cases)
    case (1 e)
    then show ?case using steadyD [OF steady_credential 1(1)] new by simp
  next
    case (2 tf w1)
    obtain token fingerprint where tf: "tf = (token, fingerprint)" by (cases tf)
    note credential = current_credential_Inr [OF 2(1) [unfolded tf]]
    from 2(2) show ?case unfolding tf prod.case
    proof (rule bindE_cases, goal_cases)
      case (1 e)
      then show ?case using steadyD [OF steady_none(8) 1(1)] new credential by simp
    next
      case (2 authorized w2)
      have w2: "sw_cache w2 = sw_cache w" "ht_sent w2 = ht_sent w"
        using steadyD [OF steady_none(8) 2(1)] cache_authorizes_world [of ce fingerprint w1] 2(1) credential by simp_all
      show ?case
      proof (cases authorized)
        case True
        then show ?thesis using 2(2) w2 new by (simp add: ret_def)
      next
        case False
        then have "bindE (rethrow identity_error (slack_request ce ''auth.test'' [] correlation False OP_IDENTITY token))
            (\<lambda>response. bindE (liftR (identity_answer ?s response)) (\<lambda>valid.
           if valid
           then bindE (monotonic (ce_http ce)) (\<lambda>now.
             bindE (set_cache (Some \<lparr>ic_fingerprint = fingerprint, ic_team_id = slack_expected_team_id ?s,
                 ic_user_id = slack_expected_user_id ?s, ic_bot_id = slack_expected_bot_id ?s,
                 ic_verified_until = now + identity_cache_seconds\<rparr>)) (\<lambda>_. ret True))
           else bindE (set_cache None) (\<lambda>_. ret False))) w2 = (r, w')" using 2(2) by simp
        then show ?thesis
        proof (rule bindE_cases, goal_cases)
          case (1 e)
          then show ?case using steadyD [OF steady_auth_test 1(1)] new w2 by simp
        next
          case (2 response w3)
          have w3: "sw_cache w3 = sw_cache w" using steadyD [OF steady_auth_test 2(1)] w2 by simp
          have ok: "identity_answer ?s response = Inr True"
            using 2(2) w3 cache new
            by (auto simp: bindE_def liftR_def set_cache_def ret_def split: sum.splits if_splits)
          then have w': "w' = w3\<lparr>ht_clock := ht_clock w3 + 1, sw_cache := Some c\<rparr>"
            and c: "ic_fingerprint c = fingerprint"
              "ic_verified_until c = he_monotonic (ce_http ce) (ht_clock w3) + identity_cache_seconds"
            using 2(2) cache by (auto simp: bindE_def liftR_def set_cache_def ret_def monotonic_def)
          obtain rq where "ht_sent w3 = ht_sent w2 @ [rq]" "confirmed ce (sha256_hex (encode token)) (ht_sent w3)"
            by (rule auth_test_confirms [OF clock 2(1) ok])
          then show ?case using that [of rq] w2 w' c credential by simp
        qed
      qed
    qed
  qed
qed

lemma cache_is_backed:
  assumes "clock_ok (ce_http ce)" and "sw_cache start = None"
  shows "sw_cache (perform_all ce qs start) = Some c \<Longrightarrow> backed ce start qs c"
proof (induction qs rule: rev_induct)
  case Nil
  then show ?case using assms by simp
next
  case (snoc q qs)
  let ?w = "perform_all ce qs start"
  let ?w' = "snd (perform ce (fst q) (snd q) ?w)"
  have cache: "sw_cache ?w' = Some c" using snoc.prems by (simp add: perform_all_append)
  show ?case
  proof (cases "sw_cache ?w' = sw_cache ?w")
    case True
    then show ?thesis using snoc.IH cache by (simp add: backed_later)
  next
    case False
    then have q: "snd q = VerifySlackIdentity" using steady_perform by (auto simp: steady_def)
    have "?w' = snd (verify_identity ce (fst q) ?w)"
      unfolding q by (auto simp: ignoring_def bindE_def ret_def split: prod.splits sum.splits)
    then obtain r where run: "verify_identity ce (fst q) ?w = (r, ?w')" by (metis prod.collapse)
    obtain rq where "ht_sent ?w' = ht_sent ?w @ [rq]" "confirmed ce (ic_fingerprint c) (ht_sent ?w')"
      "ic_verified_until c = he_monotonic (ce_http ce) (ht_clock ?w' - 1) + identity_cache_seconds"
      by (rule verify_identity_cache [OF assms(1) run cache False])
    moreover have "qs @ [q] = qs @ (fst q, VerifySlackIdentity) # []" using q by (metis prod.collapse)
    ultimately show ?thesis
      unfolding backed_def Let_def
      by (intro exI [of _ qs] exI [of _ "fst q"] exI [of _ "[]"] exI [of _ rq]) (simp add: perform_all_append q)
  qed
qed

lemma post_needs_cache:
  assumes run: "post_notification ce message correlation w = (r, w')" and sent: "ht_sent w' \<noteq> ht_sent w"
  obtains token c where "ce_secret ce P_SLACK (length (ht_sent w)) = Inr (Some token)" "sw_cache w = Some c"
    "cache_matches (ce_settings ce) (sha256_hex (encode token)) c" "he_monotonic (ce_http ce) (ht_clock w) < ic_verified_until c"
  using run unfolding post_notification_def
proof (rule bindE_cases, goal_cases)
  case (1 e)
  then show ?case using slack_steps_world(1) [of ce w] sent by simp
next
  case (2 tf w1)
  obtain token fingerprint where tf: "tf = (token, fingerprint)" by (cases tf)
  note credential = current_credential_Inr [OF 2(2) [unfolded tf]]
  from 2(3) show ?case unfolding tf prod.case
  proof (rule bindE_cases, goal_cases)
    case (1 e)
    then show ?case using cache_authorizes_world [of ce fingerprint w1] sent credential by simp
  next
    case (2 authorized w2)
    have w2: "ht_sent w2 = ht_sent w" using cache_authorizes_world [of ce fingerprint w1] 2(1) credential by simp
    have authorized using 2(2) w2 sent by (auto simp: raise_def split: if_splits)
    then show ?case
      using 2(1) credential
      by (intro that [of token "the (sw_cache w)"])
        (auto simp: cache_authorizes_def monotonic_def bindE_def ret_def split: option.splits)
  qed
qed

section \<open>Property\<close>

text \<open>
  C8. No Slack message without a fresh identity. In every run of client operations from a fresh
  client, in any order and whatever the providers answer: when an attempt to post sends a request,
  an earlier identity verification of this run showed a token with the same SHA-256 fingerprint to
  the configured Slack origin, the answer confirmed exactly the configured team, user and bot, and
  it was finished less than 300 seconds before by the monotonic clock.
\<close>

theorem posts_need_fresh_identity:
  assumes "clock_ok (ce_http ce)" and "sw_cache start = None"
    and "w = perform_all ce qs start"
    and "ht_sent (snd (post_notification ce message correlation w)) \<noteq> ht_sent w"
  shows "\<exists>token past correlation' later rq v v'.
    ce_secret ce P_SLACK (length (ht_sent w)) = Inr (Some token) \<and>
    qs = past @ (correlation', VerifySlackIdentity) # later \<and>
    v = perform_all ce past start \<and> v' = perform_all ce (past @ [(correlation', VerifySlackIdentity)]) start \<and>
    ht_sent v' = ht_sent v @ [rq] \<and> confirmed ce (sha256_hex (encode token)) (ht_sent v') \<and>
    he_monotonic (ce_http ce) (ht_clock w) < he_monotonic (ce_http ce) (ht_clock v' - 1) + identity_cache_seconds"
proof -
  obtain r w' where run: "post_notification ce message correlation w = (r, w')" by fastforce
  have sent: "ht_sent w' \<noteq> ht_sent w" using assms(4) run by simp
  obtain token c where c: "ce_secret ce P_SLACK (length (ht_sent w)) = Inr (Some token)" "sw_cache w = Some c"
      "cache_matches (ce_settings ce) (sha256_hex (encode token)) c"
      "he_monotonic (ce_http ce) (ht_clock w) < ic_verified_until c"
    by (rule post_needs_cache [OF run sent])
  have "backed ce start qs c" using cache_is_backed [OF assms(1,2)] c(2) assms(3) by blast
  then show ?thesis using c by (fastforce simp: backed_def Let_def cache_matches_def)
qed

definition confirming_document :: json where
  "confirming_document = JObj [(''ok'', JBool True), (''team_id'', JStr ''T1''), (''user_id'', JStr ''U1'')]"

text \<open>A client whose provider confirms the identity and answers every request like that.\<close>

definition confirmed_client :: client_env where
  "confirmed_client = \<lparr>
     ce_http = \<lparr>he_transport = (\<lambda>_. Response 200 [(''content-type'', ''application/json'')] [''d''] None),
       he_monotonic = of_nat, he_loads = (\<lambda>_. Loaded confirming_document)\<rparr>,
     ce_settings = (default_settings ''postgresql+asyncpg://db'')
       \<lparr>slack_base_url := ''http://h/s'', slack_expected_team_id := Some ''T1'', slack_expected_user_id := Some ''U1''\<rparr>,
     ce_secret = (\<lambda>_ _. Inr (Some ''t'')), ce_fromisoformat = (\<lambda>_. None), ce_container_str = (\<lambda>_. [])\<rparr>"

definition idle_web :: slack_world where
  "idle_web = \<lparr>ht_sent = [], ht_clock = 0, ht_metrics = [], sw_cache = None\<rparr>"

definition idle_message :: slack_message where
  "idle_message = \<lparr>sm_channel = ''C12345678'', sm_text = ''m'', sm_mrkdwn = True, sm_unfurl_links = False, sm_unfurl_media = False\<rparr>"

definition confirming_response :: json_response where
  "confirming_response =
     \<lparr>js_status = 200, js_headers = [(''content-type'', ''application/json'')], js_payload = confirming_document\<rparr>"

lemma confirmed_client_clock: "clock_ok (ce_http confirmed_client)"
  by (auto simp: clock_ok_def confirmed_client_def intro: monoI)

lemma confirmed_client_request:
  assumes "path = ''auth.test'' \<or> path = ''chat.postMessage''"
  shows "\<exists>rq w'.
    slack_request confirmed_client path payload correlation is_write operation token w = (Inr confirming_response, w') \<and>
    ht_sent w' = ht_sent w @ [rq]"
proof -
  let ?call = "slack_call (ce_settings confirmed_client) path payload correlation is_write operation token"
  have call: "hc_base_url ?call = ''http://h/s''" "hc_path ?call = path" by (simp_all add: slack_call_def confirmed_client_def)
  have "trusted_url ''http://h/s'' ''auth.test'' = Inr ''http://h/s/auth.test''"
    "trusted_url ''http://h/s'' ''chat.postMessage'' = Inr ''http://h/s/chat.postMessage''" by code_simp+
  then have url: "\<exists>url. trusted_url (hc_base_url ?call) (hc_path ?call) = Inr url" unfolding call using assms by auto
  have "lower_headers [(''content-type'', ''application/json'')] = [(''content-type'', ''application/json'')]"
    "is_json_content_type ''application/json''" by code_simp+
  then have "delivered (ce_http confirmed_client) (integration_max_response_bytes (ce_settings confirmed_client))
      (he_transport (ce_http confirmed_client) requests) = Some confirming_response" for requests
    by (simp add: delivered_def confirmed_client_def confirming_response_def is_success_def header_def default_settings_def)
  then have answer: "fst (settled (ce_http confirmed_client) (integration_max_response_bytes (ce_settings confirmed_client)) ?call
      (he_transport (ce_http confirmed_client) requests)) = Inr confirming_response" for requests
    by (simp add: settled_delivered)
  show ?thesis
    by (rule request_json_run [OF confirmed_client_clock, of ?call
          "integration_max_response_bytes (ce_settings confirmed_client)" w])
      (use url answer in \<open>auto simp: slack_request_def\<close>)
qed

lemma confirmed_client_verifies:
  obtains w' rq c where "verify_identity confirmed_client ''c'' idle_web = (Inr True, w')" "sw_cache w' = Some c"
    "cache_matches (ce_settings confirmed_client) (sha256_hex (encode ''t'')) c"
    "ic_verified_until c = of_nat (ht_clock w' - 1) + 300" "1 \<le> ht_clock w'"
proof -
  obtain rq w1 where run: "slack_request confirmed_client ''auth.test'' [] ''c'' False OP_IDENTITY ''t'' idle_web =
      (Inr confirming_response, w1)" using confirmed_client_request by blast
  have valid: "identity_answer (ce_settings confirmed_client) confirming_response = Inr True" by code_simp
  have "current_credential confirmed_client idle_web = (Inr (''t'', sha256_hex (encode ''t'')), idle_web)"
    by (simp add: current_credential_def credential_def catchE_def bindE_def ret_def confirmed_client_def)
  moreover have "he_monotonic (ce_http confirmed_client) = of_nat" by (simp add: confirmed_client_def)
  moreover have "sw_cache idle_web = None" by (simp add: idle_web_def)
  moreover define c where "c = \<lparr>ic_fingerprint = sha256_hex (encode ''t''),
    ic_team_id = slack_expected_team_id (ce_settings confirmed_client),
    ic_user_id = slack_expected_user_id (ce_settings confirmed_client),
    ic_bot_id = slack_expected_bot_id (ce_settings confirmed_client), ic_verified_until = of_nat (ht_clock w1) + 300\<rparr>"
  ultimately have "verify_identity confirmed_client ''c'' idle_web = (Inr True, w1\<lparr>ht_clock := ht_clock w1 + 1, sw_cache := Some c\<rparr>)"
    using run valid
    by (simp add: verify_identity_def Let_def bindE_def cache_authorizes_def rethrow_def catchE_def liftR_def
        monotonic_def set_cache_def ret_def identity_cache_seconds_def)
  then show thesis by (rule that) (simp_all add: cache_matches_def, simp_all add: c_def)
qed

lemma confirmed_client_posts:
  assumes "sw_cache w = Some c" and "cache_matches (ce_settings confirmed_client) (sha256_hex (encode ''t'')) c"
    and "of_nat (ht_clock w) < ic_verified_until c"
  shows "ht_sent (snd (post_notification confirmed_client idle_message ''c'' w)) \<noteq> ht_sent w"
proof -
  obtain rq w1 where run: "slack_request confirmed_client ''chat.postMessage'' (provider_payload idle_message) ''c'' True OP_WRITE ''t''
      (w\<lparr>ht_clock := ht_clock w + 1\<rparr>) = (Inr confirming_response, w1)" "ht_sent w1 = ht_sent w @ [rq]"
    using confirmed_client_request [of "''chat.postMessage''" "provider_payload idle_message" "''c''" True OP_WRITE "''t''"
        "w\<lparr>ht_clock := ht_clock w + 1\<rparr>"] by auto
  have "current_credential confirmed_client w = (Inr (''t'', sha256_hex (encode ''t'')), w)"
    by (simp add: current_credential_def credential_def catchE_def bindE_def ret_def confirmed_client_def)
  moreover have "he_monotonic (ce_http confirmed_client) = of_nat" by (simp add: confirmed_client_def)
  ultimately show ?thesis
    using run assms
    by (simp add: post_notification_def bindE_def cache_authorizes_def monotonic_def ret_def rethrow_def catchE_def liftR_def)
qed

lemma posts_need_fresh_identity_witness:
  "\<exists>w past correlation' later rq (v :: slack_world) (v' :: slack_world).
     w = perform_all confirmed_client [(''c'', VerifySlackIdentity)] idle_web \<and>
     ht_sent (snd (post_notification confirmed_client idle_message ''c'' w)) \<noteq> ht_sent w \<and>
     [(''c'', VerifySlackIdentity)] = past @ (correlation', VerifySlackIdentity) # later \<and>
     ht_sent v' = ht_sent v @ [rq] \<and> confirmed confirmed_client (sha256_hex (encode ''t'')) (ht_sent v')"
proof -
  define w where "w = perform_all confirmed_client [(''c'', VerifySlackIdentity)] idle_web"
  obtain w' c where w': "verify_identity confirmed_client ''c'' idle_web = (Inr True, w')" "sw_cache w' = Some c"
      "cache_matches (ce_settings confirmed_client) (sha256_hex (encode ''t'')) c"
      "ic_verified_until c = of_nat (ht_clock w' - 1) + 300" "1 \<le> ht_clock w'"
    by (rule confirmed_client_verifies)
  have "w = w'" using w'(1) by (simp add: w_def ignoring_def bindE_def ret_def)
  have clock: "(of_nat (ht_clock w) :: rat) < ic_verified_until c" unfolding \<open>w = w'\<close> w'(4) by (simp add: of_nat_diff [OF w'(5)])
  have post: "ht_sent (snd (post_notification confirmed_client idle_message ''c'' w)) \<noteq> ht_sent w"
    using w'(2,3) clock unfolding \<open>w = w'\<close> by (rule confirmed_client_posts)
  have fresh: "sw_cache idle_web = None" by (simp add: idle_web_def)
  obtain token past correlation' later rq and v v' :: slack_world
    where secret: "ce_secret confirmed_client P_SLACK (length (ht_sent w)) = Inr (Some token)"
      and past: "[(''c'', VerifySlackIdentity)] = past @ (correlation', VerifySlackIdentity) # later"
      and rq: "ht_sent v' = ht_sent v @ [rq]" and confirmed: "confirmed confirmed_client (sha256_hex (encode token)) (ht_sent v')"
    using posts_need_fresh_identity [OF confirmed_client_clock fresh w_def post] by blast
  from secret have "token = ''t''" by (simp add: confirmed_client_def)
  show ?thesis
  proof (intro exI conjI)
    show "w = perform_all confirmed_client [(''c'', VerifySlackIdentity)] idle_web" by (rule w_def)
    show "confirmed confirmed_client (sha256_hex (encode ''t'')) (ht_sent v')" using confirmed by (simp only: \<open>token = ''t''\<close>)
  qed (rule post past rq)+
qed

end
