(* ===== verification/Sql_Schema.thy ===== *)
theory Sql_Schema
  imports Database
begin

text \<open>
  The part of PostgreSQL that the migrations use: tables with typed columns, check, key and
  foreign-key constraints, indexes and rows, and the operations of \<open>alembic.op\<close> on them. A check is
  a condition with three truth values and rejects a row only when it is false. An operation fails
  as a whole, as inside the transaction a migration runs in.
\<close>

section \<open>Values and conditions\<close>

datatype sql_value = SqlNull | SqlText string | SqlInt int | SqlTime time | SqlBool bool | SqlUuid uuid | SqlJson json

type_synonym sql_row = "(string \<times> sql_value) list"

datatype sql_type = UUID | VARCHAR nat | JSONB | TIMESTAMPTZ | INTEGER | BOOLEAN

text \<open>The two regular expressions of the checks.\<close>

datatype sql_pattern = HEX64 | TASK_TYPE

datatype comparison = Equal | Unequal | AtLeast | Greater | AtMost

datatype sql_expr = Column string | Literal sql_value | CharLength sql_expr | JsonbTypeof sql_expr

datatype sql_cond =
    IsNull sql_expr
  | NotNull sql_expr
  | Compare comparison sql_expr sql_expr
  | InList sql_expr "string list"
  | Matches sql_expr sql_pattern
  | And sql_cond sql_cond
  | Or sql_cond sql_cond
  | CoalesceFalse sql_cond

definition column_value :: "sql_row \<Rightarrow> string \<Rightarrow> sql_value" where
  "column_value row c = (case map_of row c of None \<Rightarrow> SqlNull | Some v \<Rightarrow> v)"

fun json_type :: "json \<Rightarrow> string" where
  "json_type JNull = ''null''"
| "json_type (JBool _) = ''boolean''"
| "json_type (JStr _) = ''string''"
| "json_type (JArr _) = ''array''"
| "json_type (JObj _) = ''object''"
| "json_type _ = ''number''"

fun eval_expr :: "sql_row \<Rightarrow> sql_expr \<Rightarrow> sql_value" where
  "eval_expr row (Column c) = column_value row c"
| "eval_expr row (Literal v) = v"
| "eval_expr row (CharLength e) = (case eval_expr row e of SqlText s \<Rightarrow> SqlInt (int (length s)) | _ \<Rightarrow> SqlNull)"
| "eval_expr row (JsonbTypeof e) = (case eval_expr row e of SqlJson j \<Rightarrow> SqlText (json_type j) | _ \<Rightarrow> SqlNull)"

fun compare_ints :: "comparison \<Rightarrow> int \<Rightarrow> int \<Rightarrow> bool" where
  "compare_ints Equal x y = (x = y)"
| "compare_ints Unequal x y = (x \<noteq> y)"
| "compare_ints AtLeast x y = (x \<ge> y)"
| "compare_ints Greater x y = (x > y)"
| "compare_ints AtMost x y = (x \<le> y)"

text \<open>Texts are only compared for equality here.\<close>

fun compare_values :: "comparison \<Rightarrow> sql_value \<Rightarrow> sql_value \<Rightarrow> bool option" where
  "compare_values k (SqlInt x) (SqlInt y) = Some (compare_ints k x y)"
| "compare_values k (SqlTime x) (SqlTime y) = Some (compare_ints k x y)"
| "compare_values Equal (SqlText x) (SqlText y) = Some (x = y)"
| "compare_values Unequal (SqlText x) (SqlText y) = Some (x \<noteq> y)"
| "compare_values k _ _ = None"

fun matches :: "sql_pattern \<Rightarrow> string \<Rightarrow> bool" where
  "matches HEX64 s = hex64 s"
| "matches TASK_TYPE s = is_task_type s"

definition and3 :: "bool option \<Rightarrow> bool option \<Rightarrow> bool option" where
  "and3 a b = (if a = Some False \<or> b = Some False then Some False
               else if a = Some True \<and> b = Some True then Some True else None)"

definition or3 :: "bool option \<Rightarrow> bool option \<Rightarrow> bool option" where
  "or3 a b = (if a = Some True \<or> b = Some True then Some True
              else if a = Some False \<and> b = Some False then Some False else None)"

fun eval_cond :: "sql_row \<Rightarrow> sql_cond \<Rightarrow> bool option" where
  "eval_cond row (IsNull e) = Some (eval_expr row e = SqlNull)"
| "eval_cond row (NotNull e) = Some (eval_expr row e \<noteq> SqlNull)"
| "eval_cond row (Compare k a b) = compare_values k (eval_expr row a) (eval_expr row b)"
| "eval_cond row (InList e vs) = (case eval_expr row e of SqlText s \<Rightarrow> Some (s \<in> set vs) | _ \<Rightarrow> None)"
| "eval_cond row (Matches e p) = (case eval_expr row e of SqlText s \<Rightarrow> Some (matches p s) | _ \<Rightarrow> None)"
| "eval_cond row (And a b) = and3 (eval_cond row a) (eval_cond row b)"
| "eval_cond row (Or a b) = or3 (eval_cond row a) (eval_cond row b)"
| "eval_cond row (CoalesceFalse c) = (case eval_cond row c of None \<Rightarrow> Some False | r \<Rightarrow> r)"

text \<open>A check rejects a row when it is false; the condition of a statement selects a row when it is true.\<close>

definition passes :: "sql_row \<Rightarrow> sql_cond \<Rightarrow> bool" where
  "passes row c \<longleftrightarrow> eval_cond row c \<noteq> Some False"

fun expr_columns :: "sql_expr \<Rightarrow> string list" where
  "expr_columns (Column c) = [c]"
| "expr_columns (Literal _) = []"
| "expr_columns (CharLength e) = expr_columns e"
| "expr_columns (JsonbTypeof e) = expr_columns e"

fun cond_columns :: "sql_cond \<Rightarrow> string list" where
  "cond_columns (IsNull e) = expr_columns e"
| "cond_columns (NotNull e) = expr_columns e"
| "cond_columns (Compare _ a b) = expr_columns a @ expr_columns b"
| "cond_columns (InList e _) = expr_columns e"
| "cond_columns (Matches e _) = expr_columns e"
| "cond_columns (And a b) = cond_columns a @ cond_columns b"
| "cond_columns (Or a b) = cond_columns a @ cond_columns b"
| "cond_columns (CoalesceFalse c) = cond_columns c"

section \<open>Tables\<close>

datatype server_default = NoDefault | DefaultNow | DefaultInt int

record sql_column =
  col_name :: string
  col_type :: sql_type
  col_nullable :: bool
  col_default :: server_default

datatype delete_rule = NO_ACTION | CASCADE | RESTRICT

datatype sql_constraint =
    Check (constraint_name: string) sql_cond
  | PrimaryKey (constraint_name: string) "string list"
  | Unique (constraint_name: string) "string list"
  | ForeignKey (constraint_name: string) string string string delete_rule

record sql_index =
  ix_name :: string
  ix_columns :: "string list"
  ix_where :: "sql_cond option"

record sql_table =
  tab_name :: string
  tab_columns :: "sql_column list"
  tab_constraints :: "sql_constraint list"
  tab_indexes :: "sql_index list"
  tab_rows :: "sql_row list"

type_synonym catalog = "sql_table list"

datatype sql_error =
    UndefinedTable string | DuplicateTable string | UndefinedColumn string | DuplicateColumn string
  | UndefinedObject string | DuplicateObject string | NotNullViolation string | CheckViolation string
  | DependentObjects string

section \<open>Conformity\<close>

definition int4 :: "int \<Rightarrow> bool" where
  "int4 i \<longleftrightarrow> - 2147483648 \<le> i \<and> i \<le> 2147483647"

fun value_fits :: "sql_type \<Rightarrow> sql_value \<Rightarrow> bool" where
  "value_fits UUID (SqlUuid _) = True"
| "value_fits (VARCHAR n) (SqlText s) = (length s \<le> n)"
| "value_fits JSONB (SqlJson _) = True"
| "value_fits TIMESTAMPTZ (SqlTime _) = True"
| "value_fits INTEGER (SqlInt i) = int4 i"
| "value_fits BOOLEAN (SqlBool _) = True"
| "value_fits _ _ = False"

definition column_accepts :: "sql_column \<Rightarrow> sql_value \<Rightarrow> bool" where
  "column_accepts c v \<longleftrightarrow> (if v = SqlNull then col_nullable c else value_fits (col_type c) v)"

fun check_accepts :: "sql_row \<Rightarrow> sql_constraint \<Rightarrow> bool" where
  "check_accepts row (Check _ c) = passes row c"
| "check_accepts row _ = True"

definition row_conforms :: "sql_table \<Rightarrow> sql_row \<Rightarrow> bool" where
  "row_conforms t row \<longleftrightarrow>
     map fst row = map col_name (tab_columns t) \<and>
     list_all (\<lambda>c. column_accepts c (column_value row (col_name c))) (tab_columns t) \<and>
     list_all (check_accepts row) (tab_constraints t)"

definition row_key :: "string list \<Rightarrow> sql_row \<Rightarrow> sql_value list" where
  "row_key cs row = map (column_value row) cs"

text \<open>Rows with a null in the key are never duplicates, nor refer to anything.\<close>

definition distinct_keys :: "string list \<Rightarrow> sql_row list \<Rightarrow> bool" where
  "distinct_keys cs rows \<longleftrightarrow> distinct (filter (\<lambda>k. SqlNull \<notin> set k) (map (row_key cs) rows))"

definition rows_of_table :: "catalog \<Rightarrow> string \<Rightarrow> sql_row list" where
  "rows_of_table c name = concat (map tab_rows (filter (\<lambda>t. tab_name t = name) c))"

fun keys_hold :: "catalog \<Rightarrow> sql_row list \<Rightarrow> sql_constraint \<Rightarrow> bool" where
  "keys_hold c rows (PrimaryKey _ cs) = distinct_keys cs rows"
| "keys_hold c rows (Unique _ cs) = distinct_keys cs rows"
| "keys_hold c rows (ForeignKey _ col ref refcol _) =
     list_all (\<lambda>row. column_value row col = SqlNull \<or>
       column_value row col \<in> set (map (\<lambda>r. column_value r refcol) (rows_of_table c ref))) rows"
| "keys_hold c rows (Check _ _) = True"

definition table_conforms :: "catalog \<Rightarrow> sql_table \<Rightarrow> bool" where
  "table_conforms c t \<longleftrightarrow>
     list_all (row_conforms t) (tab_rows t) \<and> list_all (keys_hold c (tab_rows t)) (tab_constraints t)"

definition catalog_conforms :: "catalog \<Rightarrow> bool" where
  "catalog_conforms c \<longleftrightarrow> list_all (table_conforms c) c"

section \<open>Operations\<close>

datatype migration_op =
    CreateTable string "sql_column list" "sql_constraint list"
  | DropTable string
  | AddColumn string sql_column
  | DropColumn string string
  | CreateCheck string string sql_cond
  | DropConstraint string string
  | CreateIndex string string "string list" "sql_cond option"
  | DropIndex string string
  | UpdateRows string "(string \<times> sql_value) list" sql_cond

definition find_table :: "catalog \<Rightarrow> string \<Rightarrow> sql_error + sql_table" where
  "find_table c name = (case List.find (\<lambda>t. tab_name t = name) c of
     None \<Rightarrow> Inl (UndefinedTable name) | Some t \<Rightarrow> Inr t)"

definition put_table :: "sql_table \<Rightarrow> catalog \<Rightarrow> catalog" where
  "put_table t c = map (\<lambda>u. if tab_name u = tab_name t then t else u) c"

definition on_table :: "catalog \<Rightarrow> string \<Rightarrow> (sql_table \<Rightarrow> sql_error + sql_table) \<Rightarrow> sql_error + catalog" where
  "on_table c name f = bindR (find_table c name) (\<lambda>t. bindR (f t) (\<lambda>t'. Inr (put_table t' c)))"

definition column_names :: "sql_table \<Rightarrow> string list" where
  "column_names t = map col_name (tab_columns t)"

definition has_columns :: "sql_table \<Rightarrow> string list \<Rightarrow> sql_error + unit" where
  "has_columns t cs = (case List.find (\<lambda>c. c \<notin> set (column_names t)) cs of
     None \<Rightarrow> Inr () | Some c \<Rightarrow> Inl (UndefinedColumn c))"

text \<open>The value of a new column in the rows that exist; \<open>now\<close> is the clock of the transaction.\<close>

fun default_value :: "time \<Rightarrow> server_default \<Rightarrow> sql_value" where
  "default_value now NoDefault = SqlNull"
| "default_value now DefaultNow = SqlTime now"
| "default_value now (DefaultInt i) = SqlInt i"

fun constraint_columns :: "sql_constraint \<Rightarrow> string list" where
  "constraint_columns (Check _ c) = cond_columns c"
| "constraint_columns (PrimaryKey _ cs) = cs"
| "constraint_columns (Unique _ cs) = cs"
| "constraint_columns (ForeignKey _ c _ _ _) = [c]"

fun refers_to :: "string \<Rightarrow> sql_constraint \<Rightarrow> bool" where
  "refers_to name (ForeignKey _ _ ref _ _) = (ref = name)"
| "refers_to name _ = False"

fun referenced :: "catalog \<Rightarrow> sql_constraint \<Rightarrow> sql_error + unit" where
  "referenced c (ForeignKey _ _ ref refcol _) = bindR (find_table c ref) (\<lambda>t. has_columns t [refcol])"
| "referenced c _ = Inr ()"

definition create_table :: "string \<Rightarrow> sql_column list \<Rightarrow> sql_constraint list \<Rightarrow> catalog \<Rightarrow> sql_error + catalog" where
  "create_table name columns constraints c =
     (let t = \<lparr>tab_name = name, tab_columns = columns, tab_constraints = constraints, tab_indexes = [], tab_rows = []\<rparr> in
      bindR (guardR (name \<notin> tab_name ` set c) (DuplicateTable name)) (\<lambda>_.
      bindR (guardR (distinct (map col_name columns)) (DuplicateColumn name)) (\<lambda>_.
      bindR (guardR (distinct (map constraint_name constraints)) (DuplicateObject name)) (\<lambda>_.
      bindR (has_columns t (concat (map constraint_columns constraints))) (\<lambda>_.
      bindR (mapR (referenced c) constraints) (\<lambda>_. Inr (c @ [t])))))))"

definition drop_table :: "string \<Rightarrow> catalog \<Rightarrow> sql_error + catalog" where
  "drop_table name c =
     bindR (find_table c name) (\<lambda>_.
     bindR (guardR (\<not> list_ex (\<lambda>t. tab_name t \<noteq> name \<and> list_ex (refers_to name) (tab_constraints t)) c) (DependentObjects name)) (\<lambda>_.
       Inr (filter (\<lambda>t. tab_name t \<noteq> name) c)))"

definition add_column :: "time \<Rightarrow> sql_column \<Rightarrow> sql_table \<Rightarrow> sql_error + sql_table" where
  "add_column now c t =
     bindR (guardR (col_name c \<notin> set (column_names t)) (DuplicateColumn (col_name c))) (\<lambda>_.
     bindR (guardR (tab_rows t = [] \<or> column_accepts c (default_value now (col_default c))) (NotNullViolation (col_name c))) (\<lambda>_.
       Inr (t\<lparr>tab_columns := tab_columns t @ [c],
              tab_rows := map (\<lambda>r. r @ [(col_name c, default_value now (col_default c))]) (tab_rows t)\<rparr>)))"

definition index_columns :: "sql_index \<Rightarrow> string list" where
  "index_columns i = ix_columns i @ (case ix_where i of None \<Rightarrow> [] | Some c \<Rightarrow> cond_columns c)"

text \<open>The constraints and indexes on a dropped column go with it.\<close>

definition drop_column :: "string \<Rightarrow> sql_table \<Rightarrow> sql_error + sql_table" where
  "drop_column name t =
     bindR (has_columns t [name]) (\<lambda>_.
       Inr (t\<lparr>tab_columns := filter (\<lambda>c. col_name c \<noteq> name) (tab_columns t),
              tab_constraints := filter (\<lambda>k. name \<notin> set (constraint_columns k)) (tab_constraints t),
              tab_indexes := filter (\<lambda>i. name \<notin> set (index_columns i)) (tab_indexes t),
              tab_rows := map (filter (\<lambda>(c, v). c \<noteq> name)) (tab_rows t)\<rparr>))"

definition create_check :: "string \<Rightarrow> sql_cond \<Rightarrow> sql_table \<Rightarrow> sql_error + sql_table" where
  "create_check name cond t =
     bindR (guardR (name \<notin> constraint_name ` set (tab_constraints t)) (DuplicateObject name)) (\<lambda>_.
     bindR (has_columns t (cond_columns cond)) (\<lambda>_.
     bindR (guardR (list_all (\<lambda>r. passes r cond) (tab_rows t)) (CheckViolation name)) (\<lambda>_.
       Inr (t\<lparr>tab_constraints := tab_constraints t @ [Check name cond]\<rparr>))))"

definition drop_constraint :: "string \<Rightarrow> sql_table \<Rightarrow> sql_error + sql_table" where
  "drop_constraint name t =
     bindR (guardR (name \<in> constraint_name ` set (tab_constraints t)) (UndefinedObject name)) (\<lambda>_.
       Inr (t\<lparr>tab_constraints := filter (\<lambda>k. constraint_name k \<noteq> name) (tab_constraints t)\<rparr>))"

definition create_index :: "string \<Rightarrow> string list \<Rightarrow> sql_cond option \<Rightarrow> sql_table \<Rightarrow> sql_error + sql_table" where
  "create_index name cs cond t =
     bindR (guardR (name \<notin> ix_name ` set (tab_indexes t)) (DuplicateObject name)) (\<lambda>_.
     bindR (has_columns t (cs @ (case cond of None \<Rightarrow> [] | Some k \<Rightarrow> cond_columns k))) (\<lambda>_.
       Inr (t\<lparr>tab_indexes := tab_indexes t @ [\<lparr>ix_name = name, ix_columns = cs, ix_where = cond\<rparr>]\<rparr>)))"

definition drop_index :: "string \<Rightarrow> sql_table \<Rightarrow> sql_error + sql_table" where
  "drop_index name t =
     bindR (guardR (name \<in> ix_name ` set (tab_indexes t)) (UndefinedObject name)) (\<lambda>_.
       Inr (t\<lparr>tab_indexes := filter (\<lambda>i. ix_name i \<noteq> name) (tab_indexes t)\<rparr>))"

definition assign :: "(string \<times> sql_value) list \<Rightarrow> sql_row \<Rightarrow> sql_row" where
  "assign sets row = map (\<lambda>(c, v). (c, case map_of sets c of None \<Rightarrow> v | Some v' \<Rightarrow> v')) row"

definition update_rows :: "(string \<times> sql_value) list \<Rightarrow> sql_cond \<Rightarrow> sql_table \<Rightarrow> sql_error + sql_table" where
  "update_rows sets cond t =
     (let rows = map (\<lambda>r. if eval_cond r cond = Some True then assign sets r else r) (tab_rows t) in
      bindR (has_columns t (cond_columns cond @ map fst sets)) (\<lambda>_.
      bindR (guardR (list_all (row_conforms t) rows) (CheckViolation (tab_name t))) (\<lambda>_.
        Inr (t\<lparr>tab_rows := rows\<rparr>))))"

fun apply_op :: "time \<Rightarrow> migration_op \<Rightarrow> catalog \<Rightarrow> sql_error + catalog" where
  "apply_op now (CreateTable name columns constraints) c = create_table name columns constraints c"
| "apply_op now (DropTable name) c = drop_table name c"
| "apply_op now (AddColumn name column) c = on_table c name (add_column now column)"
| "apply_op now (DropColumn name column) c = on_table c name (drop_column column)"
| "apply_op now (CreateCheck constraint name cond) c = on_table c name (create_check constraint cond)"
| "apply_op now (DropConstraint constraint name) c = on_table c name (drop_constraint constraint)"
| "apply_op now (CreateIndex index name cs cond) c = on_table c name (create_index index cs cond)"
| "apply_op now (DropIndex index name) c = on_table c name (drop_index index)"
| "apply_op now (UpdateRows name sets cond) c = on_table c name (update_rows sets cond)"

fun apply_ops :: "time \<Rightarrow> migration_op list \<Rightarrow> catalog \<Rightarrow> sql_error + catalog" where
  "apply_ops now [] c = Inr c"
| "apply_ops now (x # xs) c = bindR (apply_op now x c) (apply_ops now xs)"

lemma apply_ops_append: "apply_ops now (xs @ ys) c = bindR (apply_ops now xs c) (apply_ops now ys)"
  by (induction xs arbitrary: c) (auto simp: bindR_def split: sum.splits)

end
