(* ===== verification/Migrations.thy ===== *)
theory Migrations
  imports Sql_Schema
begin

text \<open>
  The Alembic revisions of \<open>migrations/versions\<close> as lists of operations on a catalog, and the rows of
  the model as rows of its tables: what the revisions build is the schema the model assumes,
  the upgrade of a live database does what it should, and every downgrade undoes its upgrade.
\<close>

section \<open>Notation of the columns\<close>

definition required :: "string \<Rightarrow> sql_type \<Rightarrow> sql_column" where
  "required name t = \<lparr>col_name = name, col_type = t, col_nullable = False, col_default = NoDefault\<rparr>"

definition nullable :: "string \<Rightarrow> sql_type \<Rightarrow> sql_column" where
  "nullable name t = \<lparr>col_name = name, col_type = t, col_nullable = True, col_default = NoDefault\<rparr>"

definition defaulted :: "string \<Rightarrow> sql_type \<Rightarrow> server_default \<Rightarrow> sql_column" where
  "defaulted name t d = \<lparr>col_name = name, col_type = t, col_nullable = False, col_default = d\<rparr>"

definition is_hex64 :: "string \<Rightarrow> sql_cond" where
  "is_hex64 c = Matches (Column c) HEX64"

definition is_json_object :: "string \<Rightarrow> sql_cond" where
  "is_json_object c = Compare Equal (JsonbTypeof (Column c)) (Literal (SqlText ''object''))"

definition text_is :: "string \<Rightarrow> string \<Rightarrow> sql_cond" where
  "text_is c v = Compare Equal (Column c) (Literal (SqlText v))"

definition text_is_not :: "string \<Rightarrow> string \<Rightarrow> sql_cond" where
  "text_is_not c v = Compare Unequal (Column c) (Literal (SqlText v))"

definition int_is :: "comparison \<Rightarrow> string \<Rightarrow> int \<Rightarrow> sql_cond" where
  "int_is k c i = Compare k (Column c) (Literal (SqlInt i))"

definition absent :: "string \<Rightarrow> sql_cond" where
  "absent c = IsNull (Column c)"

definition filled :: "string \<Rightarrow> sql_cond" where
  "filled c = NotNull (Column c)"

section \<open>\<open>0001_baseline\<close> and \<open>0002_create_tasks\<close>\<close>

definition upgrade_0001 :: "migration_op list" where
  "upgrade_0001 = []"

definition downgrade_0001 :: "migration_op list" where
  "downgrade_0001 = []"

definition task_columns :: "sql_column list" where
  "task_columns =
     [required ''id'' UUID, required ''idempotency_key'' (VARCHAR 255), required ''request_fingerprint'' (VARCHAR 64),
         required ''task_type'' (VARCHAR 100), required ''task_input'' JSONB, required ''status'' (VARCHAR 32),
         defaulted ''created_at'' TIMESTAMPTZ DefaultNow, defaulted ''updated_at'' TIMESTAMPTZ DefaultNow]"

definition task_constraints :: "sql_constraint list" where
  "task_constraints =
     [Check ''ck_tasks_idempotency_key_length''
           (And (Compare AtLeast (CharLength (Column ''idempotency_key'')) (Literal (SqlInt 1)))
                (Compare AtMost (CharLength (Column ''idempotency_key'')) (Literal (SqlInt 255)))),
         Check ''ck_tasks_input_object'' (is_json_object ''task_input''),
         Check ''ck_tasks_request_fingerprint'' (is_hex64 ''request_fingerprint''),
         Check ''ck_tasks_status'' (InList (Column ''status'')
           [''pending_approval'', ''approved'', ''running'', ''succeeded'', ''failed'', ''cancelled'']),
         Check ''ck_tasks_task_type'' (Matches (Column ''task_type'') TASK_TYPE),
         PrimaryKey ''pk_tasks'' [''id''],
         Unique ''uq_tasks_idempotency_key'' [''idempotency_key'']]"

definition upgrade_0002 :: "migration_op list" where
  "upgrade_0002 =
     [CreateTable ''tasks'' task_columns task_constraints]"

definition downgrade_0002 :: "migration_op list" where
  "downgrade_0002 = [DropTable ''tasks'']"

section \<open>\<open>0003_reliable_worker_execution\<close>\<close>

text \<open>The new columns of the tasks, in their order.\<close>

definition worker_columns :: "sql_column list" where
  "worker_columns =
     [defaulted ''attempt_count'' INTEGER (DefaultInt 0), defaulted ''max_attempts'' INTEGER (DefaultInt 3),
      nullable ''available_at'' TIMESTAMPTZ, nullable ''worker_id'' (VARCHAR 255), nullable ''lease_token_hash'' (VARCHAR 64),
      nullable ''lease_expires_at'' TIMESTAMPTZ, nullable ''last_heartbeat_at'' TIMESTAMPTZ,
      nullable ''cancellation_requested_at'' TIMESTAMPTZ, nullable ''result'' JSONB,
      nullable ''last_error_code'' (VARCHAR 100), nullable ''last_error_summary'' (VARCHAR 500)]"

text \<open>
  Rows that were running are queued again, and queued rows become available. \<open>clock\<close> stands for
  \<open>clock_timestamp()\<close>, which PostgreSQL reads anew for each column of each row: the columns the
  migration fills get times a moment apart, where the model gives them one. No constraint of the
  tables compares two of these columns, so only the times written differ.
\<close>

definition requeue_rows :: "time \<Rightarrow> migration_op list" where
  "requeue_rows clock =
     [UpdateRows ''tasks'' [(''status'', SqlText ''approved''), (''available_at'', SqlTime clock), (''updated_at'', SqlTime clock)]
        (text_is ''status'' ''running''),
      UpdateRows ''tasks'' [(''available_at'', SqlTime clock)]
        (And (text_is ''status'' ''approved'') (absent ''available_at''))]"

definition worker_checks :: "(string \<times> sql_cond) list" where
  "worker_checks =
     [(''ck_tasks_attempt_count_nonnegative'', int_is AtLeast ''attempt_count'' 0),
      (''ck_tasks_max_attempts_positive'', int_is AtLeast ''max_attempts'' 1),
      (''ck_tasks_attempt_count_within_max'', Compare AtMost (Column ''attempt_count'') (Column ''max_attempts'')),
      (''ck_tasks_approved_available'', Or (text_is_not ''status'' ''approved'') (filled ''available_at'')),
      (''ck_tasks_active_lease'',
         Or (And (text_is ''status'' ''running'') (And (filled ''worker_id'') (And (filled ''lease_token_hash'')
               (And (filled ''lease_expires_at'') (And (filled ''last_heartbeat_at'') (int_is Greater ''attempt_count'' 0))))))
            (And (text_is_not ''status'' ''running'') (And (absent ''worker_id'') (And (absent ''lease_token_hash'')
               (And (absent ''lease_expires_at'') (absent ''last_heartbeat_at'')))))),
      (''ck_tasks_result_state'',
         Or (And (text_is ''status'' ''succeeded'') (And (filled ''result'') (CoalesceFalse (is_json_object ''result''))))
            (And (text_is_not ''status'' ''succeeded'') (absent ''result''))),
      (''ck_tasks_cancellation_state'',
         Or (absent ''cancellation_requested_at'') (InList (Column ''status'') [''running'', ''cancelled''])),
      (''ck_tasks_lease_token_hash'', Or (absent ''lease_token_hash'') (is_hex64 ''lease_token_hash''))]"

definition attempt_columns :: "sql_column list" where
  "attempt_columns =
     [required ''id'' UUID, required ''task_id'' UUID, required ''attempt_number'' INTEGER, required ''worker_id'' (VARCHAR 255),
        required ''lease_token_hash'' (VARCHAR 64), required ''status'' (VARCHAR 32), required ''started_at'' TIMESTAMPTZ,
        required ''last_heartbeat_at'' TIMESTAMPTZ, nullable ''finished_at'' TIMESTAMPTZ, nullable ''error_code'' (VARCHAR 100),
        nullable ''error_summary'' (VARCHAR 500), nullable ''terminal_reason'' (VARCHAR 100)]"

definition attempt_constraints :: "sql_constraint list" where
  "attempt_constraints =
     [Check ''ck_task_attempts_number_positive'' (int_is Greater ''attempt_number'' 0),
        Check ''ck_task_attempts_lease_token_hash'' (is_hex64 ''lease_token_hash''),
        Check ''ck_task_attempts_status'' (InList (Column ''status'')
          [''running'', ''succeeded'', ''retry_scheduled'', ''failed'', ''cancelled'', ''lease_expired'']),
        Check ''ck_task_attempts_finished_state''
          (Or (And (text_is ''status'' ''running'') (absent ''finished_at''))
              (And (text_is_not ''status'' ''running'') (filled ''finished_at''))),
        ForeignKey ''fk_task_attempts_task_id'' ''task_id'' ''tasks'' ''id'' NO_ACTION,
        PrimaryKey ''pk_task_attempts'' [''id''],
        Unique ''uq_task_attempts_task_number'' [''task_id'', ''attempt_number'']]"

definition create_attempts :: migration_op where
  "create_attempts =
     CreateTable ''task_attempts'' attempt_columns attempt_constraints"

definition create_queue_indexes :: "migration_op list" where
  "create_queue_indexes =
     [CreateIndex ''ix_tasks_claimable'' ''tasks'' [''available_at'', ''created_at'', ''id''] (Some (text_is ''status'' ''approved'')),
      CreateIndex ''ix_tasks_expired_leases'' ''tasks'' [''lease_expires_at'', ''id''] (Some (text_is ''status'' ''running''))]"

definition upgrade_0003 :: "time \<Rightarrow> migration_op list" where
  "upgrade_0003 clock =
     map (AddColumn ''tasks'') worker_columns @ requeue_rows clock @
     map (\<lambda>(name, cond). CreateCheck name ''tasks'' cond) worker_checks @ [create_attempts] @ create_queue_indexes"

definition downgrade_0003 :: "migration_op list" where
  "downgrade_0003 =
     [DropIndex ''ix_tasks_expired_leases'' ''tasks'', DropIndex ''ix_tasks_claimable'' ''tasks'', DropTable ''task_attempts''] @
     map (\<lambda>name. DropConstraint name ''tasks'')
       [''ck_tasks_lease_token_hash'', ''ck_tasks_cancellation_state'', ''ck_tasks_result_state'', ''ck_tasks_active_lease'',
        ''ck_tasks_approved_available'', ''ck_tasks_attempt_count_within_max'', ''ck_tasks_max_attempts_positive'',
        ''ck_tasks_attempt_count_nonnegative''] @
     map (DropColumn ''tasks'')
       [''last_error_summary'', ''last_error_code'', ''result'', ''cancellation_requested_at'', ''last_heartbeat_at'',
        ''lease_expires_at'', ''lease_token_hash'', ''worker_id'', ''available_at'', ''max_attempts'', ''attempt_count'']"

section \<open>\<open>0004_enterprise_integrations\<close>\<close>

definition artifact_columns :: "sql_column list" where
  "artifact_columns =
     [required ''id'' UUID, required ''task_id'' UUID, required ''observed_by_attempt_id'' UUID,
        required ''provider'' (VARCHAR 50), required ''resource_type'' (VARCHAR 100),
        required ''provider_resource_identifier'' (VARCHAR 500), required ''canonical_source_url'' (VARCHAR 2000),
        required ''source_version'' (VARCHAR 500), required ''schema_version'' INTEGER,
        required ''data_classification'' (VARCHAR 30), required ''redaction_applied'' BOOLEAN,
        required ''retention_until'' TIMESTAMPTZ, required ''normalized_payload'' JSONB, required ''content_hash'' (VARCHAR 64),
        required ''payload_size_bytes'' INTEGER, required ''fetched_at'' TIMESTAMPTZ, defaulted ''created_at'' TIMESTAMPTZ DefaultNow]"

definition artifact_constraints :: "sql_constraint list" where
  "artifact_constraints =
     [Check ''ck_source_artifacts_provider'' (InList (Column ''provider'') [''service_catalog'', ''jira'', ''github'']),
        Check ''ck_source_artifacts_payload_object'' (is_json_object ''normalized_payload''),
        Check ''ck_source_artifacts_content_hash'' (is_hex64 ''content_hash''),
        Check ''ck_source_artifacts_size_positive'' (int_is Greater ''payload_size_bytes'' 0),
        Check ''ck_source_artifacts_retention'' (Compare Greater (Column ''retention_until'') (Column ''fetched_at'')),
        Check ''ck_source_artifacts_classification'' (InList (Column ''data_classification'')
          [''public'', ''internal'', ''confidential'', ''restricted'']),
        ForeignKey ''fk_source_artifacts_task_id'' ''task_id'' ''tasks'' ''id'' CASCADE,
        ForeignKey ''fk_source_artifacts_observed_attempt'' ''observed_by_attempt_id'' ''task_attempts'' ''id'' RESTRICT,
        PrimaryKey ''pk_source_artifacts'' [''id''],
        Unique ''uq_source_artifacts_observation''
          [''task_id'', ''provider'', ''resource_type'', ''provider_resource_identifier'', ''source_version'', ''content_hash'']]"

definition create_artifacts :: migration_op where
  "create_artifacts =
     CreateTable ''source_artifacts'' artifact_columns artifact_constraints"

definition action_columns :: "sql_column list" where
  "action_columns =
     [required ''id'' UUID, required ''task_id'' UUID, required ''current_attempt_id'' UUID, required ''provider'' (VARCHAR 50),
        required ''operation'' (VARCHAR 100), required ''action_scope_key'' (VARCHAR 1000),
        required ''desired_request_fingerprint'' (VARCHAR 64), nullable ''applied_request_fingerprint'' (VARCHAR 64),
        required ''decision_snapshot_hash'' (VARCHAR 64), required ''revision'' INTEGER, required ''status'' (VARCHAR 50),
        nullable ''provider_resource_identifier'' (VARCHAR 500), nullable ''provider_url'' (VARCHAR 2000),
        nullable ''response_fingerprint'' (VARCHAR 64), required ''action_attempt_count'' INTEGER,
        nullable ''last_error_code'' (VARCHAR 100), nullable ''last_error_summary'' (VARCHAR 500),
        required ''reserved_at'' TIMESTAMPTZ, required ''last_attempt_at'' TIMESTAMPTZ, nullable ''write_started_at'' TIMESTAMPTZ,
        nullable ''reconcile_not_before'' TIMESTAMPTZ, nullable ''completed_at'' TIMESTAMPTZ,
        defaulted ''created_at'' TIMESTAMPTZ DefaultNow, defaulted ''updated_at'' TIMESTAMPTZ DefaultNow]"

definition action_constraints :: "sql_constraint list" where
  "action_constraints =
     [Check ''ck_external_actions_status'' (InList (Column ''status'')
          [''reserved'', ''reconciling'', ''ready_to_execute'', ''executing'', ''retryable_failure'', ''outcome_unknown'',
           ''succeeded'', ''permanent_failure'', ''needs_human_review'']),
        Check ''ck_external_actions_desired_fingerprint'' (is_hex64 ''desired_request_fingerprint''),
        Check ''ck_external_actions_applied_fingerprint''
          (Or (absent ''applied_request_fingerprint'') (is_hex64 ''applied_request_fingerprint'')),
        Check ''ck_external_actions_snapshot_hash'' (is_hex64 ''decision_snapshot_hash''),
        Check ''ck_external_actions_revision_positive'' (int_is AtLeast ''revision'' 1),
        Check ''ck_external_actions_attempt_count_positive'' (int_is AtLeast ''action_attempt_count'' 1),
        Check ''ck_external_actions_completion''
          (Or (And (text_is ''status'' ''succeeded'') (And (filled ''provider_resource_identifier'')
                 (And (filled ''applied_request_fingerprint'') (filled ''completed_at''))))
              (And (text_is_not ''status'' ''succeeded'') (absent ''completed_at''))),
        Check ''ck_external_actions_unknown_write'' (Or (text_is_not ''status'' ''outcome_unknown'') (filled ''write_started_at'')),
        ForeignKey ''fk_external_actions_task_id'' ''task_id'' ''tasks'' ''id'' RESTRICT,
        ForeignKey ''fk_external_actions_current_attempt'' ''current_attempt_id'' ''task_attempts'' ''id'' RESTRICT,
        PrimaryKey ''pk_external_actions'' [''id''],
        Unique ''uq_external_actions_scope'' [''action_scope_key'']]"

definition create_actions :: migration_op where
  "create_actions =
     CreateTable ''external_actions'' action_columns action_constraints"

definition action_attempt_columns :: "sql_column list" where
  "action_attempt_columns =
     [required ''id'' UUID, required ''external_action_id'' UUID, required ''task_id'' UUID, required ''task_attempt_id'' UUID,
        required ''sequence_number'' INTEGER, required ''transition'' (VARCHAR 100), nullable ''previous_status'' (VARCHAR 50),
        required ''new_status'' (VARCHAR 50), required ''revision'' INTEGER, nullable ''error_code'' (VARCHAR 100),
        defaulted ''created_at'' TIMESTAMPTZ DefaultNow]"

definition action_attempt_constraints :: "sql_constraint list" where
  "action_attempt_constraints =
     [Check ''ck_external_action_attempts_sequence_positive'' (int_is AtLeast ''sequence_number'' 1),
        ForeignKey ''fk_external_action_attempts_action'' ''external_action_id'' ''external_actions'' ''id'' CASCADE,
        ForeignKey ''fk_action_attempts_task_id'' ''task_id'' ''tasks'' ''id'' RESTRICT,
        ForeignKey ''fk_action_attempts_task_attempt'' ''task_attempt_id'' ''task_attempts'' ''id'' RESTRICT,
        PrimaryKey ''pk_external_action_attempts'' [''id''],
        Unique ''uq_external_action_attempts_sequence'' [''external_action_id'', ''sequence_number'']]"

definition create_action_attempts :: migration_op where
  "create_action_attempts =
     CreateTable ''external_action_attempts'' action_attempt_columns action_attempt_constraints"

definition upgrade_0004 :: "migration_op list" where
  "upgrade_0004 =
     [create_artifacts,
      CreateIndex ''ix_source_artifacts_task_created'' ''source_artifacts'' [''task_id'', ''created_at''] None,
      create_actions,
      CreateIndex ''ix_external_actions_task_created'' ''external_actions'' [''task_id'', ''created_at''] None,
      create_action_attempts,
      CreateIndex ''ix_external_action_attempts_action_created'' ''external_action_attempts''
        [''external_action_id'', ''created_at''] None]"

definition downgrade_0004 :: "migration_op list" where
  "downgrade_0004 =
     [DropIndex ''ix_external_action_attempts_action_created'' ''external_action_attempts'', DropTable ''external_action_attempts'',
      DropIndex ''ix_external_actions_task_created'' ''external_actions'', DropTable ''external_actions'',
      DropIndex ''ix_source_artifacts_task_created'' ''source_artifacts'', DropTable ''source_artifacts'']"

text \<open>The revisions in their order, from an empty database to the current schema and back.\<close>

definition upgrade_all :: "time \<Rightarrow> migration_op list" where
  "upgrade_all clock = upgrade_0001 @ upgrade_0002 @ upgrade_0003 clock @ upgrade_0004"

definition downgrade_all :: "migration_op list" where
  "downgrade_all = downgrade_0004 @ downgrade_0003 @ downgrade_0002 @ downgrade_0001"

section \<open>Rows of the model\<close>

definition sql_opt :: "('a \<Rightarrow> sql_value) \<Rightarrow> 'a option \<Rightarrow> sql_value" where
  "sql_opt f x = (case x of None \<Rightarrow> SqlNull | Some v \<Rightarrow> f v)"

definition task_row :: "task \<Rightarrow> sql_row" where
  "task_row t =
     [(''id'', SqlUuid (t_id t)), (''idempotency_key'', SqlText (t_idempotency_key t)),
      (''request_fingerprint'', SqlText (t_request_fingerprint t)), (''task_type'', SqlText (t_task_type t)),
      (''task_input'', SqlJson (JObj (t_task_input t))), (''status'', SqlText (task_status_value (t_status t))),
      (''created_at'', SqlTime (t_created_at t)), (''updated_at'', SqlTime (t_updated_at t)),
      (''attempt_count'', SqlInt (int (t_attempt_count t))), (''max_attempts'', SqlInt (int (t_max_attempts t))),
      (''available_at'', sql_opt SqlTime (t_available_at t)), (''worker_id'', sql_opt SqlText (t_worker_id t)),
      (''lease_token_hash'', sql_opt SqlText (t_lease_token_hash t)), (''lease_expires_at'', sql_opt SqlTime (t_lease_expires_at t)),
      (''last_heartbeat_at'', sql_opt SqlTime (t_last_heartbeat_at t)),
      (''cancellation_requested_at'', sql_opt SqlTime (t_cancellation_requested_at t)),
      (''result'', sql_opt (\<lambda>r. SqlJson (JObj r)) (t_result t)), (''last_error_code'', sql_opt SqlText (t_last_error_code t)),
      (''last_error_summary'', sql_opt SqlText (t_last_error_summary t))]"

primrec attempt_status_value :: "attempt_status \<Rightarrow> string" where
  "attempt_status_value ATTEMPT_RUNNING = ''running''"
| "attempt_status_value ATTEMPT_SUCCEEDED = ''succeeded''"
| "attempt_status_value RETRY_SCHEDULED = ''retry_scheduled''"
| "attempt_status_value ATTEMPT_FAILED = ''failed''"
| "attempt_status_value ATTEMPT_CANCELLED = ''cancelled''"
| "attempt_status_value LEASE_EXPIRED = ''lease_expired''"

definition attempt_row :: "task_attempt \<Rightarrow> sql_row" where
  "attempt_row a =
     [(''id'', SqlUuid (a_id a)), (''task_id'', SqlUuid (a_task_id a)), (''attempt_number'', SqlInt (int (a_attempt_number a))),
      (''worker_id'', SqlText (a_worker_id a)), (''lease_token_hash'', SqlText (a_lease_token_hash a)),
      (''status'', SqlText (attempt_status_value (a_status a))), (''started_at'', SqlTime (a_started_at a)),
      (''last_heartbeat_at'', SqlTime (a_last_heartbeat_at a)), (''finished_at'', sql_opt SqlTime (a_finished_at a)),
      (''error_code'', sql_opt SqlText (a_error_code a)), (''error_summary'', sql_opt SqlText (a_error_summary a)),
      (''terminal_reason'', sql_opt SqlText (a_terminal_reason a))]"

definition sql_artifact_row :: "source_artifact \<Rightarrow> sql_row" where
  "sql_artifact_row s =
     [(''id'', SqlUuid (s_id s)), (''task_id'', SqlUuid (s_task_id s)), (''observed_by_attempt_id'', SqlUuid (s_observed_by_attempt_id s)),
      (''provider'', SqlText (s_provider s)), (''resource_type'', SqlText (s_resource_type s)),
      (''provider_resource_identifier'', SqlText (s_provider_resource_identifier s)),
      (''canonical_source_url'', SqlText (s_canonical_source_url s)), (''source_version'', SqlText (s_source_version s)),
      (''schema_version'', SqlInt (int (s_schema_version s))), (''data_classification'', SqlText (s_data_classification s)),
      (''redaction_applied'', SqlBool (s_redaction_applied s)), (''retention_until'', SqlTime (s_retention_until s)),
      (''normalized_payload'', SqlJson (JObj (s_normalized_payload s))), (''content_hash'', SqlText (s_content_hash s)),
      (''payload_size_bytes'', SqlInt (int (s_payload_size_bytes s))), (''fetched_at'', SqlTime (s_fetched_at s)),
      (''created_at'', SqlTime (s_created_at s))]"

definition action_row :: "external_action \<Rightarrow> sql_row" where
  "action_row x =
     [(''id'', SqlUuid (x_id x)), (''task_id'', SqlUuid (x_task_id x)), (''current_attempt_id'', SqlUuid (x_current_attempt_id x)),
      (''provider'', SqlText (x_provider x)), (''operation'', SqlText (x_operation x)),
      (''action_scope_key'', SqlText (x_action_scope_key x)),
      (''desired_request_fingerprint'', SqlText (x_desired_request_fingerprint x)),
      (''applied_request_fingerprint'', sql_opt SqlText (x_applied_request_fingerprint x)),
      (''decision_snapshot_hash'', SqlText (x_decision_snapshot_hash x)), (''revision'', SqlInt (int (x_revision x))),
      (''status'', SqlText (x_status x)), (''provider_resource_identifier'', sql_opt SqlText (x_provider_resource_identifier x)),
      (''provider_url'', sql_opt SqlText (x_provider_url x)), (''response_fingerprint'', sql_opt SqlText (x_response_fingerprint x)),
      (''action_attempt_count'', SqlInt (int (x_action_attempt_count x))), (''last_error_code'', sql_opt SqlText (x_last_error_code x)),
      (''last_error_summary'', sql_opt SqlText (x_last_error_summary x)), (''reserved_at'', SqlTime (x_reserved_at x)),
      (''last_attempt_at'', SqlTime (x_last_attempt_at x)), (''write_started_at'', sql_opt SqlTime (x_write_started_at x)),
      (''reconcile_not_before'', sql_opt SqlTime (x_reconcile_not_before x)), (''completed_at'', sql_opt SqlTime (x_completed_at x)),
      (''created_at'', SqlTime (x_created_at x)), (''updated_at'', SqlTime (x_updated_at x))]"

definition action_attempt_row :: "external_action_attempt \<Rightarrow> sql_row" where
  "action_attempt_row e =
     [(''id'', SqlUuid (e_id e)), (''external_action_id'', SqlUuid (e_external_action_id e)), (''task_id'', SqlUuid (e_task_id e)),
      (''task_attempt_id'', SqlUuid (e_task_attempt_id e)), (''sequence_number'', SqlInt (int (e_sequence_number e))),
      (''transition'', SqlText (e_transition e)), (''previous_status'', sql_opt SqlText (e_previous_status e)),
      (''new_status'', SqlText (e_new_status e)), (''revision'', SqlInt (int (e_revision e))),
      (''error_code'', sql_opt SqlText (e_error_code e)), (''created_at'', SqlTime (e_created_at e))]"

definition table_rows :: "db \<Rightarrow> string \<Rightarrow> sql_row list" where
  "table_rows d name =
     (if name = ''tasks'' then map task_row (tasks d)
      else if name = ''task_attempts'' then map attempt_row (task_attempts d)
      else if name = ''source_artifacts'' then map sql_artifact_row (source_artifacts d)
      else if name = ''external_actions'' then map action_row (external_actions d)
      else if name = ''external_action_attempts'' then map action_attempt_row (external_action_attempts d) else [])"

text \<open>The tables of a catalog, holding the rows of the model's database.\<close>

definition holding :: "db \<Rightarrow> catalog \<Rightarrow> catalog" where
  "holding d c = map (\<lambda>t. t\<lparr>tab_rows := table_rows d (tab_name t)\<rparr>) c"

text \<open>The model's numbers are unbounded; a column of type \<open>INTEGER\<close> holds 32 bits.\<close>

definition integers_fit :: "db \<Rightarrow> bool" where
  "integers_fit d \<longleftrightarrow>
     list_all (\<lambda>t. int4 (int (t_attempt_count t)) \<and> int4 (int (t_max_attempts t))) (tasks d) \<and>
     list_all (\<lambda>a. int4 (int (a_attempt_number a))) (task_attempts d) \<and>
     list_all (\<lambda>s. int4 (int (s_schema_version s)) \<and> int4 (int (s_payload_size_bytes s))) (source_artifacts d) \<and>
     list_all (\<lambda>x. int4 (int (x_revision x)) \<and> int4 (int (x_action_attempt_count x))) (external_actions d) \<and>
     list_all (\<lambda>e. int4 (int (e_sequence_number e)) \<and> int4 (int (e_revision e))) (external_action_attempts d)"

section \<open>The schema\<close>

definition sql_table_of :: "string \<Rightarrow> sql_column list \<Rightarrow> sql_constraint list \<Rightarrow> sql_index list \<Rightarrow> sql_table" where
  "sql_table_of name columns constraints indexes =
     \<lparr>tab_name = name, tab_columns = columns, tab_constraints = constraints, tab_indexes = indexes, tab_rows = []\<rparr>"

definition worker_constraints :: "sql_constraint list" where
  "worker_constraints = map (\<lambda>(name, cond). Check name cond) worker_checks"

definition plain_index :: "string \<Rightarrow> string list \<Rightarrow> sql_index" where
  "plain_index name cs = \<lparr>ix_name = name, ix_columns = cs, ix_where = None\<rparr>"

definition partial_index :: "string \<Rightarrow> string list \<Rightarrow> sql_cond \<Rightarrow> sql_index" where
  "partial_index name cs cond = \<lparr>ix_name = name, ix_columns = cs, ix_where = Some cond\<rparr>"

definition queue_indexes :: "sql_index list" where
  "queue_indexes =
     [partial_index ''ix_tasks_claimable'' [''available_at'', ''created_at'', ''id''] (text_is ''status'' ''approved''),
      partial_index ''ix_tasks_expired_leases'' [''lease_expires_at'', ''id''] (text_is ''status'' ''running'')]"

text \<open>The schema that the upgrades build from nothing, whatever the clocks.\<close>

definition schema :: catalog where
  "schema =
     [sql_table_of ''tasks'' (task_columns @ worker_columns) (task_constraints @ worker_constraints) queue_indexes,
      sql_table_of ''task_attempts'' attempt_columns attempt_constraints [],
      sql_table_of ''source_artifacts'' artifact_columns artifact_constraints
        [plain_index ''ix_source_artifacts_task_created'' [''task_id'', ''created_at'']],
      sql_table_of ''external_actions'' action_columns action_constraints
        [plain_index ''ix_external_actions_task_created'' [''task_id'', ''created_at'']],
      sql_table_of ''external_action_attempts'' action_attempt_columns action_attempt_constraints
        [plain_index ''ix_external_action_attempts_action_created'' [''external_action_id'', ''created_at'']]]"

lemma upgrade_builds_schema: "apply_ops now (upgrade_all clock) [] = Inr schema"
  by code_simp

lemma downgrade_removes_schema: "apply_ops now downgrade_all schema = Inr []"
  by code_simp

end
