(* ===== verification/Schema.thy ===== *)
theory Schema
  imports Migrations
begin

text \<open>
  The schema that the migrations build is the schema the model assumes: the rows of a database
  of the model satisfy PostgreSQL's constraints exactly when the model's invariant holds.
\<close>

section \<open>Evaluation\<close>

lemma column_value_simps [simp]:
  "column_value [] d = SqlNull" "column_value ((c, v) # row) d = (if c = d then v else column_value row d)"
  by (simp_all add: column_value_def)

lemma sql_opt_simps [simp]: "sql_opt f None = SqlNull" "sql_opt f (Some v) = f v"
  by (simp_all add: sql_opt_def)

lemma sql_opt_null: "(\<And>v. f v \<noteq> SqlNull) \<Longrightarrow> sql_opt f x = SqlNull \<longleftrightarrow> x = None"
  by (cases x) simp_all

lemma passes_simps:
  "passes row (IsNull e) \<longleftrightarrow> eval_expr row e = SqlNull"
  "passes row (NotNull e) \<longleftrightarrow> eval_expr row e \<noteq> SqlNull"
  "passes row (And a b) \<longleftrightarrow> passes row a \<and> passes row b"
  by (auto simp: passes_def and3_def)

text \<open>A disjunction passes unless both sides are false.\<close>

lemma passes_or: "passes row (Or a b) \<longleftrightarrow> passes row a \<or> passes row b"
  by (auto simp: passes_def or3_def)

lemmas notations = is_hex64_def is_json_object_def text_is_def text_is_not_def int_is_def absent_def filled_def
  required_def nullable_def defaulted_def

lemma column_accepts_simps:
  "column_accepts c SqlNull \<longleftrightarrow> col_nullable c"
  "v \<noteq> SqlNull \<Longrightarrow> column_accepts c v \<longleftrightarrow> value_fits (col_type c) v"
  by (simp_all add: column_accepts_def)

lemma column_accepts_required:
  "column_accepts (required n t) v \<longleftrightarrow> value_fits t v"
  "column_accepts (defaulted n t d) v \<longleftrightarrow> value_fits t v"
  by (cases t; auto simp: column_accepts_def notations)+

lemma column_accepts_nullable:
  "column_accepts (nullable n TIMESTAMPTZ) (sql_opt SqlTime x)"
  "column_accepts (nullable n (VARCHAR k)) (sql_opt SqlText s) \<longleftrightarrow> fits k s"
  "column_accepts (nullable n JSONB) (sql_opt (\<lambda>r. SqlJson (JObj r)) j)"
  by (cases x; cases s; cases j; simp add: column_accepts_def notations)+

lemma column_names_simps [simp]:
  "col_name (required n t) = n" "col_name (nullable n t) = n" "col_name (defaulted n t d) = n"
  by (simp_all add: notations)

lemma sql_opt_eq_null [simp]:
  "sql_opt SqlTime x = SqlNull \<longleftrightarrow> x = None" "sql_opt SqlText s = SqlNull \<longleftrightarrow> s = None"
  "sql_opt (\<lambda>r. SqlJson (JObj r)) j = SqlNull \<longleftrightarrow> j = None"
  by (simp_all add: sql_opt_null)

text \<open>The conditions on one column, by the value of the column.\<close>

lemma passes_column:
  "column_value row c = SqlText s \<Longrightarrow> passes row (Compare Equal (Column c) (Literal (SqlText v))) \<longleftrightarrow> s = v"
  "column_value row c = SqlText s \<Longrightarrow> passes row (Compare Unequal (Column c) (Literal (SqlText v))) \<longleftrightarrow> s \<noteq> v"
  "column_value row c = SqlText s \<Longrightarrow> passes row (InList (Column c) vs) \<longleftrightarrow> s \<in> set vs"
  "column_value row c = SqlText s \<Longrightarrow> passes row (Matches (Column c) p) \<longleftrightarrow> matches p s"
  "column_value row c = SqlInt i \<Longrightarrow> passes row (Compare k (Column c) (Literal (SqlInt j))) \<longleftrightarrow> compare_ints k i j"
  "column_value row c = SqlInt i \<Longrightarrow> column_value row d = SqlInt j \<Longrightarrow>
     passes row (Compare k (Column c) (Column d)) \<longleftrightarrow> compare_ints k i j"
  "column_value row c = SqlTime x \<Longrightarrow> column_value row d = SqlTime y \<Longrightarrow>
     passes row (Compare k (Column c) (Column d)) \<longleftrightarrow> compare_ints k x y"
  "column_value row c = SqlText s \<Longrightarrow>
     passes row (Compare k (CharLength (Column c)) (Literal (SqlInt j))) \<longleftrightarrow> compare_ints k (int (length s)) j"
  by (simp_all add: passes_def)

lemma passes_json:
  "column_value row c = SqlJson (JObj j) \<Longrightarrow> passes row (is_json_object c)"
  "column_value row c = sql_opt (\<lambda>r. SqlJson (JObj r)) x \<Longrightarrow> passes row (CoalesceFalse (is_json_object c)) \<longleftrightarrow> x \<noteq> None"
  by (cases x; simp add: passes_def is_json_object_def)+

lemma passes_hex_opt:
  "column_value row c = sql_opt SqlText s \<Longrightarrow> passes row (is_hex64 c) \<longleftrightarrow> optionally hex64 s"
  by (cases s) (simp_all add: passes_def is_hex64_def)

lemma optionally_None_or: "x = None \<or> optionally P x \<longleftrightarrow> optionally P x"
  by (cases x) simp_all

lemma passes_text:
  "column_value row c = SqlText s \<Longrightarrow> passes row (text_is c v) \<longleftrightarrow> s = v"
  "column_value row c = SqlText s \<Longrightarrow> passes row (text_is_not c v) \<longleftrightarrow> s \<noteq> v"
  "column_value row c = SqlText s \<Longrightarrow> passes row (is_hex64 c) \<longleftrightarrow> hex64 s"
  "column_value row c = SqlInt i \<Longrightarrow> passes row (int_is k c j) \<longleftrightarrow> compare_ints k i j"
  "passes row (absent c) \<longleftrightarrow> column_value row c = SqlNull"
  "passes row (filled c) \<longleftrightarrow> column_value row c \<noteq> SqlNull"
  by (simp_all add: notations passes_column passes_simps)

lemmas condition_simps = passes_simps(3) passes_or passes_column passes_json passes_hex_opt passes_text

lemma hex64_length: "hex64 s \<Longrightarrow> length s = 64"
  by (simp add: hex64_def)

lemma fits_hex64: "optionally hex64 s \<Longrightarrow> 64 \<le> n \<Longrightarrow> fits n s"
  by (cases s) (auto simp: hex64_def)

section \<open>Rows\<close>

lemma task_row_columns:
  "map fst (task_row t) = map col_name (task_columns @ worker_columns)"
  "list_all (\<lambda>c. column_accepts c (column_value (task_row t) (col_name c))) (task_columns @ worker_columns) \<longleftrightarrow>
     length (t_idempotency_key t) \<le> 255 \<and> length (t_request_fingerprint t) \<le> 64 \<and> length (t_task_type t) \<le> 100 \<and>
     int4 (int (t_attempt_count t)) \<and> int4 (int (t_max_attempts t)) \<and>
     fits 255 (t_worker_id t) \<and> fits 64 (t_lease_token_hash t) \<and> fits 100 (t_last_error_code t) \<and>
     fits 500 (t_last_error_summary t)"
  by (simp add: task_row_def task_columns_def worker_columns_def)
    (cases "t_status t"; simp add: task_row_def task_columns_def worker_columns_def column_accepts_required column_accepts_nullable)

lemma task_status_texts:
  "task_status_value s = ''pending_approval'' \<longleftrightarrow> s = PENDING_APPROVAL" "task_status_value s = ''approved'' \<longleftrightarrow> s = APPROVED"
  "task_status_value s = ''running'' \<longleftrightarrow> s = RUNNING" "task_status_value s = ''succeeded'' \<longleftrightarrow> s = SUCCEEDED"
  "task_status_value s = ''failed'' \<longleftrightarrow> s = FAILED" "task_status_value s = ''cancelled'' \<longleftrightarrow> s = CANCELLED"
  by (cases s; simp)+

lemma task_statuses:
  "s = PENDING_APPROVAL \<or> s = APPROVED \<or> s = RUNNING \<or> s = SUCCEEDED \<or> s = FAILED \<or> s = CANCELLED"
  by (cases s) simp_all

lemma task_row_checks:
  "list_all (check_accepts (task_row t)) (task_constraints @ worker_constraints) \<longleftrightarrow>
     length (t_idempotency_key t) \<in> {1..255} \<and> hex64 (t_request_fingerprint t) \<and> is_task_type (t_task_type t) \<and>
     t_max_attempts t \<ge> 1 \<and> t_attempt_count t \<le> t_max_attempts t \<and>
     (t_status t \<noteq> APPROVED \<or> t_available_at t \<noteq> None) \<and>
     (t_status t = RUNNING \<and> t_worker_id t \<noteq> None \<and> t_lease_token_hash t \<noteq> None \<and>
        t_lease_expires_at t \<noteq> None \<and> t_last_heartbeat_at t \<noteq> None \<and> t_attempt_count t > 0 \<or>
      t_status t \<noteq> RUNNING \<and> t_worker_id t = None \<and> t_lease_token_hash t = None \<and>
        t_lease_expires_at t = None \<and> t_last_heartbeat_at t = None) \<and>
     (t_status t = SUCCEEDED \<and> t_result t \<noteq> None \<or> t_status t \<noteq> SUCCEEDED \<and> t_result t = None) \<and>
     (t_cancellation_requested_at t = None \<or> t_status t = RUNNING \<or> t_status t = CANCELLED) \<and>
     optionally hex64 (t_lease_token_hash t)"
  unfolding task_row_def task_constraints_def worker_constraints_def worker_checks_def
  by (simp add: condition_simps task_status_texts task_statuses optionally_None_or Suc_le_eq conj_assoc del: optionally_iff)

lemma attempt_row_columns:
  "map fst (attempt_row a) = map col_name attempt_columns"
  "list_all (\<lambda>c. column_accepts c (column_value (attempt_row a) (col_name c))) attempt_columns \<longleftrightarrow>
     int4 (int (a_attempt_number a)) \<and> length (a_worker_id a) \<le> 255 \<and> length (a_lease_token_hash a) \<le> 64 \<and>
     fits 100 (a_error_code a) \<and> fits 500 (a_error_summary a) \<and> fits 100 (a_terminal_reason a)"
  by (simp add: attempt_row_def attempt_columns_def)
    (cases "a_status a"; simp add: attempt_row_def attempt_columns_def column_accepts_required column_accepts_nullable)

lemma attempt_row_checks:
  "list_all (check_accepts (attempt_row a)) attempt_constraints \<longleftrightarrow>
     a_attempt_number a > 0 \<and> hex64 (a_lease_token_hash a) \<and> (a_status a = ATTEMPT_RUNNING \<longleftrightarrow> a_finished_at a = None)"
  unfolding attempt_row_def attempt_constraints_def by (cases "a_status a") (auto simp: condition_simps)

lemma artifact_row_columns:
  "map fst (sql_artifact_row s) = map col_name artifact_columns"
  "list_all (\<lambda>c. column_accepts c (column_value (sql_artifact_row s) (col_name c))) artifact_columns \<longleftrightarrow>
     length (s_provider s) \<le> 50 \<and> length (s_resource_type s) \<le> 100 \<and> length (s_provider_resource_identifier s) \<le> 500 \<and>
     length (s_canonical_source_url s) \<le> 2000 \<and> length (s_source_version s) \<le> 500 \<and> int4 (int (s_schema_version s)) \<and>
     length (s_data_classification s) \<le> 30 \<and> length (s_content_hash s) \<le> 64 \<and> int4 (int (s_payload_size_bytes s))"
  by (simp_all add: sql_artifact_row_def artifact_columns_def column_accepts_required)

lemma artifact_row_checks:
  "list_all (check_accepts (sql_artifact_row s)) artifact_constraints \<longleftrightarrow>
     s_provider s \<in> {''service_catalog'', ''jira'', ''github''} \<and> hex64 (s_content_hash s) \<and> s_payload_size_bytes s > 0 \<and>
     s_retention_until s > s_fetched_at s \<and>
     s_data_classification s \<in> {''public'', ''internal'', ''confidential'', ''restricted''}"
  unfolding sql_artifact_row_def artifact_constraints_def by (simp add: condition_simps)

lemma action_row_columns:
  "map fst (action_row x) = map col_name action_columns"
  "list_all (\<lambda>c. column_accepts c (column_value (action_row x) (col_name c))) action_columns \<longleftrightarrow>
     length (x_provider x) \<le> 50 \<and> length (x_operation x) \<le> 100 \<and> length (x_action_scope_key x) \<le> 1000 \<and>
     length (x_desired_request_fingerprint x) \<le> 64 \<and> fits 64 (x_applied_request_fingerprint x) \<and>
     length (x_decision_snapshot_hash x) \<le> 64 \<and> int4 (int (x_revision x)) \<and> length (x_status x) \<le> 50 \<and>
     fits 500 (x_provider_resource_identifier x) \<and> fits 2000 (x_provider_url x) \<and> fits 64 (x_response_fingerprint x) \<and>
     int4 (int (x_action_attempt_count x)) \<and> fits 100 (x_last_error_code x) \<and> fits 500 (x_last_error_summary x)"
  by (simp_all add: action_row_def action_columns_def column_accepts_required column_accepts_nullable)

definition action_statuses :: "string list" where
  "action_statuses = [''reserved'', ''reconciling'', ''ready_to_execute'', ''executing'', ''retryable_failure'',
     ''outcome_unknown'', ''succeeded'', ''permanent_failure'', ''needs_human_review'']"

lemma action_statuses_iff: "v \<in> set action_statuses \<longleftrightarrow> action_status_of v \<noteq> None"
proof
  assume "v \<in> set action_statuses"
  moreover have "list_all (\<lambda>v. action_status_of v \<noteq> None) action_statuses" by code_simp
  ultimately show "action_status_of v \<noteq> None" by (simp add: list_all_iff)
next
  assume "action_status_of v \<noteq> None"
  then obtain s where "v = action_status_value s" by (auto simp: action_status_values)
  then show "v \<in> set action_statuses" by (cases s) (simp_all add: action_statuses_def)
qed

lemma action_row_checks:
  "list_all (check_accepts (action_row x)) action_constraints \<longleftrightarrow>
     action_status_of (x_status x) \<noteq> None \<and> hex64 (x_desired_request_fingerprint x) \<and>
     optionally hex64 (x_applied_request_fingerprint x) \<and> hex64 (x_decision_snapshot_hash x) \<and>
     x_revision x \<ge> 1 \<and> x_action_attempt_count x \<ge> 1 \<and>
     (x_status x = ''succeeded'' \<and> x_provider_resource_identifier x \<noteq> None \<and>
        x_applied_request_fingerprint x \<noteq> None \<and> x_completed_at x \<noteq> None \<or>
      x_status x \<noteq> ''succeeded'' \<and> x_completed_at x = None) \<and>
     (x_status x \<noteq> ''outcome_unknown'' \<or> x_write_started_at x \<noteq> None)"
  unfolding action_row_def action_constraints_def action_statuses_iff [symmetric] action_statuses_def
  by (simp add: condition_simps optionally_None_or Suc_le_eq del: optionally_iff)

lemma action_attempt_row_columns:
  "map fst (action_attempt_row e) = map col_name action_attempt_columns"
  "list_all (\<lambda>c. column_accepts c (column_value (action_attempt_row e) (col_name c))) action_attempt_columns \<longleftrightarrow>
     int4 (int (e_sequence_number e)) \<and> length (e_transition e) \<le> 100 \<and> fits 50 (e_previous_status e) \<and>
     length (e_new_status e) \<le> 50 \<and> int4 (int (e_revision e)) \<and> fits 100 (e_error_code e)"
  by (simp_all add: action_attempt_row_def action_attempt_columns_def column_accepts_required column_accepts_nullable)

lemma action_attempt_row_checks:
  "list_all (check_accepts (action_attempt_row e)) action_attempt_constraints \<longleftrightarrow> e_sequence_number e \<ge> 1"
  unfolding action_attempt_row_def action_attempt_constraints_def by (auto simp: condition_simps)

section \<open>Tables\<close>

lemma row_conforms_table:
  "row_conforms (t\<lparr>tab_rows := rows\<rparr>) row \<longleftrightarrow> row_conforms t row"
  "row_conforms (sql_table_of name columns constraints indexes) row \<longleftrightarrow>
     map fst row = map col_name columns \<and>
     list_all (\<lambda>c. column_accepts c (column_value row (col_name c))) columns \<and> list_all (check_accepts row) constraints"
  by (simp_all add: row_conforms_def sql_table_of_def)

lemma task_row_conforms:
  "row_conforms (sql_table_of ''tasks'' (task_columns @ worker_columns) (task_constraints @ worker_constraints) ix) (task_row t) \<longleftrightarrow>
     task_checks t \<and> int4 (int (t_attempt_count t)) \<and> int4 (int (t_max_attempts t))"
  unfolding row_conforms_table task_row_columns task_row_checks task_checks_def
  using hex64_length [of "t_request_fingerprint t"] fits_hex64 [of "t_lease_token_hash t" 64]
  by (auto simp: is_task_type_def simp del: optionally_iff split: list.splits)

lemma attempt_row_conforms:
  "row_conforms (sql_table_of ''task_attempts'' attempt_columns attempt_constraints ix) (attempt_row a) \<longleftrightarrow>
     attempt_checks a \<and> int4 (int (a_attempt_number a))"
  unfolding row_conforms_table attempt_row_columns attempt_row_checks attempt_checks_def
  using hex64_length [of "a_lease_token_hash a"] by auto

lemma artifact_row_conforms:
  "row_conforms (sql_table_of ''source_artifacts'' artifact_columns artifact_constraints ix) (sql_artifact_row s) \<longleftrightarrow>
     artifact_checks s \<and> int4 (int (s_schema_version s)) \<and> int4 (int (s_payload_size_bytes s))"
  unfolding row_conforms_table artifact_row_columns artifact_row_checks artifact_checks_def is_classification_def
  using hex64_length [of "s_content_hash s"] by auto

lemma action_row_conforms:
  "row_conforms (sql_table_of ''external_actions'' action_columns action_constraints ix) (action_row x) \<longleftrightarrow>
     action_checks x \<and> int4 (int (x_revision x)) \<and> int4 (int (x_action_attempt_count x))"
proof -
  have "length v \<le> 50" if status: "action_status_of v \<noteq> None" for v
  proof -
    have "list_all (\<lambda>v. length v \<le> 50) action_statuses" by (simp add: action_statuses_def)
    then show ?thesis using status by (metis action_statuses_iff list_all_iff)
  qed
  then show ?thesis
    unfolding row_conforms_table action_row_columns action_row_checks action_checks_def
    using hex64_length [of "x_desired_request_fingerprint x"] hex64_length [of "x_decision_snapshot_hash x"]
      fits_hex64 [of "x_applied_request_fingerprint x" 64]
    by (auto simp del: optionally_iff)
qed

lemma action_attempt_row_conforms:
  "row_conforms (sql_table_of ''external_action_attempts'' action_attempt_columns action_attempt_constraints ix) (action_attempt_row e) \<longleftrightarrow>
     action_attempt_checks e \<and> int4 (int (e_sequence_number e)) \<and> int4 (int (e_revision e))"
  unfolding row_conforms_table action_attempt_row_columns action_attempt_row_checks action_attempt_checks_def by auto

text \<open>Keys of rows that come from records.\<close>

lemma distinct_keys_map:
  assumes "\<And>x. row_key cs (row x) = g (key x)" and "inj g" and "\<And>k. SqlNull \<notin> set (g k)"
  shows "distinct_keys cs (map row xs) \<longleftrightarrow> distinct (map key xs)"
proof -
  have keys: "map (row_key cs) (map row xs) = map g (map key xs)" using assms(1) by simp
  have "filter (\<lambda>k. SqlNull \<notin> set k) (map g (map key xs)) = map g (map key xs)"
    using assms(3) by (simp add: filter_id_conv)
  then show ?thesis
    unfolding distinct_keys_def keys by (simp add: distinct_map inj_on_def inj_eq [OF assms(2)])
qed

lemma uuid_keys:
  assumes "\<And>x. column_value (row x) c = SqlUuid (key x)"
  shows "distinct_keys [c] (map row xs) \<longleftrightarrow> distinct (map key xs)"
  by (rule distinct_keys_map [where g = "\<lambda>k. [SqlUuid k]"]) (auto simp: row_key_def assms inj_def)

lemma rows_of_table_single:
  assumes "distinct (map tab_name c)" and "t \<in> set c"
  shows "rows_of_table c (tab_name t) = tab_rows t"
proof -
  have "filter (\<lambda>u. tab_name u = tab_name t) c = [t]"
    using assms by (induction c) (auto simp: filter_empty_conv image_iff)
  then show ?thesis by (simp add: rows_of_table_def)
qed

lemma foreign_key_map:
  assumes "\<And>x. column_value (row x) col = SqlUuid (f x)"
    and "rows_of_table c ref = map row' ys" and "\<And>y. column_value (row' y) refcol = SqlUuid (g y)"
  shows "keys_hold c (map row xs) (ForeignKey name col ref refcol rule) \<longleftrightarrow> list_all (\<lambda>x. f x \<in> g ` set ys) xs"
  using assms by (auto simp: list_all_iff)

section \<open>The catalog\<close>

lemma schema_rows:
  "rows_of_table (holding d schema) ''tasks'' = map task_row (tasks d)"
  "rows_of_table (holding d schema) ''task_attempts'' = map attempt_row (task_attempts d)"
  "rows_of_table (holding d schema) ''external_actions'' = map action_row (external_actions d)"
  by (simp_all add: rows_of_table_def holding_def schema_def sql_table_of_def table_rows_def)

lemma row_ids:
  "column_value (task_row t) ''id'' = SqlUuid (t_id t)"
  "column_value (attempt_row a) ''id'' = SqlUuid (a_id a)" "column_value (attempt_row a) ''task_id'' = SqlUuid (a_task_id a)"
  "column_value (sql_artifact_row s) ''id'' = SqlUuid (s_id s)"
  "column_value (sql_artifact_row s) ''task_id'' = SqlUuid (s_task_id s)"
  "column_value (sql_artifact_row s) ''observed_by_attempt_id'' = SqlUuid (s_observed_by_attempt_id s)"
  "column_value (action_row x) ''id'' = SqlUuid (x_id x)" "column_value (action_row x) ''task_id'' = SqlUuid (x_task_id x)"
  "column_value (action_row x) ''current_attempt_id'' = SqlUuid (x_current_attempt_id x)"
  "column_value (action_attempt_row e) ''id'' = SqlUuid (e_id e)"
  "column_value (action_attempt_row e) ''external_action_id'' = SqlUuid (e_external_action_id e)"
  "column_value (action_attempt_row e) ''task_id'' = SqlUuid (e_task_id e)"
  "column_value (action_attempt_row e) ''task_attempt_id'' = SqlUuid (e_task_attempt_id e)"
  by (simp_all add: task_row_def attempt_row_def sql_artifact_row_def action_row_def action_attempt_row_def)

lemma row_keys:
  "distinct_keys [''idempotency_key''] (map task_row ts) \<longleftrightarrow> distinct (map t_idempotency_key ts)"
  "distinct_keys [''task_id'', ''attempt_number''] (map attempt_row as) \<longleftrightarrow> distinct (map (\<lambda>a. (a_task_id a, a_attempt_number a)) as)"
  "distinct_keys [''task_id'', ''provider'', ''resource_type'', ''provider_resource_identifier'', ''source_version'', ''content_hash'']
     (map sql_artifact_row ss) \<longleftrightarrow> distinct (map artifact_key ss)"
  "distinct_keys [''action_scope_key''] (map action_row xs) \<longleftrightarrow> distinct (map x_action_scope_key xs)"
  "distinct_keys [''external_action_id'', ''sequence_number''] (map action_attempt_row es) \<longleftrightarrow>
     distinct (map (\<lambda>e. (e_external_action_id e, e_sequence_number e)) es)"
proof -
  show "distinct_keys [''idempotency_key''] (map task_row ts) \<longleftrightarrow> distinct (map t_idempotency_key ts)"
    by (rule distinct_keys_map [where g = "\<lambda>k. [SqlText k]"]) (auto simp: row_key_def task_row_def inj_def)
  show "distinct_keys [''task_id'', ''attempt_number''] (map attempt_row as) \<longleftrightarrow> distinct (map (\<lambda>a. (a_task_id a, a_attempt_number a)) as)"
    by (rule distinct_keys_map [where g = "\<lambda>(i, n). [SqlUuid i, SqlInt (int n)]"]) (auto simp: row_key_def attempt_row_def inj_def)
  show "distinct_keys [''task_id'', ''provider'', ''resource_type'', ''provider_resource_identifier'', ''source_version'', ''content_hash'']
     (map sql_artifact_row ss) \<longleftrightarrow> distinct (map artifact_key ss)"
    by (rule distinct_keys_map [where g = "\<lambda>(i, p, r, q, v, h). [SqlUuid i, SqlText p, SqlText r, SqlText q, SqlText v, SqlText h]"])
      (auto simp: row_key_def sql_artifact_row_def artifact_key_def inj_def)
  show "distinct_keys [''action_scope_key''] (map action_row xs) \<longleftrightarrow> distinct (map x_action_scope_key xs)"
    by (rule distinct_keys_map [where g = "\<lambda>k. [SqlText k]"]) (auto simp: row_key_def action_row_def inj_def)
  show "distinct_keys [''external_action_id'', ''sequence_number''] (map action_attempt_row es) \<longleftrightarrow>
     distinct (map (\<lambda>e. (e_external_action_id e, e_sequence_number e)) es)"
    by (rule distinct_keys_map [where g = "\<lambda>(i, n). [SqlUuid i, SqlInt (int n)]"]) (auto simp: row_key_def action_attempt_row_def inj_def)
qed

lemma schema_keys:
  "list_all (keys_hold c (map task_row ts)) (task_constraints @ worker_constraints) \<longleftrightarrow>
     distinct (map t_id ts) \<and> distinct (map t_idempotency_key ts)"
  "list_all (keys_hold (holding d schema) (map attempt_row as)) attempt_constraints \<longleftrightarrow>
     list_all (\<lambda>a. a_task_id a \<in> t_id ` set (tasks d)) as \<and> distinct (map a_id as) \<and>
     distinct (map (\<lambda>a. (a_task_id a, a_attempt_number a)) as)"
  "list_all (keys_hold (holding d schema) (map sql_artifact_row ss)) artifact_constraints \<longleftrightarrow>
     list_all (\<lambda>s. s_task_id s \<in> t_id ` set (tasks d)) ss \<and>
     list_all (\<lambda>s. s_observed_by_attempt_id s \<in> a_id ` set (task_attempts d)) ss \<and> distinct (map s_id ss) \<and>
     distinct (map artifact_key ss)"
  "list_all (keys_hold (holding d schema) (map action_row xs)) action_constraints \<longleftrightarrow>
     list_all (\<lambda>x. x_task_id x \<in> t_id ` set (tasks d)) xs \<and>
     list_all (\<lambda>x. x_current_attempt_id x \<in> a_id ` set (task_attempts d)) xs \<and> distinct (map x_id xs) \<and>
     distinct (map x_action_scope_key xs)"
  "list_all (keys_hold (holding d schema) (map action_attempt_row es)) action_attempt_constraints \<longleftrightarrow>
     list_all (\<lambda>e. e_external_action_id e \<in> x_id ` set (external_actions d)) es \<and>
     list_all (\<lambda>e. e_task_id e \<in> t_id ` set (tasks d)) es \<and>
     list_all (\<lambda>e. e_task_attempt_id e \<in> a_id ` set (task_attempts d)) es \<and> distinct (map e_id es) \<and>
     distinct (map (\<lambda>e. (e_external_action_id e, e_sequence_number e)) es)"
proof -
  show "list_all (keys_hold c (map task_row ts)) (task_constraints @ worker_constraints) \<longleftrightarrow>
     distinct (map t_id ts) \<and> distinct (map t_idempotency_key ts)"
    by (simp add: task_constraints_def worker_constraints_def worker_checks_def row_keys uuid_keys [OF row_ids(1)])
  show "list_all (keys_hold (holding d schema) (map attempt_row as)) attempt_constraints \<longleftrightarrow>
     list_all (\<lambda>a. a_task_id a \<in> t_id ` set (tasks d)) as \<and> distinct (map a_id as) \<and>
     distinct (map (\<lambda>a. (a_task_id a, a_attempt_number a)) as)"
    by (simp add: attempt_constraints_def row_keys uuid_keys [OF row_ids(2)]
        foreign_key_map [OF row_ids(3) schema_rows(1) row_ids(1)] del: keys_hold.simps(3))
  show "list_all (keys_hold (holding d schema) (map sql_artifact_row ss)) artifact_constraints \<longleftrightarrow>
     list_all (\<lambda>s. s_task_id s \<in> t_id ` set (tasks d)) ss \<and>
     list_all (\<lambda>s. s_observed_by_attempt_id s \<in> a_id ` set (task_attempts d)) ss \<and> distinct (map s_id ss) \<and>
     distinct (map artifact_key ss)"
    by (simp add: artifact_constraints_def row_keys uuid_keys [OF row_ids(4)]
        foreign_key_map [OF row_ids(5) schema_rows(1) row_ids(1)] foreign_key_map [OF row_ids(6) schema_rows(2) row_ids(2)]
        del: keys_hold.simps(3))
  show "list_all (keys_hold (holding d schema) (map action_row xs)) action_constraints \<longleftrightarrow>
     list_all (\<lambda>x. x_task_id x \<in> t_id ` set (tasks d)) xs \<and>
     list_all (\<lambda>x. x_current_attempt_id x \<in> a_id ` set (task_attempts d)) xs \<and> distinct (map x_id xs) \<and>
     distinct (map x_action_scope_key xs)"
    by (simp add: action_constraints_def row_keys uuid_keys [OF row_ids(7)]
        foreign_key_map [OF row_ids(8) schema_rows(1) row_ids(1)] foreign_key_map [OF row_ids(9) schema_rows(2) row_ids(2)]
        del: keys_hold.simps(3))
  show "list_all (keys_hold (holding d schema) (map action_attempt_row es)) action_attempt_constraints \<longleftrightarrow>
     list_all (\<lambda>e. e_external_action_id e \<in> x_id ` set (external_actions d)) es \<and>
     list_all (\<lambda>e. e_task_id e \<in> t_id ` set (tasks d)) es \<and>
     list_all (\<lambda>e. e_task_attempt_id e \<in> a_id ` set (task_attempts d)) es \<and> distinct (map e_id es) \<and>
     distinct (map (\<lambda>e. (e_external_action_id e, e_sequence_number e)) es)"
    by (simp add: action_attempt_constraints_def row_keys uuid_keys [OF row_ids(10)]
        foreign_key_map [OF row_ids(11) schema_rows(3) row_ids(7)] foreign_key_map [OF row_ids(12) schema_rows(1) row_ids(1)]
        foreign_key_map [OF row_ids(13) schema_rows(2) row_ids(2)] del: keys_hold.simps(3))
qed

lemma catalog_of_model:
  "catalog_conforms (holding d schema) \<longleftrightarrow>
     list_all (\<lambda>t. task_checks t \<and> int4 (int (t_attempt_count t)) \<and> int4 (int (t_max_attempts t))) (tasks d) \<and>
     list_all (keys_hold (holding d schema) (map task_row (tasks d))) (task_constraints @ worker_constraints) \<and>
     list_all (\<lambda>a. attempt_checks a \<and> int4 (int (a_attempt_number a))) (task_attempts d) \<and>
     list_all (keys_hold (holding d schema) (map attempt_row (task_attempts d))) attempt_constraints \<and>
     list_all (\<lambda>s. artifact_checks s \<and> int4 (int (s_schema_version s)) \<and> int4 (int (s_payload_size_bytes s))) (source_artifacts d) \<and>
     list_all (keys_hold (holding d schema) (map sql_artifact_row (source_artifacts d))) artifact_constraints \<and>
     list_all (\<lambda>x. action_checks x \<and> int4 (int (x_revision x)) \<and> int4 (int (x_action_attempt_count x))) (external_actions d) \<and>
     list_all (keys_hold (holding d schema) (map action_row (external_actions d))) action_constraints \<and>
     list_all (\<lambda>e. action_attempt_checks e \<and> int4 (int (e_sequence_number e)) \<and> int4 (int (e_revision e)))
       (external_action_attempts d) \<and>
     list_all (keys_hold (holding d schema) (map action_attempt_row (external_action_attempts d))) action_attempt_constraints"
proof -
  have tables: "catalog_conforms (holding d schema) \<longleftrightarrow>
      list_all (\<lambda>t. list_all (row_conforms t) (table_rows d (tab_name t)) \<and>
        list_all (keys_hold (holding d schema) (table_rows d (tab_name t))) (tab_constraints t)) schema"
    unfolding catalog_conforms_def table_conforms_def
    by (subst (1) holding_def) (simp add: list_all_iff row_conforms_table)
  show ?thesis
    unfolding tables
    by (simp add: schema_def list.pred_map comp_def sql_table_of_def [THEN arg_cong, of tab_name]
        sql_table_of_def [THEN arg_cong, of tab_constraints] table_rows_def task_row_conforms attempt_row_conforms
        artifact_row_conforms action_row_conforms action_attempt_row_conforms conj_assoc)
qed

section \<open>Property\<close>

text \<open>
  C7. The migrations build the schema of the model. Run from an empty database the four revisions
  succeed, whatever the clock, and build five tables; and a database holds rows that satisfy
  PostgreSQL's constraints there (columns and their types and lengths, not-null, checks with their
  three-valued logic, primary, unique and foreign keys) if and only if the rows satisfy the
  invariant \<open>tables_ok\<close> of the declared models, which every operation of the program keeps,
  and the counters fit 32 bits.
\<close>

theorem schema_is_the_model:
  "apply_ops now (upgrade_all clock) [] = Inr schema \<and>
   (catalog_conforms (holding d schema) \<longleftrightarrow> tables_ok d \<and> integers_fit d)"
proof
  show "apply_ops now (upgrade_all clock) [] = Inr schema" by (rule upgrade_builds_schema)
  show "catalog_conforms (holding d schema) \<longleftrightarrow> tables_ok d \<and> integers_fit d"
    unfolding catalog_of_model schema_keys
    unfolding tables_ok_def task_tables_ok_def action_tables_ok_def integers_fit_def list_all_iff
    unfolding ball_conj_distrib by argo
qed

end
