(* ===== verification/Live_Migration.thy ===== *)
theory Live_Migration
  imports Schema System_Safety
begin

text \<open>
  The upgrade of a database in use: the third and the fourth revision run on a table of tasks as the
  second left it, and the way back.
\<close>

section \<open>Operations on one table\<close>

lemma on_single_table:
  "f t = Inr t' \<Longrightarrow> tab_name t = name \<Longrightarrow> tab_name t' = name \<Longrightarrow> on_table [t] name f = Inr [t']"
  "f t = Inl e \<Longrightarrow> tab_name t = name \<Longrightarrow> on_table [t] name f = Inl e"
  by (auto simp: on_table_def find_table_def put_table_def)

lemma has_columns_iff: "has_columns t cs = Inr () \<longleftrightarrow> set cs \<subseteq> set (column_names t)"
  by (auto simp: has_columns_def find_None_iff split: option.splits dest: find_in_set)

lemma updates_rows:
  assumes "tab_name t = name" and "set (cond_columns cond @ map fst sets) \<subseteq> set (column_names t)"
    and "\<And>x. x \<in> set xs \<Longrightarrow> row_conforms t (g x)"
    and "\<And>x. x \<in> set xs \<Longrightarrow> (if eval_cond (f x) cond = Some True then assign sets (f x) else f x) = g x"
  shows "apply_op now (UpdateRows name sets cond) [t\<lparr>tab_rows := map f xs\<rparr>] = Inr [t\<lparr>tab_rows := map g xs\<rparr>]"
proof -
  have rows: "map (\<lambda>r. if eval_cond r cond = Some True then assign sets r else r) (map f xs) = map g xs"
    using assms(4) by simp
  have "has_columns (t\<lparr>tab_rows := map f xs\<rparr>) (cond_columns cond @ map fst sets) = Inr ()"
    unfolding has_columns_iff using assms(2) by (simp add: column_names_def)
  moreover have "list_all (row_conforms (t\<lparr>tab_rows := map f xs\<rparr>)) (map g xs)"
    using assms(3) by (simp add: list_all_iff row_conforms_table)
  ultimately have "update_rows sets cond (t\<lparr>tab_rows := map f xs\<rparr>) = Inr (t\<lparr>tab_rows := map g xs\<rparr>)"
    by (simp add: update_rows_def rows del: map_map)
  then show ?thesis unfolding apply_op.simps by (rule on_single_table(1)) (simp_all add: assms(1))
qed

lemma add_columns:
  assumes "tab_name t = name" and "distinct (column_names t @ map col_name cs)"
    and "list_all (\<lambda>c. column_accepts c (default_value now (col_default c))) cs"
  shows "apply_ops now (map (AddColumn name) cs) [t] =
    Inr [t\<lparr>tab_columns := tab_columns t @ cs,
           tab_rows := map (\<lambda>r. r @ map (\<lambda>c. (col_name c, default_value now (col_default c))) cs) (tab_rows t)\<rparr>]"
  using assms
proof (induction cs arbitrary: t)
  case (Cons c cs)
  let ?t = "t\<lparr>tab_columns := tab_columns t @ [c],
    tab_rows := map (\<lambda>r. r @ [(col_name c, default_value now (col_default c))]) (tab_rows t)\<rparr>"
  have step: "add_column now c t = Inr ?t" using Cons.prems by (simp add: add_column_def)
  have "apply_op now (AddColumn name c) [t] = Inr [?t]"
    unfolding apply_op.simps by (rule on_single_table(1)) (use step Cons.prems(1) in simp_all)
  moreover have "distinct (column_names ?t @ map col_name cs)" using Cons.prems(2) by (simp add: column_names_def)
  ultimately show ?case using Cons.IH [of ?t] Cons.prems by (simp add: comp_def)
qed simp

lemma create_checks:
  assumes "tab_name t = name" and "distinct (map constraint_name (tab_constraints t) @ map fst cs)"
    and "list_all (\<lambda>(n, c). set (cond_columns c) \<subseteq> set (column_names t) \<and> list_all (\<lambda>r. passes r c) (tab_rows t)) cs"
  shows "apply_ops now (map (\<lambda>(n, c). CreateCheck n name c) cs) [t] =
    Inr [t\<lparr>tab_constraints := tab_constraints t @ map (\<lambda>(n, c). Check n c) cs\<rparr>]"
  using assms
proof (induction cs arbitrary: t)
  case (Cons k cs)
  obtain n c where k: "k = (n, c)" by (cases k)
  let ?t = "t\<lparr>tab_constraints := tab_constraints t @ [Check n c]\<rparr>"
  have step: "create_check n c t = Inr ?t"
    using Cons.prems has_columns_iff [of t "cond_columns c"] by (auto simp: create_check_def k image_iff)
  have "apply_op now (CreateCheck n name c) [t] = Inr [?t]"
    unfolding apply_op.simps by (rule on_single_table(1)) (use step Cons.prems(1) in simp_all)
  moreover have "distinct (map constraint_name (tab_constraints ?t) @ map fst cs)" using Cons.prems(2) by (simp add: k)
  ultimately show ?case using Cons.IH [of ?t] Cons.prems by (simp add: k column_names_def)
qed simp

section \<open>The live database\<close>

text \<open>A row of the second milestone has the first eight columns of a task.\<close>

definition old_row :: "task \<Rightarrow> sql_row" where
  "old_row t = take 8 (task_row t)"

definition old_tasks :: "task list \<Rightarrow> sql_table" where
  "old_tasks ts = (sql_table_of ''tasks'' task_columns task_constraints [])\<lparr>tab_rows := map old_row ts\<rparr>"

text \<open>A task with the defaults of the new columns, and what the upgrade makes of it.\<close>

definition unworked :: "task \<Rightarrow> task" where
  "unworked t = t\<lparr>t_attempt_count := 0, t_max_attempts := 3, t_available_at := None, t_worker_id := None,
     t_lease_token_hash := None, t_lease_expires_at := None, t_last_heartbeat_at := None, t_cancellation_requested_at := None,
     t_result := None, t_last_error_code := None, t_last_error_summary := None\<rparr>"

definition requeued :: "time \<Rightarrow> task \<Rightarrow> task" where
  "requeued clock t =
     (if t_status t = RUNNING then t\<lparr>t_status := APPROVED, t_available_at := Some clock, t_updated_at := clock\<rparr>
      else if t_status t = APPROVED then t\<lparr>t_available_at := Some clock\<rparr> else t)"

definition upgraded :: "time \<Rightarrow> task \<Rightarrow> task" where
  "upgraded clock t = requeued clock (unworked t)"

lemma unworked_row: "old_row t @ map (\<lambda>c. (col_name c, default_value now (col_default c))) worker_columns = task_row (unworked t)"
  by (simp add: old_row_def task_row_def unworked_def worker_columns_def notations)

lemma old_row_upgraded: "old_row (unworked t) = old_row t"
  by (simp add: old_row_def task_row_def unworked_def)

lemma adds_worker_columns:
  "apply_ops now (map (AddColumn ''tasks'') worker_columns) [old_tasks ts] =
   Inr [(sql_table_of ''tasks'' (task_columns @ worker_columns) task_constraints [])\<lparr>tab_rows := map (\<lambda>t. task_row (unworked t)) ts\<rparr>]"
proof -
  have "list_all (\<lambda>c. column_accepts c (default_value now (col_default c))) worker_columns"
    by (simp add: worker_columns_def column_accepts_def notations int4_def)
  moreover have "distinct (map col_name (task_columns @ worker_columns))"
    by (simp add: worker_columns_def task_columns_def notations)
  ultimately show ?thesis
    using add_columns [of "old_tasks ts" "''tasks''" worker_columns now] unworked_row
    by (simp add: old_tasks_def sql_table_of_def column_names_def comp_def)
qed

text \<open>The checks of the tables, one by one, on the row of a task.\<close>

definition old_checks :: "task \<Rightarrow> bool" where
  "old_checks t \<longleftrightarrow> length (t_idempotency_key t) \<in> {1..255} \<and> hex64 (t_request_fingerprint t) \<and> is_task_type (t_task_type t)"

lemma old_row_conforms:
  "row_conforms (sql_table_of ''tasks'' (task_columns @ worker_columns) task_constraints ix) (task_row t) \<longleftrightarrow>
     old_checks t \<and> int4 (int (t_attempt_count t)) \<and> int4 (int (t_max_attempts t)) \<and> fits 255 (t_worker_id t) \<and>
     fits 64 (t_lease_token_hash t) \<and> fits 100 (t_last_error_code t) \<and> fits 500 (t_last_error_summary t)"
proof -
  have "list_all (check_accepts (task_row t)) task_constraints \<longleftrightarrow> old_checks t"
    unfolding task_row_def task_constraints_def old_checks_def
    by (simp add: condition_simps task_status_texts task_statuses Suc_le_eq conj_assoc)
  then show ?thesis
    unfolding row_conforms_table task_row_columns using hex64_length [of "t_request_fingerprint t"]
    by (auto simp: old_checks_def is_task_type_def split: list.splits)
qed

lemma worker_checks_pass:
  "map (\<lambda>(n, c). passes (task_row t) c) worker_checks =
     [True, t_max_attempts t \<ge> 1, t_attempt_count t \<le> t_max_attempts t,
      t_status t = APPROVED \<longrightarrow> t_available_at t \<noteq> None,
      (t_status t = RUNNING \<and> t_worker_id t \<noteq> None \<and> t_lease_token_hash t \<noteq> None \<and>
        t_lease_expires_at t \<noteq> None \<and> t_last_heartbeat_at t \<noteq> None \<and> t_attempt_count t > 0 \<or>
      t_status t \<noteq> RUNNING \<and> t_worker_id t = None \<and> t_lease_token_hash t = None \<and>
        t_lease_expires_at t = None \<and> t_last_heartbeat_at t = None),
      (t_status t = SUCCEEDED \<longleftrightarrow> t_result t \<noteq> None),
      (t_cancellation_requested_at t = None \<or> t_status t = RUNNING \<or> t_status t = CANCELLED),
      optionally hex64 (t_lease_token_hash t)]"
  unfolding task_row_def worker_checks_def
  by (simp add: condition_simps task_status_texts optionally_None_or Suc_le_eq del: optionally_iff) auto

lemma upgraded_fields:
  "t_status (upgraded clock t) \<noteq> RUNNING" "t_attempt_count (upgraded clock t) = 0" "t_max_attempts (upgraded clock t) = 3"
  "t_status (upgraded clock t) = APPROVED \<longrightarrow> t_available_at (upgraded clock t) = Some clock"
  "t_worker_id (upgraded clock t) = None" "t_lease_token_hash (upgraded clock t) = None"
  "t_lease_expires_at (upgraded clock t) = None" "t_last_heartbeat_at (upgraded clock t) = None"
  "t_cancellation_requested_at (upgraded clock t) = None" "t_result (upgraded clock t) = None"
  "t_last_error_code (upgraded clock t) = None" "t_last_error_summary (upgraded clock t) = None"
  "t_status (upgraded clock t) = SUCCEEDED \<longleftrightarrow> t_status t = SUCCEEDED"
  "old_checks (upgraded clock t) = old_checks t"
  by (auto simp: upgraded_def requeued_def unworked_def old_checks_def)

lemma old_tasks_conform:
  assumes "catalog_conforms [old_tasks ts]" and "t \<in> set ts"
  shows "old_checks t"
proof -
  have "row_conforms (old_tasks ts) (old_row t)"
    using assms by (auto simp: catalog_conforms_def table_conforms_def list_all_iff old_tasks_def)
  then have "list_all (check_accepts (old_row t)) task_constraints"
    by (simp add: old_tasks_def row_conforms_table)
  then show ?thesis
    unfolding old_row_def task_row_def task_constraints_def old_checks_def
    by (simp add: condition_simps Suc_le_eq)
qed

lemma passes_requeue:
  "eval_cond (task_row t) (text_is ''status'' ''running'') = Some (t_status t = RUNNING)"
  "eval_cond (task_row t) (And (text_is ''status'' ''approved'') (absent ''available_at'')) =
     Some (t_status t = APPROVED \<and> t_available_at t = None)"
  by (simp_all add: text_is_def absent_def task_row_def task_status_texts and3_def)

lemma requeues:
  assumes "\<And>t. t \<in> set ts \<Longrightarrow> old_checks t"
  shows "apply_ops now (requeue_rows clock)
     [(sql_table_of ''tasks'' (task_columns @ worker_columns) task_constraints [])\<lparr>tab_rows := map (\<lambda>t. task_row (unworked t)) ts\<rparr>] =
   Inr [(sql_table_of ''tasks'' (task_columns @ worker_columns) task_constraints [])\<lparr>tab_rows := map (\<lambda>t. task_row (upgraded clock t)) ts\<rparr>]"
proof -
  define T where "T = sql_table_of ''tasks'' (task_columns @ worker_columns) task_constraints []"
  define mid where "mid t = (if t_status t = RUNNING then t\<lparr>t_status := APPROVED, t_available_at := Some clock, t_updated_at := clock\<rparr> else t)"
    for t :: task
  have conforms: "row_conforms T (task_row t)"
    if "old_checks t" "t_attempt_count t = 0" "t_max_attempts t = 3" "t_worker_id t = None" "t_lease_token_hash t = None"
      "t_last_error_code t = None" "t_last_error_summary t = None" for t
    unfolding T_def using that by (simp add: old_row_conforms int4_def)
  have columns: "{''status'', ''available_at'', ''updated_at''} \<subseteq> set (column_names T)"
    by (simp add: T_def column_names_def sql_table_of_def task_columns_def worker_columns_def)
  have name: "tab_name T = ''tasks''" by (simp add: T_def sql_table_of_def)
  have fields: "old_checks (mid (unworked t)) = old_checks t" "t_attempt_count (mid (unworked t)) = 0" "t_max_attempts (mid (unworked t)) = 3"
    "t_worker_id (mid (unworked t)) = None" "t_lease_token_hash (mid (unworked t)) = None"
    "t_last_error_code (mid (unworked t)) = None" "t_last_error_summary (mid (unworked t)) = None" for t
    by (simp_all add: mid_def unworked_def old_checks_def)
  have first: "apply_op now (UpdateRows ''tasks'' [(''status'', SqlText ''approved''), (''available_at'', SqlTime clock), (''updated_at'', SqlTime clock)]
        (text_is ''status'' ''running'')) [T\<lparr>tab_rows := map (\<lambda>t. task_row (unworked t)) ts\<rparr>] =
      Inr [T\<lparr>tab_rows := map (\<lambda>t. task_row (mid (unworked t))) ts\<rparr>]"
  proof (rule updates_rows [OF name])
    show "set (cond_columns (text_is ''status'' ''running'') @
        map fst [(''status'', SqlText ''approved''), (''available_at'', SqlTime clock), (''updated_at'', SqlTime clock)])
        \<subseteq> set (column_names T)"
      using columns by (simp add: text_is_def)
  next
    fix t assume "t \<in> set ts"
    then show "row_conforms T (task_row (mid (unworked t)))" using assms conforms by (simp add: fields)
    show "(if eval_cond (task_row (unworked t)) (text_is ''status'' ''running'') = Some True
        then assign [(''status'', SqlText ''approved''), (''available_at'', SqlTime clock), (''updated_at'', SqlTime clock)] (task_row (unworked t))
        else task_row (unworked t)) = task_row (mid (unworked t))"
      unfolding passes_requeue by (simp add: mid_def assign_def task_row_def)
  qed
  have second: "apply_op now (UpdateRows ''tasks'' [(''available_at'', SqlTime clock)]
        (And (text_is ''status'' ''approved'') (absent ''available_at''))) [T\<lparr>tab_rows := map (\<lambda>t. task_row (mid (unworked t))) ts\<rparr>] =
      Inr [T\<lparr>tab_rows := map (\<lambda>t. task_row (upgraded clock t)) ts\<rparr>]"
  proof (rule updates_rows [OF name])
    show "set (cond_columns (And (text_is ''status'' ''approved'') (absent ''available_at'')) @ map fst [(''available_at'', SqlTime clock)])
        \<subseteq> set (column_names T)"
      using columns by (simp add: text_is_def absent_def)
  next
    fix t assume "t \<in> set ts"
    then show "row_conforms T (task_row (upgraded clock t))" using assms conforms by (simp add: upgraded_fields)
    show "(if eval_cond (task_row (mid (unworked t))) (And (text_is ''status'' ''approved'') (absent ''available_at'')) = Some True
        then assign [(''available_at'', SqlTime clock)] (task_row (mid (unworked t))) else task_row (mid (unworked t))) =
        task_row (upgraded clock t)"
      unfolding passes_requeue by (auto simp: mid_def assign_def task_row_def upgraded_def requeued_def unworked_def)
  qed
  show ?thesis unfolding requeue_rows_def T_def [symmetric] using first second by simp
qed

section \<open>The whole upgrade\<close>

lemma apply_ops_Inl: "apply_ops now xs c = Inl e \<Longrightarrow> apply_ops now (xs @ ys) c = Inl e"
  by (simp add: apply_ops_append)

lemma upgraded_passes:
  assumes "k \<in> set worker_checks" and "t_status t \<noteq> SUCCEEDED \<or> fst k \<noteq> ''ck_tasks_result_state''"
  shows "passes (task_row (upgraded clock t)) (snd k)"
proof -
  have "list_all (\<lambda>(n, c). passes (task_row (upgraded clock t)) c \<or> (t_status t = SUCCEEDED \<and> n = ''ck_tasks_result_state'')) worker_checks"
    using worker_checks_pass [of "upgraded clock t"] upgraded_fields [of clock t] by (auto simp: worker_checks_def)
  then show ?thesis using assms by (cases k) (auto simp: list_all_iff)
qed

lemma creates_checks:
  assumes "set ks \<subseteq> set worker_checks" and "distinct (map fst ks)"
    and "\<And>t k. t \<in> set ts \<Longrightarrow> k \<in> set ks \<Longrightarrow> t_status t \<noteq> SUCCEEDED \<or> fst k \<noteq> ''ck_tasks_result_state''"
  shows "apply_ops now (map (\<lambda>(n, c). CreateCheck n ''tasks'' c) ks)
      [(sql_table_of ''tasks'' (task_columns @ worker_columns) task_constraints [])\<lparr>tab_rows := map (\<lambda>t. task_row (upgraded clock t)) ts\<rparr>] =
    Inr [(sql_table_of ''tasks'' (task_columns @ worker_columns) (task_constraints @ map (\<lambda>(n, c). Check n c) ks) [])
      \<lparr>tab_rows := map (\<lambda>t. task_row (upgraded clock t)) ts\<rparr>]"
proof -
  let ?t = "(sql_table_of ''tasks'' (task_columns @ worker_columns) task_constraints [])\<lparr>tab_rows := map (\<lambda>t. task_row (upgraded clock t)) ts\<rparr>"
  have known: "list_all (\<lambda>k. fst k \<notin> constraint_name ` set task_constraints \<and>
      set (cond_columns (snd k)) \<subseteq> col_name ` set (task_columns @ worker_columns)) worker_checks"
    by (simp add: worker_checks_def task_constraints_def task_columns_def worker_columns_def notations)
  have names: "distinct (map constraint_name task_constraints)" by (simp add: task_constraints_def)
  have fresh: "constraint_name ` set task_constraints \<inter> fst ` set ks = {}"
  proof -
    have known: "fst k \<notin> constraint_name ` set task_constraints" if "k \<in> set ks" for k
      using bspec [OF known [unfolded list_all_iff] subsetD [OF assms(1) that]] by (rule conjunct1)
    have "A \<inter> f ` B = {}" if "\<And>k. k \<in> B \<Longrightarrow> f k \<notin> A" for A B and f :: "string \<times> sql_cond \<Rightarrow> string"
      using that by blast
    then show ?thesis by this (rule known)
  qed
  have "apply_ops now (map (\<lambda>(n, c). CreateCheck n ''tasks'' c) ks) [?t] =
      Inr [?t\<lparr>tab_constraints := tab_constraints ?t @ map (\<lambda>(n, c). Check n c) ks\<rparr>]"
  proof (rule create_checks)
    show "tab_name ?t = ''tasks''" by (simp add: sql_table_of_def)
    show "distinct (map constraint_name (tab_constraints ?t) @ map fst ks)"
      using names assms(2) fresh by (simp add: sql_table_of_def)
    have "set (cond_columns (snd k)) \<subseteq> set (column_names ?t) \<and> list_all (\<lambda>r. passes r (snd k)) (tab_rows ?t)" if k: "k \<in> set ks" for k
    proof
      show "set (cond_columns (snd k)) \<subseteq> set (column_names ?t)"
        using bspec [OF known [unfolded list_all_iff] subsetD [OF assms(1) k]] by (simp add: sql_table_of_def column_names_def image_Un)
      show "list_all (\<lambda>r. passes r (snd k)) (tab_rows ?t)"
        using upgraded_passes [OF subsetD [OF assms(1) k] assms(3) [OF _ k]] by (simp add: list_all_iff)
    qed
    then show "list_all (\<lambda>(n, c). set (cond_columns c) \<subseteq> set (column_names ?t) \<and> list_all (\<lambda>r. passes r c) (tab_rows ?t)) ks"
      by (simp add: list_all_iff case_prod_unfold)
  qed
  then show ?thesis by (simp add: sql_table_of_def)
qed

lemma creates_the_rest:
  "apply_ops now ([create_attempts] @ create_queue_indexes @ upgrade_0004)
     [(sql_table_of ''tasks'' (task_columns @ worker_columns) (task_constraints @ worker_constraints) [])\<lparr>tab_rows := map task_row ts\<rparr>] =
   Inr (holding (empty_db\<lparr>tasks := ts\<rparr>) schema)"
  by code_simp

lemma downgrades:
  "apply_ops now (downgrade_0004 @ downgrade_0003) (holding d schema) = Inr [old_tasks (tasks d)]"
  by (code_simp, simp add: old_row_def task_row_def comp_def)

lemma upgrade_succeeds:
  assumes "\<And>t. t \<in> set ts \<Longrightarrow> old_checks t" and "SUCCEEDED \<notin> t_status ` set ts"
  shows "apply_ops now (upgrade_0003 clock @ upgrade_0004) [old_tasks ts] =
    Inr (holding (empty_db\<lparr>tasks := map (upgraded clock) ts\<rparr>) schema)"
proof -
  have open_tasks: "t_status t \<noteq> SUCCEEDED" if "t \<in> set ts" for t using assms(2) that by (metis image_eqI)
  have "apply_ops now (map (\<lambda>(n, c). CreateCheck n ''tasks'' c) worker_checks)
      [(sql_table_of ''tasks'' (task_columns @ worker_columns) task_constraints [])\<lparr>tab_rows := map (\<lambda>t. task_row (upgraded clock t)) ts\<rparr>] =
    Inr [(sql_table_of ''tasks'' (task_columns @ worker_columns) (task_constraints @ worker_constraints) [])
      \<lparr>tab_rows := map (\<lambda>t. task_row (upgraded clock t)) ts\<rparr>]"
    unfolding worker_constraints_def by (rule creates_checks) (use open_tasks in \<open>simp_all add: worker_checks_def\<close>)
  then show ?thesis
    unfolding upgrade_0003_def append_assoc
    using creates_the_rest [of now "map (upgraded clock) ts"] requeues [of ts now clock, OF assms(1)]
    by (simp add: apply_ops_append adds_worker_columns comp_def)
qed

lemma upgrade_aborts:
  assumes "\<And>t. t \<in> set ts \<Longrightarrow> old_checks t" and "SUCCEEDED \<in> t_status ` set ts"
  shows "apply_ops now (upgrade_0003 clock @ upgrade_0004) [old_tasks ts] = Inl (CheckViolation ''ck_tasks_result_state'')"
proof -
  let ?ks = "take 5 worker_checks" and ?k = "worker_checks ! 5"
  let ?t = "(sql_table_of ''tasks'' (task_columns @ worker_columns) (task_constraints @ map (\<lambda>(n, c). Check n c) ?ks) [])
      \<lparr>tab_rows := map (\<lambda>t. task_row (upgraded clock t)) ts\<rparr>"
  have split: "worker_checks = ?ks @ ?k # drop 6 worker_checks" and name: "fst ?k = ''ck_tasks_result_state''"
    by (simp_all add: worker_checks_def)
  have first: "apply_ops now (map (\<lambda>(n, c). CreateCheck n ''tasks'' c) ?ks)
      [(sql_table_of ''tasks'' (task_columns @ worker_columns) task_constraints [])\<lparr>tab_rows := map (\<lambda>t. task_row (upgraded clock t)) ts\<rparr>] =
    Inr [?t]"
    by (rule creates_checks) (auto simp: worker_checks_def)
  obtain t where "t \<in> set ts" "t_status t = SUCCEEDED" using assms(2) by auto
  then have fails: "\<not> list_all (\<lambda>r. passes r (snd ?k)) (tab_rows ?t)"
    using worker_checks_pass [of "upgraded clock t"] upgraded_fields [of clock t] by (force simp: worker_checks_def list_all_iff)
  have "create_check (fst ?k) (snd ?k) ?t = Inl (CheckViolation (fst ?k))"
  proof -
    have "has_columns ?t (cond_columns (snd ?k)) = Inr ()"
      unfolding has_columns_iff by (simp add: worker_checks_def column_names_def sql_table_of_def task_columns_def worker_columns_def notations)
    moreover have "fst ?k \<notin> constraint_name ` set (tab_constraints ?t)"
      by (simp add: worker_checks_def sql_table_of_def task_constraints_def)
    ultimately show ?thesis using fails by (simp add: create_check_def)
  qed
  then have "apply_op now (CreateCheck (fst ?k) ''tasks'' (snd ?k)) [?t] = Inl (CheckViolation (fst ?k))"
    unfolding apply_op.simps by (rule on_single_table(2)) (simp add: sql_table_of_def)
  then have "apply_ops now (map (\<lambda>(n, c). CreateCheck n ''tasks'' c) worker_checks)
      [(sql_table_of ''tasks'' (task_columns @ worker_columns) task_constraints [])\<lparr>tab_rows := map (\<lambda>t. task_row (upgraded clock t)) ts\<rparr>] =
    Inl (CheckViolation ''ck_tasks_result_state'')"
    by (subst split) (simp add: apply_ops_append first [unfolded case_prod_unfold] name case_prod_unfold)
  then show ?thesis
    unfolding upgrade_0003_def append_assoc
    using requeues [of ts now clock, OF assms(1)] by (simp add: apply_ops_append adds_worker_columns)
qed

text \<open>What the upgrade makes of a live database is a state of the queue like any other.\<close>

lemma old_keys:
  assumes "catalog_conforms [old_tasks ts]"
  shows "distinct (map t_id ts)" "distinct (map t_idempotency_key ts)"
proof -
  have keys: "list_all (keys_hold [old_tasks ts] (map old_row ts)) task_constraints"
    using assms by (simp add: catalog_conforms_def table_conforms_def old_tasks_def sql_table_of_def)
  have "distinct_keys [''id''] (map old_row ts)" "distinct_keys [''idempotency_key''] (map old_row ts)"
    using keys by (simp_all add: task_constraints_def)
  moreover have "column_value (old_row t) ''id'' = SqlUuid (t_id t)" for t by (simp add: old_row_def task_row_def)
  moreover have "distinct_keys [''idempotency_key''] (map old_row ts) \<longleftrightarrow> distinct (map t_idempotency_key ts)"
    by (rule distinct_keys_map [where g = "\<lambda>k. [SqlText k]"]) (auto simp: row_key_def old_row_def task_row_def inj_def)
  ultimately show "distinct (map t_id ts)" "distinct (map t_idempotency_key ts)" by (simp_all add: uuid_keys)
qed

lemma upgraded_invariant:
  assumes "catalog_conforms [old_tasks ts]" and "SUCCEEDED \<notin> t_status ` set ts"
  shows "system_inv (empty_db\<lparr>tasks := map (upgraded clock) ts\<rparr>)"
proof -
  have open_tasks: "t_status t \<noteq> SUCCEEDED" if "t \<in> set ts" for t using assms(2) that by (metis image_eqI)
  have same: "t_id (upgraded clock t) = t_id t" "t_idempotency_key (upgraded clock t) = t_idempotency_key t" for t
    by (simp_all add: upgraded_def requeued_def unworked_def)
  have checks: "task_checks (upgraded clock t)" if "t \<in> set ts" for t
    using old_tasks_conform [OF assms(1) that] upgraded_fields [of clock t] open_tasks [OF that]
    by (auto simp: task_checks_def old_checks_def)
  show ?thesis
    using old_keys [OF assms(1)] checks upgraded_fields
    by (auto simp: system_inv_def queue_inv_def task_tables_ok_def ledger_inv_def action_tables_ok_def empty_db_def comp_def same attempt_numbers_def)
qed

lemma live_database_conforms: "catalog_conforms [old_tasks [running_task, pending_task\<lparr>t_id := 12, t_idempotency_key := ''other''\<rparr>]]"
  by code_simp

section \<open>Property\<close>

text \<open>
  C12. Upgrading a live database. On any conforming table of the second milestone the third and the
  fourth revision either abort, exactly when some task had succeeded there (it has no result to
  show for it, and the check of the result state refuses its row), or build the current schema
  holding the old rows with a fresh attempt budget: running tasks, which had no worker, approved and
  available again, approved ones made available, everything else as it was. What they build
  satisfies the invariant of queue and ledger, from which every operation of the program goes on.
  The downgrades lead from any database back to the table of the second milestone, with the old
  columns of every task as they are.
\<close>

theorem live_upgrade:
  assumes "catalog_conforms [old_tasks ts]"
  shows "apply_ops now (upgrade_0003 clock @ upgrade_0004) [old_tasks ts] =
      (if SUCCEEDED \<in> t_status ` set ts then Inl (CheckViolation ''ck_tasks_result_state'')
       else Inr (holding (empty_db\<lparr>tasks := map (upgraded clock) ts\<rparr>) schema)) \<and>
    (SUCCEEDED \<in> t_status ` set ts \<or> system_inv (empty_db\<lparr>tasks := map (upgraded clock) ts\<rparr>)) \<and>
    apply_ops now (downgrade_0004 @ downgrade_0003) (holding d schema) = Inr [old_tasks (tasks d)]"
proof (intro conjI)
  show "apply_ops now (upgrade_0003 clock @ upgrade_0004) [old_tasks ts] =
      (if SUCCEEDED \<in> t_status ` set ts then Inl (CheckViolation ''ck_tasks_result_state'')
       else Inr (holding (empty_db\<lparr>tasks := map (upgraded clock) ts\<rparr>) schema))"
    using upgrade_succeeds upgrade_aborts old_tasks_conform [OF assms] by simp
  show "SUCCEEDED \<in> t_status ` set ts \<or> system_inv (empty_db\<lparr>tasks := map (upgraded clock) ts\<rparr>)"
    using upgraded_invariant [OF assms] by blast
  show "apply_ops now (downgrade_0004 @ downgrade_0003) (holding d schema) = Inr [old_tasks (tasks d)]" by (rule downgrades)
qed

theorem live_upgrade_witness:
  "apply_ops 0 (upgrade_0003 7 @ upgrade_0004) [old_tasks [running_task, pending_task\<lparr>t_id := 12, t_idempotency_key := ''other''\<rparr>]] =
     Inr (holding (empty_db\<lparr>tasks :=
       [pending_task\<lparr>t_status := APPROVED, t_max_attempts := 3, t_available_at := Some 7, t_updated_at := 7\<rparr>,
        pending_task\<lparr>t_id := 12, t_idempotency_key := ''other'', t_max_attempts := 3\<rparr>]\<rparr>) schema)"
  using live_upgrade [OF live_database_conforms, of 0 7]
  by (simp add: running_task_def pending_task_def upgraded_def requeued_def unworked_def)

end
