(* ===== verification/Worker_Process.thy ===== *)
theory Worker_Process
  imports Worker_Runner Queue_Safety Slack_Client
begin

text \<open>
  \<open>worker/__main__.py\<close>: the clients, the registry and the runner a worker process is built from,
  by its settings, and the resources it leaves behind; and the probes of \<open>api.py\<close> and \<open>database.py\<close>.
  What httpx, the file system, PostgreSQL and \<open>socket.gethostname\<close> answer is a parameter.
\<close>

section \<open>Clients\<close>

fun credential_source :: "settings \<Rightarrow> metric_provider \<Rightarrow> string option \<times> string option" where
  "credential_source s P_SERVICE_CATALOG = (service_catalog_token s, service_catalog_token_file s)"
| "credential_source s P_JIRA = (jira_api_token s, jira_api_token_file s)"
| "credential_source s P_GITHUB = (github_token s, github_token_file s)"
| "credential_source s P_SLACK = (slack_bot_token s, slack_bot_token_file s)"

record process_parts =
  pp_http :: http_env
  pp_read_text :: "nat \<Rightarrow> string \<Rightarrow> string result"
  pp_fromisoformat :: "string \<Rightarrow> time option"
  pp_container_str :: "json \<Rightarrow> string"
  pp_hostname :: string
  pp_pid :: nat
  pp_uuid_hex :: string
  pp_ticks :: "nat \<Rightarrow> tick"
  pp_uuid4 :: "uuid list \<Rightarrow> uuid"

definition build_clients :: "process_parts \<Rightarrow> settings \<Rightarrow> client_env" where
  "build_clients pp s =
     \<lparr>ce_http = pp_http pp, ce_settings = s,
      ce_secret = (\<lambda>provider n. case credential_source s provider of (v, path) \<Rightarrow> get_secret (pp_read_text pp n) v path),
      ce_fromisoformat = pp_fromisoformat pp, ce_container_str = pp_container_str pp\<rparr>"

text \<open>\<open>integration_http\<close> is \<open>None\<close> as long as the synchronization is disabled.\<close>

definition build_slack_delivery :: "client_env option \<Rightarrow> client_env result" where
  "build_slack_delivery integration_http =
     expectR (RuntimeError ''integration HTTP client is not configured'') integration_http"

datatype worker_handler =
    DIAGNOSTIC_HANDLER
  | CONTEXT_SYNC_HANDLER client_env "client_env result option"

definition build_registry :: "process_parts \<Rightarrow> settings \<Rightarrow> worker_handler registry result" where
  "build_registry pp s =
     bindR (if enable_diagnostic_handler s then register ''diagnostic'' DIAGNOSTIC_HANDLER [] else Inr []) (\<lambda>handlers.
     if \<not> enable_deployment_context_sync s then Inr handlers
     else let clients = build_clients pp s in
       register ''deployment_context_sync''
         (CONTEXT_SYNC_HANDLER clients
            (if enable_slack_notification s then Some (build_slack_delivery (Some clients)) else None))
         handlers)"

definition worker_identity :: "process_parts \<Rightarrow> string" where
  "worker_identity pp = pp_hostname pp @ '':'' @ nat_digits (pp_pid pp) @ '':'' @ take 12 (pp_uuid_hex pp)"

text \<open>\<open>WorkerRunner.__init__\<close>; the runner asks the registry only for the types it holds.\<close>

definition make_runner :: "process_parts \<Rightarrow> settings \<Rightarrow> worker_handler registry \<Rightarrow> runner_env" where
  "make_runner pp s handlers =
     \<lparr>rn_settings = s, rn_registry = map (\<lambda>(task_type, _). (task_type, ())) handlers, rn_worker_id = worker_identity pp,
      rn_retry_policy = \<lparr>base_seconds = worker_retry_base_seconds s, cap_seconds = worker_retry_cap_seconds s\<rparr>,
      rn_ticks = pp_ticks pp, rn_uuid4 = pp_uuid4 pp\<rparr>"

section \<open>The life of the process\<close>

datatype process_event =
    ENGINE_CREATED | HTTP_OPENED | SIGNAL_HANDLERS_ADDED | RUNNER_ENDED | HTTP_CLOSED | ENGINE_DISPOSED

text \<open>
  \<open>async_main\<close> with the outcomes of \<open>aclose\<close> and of \<open>dispose\<close>; an exception of the \<open>finally\<close> block
  replaces the one that is propagating and skips the rest of the block.
\<close>

definition close_process :: "bool \<Rightarrow> unit result \<Rightarrow> unit result \<Rightarrow> unit result \<Rightarrow> unit result \<times> process_event list" where
  "close_process http_open aclosed disposed outcome =
     (let closing = (if http_open then [HTTP_CLOSED] else []) in
      case (if http_open then aclosed else Inr ()) of
        Inl e \<Rightarrow> (Inl e, [])
      | Inr _ \<Rightarrow> (case disposed of Inl e \<Rightarrow> (Inl e, closing) | Inr _ \<Rightarrow> (outcome, closing @ [ENGINE_DISPOSED])))"

definition async_main ::
  "process_parts \<Rightarrow> settings \<Rightarrow> round list \<Rightarrow> unit result \<Rightarrow> unit result \<Rightarrow> db \<Rightarrow> unit result \<times> process_event list \<times> worker" where
  "async_main pp s rounds aclosed disposed d =
     (let opened = ENGINE_CREATED # (if enable_deployment_context_sync s then [HTTP_OPENED] else []) in
      case build_registry pp s of
        Inl e \<Rightarrow> (Inl e, opened, start_worker d)
      | Inr handlers \<Rightarrow>
          (case run (make_runner pp s handlers) rounds (start_worker d) of (outcome, w) \<Rightarrow>
           case close_process (enable_deployment_context_sync s) aclosed disposed outcome of (r, closing) \<Rightarrow>
             (r, opened @ [SIGNAL_HANDLERS_ADDED, RUNNER_ENDED] @ closing, w)))"

section \<open>Probes\<close>

text \<open>
  What the connection to PostgreSQL does: the seconds it takes, and what it ends with, the first
  value of the row or an exception. \<open>asyncio.timeout\<close> cancels it at the deadline.
\<close>

record database_probe =
  dp_seconds :: rat
  dp_outcome :: "int result"

definition is_database_ready :: "rat \<Rightarrow> database_probe \<Rightarrow> bool result" where
  "is_database_ready timeout_seconds p =
     (if dp_seconds p \<ge> timeout_seconds then Inr False
      else case dp_outcome p of
        Inl e \<Rightarrow> if e = AsyncCancelledError then Inl e else Inr False
      | Inr v \<Rightarrow> Inr (v = 1))"

definition health :: "nat \<times> string" where
  "health = (200, ''ok'')"

definition ready :: "settings \<Rightarrow> database_probe \<Rightarrow> (nat \<times> string) result" where
  "ready s p = bindR (is_database_ready (db_ready_timeout_seconds s) p)
     (\<lambda>answered. Inr (if answered then (200, ''ready'') else (503, ''not_ready'')))"

section \<open>Lemmas\<close>

lemma build_registry_eq:
  "build_registry pp s = Inr
     ((if enable_diagnostic_handler s then [(''diagnostic'', DIAGNOSTIC_HANDLER)] else []) @
      (if enable_deployment_context_sync s
       then [(''deployment_context_sync'', CONTEXT_SYNC_HANDLER (build_clients pp s)
               (if enable_slack_notification s then Some (Inr (build_clients pp s)) else None))] else []))"
  by (simp add: build_registry_def register_def build_slack_delivery_def Let_def)

lemma runner_types: "supported_task_types (rn_registry (make_runner pp s handlers)) = supported_task_types handlers"
  by (simp add: make_runner_def supported_task_types_def comp_def case_prod_unfold)

lemma registry_get_runner:
  "registry_get (rn_registry (make_runner pp s handlers)) task_type = Inr () \<longleftrightarrow> (\<exists>h. registry_get handlers task_type = Inr h)"
  by (induction handlers) (auto simp: make_runner_def registry_get_def expectR_eq)

lemma call_claim_type:
  assumes "call_claim rn w = (Inr (Some claim), w')"
  shows "c_task_type claim \<in> set (supported_task_types (rn_registry rn))"
proof -
  obtain d d' raw aid locked now1 now where
    "claim_one (supported_task_types (rn_registry rn)) (rn_worker_id rn) (lease_seconds rn) raw aid locked now1 now d = Inr (Some claim, d')"
    using assms by (fastforce simp: call_claim_def db_call_def transact_def Let_def split: prod.splits db_fault.splits sum.splits)
  then show ?thesis by (rule claim_one_cases) (auto simp: claimable_def)
qed

text \<open>A worker without handlers claims nothing, in any number of rounds.\<close>

definition idle_events :: "string set" where
  "idle_events = {''worker_started'', ''worker_stopping'', ''task_lease_expired'', ''worker_database_unavailable''}"

lemma db_call_log: "wr_log (snd (db_call rn tx w)) = wr_log w"
  by (simp add: db_call_def Let_def split: prod.split)

lemma idle_claim:
  assumes "rn_registry rn = []" and "call_claim rn w = (Inr c, w')"
  shows "c = None"
proof (rule ccontr)
  assume "c \<noteq> None"
  then obtain claim where "c = Some claim" by blast
  then have "c_task_type claim \<in> set (supported_task_types (rn_registry rn))" using assms(2) call_claim_type by blast
  then show False by (simp add: assms(1) supported_task_types_def)
qed

lemma idle_acquire:
  assumes "rn_registry rn = []" and "set (wr_log w) \<subseteq> idle_events" and "acquire rn w = (r, w')"
  shows "set (wr_log w') \<subseteq> idle_events \<and> (\<forall>c. r = Inr c \<longrightarrow> c = None)"
proof -
  obtain r1 w1 where recovered: "call_recover rn w = (r1, w1)" by fastforce
  have log1: "wr_log w1 = wr_log w" using db_call_log recovered unfolding call_recover_def by (metis snd_conv)
  have claims: "wr_log (snd (call_claim rn w2)) = wr_log w2" for w2
    unfolding call_claim_def by (rule db_call_log)
  show ?thesis
  proof (cases r1)
    case (Inl e)
    then show ?thesis using assms(2,3) recovered log1 by (auto simp: acquire_def bindE_def)
  next
    case (Inr recovery)
    define w2 where "w2 = (if recovery \<noteq> None then w1\<lparr>wr_log := wr_log w1 @ [''task_lease_expired'']\<rparr> else w1)"
    have "acquire rn w = call_claim rn w2"
      using recovered Inr by (simp add: acquire_def bindE_def seqE_def log_event_def ret_def w2_def)
    then have claimed: "call_claim rn w2 = (r, w')" using assms(3) by simp
    have "set (wr_log w2) \<subseteq> idle_events" using assms(2) log1 by (simp add: w2_def idle_events_def)
    then show ?thesis using claims [of w2] idle_claim [OF assms(1)] claimed by auto
  qed
qed

lemma idle_round:
  assumes "rn_registry rn = []" and "set (wr_log w) \<subseteq> idle_events"
  shows "set (wr_log (snd (run_round rn ro w))) \<subseteq> idle_events"
proof -
  obtain r w' where step: "acquire rn w = (r, w')" by fastforce
  have "set (wr_log w') \<subseteq> idle_events" "\<forall>c. r = Inr c \<longrightarrow> c = None"
    using idle_acquire [OF assms step] by blast+
  then show ?thesis
    using step
    by (cases r) (auto simp: run_round_def bindE_def catchE_def seqE_def ret_def log_event_def poll_wait_def
        observe_shutdown_def idle_events_def)
qed

lemma idle_rounds:
  assumes "rn_registry rn = []" and "set (wr_log w) \<subseteq> idle_events"
  shows "set (wr_log (snd (run_rounds rn ros w))) \<subseteq> idle_events"
  using assms(2)
proof (induction ros arbitrary: w)
  case (Cons ro ros)
  obtain r w' where step: "run_round rn ro w = (r, w')" by fastforce
  then have "set (wr_log w') \<subseteq> idle_events" using idle_round [OF assms(1) Cons.prems] by (metis snd_conv)
  then show ?case using Cons step by (auto simp: seqE_def bindE_def split: sum.splits)
qed (simp add: ret_def)

lemma idle_run:
  assumes "rn_registry rn = []"
  shows "set (wr_log (snd (run rn ros (start_worker d)))) \<subseteq> idle_events"
proof -
  let ?w = "(start_worker d)\<lparr>wr_log := [''worker_started'']\<rparr>"
  have "set (wr_log (snd (run_rounds rn ros ?w))) \<subseteq> idle_events"
    by (rule idle_rounds [OF assms]) (simp add: idle_events_def)
  then show ?thesis
    by (auto simp: run_def log_event_def seqE_def bindE_def start_worker_def idle_events_def split: prod.splits)
qed

text \<open>However the run ends, the HTTP client and then the engine are closed, unless closing fails.\<close>

lemma close_process_cases:
  "close_process http_open (Inr ()) (Inr ()) outcome = (outcome, (if http_open then [HTTP_CLOSED] else []) @ [ENGINE_DISPOSED])"
  "close_process http_open (Inl e) disposed outcome =
     (if http_open then (Inl e, []) else close_process False (Inr ()) disposed outcome)"
  by (simp_all add: close_process_def)

lemma ready_iff:
  "ready s p = Inr (200, ''ready'') \<longleftrightarrow> dp_seconds p < db_ready_timeout_seconds s \<and> dp_outcome p = Inr 1"
  "ready s p = Inl e \<longleftrightarrow> dp_seconds p < db_ready_timeout_seconds s \<and> dp_outcome p = Inl e \<and> e = AsyncCancelledError"
  by (auto simp: ready_def is_database_ready_def split: sum.splits)

text \<open>What validated settings say of the handlers.\<close>

lemma handler_settings:
  assumes "make_settings s = Inr s'"
  shows "enable_diagnostic_handler s \<Longrightarrow> environment s \<in> {''development'', ''test''}"
    and "enable_slack_notification s \<Longrightarrow> enable_deployment_context_sync s \<and> safe_base_url (slack_base_url s)"
    and "enable_deployment_context_sync s \<Longrightarrow> non_production s \<and> safe_base_url (service_catalog_base_url s) \<and>
      safe_base_url (jira_base_url s) \<and> safe_base_url (github_base_url s)"
  using assms
  by (auto simp: make_settings_Inr validate_worker_safety_def deployment_checks_def slack_checks_def checks_Inr
      dest: base_url_safe)

definition permits :: "process_parts \<Rightarrow> settings \<Rightarrow> string \<Rightarrow> worker_handler \<Rightarrow> bool" where
  "permits pp s task_type h \<longleftrightarrow> (case h of
       DIAGNOSTIC_HANDLER \<Rightarrow> task_type = ''diagnostic'' \<and> environment s \<in> {''development'', ''test''}
     | CONTEXT_SYNC_HANDLER clients slack \<Rightarrow> task_type = ''deployment_context_sync'' \<and> non_production s \<and>
         ce_settings clients = s \<and> safe_base_url (service_catalog_base_url s) \<and> safe_base_url (jira_base_url s) \<and>
         safe_base_url (github_base_url s) \<and>
         ce_secret clients P_GITHUB = (\<lambda>n. get_secret (pp_read_text pp n) (github_token s) (github_token_file s)) \<and>
         (slack = None \<or> slack = Some (Inr clients) \<and> enable_slack_notification s \<and> safe_base_url (slack_base_url s)))"

lemma registry_permits:
  assumes "make_settings s = Inr s'" and "build_registry pp s = Inr handlers" and "(task_type, h) \<in> set handlers"
  shows "permits pp s task_type h"
  using assms(2,3) handler_settings [OF assms(1)]
  by (auto simp: build_registry_eq permits_def build_clients_def)

lemma claims_permitted:
  assumes "make_settings s = Inr s'" and "build_registry pp s = Inr handlers"
    and "call_claim (make_runner pp s handlers) w = (Inr (Some claim), w')"
  shows "\<exists>h. registry_get handlers (c_task_type claim) = Inr h \<and> permits pp s (c_task_type claim) h"
proof -
  have "c_task_type claim \<in> fst ` set handlers"
    using call_claim_type [OF assms(3)] unfolding runner_types by (simp add: supported_task_types_def)
  then obtain h where "map_of handlers (c_task_type claim) = Some h" by (metis domD dom_map_of_conv_image_fst)
  then show ?thesis using registry_permits [OF assms(1,2) map_of_SomeD] by (auto simp: registry_get_def)
qed

lemma idle_environment:
  assumes "make_settings s = Inr s'" and "environment s \<in> {''staging'', ''production''}" and "build_registry pp s = Inr handlers"
  shows "handlers = [] \<and> ''task_claimed'' \<notin> set (wr_log (snd (run (make_runner pp s handlers) rounds (start_worker d))))"
proof -
  have none: "handlers = []"
    using handler_settings [OF assms(1)] assms(2,3) by (auto simp: build_registry_eq non_production_def)
  have "set (wr_log (snd (run (make_runner pp s handlers) rounds (start_worker d)))) \<subseteq> idle_events"
    by (rule idle_run) (simp add: make_runner_def none)
  moreover have "''task_claimed'' \<notin> idle_events" by (simp add: idle_events_def)
  ultimately show ?thesis using none by blast
qed

lemma example_settings_valid:
  "make_settings ((default_settings ''postgresql+asyncpg://db'')\<lparr>environment := ''test'', enable_diagnostic_handler := True\<rparr>) =
   Inr ((default_settings ''postgresql+asyncpg://db'')\<lparr>environment := ''test'', enable_diagnostic_handler := True\<rparr>)"
  unfolding make_settings_Inr
  by (simp add: settings_fields_ok_def default_settings_def in_range_def above_def opt_length_def
      require_async_postgresql_url_def starts_with_def validate_worker_safety_def checks_Inr credential_check_def)

section \<open>Property\<close>

text \<open>
  C19. A worker process runs only what its settings allow. From validated settings the registry is
  always built; every task the runner claims has its handler there, the diagnostic one only in
  development and test, the synchronization only outside staging and production, with clients for
  safe base URLs that read each provider's own credential, and with Slack only where it is enabled.
  In staging and production the process holds no handler and claims nothing in any run. When
  closing succeeds, the process ends as its runner ended, with the HTTP client it opened and then
  the engine closed.
\<close>

theorem workers_run_what_is_allowed:
  assumes "make_settings s = Inr s'"
  shows "\<exists>handlers. build_registry pp s = Inr handlers \<and>
    (\<forall>w claim w'. call_claim (make_runner pp s handlers) w = (Inr (Some claim), w') \<longrightarrow>
      (\<exists>h. registry_get handlers (c_task_type claim) = Inr h \<and> permits pp s (c_task_type claim) h)) \<and>
    (environment s \<in> {''staging'', ''production''} \<longrightarrow> handlers = [] \<and>
      (\<forall>rounds d. ''task_claimed'' \<notin> set (wr_log (snd (run (make_runner pp s handlers) rounds (start_worker d)))))) \<and>
    (\<forall>rounds d. case async_main pp s rounds (Inr ()) (Inr ()) d of (r, events, w) \<Rightarrow>
       (r, w) = run (make_runner pp s handlers) rounds (start_worker d) \<and>
       events = [ENGINE_CREATED] @ (if enable_deployment_context_sync s then [HTTP_OPENED] else []) @
         [SIGNAL_HANDLERS_ADDED, RUNNER_ENDED] @ (if enable_deployment_context_sync s then [HTTP_CLOSED] else []) @
         [ENGINE_DISPOSED])"
proof -
  obtain handlers where built: "build_registry pp s = Inr handlers" by (simp add: build_registry_eq)
  show ?thesis
  proof (intro exI [of _ handlers] conjI allI impI)
    show "build_registry pp s = Inr handlers" by (rule built)
    show "\<exists>h. registry_get handlers (c_task_type claim) = Inr h \<and> permits pp s (c_task_type claim) h"
      if "call_claim (make_runner pp s handlers) w = (Inr (Some claim), w')" for w claim w'
      using claims_permitted [OF assms built that] .
    show "handlers = []" if "environment s \<in> {''staging'', ''production''}"
      using idle_environment [OF assms that built] by blast
    show "''task_claimed'' \<notin> set (wr_log (snd (run (make_runner pp s handlers) rounds (start_worker d))))"
      if "environment s \<in> {''staging'', ''production''}" for rounds d
      using idle_environment [OF assms that built] by blast
    show "case async_main pp s rounds (Inr ()) (Inr ()) d of (r, events, w) \<Rightarrow>
       (r, w) = run (make_runner pp s handlers) rounds (start_worker d) \<and>
       events = [ENGINE_CREATED] @ (if enable_deployment_context_sync s then [HTTP_OPENED] else []) @
         [SIGNAL_HANDLERS_ADDED, RUNNER_ENDED] @ (if enable_deployment_context_sync s then [HTTP_CLOSED] else []) @
         [ENGINE_DISPOSED]" for rounds d
      by (auto simp: async_main_def built close_process_cases split: prod.splits)
  qed
qed

theorem workers_run_what_is_allowed_witness:
  "\<forall>pp. case async_main pp ((default_settings ''postgresql+asyncpg://db'')\<lparr>environment := ''test'', enable_diagnostic_handler := True\<rparr>)
     [] (Inr ()) (Inr ()) running_db of
   (r, events, w) \<Rightarrow> events = [ENGINE_CREATED, SIGNAL_HANDLERS_ADDED, RUNNER_ENDED, ENGINE_DISPOSED]"
proof
  fix pp
  let ?s = "(default_settings ''postgresql+asyncpg://db'')\<lparr>environment := ''test'', enable_diagnostic_handler := True\<rparr>"
  have disabled: "\<not> enable_deployment_context_sync ?s" by (simp add: default_settings_def)
  obtain handlers where "\<forall>rounds d. case async_main pp ?s rounds (Inr ()) (Inr ()) d of (r, events, w) \<Rightarrow>
       (r, w) = run (make_runner pp ?s handlers) rounds (start_worker d) \<and>
       events = [ENGINE_CREATED] @ (if enable_deployment_context_sync ?s then [HTTP_OPENED] else []) @
         [SIGNAL_HANDLERS_ADDED, RUNNER_ENDED] @ (if enable_deployment_context_sync ?s then [HTTP_CLOSED] else []) @
         [ENGINE_DISPOSED]"
    using workers_run_what_is_allowed [OF example_settings_valid, of pp] by (elim exE conjE) (rule that)
  from spec [OF spec [OF this, of "[]"], of running_db]
  show "case async_main pp ?s [] (Inr ()) (Inr ()) running_db of
      (r, events, w) \<Rightarrow> events = [ENGINE_CREATED, SIGNAL_HANDLERS_ADDED, RUNNER_ENDED, ENGINE_DISPOSED]"
    unfolding if_not_P [OF disabled] by (simp split: prod.splits)
qed

end
