(* ===== verification/Stuck_Actions.thy ===== *)
theory Stuck_Actions
  imports Handler_Safety Ledger_Contract
begin

text \<open>
  What the workflow does with an action that an earlier attempt left between the end of its
  reconciliation and the start of its write, in the status \<open>ready_to_execute\<close>.
\<close>

text \<open>The action is stored in that status, and the provider writes so far are \<open>ws\<close>.\<close>

definition action_ready :: "uuid \<Rightarrow> db \<Rightarrow> bool" where
  "action_ready i d \<longleftrightarrow> (\<exists>x. lock_action i d = Inr x \<and> action_status_column x = Inr READY_TO_EXECUTE)"

definition ready_stored :: "uuid \<Rightarrow> provider_request list \<Rightarrow> handler_world \<Rightarrow> bool" where
  "ready_stored i ws w \<longleftrightarrow> action_ready i (hw_db w) \<and> filter is_provider_write (hw_trace w) = ws"

text \<open>Whatever others commit between the calls of the handler, the action stays in that status.\<close>

definition left_ready :: "handler_env \<Rightarrow> uuid \<Rightarrow> bool" where
  "left_ready hn i \<longleftrightarrow> (\<forall>n d. action_ready i d \<longrightarrow> action_ready i (interfere (tk_others (hn_ticks hn n)) d))"

lemma left_readyD: "left_ready hn i \<Longrightarrow> action_ready i d \<Longrightarrow> action_ready i (interfere (tk_others (hn_ticks hn n)) d)"
  by (simp add: left_ready_def)

text \<open>Every transition the code tries first expects \<open>reconciling\<close> and is refused.\<close>

lemma transition_refused:
  assumes "action_ready i d" and "ta_expected_statuses ta = {RECONCILING}"
  shows "\<exists>e. transition fence i ta env d = Inl e"
  using assms by (cases "transition fence i ta env d") (auto simp: transition_def action_ready_def result_simps)

lemma store_call_refused:
  assumes "left_ready hn i" and "\<And>env d. action_ready i d \<Longrightarrow> \<exists>e. tx env d = Inl e"
  shows "hoare (ready_stored i ws) (store_call hn tx) (\<lambda>_ _. False) (\<lambda>_. ready_stored i ws)"
proof (unfold hoare_def, intro allI impI)
  fix w assume w: "ready_stored i ws w"
  let ?tk = "hn_ticks hn (hw_calls w)"
  let ?d = "interfere (tk_others ?tk) (hw_db w)"
  have d: "action_ready i ?d" using left_readyD [OF assms(1)] w by (simp add: ready_stored_def)
  obtain e where "tx (ledger_env_of hn ?tk ?d) ?d = Inl e" using assms(2) [OF d] by blast
  then show "case store_call hn tx w of (Inl e, w') \<Rightarrow> ready_stored i ws w' | (Inr a, w') \<Rightarrow> False"
    using w d by (cases "tk_fault ?tk") (simp_all add: store_call_def transact_def ready_stored_def Let_def)
qed

lemma ready_refused:
  assumes "left_ready hn i"
  shows "hoare (ready_stored i ws) (move_action hn task i {RECONCILING} new_status name cs code settlement not_before)
    (\<lambda>_ _. False) (\<lambda>_. ready_stored i ws)"
  unfolding move_action_def
  by (rule store_call_refused [OF assms], erule transition_refused) simp

lemma ready_kept:
  assumes "left_ready hn i"
  shows "hoare (ready_stored i ws) (check_cancelled hn) (\<lambda>_. ready_stored i ws) (\<lambda>_. ready_stored i ws)"
    and "hoare (ready_stored i ws) (check_ownership hn) (\<lambda>_. ready_stored i ws) (\<lambda>_. ready_stored i ws)"
    and "\<not> is_provider_write q \<Longrightarrow> hoare (ready_stored i ws) (ask q answers) (\<lambda>_. ready_stored i ws) (\<lambda>_. ready_stored i ws)"
    and "hoare (ready_stored i ws) (action_holdoff hn j) (\<lambda>_. ready_stored i ws) (\<lambda>_. ready_stored i ws)"
proof -
  show "hoare (ready_stored i ws) (check_cancelled hn) (\<lambda>_. ready_stored i ws) (\<lambda>_. ready_stored i ws)"
    and "hoare (ready_stored i ws) (check_ownership hn) (\<lambda>_. ready_stored i ws) (\<lambda>_. ready_stored i ws)"
    and "\<not> is_provider_write q \<Longrightarrow> hoare (ready_stored i ws) (ask q answers) (\<lambda>_. ready_stored i ws) (\<lambda>_. ready_stored i ws)"
    by (simp_all add: hoare_def check_cancelled_def check_ownership_def checkpoint_def ask_def ready_stored_def split: sum.split)
  have "ready_stored i ws (w\<lparr>hw_db := interfere (tk_others (hn_ticks hn k)) (hw_db w), hw_calls := n\<rparr>)"
    if "ready_stored i ws w" for w k n
    using that left_readyD [OF assms] by (simp add: ready_stored_def)
  then show "hoare (ready_stored i ws) (action_holdoff hn j) (\<lambda>_. ready_stored i ws) (\<lambda>_. ready_stored i ws)"
    by (simp add: hoare_def action_holdoff_def store_read_def transact_def Let_def split: db_fault.split)
qed

lemma ready_reconcile:
  assumes "left_ready hn i"
  shows "hoare (ready_stored i ws) (reconcile_comment hn action repository number marker) (\<lambda>_. ready_stored i ws) (\<lambda>_. ready_stored i ws)"
  unfolding reconcile_comment_def needs_review_def
  by (auto intro!: hoare_keeps ready_kept [OF assms] split: option.splits list.splits)

lemma ready_ends:
  assumes "left_ready hn i" and "x_id action = i"
  shows "hoare (ready_stored i ws) (write_comment hn task action repository number body desired_fingerprint dec references)
      (\<lambda>_ _. False) (\<lambda>_. ready_stored i ws)"
    and "hoare (ready_stored i ws) (stop_reconciliation hn task action stop dec references) (\<lambda>_ _. False) (\<lambda>_. ready_stored i ws)"
    and "hoare (ready_stored i ws) (compare_comment hn task action comment repository number body desired_fingerprint dec references)
      (\<lambda>_ _. False) (\<lambda>_. ready_stored i ws)"
proof -
  note refused = ready_refused [OF assms(1), of ws task]
  have never: "hoare (\<lambda>_. False) m Q E" for m :: "'b handler_io" and Q E by (simp add: hoare_def)
  show writes: "hoare (ready_stored i ws) (write_comment hn task action repository number body desired_fingerprint dec references)
      (\<lambda>_ _. False) (\<lambda>_. ready_stored i ws)"
    unfolding write_comment_def assms(2) by (rule hoare_bind [OF refused never])
  show "hoare (ready_stored i ws) (stop_reconciliation hn task action stop dec references) (\<lambda>_ _. False) (\<lambda>_. ready_stored i ws)"
    unfolding stop_reconciliation_def assms(2)
    by (cases stop) (auto intro: hoare_bind [OF refused never] hoare_seq [OF refused never])
  have adopts: "hoare (ready_stored i ws) (adopt_comment hn task action comment desired_fingerprint dec references)
      (\<lambda>_ _. False) (\<lambda>_. ready_stored i ws)"
    unfolding adopt_comment_def complete_success_def assms(2)
    by (rule hoare_seq [OF ready_kept(2) [OF assms(1)]], rule hoare_bind [OF _ never], rule hoare_bind [OF hoare_keeps(3) refused])
  show "hoare (ready_stored i ws) (compare_comment hn task action comment repository number body desired_fingerprint dec references)
      (\<lambda>_ _. False) (\<lambda>_. ready_stored i ws)"
    unfolding compare_comment_def
    by (rule hoare_bind [OF hoare_keeps(3)]) (auto simp: assms(2) intro: adopts writes hoare_bind [OF refused never])
qed

lemma ready_run:
  assumes "left_ready hn (x_id action)" and "action_status_column action = Inr READY_TO_EXECUTE"
  shows "hoare (ready_stored (x_id action) ws)
    (reconcile_and_apply hn task action repository number body desired_fingerprint dec references)
    (\<lambda>_ _. False) (\<lambda>_. ready_stored (x_id action) ws)"
proof -
  have start: "start_reconciliation hn task action = ret action"
    by (simp add: start_reconciliation_def assms(2) liftR_def bindE_def ret_def)
  show ?thesis
    unfolding reconcile_and_apply_def start bindE_ret
    by (rule hoare_seq [OF ready_kept(1) [OF assms(1)]], rule hoare_bind [OF hoare_attempt [OF ready_reconcile [OF assms(1)]]])
      (auto intro: ready_ends [OF assms(1) refl] split: sum.split option.split)
qed

definition stuck_action :: external_action where
  "stuck_action = example_row\<lparr>x_status := ''ready_to_execute''\<rparr>"

definition stuck_world :: handler_world where
  "stuck_world = example_world\<lparr>hw_db := running_db\<lparr>external_actions := [stuck_action]\<rparr>\<rparr>"

lemma ready_status: "action_status_of ''ready_to_execute'' = Some READY_TO_EXECUTE"
  by code_simp

lemma stuck_world_ready:
  "action_status_column stuck_action = Inr READY_TO_EXECUTE" "ready_stored (x_id stuck_action) [] stuck_world"
  by (simp_all add: ready_stored_def action_ready_def stuck_world_def stuck_action_def example_world_def action_status_column_def
      lock_action_def find_action_def ready_status)

section \<open>Property\<close>

text \<open>
  C20. An action left ready to execute is not reconciled. A run that stops between the two
  transitions before the write (a cancellation, a lost connection, a crash) leaves its action in the
  status \<open>ready_to_execute\<close>. One call of \<open>_reconcile_and_apply\<close> on such an action skips the
  transition that would start a reconciliation, while every transition it tries expects
  \<open>reconciling\<close>: whatever the providers answer, whichever database calls fail and whatever others
  commit between its calls, as long as they leave the action in that status, the call ends with an
  exception, sends no write, and leaves the action ready to execute, so the next call ends the same.
\<close>

theorem ready_action_is_stuck:
  assumes "left_ready hn (x_id action)" and "action_status_column action = Inr READY_TO_EXECUTE"
    and "ready_stored (x_id action) ws w"
  shows "\<exists>e w'. reconcile_and_apply hn task action repository number body desired_fingerprint dec references w = (Inl e, w') \<and>
    ready_stored (x_id action) ws w'"
proof (cases "reconcile_and_apply hn task action repository number body desired_fingerprint dec references w")
  case (Pair r w')
  note run = ready_run [OF assms(1,2), of ws task repository number body desired_fingerprint dec references]
  show ?thesis
  proof (cases r)
    case (Inl e)
    then show ?thesis using hoareD_raise [OF run assms(3)] Pair by blast
  next
    case (Inr x)
    then show ?thesis using hoareD_ret [OF run assms(3)] Pair by blast
  qed
qed

theorem ready_action_is_stuck_witness:
  "\<forall>dec. \<exists>e w'. reconcile_and_apply example_handler (example_task []) stuck_action ''o/r'' 7 ''body'' hex_a dec [] stuck_world =
     (Inl e, w') \<and> ready_stored (x_id stuck_action) [] w'"
  by (intro allI ready_action_is_stuck stuck_world_ready)
    (simp add: left_ready_def example_handler_def example_tick_def interfere_def)

end
