(* ===== verification/Spec2Isabelle.thy ===== *)
theory Spec2Isabelle
  imports Ledger_Contract Runner_Safety Handler_Safety Task_Api Observability Policy Client_Contract Slack_Identity
    Live_Migration Worker_Process Stuck_Actions
begin

text \<open>
  \<^bold>\<open>The program.\<close> NinjaTech Deployment Lab is an API and a worker over one PostgreSQL database. The API
  creates, approves and cancels tasks. Workers claim approved tasks under a lease, run the handler
  of their type, and write outcomes through fences that only the current attempt passes. The
  deployment-context handler reads the service catalog, GitHub and Jira, decides by a fixed policy,
  journals each external write in a ledger before it makes it, publishes one GitHub comment per
  scope and, where asked, one Slack message. All paths below are under
  \<open>src/src/ninjatech_deployment_lab\<close> unless they start with \<open>migrations\<close>.

  \<^bold>\<open>How the code is read.\<close> A call that may raise is a value of \<open>exn + 'a\<close> (\<open>Exceptions\<close>, \<open>Prelude\<close>); code with
  effects is a state transformer \<open>'w \<Rightarrow> (exn + 'a) \<times> 'w\<close> whose world is the database, the requests
  sent, the metrics and the clocks read so far. \<open>try\<close>, \<open>except\<close> and \<open>finally\<close> are combinators. A table is
  a list of records in the order of its columns, a dict an association list, a JSON document a
  \<open>json\<close>, a UUID a number, a time a number of microseconds, a float of the settings an exact rational.
  Every definition computes; one transaction is one function from the database to a new one.

  \<^bold>\<open>Data.\<close> \<open>Enums\<close>, \<open>Database\<close> (\<open>tasks/model.py\<close>, \<open>integrations/model.py\<close>: the five tables, their checks and
  keys as \<open>tables_ok\<close>), \<open>Json_Model\<close> and \<open>Json_Canonical\<close> (canonical JSON and that it determines its value),
  \<open>Sha256\<close> (\<open>hashlib.sha256\<close> on 32-bit words), \<open>Ip_Hosts\<close> (which hosts \<open>urlsplit\<close> accepts in brackets, with the
  IPv6 parser of \<open>ipaddress\<close>), \<open>Urls\<close> (the part of \<open>urllib.parse\<close> in use and the two sanitizers of
  \<open>integrations/domain.py\<close>), \<open>Integration_Domain\<close> (the pydantic models), \<open>Config\<close> (\<open>config.py\<close> with
  its validators, \<open>integrations/credentials.py\<close>), \<open>Metrics\<close> (\<open>integrations/metrics.py\<close>).

  \<^bold>\<open>Migrations.\<close> \<open>Sql_Schema\<close> gives a meaning to the operations of Alembic on typed tables, with
  three-valued conditions and the errors PostgreSQL raises; \<open>Migrations\<close> holds the four revisions;
  \<open>Schema\<close> proves that they build exactly the schema whose constraints are the invariant of
  \<open>Database\<close>; \<open>Live_Migration\<close> runs them on a database in use and back.

  \<^bold>\<open>The task queue.\<close> \<open>Task_Domain\<close> (\<open>tasks/domain.py\<close>), \<open>Task_Service\<close> (\<open>tasks/service.py\<close> and
  \<open>tasks/repository.py\<close>), \<open>Worker_Domain\<close> (\<open>worker/domain.py\<close>), \<open>Worker_Repository\<close> (\<open>worker/repository.py\<close>: claim,
  heartbeat, the four finalizations, recovery). \<open>Step_System\<close> is the contract of a store driven by
  operations in any order, a locale with an invariant and an order that history may not violate;
  \<open>Worker_Queue\<close> shows that every operation is a step of the queue, and \<open>Queue_Safety\<close> interprets the
  locale and draws the conclusions: reachable states, stale claims, claiming, recovery.

  \<^bold>\<open>The evidence store.\<close> \<open>Action_Ledger\<close> (\<open>integrations/persistence.py\<close>); \<open>Ledger_Protocol\<close> is its abstract
  specification, three steps with an invariant; \<open>Ledger_Operations\<close> refines every operation to one of
  them; \<open>System_Safety\<close> composes both stores over one database and interprets \<open>step_system\<close> again;
  \<open>Ledger_Contract\<close> says what callers rely on.

  \<^bold>\<open>Workers.\<close> \<open>Shared_Store\<close> is the database as one process sees it: before each of its calls others may
  run any admissible operations, and the connection may be lost before or after the commit.
  \<open>Handlers\<close> (\<open>worker/handlers.py\<close>, \<open>worker/diagnostic.py\<close>), \<open>Worker_Runner\<close> (\<open>worker/runner.py\<close>: the loop, the
  heartbeats, the race of handler, heartbeat, timeout and shutdown), \<open>Runner_Safety\<close>, and
  \<open>Worker_Process\<close> (\<open>worker/__main__.py\<close>, with the probes of \<open>api.py\<close> and \<open>database.py\<close>).

  \<^bold>\<open>The deployment-context handler.\<close> \<open>Handler_World\<close> is its world, with the answers of the providers as
  arguments; \<open>Policy\<close>, \<open>Rendering\<close>, \<open>Slack_Delivery\<close> and \<open>Workflow\<close> are \<open>integrations/policy.py\<close>, \<open>rendering.py\<close>,
  \<open>slack.py\<close> and \<open>workflow.py\<close>. \<open>Handler_Safety\<close> carries the invariant and the journal through a run with
  rules of Hoare's kind; \<open>Stuck_Actions\<close> shows what a later call makes of an action that a run left between
  its reconciliation and its write.

  \<^bold>\<open>The providers.\<close> \<open>Http_Client\<close> (\<open>integrations/http.py\<close>), \<open>Connectors\<close> and \<open>Provider_Clients\<close>
  (\<open>integrations/connectors.py\<close>), \<open>Slack_Client\<close> (\<open>integrations/slack.py\<close>), over a transport that answers the requests
  sent so far. \<open>Http_Boundary\<close>, \<open>Client_Safety\<close>, \<open>Client_Results\<close> and \<open>Client_Types\<close> prove where requests go, how many,
  and what the clients return or raise; \<open>Comment_Search\<close> bounds the paginated search and states the
  contract of a listing as a locale; \<open>Simulator\<close> (\<open>simulator/main.py\<close>), \<open>Provider_Urls\<close> and \<open>Simulated_GitHub\<close>
  interpret that locale on the client composed with the simulator; \<open>Client_Contract\<close> and
  \<open>Slack_Identity\<close> hold the properties.

  \<^bold>\<open>The API.\<close> \<open>Task_Api\<close> (\<open>tasks/api.py\<close>, \<open>tasks/schemas.py\<close>, \<open>tasks/input_validation.py\<close>) and \<open>Observability\<close>
  (\<open>observability.py\<close>).

  \<^bold>\<open>What is proved.\<close> Over every interleaving of API calls, workers, recovery and workflow writes the
  constraints of the tables and the links between tasks, attempts, actions and evidence hold, history
  is append-only, and a superseded claim changes nothing. A worker leaves no claim behind that it
  might still execute, and completes one as the retry policy says. A handler publishes nothing the
  policy has not allowed, journals each write before it makes it, and makes at most one comment and
  one message per run. The clients send each request to its configured origin, report a write
  as done only when the provider confirmed it and as refused only for a client error, a negative
  answer or a status the code does not list, and find what they wrote. The migrations build the schema the
  rest assumes. The texts before the properties say each of these in full.

  \<^bold>\<open>Bounds.\<close> No definition takes fuel to cut a computation short. Loops over data are structural or carry a
  measure (\<open>split_words\<close>, \<open>visit\<close>, \<open>sha_blocks\<close>). Loops that wait for the world, those of a worker and of a heartbeat,
  consume the list of their rounds or beats, and the properties hold for every list; the handler and
  the clients have no such loop, since pages are bounded by the settings. Counters of the model are
  unbounded; \<open>integers_fit\<close> in \<open>Schema\<close> says when they fit their columns. Python's overflows are modelled where the
  code can reach them: the backoff raises from attempt 1025 on, \<open>timedelta\<close> beyond 999999999 days.

  \<^bold>\<open>Values PostgreSQL refuses.\<close> A claim raises when the worker's identifier does not fit its column or the
  attempt's identifier is taken; a finalization when a code, a summary, a reason, a result or a retry time
  does not fit (\<open>varchar_ok\<close>, \<open>jsonb_ok\<close>, \<open>timestamp_ok\<close>); a creation when the input has a NUL. The rows of the
  evidence store are checked against their constraints and lengths, reported as one kind of
  error, but not for a NUL. A value is refused where the row is written, although the driver
  would refuse a NUL already as it binds the statement's values.

  \<^bold>\<open>Parameters.\<close> Clocks, identifiers, random numbers, locked rows, lease tokens, connection faults, signals,
  provider answers, the transport, the file system; \<open>json.loads\<close>, \<open>datetime.fromisoformat\<close>, \<open>isoformat\<close>, the
  rendering of times in JSON and \<open>str\<close> of a container; pydantic's coercions to \<open>int\<close>, \<open>float\<close> and \<open>bool\<close>.

  \<^bold>\<open>Not modelled.\<close> Code points from 256 on; binary rounding of floats; NULs in the evidence
  store; the progress of \<open>clock_timestamp()\<close> within one migration (\<open>requeue_rows\<close> writes one time); the fields of log records beside the allowlist, and \<open>configure_logging\<close>; the settings of
  the httpx2 client and a response stream that raises while it is closed; \<open>main.py\<close>, the engine and session factories of
  \<open>database.py\<close> and \<open>migrations/env.py\<close>, which assemble FastAPI, SQLAlchemy and Alembic and hold no logic of their own; the tests,
  scripts and container files.
\<close>

end
